(* ===== verification/Prelude.thy ===== *)
theory Prelude
  imports Main "HOL-Library.Multiset" "HOL-Library.Product_Lexorder"
begin

text \<open>
  The vocabulary every component shares: Go errors as values, the early return
  \<open>if err != nil\<close> as a combinator, rows of a table looked up and updated one at a time,
  and the generic lemmas on lists and sums that carry the component proofs.
\<close>

named_theorems result_simps \<open>how a successful or failed chain decomposes\<close>
named_theorems table_simps \<open>lookups after inserts and updates\<close>
named_theorems frame_simps \<open>what an operation leaves unchanged\<close>
named_theorems inv_intros \<open>operations keep the invariants\<close>

section \<open>Errors as values\<close>

text \<open>
  A Go \<open>error\<close> is one of: a package's \<open>*ValidationError\<close> (field, message); one of the
  package's sentinel variables (\<open>Err...\<close>, the type parameter); \<open>pgx.ErrNoRows\<close>; a
  \<open>*pgconn.PgError\<close> (SQLSTATE code, constraint name); any other error, by its text;
  \<open>fmt.Errorf("prefix: %w", err)\<close> (or with the text after the verb); or an error that wraps
  two, \<open>fmt.Errorf("%w: %w", a, b)\<close>.
\<close>

datatype 's go_error =
    ValidationError string string
  | Sentinel 's
  | ErrNoRows
  | PgError string string
  | OtherError string
  | Wrapped string "'s go_error"
  | Joined "'s go_error" "'s go_error"

text \<open>\<open>errors.Is\<close> and \<open>errors.As\<close> walk the chain of wrapped errors.\<close>

fun errors_Is_NoRows :: "'s go_error \<Rightarrow> bool" where
  "errors_Is_NoRows (Wrapped _ e) = errors_Is_NoRows e"
| "errors_Is_NoRows (Joined a b) = (errors_Is_NoRows a \<or> errors_Is_NoRows b)"
| "errors_Is_NoRows ErrNoRows = True"
| "errors_Is_NoRows _ = False"

fun errors_Is :: "'s go_error \<Rightarrow> 's \<Rightarrow> bool" where
  "errors_Is (Wrapped _ e) s = errors_Is e s"
| "errors_Is (Joined a b) s = (errors_Is a s \<or> errors_Is b s)"
| "errors_Is (Sentinel t) s = (t = s)"
| "errors_Is _ s = False"

fun errors_As_Pg :: "'s go_error \<Rightarrow> (string \<times> string) option" where
  "errors_As_Pg (Wrapped _ e) = errors_As_Pg e"
| "errors_As_Pg (Joined a b) = (case errors_As_Pg a of None \<Rightarrow> errors_As_Pg b | Some r \<Rightarrow> Some r)"
| "errors_As_Pg (PgError code constraint) = Some (code, constraint)"
| "errors_As_Pg _ = None"

fun errors_As_Validation :: "'s go_error \<Rightarrow> (string \<times> string) option" where
  "errors_As_Validation (Wrapped _ e) = errors_As_Validation e"
| "errors_As_Validation (Joined a b) =
     (case errors_As_Validation a of None \<Rightarrow> errors_As_Validation b | Some r \<Rightarrow> Some r)"
| "errors_As_Validation (ValidationError field msg) = Some (field, msg)"
| "errors_As_Validation _ = None"

section \<open>Results and early returns\<close>

definition chain :: "'e + 'a \<Rightarrow> ('a \<Rightarrow> 'e + 'b) \<Rightarrow> 'e + 'b" where
  "chain r k = (case r of Inl e \<Rightarrow> Inl e | Inr a \<Rightarrow> k a)"

definition on_error :: "('e \<Rightarrow> 'e2) \<Rightarrow> 'e + 'a \<Rightarrow> 'e2 + 'a" where
  "on_error f r = (case r of Inl e \<Rightarrow> Inl (f e) | Inr a \<Rightarrow> Inr a)"

definition wrap_error :: "string \<Rightarrow> 's go_error + 'a \<Rightarrow> 's go_error + 'a" where
  "wrap_error prefix = on_error (Wrapped prefix)"

definition guard_error :: "bool \<Rightarrow> 'e \<Rightarrow> 'e + unit" where
  "guard_error b e = (if b then Inr () else Inl e)"

lemma chain_simps [simp]:
  "chain (Inl e) k = Inl e" "chain (Inr a) k = k a"
  by (simp_all add: chain_def)

lemma on_error_simps [simp]:
  "on_error f (Inl e) = Inl (f e)" "on_error f (Inr a) = Inr a"
  by (simp_all add: on_error_def)

lemma wrap_error_simps [simp]:
  "wrap_error p (Inl e) = Inl (Wrapped p e)" "wrap_error p (Inr a) = Inr a"
  by (simp_all add: wrap_error_def)

lemma chain_eq_Inr [result_simps]:
  "chain r k = Inr b \<longleftrightarrow> (\<exists>a. r = Inr a \<and> k a = Inr b)"
  by (cases r) auto

lemma chain_eq_Inl [result_simps]:
  "chain r k = Inl e \<longleftrightarrow> r = Inl e \<or> (\<exists>a. r = Inr a \<and> k a = Inl e)"
  by (cases r) auto

lemma on_error_eq_Inr [result_simps]: "on_error f r = Inr a \<longleftrightarrow> r = Inr a"
  by (cases r) auto

lemma wrap_error_eq_Inr [result_simps]: "wrap_error p r = Inr a \<longleftrightarrow> r = Inr a"
  by (cases r) auto

lemma guard_error_eq_Inr [result_simps]: "guard_error b e = Inr u \<longleftrightarrow> b"
  by (simp add: guard_error_def)

lemma guard_error_eq_Inl [result_simps]: "guard_error b e = Inl e' \<longleftrightarrow> \<not> b \<and> e' = e"
  by (auto simp add: guard_error_def)

lemma guard_error_True [simp]: "guard_error True e = Inr ()"
  by (simp add: guard_error_def)

lemma guard_error_False [simp]: "guard_error False e = Inl e"
  by (simp add: guard_error_def)

text \<open>A loop that appends the result of each element and stops at the first error.\<close>

fun map_result :: "('a \<Rightarrow> 'e + 'b) \<Rightarrow> 'a list \<Rightarrow> 'e + 'b list" where
  "map_result f [] = Inr []"
| "map_result f (x # xs) = chain (f x) (\<lambda>y. chain (map_result f xs) (\<lambda>ys. Inr (y # ys)))"

lemma map_result_eq_Inr [result_simps]:
  "map_result f xs = Inr ys \<longleftrightarrow> list_all2 (\<lambda>x y. f x = Inr y) xs ys"
  by (induction xs arbitrary: ys) (auto simp: result_simps list_all2_Cons1)

lemma map_result_total: "(\<And>x. x \<in> set xs \<Longrightarrow> f x = Inr (g x)) \<Longrightarrow> map_result f xs = Inr (map g xs)"
  by (induction xs) auto

lemma map_result_Inl: "map_result f xs = Inl e \<Longrightarrow> \<exists>x \<in> set xs. f x = Inl e"
  by (induction xs) (auto simp: result_simps)

section \<open>Rows of a table\<close>

text \<open>
  A table is the list of its rows in insertion order. \<open>SELECT ... LIMIT 1\<close> on a key is
  \<open>List.find\<close>; an \<open>UPDATE ... WHERE\<close> whose condition pins the primary key changes the
  first matching row and returns it; it raises what the row's triggers and constraints
  raise, and \<open>:one\<close> returns \<open>ErrNoRows\<close> when no row matches.
\<close>

definition one_row :: "'r option \<Rightarrow> 's go_error + 'r" where
  "one_row r = (case r of None \<Rightarrow> Inl ErrNoRows | Some x \<Rightarrow> Inr x)"

lemma one_row_simps [simp]: "one_row None = Inl ErrNoRows" "one_row (Some x) = Inr x"
  by (simp_all add: one_row_def)

lemma one_row_eq_Inr [result_simps]: "one_row r = Inr x \<longleftrightarrow> r = Some x"
  by (cases r) auto

lemma one_row_eq_Inl [result_simps]: "one_row r = Inl e \<longleftrightarrow> r = None \<and> e = ErrNoRows"
  by (cases r) auto

fun update_row :: "('r \<Rightarrow> bool) \<Rightarrow> ('r \<Rightarrow> 's go_error + 'r) \<Rightarrow> 'r list \<Rightarrow> 's go_error + 'r \<times> 'r list" where
  "update_row p f [] = Inl ErrNoRows"
| "update_row p f (r # rs) =
     (if p r then chain (f r) (\<lambda>r'. Inr (r', r' # rs))
      else chain (update_row p f rs) (\<lambda>(r', rs'). Inr (r', r # rs')))"

fun delete_row :: "('r \<Rightarrow> bool) \<Rightarrow> 'r list \<Rightarrow> ('r \<times> 'r list) option" where
  "delete_row p [] = None"
| "delete_row p (r # rs) =
     (if p r then Some (r, rs) else map_option (\<lambda>(r', rs'). (r', r # rs')) (delete_row p rs))"

lemma find_Some_split:
  "List.find p xs = Some x \<Longrightarrow>
    \<exists>pre post. xs = pre @ x # post \<and> p x \<and> (\<forall>y \<in> set pre. \<not> p y)"
proof (induction xs)
  case Nil
  then show ?case by simp
next
  case (Cons y ys)
  show ?case
  proof (cases "p y")
    case True
    with Cons.prems show ?thesis by (auto intro: exI [of _ "[]"])
  next
    case False
    with Cons obtain pre post where "ys = pre @ x # post" "p x" "\<forall>z \<in> set pre. \<not> p z"
      by auto
    with False show ?thesis by (intro exI [of _ "y # pre"] exI [of _ post]) simp
  qed
qed

lemma find_SomeD: "List.find p xs = Some x \<Longrightarrow> x \<in> set xs \<and> p x"
  by (auto dest: find_Some_split)

lemma find_append: "List.find p (xs @ ys) = (case List.find p xs of None \<Rightarrow> List.find p ys | Some x \<Rightarrow> Some x)"
  by (induction xs) auto

lemma find_cong_pred: "(\<And>x. x \<in> set xs \<Longrightarrow> p x = q x) \<Longrightarrow> List.find p xs = List.find q xs"
  by (induction xs) auto

lemma update_row_InrD:
  assumes "update_row p f rows = Inr (r', rows')"
  shows "\<exists>pre r post. rows = pre @ r # post \<and> p r \<and> (\<forall>q \<in> set pre. \<not> p q) \<and>
           f r = Inr r' \<and> rows' = pre @ r' # post"
  using assms
proof (induction rows arbitrary: rows')
  case Nil
  then show ?case by simp
next
  case (Cons x xs)
  show ?case
  proof (cases "p x")
    case True
    with Cons.prems show ?thesis by (auto simp: result_simps intro: exI [of _ "[]"])
  next
    case False
    with Cons.prems obtain rs where rs: "update_row p f xs = Inr (r', rs)" "rows' = x # rs"
      by (auto simp: result_simps)
    from Cons.IH [OF rs(1)] obtain pre r post where "xs = pre @ r # post" "p r"
      "\<forall>q \<in> set pre. \<not> p q" "f r = Inr r'" "rs = pre @ r' # post" by auto
    with False rs(2) show ?thesis
      by (intro exI [of _ "x # pre"] exI [of _ r] exI [of _ post]) simp
  qed
qed

lemma update_row_eq_Inl [result_simps]:
  "update_row p f rows = Inl e \<longleftrightarrow>
     (case List.find p rows of None \<Rightarrow> e = ErrNoRows | Some r \<Rightarrow> f r = Inl e)"
  by (induction rows) (auto simp: result_simps split: option.splits)

lemma update_row_found:
  "List.find p rows = Some r \<Longrightarrow> f r = Inr r' \<Longrightarrow> \<exists>rows'. update_row p f rows = Inr (r', rows')"
  by (induction rows) (auto simp: result_simps split: if_splits)

lemma update_row_NoRows: "(\<And>r. r \<in> set rows \<Longrightarrow> \<not> p r) \<Longrightarrow> update_row p f rows = Inl ErrNoRows"
  by (induction rows) auto

lemma update_row_append:
  "(\<And>y. y \<in> set xs \<Longrightarrow> \<not> p y) \<Longrightarrow>
     update_row p f (xs @ ys) = chain (update_row p f ys) (\<lambda>(r, rs). Inr (r, xs @ rs))"
proof (induction xs)
  case Nil
  then show ?case by (cases "update_row p f ys") auto
next
  case (Cons x xs)
  then show ?case by (cases "update_row p f ys") auto
qed

lemma delete_row_InrD:
  assumes "delete_row p rows = Some (r, rows')"
  shows "\<exists>pre post. rows = pre @ r # post \<and> p r \<and> (\<forall>q \<in> set pre. \<not> p q) \<and> rows' = pre @ post"
  using assms
proof (induction rows arbitrary: rows')
  case Nil
  then show ?case by simp
next
  case (Cons x xs)
  show ?case
  proof (cases "p x")
    case True
    with Cons.prems show ?thesis by (auto intro: exI [of _ "[]"])
  next
    case False
    with Cons.prems obtain rs where rs: "delete_row p xs = Some (r, rs)" "rows' = x # rs"
      by auto
    from Cons.IH [OF rs(1)] obtain pre post where "xs = pre @ r # post" "p r"
      "\<forall>q \<in> set pre. \<not> p q" "rs = pre @ post" by auto
    with False rs(2) show ?thesis
      by (intro exI [of _ "x # pre"] exI [of _ post]) simp
  qed
qed

text \<open>An \<open>UPDATE\<close> of many rows: all that match are rewritten, the updated rows are returned.\<close>

fun update_rows :: "('r \<Rightarrow> bool) \<Rightarrow> ('r \<Rightarrow> 'e + 'r) \<Rightarrow> 'r list \<Rightarrow> 'e + 'r list \<times> 'r list" where
  "update_rows p f [] = Inr ([], [])"
| "update_rows p f (r # rs) =
     (if p r then chain (f r) (\<lambda>r'. chain (update_rows p f rs) (\<lambda>(us, rs'). Inr (r' # us, r' # rs')))
      else chain (update_rows p f rs) (\<lambda>(us, rs'). Inr (us, r # rs')))"

lemma update_rows_InrD:
  assumes "update_rows p f rows = Inr (us, rows')"
  shows "list_all2 (\<lambda>r r'. if p r then f r = Inr r' else r' = r) rows rows'"
    "us = map snd (filter (\<lambda>(r, _). p r) (zip rows rows'))"
  using assms by (induction rows arbitrary: us rows')
    (auto simp: result_simps split: if_splits elim!: list_all2_mono)

text \<open>Constraints of a row: the first violated one, in the order PostgreSQL checks them.\<close>

fun first_violation :: "(string \<times> bool) list \<Rightarrow> string option" where
  "first_violation [] = None"
| "first_violation ((name, ok) # cs) = (if ok then first_violation cs else Some name)"

definition check_row :: "(string \<times> bool) list \<Rightarrow> 's go_error + unit" where
  "check_row cs = (case first_violation cs of None \<Rightarrow> Inr () | Some name \<Rightarrow> Inl (PgError ''23514'' name))"

lemma first_violation_None: "first_violation cs = None \<longleftrightarrow> (\<forall>(n, ok) \<in> set cs. ok)"
  by (induction cs rule: first_violation.induct) auto

lemma check_row_eq_Inr [result_simps]: "check_row cs = Inr u \<longleftrightarrow> first_violation cs = None"
  by (simp add: check_row_def split: option.splits)

section \<open>Sums over rows\<close>

lemma sum_list_sort_key: "sum_list (map f (sort_key k xs)) = sum_list (map f xs)"
  for f :: "'a \<Rightarrow> 'b::comm_monoid_add"
proof -
  have "mset (map f (sort_key k xs)) = mset (map f xs)" by simp
  then show ?thesis by (metis sum_mset_sum_list)
qed

lemma sum_list_nonneg_int: "(\<And>x. x \<in> set xs \<Longrightarrow> 0 \<le> f x) \<Longrightarrow> 0 \<le> sum_list (map f xs)"
  for f :: "'a \<Rightarrow> int"
  by (induction xs) auto

lemma sum_list_filter_split:
  "sum_list (map f (filter P (pre @ r # post))) =
     sum_list (map f (filter P (pre @ post))) + (if P r then f r else 0)"
  for f :: "'a \<Rightarrow> int"
  by simp

end
