(* ===== verification/Go_Strings.thy ===== *)
theory Go_Strings
  imports Prelude
begin

text \<open>
  Go strings as byte lists (\<open>string\<close>), and the operations of package \<open>strings\<close> the program
  uses on them: \<open>TrimSpace\<close> on UTF-8 text, \<open>Cut\<close>, \<open>HasPrefix\<close>, \<open>TrimRight\<close>, \<open>ToUpper\<close>
  (its Unicode tables for non-ASCII text are a parameter), and decimal numerals as
  \<open>big.Int.String\<close> and \<open>fmt.Sprint\<close> print them.
\<close>

section \<open>Trimming\<close>

text \<open>The UTF-8 encodings of the code points for which \<open>unicode.IsSpace\<close> holds.\<close>

definition space_encodings :: "string list" where
  "space_encodings =
    [[CHR 0x09], [CHR 0x0A], [CHR 0x0B], [CHR 0x0C], [CHR 0x0D], [CHR 0x20],
     [CHR 0xC2, CHR 0x85], [CHR 0xC2, CHR 0xA0], [CHR 0xE1, CHR 0x9A, CHR 0x80],
     [CHR 0xE2, CHR 0x80, CHR 0x80], [CHR 0xE2, CHR 0x80, CHR 0x81], [CHR 0xE2, CHR 0x80, CHR 0x82],
     [CHR 0xE2, CHR 0x80, CHR 0x83], [CHR 0xE2, CHR 0x80, CHR 0x84], [CHR 0xE2, CHR 0x80, CHR 0x85],
     [CHR 0xE2, CHR 0x80, CHR 0x86], [CHR 0xE2, CHR 0x80, CHR 0x87], [CHR 0xE2, CHR 0x80, CHR 0x88],
     [CHR 0xE2, CHR 0x80, CHR 0x89], [CHR 0xE2, CHR 0x80, CHR 0x8A], [CHR 0xE2, CHR 0x80, CHR 0xA8],
     [CHR 0xE2, CHR 0x80, CHR 0xA9], [CHR 0xE2, CHR 0x80, CHR 0xAF], [CHR 0xE2, CHR 0x81, CHR 0x9F],
     [CHR 0xE3, CHR 0x80, CHR 0x80]]"

function trim_prefixes :: "string list \<Rightarrow> string \<Rightarrow> string" where
  "trim_prefixes encs s =
     (case List.find (\<lambda>e. e \<noteq> [] \<and> take (length e) s = e) encs of
        None \<Rightarrow> s
      | Some e \<Rightarrow> trim_prefixes encs (drop (length e) s))"
  by pat_completeness auto
termination
proof (relation "measure (\<lambda>(encs, s). length s)")
  fix encs :: "string list" and s e :: string
  assume "List.find (\<lambda>e. e \<noteq> [] \<and> take (length e) s = e) encs = Some e"
  then have "e \<noteq> []" "take (length e) s = e" by (auto dest: find_SomeD)
  then show "((encs, drop (length e) s), encs, s) \<in> measure (\<lambda>(encs, s). length s)"
    by (cases s) auto
qed simp

declare trim_prefixes.simps [simp del]

definition strings_TrimSpace :: "string \<Rightarrow> string" where
  "strings_TrimSpace s =
     rev (trim_prefixes (map rev space_encodings) (rev (trim_prefixes space_encodings s)))"

text \<open>Text whose first and last byte start (end) no white space is left as it is.\<close>

definition plain_char :: "char \<Rightarrow> bool" where
  "plain_char c \<longleftrightarrow> 33 \<le> (of_char c :: nat) \<and> (of_char c :: nat) \<le> 126"

lemma trim_prefixes_plain:
  assumes "\<And>e. e \<in> set encs \<Longrightarrow> e \<noteq> [] \<Longrightarrow> s \<noteq> [] \<Longrightarrow> hd e \<noteq> hd s"
  shows "trim_prefixes encs s = s"
proof -
  have "\<not> (e \<noteq> [] \<and> take (length e) s = e)" if "e \<in> set encs" for e
  proof
    assume e: "e \<noteq> [] \<and> take (length e) s = e"
    then have "s \<noteq> []" by auto
    moreover from e \<open>s \<noteq> []\<close> have "hd e = hd s" by (cases e; cases s) auto
    ultimately show False using assms that e by blast
  qed
  then have "List.find (\<lambda>e. e \<noteq> [] \<and> take (length e) s = e) encs = None"
    by (simp add: find_None_iff)
  then show ?thesis by (subst trim_prefixes.simps) simp
qed

lemma space_heads_not_plain:
  "e \<in> set space_encodings \<Longrightarrow> \<not> plain_char (hd e)"
  "e \<in> set (map rev space_encodings) \<Longrightarrow> \<not> plain_char (hd e)"
  by (auto simp: space_encodings_def plain_char_def)

lemma TrimSpace_plain:
  assumes "s \<noteq> []" "plain_char (hd s)" "plain_char (last s)"
  shows "strings_TrimSpace s = s"
proof -
  have left: "trim_prefixes space_encodings s = s"
    using assms space_heads_not_plain(1) by (intro trim_prefixes_plain) metis
  have "trim_prefixes (map rev space_encodings) (rev s) = rev s"
    using assms space_heads_not_plain(2) by (intro trim_prefixes_plain) (metis hd_rev)
  with left show ?thesis by (simp add: strings_TrimSpace_def)
qed

lemma trim_prefixes_Nil [simp]: "trim_prefixes encs [] = []"
  by (rule trim_prefixes_plain) simp

lemma TrimSpace_Nil [simp]: "strings_TrimSpace [] = []"
  by (simp add: strings_TrimSpace_def)

text \<open>Trimming removes bytes and keeps the order of the others.\<close>

lemma trim_prefixes_suffix: "\<exists>p. s = p @ trim_prefixes encs s"
proof (induction encs s rule: trim_prefixes.induct)
  case (1 encs s)
  show ?case
  proof (cases "List.find (\<lambda>e. e \<noteq> [] \<and> take (length e) s = e) encs")
    case None
    then show ?thesis by (subst trim_prefixes.simps) simp
  next
    case (Some e)
    with 1 obtain p where "drop (length e) s = p @ trim_prefixes encs (drop (length e) s)" by blast
    then have "s = (take (length e) s @ p) @ trim_prefixes encs (drop (length e) s)"
      by (metis append.assoc append_take_drop_id)
    moreover have "trim_prefixes encs s = trim_prefixes encs (drop (length e) s)"
      using Some by (subst trim_prefixes.simps) simp
    ultimately show ?thesis by metis
  qed
qed

lemma TrimSpace_infix: "\<exists>p q. s = p @ strings_TrimSpace s @ q"
proof -
  obtain p where p: "s = p @ trim_prefixes space_encodings s" using trim_prefixes_suffix by blast
  let ?t = "trim_prefixes space_encodings s"
  obtain q where "rev ?t = q @ trim_prefixes (map rev space_encodings) (rev ?t)"
    using trim_prefixes_suffix by blast
  then have "?t = strings_TrimSpace s @ rev q"
    by (simp add: strings_TrimSpace_def) (metis rev_append rev_rev_ident)
  with p show ?thesis by (metis append.assoc)
qed

lemma TrimSpace_length: "length (strings_TrimSpace s) \<le> length s"
  using TrimSpace_infix [of s] by (metis add.commute le_add1 length_append trans_le_add2)

section \<open>Splitting and prefixes\<close>

text \<open>\<open>strings.Cut(s, sep)\<close> for a one-byte separator: before, after, found.\<close>

definition strings_Cut :: "string \<Rightarrow> char \<Rightarrow> string \<times> string \<times> bool" where
  "strings_Cut s sep =
     (if sep \<in> set s then (takeWhile (\<lambda>c. c \<noteq> sep) s, tl (dropWhile (\<lambda>c. c \<noteq> sep) s), True)
      else (s, [], False))"

definition has_prefix_char :: "string \<Rightarrow> char \<Rightarrow> bool" where
  "has_prefix_char s c = (case s of [] \<Rightarrow> False | x # _ \<Rightarrow> x = c)"

definition strings_TrimRight_char :: "string \<Rightarrow> char \<Rightarrow> string" where
  "strings_TrimRight_char s c = rev (dropWhile (\<lambda>x. x = c) (rev s))"

lemma Cut_append: "sep \<notin> set w \<Longrightarrow> strings_Cut (w @ sep # f) sep = (w, f, True)"
  by (induction w) (auto simp: strings_Cut_def)

lemma Cut_found:
  assumes "strings_Cut s sep = (w, f, True)"
  shows "s = w @ sep # f \<and> sep \<notin> set w"
proof -
  from assms have mem: "sep \<in> set s" and w: "w = takeWhile (\<lambda>c. c \<noteq> sep) s"
    and f: "f = tl (dropWhile (\<lambda>c. c \<noteq> sep) s)"
    by (auto simp: strings_Cut_def split: if_splits)
  from mem have ne: "dropWhile (\<lambda>c. c \<noteq> sep) s \<noteq> []" by (simp add: dropWhile_eq_Nil_conv)
  then have "hd (dropWhile (\<lambda>c. c \<noteq> sep) s) = sep" using hd_dropWhile by blast
  with ne have "dropWhile (\<lambda>c. c \<noteq> sep) s = sep # f" using f by (metis list.collapse)
  then have "s = w @ sep # f" using w by (metis takeWhile_dropWhile_id)
  moreover have "sep \<notin> set w" using w by (auto dest: set_takeWhileD)
  ultimately show ?thesis by simp
qed

lemma Cut_not_found: "strings_Cut s sep = (w, f, False) \<Longrightarrow> w = s \<and> sep \<notin> set s"
  by (auto simp: strings_Cut_def split: if_splits)

section \<open>Upper and lower case\<close>

definition ascii_upper :: "char \<Rightarrow> char" where
  "ascii_upper c = (if 97 \<le> (of_char c :: nat) \<and> (of_char c :: nat) \<le> 122
     then char_of ((of_char c :: nat) - 32) else c)"

definition strings_ToUpper :: "(string \<Rightarrow> string) \<Rightarrow> string \<Rightarrow> string" where
  "strings_ToUpper unicode_upper s =
     (if list_all (\<lambda>c. (of_char c :: nat) < 128) s then map ascii_upper s else unicode_upper s)"

definition ascii_lower :: "char \<Rightarrow> char" where
  "ascii_lower c = (if 65 \<le> (of_char c :: nat) \<and> (of_char c :: nat) \<le> 90
     then char_of ((of_char c :: nat) + 32) else c)"

definition strings_ToLower :: "(string \<Rightarrow> string) \<Rightarrow> string \<Rightarrow> string" where
  "strings_ToLower unicode_lower s =
     (if list_all (\<lambda>c. (of_char c :: nat) < 128) s then map ascii_lower s else unicode_lower s)"

section \<open>Digits and numerals\<close>

definition is_digit :: "char \<Rightarrow> bool" where
  "is_digit c \<longleftrightarrow> 48 \<le> (of_char c :: nat) \<and> (of_char c :: nat) \<le> 57"

definition digit_val :: "char \<Rightarrow> nat" where
  "digit_val c = of_char c - 48"

definition digit_char :: "nat \<Rightarrow> char" where
  "digit_char d = char_of (48 + d)"

definition dec_value :: "string \<Rightarrow> nat" where
  "dec_value s = foldl (\<lambda>n c. 10 * n + digit_val c) 0 s"

fun nat_dec :: "nat \<Rightarrow> string" where
  "nat_dec n = (if n < 10 then [digit_char n] else nat_dec (n div 10) @ [digit_char (n mod 10)])"

declare nat_dec.simps [simp del]

definition int_dec :: "int \<Rightarrow> string" where
  "int_dec i = (if i < 0 then CHR ''-'' # nat_dec (nat (- i)) else nat_dec (nat i))"

lemma digit_char_props [simp]:
  "d < 10 \<Longrightarrow> is_digit (digit_char d)" "d < 10 \<Longrightarrow> digit_val (digit_char d) = d"
  by (simp_all add: is_digit_def digit_val_def digit_char_def)

lemma digit_is_plain: "is_digit c \<Longrightarrow> plain_char c"
  by (auto simp: is_digit_def plain_char_def)

lemma dot_not_digit [simp]: "\<not> is_digit (CHR ''.'')" "\<not> is_digit (CHR ''-'')" "\<not> is_digit (CHR ''+'')"
  by (simp_all add: is_digit_def)

lemma is_digit_zero [simp]: "is_digit (CHR ''0'')" "digit_val (CHR ''0'') = 0"
  by (simp_all add: is_digit_def digit_val_def)

lemma dec_value_Nil [simp]: "dec_value [] = 0"
  by (simp add: dec_value_def)

lemma dec_value_snoc [simp]: "dec_value (s @ [c]) = 10 * dec_value s + digit_val c"
  by (simp add: dec_value_def)

lemma dec_value_append: "dec_value (s @ t) = dec_value s * 10 ^ length t + dec_value t"
proof (induction t rule: rev_induct)
  case Nil
  then show ?case by simp
next
  case (snoc c t)
  have "dec_value (s @ t @ [c]) = dec_value ((s @ t) @ [c])" by simp
  also have "\<dots> = 10 * dec_value (s @ t) + digit_val c" by (rule dec_value_snoc)
  also have "\<dots> = dec_value s * 10 ^ length (t @ [c]) + dec_value (t @ [c])"
    using snoc by (simp add: algebra_simps)
  finally show ?case by simp
qed

lemma dec_value_zeros [simp]: "dec_value (replicate n (CHR ''0'')) = 0"
  by (induction n) (auto simp: replicate_append_same [symmetric])

lemma dec_value_leading_zeros [simp]: "dec_value (replicate n (CHR ''0'') @ s) = dec_value s"
  by (simp add: dec_value_append)

lemma dec_value_nat_dec [simp]: "dec_value (nat_dec n) = n"
proof (induction n rule: nat_dec.induct)
  case (1 n)
  then show ?case by (subst nat_dec.simps) (auto simp: dec_value_def digit_val_def digit_char_def)
qed

lemma nat_dec_digits: "list_all is_digit (nat_dec n)"
proof (induction n rule: nat_dec.induct)
  case (1 n)
  then show ?case by (subst nat_dec.simps) auto
qed

lemma nat_dec_nonempty [simp]: "nat_dec n \<noteq> []"
  by (subst nat_dec.simps) simp

lemma nat_dec_inj: "nat_dec m = nat_dec n \<longleftrightarrow> m = n"
  by (metis dec_value_nat_dec)

text \<open>Appending \<open>"0"\<close> until a length is reached.\<close>

function pad_zeros :: "nat \<Rightarrow> string \<Rightarrow> string" where
  "pad_zeros n s = (if length s < n then pad_zeros n (s @ ''0'') else s)"
  by pat_completeness auto
termination
  by (relation "measure (\<lambda>(n, s). n - length s)") auto

declare pad_zeros.simps [simp del]

lemma pad_zeros_eq: "pad_zeros n s = s @ replicate (n - length s) (CHR ''0'')"
proof (induction n s rule: pad_zeros.induct)
  case (1 n s)
  show ?case
  proof (cases "length s < n")
    case True
    then have "replicate (n - length s) (CHR ''0'') = CHR ''0'' # replicate (n - length (s @ ''0'')) (CHR ''0'')"
      by (metis Suc_diff_Suc length_append_singleton replicate_Suc)
    with True 1 show ?thesis by (subst pad_zeros.simps) simp
  next
    case False
    then show ?thesis by (subst pad_zeros.simps) simp
  qed
qed

text \<open>\<open>allDigits\<close> and \<open>hasPositiveDigit\<close>, the loops of the validation files.\<close>

definition allDigits :: "string \<Rightarrow> bool" where
  "allDigits value = (value \<noteq> [] \<and> list_all is_digit value)"

definition hasPositiveDigit :: "string \<Rightarrow> bool" where
  "hasPositiveDigit value = list_ex (\<lambda>c. 49 \<le> (of_char c :: nat) \<and> (of_char c :: nat) \<le> 57) value"

lemma hasPositiveDigit_iff:
  "list_all is_digit s \<Longrightarrow> hasPositiveDigit s \<longleftrightarrow> 0 < dec_value s"
proof (induction s rule: rev_induct)
  case Nil
  then show ?case by (simp add: hasPositiveDigit_def)
next
  case (snoc c s)
  have "(49 \<le> (of_char c :: nat)) = (0 < digit_val c)"
    by (auto simp: digit_val_def)
  with snoc show ?case by (auto simp: hasPositiveDigit_def is_digit_def)
qed

lemma hasPositiveDigit_append [simp]:
  "hasPositiveDigit (s @ t) \<longleftrightarrow> hasPositiveDigit s \<or> hasPositiveDigit t"
  "hasPositiveDigit (CHR ''.'' # t) \<longleftrightarrow> hasPositiveDigit t"
  by (auto simp: hasPositiveDigit_def)

lemma allDigits_plain: "allDigits s \<Longrightarrow> plain_char (hd s) \<and> plain_char (last s)"
  by (auto simp: allDigits_def list_all_iff intro!: digit_is_plain)

end
