(* ===== verification/Decimal.thy ===== *)
theory Decimal
  imports Go_Strings
begin

text \<open>
  Exact decimals: \<open>pgtype.Numeric\<close> as a record and the fixed-point arithmetic of
  \<open>internal/sales/mapper.go\<close> on it (\<open>numericToScaledInt\<close>, \<open>roundNumeric\<close>,
  \<open>multiplyMoneyQuantity\<close>, \<open>scaledIntToString\<close>, ...). \<open>big.Int\<close> is \<open>int\<close>; the exponent
  is Go's \<open>int32\<close>, whose sums and differences wrap.
\<close>

section \<open>Data\<close>

record numeric =
  num_Int :: "int option"
  num_Exp :: int
  num_NaN :: bool
  num_InfinityModifier :: int
  num_Valid :: bool

definition null_numeric :: numeric where
  "null_numeric = \<lparr>num_Int = None, num_Exp = 0, num_NaN = False, num_InfinityModifier = 0, num_Valid = False\<rparr>"

definition int32 :: "int \<Rightarrow> int" where
  "int32 i = (i + 2 ^ 31) mod 2 ^ 32 - 2 ^ 31"

definition int16 :: "int \<Rightarrow> int" where
  "int16 i = (i + 2 ^ 15) mod 2 ^ 16 - 2 ^ 15"

definition int64 :: "int \<Rightarrow> int" where
  "int64 i = (i + 2 ^ 63) mod 2 ^ 64 - 2 ^ 63"

lemma int64_id: "- (2 ^ 63) \<le> i \<Longrightarrow> i < 2 ^ 63 \<Longrightarrow> int64 i = i"
  by (simp add: int64_def)

lemma int32_id [simp]: "- (2 ^ 31) \<le> i \<Longrightarrow> i < 2 ^ 31 \<Longrightarrow> int32 i = i"
  by (simp add: int32_def)

lemma int16_id: "- (2 ^ 15) \<le> i \<Longrightarrow> i < 2 ^ 15 \<Longrightarrow> int16 i = i"
  by (simp add: int16_def)

lemma int16_range: "- (2 ^ 15) \<le> int16 i \<and> int16 i < 2 ^ 15"
  using pos_mod_bound [of "2 ^ 16 :: int" "i + 2 ^ 15"] pos_mod_sign [of "2 ^ 16 :: int" "i + 2 ^ 15"]
  by (simp add: int16_def)

section \<open>big.Int\<close>

text \<open>\<open>QuoRem\<close> truncates towards zero; the remainder has the dividend's sign.\<close>

definition big_Quo :: "int \<Rightarrow> int \<Rightarrow> int" where
  "big_Quo a b = sgn a * sgn b * (\<bar>a\<bar> div \<bar>b\<bar>)"

definition big_Rem :: "int \<Rightarrow> int \<Rightarrow> int" where
  "big_Rem a b = a - b * big_Quo a b"

definition big_Cmp :: "int \<Rightarrow> int \<Rightarrow> int" where
  "big_Cmp a b = (if a < b then -1 else if a = b then 0 else 1)"

definition pow10 :: "int \<Rightarrow> int" where
  "pow10 e = (if e \<le> 0 then 1 else 10 ^ nat e)"

lemma big_Cmp_simps [simp]:
  "big_Cmp a b > 0 \<longleftrightarrow> a > b" "big_Cmp a b < 0 \<longleftrightarrow> a < b" "big_Cmp a b = 0 \<longleftrightarrow> a = b"
  "big_Cmp a b \<le> 0 \<longleftrightarrow> a \<le> b"
  by (auto simp: big_Cmp_def)

lemma pow10_pos [simp]: "0 < pow10 e"
  by (simp add: pow10_def)

lemma big_QuoRem_nonneg:
  "0 \<le> a \<Longrightarrow> 0 < b \<Longrightarrow> big_Quo a b = a div b \<and> big_Rem a b = a mod b"
  by (cases "a = 0") (auto simp: big_Quo_def big_Rem_def minus_mult_div_eq_mod)

lemma big_Quo_exact: "0 < b \<Longrightarrow> big_Quo (a * b) b = a"
  by (simp add: big_Quo_def abs_mult sgn_mult mult_sgn_abs)

lemma big_Rem_exact: "0 < b \<Longrightarrow> big_Rem (a * b) b = 0"
  by (simp add: big_Rem_def big_Quo_exact)

lemma big_Quo_scale: "0 < t \<Longrightarrow> 0 < d \<Longrightarrow> big_Quo (a * t) (d * t) = big_Quo a d"
  by (simp add: big_Quo_def abs_mult sgn_mult)

lemma big_Rem_scale: "0 < t \<Longrightarrow> 0 < d \<Longrightarrow> big_Rem (a * t) (d * t) = big_Rem a d * t"
  by (simp add: big_Rem_def big_Quo_scale algebra_simps)

section \<open>Rounding\<close>

text \<open>The rounding of \<open>numericToScaledInt\<close> and \<open>roundNumeric\<close> (their \<open>default\<close> branch).\<close>

definition quo_round :: "int \<Rightarrow> int \<Rightarrow> int" where
  "quo_round intVal divisor =
     (let quotient = big_Quo intVal divisor; remainder = big_Rem intVal divisor
      in if remainder \<noteq> 0 \<and> 2 * remainder \<ge> divisor then quotient + 1 else quotient)"

definition numericFromScaledInt :: "int \<Rightarrow> int \<Rightarrow> numeric" where
  "numericFromScaledInt value scale =
     \<lparr>num_Int = Some value, num_Exp = int32 (- scale), num_NaN = False,
      num_InfinityModifier = 0, num_Valid = True\<rparr>"

definition numericToScaledInt_with ::
    "(string \<Rightarrow> 's go_error) \<Rightarrow> numeric \<Rightarrow> int \<Rightarrow> 's go_error + int" where
  "numericToScaledInt_with mk_error value scale =
     (if \<not> num_Valid value then Inl (mk_error ''numeric value is null'')
      else case num_Int value of
        None \<Rightarrow> Inr 0
      | Some intVal \<Rightarrow>
          if num_NaN value then Inl (mk_error ''numeric value is NaN'')
          else if num_InfinityModifier value \<noteq> 0 then Inl (mk_error ''numeric value is infinite'')
          else let targetExp = int32 (- scale) in
            if num_Exp value = targetExp then Inr intVal
            else if num_Exp value > targetExp
            then Inr (intVal * pow10 (int32 (num_Exp value - targetExp)))
            else Inr (quo_round intVal (pow10 (int32 (targetExp - num_Exp value)))))"

definition numericToScaledInt :: "numeric \<Rightarrow> int \<Rightarrow> 's go_error + int" where
  "numericToScaledInt = numericToScaledInt_with OtherError"

definition roundNumeric :: "int \<Rightarrow> int \<Rightarrow> int \<Rightarrow> numeric" where
  "roundNumeric intVal exp scale =
     (let targetExp = int32 (- scale) in
      if exp = targetExp then numericFromScaledInt intVal scale
      else if exp > targetExp
      then numericFromScaledInt (intVal * pow10 (int32 (exp - targetExp))) scale
      else numericFromScaledInt (quo_round intVal (pow10 (int32 (targetExp - exp)))) scale)"

section \<open>Money and quantities\<close>

definition zeroMoney :: numeric where
  "zeroMoney = numericFromScaledInt 0 2"

definition compareMoney :: "numeric \<Rightarrow> numeric \<Rightarrow> 's go_error + int" where
  "compareMoney a b =
     chain (numericToScaledInt a 2) (\<lambda>left.
     chain (numericToScaledInt b 2) (\<lambda>right.
     Inr (big_Cmp left right)))"

definition multiplyMoneyQuantity :: "numeric \<Rightarrow> numeric \<Rightarrow> 's go_error + numeric" where
  "multiplyMoneyQuantity unitPrice quantity =
     (if \<not> num_Valid unitPrice \<or> \<not> num_Valid quantity then Inl (OtherError ''numeric value is null'')
      else case (num_Int unitPrice, num_Int quantity) of
        (Some p, Some q) \<Rightarrow> Inr (roundNumeric (p * q) (int32 (num_Exp unitPrice + num_Exp quantity)) 2)
      | _ \<Rightarrow> Inr zeroMoney)"

definition subtractMoney :: "numeric \<Rightarrow> numeric \<Rightarrow> 's go_error + numeric" where
  "subtractMoney minuend subtrahend =
     chain (numericToScaledInt minuend 2) (\<lambda>left.
     chain (numericToScaledInt subtrahend 2) (\<lambda>right.
     Inr (numericFromScaledInt (left - right) 2)))"

definition scaledIntToString :: "int \<Rightarrow> int \<Rightarrow> string" where
  "scaledIntToString value scale =
     (let sign = (if value < 0 then ''-'' else []);
          digits = nat_dec (nat \<bar>value\<bar>) in
      if scale = 0 then sign @ digits
      else let digits = (if int (length digits) \<le> scale
                         then replicate (nat (scale - int (length digits) + 1)) (CHR ''0'') @ digits
                         else digits);
               cut = length digits - nat scale in
        sign @ take cut digits @ ''.'' @ drop cut digits)"

definition numericToMoneyString :: "numeric \<Rightarrow> 's go_error + string" where
  "numericToMoneyString value =
     chain (numericToScaledInt value 2) (\<lambda>intVal. Inr (scaledIntToString intVal 2))"

definition numericToQuantityString :: "numeric \<Rightarrow> 's go_error + string" where
  "numericToQuantityString value =
     chain (numericToScaledInt value 3) (\<lambda>intVal. Inr (scaledIntToString intVal 3))"

section \<open>The decimal a numeric denotes\<close>

text \<open>\<open>denotes n i k\<close>: \<open>n\<close> is the finite decimal \<open>i / 10\<^sup>k\<close>, in any of its representations
  (an unnormalised coefficient, or one with its trailing zeros moved to the exponent).\<close>

definition denotes :: "numeric \<Rightarrow> int \<Rightarrow> nat \<Rightarrow> bool" where
  "denotes n i k \<longleftrightarrow>
     num_Valid n \<and> \<not> num_NaN n \<and> num_InfinityModifier n = 0 \<and>
     - (2 ^ 29) \<le> num_Exp n \<and> num_Exp n < 2 ^ 29 \<and>
     (\<exists>c. num_Int n = Some c \<and>
        (if - int k \<le> num_Exp n then i = c * 10 ^ nat (num_Exp n + int k)
         else c = i * 10 ^ nat (- (num_Exp n + int k))))"

lemma denotes_FromScaled: "k < 1000 \<Longrightarrow> denotes (numericFromScaledInt i (int k)) i k"
  by (simp add: denotes_def numericFromScaledInt_def)

lemma denotes_FromScaled_2_3 [simp]:
  "denotes (numericFromScaledInt i 2) i 2" "denotes (numericFromScaledInt i 3) i 3"
  using denotes_FromScaled [of 2 i] denotes_FromScaled [of 3 i] by simp_all

lemma quo_round_exact [simp]: "0 < d \<Longrightarrow> quo_round (i * d) d = i"
  by (simp add: quo_round_def big_Quo_exact big_Rem_exact)

lemma numericToScaledInt_with_denotes:
  assumes "denotes n i k" "k < 1000"
  shows "numericToScaledInt_with mk n (int k) = Inr i"
proof -
  from assms obtain c where c: "num_Int n = Some c"
    "if - int k \<le> num_Exp n then i = c * 10 ^ nat (num_Exp n + int k)
     else c = i * 10 ^ nat (- (num_Exp n + int k))"
    and n: "num_Valid n" "\<not> num_NaN n" "num_InfinityModifier n = 0"
      "- (2 ^ 29) \<le> num_Exp n" "num_Exp n < 2 ^ 29"
    by (auto simp: denotes_def)
  have k32: "int32 (- int k) = - int k" using assms(2) by simp
  consider "num_Exp n = - int k" | "num_Exp n > - int k" | "num_Exp n < - int k" by linarith
  then show ?thesis
  proof cases
    case 1
    with c n k32 show ?thesis by (simp add: numericToScaledInt_with_def)
  next
    case 2
    with c n k32 assms(2) show ?thesis
      by (simp add: numericToScaledInt_with_def pow10_def add.commute)
  next
    case 3
    then have "int32 (- int k - num_Exp n) = - int k - num_Exp n" using n assms(2) by simp
    moreover have "c = i * pow10 (- int k - num_Exp n)"
      using c(2) 3 by (simp add: pow10_def) (metis add.commute diff_conv_add_uminus minus_add_distrib)
    ultimately show ?thesis using 3 c(1) n k32
      by (simp add: numericToScaledInt_with_def less_imp_neq [THEN not_sym])
  qed
qed

lemma numericToScaledInt_denotes:
  "denotes n i k \<Longrightarrow> k < 1000 \<Longrightarrow> numericToScaledInt n (int k) = Inr i"
  by (simp add: numericToScaledInt_def numericToScaledInt_with_denotes)

lemma numericToScaledInt_2: "denotes n i 2 \<Longrightarrow> numericToScaledInt n 2 = Inr i"
  using numericToScaledInt_denotes [of n i 2] by simp

lemma numericToScaledInt_3: "denotes n i 3 \<Longrightarrow> numericToScaledInt n 3 = Inr i"
  using numericToScaledInt_denotes [of n i 3] by simp

lemma numericToScaledInt_FromScaled [simp]:
  "numericToScaledInt (numericFromScaledInt i 2) 2 = Inr i"
  "numericToScaledInt (numericFromScaledInt i 3) 3 = Inr i"
  by (simp_all add: numericToScaledInt_2 numericToScaledInt_3)

lemma compareMoney_denotes:
  "denotes a i 2 \<Longrightarrow> denotes b j 2 \<Longrightarrow> compareMoney a b = Inr (big_Cmp i j)"
  by (simp add: compareMoney_def numericToScaledInt_2)

lemma subtractMoney_denotes:
  "denotes a i 2 \<Longrightarrow> denotes b j 2 \<Longrightarrow> subtractMoney a b = Inr (numericFromScaledInt (i - j) 2)"
  by (simp add: subtractMoney_def numericToScaledInt_2)

section \<open>What the rounding computes\<close>

text \<open>For amounts that are not negative: the nearest integer, halves upwards.\<close>

lemma quo_round_nonneg:
  assumes "0 \<le> i" "0 < d"
  shows "quo_round i d = (2 * i + d) div (2 * d)"
proof -
  define q r where "q = i div d" and "r = i mod d"
  have qr: "big_Quo i d = q" "big_Rem i d = r"
    using assms big_QuoRem_nonneg by (auto simp: q_def r_def)
  have i: "i = d * q + r" and r: "0 \<le> r" "r < d" using assms by (auto simp: q_def r_def)
  show ?thesis
  proof (cases "2 * r \<ge> d")
    case True
    have "2 * i + d = 2 * d * (q + 1) + (2 * r - d)" by (simp add: i algebra_simps)
    then have "(2 * i + d) div (2 * d) = q + 1"
      using True r by (intro int_div_pos_eq [where r = "2 * r - d"]) auto
    with True qr assms show ?thesis by (auto simp: quo_round_def Let_def)
  next
    case False
    have "2 * i + d = 2 * d * q + (2 * r + d)" by (simp add: i algebra_simps)
    then have "(2 * i + d) div (2 * d) = q"
      using False r assms by (intro int_div_pos_eq [where r = "2 * r + d"]) auto
    with False qr show ?thesis by (simp add: quo_round_def Let_def)
  qed
qed

lemma quo_round_nonneg_ge0: "0 \<le> i \<Longrightarrow> 0 < d \<Longrightarrow> 0 \<le> quo_round i d"
  by (simp add: quo_round_nonneg pos_imp_zdiv_nonneg_iff)

lemma quo_round_nearest:
  assumes "0 \<le> i" "0 < d"
  shows "- d < 2 * (d * quo_round i d) - 2 * i \<and> 2 * (d * quo_round i d) - 2 * i \<le> d"
proof -
  have "2 * i + d = 2 * d * ((2 * i + d) div (2 * d)) + (2 * i + d) mod (2 * d)" by simp
  moreover have "0 \<le> (2 * i + d) mod (2 * d)" "(2 * i + d) mod (2 * d) < 2 * d" using assms by auto
  ultimately show ?thesis using quo_round_nonneg [OF assms] by (simp add: algebra_simps)
qed

text \<open>Below zero the same code truncates towards zero instead.\<close>

lemma quo_round_negative: "i < 0 \<Longrightarrow> 0 < d \<Longrightarrow> quo_round i d = - (\<bar>i\<bar> div d)"
proof -
  assume i: "i < 0" and d: "0 < d"
  have "big_Rem i d = - (\<bar>i\<bar> mod d)"
    using i d by (simp add: big_Rem_def big_Quo_def minus_mult_div_eq_mod [symmetric])
  then have "\<not> 2 * big_Rem i d \<ge> d" using i d by (smt (verit) pos_mod_sign)
  then show ?thesis using i d by (simp add: quo_round_def Let_def big_Quo_def)
qed

lemma quo_round_scale:
  "0 < t \<Longrightarrow> 0 < d \<Longrightarrow> quo_round (i * t) (d * t) = quo_round i d"
proof -
  assume t: "0 < t" and d: "0 < d"
  have "2 * (big_Rem i d * t) \<ge> d * t \<longleftrightarrow> 2 * big_Rem i d \<ge> d"
    using t by (metis mult.assoc mult_le_cancel_right_pos)
  then show ?thesis using t d by (simp add: quo_round_def Let_def big_Quo_scale big_Rem_scale)
qed

lemma quo_round_add_multiple:
  assumes "0 \<le> i" "0 \<le> k" "0 < d"
  shows "quo_round (i + d * k) d = quo_round i d + k"
proof -
  have "quo_round (i + d * k) d = (k * (2 * d) + (2 * i + d)) div (2 * d)"
    using assms by (simp add: quo_round_nonneg algebra_simps)
  also have "\<dots> = k + (2 * i + d) div (2 * d)"
    using assms by (intro div_mult_self3) simp
  finally show ?thesis using assms by (simp add: quo_round_nonneg)
qed

section \<open>Gross value of a line: price times quantity\<close>

text \<open>\<open>p\<close> cents times \<open>q\<close> thousandths, rounded to cents.\<close>

definition gross :: "int \<Rightarrow> int \<Rightarrow> int" where
  "gross p q = quo_round (p * q) 1000"

lemma gross_nonneg: "0 \<le> p \<Longrightarrow> 0 \<le> q \<Longrightarrow> 0 \<le> gross p q"
  by (simp add: gross_def quo_round_nonneg_ge0)

lemma roundNumeric_shift:
  assumes rel: "C * 10 ^ m = A * 10 ^ n" and e: "e = int m - int n - 5"
    and b: "- (2 ^ 31) \<le> e" "e < 2 ^ 31 - 2"
  shows "roundNumeric C e 2 = numericFromScaledInt (quo_round A 1000) 2"
proof -
  consider "e = -2" | "e > -2" | "e < -2" by linarith
  then show ?thesis
  proof cases
    case 1
    then have "m = n + 3" using e by linarith
    with rel have "A = C * 1000" by (simp add: power_add)
    with 1 show ?thesis by (simp add: roundNumeric_def)
  next
    case 2
    then have m: "m = n + 3 + nat (e + 2)" using e by linarith
    with rel have "A = C * 10 ^ nat (e + 2) * 1000" by (simp add: power_add)
    moreover have "int32 (e + 2) = e + 2" using 2 b by simp
    ultimately show ?thesis using 2 by (simp add: roundNumeric_def pow10_def)
  next
    case 3
    let ?d = "nat (- 2 - e)"
    have n: "?d + m = n + 3" using e 3 by linarith
    have "quo_round C (10 ^ ?d) = quo_round (C * 10 ^ m) (10 ^ ?d * 10 ^ m)"
      by (simp add: quo_round_scale)
    also have "(10 :: int) ^ ?d * 10 ^ m = 1000 * 10 ^ n"
    proof -
      have "(10 :: int) ^ (?d + m) = 10 ^ (n + 3)" by (simp only: n)
      then show ?thesis by (simp add: power_add)
    qed
    also have "quo_round (C * 10 ^ m) (1000 * 10 ^ n) = quo_round A 1000"
      by (simp add: rel quo_round_scale)
    finally have "quo_round C (10 ^ ?d) = quo_round A 1000" .
    moreover have "int32 (- 2 - e) = - 2 - e" using 3 b by simp
    ultimately show ?thesis using 3 by (simp add: roundNumeric_def pow10_def)
  qed
qed

lemma coefficient_product:
  assumes "c * 10 ^ a = p * 10 ^ x" "d * 10 ^ b = q * 10 ^ y"
  shows "c * d * 10 ^ (a + b) = p * q * (10 :: int) ^ (x + y)"
proof -
  have "c * d * 10 ^ (a + b) = (c * 10 ^ a) * (d * 10 ^ b)" by (simp add: power_add)
  also have "\<dots> = (p * 10 ^ x) * (q * 10 ^ y)" by (simp only: assms)
  also have "\<dots> = p * q * 10 ^ (x + y)" by (simp add: power_add)
  finally show ?thesis .
qed

lemma multiplyMoneyQuantity_denotes:
  assumes u: "denotes u p 2" and v: "denotes v q 3"
  shows "multiplyMoneyQuantity u v = Inr (numericFromScaledInt (gross p q) 2)"
proof -
  from u obtain c where c: "num_Int u = Some c" "num_Valid u"
    "- (2 ^ 29) \<le> num_Exp u" "num_Exp u < 2 ^ 29"
    "if -2 \<le> num_Exp u then p = c * 10 ^ nat (num_Exp u + 2) else c = p * 10 ^ nat (- (num_Exp u + 2))"
    by (auto simp: denotes_def)
  from v obtain d where d: "num_Int v = Some d" "num_Valid v"
    "- (2 ^ 29) \<le> num_Exp v" "num_Exp v < 2 ^ 29"
    "if -3 \<le> num_Exp v then q = d * 10 ^ nat (num_Exp v + 3) else d = q * 10 ^ nat (- (num_Exp v + 3))"
    by (auto simp: denotes_def)
  let ?mu = "nat (num_Exp u + 2)" and ?nu = "nat (- (num_Exp u + 2))"
  let ?mv = "nat (num_Exp v + 3)" and ?nv = "nat (- (num_Exp v + 3))"
  have ru: "c * 10 ^ ?mu = p * 10 ^ ?nu" using c(5) by (auto split: if_splits)
  have rv: "d * 10 ^ ?mv = q * 10 ^ ?nv" using d(5) by (auto split: if_splits)
  have rel: "c * d * 10 ^ (?mu + ?mv) = p * q * 10 ^ (?nu + ?nv)"
    by (rule coefficient_product [OF ru rv])
  have e: "num_Exp u + num_Exp v = int (?mu + ?mv) - int (?nu + ?nv) - 5" by linarith
  have b: "num_Exp u + num_Exp v \<le> 2 ^ 30 - 2"
  proof -
    have "num_Exp u \<le> 2 ^ 29 - 1" "num_Exp v \<le> 2 ^ 29 - 1" using c(4) d(4) by simp_all
    then have "num_Exp u + num_Exp v \<le> 2 ^ 29 - 1 + (2 ^ 29 - 1)" by (rule add_mono)
    then show ?thesis by simp
  qed
  have e32: "int32 (num_Exp u + num_Exp v) = num_Exp u + num_Exp v" using c(3,4) d(3,4) by simp
  have "roundNumeric (c * d) (num_Exp u + num_Exp v) 2 = numericFromScaledInt (quo_round (p * q) 1000) 2"
  proof (rule roundNumeric_shift [OF rel e])
    show "- (2 ^ 31) \<le> num_Exp u + num_Exp v" using c(3) d(3) by simp
    show "num_Exp u + num_Exp v < 2 ^ 31 - 2"
      using b by simp
  qed
  then show ?thesis using c(1,2) d(1,2) e32 by (simp add: multiplyMoneyQuantity_def gross_def)
qed

text \<open>The three operations on values as the database stores them.\<close>

lemma money_arith_FromScaled [simp]:
  "multiplyMoneyQuantity (numericFromScaledInt p 2) (numericFromScaledInt q 3) =
     Inr (numericFromScaledInt (gross p q) 2)"
  "compareMoney (numericFromScaledInt a 2) (numericFromScaledInt b 2) = Inr (big_Cmp a b)"
  "subtractMoney (numericFromScaledInt a 2) (numericFromScaledInt b 2) = Inr (numericFromScaledInt (a - b) 2)"
  by (rule multiplyMoneyQuantity_denotes compareMoney_denotes subtractMoney_denotes; simp)+

end
