(* ===== verification/Validation.thy ===== *)
theory Validation
  imports Decimal "HOL-Library.Word"
begin

text \<open>
  Input validation: the parsers of \<open>internal/sales/validation.go\<close>, which
  \<open>internal/inventory/validation.go\<close> repeats. Library code the program calls without
  having its source (\<open>pgtype.UUID.Scan\<close> and \<open>String\<close>, \<open>pgtype.Numeric.ScanScientific\<close>
  and \<open>Value\<close>, the Unicode upper-case tables, PostgreSQL's \<open>uuidv7()\<close>, \<open>ILIKE\<close> and the
  collation's sort key) is the record \<open>env\<close>, a
  parameter of every definition that uses it; \<open>scan_law\<close> states what is documented of
  \<open>ScanScientific\<close> on plain decimal numerals, \<open>value_law\<close> what is documented of
  \<open>pgtype.Numeric.Value\<close> on non-negative numbers with at most three decimals.
\<close>

type_synonym uuid = "128 word"

record env =
  uuid_Scan :: "string \<Rightarrow> uuid option"
  uuid_String :: "uuid \<Rightarrow> string"
  ScanScientific :: "string \<Rightarrow> numeric option"
  unicode_upper :: "string \<Rightarrow> string"
  unicode_lower :: "string \<Rightarrow> string"
  uuidv7 :: "nat \<Rightarrow> uuid"
  Numeric_Value :: "numeric \<Rightarrow> string option"
  pg_ILIKE :: "string \<Rightarrow> string \<Rightarrow> bool"
  collation_key :: "string \<Rightarrow> nat"

definition scan_law :: "env \<Rightarrow> bool" where
  "scan_law E \<longleftrightarrow> (\<forall>w f. allDigits w \<longrightarrow> allDigits f \<longrightarrow> length f < 1000 \<longrightarrow>
     (\<exists>n. ScanScientific E (w @ CHR ''.'' # f) = Some n \<and>
          denotes n (int (dec_value (w @ f))) (length f)))"

section \<open>Text and identifiers\<close>

definition normalizeRequiredText :: "string \<Rightarrow> string \<Rightarrow> 's go_error + string" where
  "normalizeRequiredText field value =
     (let trimmed = strings_TrimSpace value in
      if trimmed = [] then Inl (ValidationError field ''is required'') else Inr trimmed)"

definition parseUUID :: "env \<Rightarrow> string \<Rightarrow> string \<Rightarrow> 's go_error + uuid" where
  "parseUUID E raw field =
     (let raw = strings_TrimSpace raw in
      if raw = [] then Inl (ValidationError field ''is required'')
      else case uuid_Scan E raw of
        None \<Rightarrow> Inl (ValidationError field ''must be a valid UUID'')
      | Some uid \<Rightarrow> Inr uid)"

section \<open>Money\<close>

definition normalizeMoneyString :: "string \<Rightarrow> string \<Rightarrow> 's go_error + string" where
  "normalizeMoneyString field value =
     (let trimmed = strings_TrimSpace value in
      if trimmed = [] then Inl (ValidationError field ''is required'')
      else if has_prefix_char trimmed (CHR ''-'') \<or> has_prefix_char trimmed (CHR ''+'')
      then Inl (ValidationError field ''cannot be negative'')
      else case strings_Cut trimmed (CHR ''.'') of (whole, fraction, hasFraction) \<Rightarrow>
        if hasFraction then
          if whole = [] \<or> fraction = []
          then Inl (ValidationError field ''must be a valid monetary amount'')
          else if \<not> allDigits whole \<or> \<not> allDigits fraction \<or> length fraction > 2
          then Inl (ValidationError field ''must have at most two decimal places'')
          else let fraction = (if length fraction = 1 then fraction @ ''0'' else fraction) in
            Inr (whole @ ''.'' @ fraction)
        else if \<not> allDigits trimmed
        then Inl (ValidationError field ''must be a valid monetary amount'')
        else Inr (trimmed @ ''.00''))"

definition parseMoney :: "env \<Rightarrow> string \<Rightarrow> string \<Rightarrow> 's go_error + numeric" where
  "parseMoney E field value =
     chain (normalizeMoneyString field value) (\<lambda>canonical.
     case ScanScientific E canonical of
       None \<Rightarrow> Inl (ValidationError field ''must be a valid monetary amount'')
     | Some numeric \<Rightarrow> Inr numeric)"

definition parseOptionalMoney :: "env \<Rightarrow> string \<Rightarrow> string option \<Rightarrow> 's go_error + numeric" where
  "parseOptionalMoney E field value =
     (case value of None \<Rightarrow> Inr zeroMoney | Some v \<Rightarrow> parseMoney E field v)"

section \<open>Quantities\<close>

definition normalizeQuantityString :: "string \<Rightarrow> string \<Rightarrow> 's go_error + string" where
  "normalizeQuantityString field value =
     (let trimmed = strings_TrimSpace value in
      if trimmed = [] then Inl (ValidationError field ''is required'')
      else if has_prefix_char trimmed (CHR ''-'') \<or> has_prefix_char trimmed (CHR ''+'')
      then Inl (ValidationError field ''must be greater than zero'')
      else case strings_Cut trimmed (CHR ''.'') of (whole, fraction, hasFraction) \<Rightarrow>
        if hasFraction then
          if whole = [] \<or> fraction = []
          then Inl (ValidationError field ''must be a valid decimal number'')
          else if \<not> allDigits whole \<or> \<not> allDigits fraction
          then Inl (ValidationError field ''must have at most three decimal places'')
          else let trimmedFraction = strings_TrimRight_char fraction (CHR ''0'');
                   trimmedFraction = (if trimmedFraction = [] then ''0'' else trimmedFraction) in
            if length fraction > 3 \<and> length trimmedFraction > 3
            then Inl (ValidationError field ''must have at most three decimal places'')
            else let fraction = (if length fraction > 3 then trimmedFraction else fraction) in
              Inr (whole @ ''.'' @ pad_zeros 3 fraction)
        else if \<not> allDigits trimmed
        then Inl (ValidationError field ''must be a valid decimal number'')
        else Inr (trimmed @ ''.000''))"

definition parseQuantity :: "env \<Rightarrow> string \<Rightarrow> string \<Rightarrow> 's go_error + numeric" where
  "parseQuantity E field value =
     chain (normalizeQuantityString field value) (\<lambda>canonical.
     if \<not> hasPositiveDigit canonical then Inl (ValidationError field ''must be greater than zero'')
     else case ScanScientific E canonical of
       None \<Rightarrow> Inl (ValidationError field ''must be a valid decimal number'')
     | Some numeric \<Rightarrow> Inr numeric)"

section \<open>Pagination\<close>

definition normalizePagination :: "int option \<Rightarrow> int option \<Rightarrow> 's go_error + int \<times> int" where
  "normalizePagination page pageSize =
     chain (case page of None \<Rightarrow> Inr 1
            | Some p \<Rightarrow> if p < 1 then Inl (ValidationError ''page'' ''must be greater than zero'') else Inr p)
       (\<lambda>resolvedPage.
     chain (case pageSize of None \<Rightarrow> Inr 20
            | Some n \<Rightarrow> if n < 1 then Inl (ValidationError ''pageSize'' ''must be greater than zero'')
                       else if n > 100 then Inl (ValidationError ''pageSize'' ''must be at most 100'')
                       else Inr n)
       (\<lambda>resolvedPageSize. Inr (resolvedPage, resolvedPageSize)))"

record pagination =
  pg_Page :: int
  pg_PageSize :: int
  pg_Total :: int
  pg_TotalPages :: int

definition paginationResponse :: "int \<Rightarrow> int \<Rightarrow> int \<Rightarrow> pagination" where
  "paginationResponse page pageSize totalRows =
     \<lparr>pg_Page = page, pg_PageSize = pageSize, pg_Total = totalRows,
      pg_TotalPages = (if totalRows > 0 then big_Quo (totalRows + pageSize - 1) pageSize else 0)\<rparr>"

section \<open>What is accepted, and what it denotes\<close>

text \<open>The accepted money texts and their value in cents; quantities in thousandths.\<close>

definition money_value :: "string \<Rightarrow> int option" where
  "money_value s =
     (case strings_Cut s (CHR ''.'') of
        (w, f, True) \<Rightarrow> if allDigits w \<and> allDigits f \<and> length f \<le> 2
          then Some (int (dec_value (w @ take 2 (f @ ''00'')))) else None
      | (w, f, False) \<Rightarrow> if allDigits w then Some (100 * int (dec_value w)) else None)"

definition quantity_value :: "string \<Rightarrow> int option" where
  "quantity_value s =
     (case strings_Cut s (CHR ''.'') of
        (w, f, True) \<Rightarrow> if allDigits w \<and> allDigits f \<and> list_all (\<lambda>c. c = CHR ''0'') (drop 3 f)
          then Some (int (dec_value (w @ take 3 (f @ ''000'')))) else None
      | (w, f, False) \<Rightarrow> if allDigits w then Some (1000 * int (dec_value w)) else None)"

definition value_law :: "env \<Rightarrow> bool" where
  "value_law E \<longleftrightarrow> (\<forall>n v. denotes n v 3 \<longrightarrow> 0 \<le> v \<longrightarrow>
     (\<exists>s. Numeric_Value E n = Some s \<and> strings_TrimSpace s = s \<and> quantity_value s = Some v))"

lemma allDigits_append: "allDigits s \<Longrightarrow> list_all is_digit t \<Longrightarrow> allDigits (s @ t)"
  by (auto simp: allDigits_def)

lemma signed_not_digits:
  "has_prefix_char s (CHR ''-'') \<or> has_prefix_char s (CHR ''+'') \<Longrightarrow>
     money_value s = None \<and> quantity_value s = None"
proof -
  assume s: "has_prefix_char s (CHR ''-'') \<or> has_prefix_char s (CHR ''+'')"
  then obtain c t where ct: "s = c # t" "c \<noteq> CHR ''.''" "\<not> is_digit c"
    by (auto simp: has_prefix_char_def split: list.splits)
  then have "\<not> allDigits (takeWhile (\<lambda>x. x \<noteq> CHR ''.'') s)" "\<not> allDigits s"
    by (auto simp: allDigits_def)
  then show ?thesis by (auto simp: money_value_def quantity_value_def strings_Cut_def split: bool.splits)
qed

lemma normalizeMoneyString_spec:
  fixes r :: "'s go_error + string"
  assumes r: "r = normalizeMoneyString field s"
  shows "case money_value (strings_TrimSpace s) of
     None \<Rightarrow> \<exists>msg. r = Inl (ValidationError field msg)
   | Some v \<Rightarrow> \<exists>w f. r = Inr (w @ CHR ''.'' # f) \<and> allDigits w \<and>
       allDigits f \<and> length f = 2 \<and> v = int (dec_value (w @ f))"
proof -
  note r [simp]
  let ?t = "strings_TrimSpace s"
  consider (empty) "?t = []"
    | (sign) "?t \<noteq> []" "has_prefix_char ?t (CHR ''-'') \<or> has_prefix_char ?t (CHR ''+'')"
    | (ok) "?t \<noteq> []" "\<not> (has_prefix_char ?t (CHR ''-'') \<or> has_prefix_char ?t (CHR ''+''))"
    by blast
  then show ?thesis
  proof cases
    case empty
    then show ?thesis by (simp add: money_value_def normalizeMoneyString_def strings_Cut_def allDigits_def)
  next
    case sign
    then show ?thesis by (auto simp: signed_not_digits normalizeMoneyString_def)
  next
    case ok
    obtain w f b where cut: "strings_Cut ?t (CHR ''.'') = (w, f, b)" by (cases "strings_Cut ?t (CHR ''.'')")
    show ?thesis
    proof (cases b)
      case True
      consider "length f = 0" | "length f = 1" | "length f = 2" | "length f > 2" by linarith
      then show ?thesis
      proof cases
        case 2
        then obtain c where "f = [c]" by (cases f) auto
        show ?thesis
        proof (cases "allDigits w \<and> is_digit c")
          case digits: True
          with ok cut True \<open>f = [c]\<close>
          have "normalizeMoneyString field s = Inr (w @ CHR ''.'' # [c, CHR ''0''])"
            and "money_value ?t = Some (int (dec_value (w @ [c, CHR ''0''])))"
            by (simp_all add: money_value_def normalizeMoneyString_def allDigits_def)
          moreover have "allDigits [c, CHR ''0'']" using digits by (simp add: allDigits_def)
          ultimately show ?thesis using digits
            by (simp only: option.case)
               (rule exI [of _ w], rule exI [of _ "[c, CHR ''0'']"], simp)
        next
          case False
          with ok cut True \<open>f = [c]\<close> show ?thesis
            by (auto simp: money_value_def normalizeMoneyString_def allDigits_def)
        qed
      qed (use ok cut True in \<open>auto simp: money_value_def normalizeMoneyString_def allDigits_def Let_def\<close>)
    next
      case False
      with cut have "w = ?t" "f = []" by (auto simp: strings_Cut_def split: if_splits)
      moreover have "dec_value (?t @ ''00'') = 100 * dec_value ?t"
        using dec_value_append [of ?t "''00''"] dec_value_zeros [of 2] by (simp add: eval_nat_numeral)
      ultimately have "r = (if allDigits ?t then Inr (?t @ CHR ''.'' # ''00'')
            else Inl (ValidationError field ''must be a valid monetary amount''))"
          "money_value ?t = (if allDigits ?t then Some (int (dec_value (?t @ ''00''))) else None)"
        using ok cut False by (simp_all add: money_value_def normalizeMoneyString_def)
      moreover have "allDigits ''00''" by (simp add: allDigits_def)
      ultimately show ?thesis
        by (cases "allDigits ?t")
           (simp, rule exI [of _ ?t], rule exI [of _ "''00''"], simp_all)
    qed
  qed
qed

lemma TrimRight_zeros:
  "\<exists>k. f = strings_TrimRight_char f c @ replicate k c \<and>
       (strings_TrimRight_char f c = [] \<or> last (strings_TrimRight_char f c) \<noteq> c)"
proof -
  let ?d = "dropWhile (\<lambda>x. x = c) (rev f)" and ?t = "takeWhile (\<lambda>x. x = c) (rev f)"
  have "rev f = ?t @ ?d" by simp
  then have "f = rev ?d @ rev ?t" by (metis rev_append rev_rev_ident)
  moreover have "?t = replicate (length ?t) c"
    by (metis (mono_tags, lifting) replicate_length_same set_takeWhileD)
  then have "rev ?t = replicate (length ?t) c" by (metis rev_replicate)
  moreover have "rev ?d = [] \<or> last (rev ?d) \<noteq> c"
    using hd_dropWhile [of "\<lambda>x. x = c" "rev f"] by (auto simp: last_rev)
  ultimately show ?thesis unfolding strings_TrimRight_char_def by metis
qed

lemma fraction_trim:
  assumes "length f > 3"
  defines "t \<equiv> strings_TrimRight_char f (CHR ''0'')"
  shows "length t \<le> 3 \<longleftrightarrow> list_all (\<lambda>c. c = CHR ''0'') (drop 3 f)"
    and "length t \<le> 3 \<Longrightarrow> pad_zeros 3 (if t = [] then ''0'' else t) = take 3 f"
proof -
  obtain k where k: "f = t @ replicate k (CHR ''0'')" and last: "t = [] \<or> last t \<noteq> CHR ''0''"
    using TrimRight_zeros unfolding t_def by blast
  show "length t \<le> 3 \<longleftrightarrow> list_all (\<lambda>c. c = CHR ''0'') (drop 3 f)"
  proof
    assume "length t \<le> 3"
    then show "list_all (\<lambda>c. c = CHR ''0'') (drop 3 f)" by (subst k) (simp add: list_all_iff)
  next
    assume z: "list_all (\<lambda>c. c = CHR ''0'') (drop 3 f)"
    show "length t \<le> 3"
    proof (rule ccontr)
      assume long: "\<not> length t \<le> 3"
      then have "last t = last (drop 3 t)" "drop 3 t \<noteq> []" by auto
      moreover have "set (drop 3 t) \<subseteq> set (drop 3 f)" by (subst k) auto
      ultimately have "last t \<in> set (drop 3 f)" by (metis last_in_set subsetD)
      with z last long show False by (auto simp: list_all_iff)
    qed
  qed
  assume len: "length t \<le> 3"
  show "pad_zeros 3 (if t = [] then ''0'' else t) = take 3 f"
  proof (cases "t = []")
    case True
    with k have "f = replicate k (CHR ''0'')" by simp
    moreover from this assms(1) have "k > 3" by simp
    ultimately have "take 3 f = replicate 3 (CHR ''0'')" by simp
    with True show ?thesis by (simp add: pad_zeros_eq eval_nat_numeral)
  next
    case False
    have "3 - length t \<le> k" using assms(1) k by (metis diff_le_mono length_append length_replicate
          diff_add_inverse less_imp_le)
    then have "take 3 f = t @ replicate (3 - length t) (CHR ''0'')"
      using len by (subst k) simp
    with False show ?thesis by (simp add: pad_zeros_eq)
  qed
qed

lemma normalizeQuantityString_spec:
  fixes r :: "'s go_error + string"
  assumes r: "r = normalizeQuantityString field s"
  shows "case quantity_value (strings_TrimSpace s) of
     None \<Rightarrow> \<exists>msg. r = Inl (ValidationError field msg)
   | Some v \<Rightarrow> \<exists>w f. r = Inr (w @ CHR ''.'' # f) \<and> allDigits w \<and>
       allDigits f \<and> length f = 3 \<and> v = int (dec_value (w @ f))"
proof -
  note r [simp]
  let ?t = "strings_TrimSpace s"
  consider (empty) "?t = []"
    | (sign) "?t \<noteq> []" "has_prefix_char ?t (CHR ''-'') \<or> has_prefix_char ?t (CHR ''+'')"
    | (ok) "?t \<noteq> []" "\<not> (has_prefix_char ?t (CHR ''-'') \<or> has_prefix_char ?t (CHR ''+''))"
    by blast
  then show ?thesis
  proof cases
    case empty
    then show ?thesis by (simp add: quantity_value_def normalizeQuantityString_def strings_Cut_def allDigits_def)
  next
    case sign
    then show ?thesis by (auto simp: signed_not_digits normalizeQuantityString_def)
  next
    case ok
    obtain w f b where cut: "strings_Cut ?t (CHR ''.'') = (w, f, b)" by (cases "strings_Cut ?t (CHR ''.'')")
    show ?thesis
    proof (cases b)
      case True
      show ?thesis
      proof (cases "allDigits w \<and> allDigits f")
        case False
        with ok cut True show ?thesis
          by (auto simp: quantity_value_def normalizeQuantityString_def Let_def)
      next
        case digits: True
        then have ne: "w \<noteq> []" "f \<noteq> []" by (auto simp: allDigits_def)
        let ?t3 = "take 3 (f @ ''000'')"
        have t3: "allDigits ?t3" "length ?t3 = 3"
          using digits ne by (auto simp: allDigits_def list_all_iff dest: in_set_takeD)
        have norm: "r =
            (if list_all (\<lambda>c. c = CHR ''0'') (drop 3 f) then Inr (w @ CHR ''.'' # ?t3)
             else Inl (ValidationError field ''must have at most three decimal places''))"
        proof (cases "length f > 3")
          case long: True
          define t where "t = strings_TrimRight_char f (CHR ''0'')"
          note ft = fraction_trim [OF long, folded t_def]
          have eq: "(length (if t = [] then ''0'' else t) > 3) \<longleftrightarrow> \<not> list_all (\<lambda>c. c = CHR ''0'') (drop 3 f)"
            using ft(1) by auto
          show ?thesis
          proof (cases "length t \<le> 3")
            case True
            with ft eq long ok cut \<open>b\<close> digits ne show ?thesis
              by (simp add: normalizeQuantityString_def t_def [symmetric] Let_def)
          next
            case False
            with ft eq long ok cut \<open>b\<close> digits ne show ?thesis
              by (auto simp: normalizeQuantityString_def t_def [symmetric] Let_def)
          qed
        next
          case False
          then have "pad_zeros 3 f = ?t3" using ne
            by (cases f; cases "tl f"; cases "tl (tl f)") (auto simp: pad_zeros_eq eval_nat_numeral)
          with False ok cut \<open>b\<close> digits ne show ?thesis
            by (simp add: normalizeQuantityString_def Let_def)
        qed
        show ?thesis
        proof (cases "list_all (\<lambda>c. c = CHR ''0'') (drop 3 f)")
          case True
          with cut \<open>b\<close> digits have "quantity_value ?t = Some (int (dec_value (w @ ?t3)))"
            by (simp add: quantity_value_def)
          with True norm t3 digits show ?thesis
            by (simp only: option.case if_True) (rule exI [of _ w], rule exI [of _ ?t3], simp)
        next
          case False
          with cut \<open>b\<close> norm show ?thesis by (simp add: quantity_value_def)
        qed
      qed
    next
      case False
      with cut have "w = ?t" "f = []" by (auto simp: strings_Cut_def split: if_splits)
      moreover have "dec_value (?t @ ''000'') = 1000 * dec_value ?t"
        using dec_value_append [of ?t "''000''"] dec_value_zeros [of 3] by (simp add: eval_nat_numeral)
      ultimately have "r = (if allDigits ?t then Inr (?t @ CHR ''.'' # ''000'')
            else Inl (ValidationError field ''must be a valid decimal number''))"
          "quantity_value ?t = (if allDigits ?t then Some (int (dec_value (?t @ ''000''))) else None)"
        using ok cut False by (simp_all add: quantity_value_def normalizeQuantityString_def)
      moreover have "allDigits ''000''" by (simp add: allDigits_def)
      ultimately show ?thesis
        by (cases "allDigits ?t")
           (simp, rule exI [of _ ?t], rule exI [of _ "''000''"], simp_all)
    qed
  qed
qed

text \<open>The parsers, given the documented behaviour of \<open>ScanScientific\<close>.\<close>

lemma scan_lawD:
  "scan_law E \<Longrightarrow> allDigits w \<Longrightarrow> allDigits f \<Longrightarrow> length f < 1000 \<Longrightarrow>
     \<exists>n. ScanScientific E (w @ CHR ''.'' # f) = Some n \<and> denotes n (int (dec_value (w @ f))) (length f)"
  by (simp add: scan_law_def)

lemma parseMoney_None:
  assumes "money_value (strings_TrimSpace s) = None"
  shows "\<exists>msg. parseMoney E field s = (Inl (ValidationError field msg) :: 's go_error + numeric)"
proof -
  obtain msg where "normalizeMoneyString field s = (Inl (ValidationError field msg) :: 's go_error + string)"
    using normalizeMoneyString_spec [OF refl, where 's = 's and s = s and field = field] assms by auto
  then show ?thesis by (simp add: parseMoney_def)
qed

lemma parseMoney_Some:
  assumes "scan_law E" "money_value (strings_TrimSpace s) = Some v"
  shows "\<exists>n. parseMoney E field s = (Inr n :: 's go_error + numeric) \<and> denotes n v 2"
proof -
  from normalizeMoneyString_spec [OF refl, where 's = 's and s = s and field = field] assms(2)
  obtain w f where
    n: "normalizeMoneyString field s = (Inr (w @ CHR ''.'' # f) :: 's go_error + string)"
    and wf: "allDigits w" "allDigits f" "length f = 2" "v = int (dec_value (w @ f))" by auto
  with scan_lawD [OF assms(1) wf(1,2)] obtain m where
    "ScanScientific E (w @ CHR ''.'' # f) = Some m" "denotes m v 2" by auto
  with n show ?thesis by (simp add: parseMoney_def)
qed

lemma parseQuantity_None:
  assumes "quantity_value (strings_TrimSpace s) = None"
  shows "\<exists>msg. parseQuantity E field s = (Inl (ValidationError field msg) :: 's go_error + numeric)"
proof -
  obtain msg where "normalizeQuantityString field s = (Inl (ValidationError field msg) :: 's go_error + string)"
    using normalizeQuantityString_spec [OF refl, where 's = 's and s = s and field = field] assms by auto
  then show ?thesis by (simp add: parseQuantity_def)
qed

lemma quantity_value_canonical:
  assumes "quantity_value (strings_TrimSpace s) = Some v"
  shows "\<exists>w f. normalizeQuantityString field s = (Inr (w @ CHR ''.'' # f) :: 's go_error + string) \<and>
     allDigits w \<and> allDigits f \<and> length f = 3 \<and> v = int (dec_value (w @ f)) \<and>
     (hasPositiveDigit (w @ CHR ''.'' # f) \<longleftrightarrow> v > 0)"
proof -
  from normalizeQuantityString_spec [OF refl, where 's = 's and s = s and field = field] assms
  obtain w f where
    n: "normalizeQuantityString field s = (Inr (w @ CHR ''.'' # f) :: 's go_error + string)"
    and wf: "allDigits w" "allDigits f" "length f = 3" "v = int (dec_value (w @ f))" by auto
  moreover have "hasPositiveDigit (w @ CHR ''.'' # f) \<longleftrightarrow> v > 0"
    using hasPositiveDigit_iff [of "w @ f"] wf by (simp add: allDigits_def)
  ultimately show ?thesis by blast
qed

lemma parseQuantity_zero:
  assumes "quantity_value (strings_TrimSpace s) = Some 0"
  shows "parseQuantity E field s = (Inl (ValidationError field ''must be greater than zero'') :: 's go_error + numeric)"
proof -
  from quantity_value_canonical [OF assms, where 's = 's and field = field]
  obtain w f where
    "normalizeQuantityString field s = (Inr (w @ CHR ''.'' # f) :: 's go_error + string)"
    "\<not> hasPositiveDigit (w @ CHR ''.'' # f)" by auto
  then show ?thesis by (simp add: parseQuantity_def)
qed

lemma parseQuantity_Some:
  assumes "scan_law E" "quantity_value (strings_TrimSpace s) = Some v" "v > 0"
  shows "\<exists>n. parseQuantity E field s = (Inr n :: 's go_error + numeric) \<and> denotes n v 3"
proof -
  from quantity_value_canonical [OF assms(2), where 's = 's and field = field]
  obtain w f where
    n: "normalizeQuantityString field s = (Inr (w @ CHR ''.'' # f) :: 's go_error + string)"
    "hasPositiveDigit (w @ CHR ''.'' # f)"
    and wf: "allDigits w" "allDigits f" "length f = 3" "v = int (dec_value (w @ f))"
    using assms(3) by auto
  with scan_lawD [OF assms(1) wf(1,2)] obtain m where
    "ScanScientific E (w @ CHR ''.'' # f) = Some m" "denotes m v 3" by auto
  with n show ?thesis by (simp add: parseQuantity_def)
qed

lemma money_value_nonneg: "money_value s = Some v \<Longrightarrow> 0 \<le> v"
  by (auto simp: money_value_def split: prod.splits bool.splits if_splits)

lemma quantity_value_nonneg: "quantity_value s = Some v \<Longrightarrow> 0 \<le> v"
  by (auto simp: quantity_value_def split: prod.splits bool.splits if_splits)

lemma parseMoney_denotes:
  assumes "scan_law E" "parseMoney E field s = (Inr n :: 's go_error + numeric)"
  shows "\<exists>v. money_value (strings_TrimSpace s) = Some v \<and> denotes n v 2 \<and> 0 \<le> v"
proof (cases "money_value (strings_TrimSpace s)")
  case None
  with parseMoney_None [where 's = 's, of s E field] assms(2) show ?thesis by auto
next
  case (Some v)
  with parseMoney_Some [where 's = 's, of E s v field] assms show ?thesis
    by (auto dest: money_value_nonneg)
qed

lemma parseQuantity_denotes:
  assumes "scan_law E" "parseQuantity E field s = (Inr n :: 's go_error + numeric)"
  shows "\<exists>v. quantity_value (strings_TrimSpace s) = Some v \<and> denotes n v 3 \<and> 0 < v"
proof (cases "quantity_value (strings_TrimSpace s)")
  case None
  with parseQuantity_None [where 's = 's, of s E field] assms(2) show ?thesis by auto
next
  case (Some v)
  have "v \<noteq> 0" using parseQuantity_zero [where 's = 's, of s E field] Some assms(2) by auto
  with Some have "0 < v" by (auto dest: quantity_value_nonneg)
  with Some parseQuantity_Some [where 's = 's, of E s v field] assms show ?thesis by auto
qed

lemma parseOptionalMoney_denotes:
  "scan_law E \<Longrightarrow> parseOptionalMoney E field s = Inr n \<Longrightarrow> \<exists>v. denotes n v 2 \<and> 0 \<le> v"
  by (auto simp: parseOptionalMoney_def zeroMoney_def split: option.splits dest!: parseMoney_denotes)
     (use denotes_FromScaled_2_3(1) [of 0] in blast)

end
