(* ===== verification/Database.thy ===== *)
theory Database
  imports Validation
begin

text \<open>
  The persistent state: one record per table row (\<open>internal/platform/database/models.go\<close>
  with the constraints, triggers and column types of \<open>backend/migrations\<close>), the database
  as a record of tables, and \<open>WithTx\<close>. A \<open>NUMERIC(15,2)\<close> or \<open>NUMERIC(15,3)\<close> column holds its
  value scaled to an integer (cents, thousandths); reading it gives the \<open>pgtype.Numeric\<close>
  \<open>numericFromScaledInt v scale\<close>, writing a \<open>Numeric\<close> parameter rounds half away from zero
  and raises SQLSTATE 22003 beyond 15 digits. A nullable column is an \<open>option\<close>.
\<close>

type_synonym time = int

section \<open>Enumerations\<close>

datatype sale_status = SaleOPEN | SaleCOMPLETED | SaleCANCELLED

datatype movement_type = MovPURCHASE | MovSALE | MovSALE_CANCELLATION | MovADJUSTMENT_IN | MovADJUSTMENT_OUT

datatype payment_status = PayPENDING | PayAPPROVED | PayDECLINED | PayCANCELLED

datatype payment_method_kind = PMCASH | PMPIX | PMDEBIT_CARD | PMCREDIT_CARD | PMVOUCHER | PMSTORE_CREDIT | PMOTHER

datatype fiscal_status = DocPENDING | DocPROCESSING | DocAUTHORIZED | DocREJECTED | DocERROR | DocCANCELLED

fun sale_status_string :: "sale_status \<Rightarrow> string" where
  "sale_status_string SaleOPEN = ''OPEN''"
| "sale_status_string SaleCOMPLETED = ''COMPLETED''"
| "sale_status_string SaleCANCELLED = ''CANCELLED''"

lemma case_sale_status_Inr [result_simps]:
  "(case st of SaleOPEN \<Rightarrow> a | SaleCOMPLETED \<Rightarrow> b | SaleCANCELLED \<Rightarrow> c) = Inr x \<longleftrightarrow>
     st = SaleOPEN \<and> a = Inr x \<or> st = SaleCOMPLETED \<and> b = Inr x \<or> st = SaleCANCELLED \<and> c = Inr x"
  by (cases st) simp_all

fun movement_type_string :: "movement_type \<Rightarrow> string" where
  "movement_type_string MovPURCHASE = ''PURCHASE''"
| "movement_type_string MovSALE = ''SALE''"
| "movement_type_string MovSALE_CANCELLATION = ''SALE_CANCELLATION''"
| "movement_type_string MovADJUSTMENT_IN = ''ADJUSTMENT_IN''"
| "movement_type_string MovADJUSTMENT_OUT = ''ADJUSTMENT_OUT''"

fun payment_status_string :: "payment_status \<Rightarrow> string" where
  "payment_status_string PayPENDING = ''PENDING''"
| "payment_status_string PayAPPROVED = ''APPROVED''"
| "payment_status_string PayDECLINED = ''DECLINED''"
| "payment_status_string PayCANCELLED = ''CANCELLED''"

fun payment_method_kind_string :: "payment_method_kind \<Rightarrow> string" where
  "payment_method_kind_string PMCASH = ''CASH''"
| "payment_method_kind_string PMPIX = ''PIX''"
| "payment_method_kind_string PMDEBIT_CARD = ''DEBIT_CARD''"
| "payment_method_kind_string PMCREDIT_CARD = ''CREDIT_CARD''"
| "payment_method_kind_string PMVOUCHER = ''VOUCHER''"
| "payment_method_kind_string PMSTORE_CREDIT = ''STORE_CREDIT''"
| "payment_method_kind_string PMOTHER = ''OTHER''"

fun fiscal_status_string :: "fiscal_status \<Rightarrow> string" where
  "fiscal_status_string DocPENDING = ''PENDING''"
| "fiscal_status_string DocPROCESSING = ''PROCESSING''"
| "fiscal_status_string DocAUTHORIZED = ''AUTHORIZED''"
| "fiscal_status_string DocREJECTED = ''REJECTED''"
| "fiscal_status_string DocERROR = ''ERROR''"
| "fiscal_status_string DocCANCELLED = ''CANCELLED''"

text \<open>\<open>SaleStatus.Valid\<close> and \<open>InventoryMovementType.Valid\<close>: the texts that name a status.\<close>

definition sale_status_of :: "string \<Rightarrow> sale_status option" where
  "sale_status_of s = List.find (\<lambda>st. sale_status_string st = s) [SaleOPEN, SaleCOMPLETED, SaleCANCELLED]"

definition movement_type_of :: "string \<Rightarrow> movement_type option" where
  "movement_type_of s = List.find (\<lambda>t. movement_type_string t = s)
     [MovPURCHASE, MovSALE, MovSALE_CANCELLATION, MovADJUSTMENT_IN, MovADJUSTMENT_OUT]"

section \<open>Rows\<close>

record product =
  Product_OrganizationID :: uuid
  Product_ID :: uuid
  Product_SKU :: string
  Product_Barcode :: "string option"
  Product_Name :: string
  Product_CategoryID :: "uuid option"
  Product_Price :: int
  Product_Cost :: "int option"
  Product_IsActive :: bool
  Product_CreatedAt :: time
  Product_UpdatedAt :: time

record sale_number_counter =
  Counter_OrganizationID :: uuid
  Counter_StoreID :: uuid
  Counter_NextNumber :: int

record sale =
  Sale_ID :: uuid
  Sale_OrganizationID :: uuid
  Sale_StoreID :: uuid
  Sale_Number :: int
  Sale_IdempotencyKey :: string
  Sale_Status :: sale_status
  Sale_Subtotal :: int
  Sale_Discount :: int
  Sale_Addition :: int
  Sale_Total :: int
  Sale_OpenedByMembershipID :: uuid
  Sale_CompletedByMembershipID :: "uuid option"
  Sale_CancelledByMembershipID :: "uuid option"
  Sale_OpenedAt :: time
  Sale_CompletedAt :: "time option"
  Sale_CancelledAt :: "time option"
  Sale_CreatedAt :: time
  Sale_UpdatedAt :: time

record sale_item =
  Item_ID :: uuid
  Item_OrganizationID :: uuid
  Item_StoreID :: uuid
  Item_SaleID :: uuid
  Item_ProductID :: uuid
  Item_ProductName :: string
  Item_ProductSKU :: string
  Item_UnitPrice :: int
  Item_Quantity :: int
  Item_Discount :: int
  Item_Total :: int
  Item_CreatedAt :: time

record inventory =
  Inventory_OrganizationID :: uuid
  Inventory_StoreID :: uuid
  Inventory_ProductID :: uuid
  Inventory_Quantity :: int
  Inventory_CreatedAt :: time
  Inventory_UpdatedAt :: time

record inventory_movement =
  Movement_OrganizationID :: uuid
  Movement_StoreID :: uuid
  Movement_ID :: uuid
  Movement_ProductID :: uuid
  Movement_ActorMembershipID :: uuid
  Movement_MovementType :: movement_type
  Movement_Quantity :: int
  Movement_PreviousQuantity :: int
  Movement_CurrentQuantity :: int
  Movement_Reason :: "string option"
  Movement_ReferenceType :: string
  Movement_ReferenceID :: uuid
  Movement_CreatedAt :: time

record payment_method =
  Method_ID :: uuid
  Method_OrganizationID :: uuid
  Method_Code :: string
  Method_Name :: string
  Method_Kind :: payment_method_kind
  Method_Provider :: "string option"
  Method_AllowsChange :: bool
  Method_RequiresExternalReference :: bool
  Method_AllowsInstallments :: bool
  Method_MaxInstallments :: int
  Method_FeePercentage :: int
  Method_SettlementDays :: int
  Method_IsActive :: bool
  Method_SortOrder :: int
  Method_CreatedAt :: time
  Method_UpdatedAt :: time

record store_payment_method =
  Binding_OrganizationID :: uuid
  Binding_StoreID :: uuid
  Binding_PaymentMethodID :: uuid
  Binding_IsActive :: bool
  Binding_SortOrder :: int
  Binding_CreatedAt :: time
  Binding_UpdatedAt :: time

record payment =
  Payment_ID :: uuid
  Payment_OrganizationID :: uuid
  Payment_StoreID :: uuid
  Payment_SaleID :: uuid
  Payment_PaymentMethodID :: uuid
  Payment_IdempotencyKey :: string
  Payment_Status :: payment_status
  Payment_Amount :: int
  Payment_ReceivedAmount :: "int option"
  Payment_ChangeAmount :: "int option"
  Payment_Installments :: int
  Payment_ExternalReference :: "string option"
  Payment_PaidAt :: "time option"
  Payment_CancelledAt :: "time option"
  Payment_CreatedAt :: time
  Payment_UpdatedAt :: time

record fiscal_document =
  Doc_ID :: uuid
  Doc_OrganizationID :: uuid
  Doc_StoreID :: uuid
  Doc_SaleID :: uuid
  Doc_Status :: fiscal_status
  Doc_Environment :: string
  Doc_DocumentModel :: int
  Doc_Series :: "int option"
  Doc_Number :: "int option"
  Doc_AccessKey :: "string option"
  Doc_Protocol :: "string option"
  Doc_Provider :: "string option"
  Doc_ExternalReference :: "string option"
  Doc_XML :: "string option"
  Doc_ErrorCode :: "string option"
  Doc_ErrorMessage :: "string option"
  Doc_IssuedAt :: "time option"
  Doc_CancelledAt :: "time option"
  Doc_CreatedAt :: time
  Doc_UpdatedAt :: time

text \<open>
  Stores and memberships appear here by their keys only (foreign keys refer to them). The
  field \<open>db_uuid_calls\<close> counts the calls of \<open>uuidv7()\<close>, whose results are the parameter
  \<open>uuidv7\<close> of the environment.
\<close>

record db =
  db_stores :: "(uuid \<times> uuid) list"
  db_memberships :: "(uuid \<times> uuid) list"
  db_products :: "product list"
  db_counters :: "sale_number_counter list"
  db_sales :: "sale list"
  db_sale_items :: "sale_item list"
  db_inventory :: "inventory list"
  db_movements :: "inventory_movement list"
  db_payment_methods :: "payment_method list"
  db_store_payment_methods :: "store_payment_method list"
  db_payments :: "payment list"
  db_fiscal_documents :: "fiscal_document list"
  db_uuid_calls :: nat

section \<open>Column types\<close>

definition pg_round_div :: "int \<Rightarrow> int \<Rightarrow> int" where
  "pg_round_div i d = sgn i * ((2 * \<bar>i\<bar> + d) div (2 * d))"

text \<open>A \<open>Numeric\<close> parameter written to a \<open>NUMERIC(15, s)\<close> column (\<open>None\<close> is NULL).\<close>

definition pg_numeric :: "nat \<Rightarrow> numeric \<Rightarrow> 's go_error + int option" where
  "pg_numeric s n =
     (if \<not> num_Valid n then Inr None
      else if num_NaN n \<or> num_InfinityModifier n \<noteq> 0 then Inl (PgError ''22003'' [])
      else let c = (case num_Int n of None \<Rightarrow> 0 | Some c \<Rightarrow> c);
               e = num_Exp n + int s;
               v = (if 0 \<le> e then c * 10 ^ nat e else pg_round_div c (10 ^ nat (- e))) in
        if \<bar>v\<bar> < 10 ^ 15 then Inr (Some v) else Inl (PgError ''22003'' []))"

text \<open>
  The same parameter where the statement compares or adds it before any column is written:
  NULL and NaN make no comparison used here true.
\<close>

definition pg_numeric_param :: "nat \<Rightarrow> numeric \<Rightarrow> int option" where
  "pg_numeric_param s n =
     (if \<not> num_Valid n \<or> num_NaN n \<or> num_InfinityModifier n \<noteq> 0 then None
      else let c = (case num_Int n of None \<Rightarrow> 0 | Some c \<Rightarrow> c); e = num_Exp n + int s in
        Some (if 0 \<le> e then c * 10 ^ nat e else pg_round_div c (10 ^ nat (- e))))"

definition pg_numeric_not_null :: "nat \<Rightarrow> numeric \<Rightarrow> 's go_error + int" where
  "pg_numeric_not_null s n =
     chain (pg_numeric s n) (\<lambda>v. case v of None \<Rightarrow> Inl (PgError ''23502'' []) | Some i \<Rightarrow> Inr i)"

text \<open>
  \<open>VARCHAR(n)\<close> counts characters: the bytes that do not continue a UTF-8 sequence. A longer text is
  an error. (PostgreSQL cuts off an excess that is all spaces instead; the texts that reach these
  columns have no trailing spaces, the services and the reader of HTTP headers trim them.)
\<close>

definition char_length :: "string \<Rightarrow> nat" where
  "char_length s = length (filter (\<lambda>c. \<not> (128 \<le> (of_char c :: nat) \<and> (of_char c :: nat) < 192)) s)"

definition pg_varchar :: "nat \<Rightarrow> string \<Rightarrow> 's go_error + string" where
  "pg_varchar n s = (if char_length s \<le> n then Inr s else Inl (PgError ''22001'' []))"

definition pg_varchar_null :: "nat \<Rightarrow> string option \<Rightarrow> 's go_error + string option" where
  "pg_varchar_null n s = (case s of None \<Rightarrow> Inr None | Some t \<Rightarrow> map_sum (\<lambda>e. e) Some (pg_varchar n t))"

definition btrim_blank :: "string \<Rightarrow> bool" where
  "btrim_blank s = list_all (\<lambda>c. c = CHR '' '') s"

lemma pg_varchar_eq_Inr [result_simps]: "pg_varchar n s = Inr t \<longleftrightarrow> t = s \<and> char_length s \<le> n"
  by (auto simp: pg_varchar_def)

lemma pg_varchar_null_eq_Inr [result_simps]:
  "pg_varchar_null n s = Inr t \<longleftrightarrow> t = s \<and> (case s of None \<Rightarrow> True | Some x \<Rightarrow> char_length x \<le> n)"
  by (auto simp: pg_varchar_null_def pg_varchar_def split: option.splits)

lemma pg_round_div_exact: "0 < d \<Longrightarrow> pg_round_div (i * d) d = i"
proof -
  assume d: "0 < d"
  have "(2 * \<bar>i * d\<bar> + d) div (2 * d) = \<bar>i\<bar>"
    using d by (intro int_div_pos_eq [where r = d]) (auto simp: abs_mult)
  then show ?thesis using d by (simp add: pg_round_div_def sgn_mult mult_sgn_abs)
qed

lemma pg_round_div_nonneg: "0 \<le> i \<Longrightarrow> 0 < d \<Longrightarrow> pg_round_div i d = quo_round i d"
  by (cases "i = 0") (auto simp: pg_round_div_def quo_round_nonneg)

lemma pg_numeric_param_denotes:
  assumes "denotes n v s" "s < 1000"
  shows "pg_numeric_param s n = Some v"
proof -
  from assms obtain c where c: "num_Int n = Some c"
    "if - int s \<le> num_Exp n then v = c * 10 ^ nat (num_Exp n + int s)
     else c = v * 10 ^ nat (- (num_Exp n + int s))"
    and n: "num_Valid n" "\<not> num_NaN n" "num_InfinityModifier n = 0"
    by (auto simp: denotes_def)
  show ?thesis
  proof (cases "0 \<le> num_Exp n + int s")
    case True
    with c n show ?thesis by (simp add: pg_numeric_param_def)
  next
    case False
    with c(2) have "c = v * 10 ^ nat (- (num_Exp n + int s))" by simp
    then have "pg_round_div c (10 ^ nat (- (num_Exp n + int s))) = v" by (simp add: pg_round_div_exact)
    with False c(1) n show ?thesis by (simp add: pg_numeric_param_def)
  qed
qed

lemma pg_numeric_denotes:
  "denotes n v s \<Longrightarrow> s < 1000 \<Longrightarrow>
     pg_numeric s n = (if \<bar>v\<bar> < 10 ^ 15 then Inr (Some v) else Inl (PgError ''22003'' []))"
  by (frule (1) pg_numeric_param_denotes)
     (simp add: pg_numeric_def pg_numeric_param_def Let_def split: if_splits)

lemma pg_numeric_not_null_denotes:
  "denotes n v s \<Longrightarrow> s < 1000 \<Longrightarrow> pg_numeric_not_null s n =
     (if \<bar>v\<bar> < 10 ^ 15 then Inr v else Inl (PgError ''22003'' []))"
  by (simp add: pg_numeric_not_null_def pg_numeric_denotes)

lemma pg_numeric_not_null_2 [result_simps]:
  "pg_numeric_not_null 2 (numericFromScaledInt v 2) = Inr w \<longleftrightarrow> w = v \<and> \<bar>v\<bar> < 10 ^ 15"
  "pg_numeric_not_null 3 (numericFromScaledInt v 3) = Inr w \<longleftrightarrow> w = v \<and> \<bar>v\<bar> < 10 ^ 15"
  by (auto simp: pg_numeric_not_null_denotes [where v = v and s = 2]
      pg_numeric_not_null_denotes [where v = v and s = 3])

section \<open>Triggers and constraints\<close>

text \<open>\<open>validate_status_transition\<close>, the \<open>BEFORE UPDATE OF status\<close> trigger of three tables.\<close>

definition sale_transition_ok :: "sale_status \<Rightarrow> sale_status \<Rightarrow> bool" where
  "sale_transition_ok old new \<longleftrightarrow>
     (old = new \<or> old = SaleOPEN \<and> (new = SaleCOMPLETED \<or> new = SaleCANCELLED)
      \<or> old = SaleCOMPLETED \<and> new = SaleCANCELLED)"

definition payment_transition_ok :: "payment_status \<Rightarrow> payment_status \<Rightarrow> bool" where
  "payment_transition_ok old new \<longleftrightarrow>
     (old = new \<or> old = PayPENDING \<and> (new = PayAPPROVED \<or> new = PayDECLINED \<or> new = PayCANCELLED)
      \<or> old = PayAPPROVED \<and> new = PayCANCELLED)"

definition fiscal_transition_ok :: "fiscal_status \<Rightarrow> fiscal_status \<Rightarrow> bool" where
  "fiscal_transition_ok old new \<longleftrightarrow>
     (old = new
      \<or> old = DocPENDING \<and> new \<in> set [DocPROCESSING, DocAUTHORIZED, DocREJECTED, DocERROR, DocCANCELLED]
      \<or> old = DocPROCESSING \<and> new \<in> set [DocAUTHORIZED, DocREJECTED, DocERROR, DocCANCELLED]
      \<or> old = DocAUTHORIZED \<and> new = DocCANCELLED
      \<or> old = DocREJECTED \<and> new \<in> set [DocPROCESSING, DocERROR, DocCANCELLED]
      \<or> old = DocERROR \<and> new \<in> set [DocPROCESSING, DocREJECTED, DocCANCELLED])"

text \<open>The \<open>CHECK\<close> constraints of a table, in the order PostgreSQL evaluates them (by name).\<close>

definition sale_checks :: "sale \<Rightarrow> (string \<times> bool) list" where
  "sale_checks s =
    [(''sales_addition_non_negative'', Sale_Addition s \<ge> 0),
     (''sales_cancelled_at_check'', case Sale_CancelledAt s of None \<Rightarrow> True | Some t \<Rightarrow> t \<ge> Sale_OpenedAt s),
     (''sales_completed_at_check'', case Sale_CompletedAt s of None \<Rightarrow> True | Some t \<Rightarrow> t \<ge> Sale_OpenedAt s),
     (''sales_discount_non_negative'', Sale_Discount s \<ge> 0),
     (''sales_discount_not_greater_than_subtotal'', Sale_Discount s \<le> Sale_Subtotal s),
     (''sales_idempotency_key_not_blank'', \<not> btrim_blank (Sale_IdempotencyKey s)),
     (''sales_number_positive'', Sale_Number s > 0),
     (''sales_opened_at_check'', Sale_OpenedAt s \<ge> Sale_CreatedAt s),
     (''sales_status_timestamps_consistency'',
        case Sale_Status s of
          SaleOPEN \<Rightarrow> Sale_CompletedAt s = None \<and> Sale_CompletedByMembershipID s = None \<and>
                      Sale_CancelledAt s = None \<and> Sale_CancelledByMembershipID s = None
        | SaleCOMPLETED \<Rightarrow> Sale_CompletedAt s \<noteq> None \<and> Sale_CompletedByMembershipID s \<noteq> None \<and>
                      Sale_CancelledAt s = None \<and> Sale_CancelledByMembershipID s = None
        | SaleCANCELLED \<Rightarrow> Sale_CancelledAt s \<noteq> None \<and> Sale_CancelledByMembershipID s \<noteq> None \<and>
                      (Sale_CompletedAt s = None \<longleftrightarrow> Sale_CompletedByMembershipID s = None)),
     (''sales_subtotal_non_negative'', Sale_Subtotal s \<ge> 0),
     (''sales_total_consistency'', Sale_Total s = Sale_Subtotal s - Sale_Discount s + Sale_Addition s),
     (''sales_total_non_negative'', Sale_Total s \<ge> 0),
     (''sales_updated_at_check'', Sale_UpdatedAt s \<ge> Sale_CreatedAt s)]"

text \<open>\<open>unit_price * quantity\<close> has five decimals; \<open>ROUND(x, 2)\<close> rounds half away from zero.\<close>

definition sale_item_checks :: "sale_item \<Rightarrow> (string \<times> bool) list" where
  "sale_item_checks i =
    [(''sale_items_discount_non_negative'', Item_Discount i \<ge> 0),
     (''sale_items_discount_not_greater_than_gross'',
        Item_Discount i \<le> pg_round_div (Item_UnitPrice i * Item_Quantity i) 1000),
     (''sale_items_product_name_not_blank'', \<not> btrim_blank (Item_ProductName i)),
     (''sale_items_product_sku_not_blank'', \<not> btrim_blank (Item_ProductSKU i)),
     (''sale_items_quantity_positive'', Item_Quantity i > 0),
     (''sale_items_total_consistency'',
        Item_Total i = pg_round_div (Item_UnitPrice i * Item_Quantity i - 1000 * Item_Discount i) 1000),
     (''sale_items_total_non_negative'', Item_Total i \<ge> 0),
     (''sale_items_unit_price_non_negative'', Item_UnitPrice i \<ge> 0)]"

definition inventory_checks :: "inventory \<Rightarrow> (string \<times> bool) list" where
  "inventory_checks i =
    [(''inventory_quantity_non_negative'', Inventory_Quantity i \<ge> 0),
     (''inventory_updated_at_check'', Inventory_UpdatedAt i \<ge> Inventory_CreatedAt i)]"

definition movement_checks :: "inventory_movement \<Rightarrow> (string \<times> bool) list" where
  "movement_checks m =
    [(''inventory_movements_quantity_positive'', Movement_Quantity m > 0),
     (''inventory_movements_reference_not_blank'', \<not> btrim_blank (Movement_ReferenceType m))]"

definition payment_checks :: "payment \<Rightarrow> (string \<times> bool) list" where
  "payment_checks p =
    [(''payments_amount_positive'', Payment_Amount p > 0),
     (''payments_cancelled_at_check'',
        case Payment_CancelledAt p of None \<Rightarrow> True | Some t \<Rightarrow> t \<ge> Payment_CreatedAt p),
     (''payments_change_amount_non_negative'',
        case Payment_ChangeAmount p of None \<Rightarrow> True | Some c \<Rightarrow> c \<ge> 0),
     (''payments_external_reference_not_blank'',
        case Payment_ExternalReference p of None \<Rightarrow> True | Some r \<Rightarrow> \<not> btrim_blank r),
     (''payments_idempotency_key_not_blank'', \<not> btrim_blank (Payment_IdempotencyKey p)),
     (''payments_installments_positive'', Payment_Installments p \<ge> 1),
     (''payments_paid_at_check'',
        case Payment_PaidAt p of None \<Rightarrow> True | Some t \<Rightarrow> t \<ge> Payment_CreatedAt p),
     (''payments_received_amount_non_negative'',
        case Payment_ReceivedAmount p of None \<Rightarrow> True | Some c \<Rightarrow> c \<ge> 0),
     (''payments_status_timestamps_consistency'',
        case Payment_Status p of
          PayPENDING \<Rightarrow> Payment_PaidAt p = None \<and> Payment_CancelledAt p = None
        | PayAPPROVED \<Rightarrow> Payment_PaidAt p \<noteq> None \<and> Payment_CancelledAt p = None
        | PayDECLINED \<Rightarrow> Payment_PaidAt p = None \<and> Payment_CancelledAt p = None
        | PayCANCELLED \<Rightarrow> Payment_CancelledAt p \<noteq> None),
     (''payments_updated_at_check'', Payment_UpdatedAt p \<ge> Payment_CreatedAt p)]"

definition fiscal_document_checks :: "fiscal_document \<Rightarrow> (string \<times> bool) list" where
  "fiscal_document_checks d =
     (let not_blank = (\<lambda>t. case t of None \<Rightarrow> True | Some x \<Rightarrow> \<not> btrim_blank x) in
    [(''fiscal_documents_access_key_length'',
        case Doc_AccessKey d of None \<Rightarrow> True | Some k \<Rightarrow> char_length k = 44),
     (''fiscal_documents_authorization_consistency'',
        case Doc_Status d of
          DocPENDING \<Rightarrow> Doc_AccessKey d = None \<and> Doc_Protocol d = None \<and> Doc_IssuedAt d = None \<and>
                        Doc_CancelledAt d = None
        | DocPROCESSING \<Rightarrow> Doc_CancelledAt d = None
        | DocAUTHORIZED \<Rightarrow> Doc_AccessKey d \<noteq> None \<and> Doc_Protocol d \<noteq> None \<and> Doc_IssuedAt d \<noteq> None \<and>
                        Doc_CancelledAt d = None
        | DocREJECTED \<Rightarrow> Doc_CancelledAt d = None
        | DocERROR \<Rightarrow> Doc_CancelledAt d = None
        | DocCANCELLED \<Rightarrow> Doc_AccessKey d \<noteq> None \<and> Doc_Protocol d \<noteq> None \<and> Doc_IssuedAt d \<noteq> None \<and>
                        Doc_CancelledAt d \<noteq> None),
     (''fiscal_documents_cancellation_consistency'',
        (Doc_Status d = DocCANCELLED) = (Doc_CancelledAt d \<noteq> None)),
     (''fiscal_documents_cancelled_at_check'',
        case Doc_CancelledAt d of None \<Rightarrow> True | Some t \<Rightarrow> t \<ge> Doc_CreatedAt d),
     (''fiscal_documents_error_code_not_blank'', not_blank (Doc_ErrorCode d)),
     (''fiscal_documents_error_message_not_blank'', not_blank (Doc_ErrorMessage d)),
     (''fiscal_documents_external_reference_not_blank'', not_blank (Doc_ExternalReference d)),
     (''fiscal_documents_issued_at_check'',
        case Doc_IssuedAt d of None \<Rightarrow> True | Some t \<Rightarrow> t \<ge> Doc_CreatedAt d),
     (''fiscal_documents_model_nfce'', Doc_DocumentModel d = 65),
     (''fiscal_documents_number_positive'', case Doc_Number d of None \<Rightarrow> True | Some n \<Rightarrow> n > 0),
     (''fiscal_documents_protocol_not_blank'', not_blank (Doc_Protocol d)),
     (''fiscal_documents_provider_not_blank'', not_blank (Doc_Provider d)),
     (''fiscal_documents_series_positive'', case Doc_Series d of None \<Rightarrow> True | Some n \<Rightarrow> n > 0),
     (''fiscal_documents_updated_at_check'', Doc_UpdatedAt d \<ge> Doc_CreatedAt d)])"

section \<open>Scopes and actors\<close>

record store_scope =
  SS_OrganizationID :: uuid
  SS_StoreID :: uuid

record actor_scope =
  AS_OrganizationID :: uuid
  AS_StoreID :: uuid
  AS_ActorMembershipID :: uuid

record store_actor =
  Actor_UserID :: uuid
  Actor_SessionID :: uuid
  Actor_OrganizationID :: uuid
  Actor_MembershipID :: uuid
  Actor_StoreID :: uuid
  Actor_ClientID :: string

definition ToStoreScope :: "store_actor \<Rightarrow> store_scope" where
  "ToStoreScope a = \<lparr>SS_OrganizationID = Actor_OrganizationID a, SS_StoreID = Actor_StoreID a\<rparr>"

definition ToActorScope :: "store_actor \<Rightarrow> actor_scope" where
  "ToActorScope a = \<lparr>AS_OrganizationID = Actor_OrganizationID a, AS_StoreID = Actor_StoreID a,
     AS_ActorMembershipID = Actor_MembershipID a\<rparr>"

lemma scope_simps [simp]:
  "SS_OrganizationID (ToStoreScope a) = Actor_OrganizationID a"
  "SS_StoreID (ToStoreScope a) = Actor_StoreID a"
  "AS_OrganizationID (ToActorScope a) = Actor_OrganizationID a"
  "AS_StoreID (ToActorScope a) = Actor_StoreID a"
  "AS_ActorMembershipID (ToActorScope a) = Actor_MembershipID a"
  by (simp_all add: ToStoreScope_def ToActorScope_def)

section \<open>Transactions\<close>

text \<open>
  \<open>WithTx\<close> begins, runs the body, commits when it returned nil and rolls back otherwise. The
  body sees the tables as they were at the beginning, and \<open>NOW()\<close> is the time the
  transaction began. Whether \<open>Begin\<close> and \<open>Commit\<close> fail is a parameter.
\<close>

record txn =
  tx_now :: time
  tx_begin_error :: "string option"
  tx_commit_error :: "string option"

definition WithTx ::
    "txn \<Rightarrow> ('d \<Rightarrow> 's go_error + 'a \<times> 'd) \<Rightarrow> 'd \<Rightarrow> ('s go_error + 'a) \<times> 'd" where
  "WithTx T fn d =
     (case tx_begin_error T of
        Some e \<Rightarrow> (Inl (OtherError e), d)
      | None \<Rightarrow>
          (case fn d of
             Inl e \<Rightarrow> (Inl e, d)
           | Inr (r, d') \<Rightarrow>
               (case tx_commit_error T of
                  Some e \<Rightarrow> (Inl (OtherError e), d)
                | None \<Rightarrow> (Inr r, d'))))"

lemma WithTx_Inr [result_simps]:
  "WithTx T fn d = (Inr r, d') \<longleftrightarrow>
     tx_begin_error T = None \<and> tx_commit_error T = None \<and> fn d = Inr (r, d')"
  by (auto simp: WithTx_def split: option.splits sum.splits)

text \<open>Atomicity: a failed transaction leaves the database as it was.\<close>

lemma WithTx_Inl: "WithTx T fn d = (Inl e, d') \<Longrightarrow> d' = d"
  by (auto simp: WithTx_def split: option.splits sum.splits)

lemma WithTx_cases:
  obtains (failed) e where "WithTx T fn d = (Inl e, d)"
  | (committed) r d' where "WithTx T fn d = (Inr r, d')" "fn d = Inr (r, d')"
      "tx_begin_error T = None" "tx_commit_error T = None"
  by (cases "WithTx T fn d"; cases "fst (WithTx T fn d)")
     (auto simp: result_simps dest: WithTx_Inl)

lemma WithTx_keeps:
  assumes "WithTx T fn d = (res, d')" "Q d" "\<And>r d1. fn d = Inr (r, d1) \<Longrightarrow> Q d1"
  shows "Q d'"
  using assms by (cases rule: WithTx_cases [of T fn d]) auto

section \<open>Time stamps in responses\<close>

definition zero_time :: time where
  "zero_time = -62135596800000000"

definition timestampOrZero :: "time option \<Rightarrow> time" where
  "timestampOrZero t = (case t of None \<Rightarrow> zero_time | Some x \<Rightarrow> x)"

end
