(* ===== verification/Checkout_Validation.thy ===== *)
theory Checkout_Validation
  imports Database
begin

text \<open>
  \<open>internal/checkout/validation.go\<close>: the checkout package's own input parsing and decimal
  arithmetic (its errors are \<open>ValidationError\<close>s, its product rounds the two factors first)
  and the integer formatting of field names and idempotency keys; the facts that tie it to
  the arithmetic of the sales package.
\<close>

section \<open>Errors\<close>

datatype checkout_sentinel =
    Checkout_ErrSaleNotFound | Checkout_ErrSaleNotOpen | Checkout_ErrSaleAlreadyCompleted
  | Checkout_ErrSaleHasNoItems | Checkout_ErrPaymentMethodNotFound | Checkout_ErrPaymentMethodInactive
  | Checkout_ErrPaymentsRequired | Checkout_ErrPaymentAmountMismatch | Checkout_ErrInvalidReceivedAmount
  | Checkout_ErrInvalidInstallments | Checkout_ErrInventoryNotFound | Checkout_ErrInsufficientInventory
  | Checkout_ErrFiscalDocumentNotFound | Checkout_ErrFiscalAuthorizationFailed
  | Checkout_ErrReceiptNotAvailable

type_synonym checkout_error = "checkout_sentinel go_error"

section \<open>Integers as text\<close>

function digits_loop :: "int \<Rightarrow> string" where
  "digits_loop value = (if value > 0 then digit_char (nat (value mod 10)) # digits_loop (value div 10) else [])"
  by pat_completeness auto
termination by (relation "measure nat") auto

declare digits_loop.simps [simp del]

definition intToString :: "int \<Rightarrow> string" where
  "intToString value =
     (if value = 0 then ''0''
      else let negative = value < 0;
               value = (if negative then int64 (- value) else value);
               buf = digits_loop value;
               buf = (if negative then buf @ ''-'' else buf) in
        rev buf)"

definition fieldName :: "nat \<Rightarrow> string \<Rightarrow> string" where
  "fieldName index name = ''payments['' @ intToString (int index) @ ''].'' @ name"

section \<open>Decimal arithmetic\<close>

definition Checkout_numericToScaledInt :: "numeric \<Rightarrow> int \<Rightarrow> checkout_error + int" where
  "Checkout_numericToScaledInt = numericToScaledInt_with (ValidationError [])"

definition Checkout_compareMoney :: "numeric \<Rightarrow> numeric \<Rightarrow> checkout_error + int" where
  "Checkout_compareMoney a b =
     chain (Checkout_numericToScaledInt a 2) (\<lambda>left.
     chain (Checkout_numericToScaledInt b 2) (\<lambda>right.
     Inr (big_Cmp left right)))"

definition addMoney :: "numeric \<Rightarrow> numeric \<Rightarrow> checkout_error + numeric" where
  "addMoney a b =
     chain (Checkout_numericToScaledInt a 2) (\<lambda>left.
     chain (Checkout_numericToScaledInt b 2) (\<lambda>right.
     Inr (numericFromScaledInt (left + right) 2)))"

definition Checkout_subtractMoney :: "numeric \<Rightarrow> numeric \<Rightarrow> checkout_error + numeric" where
  "Checkout_subtractMoney minuend subtrahend =
     chain (Checkout_numericToScaledInt minuend 2) (\<lambda>left.
     chain (Checkout_numericToScaledInt subtrahend 2) (\<lambda>right.
     Inr (numericFromScaledInt (left - right) 2)))"

definition Checkout_multiplyMoneyQuantity :: "numeric \<Rightarrow> numeric \<Rightarrow> checkout_error + numeric" where
  "Checkout_multiplyMoneyQuantity unitPrice quantity =
     chain (Checkout_numericToScaledInt unitPrice 2) (\<lambda>left.
     chain (Checkout_numericToScaledInt quantity 3) (\<lambda>right.
     Inr (roundNumeric (left * right) (-5) 2)))"

definition addQuantity :: "numeric \<Rightarrow> numeric \<Rightarrow> checkout_error + numeric" where
  "addQuantity a b =
     chain (Checkout_numericToScaledInt a 3) (\<lambda>left.
     chain (Checkout_numericToScaledInt b 3) (\<lambda>right.
     Inr (numericFromScaledInt (left + right) 3)))"

definition MoneyToString :: "numeric \<Rightarrow> checkout_error + string" where
  "MoneyToString value =
     chain (Checkout_numericToScaledInt value 2) (\<lambda>scaled. Inr (scaledIntToString scaled 2))"

section \<open>Input\<close>

definition Checkout_normalizeMoneyString :: "string \<Rightarrow> string \<Rightarrow> checkout_error + string" where
  "Checkout_normalizeMoneyString field value =
     (let trimmed = strings_TrimSpace value in
      if trimmed = [] then Inl (ValidationError field ''is required'')
      else if has_prefix_char trimmed (CHR ''-'') \<or> has_prefix_char trimmed (CHR ''+'')
      then Inl (ValidationError field ''cannot be negative'')
      else case strings_Cut trimmed (CHR ''.'') of (whole, fraction, hasFraction) \<Rightarrow>
        if hasFraction then
          if whole = [] \<or> fraction = [] \<or> \<not> allDigits whole \<or> \<not> allDigits fraction \<or> length fraction > 2
          then Inl (ValidationError field ''must have at most two decimal places'')
          else let fraction = (if length fraction = 1 then fraction @ ''0'' else fraction) in
            Inr (whole @ ''.'' @ fraction)
        else if \<not> allDigits trimmed
        then Inl (ValidationError field ''must be a valid monetary amount'')
        else Inr (trimmed @ ''.00''))"

definition Checkout_parseMoney :: "env \<Rightarrow> string \<Rightarrow> string \<Rightarrow> checkout_error + numeric" where
  "Checkout_parseMoney E field value =
     chain (Checkout_normalizeMoneyString field value) (\<lambda>canonical.
     case ScanScientific E canonical of
       None \<Rightarrow> Inl (ValidationError field ''must be a valid monetary amount'')
     | Some numeric \<Rightarrow> Inr numeric)"

record checkout_payment_input =
  Pay_PaymentMethodID :: string
  Pay_Amount :: string
  Pay_ReceivedAmount :: "string option"
  Pay_Installments :: "int option"
  Pay_ExternalReference :: "string option"

record normalized_payment =
  NP_PaymentMethodID :: uuid
  NP_Amount :: numeric
  NP_ReceivedAmount :: "numeric option"
  NP_Installments :: int
  NP_ExternalReference :: "string option"

definition normalizeCheckoutPaymentInput ::
    "env \<Rightarrow> checkout_payment_input \<Rightarrow> nat \<Rightarrow> checkout_error + normalized_payment" where
  "normalizeCheckoutPaymentInput E input index =
     chain (parseUUID E (Pay_PaymentMethodID input) (fieldName index ''paymentMethodId'')) (\<lambda>paymentMethodID.
     chain (Checkout_parseMoney E (fieldName index ''amount'') (Pay_Amount input)) (\<lambda>amount.
     chain (case Pay_ReceivedAmount input of None \<Rightarrow> Inr None
            | Some r \<Rightarrow> chain (Checkout_parseMoney E (fieldName index ''receivedAmount'') r) (\<lambda>value. Inr (Some value)))
       (\<lambda>receivedAmount.
     chain (case Pay_Installments input of None \<Rightarrow> Inr 1
            | Some n \<Rightarrow> if n > 32767 then Inl (ValidationError (fieldName index ''installments'') ''is too large'')
                       else Inr (int16 n))
       (\<lambda>installments.
     chain (case Pay_ExternalReference input of None \<Rightarrow> Inr None
            | Some r \<Rightarrow> chain (normalizeRequiredText (fieldName index ''externalReference'') r) (\<lambda>value. Inr (Some value)))
       (\<lambda>externalReference.
     Inr \<lparr>NP_PaymentMethodID = paymentMethodID, NP_Amount = amount, NP_ReceivedAmount = receivedAmount,
          NP_Installments = installments, NP_ExternalReference = externalReference\<rparr>)))))"

fun normalize_payments_loop ::
    "env \<Rightarrow> nat \<Rightarrow> checkout_payment_input list \<Rightarrow> checkout_error + normalized_payment list" where
  "normalize_payments_loop E i [] = Inr []"
| "normalize_payments_loop E i (payment # rest) =
     chain (normalizeCheckoutPaymentInput E payment i) (\<lambda>normalized.
     chain (normalize_payments_loop E (Suc i) rest) (\<lambda>ps. Inr (normalized # ps)))"

definition normalizeCheckoutInput :: "env \<Rightarrow> checkout_payment_input list \<Rightarrow> checkout_error + normalized_payment list" where
  "normalizeCheckoutInput E payments = normalize_payments_loop E 0 payments"

section \<open>Arithmetic: the decimals it computes\<close>

lemma Checkout_numericToScaledInt_denotes:
  "denotes n i 2 \<Longrightarrow> Checkout_numericToScaledInt n 2 = Inr i"
  "denotes n i 3 \<Longrightarrow> Checkout_numericToScaledInt n 3 = Inr i"
  using numericToScaledInt_with_denotes [of n i 2] numericToScaledInt_with_denotes [of n i 3]
  by (simp_all add: Checkout_numericToScaledInt_def)

lemma Checkout_numericToScaledInt_FromScaled [simp]:
  "Checkout_numericToScaledInt (numericFromScaledInt i 2) 2 = Inr i"
  "Checkout_numericToScaledInt (numericFromScaledInt i 3) 3 = Inr i"
  by (rule Checkout_numericToScaledInt_denotes; simp)+

lemma Checkout_arith_denotes:
  "denotes a i 2 \<Longrightarrow> denotes b j 2 \<Longrightarrow> Checkout_compareMoney a b = Inr (big_Cmp i j)"
  "denotes a i 2 \<Longrightarrow> denotes b j 2 \<Longrightarrow> addMoney a b = Inr (numericFromScaledInt (i + j) 2)"
  "denotes a i 2 \<Longrightarrow> denotes b j 2 \<Longrightarrow> Checkout_subtractMoney a b = Inr (numericFromScaledInt (i - j) 2)"
  by (simp_all add: Checkout_compareMoney_def addMoney_def Checkout_subtractMoney_def
      Checkout_numericToScaledInt_denotes)

lemma Checkout_multiply_denotes:
  "denotes a p 2 \<Longrightarrow> denotes b q 3 \<Longrightarrow>
     Checkout_multiplyMoneyQuantity a b = Inr (numericFromScaledInt (gross p q) 2)"
  by (simp add: Checkout_multiplyMoneyQuantity_def Checkout_numericToScaledInt_denotes roundNumeric_def
      gross_def pow10_def)

lemma Checkout_arith_FromScaled [simp]:
  "Checkout_compareMoney (numericFromScaledInt a 2) (numericFromScaledInt b 2) = Inr (big_Cmp a b)"
  "addMoney (numericFromScaledInt a 2) (numericFromScaledInt b 2) = Inr (numericFromScaledInt (a + b) 2)"
  "Checkout_subtractMoney (numericFromScaledInt a 2) (numericFromScaledInt b 2) = Inr (numericFromScaledInt (a - b) 2)"
  "Checkout_multiplyMoneyQuantity (numericFromScaledInt p 2) (numericFromScaledInt q 3) =
     Inr (numericFromScaledInt (gross p q) 2)"
  by (simp_all add: Checkout_arith_denotes [where i = a and j = b] Checkout_multiply_denotes)

text \<open>A quantity sum starts from \<open>zeroMoney()\<close>, a value of scale 2.\<close>

lemma addQuantity_FromScaled [simp]:
  "addQuantity (numericFromScaledInt a 3) (numericFromScaledInt b 3) = Inr (numericFromScaledInt (a + b) 3)"
  "addQuantity zeroMoney (numericFromScaledInt b 3) = Inr (numericFromScaledInt b 3)"
proof -
  have "denotes zeroMoney 0 3" by (simp add: denotes_def zeroMoney_def numericFromScaledInt_def)
  then show "addQuantity (numericFromScaledInt a 3) (numericFromScaledInt b 3) = Inr (numericFromScaledInt (a + b) 3)"
    "addQuantity zeroMoney (numericFromScaledInt b 3) = Inr (numericFromScaledInt b 3)"
    by (simp_all add: addQuantity_def Checkout_numericToScaledInt_denotes)
qed

lemma MoneyToString_FromScaled [simp]: "MoneyToString (numericFromScaledInt i 2) = Inr (scaledIntToString i 2)"
  by (simp add: MoneyToString_def Checkout_numericToScaledInt_denotes [where i = i])

section \<open>Parsing: the same texts as the sales package\<close>

lemma Checkout_normalizeMoneyString_agrees:
  "(case (Checkout_normalizeMoneyString field s, normalizeMoneyString field s :: checkout_error + string) of
      (Inr a, Inr b) \<Rightarrow> a = b
    | (Inl (ValidationError f _), Inl (ValidationError g _)) \<Rightarrow> f = field \<and> g = field
    | _ \<Rightarrow> False)"
  by (simp add: Checkout_normalizeMoneyString_def normalizeMoneyString_def Let_def split: prod.split)

lemma Checkout_parseMoney_eq: "Checkout_parseMoney E field s = Inr n \<longleftrightarrow> parseMoney E field s = (Inr n :: checkout_error + numeric)"
  using Checkout_normalizeMoneyString_agrees [of field s]
  by (auto simp: Checkout_parseMoney_def parseMoney_def result_simps split: sum.splits go_error.splits option.splits)

lemma Checkout_parseMoney_denotes:
  "scan_law E \<Longrightarrow> Checkout_parseMoney E field s = Inr n \<Longrightarrow>
     \<exists>v. money_value (strings_TrimSpace s) = Some v \<and> denotes n v 2 \<and> 0 \<le> v"
  using parseMoney_denotes [where 's = checkout_sentinel] by (simp add: Checkout_parseMoney_eq)

section \<open>Integers as text\<close>

lemma digits_loop_nat_dec: "0 < n \<Longrightarrow> rev (digits_loop (int n)) = nat_dec n"
proof (induction n rule: less_induct)
  case (less n)
  have step: "digits_loop (int n) = digit_char (n mod 10) # digits_loop (int (n div 10))"
    using less.prems by (subst digits_loop.simps) (simp add: zdiv_int zmod_int nat_mod_distrib)
  show ?case
  proof (cases "n < 10")
    case True
    then have "digits_loop (int (n div 10)) = []" by (subst digits_loop.simps) simp
    with True step show ?thesis by (simp add: nat_dec.simps [of n])
  next
    case False
    with less.IH [of "n div 10"] step show ?thesis by (simp add: nat_dec.simps [of n])
  qed
qed

lemma intToString_nat [simp]: "intToString (int n) = nat_dec n"
proof (cases "n = 0")
  case True
  have "nat_dec 0 = ''0''" by code_simp
  with True show ?thesis by (simp add: intToString_def)
next
  case False
  then show ?thesis using digits_loop_nat_dec [of n] by (simp add: intToString_def Let_def)
qed

lemma intToString_int_dec: "- (2 ^ 63) < i \<Longrightarrow> intToString i = int_dec i"
proof (cases "i < 0")
  case True
  assume "- (2 ^ 63) < i"
  with True have "int64 (- i) = int (nat (- i))" by (simp add: int64_id)
  then show ?thesis
    using True digits_loop_nat_dec [of "nat (- i)"] by (simp add: intToString_def int_dec_def Let_def)
next
  case False
  then have "intToString i = nat_dec (nat i)" using intToString_nat [of "nat i"] by simp
  with False show ?thesis by (simp add: int_dec_def)
qed

text \<open>The smallest \<open>int\<close> has no digits: its negation overflows and the loop does not run.\<close>

lemma intToString_min: "intToString (- (2 ^ 63)) = ''-''"
  by (simp add: intToString_def int64_def signed_take_bit_int_eq_self digits_loop.simps Let_def)

end
