(* ===== verification/Tables.thy ===== *)
theory Tables
  imports Database
begin

text \<open>
  The interface of a table: how its rows are read from and written back to the database, and
  the column that is its primary key. The lemmas about key uniqueness, inserts, updates and
  deletes are proved once, inside the locale, and every table of the schema is an
  interpretation.
\<close>

locale row_table =
  fixes rows :: "'d \<Rightarrow> 'r list"
    and set_rows :: "'r list \<Rightarrow> 'd \<Rightarrow> 'd"
    and key :: "'r \<Rightarrow> 'k"
  assumes rows_set_rows [simp]: "rows (set_rows rs d) = rs"
begin

definition unique :: "'d \<Rightarrow> bool" where
  "unique d \<longleftrightarrow> distinct (map key (rows d))"

lemma unique_same_rows: "rows d' = rows d \<Longrightarrow> unique d' = unique d"
  by (simp add: unique_def)

lemma unique_inj: "unique d \<Longrightarrow> r \<in> set (rows d) \<Longrightarrow> r' \<in> set (rows d) \<Longrightarrow> key r = key r' \<Longrightarrow> r = r'"
  by (auto simp: unique_def distinct_map dest: inj_onD)

lemma unique_insert:
  "unique d \<Longrightarrow> List.find (\<lambda>r'. key r' = key r) (rows d) = None \<Longrightarrow> unique (set_rows (rows d @ [r]) d')"
  by (auto simp: unique_def find_None_iff)

lemma unique_update:
  assumes "unique d" "update_row p f (rows d) = Inr (r', rs)" "\<And>r. f r = Inr r' \<Longrightarrow> key r' = key r"
  shows "unique (set_rows rs d')"
proof -
  from update_row_InrD [OF assms(2)] obtain pre r post where
    "rows d = pre @ r # post" "f r = Inr r'" "rs = pre @ r' # post" by blast
  with assms(1,3) show ?thesis by (simp add: unique_def)
qed

lemma unique_delete:
  assumes "unique d" "delete_row p (rows d) = Some (r, rs)"
  shows "unique (set_rows rs d')"
proof -
  from delete_row_InrD [OF assms(2)] obtain pre post where
    "rows d = pre @ r # post" "rs = pre @ post" by blast
  with assms(1) show ?thesis by (auto simp: unique_def)
qed

lemma unique_split:
  assumes "unique d" "rows d = pre @ r # post"
  shows "\<forall>x \<in> set pre. key x \<noteq> key r" "\<forall>x \<in> set post. key x \<noteq> key r"
proof -
  have "key r \<notin> set (map key pre)" "key r \<notin> set (map key post)"
    using assms by (simp_all add: unique_def)
  then show "\<forall>x \<in> set pre. key x \<noteq> key r" "\<forall>x \<in> set post. key x \<noteq> key r"
    by (metis image_eqI list.set_map)+
qed

text \<open>With unique keys, the row an update changes is the only one with its key.\<close>

lemma update_only:
  assumes "unique d" "update_row p f (rows d) = Inr (r', rs)"
    and "\<And>r. f r = Inr r' \<Longrightarrow> key r' = key r"
  shows "\<exists>r. r \<in> set (rows d) \<and> p r \<and> f r = Inr r' \<and> key r' = key r \<and>
    set rs = insert r' {q \<in> set (rows d). key q \<noteq> key r}"
proof -
  from update_row_InrD [OF assms(2)] obtain pre r post where
    s: "rows d = pre @ r # post" "p r" "f r = Inr r'" "rs = pre @ r' # post" by blast
  with unique_split [OF assms(1)] have "set rs = insert r' {q \<in> set (rows d). key q \<noteq> key r}" by auto
  with s assms(3) show ?thesis by (intro exI [of _ r]) auto
qed

lemma delete_only:
  assumes "unique d" "delete_row p (rows d) = Some (r, rs)"
  shows "r \<in> set (rows d) \<and> p r \<and> set rs = {q \<in> set (rows d). key q \<noteq> key r}"
proof -
  from delete_row_InrD [OF assms(2)] obtain pre post where
    s: "rows d = pre @ r # post" "p r" "rs = pre @ post" by blast
  with unique_split [OF assms(1) s(1)] show ?thesis by auto
qed

text \<open>An \<open>UPDATE\<close> of every matching row changes the same single row.\<close>

lemma update_row_is_map:
  assumes "unique d" "update_row p f (rows d) = Inr (r', rs)"
    and pins: "\<And>q q'. q \<in> set (rows d) \<Longrightarrow> q' \<in> set (rows d) \<Longrightarrow> p q \<Longrightarrow> p q' \<Longrightarrow> key q = key q'"
  shows "rs = map (\<lambda>q. if p q then r' else q) (rows d)"
proof -
  from update_row_InrD [OF assms(2)] obtain pre r post where
    s: "rows d = pre @ r # post" "p r" "\<forall>q \<in> set pre. \<not> p q" "rs = pre @ r' # post" by blast
  have "\<not> p q" if q: "q \<in> set post" for q
  proof
    assume "p q"
    with q s(1,2) have "key q = key r" by (intro pins) simp_all
    with q unique_split(2) [OF assms(1) s(1)] show False by blast
  qed
  then have "map (\<lambda>q. if p q then r' else q) post = post" "map (\<lambda>q. if p q then r' else q) pre = pre"
    using s(3) by (auto intro!: map_idI)
  with s show ?thesis by simp
qed

end

text \<open>The tables of the schema.\<close>

interpretation products: row_table db_products "\<lambda>rs d. d\<lparr>db_products := rs\<rparr>" Product_ID
  by unfold_locales simp

interpretation counters: row_table db_counters "\<lambda>rs d. d\<lparr>db_counters := rs\<rparr>"
    "\<lambda>c. (Counter_OrganizationID c, Counter_StoreID c)"
  by unfold_locales simp

interpretation sales: row_table db_sales "\<lambda>rs d. d\<lparr>db_sales := rs\<rparr>" Sale_ID
  by unfold_locales simp

interpretation sale_items: row_table db_sale_items "\<lambda>rs d. d\<lparr>db_sale_items := rs\<rparr>" Item_ID
  by unfold_locales simp

interpretation stock: row_table db_inventory "\<lambda>rs d. d\<lparr>db_inventory := rs\<rparr>"
    "\<lambda>i. (Inventory_OrganizationID i, Inventory_StoreID i, Inventory_ProductID i)"
  by unfold_locales simp

interpretation movements: row_table db_movements "\<lambda>rs d. d\<lparr>db_movements := rs\<rparr>" Movement_ID
  by unfold_locales simp

interpretation payments: row_table db_payments "\<lambda>rs d. d\<lparr>db_payments := rs\<rparr>" Payment_ID
  by unfold_locales simp

interpretation documents: row_table db_fiscal_documents "\<lambda>rs d. d\<lparr>db_fiscal_documents := rs\<rparr>" Doc_ID
  by unfold_locales simp

end
