(* ===== verification/Sales_Queries.thy ===== *)
theory Sales_Queries
  imports Tables
begin

text \<open>
  The statements of \<open>internal/platform/database/sales.sql.go\<close> (and the product lookup of
  \<open>products.sql.go\<close>) on the tables. Each takes what its \<open>Params\<close> struct carries; statements
  that write take \<open>NOW()\<close>.
\<close>

definition sale_in_scope :: "uuid \<Rightarrow> uuid \<Rightarrow> uuid \<Rightarrow> sale \<Rightarrow> bool" where
  "sale_in_scope org store sid s \<longleftrightarrow>
     Sale_OrganizationID s = org \<and> Sale_StoreID s = store \<and> Sale_ID s = sid"

definition item_in_sale :: "uuid \<Rightarrow> uuid \<Rightarrow> uuid \<Rightarrow> sale_item \<Rightarrow> bool" where
  "item_in_sale org store sid i \<longleftrightarrow>
     Item_OrganizationID i = org \<and> Item_StoreID i = store \<and> Item_SaleID i = sid"

section \<open>Reads\<close>

definition GetSaleByIDForStore :: "store_scope \<Rightarrow> uuid \<Rightarrow> db \<Rightarrow> 's go_error + sale" where
  "GetSaleByIDForStore scope sid d =
     one_row (List.find (sale_in_scope (SS_OrganizationID scope) (SS_StoreID scope) sid) (db_sales d))"

text \<open>\<open>SELECT ... FOR UPDATE\<close>: the same row; the lock it takes lasts until the transaction ends.\<close>

definition LockSaleByIDForStore :: "store_scope \<Rightarrow> uuid \<Rightarrow> db \<Rightarrow> 's go_error + sale" where
  "LockSaleByIDForStore scope sid d =
     one_row (List.find (sale_in_scope (SS_OrganizationID scope) (SS_StoreID scope) sid) (db_sales d))"

definition sale_matches_filter :: "store_scope \<Rightarrow> sale_status option \<Rightarrow> sale \<Rightarrow> bool" where
  "sale_matches_filter scope status s \<longleftrightarrow>
     Sale_OrganizationID s = SS_OrganizationID scope \<and> Sale_StoreID s = SS_StoreID scope \<and>
     (case status of None \<Rightarrow> True | Some st \<Rightarrow> Sale_Status s = st)"

definition ListSalesForStore :: "store_scope \<Rightarrow> sale_status option \<Rightarrow> int \<Rightarrow> int \<Rightarrow> db \<Rightarrow> 's go_error + sale list" where
  "ListSalesForStore scope status pageOffset pageSize d =
     (if pageSize < 0 then Inl (PgError ''2201W'' [])
      else if pageOffset < 0 then Inl (PgError ''2201X'' [])
      else Inr (take (nat pageSize) (drop (nat pageOffset)
        (rev (sort_key (\<lambda>s. (Sale_CreatedAt s, Sale_ID s))
          (filter (sale_matches_filter scope status) (db_sales d)))))))"

definition CountSalesForStore :: "store_scope \<Rightarrow> sale_status option \<Rightarrow> db \<Rightarrow> int" where
  "CountSalesForStore scope status d = int (length (filter (sale_matches_filter scope status) (db_sales d)))"

definition GetSaleItemByIDForStore :: "store_scope \<Rightarrow> uuid \<Rightarrow> uuid \<Rightarrow> db \<Rightarrow> 's go_error + sale_item" where
  "GetSaleItemByIDForStore scope saleID itemID d =
     one_row (List.find (\<lambda>i. item_in_sale (SS_OrganizationID scope) (SS_StoreID scope) saleID i \<and> Item_ID i = itemID)
       (db_sale_items d))"

definition ListSaleItemsBySaleIDForStore :: "store_scope \<Rightarrow> uuid \<Rightarrow> db \<Rightarrow> sale_item list" where
  "ListSaleItemsBySaleIDForStore scope saleID d =
     sort_key (\<lambda>i. (Item_CreatedAt i, Item_ID i))
       (filter (item_in_sale (SS_OrganizationID scope) (SS_StoreID scope) saleID) (db_sale_items d))"

definition GetProductByIDForStore :: "store_scope \<Rightarrow> uuid \<Rightarrow> db \<Rightarrow> 's go_error + product" where
  "GetProductByIDForStore scope pid d =
     one_row (if (SS_OrganizationID scope, SS_StoreID scope) \<in> set (db_stores d)
       then List.find (\<lambda>p. Product_OrganizationID p = SS_OrganizationID scope \<and> Product_ID p = pid) (db_products d)
       else None)"

section \<open>Writes\<close>

text \<open>
  \<open>CreateSaleForStore\<close>: an existing sale with the idempotency key is returned as it is;
  otherwise the store's counter is advanced and a new row inserted. (The statement's
  \<open>ON CONFLICT\<close> arm on the idempotency key serves a concurrent insert that the
  \<open>existing\<close> subquery did not see; with transactions taken one at a time it cannot apply.)
\<close>

definition next_sale_number :: "actor_scope \<Rightarrow> db \<Rightarrow> int" where
  "next_sale_number scope d =
     (case List.find (\<lambda>c. Counter_OrganizationID c = AS_OrganizationID scope \<and> Counter_StoreID c = AS_StoreID scope)
        (db_counters d) of None \<Rightarrow> 1 | Some c \<Rightarrow> Counter_NextNumber c)"

definition advance_sale_counter :: "actor_scope \<Rightarrow> db \<Rightarrow> sale_number_counter list" where
  "advance_sale_counter scope d =
     (let here = (\<lambda>c. Counter_OrganizationID c = AS_OrganizationID scope \<and> Counter_StoreID c = AS_StoreID scope) in
      case List.find here (db_counters d) of
        None \<Rightarrow> db_counters d @ [\<lparr>Counter_OrganizationID = AS_OrganizationID scope,
                 Counter_StoreID = AS_StoreID scope, Counter_NextNumber = 2\<rparr>]
      | Some _ \<Rightarrow> map (\<lambda>c. if here c then c\<lparr>Counter_NextNumber := Counter_NextNumber c + 1\<rparr> else c) (db_counters d))"

definition new_sale :: "actor_scope \<Rightarrow> time \<Rightarrow> uuid \<Rightarrow> int \<Rightarrow> string \<Rightarrow> sale" where
  "new_sale scope now sid number idempotencyKey =
     \<lparr>Sale_ID = sid, Sale_OrganizationID = AS_OrganizationID scope, Sale_StoreID = AS_StoreID scope,
      Sale_Number = number, Sale_IdempotencyKey = idempotencyKey, Sale_Status = SaleOPEN,
      Sale_Subtotal = 0, Sale_Discount = 0, Sale_Addition = 0, Sale_Total = 0,
      Sale_OpenedByMembershipID = AS_ActorMembershipID scope,
      Sale_CompletedByMembershipID = None, Sale_CancelledByMembershipID = None,
      Sale_OpenedAt = now, Sale_CompletedAt = None, Sale_CancelledAt = None,
      Sale_CreatedAt = now, Sale_UpdatedAt = now\<rparr>"

definition CreateSaleForStore :: "env \<Rightarrow> time \<Rightarrow> actor_scope \<Rightarrow> string \<Rightarrow> db \<Rightarrow> 's go_error + sale \<times> db" where
  "CreateSaleForStore E now scope idempotencyKey d =
     (case List.find (\<lambda>s. Sale_OrganizationID s = AS_OrganizationID scope \<and> Sale_StoreID s = AS_StoreID scope \<and>
             Sale_IdempotencyKey s = idempotencyKey) (db_sales d) of
        Some s \<Rightarrow> Inr (s, d)
      | None \<Rightarrow>
          let number = next_sale_number scope d;
              sid = uuidv7 E (db_uuid_calls d);
              s = new_sale scope now sid number idempotencyKey in
          chain (pg_varchar 255 idempotencyKey) (\<lambda>_.
          chain (check_row (sale_checks s)) (\<lambda>_.
          chain (guard_error (List.find (\<lambda>r. Sale_ID r = sid) (db_sales d) = None)
                  (PgError ''23505'' ''sales_pkey'')) (\<lambda>_.
          chain (guard_error (List.find (\<lambda>r. Sale_OrganizationID r = AS_OrganizationID scope \<and>
                    Sale_StoreID r = AS_StoreID scope \<and> Sale_Number r = number) (db_sales d) = None)
                  (PgError ''23505'' ''sales_organization_store_number_unique'')) (\<lambda>_.
          chain (guard_error ((AS_OrganizationID scope, AS_StoreID scope) \<in> set (db_stores d))
                  (PgError ''23503'' ''sales_store_fkey'')) (\<lambda>_.
          chain (guard_error ((AS_OrganizationID scope, AS_ActorMembershipID scope) \<in> set (db_memberships d))
                  (PgError ''23503'' ''sales_opened_by_membership_fkey'')) (\<lambda>_.
          Inr (s, d\<lparr>db_counters := advance_sale_counter scope d, db_sales := db_sales d @ [s],
                    db_uuid_calls := Suc (db_uuid_calls d)\<rparr>))))))))"

text \<open>An \<open>UPDATE sales\<close>: both row triggers, then the constraints of the new row.\<close>

definition write_sale :: "time \<Rightarrow> (sale \<Rightarrow> sale) \<Rightarrow> sale \<Rightarrow> 's go_error + sale" where
  "write_sale now f s =
     (let s' = (f s)\<lparr>Sale_UpdatedAt := now\<rparr> in
      chain (guard_error (sale_transition_ok (Sale_Status s) (Sale_Status s'))
               (PgError ''23514'' ''sales_status_transition_check'')) (\<lambda>_.
      chain (check_row (sale_checks s')) (\<lambda>_. Inr s')))"

definition update_sale ::
    "time \<Rightarrow> (sale \<Rightarrow> bool) \<Rightarrow> (sale \<Rightarrow> sale) \<Rightarrow> db \<Rightarrow> 's go_error + sale \<times> db" where
  "update_sale now cond f d =
     chain (update_row cond (write_sale now f) (db_sales d))
     (\<lambda>(s', rows). Inr (s', d\<lparr>db_sales := rows\<rparr>))"

lemma write_sale_eq_Inr [result_simps]:
  "write_sale now f s = Inr r \<longleftrightarrow> r = (f s)\<lparr>Sale_UpdatedAt := now\<rparr> \<and>
     sale_transition_ok (Sale_Status s) (Sale_Status r) \<and> first_violation (sale_checks r) = None"
  by (auto simp: write_sale_def Let_def result_simps)

definition RecalculateSaleTotalsForStore ::
    "time \<Rightarrow> store_scope \<Rightarrow> uuid \<Rightarrow> numeric \<Rightarrow> numeric \<Rightarrow> numeric \<Rightarrow> numeric \<Rightarrow> db \<Rightarrow> 's go_error + sale \<times> db" where
  "RecalculateSaleTotalsForStore now scope saleID subtotal discount addition totalAmount d =
     chain (pg_numeric_not_null 2 subtotal) (\<lambda>sub.
     chain (pg_numeric_not_null 2 discount) (\<lambda>disc.
     chain (pg_numeric_not_null 2 addition) (\<lambda>add.
     chain (pg_numeric_not_null 2 totalAmount) (\<lambda>tot.
     update_sale now
       (\<lambda>s. sale_in_scope (SS_OrganizationID scope) (SS_StoreID scope) saleID s \<and> Sale_Status s = SaleOPEN)
       (\<lambda>s. s\<lparr>Sale_Subtotal := sub, Sale_Discount := disc, Sale_Addition := add, Sale_Total := tot\<rparr>) d))))"

definition CompleteSaleForStore :: "time \<Rightarrow> actor_scope \<Rightarrow> uuid \<Rightarrow> db \<Rightarrow> 's go_error + sale \<times> db" where
  "CompleteSaleForStore now scope saleID d =
     chain (update_sale now
       (\<lambda>s. sale_in_scope (AS_OrganizationID scope) (AS_StoreID scope) saleID s \<and> Sale_Status s = SaleOPEN)
       (\<lambda>s. s\<lparr>Sale_Status := SaleCOMPLETED, Sale_CompletedByMembershipID := Some (AS_ActorMembershipID scope),
              Sale_CompletedAt := Some now\<rparr>) d) (\<lambda>r.
     chain (guard_error ((AS_OrganizationID scope, AS_ActorMembershipID scope) \<in> set (db_memberships d))
       (PgError ''23503'' ''sales_completed_by_membership_fkey'')) (\<lambda>_. Inr r))"

definition CancelSaleForStore :: "time \<Rightarrow> actor_scope \<Rightarrow> uuid \<Rightarrow> db \<Rightarrow> 's go_error + sale \<times> db" where
  "CancelSaleForStore now scope saleID d =
     chain (update_sale now
       (\<lambda>s. sale_in_scope (AS_OrganizationID scope) (AS_StoreID scope) saleID s \<and>
            (Sale_Status s = SaleOPEN \<or> Sale_Status s = SaleCOMPLETED))
       (\<lambda>s. s\<lparr>Sale_Status := SaleCANCELLED, Sale_CancelledByMembershipID := Some (AS_ActorMembershipID scope),
              Sale_CancelledAt := Some now\<rparr>) d) (\<lambda>r.
     chain (guard_error ((AS_OrganizationID scope, AS_ActorMembershipID scope) \<in> set (db_memberships d))
       (PgError ''23503'' ''sales_cancelled_by_membership_fkey'')) (\<lambda>_. Inr r))"

record create_sale_item_params =
  CI_SaleID :: uuid
  CI_ProductID :: uuid
  CI_ProductName :: string
  CI_ProductSKU :: string
  CI_UnitPrice :: numeric
  CI_Quantity :: numeric
  CI_Discount :: numeric
  CI_Total :: numeric

definition CreateSaleItemForStore ::
    "env \<Rightarrow> time \<Rightarrow> store_scope \<Rightarrow> create_sale_item_params \<Rightarrow> db \<Rightarrow> 's go_error + sale_item \<times> db" where
  "CreateSaleItemForStore E now scope P d =
     chain (pg_numeric_not_null 2 (CI_UnitPrice P)) (\<lambda>unitPrice.
     chain (pg_numeric_not_null 3 (CI_Quantity P)) (\<lambda>quantity.
     chain (pg_numeric_not_null 2 (CI_Discount P)) (\<lambda>discount.
     chain (pg_numeric_not_null 2 (CI_Total P)) (\<lambda>tot.
     chain (pg_varchar 150 (CI_ProductName P)) (\<lambda>name.
     chain (pg_varchar 50 (CI_ProductSKU P)) (\<lambda>sku.
     let iid = uuidv7 E (db_uuid_calls d);
         i = \<lparr>Item_ID = iid, Item_OrganizationID = SS_OrganizationID scope, Item_StoreID = SS_StoreID scope,
              Item_SaleID = CI_SaleID P, Item_ProductID = CI_ProductID P, Item_ProductName = name,
              Item_ProductSKU = sku, Item_UnitPrice = unitPrice, Item_Quantity = quantity,
              Item_Discount = discount, Item_Total = tot, Item_CreatedAt = now\<rparr> in
     chain (check_row (sale_item_checks i)) (\<lambda>_.
     chain (guard_error (List.find (\<lambda>r. Item_ID r = iid) (db_sale_items d) = None)
             (PgError ''23505'' ''sale_items_pkey'')) (\<lambda>_.
     chain (guard_error (List.find (sale_in_scope (SS_OrganizationID scope) (SS_StoreID scope) (CI_SaleID P))
               (db_sales d) \<noteq> None)
             (PgError ''23503'' ''sale_items_sale_fk'')) (\<lambda>_.
     chain (guard_error (List.find (\<lambda>p. Product_OrganizationID p = SS_OrganizationID scope \<and>
               Product_ID p = CI_ProductID P) (db_products d) \<noteq> None)
             (PgError ''23503'' ''sale_items_product_fk'')) (\<lambda>_.
     Inr (i, d\<lparr>db_sale_items := db_sale_items d @ [i], db_uuid_calls := Suc (db_uuid_calls d)\<rparr>)))))))))))"

definition UpdateSaleItemForStore ::
    "store_scope \<Rightarrow> uuid \<Rightarrow> uuid \<Rightarrow> numeric \<Rightarrow> numeric \<Rightarrow> numeric \<Rightarrow> db \<Rightarrow> 's go_error + sale_item \<times> db" where
  "UpdateSaleItemForStore scope saleID itemID quantity discount totalAmount d =
     chain (pg_numeric_not_null 3 quantity) (\<lambda>q.
     chain (pg_numeric_not_null 2 discount) (\<lambda>disc.
     chain (pg_numeric_not_null 2 totalAmount) (\<lambda>tot.
     chain (update_row
       (\<lambda>i. item_in_sale (SS_OrganizationID scope) (SS_StoreID scope) saleID i \<and> Item_ID i = itemID)
       (\<lambda>i. let i' = i\<lparr>Item_Quantity := q, Item_Discount := disc, Item_Total := tot\<rparr> in
         chain (check_row (sale_item_checks i')) (\<lambda>_. Inr i'))
       (db_sale_items d))
     (\<lambda>(i', rows). Inr (i', d\<lparr>db_sale_items := rows\<rparr>)))))"

definition DeleteSaleItemForStore :: "store_scope \<Rightarrow> uuid \<Rightarrow> uuid \<Rightarrow> db \<Rightarrow> 's go_error + sale_item \<times> db" where
  "DeleteSaleItemForStore scope saleID itemID d =
     chain (one_row (delete_row
       (\<lambda>i. item_in_sale (SS_OrganizationID scope) (SS_StoreID scope) saleID i \<and> Item_ID i = itemID)
       (db_sale_items d)))
     (\<lambda>(i, rows). Inr (i, d\<lparr>db_sale_items := rows\<rparr>))"

end
