(* ===== verification/Inventory_Queries.thy ===== *)
theory Inventory_Queries
  imports Sales_Queries
begin

text \<open>
  The statements of \<open>internal/platform/database/inventory.sql.go\<close>. Quantities are stored in
  thousandths.
\<close>

definition at_stock :: "uuid \<Rightarrow> uuid \<Rightarrow> uuid \<Rightarrow> inventory \<Rightarrow> bool" where
  "at_stock org store pid i \<longleftrightarrow>
     Inventory_OrganizationID i = org \<and> Inventory_StoreID i = store \<and> Inventory_ProductID i = pid"

section \<open>Reads\<close>

definition GetInventoryByProductIDForStore :: "store_scope \<Rightarrow> uuid \<Rightarrow> db \<Rightarrow> 's go_error + inventory" where
  "GetInventoryByProductIDForStore scope pid d =
     one_row (List.find (at_stock (SS_OrganizationID scope) (SS_StoreID scope) pid) (db_inventory d))"

text \<open>The inner join of \<open>inventory\<close> and \<open>products\<close>, filtered.\<close>

definition inventory_search_matches :: "env \<Rightarrow> string option \<Rightarrow> bool \<Rightarrow> product \<Rightarrow> bool" where
  "inventory_search_matches E search activeOnly p \<longleftrightarrow>
     (case search of None \<Rightarrow> True
      | Some s \<Rightarrow> let pattern = ''%'' @ s @ ''%'' in
          pg_ILIKE E (Product_Name p) pattern \<or> pg_ILIKE E (Product_SKU p) pattern \<or>
          (case Product_Barcode p of None \<Rightarrow> False | Some b \<Rightarrow> pg_ILIKE E b pattern)) \<and>
     (\<not> activeOnly \<or> Product_IsActive p)"

definition inventory_join :: "env \<Rightarrow> store_scope \<Rightarrow> string option \<Rightarrow> bool \<Rightarrow> db \<Rightarrow> (inventory \<times> product) list" where
  "inventory_join E scope search activeOnly d =
     [(i, p). i \<leftarrow> db_inventory d, p \<leftarrow> db_products d,
        Product_OrganizationID p = Inventory_OrganizationID i \<and> Product_ID p = Inventory_ProductID i \<and>
        Inventory_OrganizationID i = SS_OrganizationID scope \<and> Inventory_StoreID i = SS_StoreID scope \<and>
        inventory_search_matches E search activeOnly p]"

definition ListInventoryForStore ::
    "env \<Rightarrow> store_scope \<Rightarrow> string option \<Rightarrow> bool \<Rightarrow> int \<Rightarrow> int \<Rightarrow> db \<Rightarrow> 's go_error + (inventory \<times> product) list" where
  "ListInventoryForStore E scope search activeOnly pageOffset pageSize d =
     (if pageSize < 0 then Inl (PgError ''2201W'' [])
      else if pageOffset < 0 then Inl (PgError ''2201X'' [])
      else Inr (take (nat pageSize) (drop (nat pageOffset)
        (sort_key (\<lambda>(i, p). (collation_key E (Product_Name p), Product_ID p))
          (inventory_join E scope search activeOnly d)))))"

definition CountInventoryForStore :: "env \<Rightarrow> store_scope \<Rightarrow> string option \<Rightarrow> bool \<Rightarrow> db \<Rightarrow> int" where
  "CountInventoryForStore E scope search activeOnly d =
     int (length (inventory_join E scope search activeOnly d))"

definition movement_matches :: "store_scope \<Rightarrow> uuid \<Rightarrow> movement_type option \<Rightarrow> inventory_movement \<Rightarrow> bool" where
  "movement_matches scope pid typeFilter m \<longleftrightarrow>
     Movement_OrganizationID m = SS_OrganizationID scope \<and> Movement_StoreID m = SS_StoreID scope \<and>
     Movement_ProductID m = pid \<and>
     (case typeFilter of None \<Rightarrow> True | Some t \<Rightarrow> Movement_MovementType m = t)"

definition ListInventoryMovementsByProductIDForStore ::
    "store_scope \<Rightarrow> uuid \<Rightarrow> movement_type option \<Rightarrow> int \<Rightarrow> int \<Rightarrow> db \<Rightarrow> 's go_error + inventory_movement list" where
  "ListInventoryMovementsByProductIDForStore scope pid typeFilter pageOffset pageSize d =
     (if pageSize < 0 then Inl (PgError ''2201W'' [])
      else if pageOffset < 0 then Inl (PgError ''2201X'' [])
      else Inr (take (nat pageSize) (drop (nat pageOffset)
        (rev (sort_key (\<lambda>m. (Movement_CreatedAt m, Movement_ID m))
          (filter (movement_matches scope pid typeFilter) (db_movements d)))))))"

definition CountInventoryMovementsByProductIDForStore ::
    "store_scope \<Rightarrow> uuid \<Rightarrow> movement_type option \<Rightarrow> db \<Rightarrow> int" where
  "CountInventoryMovementsByProductIDForStore scope pid typeFilter d =
     int (length (filter (movement_matches scope pid typeFilter) (db_movements d)))"

section \<open>Writes\<close>

text \<open>The row \<open>IncreaseInventoryForStore\<close> and \<open>DecreaseInventoryForStore\<close> return.\<close>

record inventory_change =
  Change_PreviousQuantity :: int
  Change_CurrentQuantity :: int
  Change_UpdatedAt :: time

text \<open>
  \<open>INSERT ... ON CONFLICT DO UPDATE\<close>: without a row for the key, one with the quantity;
  otherwise the quantity is added. Nothing is inserted, so no row returned, for a quantity
  that is not positive.
\<close>

definition increase_row :: "time \<Rightarrow> int \<Rightarrow> inventory \<Rightarrow> 's go_error + inventory" where
  "increase_row now q i =
     (let i' = i\<lparr>Inventory_Quantity := Inventory_Quantity i + q, Inventory_UpdatedAt := now\<rparr> in
      chain (guard_error (\<bar>Inventory_Quantity i'\<bar> < 10 ^ 15) (PgError ''22003'' [])) (\<lambda>_.
      chain (check_row (inventory_checks i')) (\<lambda>_. Inr i')))"

definition IncreaseInventoryForStore ::
    "time \<Rightarrow> store_scope \<Rightarrow> uuid \<Rightarrow> numeric \<Rightarrow> db \<Rightarrow> 's go_error + inventory_change \<times> db" where
  "IncreaseInventoryForStore now scope pid quantity d =
     (case pg_numeric_param 3 quantity of
        None \<Rightarrow> Inl ErrNoRows
      | Some q \<Rightarrow>
          if q \<le> 0 then Inl ErrNoRows
          else
          chain (pg_numeric_not_null 3 quantity) (\<lambda>_.
          let here = at_stock (SS_OrganizationID scope) (SS_StoreID scope) pid in
          if List.find here (db_inventory d) = None then
            chain (guard_error ((SS_OrganizationID scope, SS_StoreID scope) \<in> set (db_stores d))
                    (PgError ''23503'' ''inventory_store_fkey'')) (\<lambda>_.
            chain (guard_error (List.find (\<lambda>p. Product_OrganizationID p = SS_OrganizationID scope \<and>
                      Product_ID p = pid) (db_products d) \<noteq> None)
                    (PgError ''23503'' ''inventory_product_fkey'')) (\<lambda>_.
            Inr (\<lparr>Change_PreviousQuantity = 0, Change_CurrentQuantity = q, Change_UpdatedAt = now\<rparr>,
                 d\<lparr>db_inventory := db_inventory d @
                    [\<lparr>Inventory_OrganizationID = SS_OrganizationID scope, Inventory_StoreID = SS_StoreID scope,
                      Inventory_ProductID = pid, Inventory_Quantity = q,
                      Inventory_CreatedAt = now, Inventory_UpdatedAt = now\<rparr>]\<rparr>)))
          else
            chain (update_row here (increase_row now q) (db_inventory d)) (\<lambda>(i', rows).
            Inr (\<lparr>Change_PreviousQuantity = Inventory_Quantity i' - q,
                  Change_CurrentQuantity = Inventory_Quantity i', Change_UpdatedAt = Inventory_UpdatedAt i'\<rparr>,
                 d\<lparr>db_inventory := rows\<rparr>))))"

text \<open>\<open>UPDATE ... WHERE quantity >= $1\<close>: no row comes back when the balance is too low.\<close>

definition decrease_row :: "time \<Rightarrow> int \<Rightarrow> inventory \<Rightarrow> 's go_error + inventory" where
  "decrease_row now q i =
     (let i' = i\<lparr>Inventory_Quantity := Inventory_Quantity i - q, Inventory_UpdatedAt := now\<rparr> in
      chain (check_row (inventory_checks i')) (\<lambda>_. Inr i'))"

definition DecreaseInventoryForStore ::
    "time \<Rightarrow> store_scope \<Rightarrow> uuid \<Rightarrow> numeric \<Rightarrow> db \<Rightarrow> 's go_error + inventory_change \<times> db" where
  "DecreaseInventoryForStore now scope pid quantity d =
     (case pg_numeric_param 3 quantity of
        None \<Rightarrow> Inl ErrNoRows
      | Some q \<Rightarrow>
          chain (update_row
            (\<lambda>i. at_stock (SS_OrganizationID scope) (SS_StoreID scope) pid i \<and> q > 0 \<and> Inventory_Quantity i \<ge> q)
            (decrease_row now q) (db_inventory d)) (\<lambda>(i', rows).
          Inr (\<lparr>Change_PreviousQuantity = Inventory_Quantity i' + q,
                Change_CurrentQuantity = Inventory_Quantity i', Change_UpdatedAt = Inventory_UpdatedAt i'\<rparr>,
               d\<lparr>db_inventory := rows\<rparr>)))"

record create_movement_params =
  CM_ProductID :: uuid
  CM_MovementType :: movement_type
  CM_Quantity :: numeric
  CM_PreviousQuantity :: numeric
  CM_CurrentQuantity :: numeric
  CM_Reason :: "string option"
  CM_ReferenceType :: string
  CM_ReferenceID :: uuid

text \<open>\<open>inventory_movements_reference_unique\<close>.\<close>

definition movement_reference :: "inventory_movement \<Rightarrow> uuid \<times> uuid \<times> uuid \<times> movement_type \<times> string \<times> uuid" where
  "movement_reference m = (Movement_OrganizationID m, Movement_StoreID m, Movement_ProductID m,
     Movement_MovementType m, Movement_ReferenceType m, Movement_ReferenceID m)"

definition CreateInventoryMovementForStore ::
    "env \<Rightarrow> time \<Rightarrow> actor_scope \<Rightarrow> create_movement_params \<Rightarrow> db \<Rightarrow> 's go_error + inventory_movement \<times> db" where
  "CreateInventoryMovementForStore E now scope P d =
     chain (pg_numeric_not_null 3 (CM_Quantity P)) (\<lambda>quantity.
     chain (pg_numeric_not_null 3 (CM_PreviousQuantity P)) (\<lambda>previous.
     chain (pg_numeric_not_null 3 (CM_CurrentQuantity P)) (\<lambda>current.
     chain (pg_varchar 30 (CM_ReferenceType P)) (\<lambda>referenceType.
     let mid = uuidv7 E (db_uuid_calls d);
         m = \<lparr>Movement_OrganizationID = AS_OrganizationID scope, Movement_StoreID = AS_StoreID scope,
              Movement_ID = mid, Movement_ProductID = CM_ProductID P,
              Movement_ActorMembershipID = AS_ActorMembershipID scope,
              Movement_MovementType = CM_MovementType P, Movement_Quantity = quantity,
              Movement_PreviousQuantity = previous, Movement_CurrentQuantity = current,
              Movement_Reason = CM_Reason P, Movement_ReferenceType = referenceType,
              Movement_ReferenceID = CM_ReferenceID P, Movement_CreatedAt = now\<rparr> in
     chain (check_row (movement_checks m)) (\<lambda>_.
     chain (guard_error (List.find (\<lambda>r. Movement_ID r = mid) (db_movements d) = None)
             (PgError ''23505'' ''inventory_movements_pkey'')) (\<lambda>_.
     chain (guard_error (List.find (\<lambda>r. movement_reference r = movement_reference m) (db_movements d) = None)
             (PgError ''23505'' ''inventory_movements_reference_unique'')) (\<lambda>_.
     chain (guard_error ((AS_OrganizationID scope, AS_StoreID scope) \<in> set (db_stores d))
             (PgError ''23503'' ''inventory_movements_store_fkey'')) (\<lambda>_.
     chain (guard_error (List.find (\<lambda>p. Product_OrganizationID p = AS_OrganizationID scope \<and>
               Product_ID p = CM_ProductID P) (db_products d) \<noteq> None)
             (PgError ''23503'' ''inventory_movements_product_fkey'')) (\<lambda>_.
     chain (guard_error ((AS_OrganizationID scope, AS_ActorMembershipID scope) \<in> set (db_memberships d))
             (PgError ''23503'' ''inventory_movements_actor_membership_fkey'')) (\<lambda>_.
     Inr (m, d\<lparr>db_movements := db_movements d @ [m], db_uuid_calls := Suc (db_uuid_calls d)\<rparr>)))))))))))"

end
