(* ===== verification/Payment_Queries.thy ===== *)
theory Payment_Queries
  imports Tables
begin

text \<open>
  The statements of \<open>internal/platform/database/payments.sql.go\<close> and
  \<open>payment_methods.sql.go\<close> the services use, on the tables of payments, payment methods and
  their store bindings.
\<close>

section \<open>Payment methods\<close>

definition GetPaymentMethodByIDForOrganization :: "uuid \<Rightarrow> uuid \<Rightarrow> db \<Rightarrow> 's go_error + payment_method" where
  "GetPaymentMethodByIDForOrganization org mid d =
     one_row (List.find (\<lambda>m. Method_OrganizationID m = org \<and> Method_ID m = mid) (db_payment_methods d))"

text \<open>The join of \<open>CreatePaymentForStore\<close>: an active binding of an active method.\<close>

definition active_binding :: "uuid \<Rightarrow> uuid \<Rightarrow> uuid \<Rightarrow> db \<Rightarrow> bool" where
  "active_binding org store mid d \<longleftrightarrow>
     list_ex (\<lambda>b. Binding_OrganizationID b = org \<and> Binding_StoreID b = store \<and>
         Binding_PaymentMethodID b = mid \<and> Binding_IsActive b) (db_store_payment_methods d) \<and>
     list_ex (\<lambda>m. Method_OrganizationID m = org \<and> Method_ID m = mid \<and> Method_IsActive m) (db_payment_methods d)"

section \<open>Payments\<close>

record create_payment_params =
  CP_SaleID :: uuid
  CP_PaymentMethodID :: uuid
  CP_Amount :: numeric
  CP_ReceivedAmount :: numeric
  CP_ChangeAmount :: numeric
  CP_Installments :: int
  CP_ExternalReference :: "string option"
  CP_IdempotencyKey :: string

definition payment_with_key :: "store_scope \<Rightarrow> string \<Rightarrow> payment \<Rightarrow> bool" where
  "payment_with_key scope key p \<longleftrightarrow> Payment_OrganizationID p = SS_OrganizationID scope \<and>
     Payment_StoreID p = SS_StoreID scope \<and> Payment_IdempotencyKey p = key"

text \<open>\<open>idx_payments_method_external_reference\<close>, a partial unique index.\<close>

definition same_external_reference :: "payment \<Rightarrow> payment \<Rightarrow> bool" where
  "same_external_reference p r \<longleftrightarrow> Payment_ExternalReference p \<noteq> None \<and>
     Payment_OrganizationID r = Payment_OrganizationID p \<and>
     Payment_PaymentMethodID r = Payment_PaymentMethodID p \<and>
     Payment_ExternalReference r = Payment_ExternalReference p"

definition new_payment :: "time \<Rightarrow> store_scope \<Rightarrow> uuid \<Rightarrow> create_payment_params \<Rightarrow> string \<Rightarrow> int \<Rightarrow>
    int option \<Rightarrow> int option \<Rightarrow> string option \<Rightarrow> payment" where
  "new_payment now scope pid P key amount received change externalReference =
     \<lparr>Payment_ID = pid, Payment_OrganizationID = SS_OrganizationID scope,
      Payment_StoreID = SS_StoreID scope, Payment_SaleID = CP_SaleID P,
      Payment_PaymentMethodID = CP_PaymentMethodID P, Payment_IdempotencyKey = key,
      Payment_Status = PayPENDING, Payment_Amount = amount, Payment_ReceivedAmount = received,
      Payment_ChangeAmount = change, Payment_Installments = CP_Installments P,
      Payment_ExternalReference = externalReference, Payment_PaidAt = None,
      Payment_CancelledAt = None, Payment_CreatedAt = now, Payment_UpdatedAt = now\<rparr>"

text \<open>
  \<open>CreatePaymentForStore\<close>: a payment with the idempotency key is returned as it is; otherwise
  one is inserted when the store has an active binding of the active method; otherwise no
  row comes back.
\<close>

definition CreatePaymentForStore ::
    "env \<Rightarrow> time \<Rightarrow> store_scope \<Rightarrow> create_payment_params \<Rightarrow> db \<Rightarrow> 's go_error + payment \<times> db" where
  "CreatePaymentForStore E now scope P d =
     (case List.find (payment_with_key scope (CP_IdempotencyKey P)) (db_payments d) of
        Some p \<Rightarrow> Inr (p, d)
      | None \<Rightarrow>
     if \<not> active_binding (SS_OrganizationID scope) (SS_StoreID scope) (CP_PaymentMethodID P) d then Inl ErrNoRows
     else
     chain (pg_varchar 255 (CP_IdempotencyKey P)) (\<lambda>key.
     chain (pg_numeric_not_null 2 (CP_Amount P)) (\<lambda>amount.
     chain (pg_numeric 2 (CP_ReceivedAmount P)) (\<lambda>received.
     chain (pg_numeric 2 (CP_ChangeAmount P)) (\<lambda>change.
     chain (pg_varchar_null 255 (CP_ExternalReference P)) (\<lambda>externalReference.
     let p = new_payment now scope (uuidv7 E (db_uuid_calls d)) P key amount received change externalReference in
     chain (check_row (payment_checks p)) (\<lambda>_.
     chain (guard_error (List.find (\<lambda>r. Payment_ID r = Payment_ID p) (db_payments d) = None)
             (PgError ''23505'' ''payments_pkey'')) (\<lambda>_.
     chain (guard_error (List.find (same_external_reference p) (db_payments d) = None)
             (PgError ''23505'' ''idx_payments_method_external_reference'')) (\<lambda>_.
     chain (guard_error (List.find (\<lambda>s. Sale_OrganizationID s = SS_OrganizationID scope \<and>
               Sale_StoreID s = SS_StoreID scope \<and> Sale_ID s = CP_SaleID P) (db_sales d) \<noteq> None)
             (PgError ''23503'' ''payments_sale_fk'')) (\<lambda>_.
     Inr (p, d\<lparr>db_payments := db_payments d @ [p], db_uuid_calls := Suc (db_uuid_calls d)\<rparr>)))))))))))"

definition payment_in_scope :: "store_scope \<Rightarrow> uuid \<Rightarrow> payment \<Rightarrow> bool" where
  "payment_in_scope scope pid p \<longleftrightarrow> Payment_OrganizationID p = SS_OrganizationID scope \<and>
     Payment_StoreID p = SS_StoreID scope \<and> Payment_ID p = pid"

definition write_payment :: "time \<Rightarrow> (payment \<Rightarrow> payment) \<Rightarrow> payment \<Rightarrow> 's go_error + payment" where
  "write_payment now f p =
     (let p' = (f p)\<lparr>Payment_UpdatedAt := now\<rparr> in
      chain (guard_error (payment_transition_ok (Payment_Status p) (Payment_Status p'))
               (PgError ''23514'' ''payments_status_transition_check'')) (\<lambda>_.
      chain (check_row (payment_checks p')) (\<lambda>_. Inr p')))"

text \<open>\<open>COALESCE(new, old)\<close>.\<close>

definition coalesce :: "'a option \<Rightarrow> 'a option \<Rightarrow> 'a option" where
  "coalesce a b = (case a of None \<Rightarrow> b | Some x \<Rightarrow> Some x)"

definition ApprovePaymentForStore ::
    "time \<Rightarrow> store_scope \<Rightarrow> uuid \<Rightarrow> numeric \<Rightarrow> numeric \<Rightarrow> db \<Rightarrow> 's go_error + payment \<times> db" where
  "ApprovePaymentForStore now scope pid receivedAmount changeAmount d =
     (if List.find (\<lambda>p. payment_in_scope scope pid p \<and> Payment_Status p = PayPENDING) (db_payments d) = None
      then Inl ErrNoRows
      else
      chain (pg_numeric 2 receivedAmount) (\<lambda>received.
      chain (pg_numeric 2 changeAmount) (\<lambda>change.
      chain (update_row (\<lambda>p. payment_in_scope scope pid p \<and> Payment_Status p = PayPENDING)
        (write_payment now (\<lambda>p. p\<lparr>Payment_Status := PayAPPROVED, Payment_PaidAt := Some now,
           Payment_ReceivedAmount := coalesce received (Payment_ReceivedAmount p),
           Payment_ChangeAmount := coalesce change (Payment_ChangeAmount p)\<rparr>))
        (db_payments d)) (\<lambda>(p', rows).
      Inr (p', d\<lparr>db_payments := rows\<rparr>)))))"

definition ListPaymentsBySaleIDForStore :: "store_scope \<Rightarrow> uuid \<Rightarrow> db \<Rightarrow> payment list" where
  "ListPaymentsBySaleIDForStore scope saleID d =
     sort_key (\<lambda>p. (Payment_CreatedAt p, Payment_ID p))
       (filter (\<lambda>p. Payment_OrganizationID p = SS_OrganizationID scope \<and> Payment_StoreID p = SS_StoreID scope \<and>
          Payment_SaleID p = saleID) (db_payments d))"

section \<open>Facts\<close>

lemma write_payment_eq_Inr [result_simps]:
  "write_payment now f p = Inr r \<longleftrightarrow> r = (f p)\<lparr>Payment_UpdatedAt := now\<rparr> \<and>
     payment_transition_ok (Payment_Status p) (Payment_Status r) \<and> first_violation (payment_checks r) = None"
  by (auto simp: write_payment_def Let_def result_simps)

lemma CreatePayment_newE:
  assumes "CreatePaymentForStore E now scope P d = (Inr (p, d') :: 's go_error + _)"
    and "List.find (payment_with_key scope (CP_IdempotencyKey P)) (db_payments d) = None"
  obtains amount received change where
    "pg_numeric_not_null 2 (CP_Amount P) = (Inr amount :: 's go_error + _)"
    "pg_numeric 2 (CP_ReceivedAmount P) = (Inr received :: 's go_error + _)"
    "pg_numeric 2 (CP_ChangeAmount P) = (Inr change :: 's go_error + _)"
    "p = new_payment now scope (uuidv7 E (db_uuid_calls d)) P (CP_IdempotencyKey P) amount received change
       (CP_ExternalReference P)"
    "active_binding (SS_OrganizationID scope) (SS_StoreID scope) (CP_PaymentMethodID P) d"
    "first_violation (payment_checks p) = None" "\<forall>r \<in> set (db_payments d). Payment_ID r \<noteq> Payment_ID p"
    "d' = d\<lparr>db_payments := db_payments d @ [p], db_uuid_calls := Suc (db_uuid_calls d)\<rparr>"
  using assms
  by (auto simp: CreatePaymentForStore_def Let_def result_simps find_None_iff split: if_splits)

lemma coalesce_None [simp]: "coalesce None b = b"
  and coalesce_Some [simp]: "coalesce (Some x) b = Some x"
  by (simp_all add: coalesce_def)

end
