(* ===== verification/Sha256.thy ===== *)
theory Sha256
  imports Go_Strings "HOL-Library.Word"
begin

text \<open>
  \<open>crypto/sha256\<close> and \<open>encoding/hex\<close> of the Go standard library, as far as the mock fiscal
  provider uses them: \<open>Sum256\<close> (FIPS 180-4) on 32-bit words and \<open>EncodeToString\<close>.
\<close>

unbundle bit_operations_syntax

definition sha256_k :: "32 word list" where
  "sha256_k =
    [1116352408, 1899447441, 3049323471, 3921009573, 961987163, 1508970993, 2453635748, 2870763221,
     3624381080, 310598401, 607225278, 1426881987, 1925078388, 2162078206, 2614888103, 3248222580,
     3835390401, 4022224774, 264347078, 604807628, 770255983, 1249150122, 1555081692, 1996064986,
     2554220882, 2821834349, 2952996808, 3210313671, 3336571891, 3584528711, 113926993, 338241895,
     666307205, 773529912, 1294757372, 1396182291, 1695183700, 1986661051, 2177026350, 2456956037,
     2730485921, 2820302411, 3259730800, 3345764771, 3516065817, 3600352804, 4094571909, 275423344,
     430227734, 506948616, 659060556, 883997877, 958139571, 1322822218, 1537002063, 1747873779,
     1955562222, 2024104815, 2227730452, 2361852424, 2428436474, 2756734187, 3204031479, 3329325298]"

definition sha256_init :: "32 word list" where
  "sha256_init =
    [1779033703, 3144134277, 1013904242, 2773480762, 1359893119, 2600822924, 528734635, 1541459225]"

section \<open>Padding\<close>

fun big_endian :: "nat \<Rightarrow> nat \<Rightarrow> nat list" where
  "big_endian 0 n = []"
| "big_endian (Suc k) n = big_endian k (n div 256) @ [n mod 256]"

definition sha256_pad :: "nat list \<Rightarrow> nat list" where
  "sha256_pad bytes =
     (let n = length bytes; zeros = (119 - n mod 64) mod 64 in
      bytes @ [128] @ replicate zeros 0 @ big_endian 8 (8 * n))"

definition word_of_bytes :: "nat list \<Rightarrow> 32 word" where
  "word_of_bytes bs = of_nat (foldl (\<lambda>a b. 256 * a + b) 0 bs)"

fun chunks :: "nat \<Rightarrow> nat \<Rightarrow> 'a list \<Rightarrow> 'a list list" where
  "chunks 0 k xs = []"
| "chunks (Suc n) k xs = take k xs # chunks n k (drop k xs)"

section \<open>Compression\<close>

definition sigma :: "nat \<Rightarrow> nat \<Rightarrow> nat \<Rightarrow> 32 word \<Rightarrow> 32 word" where
  "sigma a b c x = (word_rotr a x XOR word_rotr b x) XOR drop_bit c x"

definition big_sigma :: "nat \<Rightarrow> nat \<Rightarrow> nat \<Rightarrow> 32 word \<Rightarrow> 32 word" where
  "big_sigma a b c x = (word_rotr a x XOR word_rotr b x) XOR word_rotr c x"

text \<open>The message schedule, newest word first.\<close>

fun extend_schedule :: "nat \<Rightarrow> 32 word list \<Rightarrow> 32 word list" where
  "extend_schedule 0 ws = ws"
| "extend_schedule (Suc n) ws =
     extend_schedule n
       ((sigma 17 19 10 (ws ! 1) + ws ! 6 + sigma 7 18 3 (ws ! 14) + ws ! 15) # ws)"

definition schedule :: "32 word list \<Rightarrow> 32 word list" where
  "schedule ws = rev (extend_schedule 48 (rev ws))"

type_synonym sha_state = "32 word \<times> 32 word \<times> 32 word \<times> 32 word \<times> 32 word \<times> 32 word \<times> 32 word \<times> 32 word"

fun sha_round :: "sha_state \<Rightarrow> 32 word \<times> 32 word \<Rightarrow> sha_state" where
  "sha_round (a, b, c, d, e, f, g, h) (k, w) =
     (let t1 = h + big_sigma 6 11 25 e + ((e AND f) XOR (NOT e AND g)) + k + w;
          t2 = big_sigma 2 13 22 a + ((a AND b) XOR (a AND c) XOR (b AND c)) in
      (t1 + t2, a, b, c, d + t1, e, f, g))"

fun state_list :: "sha_state \<Rightarrow> 32 word list" where
  "state_list (a, b, c, d, e, f, g, h) = [a, b, c, d, e, f, g, h]"

definition compress :: "32 word list \<Rightarrow> nat list \<Rightarrow> 32 word list" where
  "compress hs block =
     (let ws = schedule (map word_of_bytes (chunks 16 4 block));
          st = foldl sha_round (hs ! 0, hs ! 1, hs ! 2, hs ! 3, hs ! 4, hs ! 5, hs ! 6, hs ! 7)
                 (zip sha256_k ws) in
      map2 (+) hs (state_list st))"

definition sha256_Sum256 :: "string \<Rightarrow> nat list" where
  "sha256_Sum256 msg =
     (let padded = sha256_pad (map of_char msg) in
      concat (map (\<lambda>w. big_endian 4 (unat w))
        (foldl compress sha256_init (chunks (length padded div 64) 64 padded))))"

section \<open>Hexadecimal\<close>

definition hex_digit :: "nat \<Rightarrow> char" where
  "hex_digit n = (if n < 10 then char_of (48 + n) else char_of (87 + n))"

definition hex_EncodeToString :: "nat list \<Rightarrow> string" where
  "hex_EncodeToString bytes = concat (map (\<lambda>b. [hex_digit (b div 16), hex_digit (b mod 16)]) bytes)"

section \<open>Lengths\<close>

lemma length_big_endian [simp]: "length (big_endian k n) = k"
  by (induction k arbitrary: n) auto

lemma big_endian_bytes: "\<forall>b \<in> set (big_endian k n). b < 256"
  by (induction k arbitrary: n) auto

lemma length_state_list [simp]: "length (state_list st) = 8"
  by (cases st rule: state_list.cases) simp

lemma length_compress: "length hs = 8 \<Longrightarrow> length (compress hs block) = 8"
  by (simp add: compress_def Let_def)

lemma length_foldl_compress: "length hs = 8 \<Longrightarrow> length (foldl compress hs blocks) = 8"
  by (induction blocks arbitrary: hs) (auto simp: length_compress)

lemma length_concat_const: "\<forall>x \<in> set xs. length (f x) = n \<Longrightarrow> length (concat (map f xs)) = n * length xs"
  by (induction xs) auto

lemma length_Sum256: "length (sha256_Sum256 msg) = 32"
  by (simp add: sha256_Sum256_def Let_def length_concat_const [where n = 4] length_foldl_compress sha256_init_def)

lemma Sum256_bytes: "\<forall>b \<in> set (sha256_Sum256 msg). b < 256"
  using big_endian_bytes by (auto simp: sha256_Sum256_def Let_def)

lemma length_hex [simp]: "length (hex_EncodeToString bytes) = 2 * length bytes"
  by (simp add: hex_EncodeToString_def length_concat_const [where n = 2])

lemma hex_digit_ascii: "n < 16 \<Longrightarrow> (of_char (hex_digit n) :: nat) < 128"
  by (auto simp: hex_digit_def)

lemma hex_ascii:
  assumes "\<forall>b \<in> set bytes. b < 256" "c \<in> set (hex_EncodeToString bytes)"
  shows "(of_char c :: nat) < 128"
proof -
  from assms obtain b where "b < 256" "c = hex_digit (b div 16) \<or> c = hex_digit (b mod 16)"
    by (auto simp: hex_EncodeToString_def)
  then show ?thesis using hex_digit_ascii [of "b div 16"] hex_digit_ascii [of "b mod 16"] by auto
qed

end
