(* ===== verification/Fiscal_Provider.thy ===== *)
theory Fiscal_Provider
  imports Database Sha256
begin

text \<open>
  The fiscal provider interface of \<open>internal/fiscal/provider.go\<close> with its data
  (\<open>dto.go\<close>), the mock provider (\<open>mock_provider.go\<close>), and the contract the document columns
  rely on, as a locale with the mock provider as its instance.
\<close>

record authorization_input =
  AIn_SaleID :: string
  AIn_SaleNumber :: int
  AIn_SaleTotal :: string
  AIn_ItemCount :: int
  AIn_PaymentCount :: int
  AIn_CompletedAt :: time
  AIn_Environment :: string
  AIn_DocumentModel :: int

record authorization_result =
  ARes_Provider :: string
  ARes_AccessKey :: string
  ARes_Protocol :: string
  ARes_XML :: string
  ARes_ExternalReference :: string
  ARes_AuthorizedAt :: time

type_synonym provider = "authorization_input \<Rightarrow> string + authorization_result"

section \<open>The mock provider\<close>

text \<open>\<open>MockProvider\<close>: the two settings, and what its clock returns.\<close>

record mock_provider =
  Mock_Fail :: bool
  Mock_FailError :: "string option"
  Mock_Now :: time

definition access_key_text :: "authorization_input \<Rightarrow> string" where
  "access_key_text input = AIn_SaleID input @ ''|'' @ AIn_SaleTotal input @ ''|'' @ int_dec (AIn_SaleNumber input)"

definition MockProvider_Authorize :: "mock_provider \<Rightarrow> provider" where
  "MockProvider_Authorize p input =
     (if Mock_Fail p then
        (case Mock_FailError p of
           Some err \<Rightarrow> Inl err
         | None \<Rightarrow> Inl ''mock fiscal authorization failed'')
      else
        let accessKey = hex_EncodeToString (sha256_Sum256 (access_key_text input));
            accessKey = (if length accessKey > 44 then take 44 accessKey else accessKey) in
        Inr \<lparr>ARes_Provider = ''mock'', ARes_AccessKey = accessKey,
             ARes_Protocol = ''MOCK-'' @ int_dec (AIn_SaleNumber input),
             ARes_XML = ''<fiscal sale='' @ [CHR 0x22] @ AIn_SaleID input @ [CHR 0x22] @ '' total='' @ [CHR 0x22]
                        @ AIn_SaleTotal input @ [CHR 0x22] @ '' />'',
             ARes_ExternalReference = ''sale-'' @ AIn_SaleID input,
             ARes_AuthorizedAt = Mock_Now p\<rparr>)"

section \<open>The contract\<close>

text \<open>
  What the columns and constraints of \<open>fiscal_documents\<close> ask of a provider: an access key of
  44 characters, a protocol, provider and reference that are not blank. A locale over the
  provider and the documents it authorizes; the client lemma gives the constraints of an
  authorized row.
\<close>

locale fiscal_provider =
  fixes authorize :: "'p \<Rightarrow> authorization_input \<Rightarrow> string + authorization_result"
  assumes access_key: "authorize p input = Inr r \<Longrightarrow> char_length (ARes_AccessKey r) = 44"
    and not_blank: "authorize p input = Inr r \<Longrightarrow> \<not> btrim_blank (ARes_Protocol r) \<and>
      \<not> btrim_blank (ARes_Provider r) \<and> \<not> btrim_blank (ARes_ExternalReference r)"
begin

lemma authorized_row_ok:
  assumes "authorize p input = Inr r"
    and "first_violation (fiscal_document_checks x) = None" "issued \<ge> Doc_CreatedAt x" "now \<ge> Doc_CreatedAt x"
    "Doc_CancelledAt x = None"
  shows "first_violation (fiscal_document_checks (x\<lparr>Doc_Status := DocAUTHORIZED,
     Doc_AccessKey := Some (ARes_AccessKey r), Doc_Protocol := Some (ARes_Protocol r),
     Doc_Provider := Some (ARes_Provider r), Doc_ExternalReference := Some (ARes_ExternalReference r),
     Doc_XML := Some (ARes_XML r), Doc_IssuedAt := Some issued,
     Doc_ErrorCode := None, Doc_ErrorMessage := None, Doc_UpdatedAt := now\<rparr>)) = None"
  using assms(2-) access_key [OF assms(1)] not_blank [OF assms(1)]
  by (simp add: fiscal_document_checks_def Let_def split: if_splits)

end

lemma char_length_ascii: "\<forall>c \<in> set s. (of_char c :: nat) < 128 \<Longrightarrow> char_length s = length s"
  unfolding char_length_def by (induction s) auto

lemma access_key_length:
  "char_length (take 44 (hex_EncodeToString (sha256_Sum256 msg))) = 44"
  using hex_ascii [OF Sum256_bytes] by (subst char_length_ascii) (auto simp: length_Sum256 dest: in_set_takeD)

interpretation mock: fiscal_provider MockProvider_Authorize
proof unfold_locales
  fix p :: mock_provider and input r
  assume "MockProvider_Authorize p input = Inr r"
  then show "char_length (ARes_AccessKey r) = 44"
    "\<not> btrim_blank (ARes_Protocol r) \<and> \<not> btrim_blank (ARes_Provider r) \<and> \<not> btrim_blank (ARes_ExternalReference r)"
    by (auto simp: MockProvider_Authorize_def Let_def length_Sum256 access_key_length btrim_blank_def
        split: if_splits option.splits)
qed

end
