(* ===== verification/Fiscal_Queries.thy ===== *)
theory Fiscal_Queries
  imports Tables
begin

text \<open>
  The statements of \<open>internal/platform/database/fiscal_documents.sql.go\<close> the services use, on
  the table of fiscal documents.
\<close>

definition document_of_sale :: "store_scope \<Rightarrow> uuid \<Rightarrow> fiscal_document \<Rightarrow> bool" where
  "document_of_sale scope saleID f \<longleftrightarrow> Doc_OrganizationID f = SS_OrganizationID scope \<and>
     Doc_StoreID f = SS_StoreID scope \<and> Doc_SaleID f = saleID"

definition document_in_scope :: "store_scope \<Rightarrow> uuid \<Rightarrow> fiscal_document \<Rightarrow> bool" where
  "document_in_scope scope fid f \<longleftrightarrow> Doc_OrganizationID f = SS_OrganizationID scope \<and>
     Doc_StoreID f = SS_StoreID scope \<and> Doc_ID f = fid"

definition GetFiscalDocumentBySaleIDForStore :: "store_scope \<Rightarrow> uuid \<Rightarrow> db \<Rightarrow> 's go_error + fiscal_document" where
  "GetFiscalDocumentBySaleIDForStore scope saleID d =
     one_row (List.find (document_of_sale scope saleID) (db_fiscal_documents d))"

text \<open>An \<open>UPDATE fiscal_documents\<close>: triggers, constraints, then the two partial unique indexes.\<close>

definition write_document :: "time \<Rightarrow> (fiscal_document \<Rightarrow> fiscal_document) \<Rightarrow> fiscal_document list \<Rightarrow>
    fiscal_document \<Rightarrow> 's go_error + fiscal_document" where
  "write_document now f rows x =
     (let x' = (f x)\<lparr>Doc_UpdatedAt := now\<rparr> in
      chain (guard_error (fiscal_transition_ok (Doc_Status x) (Doc_Status x'))
               (PgError ''23514'' ''fiscal_documents_status_transition_check'')) (\<lambda>_.
      chain (check_row (fiscal_document_checks x')) (\<lambda>_.
      chain (guard_error (List.find (\<lambda>r. Doc_ID r \<noteq> Doc_ID x \<and> Doc_AccessKey x' \<noteq> None \<and>
                Doc_AccessKey r = Doc_AccessKey x') rows = None)
              (PgError ''23505'' ''idx_fiscal_documents_access_key'')) (\<lambda>_.
      chain (guard_error (List.find (\<lambda>r. Doc_ID r \<noteq> Doc_ID x \<and> Doc_Provider x' \<noteq> None \<and>
                Doc_ExternalReference x' \<noteq> None \<and> Doc_Provider r = Doc_Provider x' \<and>
                Doc_ExternalReference r = Doc_ExternalReference x') rows = None)
              (PgError ''23505'' ''idx_fiscal_documents_provider_reference'')) (\<lambda>_.
      Inr x')))))"

definition update_document ::
    "time \<Rightarrow> (fiscal_document \<Rightarrow> bool) \<Rightarrow> (fiscal_document \<Rightarrow> fiscal_document) \<Rightarrow> db \<Rightarrow>
     's go_error + fiscal_document \<times> db" where
  "update_document now cond f d =
     chain (update_row cond (write_document now f (db_fiscal_documents d)) (db_fiscal_documents d))
       (\<lambda>(x', rows). Inr (x', d\<lparr>db_fiscal_documents := rows\<rparr>))"

text \<open>
  \<open>CreateFiscalDocumentForStore\<close>, with every nullable column left null as its callers do: a
  pending document, or the sale's document with \<open>updated_at\<close> touched.
\<close>

definition CreateFiscalDocumentForStore ::
    "env \<Rightarrow> time \<Rightarrow> store_scope \<Rightarrow> uuid \<Rightarrow> db \<Rightarrow> 's go_error + fiscal_document \<times> db" where
  "CreateFiscalDocumentForStore E now scope saleID d =
     (if List.find (document_of_sale scope saleID) (db_fiscal_documents d) \<noteq> None
      then update_document now (document_of_sale scope saleID) (\<lambda>x. x)
             (d\<lparr>db_uuid_calls := Suc (db_uuid_calls d)\<rparr>)
      else
      let fid = uuidv7 E (db_uuid_calls d);
          x = \<lparr>Doc_ID = fid, Doc_OrganizationID = SS_OrganizationID scope, Doc_StoreID = SS_StoreID scope,
               Doc_SaleID = saleID, Doc_Status = DocPENDING, Doc_Environment = ''HOMOLOGATION'',
               Doc_DocumentModel = 65, Doc_Series = None, Doc_Number = None, Doc_AccessKey = None,
               Doc_Protocol = None, Doc_Provider = None, Doc_ExternalReference = None, Doc_XML = None,
               Doc_ErrorCode = None, Doc_ErrorMessage = None, Doc_IssuedAt = None, Doc_CancelledAt = None,
               Doc_CreatedAt = now, Doc_UpdatedAt = now\<rparr> in
      chain (check_row (fiscal_document_checks x)) (\<lambda>_.
      chain (guard_error (List.find (\<lambda>r. Doc_ID r = fid) (db_fiscal_documents d) = None)
              (PgError ''23505'' ''fiscal_documents_pkey'')) (\<lambda>_.
      chain (guard_error (List.find (\<lambda>s. Sale_OrganizationID s = SS_OrganizationID scope \<and>
                Sale_StoreID s = SS_StoreID scope \<and> Sale_ID s = saleID) (db_sales d) \<noteq> None)
              (PgError ''23503'' ''fiscal_documents_sale_fk'')) (\<lambda>_.
      Inr (x, d\<lparr>db_fiscal_documents := db_fiscal_documents d @ [x], db_uuid_calls := Suc (db_uuid_calls d)\<rparr>)))))"

record mark_authorized_params =
  MA_AccessKey :: string
  MA_Protocol :: string
  MA_Provider :: string
  MA_ExternalReference :: string
  MA_XML :: string
  MA_IssuedAt :: "time option"

text \<open>The document id may be the invalid (null) UUID, which matches no row.\<close>

definition MarkFiscalDocumentAuthorizedForStore ::
    "time \<Rightarrow> store_scope \<Rightarrow> uuid option \<Rightarrow> mark_authorized_params \<Rightarrow> db \<Rightarrow> 's go_error + fiscal_document \<times> db" where
  "MarkFiscalDocumentAuthorizedForStore now scope fid P d =
     (let cond = (\<lambda>x. (case fid of None \<Rightarrow> False | Some i \<Rightarrow> document_in_scope scope i x) \<and>
                    Doc_Status x \<in> set [DocPENDING, DocPROCESSING]) in
      if List.find cond (db_fiscal_documents d) = None then Inl ErrNoRows
      else
      chain (pg_varchar 44 (MA_AccessKey P)) (\<lambda>accessKey.
      chain (pg_varchar 100 (MA_Protocol P)) (\<lambda>protocol.
      chain (pg_varchar 100 (MA_Provider P)) (\<lambda>provider.
      chain (pg_varchar 255 (MA_ExternalReference P)) (\<lambda>externalReference.
      update_document now cond
        (\<lambda>x. x\<lparr>Doc_Status := DocAUTHORIZED, Doc_AccessKey := Some accessKey, Doc_Protocol := Some protocol,
               Doc_Provider := Some provider, Doc_ExternalReference := Some externalReference,
               Doc_XML := Some (MA_XML P),
               Doc_IssuedAt := Some (case MA_IssuedAt P of None \<Rightarrow> now | Some t \<Rightarrow> t),
               Doc_ErrorCode := None, Doc_ErrorMessage := None\<rparr>) d)))))"

definition MarkFiscalDocumentErrorForStore ::
    "time \<Rightarrow> store_scope \<Rightarrow> uuid option \<Rightarrow> string \<Rightarrow> string \<Rightarrow> db \<Rightarrow> 's go_error + fiscal_document \<times> db" where
  "MarkFiscalDocumentErrorForStore now scope fid errorCode errorMessage d =
     (let cond = (\<lambda>x. (case fid of None \<Rightarrow> False | Some i \<Rightarrow> document_in_scope scope i x) \<and>
                    Doc_Status x \<in> set [DocPENDING, DocPROCESSING, DocREJECTED]) in
      if List.find cond (db_fiscal_documents d) = None then Inl ErrNoRows
      else
      chain (pg_varchar 50 errorCode) (\<lambda>code.
      update_document now cond
        (\<lambda>x. x\<lparr>Doc_Status := DocERROR, Doc_ErrorCode := Some code, Doc_ErrorMessage := Some errorMessage\<rparr>) d))"

section \<open>Facts\<close>

lemma write_document_eq_Inr [result_simps]:
  "write_document now f rows x = Inr r \<longleftrightarrow> r = (f x)\<lparr>Doc_UpdatedAt := now\<rparr> \<and>
     fiscal_transition_ok (Doc_Status x) (Doc_Status r) \<and> first_violation (fiscal_document_checks r) = None \<and>
     List.find (\<lambda>q. Doc_ID q \<noteq> Doc_ID x \<and> Doc_AccessKey r \<noteq> None \<and> Doc_AccessKey q = Doc_AccessKey r) rows = None \<and>
     List.find (\<lambda>q. Doc_ID q \<noteq> Doc_ID x \<and> Doc_Provider r \<noteq> None \<and> Doc_ExternalReference r \<noteq> None \<and>
       Doc_Provider q = Doc_Provider r \<and> Doc_ExternalReference q = Doc_ExternalReference r) rows = None"
  by (auto simp: write_document_def Let_def result_simps)

lemma update_document_InrE:
  assumes "update_document now cond f d = Inr (r, d')"
  obtains pre x post where "db_fiscal_documents d = pre @ x # post" "cond x" "\<forall>q \<in> set pre. \<not> cond q"
    "r = (f x)\<lparr>Doc_UpdatedAt := now\<rparr>" "fiscal_transition_ok (Doc_Status x) (Doc_Status r)"
    "first_violation (fiscal_document_checks r) = None"
    "d' = d\<lparr>db_fiscal_documents := pre @ r # post\<rparr>"
  using assms unfolding update_document_def
  by (auto simp: result_simps simp del: find_None_iff dest!: update_row_InrD)

end
