(* ===== verification/Fiscal.thy ===== *)
theory Fiscal
  imports Fiscal_Provider Fiscal_Queries Sales_Queries
begin

text \<open>
  Component \<open>internal/fiscal\<close>: the document of a sale, read (\<open>service_queries.go\<close>) and sent to
  the provider again (\<open>service_commands.go\<close>), with the response (\<open>mapper.go\<close>) and the HTTP
  errors (\<open>handler_errors.go\<close>). The store methods run outside a transaction: each statement
  commits by itself.
\<close>

datatype fiscal_sentinel =
    Fiscal_ErrSaleNotFound | Fiscal_ErrFiscalDocumentNotFound | Fiscal_ErrFiscalAuthorizationFailed

type_synonym fiscal_error = "fiscal_sentinel go_error"

definition Fiscal_writeServiceError :: "fiscal_error \<Rightarrow> int \<times> string \<times> string \<times> string" where
  "Fiscal_writeServiceError err =
     (case errors_As_Validation err of
        Some (field, msg) \<Rightarrow> (if field = ''id'' then 400 else 422, ''validation_error'', msg, field)
      | None \<Rightarrow>
          if errors_Is err Fiscal_ErrSaleNotFound then (404, ''sale_not_found'', ''Sale not found'', [])
          else if errors_Is err Fiscal_ErrFiscalDocumentNotFound
          then (404, ''fiscal_document_not_found'', ''Fiscal document not found'', [])
          else if errors_Is err Fiscal_ErrFiscalAuthorizationFailed
          then (502, ''fiscal_authorization_failed'', ''Fiscal authorization failed'', [])
          else (500, ''internal_server_error'', ''An unexpected error occurred'', []))"

section \<open>The response\<close>

record fiscal_document_response =
  RDoc_ID :: string
  RDoc_SaleID :: string
  RDoc_Status :: string
  RDoc_Environment :: string
  RDoc_DocumentModel :: int
  RDoc_Series :: "int option"
  RDoc_Number :: "int option"
  RDoc_AccessKey :: "string option"
  RDoc_Protocol :: "string option"
  RDoc_Provider :: "string option"
  RDoc_ExternalReference :: "string option"
  RDoc_ErrorCode :: "string option"
  RDoc_ErrorMessage :: "string option"
  RDoc_IssuedAt :: "time option"
  RDoc_CancelledAt :: "time option"
  RDoc_CreatedAt :: time
  RDoc_UpdatedAt :: time

text \<open>The fiscal package's response has the XML too; the checkout package's has not.\<close>

record fiscal_service_response = fiscal_document_response +
  RDoc_XML :: "string option"

definition toFiscalDocumentResponse :: "env \<Rightarrow> fiscal_document \<Rightarrow> fiscal_document_response" where
  "toFiscalDocumentResponse E f =
     \<lparr>RDoc_ID = uuid_String E (Doc_ID f), RDoc_SaleID = uuid_String E (Doc_SaleID f),
      RDoc_Status = fiscal_status_string (Doc_Status f), RDoc_Environment = Doc_Environment f,
      RDoc_DocumentModel = Doc_DocumentModel f, RDoc_Series = Doc_Series f, RDoc_Number = Doc_Number f,
      RDoc_AccessKey = Doc_AccessKey f, RDoc_Protocol = Doc_Protocol f, RDoc_Provider = Doc_Provider f,
      RDoc_ExternalReference = Doc_ExternalReference f, RDoc_ErrorCode = Doc_ErrorCode f,
      RDoc_ErrorMessage = Doc_ErrorMessage f, RDoc_IssuedAt = Doc_IssuedAt f,
      RDoc_CancelledAt = Doc_CancelledAt f, RDoc_CreatedAt = timestampOrZero (Some (Doc_CreatedAt f)),
      RDoc_UpdatedAt = timestampOrZero (Some (Doc_UpdatedAt f))\<rparr>"

definition Fiscal_toFiscalDocumentResponse :: "env \<Rightarrow> fiscal_document \<Rightarrow> fiscal_service_response" where
  "Fiscal_toFiscalDocumentResponse E f =
     fiscal_document_response.extend (toFiscalDocumentResponse E f) \<lparr>RDoc_XML = Doc_XML f\<rparr>"

section \<open>Operations\<close>

text \<open>The two reads \<open>Authorize\<close> and \<open>GetBySaleID\<close> begin with.\<close>

definition sale_document :: "env \<Rightarrow> store_actor \<Rightarrow> string \<Rightarrow> db \<Rightarrow> fiscal_error + fiscal_document" where
  "sale_document E actor rawSaleID d =
     chain (parseUUID E rawSaleID ''id'') (\<lambda>saleID.
     chain (on_error (\<lambda>err. if errors_Is_NoRows err then Sentinel Fiscal_ErrSaleNotFound
                            else Wrapped ''get sale by id'' err)
             (GetSaleByIDForStore (ToStoreScope actor) saleID d)) (\<lambda>_.
     on_error (\<lambda>err. if errors_Is_NoRows err then Sentinel Fiscal_ErrFiscalDocumentNotFound
                     else Wrapped ''get fiscal document by sale id'' err)
       (GetFiscalDocumentBySaleIDForStore (ToStoreScope actor) saleID d)))"

definition Fiscal_GetBySaleID :: "env \<Rightarrow> store_actor \<Rightarrow> string \<Rightarrow> db \<Rightarrow> fiscal_error + fiscal_service_response" where
  "Fiscal_GetBySaleID E actor rawSaleID d =
     chain (sale_document E actor rawSaleID d) (\<lambda>document. Inr (Fiscal_toFiscalDocumentResponse E document))"

text \<open>\<open>Authorize\<close> returns the updated document beside the error when the provider fails.\<close>

definition Fiscal_Authorize ::
    "env \<Rightarrow> time \<Rightarrow> provider option \<Rightarrow> store_actor \<Rightarrow> string \<Rightarrow> authorization_input \<Rightarrow> db \<Rightarrow>
     (fiscal_error option \<times> fiscal_service_response option) \<times> db" where
  "Fiscal_Authorize E now provider actor rawSaleID input d =
     (case sale_document E actor rawSaleID d of
        Inl err \<Rightarrow> ((Some err, None), d)
      | Inr document \<Rightarrow>
     (case provider of
        None \<Rightarrow> ((None, Some (Fiscal_toFiscalDocumentResponse E document)), d)
      | Some authorize \<Rightarrow>
     (case authorize input of
        Inl _ \<Rightarrow>
          (case MarkFiscalDocumentErrorForStore now (ToStoreScope actor) (Some (Doc_ID document))
                  ''mock_authorization_failed'' ''Fiscal authorization failed'' d of
             Inl updateErr \<Rightarrow> ((Some (Wrapped ''mark fiscal document error'' updateErr), None), d)
           | Inr (updated, d') \<Rightarrow>
               ((Some (Sentinel Fiscal_ErrFiscalAuthorizationFailed),
                 Some (Fiscal_toFiscalDocumentResponse E updated)), d'))
      | Inr result \<Rightarrow>
          (case MarkFiscalDocumentAuthorizedForStore now (ToStoreScope actor) (Some (Doc_ID document))
                  \<lparr>MA_AccessKey = ARes_AccessKey result, MA_Protocol = ARes_Protocol result,
                   MA_Provider = ARes_Provider result, MA_ExternalReference = ARes_ExternalReference result,
                   MA_XML = ARes_XML result, MA_IssuedAt = Some (ARes_AuthorizedAt result)\<rparr> d of
             Inl err \<Rightarrow> ((Some (Wrapped ''mark fiscal document authorized'' err), None), d)
           | Inr (updated, d') \<Rightarrow> ((None, Some (Fiscal_toFiscalDocumentResponse E updated)), d')))))"

end
