(* ===== verification/Checkout.thy ===== *)
theory Checkout
  imports Checkout_Validation Inventory_Queries Payment_Queries Fiscal
    "HOL-Library.AList" "HOL-Library.List_Lexorder" "HOL-Library.Char_ord"
begin

text \<open>
  Component \<open>internal/checkout\<close>: closing a sale. One transaction checks the totals and the
  payments, takes the stock, stores the payments, completes the sale and creates its fiscal
  document; a second one stores what the fiscal provider answered.
\<close>

section \<open>Errors\<close>

definition Checkout_isUniqueViolation :: "checkout_error \<Rightarrow> string \<Rightarrow> bool" where
  "Checkout_isUniqueViolation err constraint =
     (case errors_As_Pg err of None \<Rightarrow> False | Some (code, name) \<Rightarrow> code = ''23505'' \<and> name = constraint)"

definition Checkout_writeServiceError :: "checkout_error \<Rightarrow> int \<times> string \<times> string \<times> string" where
  "Checkout_writeServiceError err =
     (case errors_As_Validation err of
        Some (field, msg) \<Rightarrow> (if field = ''id'' then 400 else 422, ''validation_error'', msg, field)
      | None \<Rightarrow>
          if errors_Is err Checkout_ErrSaleNotFound then (404, ''sale_not_found'', ''Sale not found'', [])
          else if errors_Is err Checkout_ErrSaleNotOpen then (409, ''sale_not_open'', ''Sale is not open'', [])
          else if errors_Is err Checkout_ErrSaleAlreadyCompleted
          then (409, ''sale_already_completed'', ''Sale is already completed'', [])
          else if errors_Is err Checkout_ErrSaleHasNoItems
          then (409, ''sale_has_no_items'', ''Sale has no items'', [])
          else if errors_Is err Checkout_ErrPaymentMethodNotFound
          then (404, ''payment_method_not_found'', ''Payment method not found'', [])
          else if errors_Is err Checkout_ErrPaymentMethodInactive
          then (409, ''payment_method_inactive'', ''Payment method is inactive'', [])
          else if errors_Is err Checkout_ErrPaymentsRequired
          then (422, ''payments_required'', ''At least one payment is required'', [])
          else if errors_Is err Checkout_ErrPaymentAmountMismatch
          then (422, ''payment_amount_mismatch'', ''Payment amounts do not match sale total'', [])
          else if errors_Is err Checkout_ErrInvalidReceivedAmount
          then (422, ''invalid_received_amount'', ''Invalid received amount'', [])
          else if errors_Is err Checkout_ErrInvalidInstallments
          then (422, ''invalid_installments'', ''Invalid installments'', [])
          else if errors_Is err Checkout_ErrInventoryNotFound
          then (409, ''inventory_not_found'', ''Inventory not found'', [])
          else if errors_Is err Checkout_ErrInsufficientInventory
          then (409, ''insufficient_inventory'', ''Insufficient inventory'', [])
          else if errors_Is err Checkout_ErrFiscalDocumentNotFound
          then (404, ''fiscal_document_not_found'', ''Fiscal document not found'', [])
          else if errors_Is err Checkout_ErrReceiptNotAvailable
          then (409, ''receipt_not_available'', ''Receipt is not available'', [])
          else (500, ''internal_server_error'', ''An unexpected error occurred'', []))"

section \<open>The totals of the sale\<close>

fun sale_totals_loop :: "sale_item list \<Rightarrow> numeric \<Rightarrow> numeric \<Rightarrow> numeric \<Rightarrow> checkout_error + numeric \<times> numeric \<times> numeric" where
  "sale_totals_loop [] subtotal discount tot = Inr (subtotal, discount, tot)"
| "sale_totals_loop (item # items) subtotal discount tot =
     chain (wrap_error ''calculate item subtotal''
             (Checkout_multiplyMoneyQuantity (numericFromScaledInt (Item_UnitPrice item) 2)
                (numericFromScaledInt (Item_Quantity item) 3))) (\<lambda>itemSubtotal.
     chain (wrap_error ''calculate item total''
             (Checkout_subtractMoney itemSubtotal (numericFromScaledInt (Item_Discount item) 2))) (\<lambda>expectedTotal.
     chain (wrap_error ''compare item total''
             (Checkout_compareMoney expectedTotal (numericFromScaledInt (Item_Total item) 2))) (\<lambda>cmp.
     if cmp \<noteq> 0 then Inl (ValidationError ''items'' ''sale item totals are inconsistent'')
     else
     chain (wrap_error ''sum subtotal'' (addMoney subtotal itemSubtotal)) (\<lambda>subtotal.
     chain (wrap_error ''sum discount'' (addMoney discount (numericFromScaledInt (Item_Discount item) 2))) (\<lambda>discount.
     chain (wrap_error ''sum total'' (addMoney tot (numericFromScaledInt (Item_Total item) 2))) (\<lambda>tot.
     sale_totals_loop items subtotal discount tot))))))"

definition validateSaleTotals :: "sale \<Rightarrow> sale_item list \<Rightarrow> checkout_error + unit" where
  "validateSaleTotals sale items =
     chain (sale_totals_loop items zeroMoney zeroMoney zeroMoney) (\<lambda>(subtotal, discount, _).
     chain (wrap_error ''compare sale subtotal''
             (Checkout_compareMoney (numericFromScaledInt (Sale_Subtotal sale) 2) subtotal)) (\<lambda>cmp.
     if cmp \<noteq> 0 then Inl (ValidationError ''sale'' ''sale subtotal is inconsistent'')
     else
     chain (wrap_error ''compare sale discount''
             (Checkout_compareMoney (numericFromScaledInt (Sale_Discount sale) 2) discount)) (\<lambda>cmp.
     if cmp \<noteq> 0 then Inl (ValidationError ''sale'' ''sale discount is inconsistent'')
     else
     chain (wrap_error ''calculate sale expected total'' (Checkout_subtractMoney subtotal discount)) (\<lambda>expectedTotal.
     chain (wrap_error ''calculate sale final total''
             (addMoney expectedTotal (numericFromScaledInt (Sale_Addition sale) 2))) (\<lambda>expectedTotal.
     chain (wrap_error ''compare sale total''
             (Checkout_compareMoney (numericFromScaledInt (Sale_Total sale) 2) expectedTotal)) (\<lambda>cmp.
     if cmp \<noteq> 0 then Inl (ValidationError ''sale'' ''sale total is inconsistent'')
     else Inr ()))))))"

section \<open>Payments\<close>

definition validateReceivedAmount ::
    "payment_method \<Rightarrow> numeric \<Rightarrow> numeric option \<Rightarrow> checkout_error + numeric option \<times> numeric option" where
  "validateReceivedAmount method amount received =
     (if Method_AllowsChange method then
        (case received of
           None \<Rightarrow> Inr (Some amount, Some zeroMoney)
         | Some r \<Rightarrow>
             chain (wrap_error ''compare received amount'' (Checkout_compareMoney r amount)) (\<lambda>cmp.
             if cmp < 0 then Inl (Sentinel Checkout_ErrInvalidReceivedAmount)
             else
             chain (wrap_error ''calculate change amount'' (Checkout_subtractMoney r amount)) (\<lambda>change.
             Inr (Some r, Some change))))
      else
        (case received of
           None \<Rightarrow> Inr (None, None)
         | Some r \<Rightarrow>
             chain (wrap_error ''compare received amount'' (Checkout_compareMoney r amount)) (\<lambda>cmp.
             if cmp \<noteq> 0 then Inl (Sentinel Checkout_ErrInvalidReceivedAmount)
             else Inr (Some r, None))))"

definition validateInstallments :: "payment_method \<Rightarrow> int \<Rightarrow> checkout_error + int" where
  "validateInstallments method installments =
     (if \<not> Method_AllowsInstallments method then
        (if installments \<noteq> 1 then Inl (Sentinel Checkout_ErrInvalidInstallments) else Inr 1)
      else if installments < 1 \<or> installments > Method_MaxInstallments method
      then Inl (Sentinel Checkout_ErrInvalidInstallments)
      else Inr installments)"

record validated_payment =
  VP_Method :: payment_method
  VP_Amount :: numeric
  VP_ReceivedAmount :: "numeric option"
  VP_ChangeAmount :: "numeric option"
  VP_Installments :: int
  VP_ExternalReference :: "string option"

text \<open>The body of the loop of \<open>ValidatePayments\<close>, up to the sum.\<close>

definition validate_payment :: "store_actor \<Rightarrow> normalized_payment \<Rightarrow> db \<Rightarrow> checkout_error + validated_payment" where
  "validate_payment actor input d =
     chain (on_error (\<lambda>err. if errors_Is_NoRows err then Sentinel Checkout_ErrPaymentMethodNotFound
                            else Wrapped ''get payment method'' err)
             (GetPaymentMethodByIDForOrganization (Actor_OrganizationID actor) (NP_PaymentMethodID input) d)) (\<lambda>method.
     if \<not> Method_IsActive method then Inl (Sentinel Checkout_ErrPaymentMethodInactive)
     else
     chain (wrap_error ''compare payment amount'' (Checkout_compareMoney (NP_Amount input) zeroMoney)) (\<lambda>cmp.
     if cmp \<le> 0 then Inl (ValidationError ''amount'' ''must be greater than zero'')
     else
     chain (validateReceivedAmount method (NP_Amount input) (NP_ReceivedAmount input)) (\<lambda>(received, change).
     chain (validateInstallments method (NP_Installments input)) (\<lambda>installments.
     if (case NP_ExternalReference input of None \<Rightarrow> False
         | Some r \<Rightarrow> Method_RequiresExternalReference method \<and> strings_TrimSpace r = [])
     then Inl (ValidationError ''externalReference'' ''is required'')
     else if Method_RequiresExternalReference method \<and> NP_ExternalReference input = None
     then Inl (ValidationError ''externalReference'' ''is required'')
     else Inr \<lparr>VP_Method = method, VP_Amount = NP_Amount input, VP_ReceivedAmount = received,
               VP_ChangeAmount = change, VP_Installments = installments,
               VP_ExternalReference = NP_ExternalReference input\<rparr>))))"

fun validate_payments_loop ::
    "store_actor \<Rightarrow> db \<Rightarrow> normalized_payment list \<Rightarrow> numeric \<Rightarrow> checkout_error + validated_payment list \<times> numeric" where
  "validate_payments_loop actor d [] paid = Inr ([], paid)"
| "validate_payments_loop actor d (input # inputs) paid =
     chain (validate_payment actor input d) (\<lambda>v.
     chain (wrap_error ''sum payments'' (addMoney paid (NP_Amount input))) (\<lambda>paid.
     chain (validate_payments_loop actor d inputs paid) (\<lambda>(vs, paid).
     Inr (v # vs, paid))))"

definition ValidatePayments ::
    "store_actor \<Rightarrow> numeric \<Rightarrow> normalized_payment list \<Rightarrow> db \<Rightarrow> checkout_error + validated_payment list" where
  "ValidatePayments actor saleTotal inputs d =
     (if inputs = [] then Inl (Sentinel Checkout_ErrPaymentsRequired)
      else
      chain (validate_payments_loop actor d inputs zeroMoney) (\<lambda>(validated, paid).
      chain (wrap_error ''compare payment total'' (Checkout_compareMoney paid saleTotal)) (\<lambda>cmp.
      if cmp \<noteq> 0 then Inl (Sentinel Checkout_ErrPaymentAmountMismatch) else Inr validated)))"

definition derefNumeric :: "numeric option \<Rightarrow> numeric" where
  "derefNumeric value = (case value of None \<Rightarrow> null_numeric | Some n \<Rightarrow> n)"

definition PaymentIdempotencyKey :: "env \<Rightarrow> uuid \<Rightarrow> nat \<Rightarrow> string" where
  "PaymentIdempotencyKey E saleID index =
     ''checkout:'' @ uuid_String E saleID @ '':payment:'' @ intToString (int index)"

definition create_payment ::
    "env \<Rightarrow> time \<Rightarrow> store_actor \<Rightarrow> uuid \<Rightarrow> nat \<Rightarrow> validated_payment \<Rightarrow> db \<Rightarrow>
     checkout_error + (payment \<times> payment_method) \<times> db" where
  "create_payment E now actor saleID i input d =
     chain (wrap_error ''create payment''
             (CreatePaymentForStore E now (ToStoreScope actor)
               \<lparr>CP_SaleID = saleID, CP_PaymentMethodID = Method_ID (VP_Method input), CP_Amount = VP_Amount input,
                CP_ReceivedAmount = derefNumeric (VP_ReceivedAmount input),
                CP_ChangeAmount = derefNumeric (VP_ChangeAmount input),
                CP_Installments = VP_Installments input, CP_ExternalReference = VP_ExternalReference input,
                CP_IdempotencyKey = PaymentIdempotencyKey E saleID i\<rparr> d)) (\<lambda>(create, d).
     chain (wrap_error ''approve payment''
             (ApprovePaymentForStore now (ToStoreScope actor) (Payment_ID create)
               (derefNumeric (VP_ReceivedAmount input)) (derefNumeric (VP_ChangeAmount input)) d)) (\<lambda>(approved, d).
     Inr ((approved, VP_Method input), d)))"

fun createPayments_loop ::
    "env \<Rightarrow> time \<Rightarrow> store_actor \<Rightarrow> uuid \<Rightarrow> nat \<Rightarrow> validated_payment list \<Rightarrow> db \<Rightarrow>
     checkout_error + (payment \<times> payment_method) list \<times> db" where
  "createPayments_loop E now actor saleID i [] d = Inr ([], d)"
| "createPayments_loop E now actor saleID i (input # inputs) d =
     chain (create_payment E now actor saleID i input d) (\<lambda>(result, d).
     chain (createPayments_loop E now actor saleID (Suc i) inputs d) (\<lambda>(results, d).
     Inr (result # results, d)))"

definition createPayments ::
    "env \<Rightarrow> time \<Rightarrow> store_actor \<Rightarrow> uuid \<Rightarrow> validated_payment list \<Rightarrow> db \<Rightarrow>
     checkout_error + (payment \<times> payment_method) list \<times> db" where
  "createPayments E now actor saleID inputs d = createPayments_loop E now actor saleID 0 inputs d"

section \<open>Stock\<close>

text \<open>\<open>byProduct\<close>: the quantities of the items summed per product, keyed by the id's text.\<close>

fun aggregate_loop :: "env \<Rightarrow> sale_item list \<Rightarrow> (string \<times> uuid \<times> numeric) list \<Rightarrow>
    checkout_error + (string \<times> uuid \<times> numeric) list" where
  "aggregate_loop E [] byProduct = Inr byProduct"
| "aggregate_loop E (item # items) byProduct =
     (let key = uuid_String E (Item_ProductID item);
          (productID, quantity) = (case map_of byProduct key of
             None \<Rightarrow> (Item_ProductID item, zeroMoney) | Some current \<Rightarrow> current) in
      chain (wrap_error ''aggregate inventory quantity''
              (addQuantity quantity (numericFromScaledInt (Item_Quantity item) 3))) (\<lambda>total_quantity.
      aggregate_loop E items (AList.update key (productID, total_quantity) byProduct)))"

definition take_stock ::
    "env \<Rightarrow> time \<Rightarrow> store_actor \<Rightarrow> uuid \<Rightarrow> uuid \<times> numeric \<Rightarrow> db \<Rightarrow> checkout_error + db" where
  "take_stock E now actor saleID agg d = (case agg of (productID, quantity) \<Rightarrow>
     chain (on_error (\<lambda>err.
               if errors_Is_NoRows err then
                 (case GetInventoryByProductIDForStore (ToStoreScope actor) productID d of
                    Inl lookupErr \<Rightarrow>
                      if errors_Is_NoRows lookupErr then Sentinel Checkout_ErrInventoryNotFound
                      else Wrapped ''get inventory by product id'' lookupErr
                  | Inr _ \<Rightarrow> Sentinel Checkout_ErrInsufficientInventory)
               else Wrapped ''decrease inventory'' err)
             (DecreaseInventoryForStore now (ToStoreScope actor) productID quantity d)) (\<lambda>(update, d).
     chain (on_error (\<lambda>err.
               if Checkout_isUniqueViolation err ''inventory_movements_reference_unique''
               then Sentinel Checkout_ErrSaleAlreadyCompleted
               else Wrapped ''create inventory movement'' err)
             (CreateInventoryMovementForStore E now (ToActorScope actor)
               \<lparr>CM_ProductID = productID, CM_MovementType = MovSALE, CM_Quantity = quantity,
                CM_PreviousQuantity = numericFromScaledInt (Change_PreviousQuantity update) 3,
                CM_CurrentQuantity = numericFromScaledInt (Change_CurrentQuantity update) 3,
                CM_Reason = None, CM_ReferenceType = ''sale'', CM_ReferenceID = saleID\<rparr> d)) (\<lambda>(_, d).
     Inr d)))"

fun take_stock_loop ::
    "env \<Rightarrow> time \<Rightarrow> store_actor \<Rightarrow> uuid \<Rightarrow> (uuid \<times> numeric) list \<Rightarrow> db \<Rightarrow> checkout_error + db" where
  "take_stock_loop E now actor saleID [] d = Inr d"
| "take_stock_loop E now actor saleID (agg # aggs) d =
     chain (take_stock E now actor saleID agg d) (take_stock_loop E now actor saleID aggs)"

definition applyInventoryChanges ::
    "env \<Rightarrow> time \<Rightarrow> store_actor \<Rightarrow> uuid \<Rightarrow> sale_item list \<Rightarrow> db \<Rightarrow> checkout_error + db" where
  "applyInventoryChanges E now actor saleID items d =
     chain (aggregate_loop E items []) (\<lambda>byProduct.
     take_stock_loop E now actor saleID
       (map (\<lambda>key. the (map_of byProduct key)) (sort (map fst byProduct))) d)"

section \<open>Responses\<close>

record checkout_sale_response =
  RCS_ID :: string
  RCS_Number :: int
  RCS_Status :: string
  RCS_Subtotal :: string
  RCS_Discount :: string
  RCS_Addition :: string
  RCS_Total :: string
  RCS_OpenedAt :: time
  RCS_CompletedAt :: time
  RCS_CancelledAt :: time
  RCS_CreatedAt :: time
  RCS_UpdatedAt :: time
  RCS_IdempotencyKey :: string

record checkout_payment_response =
  RCP_ID :: string
  RCP_SaleID :: string
  RCP_PaymentMethodID :: string
  RCP_PaymentMethodCode :: string
  RCP_PaymentMethodName :: string
  RCP_PaymentMethodKind :: string
  RCP_Amount :: string
  RCP_ReceivedAmount :: "string option"
  RCP_ChangeAmount :: "string option"
  RCP_Status :: string
  RCP_Installments :: int
  RCP_ExternalReference :: "string option"
  RCP_PaidAt :: time
  RCP_CreatedAt :: time
  RCP_UpdatedAt :: time

record checkout_response =
  RCO_Sale :: checkout_sale_response
  RCO_Payments :: "checkout_payment_response list"
  RCO_FiscalDocument :: fiscal_document_response

definition toCheckoutSaleResponse :: "env \<Rightarrow> sale \<Rightarrow> checkout_error + checkout_sale_response" where
  "toCheckoutSaleResponse E s =
     chain (wrap_error ''format subtotal'' (MoneyToString (numericFromScaledInt (Sale_Subtotal s) 2))) (\<lambda>subtotal.
     chain (wrap_error ''format discount'' (MoneyToString (numericFromScaledInt (Sale_Discount s) 2))) (\<lambda>discount.
     chain (wrap_error ''format addition'' (MoneyToString (numericFromScaledInt (Sale_Addition s) 2))) (\<lambda>addition.
     chain (wrap_error ''format total'' (MoneyToString (numericFromScaledInt (Sale_Total s) 2))) (\<lambda>tot.
     Inr \<lparr>RCS_ID = uuid_String E (Sale_ID s), RCS_Number = Sale_Number s,
          RCS_Status = sale_status_string (Sale_Status s), RCS_Subtotal = subtotal,
          RCS_Discount = discount, RCS_Addition = addition, RCS_Total = tot,
          RCS_OpenedAt = timestampOrZero (Some (Sale_OpenedAt s)),
          RCS_CompletedAt = timestampOrZero (Sale_CompletedAt s),
          RCS_CancelledAt = timestampOrZero (Sale_CancelledAt s),
          RCS_CreatedAt = timestampOrZero (Some (Sale_CreatedAt s)),
          RCS_UpdatedAt = timestampOrZero (Some (Sale_UpdatedAt s)),
          RCS_IdempotencyKey = Sale_IdempotencyKey s\<rparr>))))"

definition optional_money :: "string \<Rightarrow> int option \<Rightarrow> checkout_error + string option" where
  "optional_money what value =
     (case value of None \<Rightarrow> Inr None
      | Some v \<Rightarrow> chain (wrap_error what (MoneyToString (numericFromScaledInt v 2))) (\<lambda>text. Inr (Some text)))"

definition toCheckoutPaymentResponse :: "env \<Rightarrow> payment \<times> payment_method \<Rightarrow> checkout_error + checkout_payment_response" where
  "toCheckoutPaymentResponse E pm = (case pm of (p, m) \<Rightarrow>
     chain (wrap_error ''format amount'' (MoneyToString (numericFromScaledInt (Payment_Amount p) 2))) (\<lambda>amount.
     chain (optional_money ''format received amount'' (Payment_ReceivedAmount p)) (\<lambda>received.
     chain (optional_money ''format change amount'' (Payment_ChangeAmount p)) (\<lambda>change.
     Inr \<lparr>RCP_ID = uuid_String E (Payment_ID p), RCP_SaleID = uuid_String E (Payment_SaleID p),
          RCP_PaymentMethodID = uuid_String E (Payment_PaymentMethodID p),
          RCP_PaymentMethodCode = Method_Code m, RCP_PaymentMethodName = Method_Name m,
          RCP_PaymentMethodKind = payment_method_kind_string (Method_Kind m), RCP_Amount = amount,
          RCP_ReceivedAmount = received, RCP_ChangeAmount = change,
          RCP_Status = payment_status_string (Payment_Status p), RCP_Installments = Payment_Installments p,
          RCP_ExternalReference = Payment_ExternalReference p,
          RCP_PaidAt = timestampOrZero (Payment_PaidAt p),
          RCP_CreatedAt = timestampOrZero (Some (Payment_CreatedAt p)),
          RCP_UpdatedAt = timestampOrZero (Some (Payment_UpdatedAt p))\<rparr>))))"

record checkout_state =
  CS_Sale :: sale
  CS_Items :: "sale_item list"
  CS_Payments :: "(payment \<times> payment_method) list"
  CS_FiscalDocument :: fiscal_document_response

definition toCheckoutResponse :: "env \<Rightarrow> checkout_state \<Rightarrow> checkout_error + checkout_response" where
  "toCheckoutResponse E state =
     chain (toCheckoutSaleResponse E (CS_Sale state)) (\<lambda>sale.
     chain (map_result (toCheckoutPaymentResponse E) (CS_Payments state)) (\<lambda>payments.
     Inr \<lparr>RCO_Sale = sale, RCO_Payments = payments, RCO_FiscalDocument = CS_FiscalDocument state\<rparr>))"

section \<open>The two transactions\<close>

definition Checkout_tx ::
    "env \<Rightarrow> txn \<Rightarrow> store_actor \<Rightarrow> uuid \<Rightarrow> normalized_payment list \<Rightarrow> db \<Rightarrow> checkout_error + checkout_state \<times> db" where
  "Checkout_tx E T actor saleID normalized d =
     chain (on_error (\<lambda>err. if errors_Is_NoRows err then Sentinel Checkout_ErrSaleNotFound
                            else Wrapped ''lock sale'' err)
             (LockSaleByIDForStore (ToStoreScope actor) saleID d)) (\<lambda>sale.
     case Sale_Status sale of
       SaleCOMPLETED \<Rightarrow> Inl (Sentinel Checkout_ErrSaleAlreadyCompleted)
     | SaleCANCELLED \<Rightarrow> Inl (Sentinel Checkout_ErrSaleNotOpen)
     | SaleOPEN \<Rightarrow>
     let items = ListSaleItemsBySaleIDForStore (ToStoreScope actor) saleID d in
     if items = [] then Inl (Sentinel Checkout_ErrSaleHasNoItems)
     else
     chain (validateSaleTotals sale items) (\<lambda>_.
     chain (ValidatePayments actor (numericFromScaledInt (Sale_Total sale) 2) normalized d) (\<lambda>validated.
     chain (applyInventoryChanges E (tx_now T) actor saleID items d) (\<lambda>d.
     chain (createPayments E (tx_now T) actor saleID validated d) (\<lambda>(payments, d).
     chain (wrap_error ''complete sale'' (CompleteSaleForStore (tx_now T) (ToActorScope actor) saleID d)) (\<lambda>(completed, d).
     chain (wrap_error ''create fiscal document''
             (CreateFiscalDocumentForStore E (tx_now T) (ToStoreScope actor) saleID d)) (\<lambda>(fiscalDocument, d).
     Inr (\<lparr>CS_Sale = completed, CS_Items = items, CS_Payments = payments,
           CS_FiscalDocument = toFiscalDocumentResponse E fiscalDocument\<rparr>, d))))))))"

definition toFiscalAuthorizationInput :: "env \<Rightarrow> checkout_state \<Rightarrow> checkout_error + authorization_input" where
  "toFiscalAuthorizationInput E state =
     chain (wrap_error ''format sale total''
             (MoneyToString (numericFromScaledInt (Sale_Total (CS_Sale state)) 2))) (\<lambda>saleTotal.
     Inr \<lparr>AIn_SaleID = uuid_String E (Sale_ID (CS_Sale state)), AIn_SaleNumber = Sale_Number (CS_Sale state),
          AIn_SaleTotal = saleTotal, AIn_ItemCount = int (length (CS_Items state)),
          AIn_PaymentCount = int (length (CS_Payments state)),
          AIn_CompletedAt = timestampOrZero (Sale_CompletedAt (CS_Sale state)),
          AIn_Environment = ''HOMOLOGATION'', AIn_DocumentModel = 65\<rparr>)"

definition parseUUIDMust :: "env \<Rightarrow> string \<Rightarrow> uuid option" where
  "parseUUIDMust E raw = (case (parseUUID E raw ''id'' :: checkout_error + uuid) of Inl _ \<Rightarrow> None | Inr i \<Rightarrow> Some i)"

definition authorizeFiscalDocument ::
    "env \<Rightarrow> txn \<Rightarrow> provider option \<Rightarrow> store_actor \<Rightarrow> checkout_state \<Rightarrow> db \<Rightarrow>
     (checkout_error + fiscal_document_response) \<times> db" where
  "authorizeFiscalDocument E T provider actor state d =
     (case provider of
        None \<Rightarrow> (Inr (CS_FiscalDocument state), d)
      | Some authorize \<Rightarrow>
     (case toFiscalAuthorizationInput E state of
        Inl err \<Rightarrow> (Inl err, d)
      | Inr input \<Rightarrow>
     (case authorize input of
        Inl _ \<Rightarrow>
          (case WithTx T (\<lambda>d. MarkFiscalDocumentErrorForStore (tx_now T) (ToStoreScope actor)
                   (parseUUIDMust E (RDoc_ID (CS_FiscalDocument state)))
                   ''mock_authorization_failed'' ''Fiscal authorization failed'' d) d of
             (Inl updateErr, d') \<Rightarrow> (Inl (Wrapped ''mark fiscal document error'' updateErr), d')
           | (Inr updated, d') \<Rightarrow> (Inr (toFiscalDocumentResponse E updated), d'))
      | Inr result \<Rightarrow>
          WithTx T (\<lambda>d.
            chain (MarkFiscalDocumentAuthorizedForStore (tx_now T) (ToStoreScope actor)
                    (parseUUIDMust E (RDoc_ID (CS_FiscalDocument state)))
                    \<lparr>MA_AccessKey = ARes_AccessKey result, MA_Protocol = ARes_Protocol result,
                     MA_Provider = ARes_Provider result, MA_ExternalReference = ARes_ExternalReference result,
                     MA_XML = ARes_XML result, MA_IssuedAt = None\<rparr> d) (\<lambda>(row, d).
            Inr (toFiscalDocumentResponse E row, d))) d)))"

text \<open>\<open>T1\<close> and \<open>T2\<close> are the two transactions the request runs, one after the other.\<close>

definition Checkout ::
    "env \<Rightarrow> txn \<Rightarrow> txn \<Rightarrow> provider option \<Rightarrow> store_actor \<Rightarrow> string \<Rightarrow> checkout_payment_input list \<Rightarrow> db \<Rightarrow>
     (checkout_error + checkout_response) \<times> db" where
  "Checkout E T1 T2 provider actor rawSaleID input d =
     (case parseUUID E rawSaleID ''id'' of
        Inl err \<Rightarrow> (Inl err, d)
      | Inr saleID \<Rightarrow>
     (case normalizeCheckoutInput E input of
        Inl err \<Rightarrow> (Inl err, d)
      | Inr normalized \<Rightarrow>
     (case WithTx T1 (Checkout_tx E T1 actor saleID normalized) d of
        (Inl err, d) \<Rightarrow> (Inl err, d)
      | (Inr state, d) \<Rightarrow>
     (case authorizeFiscalDocument E T2 provider actor state d of
        (Inl err, d) \<Rightarrow> (Inl err, d)
      | (Inr authorized, d) \<Rightarrow>
          (toCheckoutResponse E (state\<lparr>CS_FiscalDocument := authorized\<rparr>), d)))))"

end
