(* ===== verification/Inventory.thy ===== *)
theory Inventory
  imports Inventory_Queries
begin

text \<open>
  Component \<open>internal/inventory\<close>: stock entries and adjustments, each a change of the balance
  and a movement that records it, with the reads of balances and movements. Service
  operations (\<open>service_commands.go\<close>, \<open>service_queries.go\<close>), input validation
  (\<open>validation.go\<close>), responses (\<open>mapper.go\<close>), errors (\<open>persistence.go\<close>,
  \<open>handler_errors.go\<close>).
\<close>

section \<open>Errors\<close>

datatype inventory_sentinel =
    Inventory_ErrProductNotFound | Inventory_ErrInventoryNotFound | Inventory_ErrInsufficientInventory
  | Inventory_ErrInventoryOperationAlreadyProcessed | Inventory_ErrInventoryMovementNotFound

type_synonym inventory_error = "inventory_sentinel go_error"

definition isUniqueViolation :: "'s go_error \<Rightarrow> string \<Rightarrow> bool" where
  "isUniqueViolation err constraint =
     (case errors_As_Pg err of
        None \<Rightarrow> False
      | Some (code, name) \<Rightarrow>
          if code \<noteq> ''23505'' then False
          else if constraint = [] then True
          else name = constraint)"

type_synonym http_response = "int \<times> string \<times> string \<times> string"

definition Inventory_writeServiceError :: "inventory_error \<Rightarrow> http_response" where
  "Inventory_writeServiceError err =
     (case errors_As_Validation err of
        Some (field, msg) \<Rightarrow>
          let status = (400::int); status = (if field = ''id'' then 400 else status) in
          (status, ''validation_error'', msg, field)
      | None \<Rightarrow>
          if errors_Is err Inventory_ErrProductNotFound
          then (404, ''product_not_found'', ''Product not found'', [])
          else if errors_Is err Inventory_ErrInventoryNotFound
          then (404, ''inventory_not_found'', ''Inventory not found'', [])
          else if errors_Is err Inventory_ErrInsufficientInventory
          then (409, ''insufficient_inventory'', ''Insufficient inventory'', [])
          else if errors_Is err Inventory_ErrInventoryOperationAlreadyProcessed
          then (409, ''inventory_operation_already_processed'',
                ''This inventory operation has already been processed'', [])
          else if errors_Is err Inventory_ErrInventoryMovementNotFound
          then (404, ''inventory_movement_not_found'', ''Inventory movement not found'', [])
          else (500, ''internal_server_error'', ''An unexpected error occurred'', []))"

section \<open>Inputs\<close>

record inventory_entry_input =
  In_ProductID :: string
  In_Quantity :: string
  In_Reason :: "string option"
  In_ReferenceType :: string
  In_ReferenceID :: string

record inventory_adjustment_input =
  Adj_ProductID :: string
  Adj_Direction :: string
  Adj_Quantity :: string
  Adj_Reason :: string
  Adj_ReferenceType :: string
  Adj_ReferenceID :: string

text \<open>\<open>normalizedEntryInput\<close>, and \<open>normalizedAdjustmentInput\<close> with its direction.\<close>

record normalized_entry =
  N_ProductID :: uuid
  N_Quantity :: numeric
  N_Reason :: "string option"
  N_ReferenceType :: string
  N_ReferenceID :: uuid

record normalized_adjustment = normalized_entry +
  N_Direction :: string

definition normalizeOptionalReason :: "string option \<Rightarrow> 's go_error + string option" where
  "normalizeOptionalReason value =
     (case value of None \<Rightarrow> Inr None
      | Some v \<Rightarrow> chain (normalizeRequiredText ''reason'' v) (\<lambda>trimmed. Inr (Some trimmed)))"

definition normalizeEntryInput :: "env \<Rightarrow> inventory_entry_input \<Rightarrow> 's go_error + normalized_entry" where
  "normalizeEntryInput E input =
     chain (parseUUID E (In_ProductID input) ''productId'') (\<lambda>productID.
     chain (parseQuantity E ''quantity'' (In_Quantity input)) (\<lambda>quantity.
     chain (normalizeOptionalReason (In_Reason input)) (\<lambda>reason.
     chain (normalizeRequiredText ''referenceType'' (In_ReferenceType input)) (\<lambda>referenceType.
     chain (parseUUID E (In_ReferenceID input) ''referenceId'') (\<lambda>referenceID.
     Inr \<lparr>N_ProductID = productID, N_Quantity = quantity, N_Reason = reason,
          N_ReferenceType = referenceType, N_ReferenceID = referenceID\<rparr>)))))"

definition normalizeAdjustmentInput ::
    "env \<Rightarrow> inventory_adjustment_input \<Rightarrow> 's go_error + normalized_adjustment" where
  "normalizeAdjustmentInput E input =
     chain (parseUUID E (Adj_ProductID input) ''productId'') (\<lambda>productID.
     chain (parseQuantity E ''quantity'' (Adj_Quantity input)) (\<lambda>quantity.
     if Adj_Direction input = [] then Inl (ValidationError ''direction'' ''is required'')
     else
     let direction = strings_ToUpper (unicode_upper E) (strings_TrimSpace (Adj_Direction input)) in
     if direction \<noteq> ''IN'' \<and> direction \<noteq> ''OUT'' then Inl (ValidationError ''direction'' ''must be IN or OUT'')
     else
     chain (normalizeRequiredText ''reason'' (Adj_Reason input)) (\<lambda>reason.
     chain (normalizeRequiredText ''referenceType'' (Adj_ReferenceType input)) (\<lambda>referenceType.
     chain (parseUUID E (Adj_ReferenceID input) ''referenceId'') (\<lambda>referenceID.
     Inr \<lparr>N_ProductID = productID, N_Quantity = quantity, N_Reason = Some reason,
          N_ReferenceType = referenceType, N_ReferenceID = referenceID, N_Direction = direction\<rparr>)))))"

definition parseMovementTypeFilter :: "string \<Rightarrow> 's go_error + movement_type option" where
  "parseMovementTypeFilter value =
     (let trimmed = strings_TrimSpace value in
      if trimmed = [] then Inr None
      else case movement_type_of trimmed of
        None \<Rightarrow> Inl (ValidationError ''type'' ''must be a valid inventory movement type'')
      | Some t \<Rightarrow> Inr (Some t))"

definition optionalText :: "string \<Rightarrow> string option" where
  "optionalText value = (let trimmed = strings_TrimSpace value in if trimmed = [] then None else Some trimmed)"

section \<open>Responses\<close>

record inventory_response =
  RInv_ProductID :: string
  RInv_SKU :: string
  RInv_Barcode :: "string option"
  RInv_Name :: string
  RInv_Quantity :: string
  RInv_IsActive :: bool
  RInv_CreatedAt :: time
  RInv_UpdatedAt :: time

record inventory_change_summary =
  RChg_ProductID :: string
  RChg_PreviousQuantity :: string
  RChg_CurrentQuantity :: string
  RChg_UpdatedAt :: time

record inventory_movement_response =
  RMov_ID :: string
  RMov_ProductID :: string
  RMov_Type :: string
  RMov_Quantity :: string
  RMov_PreviousQuantity :: string
  RMov_CurrentQuantity :: string
  RMov_Reason :: "string option"
  RMov_ReferenceType :: string
  RMov_ReferenceID :: string
  RMov_CreatedAt :: time

text \<open>The driver's text of the number, brought to three decimals.\<close>

definition Inventory_numericToQuantityString :: "env \<Rightarrow> numeric \<Rightarrow> 's go_error + string" where
  "Inventory_numericToQuantityString E value =
     (if \<not> num_Valid value then Inl (OtherError ''numeric value is null'')
      else case Numeric_Value E value of
        None \<Rightarrow> Inl (OtherError ''numeric driver value'')
      | Some text \<Rightarrow> normalizeQuantityString ''quantity'' text)"

definition toInventoryDetailsResponse :: "env \<Rightarrow> product \<Rightarrow> inventory \<Rightarrow> inventory_error + inventory_response" where
  "toInventoryDetailsResponse E product inventory =
     chain (wrap_error ''format quantity''
             (Inventory_numericToQuantityString E (numericFromScaledInt (Inventory_Quantity inventory) 3))) (\<lambda>quantity.
     Inr \<lparr>RInv_ProductID = uuid_String E (Product_ID product), RInv_SKU = Product_SKU product,
          RInv_Barcode = Product_Barcode product, RInv_Name = Product_Name product, RInv_Quantity = quantity,
          RInv_IsActive = Product_IsActive product,
          RInv_CreatedAt = timestampOrZero (Some (Inventory_CreatedAt inventory)),
          RInv_UpdatedAt = timestampOrZero (Some (Inventory_UpdatedAt inventory))\<rparr>)"

text \<open>\<open>toInventoryResponse\<close> maps a row of the join the same way.\<close>

definition toInventoryResponse :: "env \<Rightarrow> inventory \<times> product \<Rightarrow> inventory_error + inventory_response" where
  "toInventoryResponse E row = (case row of (inventory, product) \<Rightarrow>
     chain (wrap_error ''format quantity''
             (Inventory_numericToQuantityString E (numericFromScaledInt (Inventory_Quantity inventory) 3))) (\<lambda>quantity.
     Inr \<lparr>RInv_ProductID = uuid_String E (Product_ID product), RInv_SKU = Product_SKU product,
          RInv_Barcode = Product_Barcode product, RInv_Name = Product_Name product, RInv_Quantity = quantity,
          RInv_IsActive = Product_IsActive product,
          RInv_CreatedAt = timestampOrZero (Some (Inventory_CreatedAt inventory)),
          RInv_UpdatedAt = timestampOrZero (Some (Inventory_UpdatedAt inventory))\<rparr>))"

definition quantity_or :: "env \<Rightarrow> string \<Rightarrow> numeric \<Rightarrow> string" where
  "quantity_or E fallback value =
     (case (Inventory_numericToQuantityString E value :: inventory_error + string) of Inl _ \<Rightarrow> fallback | Inr text \<Rightarrow> text)"

definition toInventoryChangeSummary :: "env \<Rightarrow> uuid \<Rightarrow> inventory_change \<Rightarrow> inventory_change_summary" where
  "toInventoryChangeSummary E productID c =
     \<lparr>RChg_ProductID = uuid_String E productID,
      RChg_PreviousQuantity = quantity_or E ''0.000'' (numericFromScaledInt (Change_PreviousQuantity c) 3),
      RChg_CurrentQuantity = quantity_or E ''0.000'' (numericFromScaledInt (Change_CurrentQuantity c) 3),
      RChg_UpdatedAt = timestampOrZero (Some (Change_UpdatedAt c))\<rparr>"

definition toInventoryMovementResponse :: "env \<Rightarrow> inventory_movement \<Rightarrow> inventory_error + inventory_movement_response" where
  "toInventoryMovementResponse E m =
     Inr \<lparr>RMov_ID = uuid_String E (Movement_ID m), RMov_ProductID = uuid_String E (Movement_ProductID m),
          RMov_Type = movement_type_string (Movement_MovementType m),
          RMov_Quantity = quantity_or E [] (numericFromScaledInt (Movement_Quantity m) 3),
          RMov_PreviousQuantity = quantity_or E [] (numericFromScaledInt (Movement_PreviousQuantity m) 3),
          RMov_CurrentQuantity = quantity_or E [] (numericFromScaledInt (Movement_CurrentQuantity m) 3),
          RMov_Reason = Movement_Reason m, RMov_ReferenceType = Movement_ReferenceType m,
          RMov_ReferenceID = uuid_String E (Movement_ReferenceID m),
          RMov_CreatedAt = timestampOrZero (Some (Movement_CreatedAt m))\<rparr>"

section \<open>Commands\<close>

definition Inventory_getProduct :: "store_scope \<Rightarrow> uuid \<Rightarrow> db \<Rightarrow> inventory_error + product" where
  "Inventory_getProduct scope productID d =
     on_error (\<lambda>err. if errors_Is_NoRows err then Sentinel Inventory_ErrProductNotFound
                     else Wrapped ''get product'' err)
       (GetProductByIDForStore scope productID d)"

definition translateDecreaseInventoryError :: "store_scope \<Rightarrow> uuid \<Rightarrow> db \<Rightarrow> inventory_error \<Rightarrow> inventory_error" where
  "translateDecreaseInventoryError scope productID d err =
     (if \<not> errors_Is_NoRows err then Wrapped ''decrease inventory'' err
      else case GetInventoryByProductIDForStore scope productID d of
        Inl inventoryErr \<Rightarrow>
          if errors_Is_NoRows inventoryErr then Sentinel Inventory_ErrInventoryNotFound
          else Wrapped ''check inventory balance'' inventoryErr
      | Inr _ \<Rightarrow> Sentinel Inventory_ErrInsufficientInventory)"

definition applyAdjustment ::
    "time \<Rightarrow> store_scope \<Rightarrow> normalized_adjustment \<Rightarrow> db \<Rightarrow> inventory_error + (inventory_change \<times> movement_type) \<times> db" where
  "applyAdjustment now scope input d =
     (if N_Direction input = ''IN'' then
        chain (wrap_error ''increase inventory''
                (IncreaseInventoryForStore now scope (N_ProductID input) (N_Quantity input) d)) (\<lambda>(update, d).
        Inr ((update, MovADJUSTMENT_IN), d))
      else if N_Direction input = ''OUT'' then
        chain (on_error (translateDecreaseInventoryError scope (N_ProductID input) d)
                (DecreaseInventoryForStore now scope (N_ProductID input) (N_Quantity input) d)) (\<lambda>(update, d).
        Inr ((update, MovADJUSTMENT_OUT), d))
      else Inl (ValidationError ''direction'' ''must be IN or OUT''))"

text \<open>The second half of both commands: the movement, and the response.\<close>

definition record_movement ::
    "env \<Rightarrow> time \<Rightarrow> store_actor \<Rightarrow> movement_type \<Rightarrow> normalized_entry \<Rightarrow> inventory_change \<Rightarrow> db \<Rightarrow>
     inventory_error + (inventory_change_summary \<times> inventory_movement_response) \<times> db" where
  "record_movement E now actor movementType n change d =
     chain (on_error (\<lambda>err. if isUniqueViolation err ''inventory_movements_reference_unique''
                            then Sentinel Inventory_ErrInventoryOperationAlreadyProcessed
                            else Wrapped ''create inventory movement'' err)
             (CreateInventoryMovementForStore E now (ToActorScope actor)
               \<lparr>CM_ProductID = N_ProductID n, CM_MovementType = movementType, CM_Quantity = N_Quantity n,
                CM_PreviousQuantity = numericFromScaledInt (Change_PreviousQuantity change) 3,
                CM_CurrentQuantity = numericFromScaledInt (Change_CurrentQuantity change) 3,
                CM_Reason = N_Reason n, CM_ReferenceType = N_ReferenceType n,
                CM_ReferenceID = N_ReferenceID n\<rparr> d)) (\<lambda>(movement, d).
     chain (wrap_error ''map inventory movement'' (toInventoryMovementResponse E movement)) (\<lambda>movementResponse.
     Inr ((toInventoryChangeSummary E (N_ProductID n) change, movementResponse), d)))"

definition Inventory_CreateEntry_tx ::
    "env \<Rightarrow> txn \<Rightarrow> store_actor \<Rightarrow> normalized_entry \<Rightarrow> db \<Rightarrow>
     inventory_error + (inventory_change_summary \<times> inventory_movement_response) \<times> db" where
  "Inventory_CreateEntry_tx E T actor n d =
     chain (Inventory_getProduct (ToStoreScope actor) (N_ProductID n) d) (\<lambda>_.
     chain (wrap_error ''increase inventory''
             (IncreaseInventoryForStore (tx_now T) (ToStoreScope actor) (N_ProductID n) (N_Quantity n) d)) (\<lambda>(change, d).
     record_movement E (tx_now T) actor MovPURCHASE n change d))"

definition Inventory_CreateEntry ::
    "env \<Rightarrow> txn \<Rightarrow> store_actor \<Rightarrow> inventory_entry_input \<Rightarrow> db \<Rightarrow>
     (inventory_error + inventory_change_summary \<times> inventory_movement_response) \<times> db" where
  "Inventory_CreateEntry E T actor input d =
     (case normalizeEntryInput E input of
        Inl err \<Rightarrow> (Inl err, d)
      | Inr n \<Rightarrow> WithTx T (Inventory_CreateEntry_tx E T actor n) d)"

definition Inventory_CreateAdjustment_tx ::
    "env \<Rightarrow> txn \<Rightarrow> store_actor \<Rightarrow> normalized_adjustment \<Rightarrow> db \<Rightarrow>
     inventory_error + (inventory_change_summary \<times> inventory_movement_response) \<times> db" where
  "Inventory_CreateAdjustment_tx E T actor n d =
     chain (Inventory_getProduct (ToStoreScope actor) (N_ProductID n) d) (\<lambda>_.
     chain (applyAdjustment (tx_now T) (ToStoreScope actor) n d) (\<lambda>((snapshot, movementType), d).
     record_movement E (tx_now T) actor movementType (normalized_entry.truncate n) snapshot d))"

definition Inventory_CreateAdjustment ::
    "env \<Rightarrow> txn \<Rightarrow> store_actor \<Rightarrow> inventory_adjustment_input \<Rightarrow> db \<Rightarrow>
     (inventory_error + inventory_change_summary \<times> inventory_movement_response) \<times> db" where
  "Inventory_CreateAdjustment E T actor input d =
     (case normalizeAdjustmentInput E input of
        Inl err \<Rightarrow> (Inl err, d)
      | Inr n \<Rightarrow> WithTx T (Inventory_CreateAdjustment_tx E T actor n) d)"

section \<open>Queries\<close>

record list_inventory_input =
  LI_Search :: string
  LI_Page :: "int option"
  LI_PageSize :: "int option"
  LI_ActiveOnly :: bool

definition Inventory_List ::
    "env \<Rightarrow> store_actor \<Rightarrow> list_inventory_input \<Rightarrow> db \<Rightarrow> inventory_error + inventory_response list \<times> pagination" where
  "Inventory_List E actor input d =
     chain (normalizePagination (LI_Page input) (LI_PageSize input)) (\<lambda>(page, pageSize).
     let search = optionalText (LI_Search input);
         totalRows = CountInventoryForStore E (ToStoreScope actor) search (LI_ActiveOnly input) d in
     chain (wrap_error ''list inventory''
             (ListInventoryForStore E (ToStoreScope actor) search (LI_ActiveOnly input)
               (int32 (int64 ((page - 1) * pageSize))) (int32 pageSize) d)) (\<lambda>rows.
     chain (map_result (toInventoryResponse E) rows) (\<lambda>items.
     Inr (items, paginationResponse page pageSize totalRows))))"

definition Inventory_GetByProductID ::
    "env \<Rightarrow> store_actor \<Rightarrow> string \<Rightarrow> db \<Rightarrow> inventory_error + inventory_response" where
  "Inventory_GetByProductID E actor rawID d =
     chain (parseUUID E rawID ''id'') (\<lambda>productID.
     chain (Inventory_getProduct (ToStoreScope actor) productID d) (\<lambda>product.
     chain (on_error (\<lambda>err. if errors_Is_NoRows err then Sentinel Inventory_ErrInventoryNotFound
                            else Wrapped ''get inventory'' err)
             (GetInventoryByProductIDForStore (ToStoreScope actor) productID d)) (\<lambda>inventory.
     toInventoryDetailsResponse E product inventory)))"

definition Inventory_ListMovements ::
    "env \<Rightarrow> store_actor \<Rightarrow> string \<Rightarrow> db \<Rightarrow> inventory_error + inventory_movement_response list \<times> pagination" where
  "Inventory_ListMovements E actor rawID d =
     chain (parseUUID E rawID ''id'') (\<lambda>productID.
     chain (Inventory_getProduct (ToStoreScope actor) productID d) (\<lambda>_.
     let page = 1; pageSize = 20;
         totalRows = CountInventoryMovementsByProductIDForStore (ToStoreScope actor) productID None d in
     chain (wrap_error ''list inventory movements''
             (ListInventoryMovementsByProductIDForStore (ToStoreScope actor) productID None
               (int32 ((page - 1) * pageSize)) pageSize d)) (\<lambda>rows.
     chain (map_result (toInventoryMovementResponse E) rows) (\<lambda>items.
     Inr (items, paginationResponse page pageSize totalRows)))))"

end
