(* ===== verification/Inventory_Ledger.thy ===== *)
theory Inventory_Ledger
  imports Inventory
begin

text \<open>
  The contract of the stock: balances change together with a movement that records the
  change, so the movements of a product, replayed from zero, always give its balance. The
  locale states what the statements of \<open>inventory.sql.go\<close> promise and proves what follows
  for any client; the interpretation discharges it for the model of the statements, and the
  inventory and checkout services use its facts.
\<close>

section \<open>The contract\<close>

locale stock_ledger =
  fixes level :: "'d \<Rightarrow> 'k \<Rightarrow> int"
    and history :: "'d \<Rightarrow> 'k \<Rightarrow> 'm list"
    and before :: "'m \<Rightarrow> int" and after :: "'m \<Rightarrow> int" and delta :: "'m \<Rightarrow> int"
    and shift :: "'d \<Rightarrow> 'k \<Rightarrow> int \<Rightarrow> 'd \<Rightarrow> bool"
    and log :: "'d \<Rightarrow> 'k \<Rightarrow> 'm \<Rightarrow> 'd \<Rightarrow> bool"
  assumes shift_level: "shift d k q d' \<Longrightarrow> level d' = (level d)(k := level d k + q)"
    and shift_nonneg: "shift d k q d' \<Longrightarrow> 0 \<le> level d' k"
    and shift_history: "shift d k q d' \<Longrightarrow> history d' = history d"
    and log_level: "log d k m d' \<Longrightarrow> level d' = level d"
    and log_history: "log d k m d' \<Longrightarrow> history d' = (history d)(k := history d k @ [m])"
begin

text \<open>Replaying movements from a balance.\<close>

fun replay :: "int \<Rightarrow> 'm list \<Rightarrow> int option" where
  "replay q [] = Some q"
| "replay q (m # ms) =
     (if before m = q \<and> after m = q + delta m \<and> 0 \<le> after m then replay (after m) ms else None)"

definition balanced :: "'d \<Rightarrow> bool" where
  "balanced d \<longleftrightarrow> (\<forall>k. replay 0 (history d k) = Some (level d k))"

lemma replay_append:
  "replay q (ms @ ms') = (case replay q ms of None \<Rightarrow> None | Some q' \<Rightarrow> replay q' ms')"
  by (induction ms arbitrary: q) auto

lemma replay_sum: "replay q ms = Some q' \<Longrightarrow> q' = q + sum_list (map delta ms)"
  by (induction ms arbitrary: q) (fastforce split: if_splits)+

lemma replay_nonneg: "replay q ms = Some q' \<Longrightarrow> 0 \<le> q \<Longrightarrow> 0 \<le> q'"
  by (induction ms arbitrary: q) (auto split: if_splits)

lemma balanced_sum: "balanced d \<Longrightarrow> level d k = sum_list (map delta (history d k))"
  using replay_sum [of 0 "history d k" "level d k"] by (simp add: balanced_def)

lemma balanced_nonneg: "balanced d \<Longrightarrow> 0 \<le> level d k"
  using replay_nonneg [of 0 "history d k" "level d k"] by (simp add: balanced_def)

lemma balanced_last: "balanced d \<Longrightarrow> history d k \<noteq> [] \<Longrightarrow> after (last (history d k)) = level d k"
proof -
  assume "balanced d" "history d k \<noteq> []"
  then obtain ms m where "history d k = ms @ [m]" "replay 0 (ms @ [m]) = Some (level d k)"
    by (metis append_butlast_last_id balanced_def)
  then show ?thesis by (auto simp: replay_append split: option.splits if_splits)
qed

text \<open>A change recorded by the movement that says so.\<close>

lemma recorded_shift_balanced:
  assumes "balanced d" "shift d k q d1" "log d1 k m d2"
    and "before m = level d k" "after m = level d1 k" "delta m = q"
  shows "balanced d2"
proof -
  have "replay 0 (history d k') = Some (level d k')" for k' using assms(1) by (simp add: balanced_def)
  moreover have "level d1 k = level d k + q" using shift_level [OF assms(2)] by simp
  ultimately show ?thesis
    using assms shift_nonneg [OF assms(2)]
    by (simp add: balanced_def log_level [OF assms(3)] log_history [OF assms(3)]
        shift_level [OF assms(2)] shift_history [OF assms(2)] replay_append)
qed

lemma recorded_shift_level:
  assumes "shift d k q d1" "log d1 k m d2"
  shows "level d2 = (level d)(k := level d k + q)"
  using assms by (simp add: log_level shift_level)

end

section \<open>Balances and movements of the database\<close>

type_synonym stock_key = "uuid \<times> uuid \<times> uuid"

abbreviation inventory_key :: "inventory \<Rightarrow> stock_key" where
  "inventory_key i \<equiv> (Inventory_OrganizationID i, Inventory_StoreID i, Inventory_ProductID i)"

abbreviation movement_key :: "inventory_movement \<Rightarrow> stock_key" where
  "movement_key m \<equiv> (Movement_OrganizationID m, Movement_StoreID m, Movement_ProductID m)"

definition stock_level :: "db \<Rightarrow> stock_key \<Rightarrow> int" where
  "stock_level d k =
     (case List.find (\<lambda>i. inventory_key i = k) (db_inventory d) of None \<Rightarrow> 0 | Some i \<Rightarrow> Inventory_Quantity i)"

definition movements_of :: "db \<Rightarrow> stock_key \<Rightarrow> inventory_movement list" where
  "movements_of d k = filter (\<lambda>m. movement_key m = k) (db_movements d)"

fun movement_sign :: "movement_type \<Rightarrow> int" where
  "movement_sign MovPURCHASE = 1"
| "movement_sign MovSALE = -1"
| "movement_sign MovSALE_CANCELLATION = 1"
| "movement_sign MovADJUSTMENT_IN = 1"
| "movement_sign MovADJUSTMENT_OUT = -1"

definition movement_delta :: "inventory_movement \<Rightarrow> int" where
  "movement_delta m = movement_sign (Movement_MovementType m) * Movement_Quantity m"

text \<open>
  The effect of a successful \<open>IncreaseInventoryForStore\<close> or \<open>DecreaseInventoryForStore\<close>: the
  row of the key is rewritten, or inserted.
\<close>

definition stock_shift :: "db \<Rightarrow> stock_key \<Rightarrow> int \<Rightarrow> db \<Rightarrow> bool" where
  "stock_shift d k q d' \<longleftrightarrow>
     (\<exists>pre i i' post. db_inventory d = pre @ i # post \<and> inventory_key i = k \<and> inventory_key i' = k \<and>
        (\<forall>x \<in> set pre. inventory_key x \<noteq> k) \<and> Inventory_Quantity i' = Inventory_Quantity i + q \<and>
        0 \<le> Inventory_Quantity i' \<and> d' = d\<lparr>db_inventory := pre @ i' # post\<rparr>) \<or>
     (\<exists>i'. (\<forall>x \<in> set (db_inventory d). inventory_key x \<noteq> k) \<and> inventory_key i' = k \<and>
        Inventory_Quantity i' = q \<and> 0 \<le> q \<and> d' = d\<lparr>db_inventory := db_inventory d @ [i']\<rparr>)"

text \<open>The effect of a successful \<open>CreateInventoryMovementForStore\<close>.\<close>

definition stock_log :: "db \<Rightarrow> stock_key \<Rightarrow> inventory_movement \<Rightarrow> db \<Rightarrow> bool" where
  "stock_log d k m d' \<longleftrightarrow> movement_key m = k \<and>
     (\<forall>x \<in> set (db_movements d). Movement_ID x \<noteq> Movement_ID m \<and> movement_reference x \<noteq> movement_reference m) \<and>
     d' = d\<lparr>db_movements := db_movements d @ [m], db_uuid_calls := Suc (db_uuid_calls d)\<rparr>"

lemma find_None_ball: "\<forall>x \<in> set xs. \<not> P x \<Longrightarrow> List.find P xs = None"
  by (simp add: find_None_iff)

lemma stock_level_split:
  "db_inventory d = pre @ i # post \<Longrightarrow> \<forall>x \<in> set pre. inventory_key x \<noteq> inventory_key i \<Longrightarrow>
     stock_level d k = (if k = inventory_key i then Inventory_Quantity i
       else stock_level (d\<lparr>db_inventory := pre @ post\<rparr>) k)"
  by (auto simp: stock_level_def find_append find_None_ball split: option.splits)

lemma stock_shift_level:
  assumes "stock_shift d k q d'"
  shows "stock_level d' = (stock_level d)(k := stock_level d k + q)"
  using assms unfolding stock_shift_def
proof (elim disjE exE conjE)
  fix pre i i' post
  assume s: "db_inventory d = pre @ i # post" "inventory_key i = k" "inventory_key i' = k"
    "\<forall>x \<in> set pre. inventory_key x \<noteq> k" "Inventory_Quantity i' = Inventory_Quantity i + q"
    "d' = d\<lparr>db_inventory := pre @ i' # post\<rparr>"
  show ?thesis
  proof
    fix k'
    show "stock_level d' k' = ((stock_level d)(k := stock_level d k + q)) k'"
      using stock_level_split [of d pre i post] stock_level_split [of d' pre i' post] s
      by (simp add: stock_level_def)
  qed
next
  fix i' assume s: "\<forall>x \<in> set (db_inventory d). inventory_key x \<noteq> k" "inventory_key i' = k"
    "Inventory_Quantity i' = q" "d' = d\<lparr>db_inventory := db_inventory d @ [i']\<rparr>"
  then show ?thesis
    by (auto simp: stock_level_def find_append find_None_ball fun_eq_iff split: option.splits)
qed

lemma stock_shift_nonneg: "stock_shift d k q d' \<Longrightarrow> 0 \<le> stock_level d' k"
  by (auto simp: stock_shift_def stock_level_def find_append find_None_ball)

interpretation ledger: stock_ledger stock_level movements_of
    Movement_PreviousQuantity Movement_CurrentQuantity movement_delta stock_shift stock_log
proof unfold_locales
  fix d d' :: db and k q m
  show "stock_shift d k q d' \<Longrightarrow> stock_level d' = (stock_level d)(k := stock_level d k + q)"
    by (rule stock_shift_level)
  show "stock_shift d k q d' \<Longrightarrow> 0 \<le> stock_level d' k" by (rule stock_shift_nonneg)
  show "stock_shift d k q d' \<Longrightarrow> movements_of d' = movements_of d"
    by (auto simp: stock_shift_def movements_of_def)
  show "stock_log d k m d' \<Longrightarrow> stock_level d' = stock_level d"
    by (auto simp: stock_log_def stock_level_def)
  show "stock_log d k m d' \<Longrightarrow> movements_of d' = (movements_of d)(k := movements_of d k @ [m])"
    by (auto simp: stock_log_def movements_of_def fun_eq_iff)
qed

section \<open>The statements meet the contract\<close>

lemma at_stock_key: "at_stock org store pid i \<longleftrightarrow> inventory_key i = (org, store, pid)"
  by (auto simp: at_stock_def)

lemma increase_row_Inr [result_simps]:
  "increase_row now q i = Inr i' \<longleftrightarrow>
     i' = i\<lparr>Inventory_Quantity := Inventory_Quantity i + q, Inventory_UpdatedAt := now\<rparr> \<and>
     \<bar>Inventory_Quantity i'\<bar> < 10 ^ 15 \<and> first_violation (inventory_checks i') = None"
  by (auto simp: increase_row_def Let_def result_simps)

lemma decrease_row_Inr [result_simps]:
  "decrease_row now q i = Inr i' \<longleftrightarrow>
     i' = i\<lparr>Inventory_Quantity := Inventory_Quantity i - q, Inventory_UpdatedAt := now\<rparr> \<and>
     first_violation (inventory_checks i') = None"
  by (auto simp: decrease_row_def Let_def result_simps)

lemma inventory_checks_nonneg: "first_violation (inventory_checks i) = None \<Longrightarrow> 0 \<le> Inventory_Quantity i"
  by (simp add: inventory_checks_def split: if_splits)

lemma Increase_shift:
  assumes "IncreaseInventoryForStore now scope pid n d = (Inr (c, d') :: 's go_error + _)" "denotes n v 3"
  shows "stock_shift d (SS_OrganizationID scope, SS_StoreID scope, pid) v d' \<and> 0 < v \<and>
    Change_PreviousQuantity c = stock_level d (SS_OrganizationID scope, SS_StoreID scope, pid) \<and>
    Change_CurrentQuantity c = stock_level d' (SS_OrganizationID scope, SS_StoreID scope, pid)"
proof -
  let ?k = "(SS_OrganizationID scope, SS_StoreID scope, pid)"
  have v: "pg_numeric_param 3 n = Some v" using assms(2) by (simp add: pg_numeric_param_denotes)
  with assms(1) have pos: "0 < v" by (auto simp: IncreaseInventoryForStore_def split: if_splits)
  show ?thesis
  proof (cases "List.find (at_stock (SS_OrganizationID scope) (SS_StoreID scope) pid) (db_inventory d)")
    case None
    let ?i = "\<lparr>Inventory_OrganizationID = SS_OrganizationID scope, Inventory_StoreID = SS_StoreID scope,
      Inventory_ProductID = pid, Inventory_Quantity = v, Inventory_CreatedAt = now, Inventory_UpdatedAt = now\<rparr>"
    from assms(1) None v pos have i': "inventory_key ?i = ?k" "Inventory_Quantity ?i = v"
      "d' = d\<lparr>db_inventory := db_inventory d @ [?i]\<rparr>" "Change_PreviousQuantity c = 0" "Change_CurrentQuantity c = v"
      by (auto simp: IncreaseInventoryForStore_def result_simps)
    from None have n: "\<forall>x \<in> set (db_inventory d). inventory_key x \<noteq> ?k" by (auto simp: find_None_iff at_stock_key)
    have "stock_shift d ?k v d'"
      unfolding stock_shift_def using n i' pos by (intro disjI2 exI [of _ ?i]) simp
    moreover have "stock_level d ?k = 0" using n by (simp add: stock_level_def find_None_ball)
    ultimately show ?thesis using i' pos ledger.shift_level [of d ?k v d'] by simp
  next
    case (Some i0)
    with assms(1) v pos obtain i' rows where
      u: "update_row (at_stock (SS_OrganizationID scope) (SS_StoreID scope) pid) (increase_row now v)
            (db_inventory d) = (Inr (i', rows) :: 's go_error + _)"
      and c: "d' = d\<lparr>db_inventory := rows\<rparr>" "Change_PreviousQuantity c = Inventory_Quantity i' - v"
        "Change_CurrentQuantity c = Inventory_Quantity i'"
      by (auto simp: IncreaseInventoryForStore_def result_simps Let_def)
    from update_row_InrD [OF u] c obtain pre i post where
      s: "db_inventory d = pre @ i # post" "inventory_key i = ?k" "\<forall>x \<in> set pre. inventory_key x \<noteq> ?k"
      "d' = d\<lparr>db_inventory := pre @ i\<lparr>Inventory_Quantity := Inventory_Quantity i + v, Inventory_UpdatedAt := now\<rparr> # post\<rparr>"
      "0 \<le> Inventory_Quantity i + v" "Change_PreviousQuantity c = Inventory_Quantity i"
      "Change_CurrentQuantity c = Inventory_Quantity i + v"
      by (auto simp: result_simps at_stock_key dest!: inventory_checks_nonneg)
    then have sh: "stock_shift d ?k v d'" unfolding stock_shift_def
      by (intro disjI1 exI [of _ pre] exI [of _ i] exI [of _ post]
          exI [of _ "i\<lparr>Inventory_Quantity := Inventory_Quantity i + v, Inventory_UpdatedAt := now\<rparr>"]) simp
    moreover have "stock_level d ?k = Inventory_Quantity i" using s(2) stock_level_split [OF s(1)] s(3) by simp
    ultimately show ?thesis using s(6,7) pos ledger.shift_level [OF sh] by simp
  qed
qed

lemma Decrease_shift:
  assumes "DecreaseInventoryForStore now scope pid n d = Inr (c, d')" "denotes n v 3" "stock.unique d"
  shows "stock_shift d (SS_OrganizationID scope, SS_StoreID scope, pid) (- v) d' \<and> 0 < v \<and>
    v \<le> stock_level d (SS_OrganizationID scope, SS_StoreID scope, pid) \<and>
    Change_PreviousQuantity c = stock_level d (SS_OrganizationID scope, SS_StoreID scope, pid) \<and>
    Change_CurrentQuantity c = stock_level d' (SS_OrganizationID scope, SS_StoreID scope, pid)"
proof -
  let ?k = "(SS_OrganizationID scope, SS_StoreID scope, pid)"
  have v: "pg_numeric_param 3 n = Some v" using assms(2) by (simp add: pg_numeric_param_denotes)
  with assms(1) obtain pre i post where
    s: "db_inventory d = pre @ i # post" "inventory_key i = ?k" "0 < v" "v \<le> Inventory_Quantity i"
    "d' = d\<lparr>db_inventory := pre @ i\<lparr>Inventory_Quantity := Inventory_Quantity i - v, Inventory_UpdatedAt := now\<rparr> # post\<rparr>"
    "Change_PreviousQuantity c = Inventory_Quantity i" "Change_CurrentQuantity c = Inventory_Quantity i - v"
    by (auto simp: DecreaseInventoryForStore_def result_simps at_stock_key dest!: update_row_InrD)
  from stock.unique_split(1) [OF assms(3) s(1)] s(2) have p: "\<forall>x \<in> set pre. inventory_key x \<noteq> ?k" by simp
  with s have sh: "stock_shift d ?k (- v) d'" unfolding stock_shift_def
    by (intro disjI1 exI [of _ pre] exI [of _ i] exI [of _ post]
        exI [of _ "i\<lparr>Inventory_Quantity := Inventory_Quantity i - v, Inventory_UpdatedAt := now\<rparr>"]) simp
  moreover have "stock_level d ?k = Inventory_Quantity i" using s(2) stock_level_split [OF s(1)] p by simp
  ultimately show ?thesis using s(3,4,6,7) ledger.shift_level [OF sh] by simp
qed

lemma CreateMovement_log:
  assumes "CreateInventoryMovementForStore E now scope P d = Inr (m, d')"
  shows "stock_log d (AS_OrganizationID scope, AS_StoreID scope, CM_ProductID P) m d' \<and>
    Movement_MovementType m = CM_MovementType P \<and> Movement_ReferenceType m = CM_ReferenceType P \<and>
    Movement_ReferenceID m = CM_ReferenceID P \<and> Movement_ActorMembershipID m = AS_ActorMembershipID scope \<and>
    Movement_Reason m = CM_Reason P \<and> Movement_CreatedAt m = now"
  using assms
  by (auto simp: CreateInventoryMovementForStore_def Let_def result_simps stock_log_def find_None_iff)

lemma CreateMovement_quantities:
  assumes "CreateInventoryMovementForStore E now scope P d = Inr (m, d')"
    and "denotes (CM_Quantity P) q 3" "CM_PreviousQuantity P = numericFromScaledInt a 3"
    "CM_CurrentQuantity P = numericFromScaledInt b 3"
  shows "Movement_Quantity m = q \<and> Movement_PreviousQuantity m = a \<and> Movement_CurrentQuantity m = b \<and> 0 < q"
proof -
  have q: "pg_numeric_not_null 3 (CM_Quantity P) = (if \<bar>q\<bar> < 10 ^ 15 then Inr q else Inl (PgError ''22003'' []))"
    using assms(2) by (simp add: pg_numeric_not_null_denotes)
  from assms(1,3,4) show ?thesis
    by (auto simp: CreateInventoryMovementForStore_def Let_def result_simps q movement_checks_def
        split: if_splits)
qed

section \<open>The invariant of the stock\<close>

definition stock_inv :: "db \<Rightarrow> bool" where
  "stock_inv d \<longleftrightarrow> stock.unique d \<and> movements.unique d \<and>
     distinct (map movement_reference (db_movements d)) \<and> ledger.balanced d"

text \<open>The tables the stock operations do not own.\<close>

definition stock_frame :: "db \<Rightarrow> db \<Rightarrow> bool" where
  "stock_frame d d' \<longleftrightarrow> (\<exists>i m u. d' = d\<lparr>db_inventory := i, db_movements := m, db_uuid_calls := u\<rparr>)"

text \<open>Balances and movements of other products, stores and organizations are as they were.\<close>

definition only_stock :: "stock_key \<Rightarrow> db \<Rightarrow> db \<Rightarrow> bool" where
  "only_stock k d d' \<longleftrightarrow>
     (\<forall>k'. k' \<noteq> k \<longrightarrow> stock_level d' k' = stock_level d k' \<and> movements_of d' k' = movements_of d k')"

lemma stock_frame_refl [simp]: "stock_frame d d"
  unfolding stock_frame_def
  by (rule exI [of _ "db_inventory d"], rule exI [of _ "db_movements d"], rule exI [of _ "db_uuid_calls d"]) simp

lemma stock_frame_trans: "stock_frame d d' \<Longrightarrow> stock_frame d' d'' \<Longrightarrow> stock_frame d d''"
  by (force simp: stock_frame_def)

lemma stock_frameD:
  assumes "stock_frame d d'"
  shows "db_stores d' = db_stores d" "db_memberships d' = db_memberships d" "db_products d' = db_products d"
    "db_sales d' = db_sales d" "db_sale_items d' = db_sale_items d" "db_counters d' = db_counters d"
    "db_payment_methods d' = db_payment_methods d" "db_store_payment_methods d' = db_store_payment_methods d"
    "db_payments d' = db_payments d" "db_fiscal_documents d' = db_fiscal_documents d"
  using assms by (auto simp: stock_frame_def)

lemma only_stock_refl [simp]: "only_stock k d d"
  by (simp add: only_stock_def)

lemma stock_shift_frame: "stock_shift d k q d' \<Longrightarrow> stock_frame d d' \<and> db_movements d' = db_movements d"
  unfolding stock_shift_def stock_frame_def
  by (elim disjE exE conjE)
     (rule conjI, rule exI, rule exI [of _ "db_movements d"], rule exI [of _ "db_uuid_calls d"], simp, simp)+

lemma stock_shift_unique: "stock_shift d k q d' \<Longrightarrow> stock.unique d \<Longrightarrow> stock.unique d'"
  by (auto simp: stock_shift_def stock.unique_def image_iff) blast

lemma stock_log_frame: "stock_log d k m d' \<Longrightarrow> stock_frame d d' \<and> db_inventory d' = db_inventory d"
  unfolding stock_log_def stock_frame_def
  by (elim conjE, rule conjI, rule exI [of _ "db_inventory d"], rule exI, rule exI) simp_all

lemma recorded_shift:
  assumes "stock_shift d k q d1" "stock_log d1 k m d2" "stock_inv d"
    and "Movement_PreviousQuantity m = stock_level d k" "Movement_CurrentQuantity m = stock_level d1 k"
    "movement_delta m = q"
  shows "stock_inv d2 \<and> stock_frame d d2 \<and> only_stock k d d2 \<and> stock_level d2 k = stock_level d k + q \<and>
    movements_of d2 k = movements_of d k @ [m] \<and> db_movements d2 = db_movements d @ [m]"
proof -
  have u: "stock.unique d1" using assms(1,3) stock_shift_unique by (simp add: stock_inv_def)
  have m1: "db_movements d1 = db_movements d" "stock_frame d d1" using stock_shift_frame [OF assms(1)] by simp_all
  note l = assms(2) [unfolded stock_log_def]
  have "ledger.balanced d2"
    using ledger.recorded_shift_balanced [OF _ assms(1,2,4,5,6)] assms(3) by (simp add: stock_inv_def)
  moreover have "stock.unique d2" using u l by (simp add: stock.unique_def)
  moreover have "movements.unique d2" "distinct (map movement_reference (db_movements d2))"
    using assms(3) l m1 by (auto simp: stock_inv_def movements.unique_def)
  moreover have "stock_frame d d2" using m1(2) stock_log_frame [OF assms(2)] stock_frame_trans by blast
  moreover have "movements_of d2 = (movements_of d)(k := movements_of d k @ [m])"
    using ledger.log_history [OF assms(2)] ledger.shift_history [OF assms(1)] by simp
  moreover note ledger.recorded_shift_level [OF assms(1,2)]
  ultimately show ?thesis using l m1 by (simp add: stock_inv_def only_stock_def)
qed

section \<open>The operations\<close>

text \<open>What one successful entry or adjustment does.\<close>

definition stock_moved ::
    "store_actor \<Rightarrow> uuid \<Rightarrow> movement_type \<Rightarrow> int \<Rightarrow> string \<Rightarrow> uuid \<Rightarrow> db \<Rightarrow> db \<Rightarrow> bool" where
  "stock_moved actor pid mt q refType refID d d' \<longleftrightarrow>
     (let k = (Actor_OrganizationID actor, Actor_StoreID actor, pid) in
      0 < q \<and> stock_frame d d' \<and> only_stock k d d' \<and>
      stock_level d' k = stock_level d k + movement_sign mt * q \<and> 0 \<le> stock_level d' k \<and>
      (\<exists>m. db_movements d' = db_movements d @ [m] \<and> movement_key m = k \<and>
         Movement_MovementType m = mt \<and> Movement_Quantity m = q \<and>
         Movement_PreviousQuantity m = stock_level d k \<and> Movement_CurrentQuantity m = stock_level d' k \<and>
         Movement_ReferenceType m = refType \<and> Movement_ReferenceID m = refID \<and>
         Movement_ActorMembershipID m = Actor_MembershipID actor \<and>
         movement_reference m \<notin> movement_reference ` set (db_movements d)))"

lemma record_movement_step:
  assumes "record_movement E now actor mt n c d1 = Inr (r, d')"
    and sh: "stock_shift d (Actor_OrganizationID actor, Actor_StoreID actor, N_ProductID n) (movement_sign mt * q) d1"
    and c: "Change_PreviousQuantity c = stock_level d (Actor_OrganizationID actor, Actor_StoreID actor, N_ProductID n)"
      "Change_CurrentQuantity c = stock_level d1 (Actor_OrganizationID actor, Actor_StoreID actor, N_ProductID n)"
    and q: "denotes (N_Quantity n) q 3" and inv: "stock_inv d"
  shows "stock_inv d' \<and> stock_moved actor (N_ProductID n) mt q (N_ReferenceType n) (N_ReferenceID n) d d'"
proof -
  let ?k = "(Actor_OrganizationID actor, Actor_StoreID actor, N_ProductID n)"
  let ?P = "\<lparr>CM_ProductID = N_ProductID n, CM_MovementType = mt, CM_Quantity = N_Quantity n,
     CM_PreviousQuantity = numericFromScaledInt (Change_PreviousQuantity c) 3,
     CM_CurrentQuantity = numericFromScaledInt (Change_CurrentQuantity c) 3,
     CM_Reason = N_Reason n, CM_ReferenceType = N_ReferenceType n, CM_ReferenceID = N_ReferenceID n\<rparr>"
  from assms(1) obtain m where
    m: "CreateInventoryMovementForStore E now (ToActorScope actor) ?P d1 = (Inr (m, d') :: inventory_error + _)"
    by (auto simp: record_movement_def result_simps)
  from CreateMovement_log [OF m] have l: "stock_log d1 ?k m d'" "Movement_MovementType m = mt"
    "Movement_ReferenceType m = N_ReferenceType n" "Movement_ReferenceID m = N_ReferenceID n"
    "Movement_ActorMembershipID m = Actor_MembershipID actor" by simp_all
  from CreateMovement_quantities [OF m, of q "Change_PreviousQuantity c" "Change_CurrentQuantity c"] q c have mq: "Movement_Quantity m = q"
    "Movement_PreviousQuantity m = stock_level d ?k" "Movement_CurrentQuantity m = stock_level d1 ?k" "0 < q" by simp_all
  have del: "movement_delta m = movement_sign mt * q" using l(2) mq(1) by (simp add: movement_delta_def)
  note step = recorded_shift [OF sh l(1) inv mq(2,3) del]
  have lv: "stock_level d1 ?k = stock_level d' ?k" "0 \<le> stock_level d' ?k"
    using ledger.log_level [OF l(1)] ledger.shift_nonneg [OF sh] by simp_all
  have "db_movements d1 = db_movements d" using stock_shift_frame [OF sh] by simp
  then have fresh: "movement_reference m \<notin> movement_reference ` set (db_movements d)" "movement_key m = ?k"
    using l(1) by (auto simp: stock_log_def)
  have "stock_moved actor (N_ProductID n) mt q (N_ReferenceType n) (N_ReferenceID n) d d'"
    unfolding stock_moved_def Let_def using step lv l mq fresh by (intro conjI exI [of _ m]) simp_all
  with step show ?thesis by simp
qed

lemma CreateEntry_tx_step:
  assumes "Inventory_CreateEntry_tx E T actor n d = Inr (r, d')" "denotes (N_Quantity n) q 3" "stock_inv d"
  shows "stock_inv d' \<and> stock_moved actor (N_ProductID n) MovPURCHASE q (N_ReferenceType n) (N_ReferenceID n) d d'"
proof -
  from assms(1) obtain c d1 where
    i: "IncreaseInventoryForStore (tx_now T) (ToStoreScope actor) (N_ProductID n) (N_Quantity n) d =
      (Inr (c, d1) :: inventory_error + _)" and
    m: "record_movement E (tx_now T) actor MovPURCHASE n c d1 = Inr (r, d')"
    by (auto simp: Inventory_CreateEntry_tx_def result_simps)
  from Increase_shift [OF i assms(2)] show ?thesis
    by (intro record_movement_step [OF m]) (simp_all add: assms)
qed

lemma applyAdjustment_step:
  assumes "applyAdjustment now scope n d = Inr ((c, mt), d1)" "denotes (N_Quantity n) q 3" "stock_inv d"
  shows "stock_shift d (SS_OrganizationID scope, SS_StoreID scope, N_ProductID n) (movement_sign mt * q) d1 \<and>
    Change_PreviousQuantity c = stock_level d (SS_OrganizationID scope, SS_StoreID scope, N_ProductID n) \<and>
    Change_CurrentQuantity c = stock_level d1 (SS_OrganizationID scope, SS_StoreID scope, N_ProductID n) \<and>
    mt = (if N_Direction n = ''IN'' then MovADJUSTMENT_IN else MovADJUSTMENT_OUT)"
proof -
  have u: "stock.unique d" using assms(3) by (simp add: stock_inv_def)
  from assms(1) consider
    (increase) "IncreaseInventoryForStore now scope (N_ProductID n) (N_Quantity n) d = (Inr (c, d1) :: inventory_error + _)"
      "mt = MovADJUSTMENT_IN" "N_Direction n = ''IN''" |
    (decrease) "DecreaseInventoryForStore now scope (N_ProductID n) (N_Quantity n) d = (Inr (c, d1) :: inventory_error + _)"
      "mt = MovADJUSTMENT_OUT" "N_Direction n \<noteq> ''IN''"
    by (auto simp: applyAdjustment_def result_simps split: if_splits)
  then show ?thesis
  proof cases
    case increase
    from Increase_shift [OF increase(1) assms(2)] increase(2,3) show ?thesis by simp
  next
    case decrease
    from Decrease_shift [OF decrease(1) assms(2) u] decrease(2,3) show ?thesis by simp
  qed
qed

lemma CreateAdjustment_tx_step:
  assumes "Inventory_CreateAdjustment_tx E T actor n d = Inr (r, d')" "denotes (N_Quantity n) q 3" "stock_inv d"
  shows "stock_inv d' \<and> stock_moved actor (N_ProductID n)
    (if N_Direction n = ''IN'' then MovADJUSTMENT_IN else MovADJUSTMENT_OUT) q (N_ReferenceType n) (N_ReferenceID n) d d'"
proof -
  let ?mt = "if N_Direction n = ''IN'' then MovADJUSTMENT_IN else MovADJUSTMENT_OUT"
  let ?n = "normalized_entry.truncate n"
  have t: "N_ProductID ?n = N_ProductID n" "N_Quantity ?n = N_Quantity n" "N_ReferenceType ?n = N_ReferenceType n"
    "N_ReferenceID ?n = N_ReferenceID n" by (simp_all add: normalized_entry.truncate_def)
  from assms(1) obtain c mt d1 where
    a: "applyAdjustment (tx_now T) (ToStoreScope actor) n d = Inr ((c, mt), d1)" and
    m: "record_movement E (tx_now T) actor mt ?n c d1 = Inr (r, d')"
    by (auto simp: Inventory_CreateAdjustment_tx_def result_simps)
  note st = applyAdjustment_step [OF a assms(2,3)]
  have "stock_inv d' \<and> stock_moved actor (N_ProductID ?n) mt q (N_ReferenceType ?n) (N_ReferenceID ?n) d d'"
    using st [THEN conjunct1] st [THEN conjunct2, THEN conjunct1] st [THEN conjunct2, THEN conjunct2, THEN conjunct1]
    by (intro record_movement_step [OF m]) (simp_all add: t assms)
  then show ?thesis using st [THEN conjunct2, THEN conjunct2, THEN conjunct2] by (simp add: t)
qed

lemma normalizeEntryInput_quantity:
  assumes "scan_law E" "normalizeEntryInput E input = (Inr n :: 's go_error + _)"
  shows "\<exists>q. quantity_value (strings_TrimSpace (In_Quantity input)) = Some q \<and> denotes (N_Quantity n) q 3 \<and> 0 < q"
  using assms(2) parseQuantity_denotes [OF assms(1), where 's = 's]
  by (auto simp: normalizeEntryInput_def result_simps)

lemma normalizeAdjustmentInput_quantity:
  assumes "scan_law E" "normalizeAdjustmentInput E input = (Inr n :: 's go_error + _)"
  shows "\<exists>q. quantity_value (strings_TrimSpace (Adj_Quantity input)) = Some q \<and> denotes (N_Quantity n) q 3 \<and> 0 < q"
  using assms(2) parseQuantity_denotes [OF assms(1), where 's = 's]
  by (auto simp: normalizeAdjustmentInput_def result_simps Let_def split: if_splits)

lemma CreateEntry_InrE:
  assumes "Inventory_CreateEntry E T actor input d = (Inr r, d')" "scan_law E"
  obtains n q where "normalizeEntryInput E input = (Inr n :: inventory_error + _)" "denotes (N_Quantity n) q 3"
    "quantity_value (strings_TrimSpace (In_Quantity input)) = Some q"
    "Inventory_CreateEntry_tx E T actor n d = Inr (r, d')"
  using assms normalizeEntryInput_quantity [OF assms(2), where 's = inventory_sentinel]
  by (fastforce simp: Inventory_CreateEntry_def result_simps split: sum.splits)

lemma CreateAdjustment_InrE:
  assumes "Inventory_CreateAdjustment E T actor input d = (Inr r, d')" "scan_law E"
  obtains n q where "normalizeAdjustmentInput E input = (Inr n :: inventory_error + _)" "denotes (N_Quantity n) q 3"
    "quantity_value (strings_TrimSpace (Adj_Quantity input)) = Some q"
    "Inventory_CreateAdjustment_tx E T actor n d = Inr (r, d')"
  using assms normalizeAdjustmentInput_quantity [OF assms(2), where 's = inventory_sentinel]
  by (fastforce simp: Inventory_CreateAdjustment_def result_simps split: sum.splits)

lemma Inventory_Inl_unchanged:
  "Inventory_CreateEntry E T actor input d = (Inl e, d') \<Longrightarrow> d' = d"
  "Inventory_CreateAdjustment E T actor input' d = (Inl e, d') \<Longrightarrow> d' = d"
  by (auto simp: Inventory_CreateEntry_def Inventory_CreateAdjustment_def split: sum.splits dest: WithTx_Inl)

lemma stock_moved_frame: "stock_moved actor pid mt q rt rid d d' \<Longrightarrow> stock_frame d d'"
  by (simp add: stock_moved_def Let_def)

lemma CreateEntry_kept:
  assumes "Inventory_CreateEntry E T actor input d = (res, d')" "scan_law E" "stock_inv d"
  shows "stock_inv d' \<and> stock_frame d d'"
proof (cases res)
  case (Inl e)
  with assms show ?thesis by (auto dest!: Inventory_Inl_unchanged(1))
next
  case (Inr r)
  with assms show ?thesis
    by (auto elim!: CreateEntry_InrE dest!: CreateEntry_tx_step dest: stock_moved_frame)
qed

lemma CreateAdjustment_kept:
  assumes "Inventory_CreateAdjustment E T actor input d = (res, d')" "scan_law E" "stock_inv d"
  shows "stock_inv d' \<and> stock_frame d d'"
proof (cases res)
  case (Inl e)
  with assms show ?thesis by (auto dest!: Inventory_Inl_unchanged(2))
next
  case (Inr r)
  with assms show ?thesis
    by (auto elim!: CreateAdjustment_InrE dest!: CreateAdjustment_tx_step dest: stock_moved_frame)
qed

end
