(* ===== verification/Checkout_Stock.thy ===== *)
theory Checkout_Stock
  imports Checkout Inventory_Ledger
begin

text \<open>
  The stock step of the checkout: the items of the sale are summed per product and every
  product's balance goes down by its sum, with one movement that refers to the sale.
\<close>

section \<open>Texts of identifiers\<close>

text \<open>The text of a UUID has 36 characters, none of them space around, and scans back to the UUID.\<close>

definition uuid_law :: "env \<Rightarrow> bool" where
  "uuid_law E \<longleftrightarrow> (\<forall>u. uuid_Scan E (uuid_String E u) = Some u \<and>
     strings_TrimSpace (uuid_String E u) = uuid_String E u \<and> length (uuid_String E u) = 36)"

lemma uuid_String_eq: "uuid_law E \<Longrightarrow> uuid_String E u = uuid_String E v \<longleftrightarrow> u = v"
  by (metis option.inject uuid_law_def)

lemma parseUUID_String:
  assumes "uuid_law E"
  shows "parseUUID E (uuid_String E u) field = Inr u"
proof -
  have "length (uuid_String E u) = 36" using assms by (simp add: uuid_law_def)
  then have "uuid_String E u \<noteq> []" by auto
  with assms show ?thesis by (simp add: uuid_law_def parseUUID_def)
qed

lemma parseUUIDMust_String: "uuid_law E \<Longrightarrow> parseUUIDMust E (uuid_String E u) = Some u"
  by (simp add: parseUUIDMust_def parseUUID_String)

section \<open>Sums per product\<close>

definition sold :: "sale_item list \<Rightarrow> uuid \<Rightarrow> int" where
  "sold items p = sum_list (map Item_Quantity (filter (\<lambda>i. Item_ProductID i = p) items))"

definition aggregated :: "env \<Rightarrow> sale_item list \<Rightarrow> (string \<times> uuid \<times> numeric) list \<Rightarrow> bool" where
  "aggregated E items al \<longleftrightarrow> distinct (map fst al) \<and>
     set al = (\<lambda>p. (uuid_String E p, p, numericFromScaledInt (sold items p) 3)) ` Item_ProductID ` set items"

lemma sold_append: "sold (xs @ ys) p = sold xs p + sold ys p"
  by (simp add: sold_def)

lemma sold_absent: "p \<notin> Item_ProductID ` set items \<Longrightarrow> sold items p = 0"
  by (induction items) (auto simp: sold_def)

lemma aggregated_lookup:
  assumes "aggregated E items al" "uuid_law E"
  shows "map_of al (uuid_String E p) =
    (if p \<in> Item_ProductID ` set items then Some (p, numericFromScaledInt (sold items p) 3) else None)"
proof (cases "p \<in> Item_ProductID ` set items")
  case True
  with assms(1) have "(uuid_String E p, p, numericFromScaledInt (sold items p) 3) \<in> set al" "distinct (map fst al)"
    by (auto simp: aggregated_def)
  with True show ?thesis by (simp add: map_of_is_SomeI)
next
  case False
  with assms have "uuid_String E p \<notin> fst ` set al" by (auto simp: aggregated_def uuid_String_eq image_iff)
  with False show ?thesis by (simp add: map_of_eq_None_iff)
qed

lemma aggregated_step:
  assumes "aggregated E items al" "uuid_law E"
  shows "aggregated E (items @ [i])
    (AList.update (uuid_String E (Item_ProductID i))
       (Item_ProductID i, numericFromScaledInt (sold (items @ [i]) (Item_ProductID i)) 3) al)"
    (is "aggregated _ _ (AList.update ?k ?v al)")
proof -
  let ?p = "Item_ProductID i"
  have d: "distinct (map fst al)" using assms(1) by (simp add: aggregated_def)
  then have d': "distinct (map fst (AList.update ?k ?v al))" by (rule distinct_update)
  have "x \<in> set (AList.update ?k ?v al) \<longleftrightarrow>
      x \<in> (\<lambda>p. (uuid_String E p, p, numericFromScaledInt (sold (items @ [i]) p) 3)) ` Item_ProductID ` set (items @ [i])" for x
  proof -
    obtain k w where x: "x = (k, w)" by (cases x)
    have "x \<in> set (AList.update ?k ?v al) \<longleftrightarrow> map_of (AList.update ?k ?v al) k = Some w"
      using d' x by (simp add: map_of_eq_Some_iff)
    also have "\<dots> \<longleftrightarrow> (if k = ?k then w = ?v else map_of al k = Some w)"
      by (auto simp: update_conv)
    also have "\<dots> \<longleftrightarrow> (if k = ?k then w = ?v else x \<in> set al)" using d x by (simp add: map_of_eq_Some_iff)
    also have "\<dots> \<longleftrightarrow> x \<in> (\<lambda>p. (uuid_String E p, p, numericFromScaledInt (sold (items @ [i]) p) 3)) `
        Item_ProductID ` set (items @ [i])"
    proof (cases "k = ?k")
      case True
      then show ?thesis using x assms(2) by (auto simp: uuid_String_eq)
    next
      case False
      have s: "sold (items @ [i]) p = sold items p" if "uuid_String E p \<noteq> ?k" for p
        using that by (cases "p = ?p") (simp_all add: sold_append, simp add: sold_def)
      have "x \<in> set al \<longleftrightarrow> (\<exists>p \<in> Item_ProductID ` set items. k = uuid_String E p \<and>
          w = (p, numericFromScaledInt (sold items p) 3))"
        using assms(1) x by (auto simp: aggregated_def)
      also have "\<dots> \<longleftrightarrow> (\<exists>p \<in> Item_ProductID ` set (items @ [i]). k = uuid_String E p \<and>
          w = (p, numericFromScaledInt (sold (items @ [i]) p) 3))"
      proof (intro iffI; elim bexE conjE)
        fix p assume "p \<in> Item_ProductID ` set items" "k = uuid_String E p" "w = (p, numericFromScaledInt (sold items p) 3)"
        with False s show "\<exists>p \<in> Item_ProductID ` set (items @ [i]). k = uuid_String E p \<and>
          w = (p, numericFromScaledInt (sold (items @ [i]) p) 3)" by (intro bexI [of _ p]) auto
      next
        fix p assume p: "p \<in> Item_ProductID ` set (items @ [i])" "k = uuid_String E p"
          "w = (p, numericFromScaledInt (sold (items @ [i]) p) 3)"
        with False have "p \<noteq> ?p" by blast
        with p False s show "\<exists>p \<in> Item_ProductID ` set items. k = uuid_String E p \<and>
          w = (p, numericFromScaledInt (sold items p) 3)" by (intro bexI [of _ p]) auto
      qed
      finally show ?thesis using False x by (auto simp: image_iff)
    qed
    finally show ?thesis .
  qed
  with d' show ?thesis by (auto simp: aggregated_def)
qed

lemma aggregate_loop_total:
  assumes "aggregated E done al" "uuid_law E"
  shows "\<exists>al'. aggregate_loop E items al = Inr al' \<and> aggregated E (done @ items) al'"
  using assms
proof (induction items arbitrary: "done" al)
  case Nil
  then show ?case by simp
next
  case (Cons i items)
  let ?al = "AList.update (uuid_String E (Item_ProductID i))
       (Item_ProductID i, numericFromScaledInt (sold (done @ [i]) (Item_ProductID i)) 3) al"
  have "aggregate_loop E (i # items) al = aggregate_loop E items ?al"
    using sold_absent [of "Item_ProductID i" "done"]
    by (simp add: aggregated_lookup [OF Cons.prems] sold_append) (simp add: sold_def)
  moreover have "aggregated E (done @ [i]) ?al" by (rule aggregated_step [OF Cons.prems])
  ultimately show ?case using Cons.IH [of "done @ [i]" ?al] Cons.prems(2) by simp
qed

text \<open>
  The loop over the sorted keys visits every product of the items once, in the order of the
  products' identifier texts.
\<close>

lemma aggregate_spec:
  assumes "uuid_law E"
  shows "\<exists>al ps. aggregate_loop E items [] = Inr al \<and> distinct ps \<and> set ps = Item_ProductID ` set items \<and>
    map (\<lambda>key. the (map_of al key)) (sort (map fst al)) = map (\<lambda>p. (p, numericFromScaledInt (sold items p) 3)) ps \<and>
    sorted (map (uuid_String E) ps)"
proof -
  have "aggregated E [] []" by (simp add: aggregated_def)
  from aggregate_loop_total [OF this assms, of items] obtain al
    where al: "aggregate_loop E items [] = Inr al" "aggregated E items al" by auto
  let ?keys = "sort (map fst al)"
  let ?ps = "map (\<lambda>key. fst (the (map_of al key))) ?keys"
  have keys: "set ?keys = uuid_String E ` Item_ProductID ` set items" "distinct ?keys"
    using al(2) by (auto simp: aggregated_def image_iff)
  have look: "the (map_of al key) = (fst (the (map_of al key)),
      numericFromScaledInt (sold items (fst (the (map_of al key)))) 3) \<and>
      uuid_String E (fst (the (map_of al key))) = key \<and> fst (the (map_of al key)) \<in> Item_ProductID ` set items"
    if key: "key \<in> set ?keys" for key
  proof -
    from key keys(1) obtain p where "key = uuid_String E p" "p \<in> Item_ProductID ` set items" by (metis imageE)
    then show ?thesis by (simp add: aggregated_lookup [OF al(2) assms])
  qed
  have "inj_on (\<lambda>key. fst (the (map_of al key))) (set ?keys)"
    by (rule inj_on_inverseI [where g = "uuid_String E"]) (rule look [THEN conjunct2, THEN conjunct1])
  with keys(2) have p1: "distinct ?ps" unfolding distinct_map by blast
  have "set ?ps = (\<lambda>p. fst (the (map_of al (uuid_String E p)))) ` Item_ProductID ` set items"
    unfolding set_map keys(1) by (simp only: image_image)
  also have "\<dots> = (\<lambda>p. p) ` Item_ProductID ` set items"
    by (rule image_cong [OF refl]) (simp add: aggregated_lookup [OF al(2) assms])
  finally have p2: "set ?ps = Item_ProductID ` set items" by simp
  have p3: "map (\<lambda>key. the (map_of al key)) ?keys = map (\<lambda>p. (p, numericFromScaledInt (sold items p) 3)) ?ps"
    unfolding map_map o_def by (rule map_cong [OF refl]) (rule look [THEN conjunct1])
  have "map (uuid_String E) ?ps = ?keys"
    unfolding map_map o_def by (rule map_idI) (rule look [THEN conjunct2, THEN conjunct1])
  then have p4: "sorted (map (uuid_String E) ?ps)" by (simp only: sorted_sort)
  show ?thesis by (rule exI [of _ al], rule exI [of _ ?ps]) (intro conjI al(1) p1 p2 p3 p4)
qed

section \<open>Taking the stock\<close>

definition sale_movement :: "store_actor \<Rightarrow> uuid \<Rightarrow> inventory_movement \<Rightarrow> bool" where
  "sale_movement actor saleID m \<longleftrightarrow> Movement_OrganizationID m = Actor_OrganizationID actor \<and>
     Movement_StoreID m = Actor_StoreID actor \<and> Movement_MovementType m = MovSALE \<and>
     Movement_ReferenceType m = ''sale'' \<and> Movement_ReferenceID m = saleID \<and>
     Movement_ActorMembershipID m = Actor_MembershipID actor"

lemma take_stock_step:
  assumes "take_stock E now actor saleID (p, numericFromScaledInt q 3) d = Inr d'" "stock_inv d"
  shows "stock_inv d' \<and> stock_frame d d' \<and> 0 < q \<and> q \<le> stock_level d (Actor_OrganizationID actor, Actor_StoreID actor, p) \<and>
    stock_level d' = (stock_level d)((Actor_OrganizationID actor, Actor_StoreID actor, p) :=
      stock_level d (Actor_OrganizationID actor, Actor_StoreID actor, p) - q) \<and>
    (\<exists>m. db_movements d' = db_movements d @ [m] \<and> sale_movement actor saleID m \<and>
      Movement_ProductID m = p \<and> Movement_Quantity m = q)"
proof -
  let ?k = "(Actor_OrganizationID actor, Actor_StoreID actor, p)"
  let ?P = "\<lambda>c. \<lparr>CM_ProductID = p, CM_MovementType = MovSALE, CM_Quantity = numericFromScaledInt q 3,
     CM_PreviousQuantity = numericFromScaledInt (Change_PreviousQuantity c) 3,
     CM_CurrentQuantity = numericFromScaledInt (Change_CurrentQuantity c) 3,
     CM_Reason = None, CM_ReferenceType = ''sale'', CM_ReferenceID = saleID\<rparr>"
  from assms(1) obtain c d1 m where
    dec: "DecreaseInventoryForStore now (ToStoreScope actor) p (numericFromScaledInt q 3) d = (Inr (c, d1) :: checkout_error + _)" and
    mov: "CreateInventoryMovementForStore E now (ToActorScope actor) (?P c) d1 = (Inr (m, d') :: checkout_error + _)"
    by (auto simp: take_stock_def result_simps)
  have den: "denotes (numericFromScaledInt q 3) q 3" by simp
  have u: "stock.unique d" using assms(2) by (simp add: stock_inv_def)
  from Decrease_shift [OF dec den u] have sh: "stock_shift d ?k (- q) d1" "0 < q" "q \<le> stock_level d ?k"
    "Change_PreviousQuantity c = stock_level d ?k" "Change_CurrentQuantity c = stock_level d1 ?k" by simp_all
  from CreateMovement_log [OF mov] have l: "stock_log d1 ?k m d'" "Movement_MovementType m = MovSALE"
    "Movement_ReferenceType m = ''sale''" "Movement_ReferenceID m = saleID"
    "Movement_ActorMembershipID m = Actor_MembershipID actor" by simp_all
  have "denotes (CM_Quantity (?P c)) q 3" by simp
  from CreateMovement_quantities [OF mov this, of "Change_PreviousQuantity c" "Change_CurrentQuantity c"] sh
  have mq: "Movement_Quantity m = q" "Movement_PreviousQuantity m = stock_level d ?k"
    "Movement_CurrentQuantity m = stock_level d1 ?k" by simp_all
  have "movement_delta m = - q" using l(2) mq(1) by (simp add: movement_delta_def)
  note step = recorded_shift [OF sh(1) l(1) assms(2) mq(2,3) this]
  have key: "movement_key m = ?k" using l(1) by (simp add: stock_log_def)
  have "stock_level d' = (stock_level d)(?k := stock_level d ?k - q)"
    using ledger.recorded_shift_level [OF sh(1) l(1)] by simp
  moreover have "sale_movement actor saleID m" using l key by (simp add: sale_movement_def)
  ultimately show ?thesis using step sh(2,3) key mq(1) by simp
qed

definition stock_taken :: "store_actor \<Rightarrow> uuid \<Rightarrow> uuid list \<Rightarrow> (uuid \<Rightarrow> int) \<Rightarrow> db \<Rightarrow> db \<Rightarrow> bool" where
  "stock_taken actor saleID ps q d d' \<longleftrightarrow>
     (\<forall>p \<in> set ps. 0 < q p \<and> q p \<le> stock_level d (Actor_OrganizationID actor, Actor_StoreID actor, p)) \<and>
     (\<forall>org store p. stock_level d' (org, store, p) =
        (if org = Actor_OrganizationID actor \<and> store = Actor_StoreID actor \<and> p \<in> set ps
         then stock_level d (org, store, p) - q p else stock_level d (org, store, p))) \<and>
     (\<exists>ms. db_movements d' = db_movements d @ ms \<and> map Movement_ProductID ms = ps \<and>
        (\<forall>m \<in> set ms. sale_movement actor saleID m \<and> Movement_Quantity m = q (Movement_ProductID m)))"

lemma take_stock_loop_step:
  assumes "take_stock_loop E now actor saleID (map (\<lambda>p. (p, numericFromScaledInt (q p) 3)) ps) d = Inr d'"
    and "stock_inv d" "distinct ps"
  shows "stock_inv d' \<and> stock_frame d d' \<and> stock_taken actor saleID ps q d d'"
  using assms
proof (induction ps arbitrary: d)
  case Nil
  then show ?case by (simp add: stock_taken_def)
next
  case (Cons p ps)
  from Cons.prems(1) obtain d1 where
    1: "take_stock E now actor saleID (p, numericFromScaledInt (q p) 3) d = Inr d1" and
    2: "take_stock_loop E now actor saleID (map (\<lambda>p. (p, numericFromScaledInt (q p) 3)) ps) d1 = Inr d'"
    by (auto simp: result_simps)
  from take_stock_step [OF 1 Cons.prems(2)] obtain m where
    s1: "stock_inv d1" "stock_frame d d1" "0 < q p" "q p \<le> stock_level d (Actor_OrganizationID actor, Actor_StoreID actor, p)"
    "stock_level d1 = (stock_level d)((Actor_OrganizationID actor, Actor_StoreID actor, p) :=
       stock_level d (Actor_OrganizationID actor, Actor_StoreID actor, p) - q p)"
    and m: "db_movements d1 = db_movements d @ [m]" "sale_movement actor saleID m" "Movement_ProductID m = p"
      "Movement_Quantity m = q p" by blast
  from Cons.IH [OF 2 s1(1)] Cons.prems(3) have s2: "stock_inv d'" "stock_frame d1 d'" "stock_taken actor saleID ps q d1 d'"
    by simp_all
  from s2(3) obtain ms where ms: "db_movements d' = db_movements d1 @ ms" "map Movement_ProductID ms = ps"
    "\<forall>m \<in> set ms. sale_movement actor saleID m \<and> Movement_Quantity m = q (Movement_ProductID m)"
    unfolding stock_taken_def by blast
  have "stock_taken actor saleID (p # ps) q d d'"
    unfolding stock_taken_def
  proof (intro conjI)
    show "\<forall>r \<in> set (p # ps). 0 < q r \<and> q r \<le> stock_level d (Actor_OrganizationID actor, Actor_StoreID actor, r)"
    proof
      fix r assume r: "r \<in> set (p # ps)"
      have "\<forall>r \<in> set ps. 0 < q r \<and> q r \<le> stock_level d1 (Actor_OrganizationID actor, Actor_StoreID actor, r)"
        using s2(3) unfolding stock_taken_def by blast
      with r s1(3-5) Cons.prems(3)
      show "0 < q r \<and> q r \<le> stock_level d (Actor_OrganizationID actor, Actor_StoreID actor, r)"
        by (cases "r = p") auto
    qed
    show "\<forall>org store r. stock_level d' (org, store, r) =
        (if org = Actor_OrganizationID actor \<and> store = Actor_StoreID actor \<and> r \<in> set (p # ps)
         then stock_level d (org, store, r) - q r else stock_level d (org, store, r))"
      using s1(5) s2(3) Cons.prems(3) by (auto simp: stock_taken_def)
    show "\<exists>ms. db_movements d' = db_movements d @ ms \<and> map Movement_ProductID ms = p # ps \<and>
        (\<forall>m \<in> set ms. sale_movement actor saleID m \<and> Movement_Quantity m = q (Movement_ProductID m))"
      by (rule exI [of _ "m # ms"]) (use m ms in simp)
  qed
  with s1(2) s2 show ?case by (blast intro: stock_frame_trans)
qed

lemma applyInventoryChanges_step:
  assumes "applyInventoryChanges E now actor saleID items d = Inr d'" "stock_inv d" "uuid_law E"
  shows "stock_inv d' \<and> stock_frame d d' \<and>
    (\<exists>ps. distinct ps \<and> set ps = Item_ProductID ` set items \<and> stock_taken actor saleID ps (sold items) d d')"
proof -
  from aggregate_spec [OF assms(3), of items] obtain al ps where
    a: "aggregate_loop E items [] = Inr al" "distinct ps" "set ps = Item_ProductID ` set items"
    "map (\<lambda>key. the (map_of al key)) (sort (map fst al)) = map (\<lambda>p. (p, numericFromScaledInt (sold items p) 3)) ps"
    by blast
  with assms(1) have "take_stock_loop E now actor saleID (map (\<lambda>p. (p, numericFromScaledInt (sold items p) 3)) ps) d = Inr d'"
    by (simp add: applyInventoryChanges_def)
  from take_stock_loop_step [OF this assms(2) a(2)] a(2,3) show ?thesis by blast
qed

end
