(* ===== verification/Checkout_Payments.thy ===== *)
theory Checkout_Payments
  imports Checkout_Stock
begin

text \<open>
  The payments step of the checkout: what \<open>ValidatePayments\<close> accepts and what
  \<open>createPayments\<close> stores.
\<close>

section \<open>Amounts in cents\<close>

definition cents :: "numeric \<Rightarrow> int" where
  "cents n = (case (numericToScaledInt n 2 :: unit go_error + int) of Inl _ \<Rightarrow> 0 | Inr i \<Rightarrow> i)"

definition is_money :: "numeric \<Rightarrow> bool" where
  "is_money n \<longleftrightarrow> (\<exists>v. denotes n v 2 \<and> 0 \<le> v)"

lemma cents_denotes: "denotes n v 2 \<Longrightarrow> cents n = v"
  by (simp add: cents_def numericToScaledInt_2)

lemma is_money_denotes: "is_money n \<Longrightarrow> denotes n (cents n) 2 \<and> 0 \<le> cents n"
  by (auto simp: is_money_def cents_denotes)

lemma cents_FromScaled [simp]: "cents (numericFromScaledInt v 2) = v"
  by (rule cents_denotes) simp

lemma cents_zeroMoney [simp]: "cents zeroMoney = 0"
  by (simp add: zeroMoney_def)

lemma is_money_zero [simp]: "is_money zeroMoney"
  unfolding is_money_def zeroMoney_def by (rule exI [of _ 0]) simp

lemma is_money_arith:
  assumes "is_money a" "is_money b"
  shows "Checkout_compareMoney a b = Inr (big_Cmp (cents a) (cents b))"
    "addMoney a b = Inr (numericFromScaledInt (cents a + cents b) 2)"
    "Checkout_subtractMoney a b = Inr (numericFromScaledInt (cents a - cents b) 2)"
  using assms [THEN is_money_denotes] by (simp_all add: Checkout_arith_denotes)

lemma is_money_FromScaled [simp]: "is_money (numericFromScaledInt v 2) \<longleftrightarrow> 0 \<le> v"
proof
  show "0 \<le> v \<Longrightarrow> is_money (numericFromScaledInt v 2)"
    unfolding is_money_def by (rule exI [of _ v]) simp
  show "is_money (numericFromScaledInt v 2) \<Longrightarrow> 0 \<le> v"
    using is_money_denotes by fastforce
qed

lemma pg_numeric_money: "is_money n \<Longrightarrow> pg_numeric 2 n = Inr r \<longleftrightarrow> r = Some (cents n) \<and> \<bar>cents n\<bar> < 10 ^ 15"
  using is_money_denotes [of n] by (auto simp: pg_numeric_denotes split: if_splits)

lemma pg_numeric_not_null_money:
  "is_money n \<Longrightarrow> pg_numeric_not_null 2 n = Inr r \<longleftrightarrow> r = cents n \<and> \<bar>cents n\<bar> < 10 ^ 15"
  using is_money_denotes [of n] by (auto simp: pg_numeric_not_null_denotes split: if_splits)

lemma pg_numeric_null [simp]: "pg_numeric 2 null_numeric = Inr None"
  by (simp add: pg_numeric_def null_numeric_def)

lemma pg_numeric_deref:
  "(case m of None \<Rightarrow> True | Some n \<Rightarrow> is_money n) \<Longrightarrow>
     pg_numeric 2 (derefNumeric m) = Inr r \<Longrightarrow> r = map_option cents m"
  by (cases m) (auto simp: derefNumeric_def pg_numeric_money)

section \<open>Normalized input\<close>

definition payment_money :: "normalized_payment \<Rightarrow> bool" where
  "payment_money p \<longleftrightarrow> is_money (NP_Amount p) \<and> (case NP_ReceivedAmount p of None \<Rightarrow> True | Some r \<Rightarrow> is_money r)"

lemma Checkout_parseMoney_is_money: "scan_law E \<Longrightarrow> Checkout_parseMoney E field s = Inr n \<Longrightarrow> is_money n"
  by (auto simp: is_money_def dest!: Checkout_parseMoney_denotes)

lemma normalizeCheckoutPaymentInput_money:
  "scan_law E \<Longrightarrow> normalizeCheckoutPaymentInput E input i = Inr p \<Longrightarrow> payment_money p"
  by (auto simp: normalizeCheckoutPaymentInput_def payment_money_def result_simps
      intro: Checkout_parseMoney_is_money split: option.splits)

lemma normalize_payments_loop_money:
  "scan_law E \<Longrightarrow> normalize_payments_loop E i input = Inr ps \<Longrightarrow> \<forall>p \<in> set ps. payment_money p"
  by (induction input arbitrary: i ps) (auto simp: result_simps intro: normalizeCheckoutPaymentInput_money)

section \<open>Validation\<close>

text \<open>
  The received amount and the change: cash covers the amount and gives the difference back;
  any other method, if it states a received amount, states the amount itself.
\<close>

definition received_ok :: "payment_method \<Rightarrow> numeric \<Rightarrow> numeric option \<Rightarrow> numeric option \<Rightarrow> numeric option \<Rightarrow> bool" where
  "received_ok m amount received r c \<longleftrightarrow>
     (if Method_AllowsChange m then
        \<exists>r' c'. r = Some r' \<and> c = Some c' \<and> is_money r' \<and> is_money c' \<and> cents c' = cents r' - cents amount \<and>
          r' = (case received of None \<Rightarrow> amount | Some x \<Rightarrow> x)
      else r = received \<and> c = None \<and>
        (case received of None \<Rightarrow> True | Some x \<Rightarrow> is_money x \<and> cents x = cents amount))"

definition installments_ok :: "payment_method \<Rightarrow> int \<Rightarrow> bool" where
  "installments_ok m n \<longleftrightarrow>
     (if Method_AllowsInstallments m then 1 \<le> n \<and> n \<le> Method_MaxInstallments m else n = 1)"

text \<open>What a validated payment is: an active method of the organization, and amounts that fit.\<close>

definition payment_accepted :: "store_actor \<Rightarrow> db \<Rightarrow> normalized_payment \<Rightarrow> validated_payment \<Rightarrow> bool" where
  "payment_accepted actor d input v \<longleftrightarrow>
     VP_Method v \<in> set (db_payment_methods d) \<and> Method_OrganizationID (VP_Method v) = Actor_OrganizationID actor \<and>
     Method_ID (VP_Method v) = NP_PaymentMethodID input \<and> Method_IsActive (VP_Method v) \<and>
     VP_Amount v = NP_Amount input \<and> is_money (VP_Amount v) \<and> 0 < cents (VP_Amount v) \<and>
     received_ok (VP_Method v) (VP_Amount v) (NP_ReceivedAmount input) (VP_ReceivedAmount v) (VP_ChangeAmount v) \<and>
     VP_Installments v = NP_Installments input \<and> installments_ok (VP_Method v) (VP_Installments v) \<and>
     VP_ExternalReference v = NP_ExternalReference input \<and>
     (Method_RequiresExternalReference (VP_Method v) \<longrightarrow> VP_ExternalReference v \<noteq> None)"

lemma big_Cmp_sign: "big_Cmp a b \<le> 0 \<longleftrightarrow> a \<le> b" "big_Cmp a b < 0 \<longleftrightarrow> a < b" "big_Cmp a b = 0 \<longleftrightarrow> a = b"
  by (auto simp: big_Cmp_def)

lemma validateReceivedAmount_Inr:
  assumes "is_money amount" "case received of None \<Rightarrow> True | Some r \<Rightarrow> is_money r"
    and "validateReceivedAmount m amount received = Inr (r, c)"
  shows "received_ok m amount received r c"
  using assms
  by (cases received)
     (auto simp: validateReceivedAmount_def received_ok_def is_money_arith big_Cmp_sign result_simps split: if_splits)

lemma validateInstallments_Inr: "validateInstallments m n = Inr k \<Longrightarrow> k = n \<and> installments_ok m n"
  by (auto simp: validateInstallments_def installments_ok_def split: if_splits)

lemma validate_payment_accepted:
  assumes "validate_payment actor input d = Inr v" "payment_money input"
  shows "payment_accepted actor d input v"
proof -
  from assms(1) obtain m r c k where
    m: "List.find (\<lambda>m. Method_OrganizationID m = Actor_OrganizationID actor \<and> Method_ID m = NP_PaymentMethodID input)
          (db_payment_methods d) = Some m" "Method_IsActive m" and
    r: "validateReceivedAmount m (NP_Amount input) (NP_ReceivedAmount input) = Inr (r, c)" and
    k: "validateInstallments m (NP_Installments input) = Inr k" and
    a: "\<exists>cmp. Checkout_compareMoney (NP_Amount input) zeroMoney = Inr cmp \<and> \<not> cmp \<le> 0" and
    e: "Method_RequiresExternalReference m \<longrightarrow> NP_ExternalReference input \<noteq> None" and
    v: "v = \<lparr>VP_Method = m, VP_Amount = NP_Amount input, VP_ReceivedAmount = r, VP_ChangeAmount = c,
             VP_Installments = k, VP_ExternalReference = NP_ExternalReference input\<rparr>"
    unfolding validate_payment_def GetPaymentMethodByIDForOrganization_def
    by (auto simp: result_simps split: if_splits)
  have pm: "is_money (NP_Amount input)" "case NP_ReceivedAmount input of None \<Rightarrow> True | Some r \<Rightarrow> is_money r"
    using assms(2) by (auto simp: payment_money_def)
  from a pm(1) have "0 < cents (NP_Amount input)" by (auto simp: is_money_arith big_Cmp_sign)
  with find_SomeD [OF m(1)] m(2) validateReceivedAmount_Inr [OF pm r] validateInstallments_Inr [OF k] e v pm(1)
  show ?thesis by (simp add: payment_accepted_def)
qed

lemma validate_payments_loop_spec:
  assumes "validate_payments_loop actor d inputs paid = Inr (vs, paid')" "\<forall>p \<in> set inputs. payment_money p" "is_money paid"
  shows "list_all2 (payment_accepted actor d) inputs vs \<and> is_money paid' \<and>
    cents paid' = cents paid + sum_list (map (\<lambda>v. cents (VP_Amount v)) vs)"
  using assms
proof (induction inputs arbitrary: paid vs)
  case Nil
  then show ?case by simp
next
  case (Cons p ps)
  from Cons.prems(2) have mp: "is_money (NP_Amount p)" "payment_money p" by (simp_all add: payment_money_def)
  let ?paid = "numericFromScaledInt (cents paid + cents (NP_Amount p)) 2"
  from Cons.prems mp obtain v vs' where v: "validate_payment actor p d = Inr v" "vs = v # vs'"
    "validate_payments_loop actor d ps ?paid = Inr (vs', paid')"
    by (auto simp: result_simps is_money_arith)
  have pos: "0 \<le> cents paid + cents (NP_Amount p)" using Cons.prems(3) mp(1) is_money_denotes by fastforce
  from validate_payment_accepted [OF v(1) mp(2)] have "payment_accepted actor d p v" .
  moreover from this have "VP_Amount v = NP_Amount p" by (simp add: payment_accepted_def)
  ultimately show ?case using Cons.IH [OF v(3)] Cons.prems(2) v(2) pos by simp
qed

lemma ValidatePayments_spec:
  assumes "ValidatePayments actor (numericFromScaledInt tot 2) inputs d = Inr vs" "\<forall>p \<in> set inputs. payment_money p"
    and "0 \<le> tot"
  shows "vs \<noteq> [] \<and> list_all2 (payment_accepted actor d) inputs vs \<and> sum_list (map (\<lambda>v. cents (VP_Amount v)) vs) = tot"
proof -
  from assms(1) obtain paid cmp where p: "validate_payments_loop actor d inputs zeroMoney = Inr (vs, paid)" "inputs \<noteq> []"
    "Checkout_compareMoney paid (numericFromScaledInt tot 2) = Inr cmp" "cmp = 0"
    by (auto simp: ValidatePayments_def result_simps split: if_splits)
  from validate_payments_loop_spec [OF p(1) assms(2)] have
    s: "list_all2 (payment_accepted actor d) inputs vs" "is_money paid" "cents paid = sum_list (map (\<lambda>v. cents (VP_Amount v)) vs)"
    by simp_all
  from p(3,4) s(2) assms(3) have "cents paid = tot" by (simp add: is_money_arith big_Cmp_sign)
  with s p(2) show ?thesis by auto
qed

section \<open>Idempotency keys\<close>

lemma PaymentIdempotencyKey_eq:
  assumes "uuid_law E"
  shows "PaymentIdempotencyKey E u i = PaymentIdempotencyKey E v j \<longleftrightarrow> u = v \<and> i = j"
proof -
  have "length (uuid_String E u) = length (uuid_String E v)" using assms by (simp add: uuid_law_def)
  then show ?thesis
    by (auto simp: PaymentIdempotencyKey_def uuid_String_eq [OF assms] nat_dec_inj)
qed

section \<open>The invariant of the payments\<close>

abbreviation payment_sale_key :: "payment \<Rightarrow> uuid \<times> uuid \<times> uuid" where
  "payment_sale_key p \<equiv> (Payment_OrganizationID p, Payment_StoreID p, Payment_SaleID p)"

definition payments_of :: "db \<Rightarrow> uuid \<times> uuid \<times> uuid \<Rightarrow> payment list" where
  "payments_of d k = filter (\<lambda>p. payment_sale_key p = k) (db_payments d)"

definition payments_inv :: "env \<Rightarrow> db \<Rightarrow> bool" where
  "payments_inv E d \<longleftrightarrow> payments.unique d \<and>
     distinct (map (\<lambda>p. (Payment_OrganizationID p, Payment_StoreID p, Payment_IdempotencyKey p)) (db_payments d)) \<and>
     (\<forall>p \<in> set (db_payments d). first_violation (payment_checks p) = None \<and>
        (\<exists>i. Payment_IdempotencyKey p = PaymentIdempotencyKey E (Payment_SaleID p) i))"

definition payment_frame :: "db \<Rightarrow> db \<Rightarrow> bool" where
  "payment_frame d d' \<longleftrightarrow> (\<exists>p u. d' = d\<lparr>db_payments := p, db_uuid_calls := u\<rparr>)"

lemma payment_frame_refl [simp]: "payment_frame d d"
  unfolding payment_frame_def by (rule exI [of _ "db_payments d"], rule exI [of _ "db_uuid_calls d"]) simp

lemma payment_frame_trans: "payment_frame d d' \<Longrightarrow> payment_frame d' d'' \<Longrightarrow> payment_frame d d''"
  by (force simp: payment_frame_def)

lemma payment_frameD:
  assumes "payment_frame d d'"
  shows "db_stores d' = db_stores d" "db_memberships d' = db_memberships d" "db_products d' = db_products d"
    "db_sales d' = db_sales d" "db_sale_items d' = db_sale_items d" "db_counters d' = db_counters d"
    "db_inventory d' = db_inventory d" "db_movements d' = db_movements d"
    "db_payment_methods d' = db_payment_methods d" "db_store_payment_methods d' = db_store_payment_methods d"
    "db_fiscal_documents d' = db_fiscal_documents d"
  using assms by (auto simp: payment_frame_def)

section \<open>Creating and approving\<close>

definition payment_stored ::
    "env \<Rightarrow> time \<Rightarrow> store_actor \<Rightarrow> uuid \<Rightarrow> nat \<Rightarrow> validated_payment \<Rightarrow> payment \<Rightarrow> bool" where
  "payment_stored E now actor saleID i v p \<longleftrightarrow>
     payment_sale_key p = (Actor_OrganizationID actor, Actor_StoreID actor, saleID) \<and>
     Payment_PaymentMethodID p = Method_ID (VP_Method v) \<and>
     Payment_IdempotencyKey p = PaymentIdempotencyKey E saleID i \<and> Payment_Status p = PayAPPROVED \<and>
     Payment_Amount p = cents (VP_Amount v) \<and>
     Payment_ReceivedAmount p = map_option cents (VP_ReceivedAmount v) \<and>
     Payment_ChangeAmount p = map_option cents (VP_ChangeAmount v) \<and>
     Payment_Installments p = VP_Installments v \<and> Payment_ExternalReference p = VP_ExternalReference v \<and>
     Payment_PaidAt p = Some now"

definition validated_money :: "validated_payment \<Rightarrow> bool" where
  "validated_money v \<longleftrightarrow> is_money (VP_Amount v) \<and>
     (case VP_ReceivedAmount v of None \<Rightarrow> True | Some r \<Rightarrow> is_money r) \<and>
     (case VP_ChangeAmount v of None \<Rightarrow> True | Some r \<Rightarrow> is_money r)"

lemma payment_accepted_money: "payment_accepted actor d input v \<Longrightarrow> validated_money v"
  by (auto simp: payment_accepted_def validated_money_def received_ok_def split: if_splits option.splits)

definition no_key :: "env \<Rightarrow> store_actor \<Rightarrow> uuid \<Rightarrow> nat \<Rightarrow> db \<Rightarrow> bool" where
  "no_key E actor saleID i d \<longleftrightarrow> (\<forall>p \<in> set (db_payments d). \<forall>j \<ge> i.
     Payment_OrganizationID p = Actor_OrganizationID actor \<longrightarrow> Payment_StoreID p = Actor_StoreID actor \<longrightarrow>
     Payment_IdempotencyKey p \<noteq> PaymentIdempotencyKey E saleID j)"

lemma no_key_start:
  assumes "payments_inv E d" "payments_of d (Actor_OrganizationID actor, Actor_StoreID actor, saleID) = []" "uuid_law E"
  shows "no_key E actor saleID 0 d"
  unfolding no_key_def
proof (intro ballI allI impI)
  fix p j assume p: "p \<in> set (db_payments d)" "Payment_OrganizationID p = Actor_OrganizationID actor"
    "Payment_StoreID p = Actor_StoreID actor"
  from assms(1) p(1) obtain i where "Payment_IdempotencyKey p = PaymentIdempotencyKey E (Payment_SaleID p) i"
    by (auto simp: payments_inv_def)
  moreover have "Payment_SaleID p \<noteq> saleID" using assms(2) p by (auto simp: payments_of_def filter_empty_conv)
  ultimately show "Payment_IdempotencyKey p \<noteq> PaymentIdempotencyKey E saleID j"
    by (simp add: PaymentIdempotencyKey_eq [OF assms(3)])
qed

lemma create_payment_step:
  assumes run: "create_payment E now actor saleID i v d = Inr ((p, m), d')"
    and inv: "payments_inv E d" "no_key E actor saleID i d" "uuid_law E" "validated_money v"
  shows "payments_inv E d' \<and> no_key E actor saleID (Suc i) d' \<and> payment_frame d d' \<and> m = VP_Method v \<and>
    db_payments d' = db_payments d @ [p] \<and> payment_stored E now actor saleID i v p"
proof -
  let ?P = "\<lparr>CP_SaleID = saleID, CP_PaymentMethodID = Method_ID (VP_Method v), CP_Amount = VP_Amount v,
                CP_ReceivedAmount = derefNumeric (VP_ReceivedAmount v),
                CP_ChangeAmount = derefNumeric (VP_ChangeAmount v),
                CP_Installments = VP_Installments v, CP_ExternalReference = VP_ExternalReference v,
                CP_IdempotencyKey = PaymentIdempotencyKey E saleID i\<rparr>"
  from run obtain c d1 where
    cr: "CreatePaymentForStore E now (ToStoreScope actor) ?P d = (Inr (c, d1) :: checkout_error + _)" and
    ap: "ApprovePaymentForStore now (ToStoreScope actor) (Payment_ID c) (derefNumeric (VP_ReceivedAmount v))
           (derefNumeric (VP_ChangeAmount v)) d1 = (Inr (p, d') :: checkout_error + _)" and m: "m = VP_Method v"
    by (auto simp: create_payment_def result_simps)
  have none: "List.find (payment_with_key (ToStoreScope actor) (CP_IdempotencyKey ?P)) (db_payments d) = None"
    using inv(2) by (auto simp: find_None_iff no_key_def payment_with_key_def)
  note vm = inv(4) [unfolded validated_money_def]
  from CreatePayment_newE [OF cr none] obtain amount received change where
    n: "pg_numeric_not_null 2 (VP_Amount v) = (Inr amount :: checkout_error + _)"
      "pg_numeric 2 (derefNumeric (VP_ReceivedAmount v)) = (Inr received :: checkout_error + _)"
      "pg_numeric 2 (derefNumeric (VP_ChangeAmount v)) = (Inr change :: checkout_error + _)"
    and c0: "c = new_payment now (ToStoreScope actor) (uuidv7 E (db_uuid_calls d)) ?P (CP_IdempotencyKey ?P) amount
        received change (CP_ExternalReference ?P)"
      "\<forall>r \<in> set (db_payments d). Payment_ID r \<noteq> Payment_ID c"
      "d1 = d\<lparr>db_payments := db_payments d @ [c], db_uuid_calls := Suc (db_uuid_calls d)\<rparr>"
    by simp blast
  have "amount = cents (VP_Amount v)" using n(1) vm by (simp add: pg_numeric_not_null_money)
  moreover have "received = map_option cents (VP_ReceivedAmount v)" using n(2) vm by (blast dest: pg_numeric_deref)
  moreover have "change = map_option cents (VP_ChangeAmount v)" using n(3) vm by (blast dest: pg_numeric_deref)
  ultimately have c: "payment_sale_key c = (Actor_OrganizationID actor, Actor_StoreID actor, saleID)"
    "Payment_PaymentMethodID c = Method_ID (VP_Method v)" "Payment_Status c = PayPENDING"
    "Payment_IdempotencyKey c = PaymentIdempotencyKey E saleID i" "Payment_Amount c = cents (VP_Amount v)"
    "Payment_ReceivedAmount c = map_option cents (VP_ReceivedAmount v)"
    "Payment_ChangeAmount c = map_option cents (VP_ChangeAmount v)"
    "Payment_Installments c = VP_Installments v" "Payment_ExternalReference c = VP_ExternalReference v"
    "\<forall>r \<in> set (db_payments d). Payment_ID r \<noteq> Payment_ID c"
    "d1 = d\<lparr>db_payments := db_payments d @ [c], db_uuid_calls := Suc (db_uuid_calls d)\<rparr>"
    using c0 by (simp_all add: new_payment_def)
  have upd: "update_row (\<lambda>p. payment_in_scope (ToStoreScope actor) (Payment_ID c) p \<and> Payment_Status p = PayPENDING) f
      (db_payments d @ [c]) = chain (f c) (\<lambda>r. Inr (r, db_payments d @ [r]))" for f :: "payment \<Rightarrow> checkout_error + payment"
    using c by (subst update_row_append) (auto simp: payment_in_scope_def chain_def split: sum.splits)
  from ap c(11) vm have p: "p = c\<lparr>Payment_Status := PayAPPROVED, Payment_PaidAt := Some now,
      Payment_ReceivedAmount := coalesce (map_option cents (VP_ReceivedAmount v)) (Payment_ReceivedAmount c),
      Payment_ChangeAmount := coalesce (map_option cents (VP_ChangeAmount v)) (Payment_ChangeAmount c),
      Payment_UpdatedAt := now\<rparr>"
    "first_violation (payment_checks p) = None" "d' = d1\<lparr>db_payments := db_payments d @ [p]\<rparr>"
    by (auto simp: ApprovePaymentForStore_def upd result_simps dest!: pg_numeric_deref split: if_splits)
  have stored: "payment_stored E now actor saleID i v p"
    using c p(1) by (cases "VP_ReceivedAmount v"; cases "VP_ChangeAmount v") (simp_all add: payment_stored_def)
  have d': "db_payments d' = db_payments d @ [p]" "payment_frame d d'"
    using p(3) c(11) unfolding payment_frame_def
    by (simp, intro exI [of _ "db_payments d @ [p]"] exI [of _ "Suc (db_uuid_calls d)"], simp)
  have "Payment_ID p = Payment_ID c" using p(1) by simp
  then have u: "payments.unique d'" using inv(1) c(10) d'(1) by (auto simp: payments_inv_def payments.unique_def)
  have dist: "distinct (map (\<lambda>p. (Payment_OrganizationID p, Payment_StoreID p, Payment_IdempotencyKey p)) (db_payments d'))"
    using inv(1,2) stored d'(1) by (auto simp: payments_inv_def payment_stored_def no_key_def) (metis order_refl)
  have "payments_inv E d'"
    using inv(1) u dist d'(1) p(2) stored unfolding payments_inv_def by (auto simp: payment_stored_def)
  moreover have "no_key E actor saleID (Suc i) d'"
    using inv(2) d'(1) stored by (auto simp: no_key_def payment_stored_def PaymentIdempotencyKey_eq [OF inv(3)])
  ultimately show ?thesis using d' stored m by simp
qed

lemma createPayments_loop_step:
  assumes "createPayments_loop E now actor saleID i vs d = Inr (results, d')"
    and "payments_inv E d" "no_key E actor saleID i d" "uuid_law E" "\<forall>v \<in> set vs. validated_money v"
  shows "payments_inv E d' \<and> payment_frame d d' \<and> map snd results = map VP_Method vs \<and>
    db_payments d' = db_payments d @ map fst results \<and>
    (\<forall>j < length vs. payment_stored E now actor saleID (i + j) (vs ! j) (fst (results ! j)))"
  using assms
proof (induction vs arbitrary: i d results)
  case Nil
  then show ?case by simp
next
  case (Cons v vs)
  from Cons.prems(1) obtain p m d1 rs where 1: "create_payment E now actor saleID i v d = Inr ((p, m), d1)"
    and 2: "createPayments_loop E now actor saleID (Suc i) vs d1 = Inr (rs, d')" and r: "results = (p, m) # rs"
    by (auto simp: result_simps)
  from create_payment_step [OF 1 Cons.prems(2,3,4)] Cons.prems(5) have s: "payments_inv E d1"
    "no_key E actor saleID (Suc i) d1" "payment_frame d d1" "m = VP_Method v" "db_payments d1 = db_payments d @ [p]"
    "payment_stored E now actor saleID i v p" by simp_all
  from Cons.IH [OF 2 s(1,2) Cons.prems(4)] Cons.prems(5) have t: "payments_inv E d'" "payment_frame d1 d'"
    "map snd rs = map VP_Method vs" "db_payments d' = db_payments d1 @ map fst rs"
    "\<forall>j < length vs. payment_stored E now actor saleID (Suc i + j) (vs ! j) (fst (rs ! j))" by simp_all
  have "payment_stored E now actor saleID (i + j) ((v # vs) ! j) (fst (results ! j))" if "j < length (v # vs)" for j
    using that s(6) t(5) r by (cases j) simp_all
  with s t r show ?case by (simp add: payment_frame_trans [OF s(3) t(2)])
qed

text \<open>What the checkout stores for the payments of a sale.\<close>

definition payments_created ::
    "env \<Rightarrow> time \<Rightarrow> store_actor \<Rightarrow> uuid \<Rightarrow> validated_payment list \<Rightarrow> payment list \<Rightarrow> db \<Rightarrow> db \<Rightarrow> bool" where
  "payments_created E now actor saleID vs ps d d' \<longleftrightarrow>
     db_payments d' = db_payments d @ ps \<and> length ps = length vs \<and>
     (\<forall>j < length vs. payment_stored E now actor saleID j (vs ! j) (ps ! j))"

lemma createPayments_step:
  assumes "createPayments E now actor saleID vs d = Inr (results, d')"
    and "payments_inv E d" "uuid_law E" "payments_of d (Actor_OrganizationID actor, Actor_StoreID actor, saleID) = []"
    and "\<forall>v \<in> set vs. validated_money v"
  shows "payments_inv E d' \<and> payment_frame d d' \<and> map snd results = map VP_Method vs \<and>
    payments_created E now actor saleID vs (map fst results) d d'"
proof -
  from createPayments_loop_step [OF _ assms(2) no_key_start [OF assms(2,4,3)] assms(3,5)] assms(1)
  have s: "payments_inv E d'" "payment_frame d d'" "map snd results = map VP_Method vs"
    "db_payments d' = db_payments d @ map fst results"
    "\<forall>j < length vs. payment_stored E now actor saleID j (vs ! j) (fst (results ! j))"
    by (simp_all add: createPayments_def)
  moreover have "length results = length vs" using arg_cong [OF s(3), of length] by simp
  ultimately show ?thesis by (simp add: payments_created_def)
qed

lemma payments_created_of_sale:
  assumes "payments_created E now actor saleID vs ps d d'"
  shows "payments_of d' (Actor_OrganizationID actor, Actor_StoreID actor, saleID) =
      payments_of d (Actor_OrganizationID actor, Actor_StoreID actor, saleID) @ ps"
    "k \<noteq> (Actor_OrganizationID actor, Actor_StoreID actor, saleID) \<Longrightarrow> payments_of d' k = payments_of d k"
    "\<forall>p \<in> set ps. Payment_Status p = PayAPPROVED"
    "sum_list (map Payment_Amount ps) = sum_list (map (\<lambda>v. cents (VP_Amount v)) vs)"
proof -
  have p: "payment_sale_key p = (Actor_OrganizationID actor, Actor_StoreID actor, saleID) \<and> Payment_Status p = PayAPPROVED"
    if "p \<in> set ps" for p
    using that assms by (auto simp: payments_created_def in_set_conv_nth payment_stored_def)
  then show "payments_of d' (Actor_OrganizationID actor, Actor_StoreID actor, saleID) =
      payments_of d (Actor_OrganizationID actor, Actor_StoreID actor, saleID) @ ps"
    "k \<noteq> (Actor_OrganizationID actor, Actor_StoreID actor, saleID) \<Longrightarrow> payments_of d' k = payments_of d k"
    "\<forall>p \<in> set ps. Payment_Status p = PayAPPROVED"
    using assms by (auto simp: payments_created_def payments_of_def filter_empty_conv intro!: filter_True)
  have "map Payment_Amount ps = map (\<lambda>v. cents (VP_Amount v)) vs"
    using assms by (intro nth_equalityI) (auto simp: payments_created_def payment_stored_def)
  then show "sum_list (map Payment_Amount ps) = sum_list (map (\<lambda>v. cents (VP_Amount v)) vs)" by simp
qed

end
