(* ===== verification/Sales.thy ===== *)
theory Sales
  imports Sales_Queries
begin

text \<open>
  Component \<open>internal/sales\<close>: open sales and their items. The service operations
  (\<open>service_commands.go\<close>, \<open>service_queries.go\<close>), the translation of database errors
  (\<open>persistence.go\<close>), the totals and responses (\<open>mapper.go\<close>) and the HTTP error mapping
  (\<open>handler_errors.go\<close>).
\<close>

section \<open>Errors\<close>

datatype sales_sentinel =
    Sales_ErrSaleNotFound | Sales_ErrSaleItemNotFound | Sales_ErrSaleNotOpen
  | Sales_ErrSaleAlreadyCancelled | Sales_ErrProductNotFound | Sales_ErrProductInactive

type_synonym sales_error = "sales_sentinel go_error"

definition translateNotFoundError :: "sales_error \<Rightarrow> sales_error \<Rightarrow> sales_error" where
  "translateNotFoundError err notFound =
     (if errors_Is_NoRows err then notFound
      else case errors_As_Pg err of
        Some (code, constraint) \<Rightarrow>
          if code = ''23503'' \<and> constraint = ''sale_items_sale_fk'' then Sentinel Sales_ErrSaleNotFound
          else if code = ''23503'' \<and> constraint = ''sale_items_product_fk'' then Sentinel Sales_ErrProductNotFound
          else Wrapped ''database operation failed'' err
      | None \<Rightarrow> Wrapped ''database operation failed'' err)"

definition translateSaleReadError :: "sales_error \<Rightarrow> sales_error" where
  "translateSaleReadError err = translateNotFoundError err (Sentinel Sales_ErrSaleNotFound)"

definition translateSaleItemReadError :: "sales_error \<Rightarrow> sales_error" where
  "translateSaleItemReadError err = translateNotFoundError err (Sentinel Sales_ErrSaleItemNotFound)"

definition translateSaleItemMutationError :: "sales_error \<Rightarrow> sales_error" where
  "translateSaleItemMutationError err = translateNotFoundError err (Sentinel Sales_ErrSaleItemNotFound)"

definition translateProductReadError :: "sales_error \<Rightarrow> sales_error" where
  "translateProductReadError err = translateNotFoundError err (Sentinel Sales_ErrProductNotFound)"

definition translateSaleMutationError :: "sales_error \<Rightarrow> sales_error" where
  "translateSaleMutationError err =
     (let rest = (if errors_Is_NoRows err then Sentinel Sales_ErrSaleNotFound
                  else Wrapped ''database operation failed'' err) in
      case errors_As_Pg err of
        Some (code, constraint) \<Rightarrow>
          if code = ''23503'' \<and> constraint = ''sale_items_sale_fk'' then Sentinel Sales_ErrSaleNotFound
          else if code = ''23503'' \<and> constraint = ''sale_items_product_fk'' then Sentinel Sales_ErrProductNotFound
          else if code = ''23514'' \<and> constraint \<in> set [''sales_status_timestamps_consistency'',
               ''sales_total_consistency'', ''sales_status_transition_check'',
               ''sale_items_discount_not_greater_than_gross''] then Sentinel Sales_ErrSaleNotOpen
          else rest
      | None \<Rightarrow> rest)"

text \<open>\<open>writeServiceError\<close>: HTTP status, code, message, field.\<close>

type_synonym http_error = "int \<times> string \<times> string \<times> string"

definition writeServiceError :: "sales_error \<Rightarrow> http_error" where
  "writeServiceError err =
     (case errors_As_Validation err of
        Some (field, msg) \<Rightarrow>
          (if field = ''id'' \<or> field = ''itemId'' then 400 else 422, ''validation_error'', msg, field)
      | None \<Rightarrow>
          if errors_Is err Sales_ErrSaleNotFound then (404, ''sale_not_found'', ''Sale not found'', [])
          else if errors_Is err Sales_ErrSaleItemNotFound
          then (404, ''sale_item_not_found'', ''Sale item not found'', [])
          else if errors_Is err Sales_ErrProductNotFound
          then (404, ''product_not_found'', ''Product not found'', [])
          else if errors_Is err Sales_ErrProductInactive
          then (409, ''product_inactive'', ''Product is inactive'', [])
          else if errors_Is err Sales_ErrSaleNotOpen then (409, ''sale_not_open'', ''Sale is not open'', [])
          else if errors_Is err Sales_ErrSaleAlreadyCancelled
          then (409, ''sale_already_cancelled'', ''Sale is already cancelled'', [])
          else (500, ''internal_server_error'', ''An unexpected error occurred'', []))"

section \<open>Responses\<close>

record sale_item_response =
  RItem_ID :: string
  RItem_SaleID :: string
  RItem_ProductID :: string
  RItem_ProductName :: string
  RItem_ProductSKU :: string
  RItem_UnitPrice :: string
  RItem_Quantity :: string
  RItem_Discount :: string
  RItem_Total :: string
  RItem_CreatedAt :: time

record sale_list_item_response =
  RSale_ID :: string
  RSale_Number :: int
  RSale_Status :: string
  RSale_Subtotal :: string
  RSale_Discount :: string
  RSale_Addition :: string
  RSale_Total :: string
  RSale_OpenedAt :: time
  RSale_CompletedAt :: time
  RSale_CancelledAt :: time
  RSale_CreatedAt :: time
  RSale_UpdatedAt :: time
  RSale_IdempotencyKey :: string

record sale_response = sale_list_item_response +
  RSale_Items :: "sale_item_response list"

definition toSaleItemResponse :: "env \<Rightarrow> sale_item \<Rightarrow> sales_error + sale_item_response" where
  "toSaleItemResponse E item =
     chain (wrap_error ''format unit price'' (numericToMoneyString (numericFromScaledInt (Item_UnitPrice item) 2))) (\<lambda>unitPrice.
     chain (wrap_error ''format quantity'' (numericToQuantityString (numericFromScaledInt (Item_Quantity item) 3))) (\<lambda>quantity.
     chain (wrap_error ''format discount'' (numericToMoneyString (numericFromScaledInt (Item_Discount item) 2))) (\<lambda>discount.
     chain (wrap_error ''format total'' (numericToMoneyString (numericFromScaledInt (Item_Total item) 2))) (\<lambda>tot.
     Inr \<lparr>RItem_ID = uuid_String E (Item_ID item), RItem_SaleID = uuid_String E (Item_SaleID item),
          RItem_ProductID = uuid_String E (Item_ProductID item), RItem_ProductName = Item_ProductName item,
          RItem_ProductSKU = Item_ProductSKU item, RItem_UnitPrice = unitPrice, RItem_Quantity = quantity,
          RItem_Discount = discount, RItem_Total = tot, RItem_CreatedAt = Item_CreatedAt item\<rparr>))))"

definition toSaleHeaderFromFields :: "env \<Rightarrow> sale \<Rightarrow> sales_error + sale_list_item_response" where
  "toSaleHeaderFromFields E s =
     chain (wrap_error ''format subtotal'' (numericToMoneyString (numericFromScaledInt (Sale_Subtotal s) 2))) (\<lambda>subtotal.
     chain (wrap_error ''format discount'' (numericToMoneyString (numericFromScaledInt (Sale_Discount s) 2))) (\<lambda>discount.
     chain (wrap_error ''format addition'' (numericToMoneyString (numericFromScaledInt (Sale_Addition s) 2))) (\<lambda>addition.
     chain (wrap_error ''format total'' (numericToMoneyString (numericFromScaledInt (Sale_Total s) 2))) (\<lambda>tot.
     Inr \<lparr>RSale_ID = uuid_String E (Sale_ID s), RSale_Number = Sale_Number s,
          RSale_Status = sale_status_string (Sale_Status s), RSale_Subtotal = subtotal,
          RSale_Discount = discount, RSale_Addition = addition, RSale_Total = tot,
          RSale_OpenedAt = timestampOrZero (Some (Sale_OpenedAt s)),
          RSale_CompletedAt = timestampOrZero (Sale_CompletedAt s),
          RSale_CancelledAt = timestampOrZero (Sale_CancelledAt s),
          RSale_CreatedAt = timestampOrZero (Some (Sale_CreatedAt s)),
          RSale_UpdatedAt = timestampOrZero (Some (Sale_UpdatedAt s)),
          RSale_IdempotencyKey = Sale_IdempotencyKey s\<rparr>))))"

definition toSaleResponseFromFields :: "env \<Rightarrow> sale \<Rightarrow> sale_item list \<Rightarrow> sales_error + sale_response" where
  "toSaleResponseFromFields E s items =
     chain (toSaleHeaderFromFields E s) (\<lambda>header.
     chain (map_result (\<lambda>item. wrap_error ''map sale item'' (toSaleItemResponse E item)) items) (\<lambda>saleItems.
     Inr (sale_list_item_response.extend header \<lparr>RSale_Items = saleItems\<rparr>)))"

section \<open>Inputs\<close>

record normalized_add_item =
  Add_ProductID :: uuid
  Add_Quantity :: numeric
  Add_Discount :: numeric

definition normalizeAddSaleItemInput ::
    "env \<Rightarrow> string \<Rightarrow> string \<Rightarrow> string option \<Rightarrow> sales_error + normalized_add_item" where
  "normalizeAddSaleItemInput E rawProductID rawQuantity rawDiscount =
     chain (parseUUID E rawProductID ''productId'') (\<lambda>productID.
     chain (parseQuantity E ''quantity'' rawQuantity) (\<lambda>quantity.
     chain (parseOptionalMoney E ''discount'' rawDiscount) (\<lambda>discount.
     Inr \<lparr>Add_ProductID = productID, Add_Quantity = quantity, Add_Discount = discount\<rparr>)))"

definition normalizeUpdateSaleItemInput ::
    "env \<Rightarrow> string \<Rightarrow> string option \<Rightarrow> sales_error + numeric \<times> numeric" where
  "normalizeUpdateSaleItemInput E rawQuantity rawDiscount =
     chain (parseQuantity E ''quantity'' rawQuantity) (\<lambda>quantity.
     chain (parseOptionalMoney E ''discount'' rawDiscount) (\<lambda>discount.
     Inr (quantity, discount)))"

definition parseSaleStatusFilter :: "env \<Rightarrow> string \<Rightarrow> sales_error + sale_status option" where
  "parseSaleStatusFilter E value =
     (let trimmed = strings_TrimSpace value in
      if trimmed = [] then Inr None
      else case sale_status_of (strings_ToUpper (unicode_upper E) trimmed) of
        None \<Rightarrow> Inl (ValidationError ''status'' ''must be a valid sale status'')
      | Some st \<Rightarrow> Inr (Some st))"

section \<open>Totals\<close>

text \<open>\<open>sumSaleTotals\<close>: subtotal, discount, total over the items, as scaled integers.\<close>

fun sum_totals_loop :: "sale_item list \<Rightarrow> int \<Rightarrow> int \<Rightarrow> int \<Rightarrow> sales_error + int \<times> int \<times> int" where
  "sum_totals_loop [] subtotal discount tot = Inr (subtotal, discount, tot)"
| "sum_totals_loop (item # items) subtotal discount tot =
     chain (wrap_error ''calculate item subtotal''
             (multiplyMoneyQuantity (numericFromScaledInt (Item_UnitPrice item) 2)
                (numericFromScaledInt (Item_Quantity item) 3))) (\<lambda>itemSubtotal.
     chain (wrap_error ''normalize item subtotal'' (numericToScaledInt itemSubtotal 2)) (\<lambda>itemSubtotalInt.
     chain (wrap_error ''normalize item discount''
             (numericToScaledInt (numericFromScaledInt (Item_Discount item) 2) 2)) (\<lambda>itemDiscountInt.
     chain (wrap_error ''normalize item total''
             (numericToScaledInt (numericFromScaledInt (Item_Total item) 2) 2)) (\<lambda>itemTotalInt.
     sum_totals_loop items (subtotal + itemSubtotalInt) (discount + itemDiscountInt) (tot + itemTotalInt)))))"

definition sumSaleTotals :: "sale_item list \<Rightarrow> sales_error + numeric \<times> numeric \<times> numeric" where
  "sumSaleTotals items =
     chain (sum_totals_loop items 0 0 0) (\<lambda>(subtotal, discount, tot).
     Inr (numericFromScaledInt subtotal 2, numericFromScaledInt discount 2, numericFromScaledInt tot 2))"

section \<open>Operations\<close>

text \<open>Each command is the checks before the transaction and the function passed to \<open>WithTx\<close>.\<close>

definition Sales_Create_tx :: "env \<Rightarrow> txn \<Rightarrow> store_actor \<Rightarrow> string \<Rightarrow> db \<Rightarrow> sales_error + sale_response \<times> db" where
  "Sales_Create_tx E T actor key d =
     chain (on_error (\<lambda>err. Wrapped ''create sale'' (translateSaleMutationError err))
             (CreateSaleForStore E (tx_now T) (ToActorScope actor) key d)) (\<lambda>(sale, d).
     let items = ListSaleItemsBySaleIDForStore (ToStoreScope actor) (Sale_ID sale) d in
     chain (wrap_error ''map sale response'' (toSaleResponseFromFields E sale items)) (\<lambda>response.
     Inr (response, d)))"

definition Sales_Create :: "env \<Rightarrow> txn \<Rightarrow> store_actor \<Rightarrow> string \<Rightarrow> db \<Rightarrow> (sales_error + sale_response) \<times> db" where
  "Sales_Create E T actor idempotencyKey d =
     (case normalizeRequiredText ''idempotencyKey'' idempotencyKey of
        Inl err \<Rightarrow> (Inl err, d)
      | Inr key \<Rightarrow> WithTx T (Sales_Create_tx E T actor key) d)"

text \<open>
  The end of \<open>AddItem\<close>, \<open>UpdateItem\<close> and \<open>RemoveItem\<close>: list the items, sum them, write the
  totals and map the response.
\<close>

definition recalculate_sale ::
    "env \<Rightarrow> txn \<Rightarrow> store_actor \<Rightarrow> uuid \<Rightarrow> db \<Rightarrow> sales_error + sale_response \<times> db" where
  "recalculate_sale E T actor saleID d =
     (let items = ListSaleItemsBySaleIDForStore (ToStoreScope actor) saleID d in
      chain (wrap_error ''recalculate sale totals'' (sumSaleTotals items)) (\<lambda>(subtotal, discount, tot).
      chain (on_error (\<lambda>err. Wrapped ''update sale totals'' (translateSaleMutationError err))
              (RecalculateSaleTotalsForStore (tx_now T) (ToStoreScope actor) saleID subtotal discount zeroMoney tot d))
        (\<lambda>(saleRow, d).
      chain (wrap_error ''map sale response'' (toSaleResponseFromFields E saleRow items)) (\<lambda>response.
      Inr (response, d)))))"

definition lock_open_sale :: "store_actor \<Rightarrow> uuid \<Rightarrow> db \<Rightarrow> sales_error + sale" where
  "lock_open_sale actor saleID d =
     chain (on_error translateSaleMutationError (LockSaleByIDForStore (ToStoreScope actor) saleID d)) (\<lambda>sale.
     case Sale_Status sale of
       SaleOPEN \<Rightarrow> Inr sale
     | _ \<Rightarrow> Inl (Sentinel Sales_ErrSaleNotOpen))"

text \<open>Line totals: gross value, discount check, net value.\<close>

definition item_total :: "numeric \<Rightarrow> numeric \<Rightarrow> numeric \<Rightarrow> sales_error + numeric" where
  "item_total unitPrice quantity discount =
     chain (wrap_error ''calculate item subtotal'' (multiplyMoneyQuantity unitPrice quantity)) (\<lambda>itemSubtotal.
     chain (wrap_error ''compare item discount'' (compareMoney discount itemSubtotal)) (\<lambda>cmp.
     if cmp > 0 then Inl (ValidationError ''discount'' ''cannot be greater than the item subtotal'')
     else wrap_error ''calculate item total'' (subtractMoney itemSubtotal discount)))"

definition Sales_AddItem_tx ::
    "env \<Rightarrow> txn \<Rightarrow> store_actor \<Rightarrow> uuid \<Rightarrow> normalized_add_item \<Rightarrow> db \<Rightarrow> sales_error + sale_response \<times> db" where
  "Sales_AddItem_tx E T actor saleID normalized d =
     chain (lock_open_sale actor saleID d) (\<lambda>sale.
     chain (on_error translateProductReadError
             (GetProductByIDForStore (ToStoreScope actor) (Add_ProductID normalized) d)) (\<lambda>product.
     if \<not> Product_IsActive product then Inl (Sentinel Sales_ErrProductInactive)
     else
     chain (item_total (numericFromScaledInt (Product_Price product) 2)
             (Add_Quantity normalized) (Add_Discount normalized)) (\<lambda>itemTotal.
     chain (on_error (\<lambda>err. Wrapped ''create sale item'' (translateSaleMutationError err))
             (CreateSaleItemForStore E (tx_now T) (ToStoreScope actor)
               \<lparr>CI_SaleID = saleID, CI_ProductID = Product_ID product, CI_ProductName = Product_Name product,
                CI_ProductSKU = Product_SKU product,
                CI_UnitPrice = numericFromScaledInt (Product_Price product) 2,
                CI_Quantity = Add_Quantity normalized, CI_Discount = Add_Discount normalized,
                CI_Total = itemTotal\<rparr> d)) (\<lambda>(_, d).
     recalculate_sale E T actor saleID d))))"

definition Sales_AddItem ::
    "env \<Rightarrow> txn \<Rightarrow> store_actor \<Rightarrow> string \<Rightarrow> string \<Rightarrow> string \<Rightarrow> string option \<Rightarrow> db \<Rightarrow>
     (sales_error + sale_response) \<times> db" where
  "Sales_AddItem E T actor rawSaleID rawProductID rawQuantity rawDiscount d =
     (case parseUUID E rawSaleID ''id'' of
        Inl err \<Rightarrow> (Inl err, d)
      | Inr saleID \<Rightarrow>
     (case normalizeAddSaleItemInput E rawProductID rawQuantity rawDiscount of
        Inl err \<Rightarrow> (Inl err, d)
      | Inr normalized \<Rightarrow> WithTx T (Sales_AddItem_tx E T actor saleID normalized) d))"

definition Sales_UpdateItem_tx ::
    "env \<Rightarrow> txn \<Rightarrow> store_actor \<Rightarrow> uuid \<Rightarrow> uuid \<Rightarrow> numeric \<Rightarrow> numeric \<Rightarrow> db \<Rightarrow> sales_error + sale_response \<times> db" where
  "Sales_UpdateItem_tx E T actor saleID itemID quantity discount d =
     chain (lock_open_sale actor saleID d) (\<lambda>sale.
     chain (on_error translateSaleItemReadError
             (GetSaleItemByIDForStore (ToStoreScope actor) saleID itemID d)) (\<lambda>item.
     chain (item_total (numericFromScaledInt (Item_UnitPrice item) 2) quantity discount) (\<lambda>itemTotal.
     chain (on_error (\<lambda>err. Wrapped ''update sale item'' (translateSaleItemMutationError err))
             (UpdateSaleItemForStore (ToStoreScope actor) saleID itemID quantity discount itemTotal d)) (\<lambda>(_, d).
     recalculate_sale E T actor saleID d))))"

definition Sales_UpdateItem ::
    "env \<Rightarrow> txn \<Rightarrow> store_actor \<Rightarrow> string \<Rightarrow> string \<Rightarrow> string \<Rightarrow> string option \<Rightarrow> db \<Rightarrow>
     (sales_error + sale_response) \<times> db" where
  "Sales_UpdateItem E T actor rawSaleID rawItemID rawQuantity rawDiscount d =
     (case parseUUID E rawSaleID ''id'' of
        Inl err \<Rightarrow> (Inl err, d)
      | Inr saleID \<Rightarrow>
     (case parseUUID E rawItemID ''itemId'' of
        Inl err \<Rightarrow> (Inl err, d)
      | Inr itemID \<Rightarrow>
     (case normalizeUpdateSaleItemInput E rawQuantity rawDiscount of
        Inl err \<Rightarrow> (Inl err, d)
      | Inr (quantity, discount) \<Rightarrow>
          WithTx T (Sales_UpdateItem_tx E T actor saleID itemID quantity discount) d)))"

definition Sales_RemoveItem_tx ::
    "env \<Rightarrow> txn \<Rightarrow> store_actor \<Rightarrow> uuid \<Rightarrow> uuid \<Rightarrow> db \<Rightarrow> sales_error + sale_response \<times> db" where
  "Sales_RemoveItem_tx E T actor saleID itemID d =
     chain (lock_open_sale actor saleID d) (\<lambda>sale.
     chain (on_error translateSaleItemReadError
             (GetSaleItemByIDForStore (ToStoreScope actor) saleID itemID d)) (\<lambda>_.
     chain (on_error (\<lambda>err. Wrapped ''delete sale item'' (translateSaleItemMutationError err))
             (DeleteSaleItemForStore (ToStoreScope actor) saleID itemID d)) (\<lambda>(_, d).
     recalculate_sale E T actor saleID d)))"

definition Sales_RemoveItem ::
    "env \<Rightarrow> txn \<Rightarrow> store_actor \<Rightarrow> string \<Rightarrow> string \<Rightarrow> db \<Rightarrow> (sales_error + sale_response) \<times> db" where
  "Sales_RemoveItem E T actor rawSaleID rawItemID d =
     (case parseUUID E rawSaleID ''id'' of
        Inl err \<Rightarrow> (Inl err, d)
      | Inr saleID \<Rightarrow>
     (case parseUUID E rawItemID ''itemId'' of
        Inl err \<Rightarrow> (Inl err, d)
      | Inr itemID \<Rightarrow> WithTx T (Sales_RemoveItem_tx E T actor saleID itemID) d))"

definition Sales_Cancel_tx :: "env \<Rightarrow> txn \<Rightarrow> store_actor \<Rightarrow> uuid \<Rightarrow> db \<Rightarrow> sales_error + sale_response \<times> db" where
  "Sales_Cancel_tx E T actor saleID d =
     chain (on_error translateSaleMutationError (LockSaleByIDForStore (ToStoreScope actor) saleID d)) (\<lambda>sale.
     case Sale_Status sale of
       SaleCANCELLED \<Rightarrow> Inl (Sentinel Sales_ErrSaleAlreadyCancelled)
     | SaleCOMPLETED \<Rightarrow> Inl (Sentinel Sales_ErrSaleNotOpen)
     | SaleOPEN \<Rightarrow>
         chain (on_error (\<lambda>err. Wrapped ''cancel sale'' (translateSaleMutationError err))
                 (CancelSaleForStore (tx_now T) (ToActorScope actor) saleID d)) (\<lambda>(cancelled, d).
         let items = ListSaleItemsBySaleIDForStore (ToStoreScope actor) saleID d in
         chain (wrap_error ''map sale response'' (toSaleResponseFromFields E cancelled items)) (\<lambda>response.
         Inr (response, d))))"

definition Sales_Cancel :: "env \<Rightarrow> txn \<Rightarrow> store_actor \<Rightarrow> string \<Rightarrow> db \<Rightarrow> (sales_error + sale_response) \<times> db" where
  "Sales_Cancel E T actor rawID d =
     (case parseUUID E rawID ''id'' of
        Inl err \<Rightarrow> (Inl err, d)
      | Inr saleID \<Rightarrow> WithTx T (Sales_Cancel_tx E T actor saleID) d)"

definition Sales_Get :: "env \<Rightarrow> store_actor \<Rightarrow> string \<Rightarrow> db \<Rightarrow> sales_error + sale_response" where
  "Sales_Get E actor rawID d =
     chain (parseUUID E rawID ''id'') (\<lambda>saleID.
     chain (on_error translateSaleReadError (GetSaleByIDForStore (ToStoreScope actor) saleID d)) (\<lambda>sale.
     toSaleResponseFromFields E sale (ListSaleItemsBySaleIDForStore (ToStoreScope actor) saleID d)))"

text \<open>The page offset is computed in \<open>int\<close> (64 bits) and converted to \<open>int32\<close>.\<close>

definition page_offset :: "int \<Rightarrow> int \<Rightarrow> int" where
  "page_offset page pageSize = int32 (int64 ((page - 1) * pageSize))"

definition Sales_List ::
    "env \<Rightarrow> store_actor \<Rightarrow> string \<Rightarrow> int option \<Rightarrow> int option \<Rightarrow> db \<Rightarrow>
     sales_error + sale_list_item_response list \<times> pagination" where
  "Sales_List E actor rawStatus rawPage rawPageSize d =
     chain (normalizePagination rawPage rawPageSize) (\<lambda>(page, pageSize).
     chain (parseSaleStatusFilter E rawStatus) (\<lambda>statusFilter.
     let totalRows = CountSalesForStore (ToStoreScope actor) statusFilter d in
     chain (wrap_error ''list sales''
             (ListSalesForStore (ToStoreScope actor) statusFilter (page_offset page pageSize) pageSize d)) (\<lambda>rows.
     chain (map_result (\<lambda>row. wrap_error ''map sale list item'' (toSaleHeaderFromFields E row)) rows) (\<lambda>items.
     Inr (items, paginationResponse page pageSize totalRows)))))"

end
