(* ===== verification/Sales_Invariant.thy ===== *)
theory Sales_Invariant
  imports Sales
begin

text \<open>
  What the sales component keeps true of the stored sales: every row satisfies its
  constraints, every item belongs to a sale, and the totals of a sale are the sums over its
  items. Lemmas for each statement, then for each service operation.
\<close>

section \<open>The invariant\<close>

abbreviation sale_key :: "sale \<Rightarrow> uuid \<times> uuid \<times> uuid" where
  "sale_key s \<equiv> (Sale_OrganizationID s, Sale_StoreID s, Sale_ID s)"

abbreviation item_sale_key :: "sale_item \<Rightarrow> uuid \<times> uuid \<times> uuid" where
  "item_sale_key i \<equiv> (Item_OrganizationID i, Item_StoreID i, Item_SaleID i)"

definition items_of :: "db \<Rightarrow> uuid \<times> uuid \<times> uuid \<Rightarrow> sale_item list" where
  "items_of d k = filter (\<lambda>i. item_sale_key i = k) (db_sale_items d)"

definition item_gross :: "sale_item \<Rightarrow> int" where
  "item_gross i = gross (Item_UnitPrice i) (Item_Quantity i)"

definition item_ok :: "sale_item \<Rightarrow> bool" where
  "item_ok i \<longleftrightarrow> 0 \<le> Item_UnitPrice i \<and> 0 < Item_Quantity i \<and> 0 \<le> Item_Discount i \<and>
     Item_Discount i \<le> item_gross i \<and> Item_Total i = item_gross i - Item_Discount i"

definition sale_totals_ok :: "db \<Rightarrow> sale \<Rightarrow> bool" where
  "sale_totals_ok d s \<longleftrightarrow>
     Sale_Subtotal s = sum_list (map item_gross (items_of d (sale_key s))) \<and>
     Sale_Discount s = sum_list (map Item_Discount (items_of d (sale_key s))) \<and>
     Sale_Total s = sum_list (map Item_Total (items_of d (sale_key s))) \<and>
     Sale_Addition s = 0"

definition sales_wf :: "db \<Rightarrow> bool" where
  "sales_wf d \<longleftrightarrow> sales.unique d \<and> sale_items.unique d \<and>
     (\<forall>s \<in> set (db_sales d). first_violation (sale_checks s) = None) \<and>
     (\<forall>i \<in> set (db_sale_items d). item_ok i \<and> item_sale_key i \<in> sale_key ` set (db_sales d))"

definition totals_except :: "uuid \<times> uuid \<times> uuid \<Rightarrow> db \<Rightarrow> bool" where
  "totals_except k d \<longleftrightarrow> (\<forall>s \<in> set (db_sales d). sale_key s \<noteq> k \<longrightarrow> sale_totals_ok d s)"

definition sales_inv :: "db \<Rightarrow> bool" where
  "sales_inv d \<longleftrightarrow> sales_wf d \<and> (\<forall>s \<in> set (db_sales d). sale_totals_ok d s)"

text \<open>Sales that are no longer open, with their items, are not touched.\<close>

definition closed_kept :: "db \<Rightarrow> db \<Rightarrow> bool" where
  "closed_kept d d' \<longleftrightarrow> (\<forall>s \<in> set (db_sales d). Sale_Status s \<noteq> SaleOPEN \<longrightarrow>
     s \<in> set (db_sales d') \<and> items_of d' (sale_key s) = items_of d (sale_key s))"

lemma closed_kept_refl [simp]: "closed_kept d d"
  by (simp add: closed_kept_def)

lemma closed_kept_trans: "closed_kept d d' \<Longrightarrow> closed_kept d' d'' \<Longrightarrow> closed_kept d d''"
  by (simp add: closed_kept_def)

lemma item_in_sale_key: "item_in_sale org store sid i \<longleftrightarrow> item_sale_key i = (org, store, sid)"
  by (auto simp: item_in_sale_def)

lemma sale_in_scope_key: "sale_in_scope org store sid s \<longleftrightarrow> sale_key s = (org, store, sid)"
  by (auto simp: sale_in_scope_def)

section \<open>The item constraints and the code's line total agree\<close>

lemma pg_gross: "0 \<le> p \<Longrightarrow> 0 \<le> q \<Longrightarrow> pg_round_div (p * q) 1000 = gross p q"
  by (simp add: gross_def pg_round_div_nonneg)

lemma pg_net:
  assumes "0 \<le> x" "d \<le> quo_round x 1000"
  shows "pg_round_div (x - 1000 * d) 1000 = (if x - 1000 * d = -500 then -1 else quo_round x 1000 - d)"
proof (cases "0 \<le> x - 1000 * d")
  case True
  have "quo_round x 1000 = quo_round (x - 1000 * d) 1000 + d"
    using assms(1) True by (simp add: quo_round_nonneg)
  with True show ?thesis by (simp add: pg_round_div_nonneg)
next
  case False
  have "2 * (1000 * quo_round x 1000) - 2 * x \<le> 1000" using quo_round_nearest [of x 1000] assms(1) by simp
  with assms(2) have lo: "-500 \<le> x - 1000 * d" by linarith
  show ?thesis
  proof (cases "x - 1000 * d = -500")
    case True
    then show ?thesis by (simp add: pg_round_div_def)
  next
    case neq: False
    with False lo have "pg_round_div (x - 1000 * d) 1000 = 0" by (simp add: pg_round_div_def)
    moreover have "quo_round x 1000 \<le> d" using False assms(1) by (simp add: quo_round_nonneg)
    ultimately show ?thesis using neq assms(2) by simp
  qed
qed

lemma sale_item_checks_ok:
  assumes "first_violation (sale_item_checks i) = None"
  shows "item_ok i"
proof -
  from assms have c: "0 \<le> Item_UnitPrice i" "0 < Item_Quantity i" "0 \<le> Item_Discount i"
    "Item_Discount i \<le> pg_round_div (Item_UnitPrice i * Item_Quantity i) 1000"
    "Item_Total i = pg_round_div (Item_UnitPrice i * Item_Quantity i - 1000 * Item_Discount i) 1000"
    "0 \<le> Item_Total i"
    by (simp_all add: sale_item_checks_def split: if_splits)
  then have g: "Item_Discount i \<le> quo_round (Item_UnitPrice i * Item_Quantity i) 1000"
    by (simp add: pg_round_div_nonneg)
  from c pg_net [OF _ g] have "Item_Total i = quo_round (Item_UnitPrice i * Item_Quantity i) 1000 - Item_Discount i"
    by (auto split: if_splits)
  with c g show ?thesis by (simp add: item_ok_def item_gross_def gross_def)
qed

section \<open>Sums\<close>

lemma sum_totals_loop_eq:
  "sum_totals_loop items a b c =
     Inr (a + sum_list (map item_gross items), b + sum_list (map Item_Discount items),
          c + sum_list (map Item_Total items))"
  by (induction items arbitrary: a b c)
     (simp_all add: item_gross_def)

lemma sumSaleTotals_eq:
  "sumSaleTotals items =
     Inr (numericFromScaledInt (sum_list (map item_gross items)) 2,
          numericFromScaledInt (sum_list (map Item_Discount items)) 2,
          numericFromScaledInt (sum_list (map Item_Total items)) 2)"
  by (simp add: sumSaleTotals_def sum_totals_loop_eq)

lemma ListSaleItems_sums:
  "sum_list (map f (ListSaleItemsBySaleIDForStore scope sid d)) =
     sum_list (map f (items_of d (SS_OrganizationID scope, SS_StoreID scope, sid)))"
  for f :: "sale_item \<Rightarrow> int"
  by (simp add: ListSaleItemsBySaleIDForStore_def sum_list_sort_key items_of_def item_in_sale_def [abs_def])

lemma ListSaleItems_set:
  "set (ListSaleItemsBySaleIDForStore scope sid d) =
     set (items_of d (SS_OrganizationID scope, SS_StoreID scope, sid))"
  by (auto simp: ListSaleItemsBySaleIDForStore_def items_of_def item_in_sale_def)

section \<open>Statements\<close>

lemma update_sale_InrE:
  assumes "update_sale now cond f d = Inr (r, d')"
  obtains pre s post where "db_sales d = pre @ s # post" "cond s" "r = (f s)\<lparr>Sale_UpdatedAt := now\<rparr>"
    "sale_transition_ok (Sale_Status s) (Sale_Status r)" "first_violation (sale_checks r) = None"
    "d' = d\<lparr>db_sales := pre @ r # post\<rparr>"
  using assms by (auto simp: update_sale_def result_simps dest!: update_row_InrD)

lemma Recalculate_InrE:
  assumes "RecalculateSaleTotalsForStore now scope sid (numericFromScaledInt a 2) (numericFromScaledInt b 2)
     zeroMoney (numericFromScaledInt c 2) d = Inr (r, d')"
  obtains pre s post where "db_sales d = pre @ s # post"
    "sale_key s = (SS_OrganizationID scope, SS_StoreID scope, sid)" "Sale_Status s = SaleOPEN"
    "r = s\<lparr>Sale_Subtotal := a, Sale_Discount := b, Sale_Addition := 0, Sale_Total := c, Sale_UpdatedAt := now\<rparr>"
    "first_violation (sale_checks r) = None" "d' = d\<lparr>db_sales := pre @ r # post\<rparr>"
  using assms
  by (auto simp: RecalculateSaleTotalsForStore_def zeroMoney_def result_simps sale_in_scope_key
      elim!: update_sale_InrE)

lemma CreateSaleItem_InrE:
  assumes "CreateSaleItemForStore E now scope P d = Inr (i, d')"
  obtains "d' = d\<lparr>db_sale_items := db_sale_items d @ [i], db_uuid_calls := Suc (db_uuid_calls d)\<rparr>"
    "item_sale_key i = (SS_OrganizationID scope, SS_StoreID scope, CI_SaleID P)"
    "Item_ProductID i = CI_ProductID P" "item_ok i"
    "List.find (\<lambda>r. Item_ID r = Item_ID i) (db_sale_items d) = None"
    "(SS_OrganizationID scope, SS_StoreID scope, CI_SaleID P) \<in> sale_key ` set (db_sales d)"
proof -
  from assms have 1: "d' = d\<lparr>db_sale_items := db_sale_items d @ [i], db_uuid_calls := Suc (db_uuid_calls d)\<rparr>"
    "item_sale_key i = (SS_OrganizationID scope, SS_StoreID scope, CI_SaleID P)"
    "Item_ProductID i = CI_ProductID P" "first_violation (sale_item_checks i) = None"
    "List.find (\<lambda>r. Item_ID r = Item_ID i) (db_sale_items d) = None"
    by (auto simp: CreateSaleItemForStore_def result_simps Let_def)
  from assms obtain s where "s \<in> set (db_sales d)" "sale_in_scope (SS_OrganizationID scope) (SS_StoreID scope) (CI_SaleID P) s"
    by (auto simp: CreateSaleItemForStore_def result_simps Let_def dest!: find_SomeD)
  then have "(SS_OrganizationID scope, SS_StoreID scope, CI_SaleID P) \<in> sale_key ` set (db_sales d)"
    by (simp add: sale_in_scope_key image_iff) metis
  with 1 sale_item_checks_ok [of i] show thesis by (intro that) simp_all
qed

lemma UpdateSaleItem_InrE:
  assumes "UpdateSaleItemForStore scope sid iid q disc tot d = Inr (i, d')"
  obtains pre i0 post where "db_sale_items d = pre @ i0 # post"
    "item_sale_key i0 = (SS_OrganizationID scope, SS_StoreID scope, sid)" "Item_ID i0 = iid"
    "item_sale_key i = item_sale_key i0" "Item_ID i = Item_ID i0" "Item_ProductID i = Item_ProductID i0"
    "item_ok i" "d' = d\<lparr>db_sale_items := pre @ i # post\<rparr>"
proof -
  from assms obtain q' disc' tot' pre i0 post where
    "db_sale_items d = pre @ i0 # post" "d' = d\<lparr>db_sale_items := pre @ i # post\<rparr>"
    "item_in_sale (SS_OrganizationID scope) (SS_StoreID scope) sid i0" "Item_ID i0 = iid"
    "i = i0\<lparr>Item_Quantity := q', Item_Discount := disc', Item_Total := tot'\<rparr>"
    "first_violation (sale_item_checks i) = None"
    unfolding UpdateSaleItemForStore_def
    by (auto simp: Let_def result_simps dest!: update_row_InrD)
  with sale_item_checks_ok [of i] show thesis
    by (intro that [of pre i0 post]) (simp_all add: item_in_sale_key)
qed

lemma DeleteSaleItem_InrE:
  assumes "DeleteSaleItemForStore scope sid iid d = Inr (i, d')"
  obtains pre post where "db_sale_items d = pre @ i # post"
    "item_sale_key i = (SS_OrganizationID scope, SS_StoreID scope, sid)" "Item_ID i = iid"
    "d' = d\<lparr>db_sale_items := pre @ post\<rparr>"
  using assms
  by (auto simp: DeleteSaleItemForStore_def result_simps item_in_sale_key dest!: delete_row_InrD)

section \<open>Operations on one sale\<close>

text \<open>Every sale but \<open>k\<close> is as it was, in the same order, and so are its items.\<close>

definition only_sale :: "uuid \<times> uuid \<times> uuid \<Rightarrow> db \<Rightarrow> db \<Rightarrow> bool" where
  "only_sale k d d' \<longleftrightarrow>
     filter (\<lambda>s. sale_key s \<noteq> k) (db_sales d') = filter (\<lambda>s. sale_key s \<noteq> k) (db_sales d) \<and>
     (\<forall>k'. k' \<noteq> k \<longrightarrow> items_of d' k' = items_of d k')"

text \<open>The tables the sales service does not own.\<close>

definition sales_frame :: "db \<Rightarrow> db \<Rightarrow> bool" where
  "sales_frame d d' \<longleftrightarrow> (\<exists>s i c u. d' = d\<lparr>db_sales := s, db_sale_items := i, db_counters := c, db_uuid_calls := u\<rparr>)"

lemma only_sale_refl [simp]: "only_sale k d d"
  by (simp add: only_sale_def)

lemma only_sale_trans: "only_sale k d d' \<Longrightarrow> only_sale k d' d'' \<Longrightarrow> only_sale k d d''"
  by (simp add: only_sale_def)

lemma only_sale_in:
  assumes "only_sale k d d'" "sale_key s \<noteq> k"
  shows "s \<in> set (db_sales d') \<longleftrightarrow> s \<in> set (db_sales d)"
proof -
  from assms(1) have "set (filter (\<lambda>s. sale_key s \<noteq> k) (db_sales d')) = set (filter (\<lambda>s. sale_key s \<noteq> k) (db_sales d))"
    by (simp only: only_sale_def)
  with assms(2) show ?thesis unfolding set_filter by blast
qed

lemma sales_frame_refl [simp]: "sales_frame d d"
  unfolding sales_frame_def
  by (rule exI [of _ "db_sales d"], rule exI [of _ "db_sale_items d"], rule exI [of _ "db_counters d"],
      rule exI [of _ "db_uuid_calls d"]) simp

lemma sales_frame_trans: "sales_frame d d' \<Longrightarrow> sales_frame d' d'' \<Longrightarrow> sales_frame d d''"
  by (force simp: sales_frame_def)

lemma sales_frame_intros:
  "sales_frame d (d\<lparr>db_sales := s\<rparr>)" "sales_frame d (d\<lparr>db_sale_items := i\<rparr>)"
  "sales_frame d (d\<lparr>db_sale_items := i, db_uuid_calls := u\<rparr>)"
  "sales_frame d (d\<lparr>db_counters := c, db_sales := s, db_uuid_calls := u\<rparr>)"
  unfolding sales_frame_def
  by (rule exI [of _ s], rule exI [of _ "db_sale_items d"], rule exI [of _ "db_counters d"],
      rule exI [of _ "db_uuid_calls d"], simp)
     (rule exI [of _ "db_sales d"], rule exI [of _ i], rule exI [of _ "db_counters d"],
      rule exI [of _ "db_uuid_calls d"], simp,
      rule exI [of _ "db_sales d"], rule exI [of _ i], rule exI [of _ "db_counters d"],
      rule exI [of _ u], simp,
      rule exI [of _ s], rule exI [of _ "db_sale_items d"], rule exI [of _ c], rule exI [of _ u], simp)

lemma sales_frameD:
  assumes "sales_frame d d'"
  shows "db_stores d' = db_stores d" "db_memberships d' = db_memberships d" "db_products d' = db_products d"
    "db_inventory d' = db_inventory d" "db_movements d' = db_movements d"
    "db_payment_methods d' = db_payment_methods d" "db_store_payment_methods d' = db_store_payment_methods d"
    "db_payments d' = db_payments d" "db_fiscal_documents d' = db_fiscal_documents d"
  using assms by (auto simp: sales_frame_def)

lemma only_sale_totals:
  assumes "only_sale k d d'" "totals_except k d"
  shows "totals_except k d'"
  using assms only_sale_in [OF assms(1)]
  by (auto simp: totals_except_def sale_totals_ok_def only_sale_def)

lemma sales_inv_except: "sales_inv d \<longleftrightarrow> sales_wf d \<and> totals_except k d \<and>
    (\<forall>s \<in> set (db_sales d). sale_key s = k \<longrightarrow> sale_totals_ok d s)"
  by (auto simp: sales_inv_def totals_except_def)

lemma sale_key_inj:
  "sales.unique d \<Longrightarrow> s \<in> set (db_sales d) \<Longrightarrow> s' \<in> set (db_sales d) \<Longrightarrow> sale_key s = sale_key s' \<Longrightarrow> s = s'"
  by (auto dest: sales.unique_inj)

lemma only_sale_closed:
  assumes "only_sale k d d'" "sales.unique d" "s \<in> set (db_sales d)" "sale_key s = k" "Sale_Status s = SaleOPEN"
  shows "closed_kept d d'"
  unfolding closed_kept_def
proof (intro ballI impI)
  fix t assume t: "t \<in> set (db_sales d)" "Sale_Status t \<noteq> SaleOPEN"
  with assms(2-5) have "sale_key t \<noteq> k" by (metis sale_key_inj)
  with assms(1) t(1) show "t \<in> set (db_sales d') \<and> items_of d' (sale_key t) = items_of d (sale_key t)"
    by (simp add: only_sale_in) (simp add: only_sale_def)
qed

text \<open>A statement that rewrites the one row with key \<open>k\<close>.\<close>

lemma update_sale_step:
  assumes "db_sales d = pre @ s # post" "sale_key r = sale_key s" "d' = d\<lparr>db_sales := pre @ r # post\<rparr>"
    and wf: "sales_wf d" and r: "first_violation (sale_checks r) = None"
  shows "sales_wf d'" "only_sale (sale_key s) d d'" "sales_frame d d'"
    "s \<in> set (db_sales d)" "r \<in> set (db_sales d')" "db_sale_items d' = db_sale_items d"
proof -
  have k: "sale_key ` set (db_sales d') = sale_key ` set (db_sales d)" using assms(1-3) by auto
  have u: "sales.unique d'" using wf assms(1-3) by (simp add: sales_wf_def sales.unique_def)
  have i: "sale_items.unique d' = sale_items.unique d"
    using assms(3) by (simp add: sale_items.unique_def)
  have c: "\<forall>x \<in> set (db_sales d'). first_violation (sale_checks x) = None"
    using wf r assms(1,3) by (auto simp: sales_wf_def)
  show "sales_wf d'"
    using wf u i c k assms(3) unfolding sales_wf_def by simp
qed (use assms in \<open>auto simp: only_sale_def items_of_def intro: sales_frame_intros\<close>)

lemma Recalculate_step:
  assumes "RecalculateSaleTotalsForStore now scope sid (numericFromScaledInt a 2) (numericFromScaledInt b 2)
     zeroMoney (numericFromScaledInt c 2) d = Inr (r, d')"
    and k: "k = (SS_OrganizationID scope, SS_StoreID scope, sid)"
    and a: "a = sum_list (map item_gross (items_of d k))" "b = sum_list (map Item_Discount (items_of d k))"
      "c = sum_list (map Item_Total (items_of d k))"
    and wf: "sales_wf d" "totals_except k d"
  shows "sales_inv d'" "only_sale k d d'" "sales_frame d d'" "r \<in> set (db_sales d')" "sale_key r = k"
    "Sale_Status r = SaleOPEN" "db_sale_items d' = db_sale_items d"
proof -
  from assms(1) obtain pre s post where s: "db_sales d = pre @ s # post" "sale_key s = k" "Sale_Status s = SaleOPEN"
    "r = s\<lparr>Sale_Subtotal := a, Sale_Discount := b, Sale_Addition := 0, Sale_Total := c, Sale_UpdatedAt := now\<rparr>"
    "first_violation (sale_checks r) = None" "d' = d\<lparr>db_sales := pre @ r # post\<rparr>"
    using k by (elim Recalculate_InrE) simp
  have kr: "sale_key r = sale_key s" using s(4) by simp
  note step = update_sale_step [OF s(1) kr s(6) wf(1) s(5)]
  have ok: "sale_totals_ok d' r"
    using s(2,4) step(6) a by (simp add: sale_totals_ok_def items_of_def)
  have "sale_totals_ok d' x" if x: "x \<in> set (db_sales d')" "sale_key x = k" for x
  proof -
    have "sales.unique d'" using step(1) by (simp add: sales_wf_def)
    then have "x = r" using step(5) x kr s(2) by (intro sale_key_inj [of d']) simp_all
    with ok show ?thesis by simp
  qed
  moreover have "totals_except k d'" using only_sale_totals [of k d d'] step(2) s(2) wf(2) by metis
  ultimately show "sales_inv d'" using step(1) by (simp add: sales_inv_except [of d' k])
  show "only_sale k d d'" "sales_frame d d'" "r \<in> set (db_sales d')" "sale_key r = k"
    "Sale_Status r = SaleOPEN" "db_sale_items d' = db_sale_items d"
    using step s kr by simp_all
qed

lemma recalculate_sale_step:
  assumes "recalculate_sale E T actor sid d = Inr (r, d')"
    and "sales_wf d" "totals_except (Actor_OrganizationID actor, Actor_StoreID actor, sid) d"
  shows "sales_inv d'" "only_sale (Actor_OrganizationID actor, Actor_StoreID actor, sid) d d'" "sales_frame d d'"
    "\<exists>s \<in> set (db_sales d'). sale_key s = (Actor_OrganizationID actor, Actor_StoreID actor, sid) \<and> Sale_Status s = SaleOPEN"
proof -
  let ?k = "(Actor_OrganizationID actor, Actor_StoreID actor, sid)"
  from assms(1) obtain sale where "RecalculateSaleTotalsForStore (tx_now T) (ToStoreScope actor) sid
      (numericFromScaledInt (sum_list (map item_gross (items_of d ?k))) 2)
      (numericFromScaledInt (sum_list (map Item_Discount (items_of d ?k))) 2) zeroMoney
      (numericFromScaledInt (sum_list (map Item_Total (items_of d ?k))) 2) d = (Inr (sale, d') :: sales_error + _)"
    by (auto simp: recalculate_sale_def Let_def sumSaleTotals_eq ListSaleItems_sums result_simps)
  from Recalculate_step [OF this _ refl refl refl assms(2,3)]
  show "sales_inv d'" "only_sale ?k d d'" "sales_frame d d'"
    "\<exists>s \<in> set (db_sales d'). sale_key s = ?k \<and> Sale_Status s = SaleOPEN" by auto
qed

section \<open>Statements on the items of one sale\<close>

lemma item_step:
  assumes wf: "sales_wf d" and d': "db_sales d' = db_sales d" "sale_items.unique d'"
    and "\<forall>i \<in> set (db_sale_items d'). i \<in> set (db_sale_items d) \<or> item_ok i \<and> item_sale_key i = k"
    and "k \<in> sale_key ` set (db_sales d)" and "\<forall>k'. k' \<noteq> k \<longrightarrow> items_of d' k' = items_of d k'"
  shows "sales_wf d' \<and> only_sale k d d'"
proof -
  have "item_ok i \<and> item_sale_key i \<in> sale_key ` set (db_sales d')" if i: "i \<in> set (db_sale_items d')" for i
  proof (cases "i \<in> set (db_sale_items d)")
    case True
    with wf d'(1) show ?thesis by (simp add: sales_wf_def)
  next
    case False
    with assms(4) i have "item_ok i \<and> item_sale_key i = k" by blast
    with assms(5) d'(1) show ?thesis by simp
  qed
  with wf d' assms(6) show ?thesis
    by (simp add: sales_wf_def only_sale_def sales.unique_def)
qed

lemma CreateSaleItem_step:
  assumes "CreateSaleItemForStore E now scope P d = Inr (i, d')" "sales_wf d"
  shows "sales_wf d' \<and> only_sale (SS_OrganizationID scope, SS_StoreID scope, CI_SaleID P) d d' \<and>
    sales_frame d d' \<and> db_sales d' = db_sales d \<and>
    items_of d' (SS_OrganizationID scope, SS_StoreID scope, CI_SaleID P) =
      items_of d (SS_OrganizationID scope, SS_StoreID scope, CI_SaleID P) @ [i]"
proof -
  let ?k = "(SS_OrganizationID scope, SS_StoreID scope, CI_SaleID P)"
  from assms(1) show ?thesis
  proof (rule CreateSaleItem_InrE)
    assume c: "d' = d\<lparr>db_sale_items := db_sale_items d @ [i], db_uuid_calls := Suc (db_uuid_calls d)\<rparr>"
      "item_sale_key i = ?k" "item_ok i" "List.find (\<lambda>r. Item_ID r = Item_ID i) (db_sale_items d) = None"
      "?k \<in> sale_key ` set (db_sales d)"
    from assms(2) have "sale_items.unique d" by (simp add: sales_wf_def)
    then have "sale_items.unique (d\<lparr>db_sale_items := db_sale_items d @ [i]\<rparr>)"
      using c(4) by (rule sale_items.unique_insert)
    then have u: "sale_items.unique d'" using c(1) by (simp add: sale_items.unique_def)
    have "sales_wf d' \<and> only_sale ?k d d'"
      by (rule item_step [OF assms(2)]) (use c u in \<open>auto simp: items_of_def\<close>)
    with c(1,2) show ?thesis by (simp add: items_of_def sales_frame_intros)
  qed
qed

lemma UpdateSaleItem_step:
  assumes "UpdateSaleItemForStore scope sid iid q disc tot d = Inr (i, d')" "sales_wf d"
  shows "sales_wf d' \<and> only_sale (SS_OrganizationID scope, SS_StoreID scope, sid) d d' \<and> sales_frame d d' \<and>
    db_sales d' = db_sales d"
  using assms(1)
proof (rule UpdateSaleItem_InrE)
  fix pre i0 post
  assume c: "db_sale_items d = pre @ i0 # post"
    "item_sale_key i0 = (SS_OrganizationID scope, SS_StoreID scope, sid)"
    "item_sale_key i = item_sale_key i0" "Item_ID i = Item_ID i0" "item_ok i" "d' = d\<lparr>db_sale_items := pre @ i # post\<rparr>"
  then have "item_sale_key i0 \<in> sale_key ` set (db_sales d)" using assms(2) by (simp add: sales_wf_def)
  moreover have "sale_items.unique d'" using assms(2) c by (simp add: sales_wf_def sale_items.unique_def)
  ultimately have "sales_wf d' \<and> only_sale (item_sale_key i0) d d'"
    by (intro item_step [OF assms(2)]) (use c in \<open>auto simp: items_of_def\<close>)
  with c show ?thesis by (simp add: sales_frame_intros)
qed

lemma DeleteSaleItem_step:
  assumes "DeleteSaleItemForStore scope sid iid d = Inr (i, d')" "sales_wf d"
  shows "sales_wf d' \<and> only_sale (SS_OrganizationID scope, SS_StoreID scope, sid) d d' \<and> sales_frame d d' \<and>
    db_sales d' = db_sales d"
  using assms(1)
proof (rule DeleteSaleItem_InrE)
  fix pre post
  assume c: "db_sale_items d = pre @ i # post"
    "item_sale_key i = (SS_OrganizationID scope, SS_StoreID scope, sid)" "d' = d\<lparr>db_sale_items := pre @ post\<rparr>"
  then have "item_sale_key i \<in> sale_key ` set (db_sales d)" using assms(2) by (simp add: sales_wf_def)
  moreover have "sale_items.unique d'" using assms(2) c by (auto simp: sales_wf_def sale_items.unique_def)
  ultimately have "sales_wf d' \<and> only_sale (item_sale_key i) d d'"
    by (intro item_step [OF assms(2)]) (use c in \<open>auto simp: items_of_def\<close>)
  with c show ?thesis by (simp add: sales_frame_intros)
qed

end
