(* ===== verification/Sales_Operations.thy ===== *)
theory Sales_Operations
  imports Sales_Invariant
begin

text \<open>
  Every operation of the sales service keeps the invariant of the stored sales, touches one
  sale of the actor's store at most, and leaves closed sales alone.
\<close>

section \<open>What an operation keeps\<close>

text \<open>No operation of the sales service completes a sale.\<close>

definition completed_before :: "db \<Rightarrow> db \<Rightarrow> bool" where
  "completed_before d d' \<longleftrightarrow> (\<forall>s \<in> set (db_sales d'). Sale_Status s = SaleCOMPLETED \<longrightarrow>
     s \<in> set (db_sales d) \<and> items_of d' (sale_key s) = items_of d (sale_key s))"

definition sales_kept :: "store_actor \<Rightarrow> db \<Rightarrow> db \<Rightarrow> bool" where
  "sales_kept actor d d' \<longleftrightarrow> sales_inv d' \<and> sales_frame d d' \<and> closed_kept d d' \<and> completed_before d d' \<and>
     (\<exists>sid. only_sale (Actor_OrganizationID actor, Actor_StoreID actor, sid) d d')"

lemma completed_before_refl [simp]: "completed_before d d"
  by (simp add: completed_before_def)

lemma sales_kept_refl [simp]: "sales_inv d \<Longrightarrow> sales_kept actor d d"
  by (simp add: sales_kept_def)

lemma only_sale_completed:
  assumes "only_sale k d d'" "sales.unique d'" "s \<in> set (db_sales d')" "sale_key s = k" "Sale_Status s \<noteq> SaleCOMPLETED"
  shows "completed_before d d'"
  unfolding completed_before_def
proof (intro ballI impI)
  fix t assume t: "t \<in> set (db_sales d')" "Sale_Status t = SaleCOMPLETED"
  with assms(2-5) have "sale_key t \<noteq> k" by (metis sale_key_inj)
  with assms(1) t(1) show "t \<in> set (db_sales d) \<and> items_of d' (sale_key t) = items_of d (sale_key t)"
    using only_sale_in [OF assms(1)] by (simp add: only_sale_def)
qed

lemma lock_open_saleE:
  assumes "lock_open_sale actor sid d = Inr s"
  obtains "s \<in> set (db_sales d)" "sale_key s = (Actor_OrganizationID actor, Actor_StoreID actor, sid)"
    "Sale_Status s = SaleOPEN"
  using assms
  by (auto simp: lock_open_sale_def LockSaleByIDForStore_def result_simps sale_in_scope_key dest!: find_SomeD)

text \<open>The three item operations: lock, change items, recalculate.\<close>

lemma edit_items_keeps:
  assumes lock: "lock_open_sale actor sid d = Inr s"
    and items: "sales_wf d1" "only_sale (Actor_OrganizationID actor, Actor_StoreID actor, sid) d d1" "sales_frame d d1"
    and rec: "recalculate_sale E T actor sid d1 = Inr (r, d')"
    and inv: "sales_inv d"
  shows "sales_kept actor d d'"
proof -
  let ?k = "(Actor_OrganizationID actor, Actor_StoreID actor, sid)"
  have "totals_except ?k d" using inv by (simp add: sales_inv_except [of d ?k])
  then have "totals_except ?k d1" by (rule only_sale_totals [OF items(2)])
  note step = recalculate_sale_step [OF rec items(1) this]
  have o: "only_sale ?k d d'" using items(2) step(2) by (rule only_sale_trans)
  have "sales.unique d" using inv by (simp add: sales_inv_def sales_wf_def)
  with lock have "closed_kept d d'" by (elim lock_open_saleE) (rule only_sale_closed [OF o])
  moreover have "sales.unique d'" using step(1) by (simp add: sales_inv_def sales_wf_def)
  with step(4) have "completed_before d d'" by (auto intro: only_sale_completed [OF o])
  ultimately show ?thesis using o step items(3) unfolding sales_kept_def by (blast intro: sales_frame_trans)
qed

lemma sales_inv_wf: "sales_inv d \<Longrightarrow> sales_wf d"
  by (simp add: sales_inv_def)

lemma Sales_AddItem_tx_kept:
  "Sales_AddItem_tx E T actor sid nz d = Inr (r, d') \<Longrightarrow> sales_inv d \<Longrightarrow> sales_kept actor d d'"
  by (auto simp: Sales_AddItem_tx_def result_simps split: if_splits dest!: CreateSaleItem_step
      intro: edit_items_keeps sales_inv_wf)

lemma Sales_UpdateItem_tx_kept:
  "Sales_UpdateItem_tx E T actor sid iid q disc d = Inr (r, d') \<Longrightarrow> sales_inv d \<Longrightarrow> sales_kept actor d d'"
  by (auto simp: Sales_UpdateItem_tx_def result_simps dest!: UpdateSaleItem_step
      intro: edit_items_keeps sales_inv_wf)

lemma Sales_RemoveItem_tx_kept:
  "Sales_RemoveItem_tx E T actor sid iid d = Inr (r, d') \<Longrightarrow> sales_inv d \<Longrightarrow> sales_kept actor d d'"
  by (auto simp: Sales_RemoveItem_tx_def result_simps dest!: DeleteSaleItem_step
      intro: edit_items_keeps sales_inv_wf)

section \<open>Cancelling and creating a sale\<close>

text \<open>A change of the row of a sale that leaves its amounts alone.\<close>

lemma same_totals_step:
  assumes "db_sales d = pre @ s # post" "sale_key r = sale_key s" "d' = d\<lparr>db_sales := pre @ r # post\<rparr>"
    and "sales_inv d" "first_violation (sale_checks r) = None"
    and "Sale_Subtotal r = Sale_Subtotal s" "Sale_Discount r = Sale_Discount s" "Sale_Total r = Sale_Total s"
      "Sale_Addition r = Sale_Addition s"
  shows "sales_inv d' \<and> only_sale (sale_key s) d d' \<and> sales_frame d d' \<and> s \<in> set (db_sales d) \<and>
    r \<in> set (db_sales d') \<and> sales.unique d' \<and> sales.unique d"
proof -
  have wf: "sales_wf d" "sale_totals_ok d s" using assms(1,4) by (simp_all add: sales_inv_def)
  note step = update_sale_step [OF assms(1-3) wf(1) assms(5)]
  have u: "sales.unique d'" using step(1) by (simp add: sales_wf_def)
  have ok: "sale_totals_ok d' r" using wf(2) assms(2,6-9) step(6) by (simp add: sale_totals_ok_def items_of_def)
  have "sale_totals_ok d' x" if x: "x \<in> set (db_sales d')" "sale_key x = sale_key s" for x
  proof -
    have "x = r" using u step(5) x assms(2) by (intro sale_key_inj [of d']) simp_all
    with ok show ?thesis by simp
  qed
  moreover have "totals_except (sale_key s) d'"
    using only_sale_totals [OF step(2)] assms(4) by (metis sales_inv_except)
  ultimately have "sales_inv d'" using step(1) by (simp add: sales_inv_except [of d' "sale_key s"])
  with step u wf(1) show ?thesis by (simp add: sales_wf_def)
qed

lemma CancelSale_kept:
  assumes "CancelSaleForStore now scope sid d = Inr (r, d')" "sales_inv d"
    and s0: "s0 \<in> set (db_sales d)" "sale_key s0 = (AS_OrganizationID scope, AS_StoreID scope, sid)"
      "Sale_Status s0 = SaleOPEN"
  shows "sales_inv d' \<and> only_sale (AS_OrganizationID scope, AS_StoreID scope, sid) d d' \<and> sales_frame d d' \<and>
    closed_kept d d' \<and> completed_before d d'"
proof -
  let ?k = "(AS_OrganizationID scope, AS_StoreID scope, sid)"
  from assms(1) obtain pre s post where s: "db_sales d = pre @ s # post" "sale_key s = ?k"
    "r = s\<lparr>Sale_Status := SaleCANCELLED, Sale_CancelledByMembershipID := Some (AS_ActorMembershipID scope),
       Sale_CancelledAt := Some now, Sale_UpdatedAt := now\<rparr>"
    "first_violation (sale_checks r) = None" "d' = d\<lparr>db_sales := pre @ r # post\<rparr>"
    by (auto simp: CancelSaleForStore_def result_simps sale_in_scope_key elim!: update_sale_InrE)
  have kr: "sale_key r = sale_key s" using s(3) by simp
  have step: "sales_inv d' \<and> only_sale (sale_key s) d d' \<and> sales_frame d d' \<and> s \<in> set (db_sales d) \<and>
    r \<in> set (db_sales d') \<and> sales.unique d' \<and> sales.unique d"
    by (rule same_totals_step [OF s(1) kr s(5) assms(2) s(4)]) (use s(3) in simp_all)
  have "closed_kept d d'" using step s0 s(2) by (intro only_sale_closed [of ?k d d' s0]) simp_all
  moreover have "completed_before d d'"
    using step s(2,3) kr by (intro only_sale_completed [of ?k d d' r]) simp_all
  ultimately show ?thesis using step s(2) by simp
qed

text \<open>The statement with which the checkout completes a sale.\<close>

lemma CompleteSale_step:
  assumes "CompleteSaleForStore now scope sid d = Inr (r, d')" "sales_inv d"
  shows "\<exists>s. s \<in> set (db_sales d) \<and> sale_key s = (AS_OrganizationID scope, AS_StoreID scope, sid) \<and>
    Sale_Status s = SaleOPEN \<and> r \<in> set (db_sales d') \<and>
    r = s\<lparr>Sale_Status := SaleCOMPLETED, Sale_CompletedByMembershipID := Some (AS_ActorMembershipID scope),
       Sale_CompletedAt := Some now, Sale_UpdatedAt := now\<rparr> \<and>
    sales_inv d' \<and> only_sale (sale_key s) d d' \<and> sales_frame d d' \<and> closed_kept d d' \<and>
    db_sale_items d' = db_sale_items d"
proof -
  from assms(1) obtain pre s post where
    s: "db_sales d = pre @ s # post" "sale_key s = (AS_OrganizationID scope, AS_StoreID scope, sid)"
    "Sale_Status s = SaleOPEN"
    "r = s\<lparr>Sale_Status := SaleCOMPLETED, Sale_CompletedByMembershipID := Some (AS_ActorMembershipID scope),
       Sale_CompletedAt := Some now, Sale_UpdatedAt := now\<rparr>"
    "first_violation (sale_checks r) = None" "d' = d\<lparr>db_sales := pre @ r # post\<rparr>"
    by (auto simp: CompleteSaleForStore_def result_simps sale_in_scope_key elim!: update_sale_InrE)
  have kr: "sale_key r = sale_key s" using s(4) by simp
  have step: "sales_inv d' \<and> only_sale (sale_key s) d d' \<and> sales_frame d d' \<and> s \<in> set (db_sales d) \<and>
    r \<in> set (db_sales d') \<and> sales.unique d' \<and> sales.unique d"
    by (rule same_totals_step [OF s(1) kr s(6) assms(2) s(5)]) (use s(4) in simp_all)
  moreover have "closed_kept d d'" using step s(3) by (intro only_sale_closed [of "sale_key s" d d' s]) simp_all
  ultimately show ?thesis using s by (intro exI [of _ s]) simp
qed

lemma Sales_Cancel_tx_kept:
  assumes "Sales_Cancel_tx E T actor sid d = Inr (r, d')" "sales_inv d"
  shows "sales_kept actor d d'"
proof -
  from assms(1) obtain s c where s: "List.find (sale_in_scope (Actor_OrganizationID actor) (Actor_StoreID actor) sid) (db_sales d) = Some s"
    "Sale_Status s = SaleOPEN" "CancelSaleForStore (tx_now T) (ToActorScope actor) sid d = (Inr (c, d') :: sales_error + _)"
    by (auto simp: Sales_Cancel_tx_def LockSaleByIDForStore_def result_simps Let_def)
  from find_SomeD [OF s(1)] s(2) CancelSale_kept [OF s(3) assms(2), of s] show ?thesis
    by (auto simp: sale_in_scope_key sales_kept_def)
qed

lemma CreateSale_new:
  assumes "CreateSaleForStore E now scope key d = Inr (s, d')"
  obtains (existing) "d' = d" "s \<in> set (db_sales d)"
      "Sale_OrganizationID s = AS_OrganizationID scope" "Sale_StoreID s = AS_StoreID scope" "Sale_IdempotencyKey s = key"
  | (new) "s = new_sale scope now (uuidv7 E (db_uuid_calls d)) (next_sale_number scope d) key"
      "first_violation (sale_checks s) = None"
      "List.find (\<lambda>r. Sale_ID r = Sale_ID s) (db_sales d) = None"
      "List.find (\<lambda>r. Sale_OrganizationID r = AS_OrganizationID scope \<and> Sale_StoreID r = AS_StoreID scope \<and>
          Sale_Number r = Sale_Number s) (db_sales d) = None"
      "List.find (\<lambda>r. Sale_OrganizationID r = AS_OrganizationID scope \<and> Sale_StoreID r = AS_StoreID scope \<and>
          Sale_IdempotencyKey r = key) (db_sales d) = None"
      "d' = d\<lparr>db_counters := advance_sale_counter scope d, db_sales := db_sales d @ [s],
        db_uuid_calls := Suc (db_uuid_calls d)\<rparr>"
  using assms
  by (auto simp: CreateSaleForStore_def result_simps Let_def new_sale_def split: option.splits dest: find_SomeD)

lemma CreateSale_kept:
  assumes "CreateSaleForStore E now scope key d = Inr (s, d')" "sales_inv d"
  shows "sales_inv d' \<and> only_sale (AS_OrganizationID scope, AS_StoreID scope, Sale_ID s) d d' \<and> sales_frame d d' \<and>
    closed_kept d d' \<and> completed_before d d'"
  using assms(1)
proof (cases rule: CreateSale_new)
  case new
  let ?k = "(AS_OrganizationID scope, AS_StoreID scope, Sale_ID s)"
  have k: "sale_key s = ?k" "Sale_Subtotal s = 0" "Sale_Discount s = 0" "Sale_Total s = 0" "Sale_Addition s = 0"
    using new(1) by (simp_all add: new_sale_def)
  have wf: "sales_wf d" using assms(2) by (rule sales_inv_wf)
  then have "sales.unique (d\<lparr>db_sales := db_sales d @ [s]\<rparr>)"
    using new(3) by (intro sales.unique_insert) (simp_all add: sales_wf_def)
  then have u: "sales.unique d'" "sale_items.unique d'"
    using new(6) wf by (simp_all add: sales.unique_def sale_items.unique_def sales_wf_def)
  have i: "items_of d' k' = items_of d k'" for k' using new(6) by (simp add: items_of_def)
  have fresh: "?k \<notin> sale_key ` set (db_sales d)" using new(3) by (auto simp: find_None_iff)
  have "item_sale_key x \<noteq> ?k" if x: "x \<in> set (db_sale_items d)" for x
  proof
    assume "item_sale_key x = ?k"
    moreover have "item_sale_key x \<in> sale_key ` set (db_sales d)" using wf x unfolding sales_wf_def by blast
    ultimately have "?k \<in> sale_key ` set (db_sales d)" by (simp only:)
    with fresh show False ..
  qed
  then have e: "items_of d ?k = []" unfolding items_of_def filter_empty_conv by blast
  have "set (db_sales d') = insert s (set (db_sales d))" "db_sale_items d' = db_sale_items d"
    using new(6) by simp_all
  then have "sales_wf d'" using wf u new(2) unfolding sales_wf_def by (simp add: image_insert)
  moreover have "\<forall>x \<in> set (db_sales d'). sale_totals_ok d' x"
    using assms(2) new(6) k e i by (auto simp: sales_inv_def sale_totals_ok_def)
  moreover have "only_sale ?k d d'" "closed_kept d d'" "sales_frame d d'"
    using new(6) k i by (auto simp: only_sale_def closed_kept_def sales_frame_intros)
  moreover have "completed_before d d'"
    using new(1,6) i by (auto simp: completed_before_def new_sale_def)
  ultimately show ?thesis by (simp add: sales_inv_def)
qed (use assms(2) in simp)

lemma Sales_Create_tx_kept:
  assumes "Sales_Create_tx E T actor key d = Inr (r, d')" "sales_inv d"
  shows "sales_kept actor d d'"
proof -
  from assms(1) obtain s where
    "CreateSaleForStore E (tx_now T) (ToActorScope actor) key d = (Inr (s, d') :: sales_error + _)"
    by (auto simp: Sales_Create_tx_def result_simps Let_def)
  from CreateSale_kept [OF this assms(2)] show ?thesis by (auto simp: sales_kept_def)
qed

section \<open>The operations\<close>

lemma Sales_Create_kept:
  "Sales_Create E T actor key d = (res, d') \<Longrightarrow> sales_inv d \<Longrightarrow> sales_kept actor d d'"
  by (auto simp: Sales_Create_def split: sum.splits elim!: WithTx_keeps intro: Sales_Create_tx_kept)

lemma Sales_AddItem_kept:
  "Sales_AddItem E T actor a b c e d = (res, d') \<Longrightarrow> sales_inv d \<Longrightarrow> sales_kept actor d d'"
  by (auto simp: Sales_AddItem_def split: sum.splits elim!: WithTx_keeps intro: Sales_AddItem_tx_kept)

lemma Sales_UpdateItem_kept:
  "Sales_UpdateItem E T actor a b c e d = (res, d') \<Longrightarrow> sales_inv d \<Longrightarrow> sales_kept actor d d'"
  by (auto simp: Sales_UpdateItem_def split: sum.splits elim!: WithTx_keeps intro: Sales_UpdateItem_tx_kept)

lemma Sales_RemoveItem_kept:
  "Sales_RemoveItem E T actor a b d = (res, d') \<Longrightarrow> sales_inv d \<Longrightarrow> sales_kept actor d d'"
  by (auto simp: Sales_RemoveItem_def split: sum.splits elim!: WithTx_keeps intro: Sales_RemoveItem_tx_kept)

lemma Sales_Cancel_kept:
  "Sales_Cancel E T actor a d = (res, d') \<Longrightarrow> sales_inv d \<Longrightarrow> sales_kept actor d d'"
  by (auto simp: Sales_Cancel_def split: sum.splits elim!: WithTx_keeps intro: Sales_Cancel_tx_kept)

end
