(* ===== verification/Settlement.thy ===== *)
theory Settlement
  imports Checkout_Payments Sales_Operations
begin

text \<open>
  The invariant that spans sales, stock, payments and fiscal documents, and the proof that the
  commercial transaction of the checkout keeps it: a completed sale is paid in full by
  approved payments, its stock is taken by one movement per product, and it has one fiscal
  document; any other sale has none of these.
\<close>

section \<open>Fiscal documents\<close>

abbreviation doc_sale_key :: "fiscal_document \<Rightarrow> uuid \<times> uuid \<times> uuid" where
  "doc_sale_key x \<equiv> (Doc_OrganizationID x, Doc_StoreID x, Doc_SaleID x)"

definition documents_of :: "db \<Rightarrow> uuid \<times> uuid \<times> uuid \<Rightarrow> fiscal_document list" where
  "documents_of d k = filter (\<lambda>x. doc_sale_key x = k) (db_fiscal_documents d)"

definition documents_inv :: "db \<Rightarrow> bool" where
  "documents_inv d \<longleftrightarrow> documents.unique d \<and> distinct (map doc_sale_key (db_fiscal_documents d)) \<and>
     (\<forall>x \<in> set (db_fiscal_documents d). first_violation (fiscal_document_checks x) = None)"

definition document_frame :: "db \<Rightarrow> db \<Rightarrow> bool" where
  "document_frame d d' \<longleftrightarrow> (\<exists>f u. d' = d\<lparr>db_fiscal_documents := f, db_uuid_calls := u\<rparr>)"

lemma document_frame_refl [simp]: "document_frame d d"
  unfolding document_frame_def by (rule exI [of _ "db_fiscal_documents d"], rule exI [of _ "db_uuid_calls d"]) simp

lemma document_frameD:
  assumes "document_frame d d'"
  shows "db_stores d' = db_stores d" "db_memberships d' = db_memberships d" "db_products d' = db_products d"
    "db_sales d' = db_sales d" "db_sale_items d' = db_sale_items d" "db_counters d' = db_counters d"
    "db_inventory d' = db_inventory d" "db_movements d' = db_movements d" "db_payments d' = db_payments d"
    "db_payment_methods d' = db_payment_methods d" "db_store_payment_methods d' = db_store_payment_methods d"
  using assms by (auto simp: document_frame_def)

lemma document_of_sale_key: "document_of_sale scope sid x \<longleftrightarrow> doc_sale_key x = (SS_OrganizationID scope, SS_StoreID scope, sid)"
  by (auto simp: document_of_sale_def)

lemma CreateFiscalDocument_new:
  assumes "CreateFiscalDocumentForStore E now scope sid d = Inr (x, d')"
    and "documents_of d (SS_OrganizationID scope, SS_StoreID scope, sid) = []" "documents_inv d"
  shows "documents_inv d' \<and> document_frame d d' \<and> db_fiscal_documents d' = db_fiscal_documents d @ [x] \<and>
    doc_sale_key x = (SS_OrganizationID scope, SS_StoreID scope, sid) \<and> Doc_Status x = DocPENDING \<and>
    (SS_OrganizationID scope, SS_StoreID scope, sid) \<in> sale_key ` set (db_sales d)"
proof -
  let ?k = "(SS_OrganizationID scope, SS_StoreID scope, sid)"
  have none: "List.find (document_of_sale scope sid) (db_fiscal_documents d) = None"
    using assms(2) by (auto simp: find_None_iff documents_of_def filter_empty_conv document_of_sale_key)
  with assms(1) have x: "doc_sale_key x = ?k" "Doc_Status x = DocPENDING"
    "first_violation (fiscal_document_checks x) = None" "\<forall>r \<in> set (db_fiscal_documents d). Doc_ID r \<noteq> Doc_ID x"
    "d' = d\<lparr>db_fiscal_documents := db_fiscal_documents d @ [x], db_uuid_calls := Suc (db_uuid_calls d)\<rparr>"
    by (auto simp: CreateFiscalDocumentForStore_def Let_def result_simps find_None_iff)
  from assms(1) none obtain s where "s \<in> set (db_sales d)" "sale_key s = ?k"
    by (auto simp: CreateFiscalDocumentForStore_def Let_def result_simps dest!: find_SomeD)
  then have fk: "?k \<in> sale_key ` set (db_sales d)" by (intro rev_image_eqI [of s]) simp_all
  have u: "distinct (map Doc_ID (db_fiscal_documents d @ [x]))"
    using assms(3) x(4) by (auto simp: documents_inv_def documents.unique_def)
  have "?k \<notin> doc_sale_key ` set (db_fiscal_documents d)"
    using assms(2) by (auto simp: documents_of_def filter_empty_conv)
  then have "distinct (map doc_sale_key (db_fiscal_documents d @ [x]))"
    using assms(3) x(1) by (simp add: documents_inv_def)
  with u have "documents_inv d'"
    using assms(3) x(3) unfolding documents_inv_def documents.unique_def x(5) by simp
  moreover have "document_frame d d'"
    unfolding document_frame_def x(5)
    by (rule exI [of _ "db_fiscal_documents d @ [x]"], rule exI [of _ "Suc (db_uuid_calls d)"]) simp
  ultimately show ?thesis using x fk by simp
qed

section \<open>The invariant\<close>

text \<open>The stock movements a checkout writes for a sale.\<close>

definition sale_movements :: "db \<Rightarrow> uuid \<times> uuid \<times> uuid \<Rightarrow> inventory_movement list" where
  "sale_movements d k = filter (\<lambda>m. Movement_MovementType m = MovSALE \<and> Movement_ReferenceType m = ''sale'' \<and>
     (Movement_OrganizationID m, Movement_StoreID m, Movement_ReferenceID m) = k) (db_movements d)"

definition settled :: "db \<Rightarrow> sale \<Rightarrow> bool" where
  "settled d s \<longleftrightarrow> (let k = sale_key s in
     if Sale_Status s = SaleCOMPLETED then
       payments_of d k \<noteq> [] \<and> (\<forall>p \<in> set (payments_of d k). Payment_Status p = PayAPPROVED) \<and>
       sum_list (map Payment_Amount (payments_of d k)) = Sale_Total s \<and>
       length (documents_of d k) = 1 \<and>
       distinct (map Movement_ProductID (sale_movements d k)) \<and>
       Movement_ProductID ` set (sale_movements d k) = Item_ProductID ` set (items_of d k) \<and>
       (\<forall>m \<in> set (sale_movements d k). Movement_Quantity m = sold (items_of d k) (Movement_ProductID m))
     else payments_of d k = [] \<and> documents_of d k = [] \<and> sale_movements d k = [])"

text \<open>Payments, documents and sale movements belong to sales.\<close>

definition refs_ok :: "db \<Rightarrow> bool" where
  "refs_ok d \<longleftrightarrow> (\<forall>k. k \<notin> sale_key ` set (db_sales d) \<longrightarrow>
     payments_of d k = [] \<and> documents_of d k = [] \<and> sale_movements d k = [])"

definition system_inv :: "env \<Rightarrow> db \<Rightarrow> bool" where
  "system_inv E d \<longleftrightarrow> sales_inv d \<and> stock_inv d \<and> payments_inv E d \<and> documents_inv d \<and> refs_ok d \<and>
     (\<forall>s \<in> set (db_sales d). settled d s)"

text \<open>Each part depends on its own tables.\<close>

lemma sales_inv_cong: "db_sales d' = db_sales d \<Longrightarrow> db_sale_items d' = db_sale_items d \<Longrightarrow> sales_inv d' = sales_inv d"
  by (simp add: sales_inv_def sales_wf_def sale_totals_ok_def items_of_def sales.unique_def sale_items.unique_def)

lemma stock_inv_cong:
  assumes "db_inventory d' = db_inventory d" "db_movements d' = db_movements d"
  shows "stock_inv d' = stock_inv d"
proof -
  have "stock_level d' = stock_level d" "movements_of d' = movements_of d"
    using assms by (simp_all add: stock_level_def movements_of_def fun_eq_iff)
  then show ?thesis
    using assms by (simp add: stock_inv_def ledger.balanced_def stock.unique_def movements.unique_def)
qed

lemma payments_inv_cong: "db_payments d' = db_payments d \<Longrightarrow> payments_inv E d' = payments_inv E d"
  by (simp add: payments_inv_def payments.unique_def)

lemma documents_inv_cong: "db_fiscal_documents d' = db_fiscal_documents d \<Longrightarrow> documents_inv d' = documents_inv d"
  by (simp add: documents_inv_def documents.unique_def)

lemma of_cong:
  "db_payments d' = db_payments d \<Longrightarrow> payments_of d' k = payments_of d k"
  "db_fiscal_documents d' = db_fiscal_documents d \<Longrightarrow> documents_of d' k = documents_of d k"
  "db_movements d' = db_movements d \<Longrightarrow> sale_movements d' k = sale_movements d k"
  "db_sale_items d' = db_sale_items d \<Longrightarrow> items_of d' k = items_of d k"
  by (simp_all add: payments_of_def documents_of_def sale_movements_def items_of_def)

lemma settled_cong:
  "payments_of d' (sale_key s) = payments_of d (sale_key s) \<Longrightarrow>
   documents_of d' (sale_key s) = documents_of d (sale_key s) \<Longrightarrow>
   sale_movements d' (sale_key s) = sale_movements d (sale_key s) \<Longrightarrow>
   items_of d' (sale_key s) = items_of d (sale_key s) \<Longrightarrow> settled d' s = settled d s"
  by (simp add: settled_def Let_def)

section \<open>Operations of the sales service\<close>

lemma sales_kept_system:
  assumes inv: "system_inv E d" and kept: "sales_kept actor d d'"
  shows "system_inv E d'"
proof -
  have frame: "sales_frame d d'" and cl: "closed_kept d d'" and co: "completed_before d d'" and si: "sales_inv d'"
    using kept by (simp_all add: sales_kept_def)
  note t = sales_frameD [OF frame]
  have same: "payments_of d' k = payments_of d k" "documents_of d' k = documents_of d k"
    "sale_movements d' k = sale_movements d k" for k by (intro of_cong t)+
  have u: "sales.unique d'" using si by (simp add: sales_inv_def sales_wf_def)
  have none: "payments_of d k = [] \<and> documents_of d k = [] \<and> sale_movements d k = []"
    if "\<And>s. s \<in> set (db_sales d) \<Longrightarrow> sale_key s = k \<Longrightarrow> Sale_Status s \<noteq> SaleCOMPLETED" for k
  proof (cases "k \<in> sale_key ` set (db_sales d)")
    case True
    then obtain s where s: "s \<in> set (db_sales d)" "sale_key s = k" by blast
    with that have "Sale_Status s \<noteq> SaleCOMPLETED" by blast
    moreover have "settled d s" using inv s(1) by (simp add: system_inv_def)
    ultimately show ?thesis using s(2) by (simp add: settled_def Let_def)
  next
    case False
    with inv show ?thesis unfolding system_inv_def refs_ok_def by blast
  qed
  have "settled d' s" if s: "s \<in> set (db_sales d')" for s
  proof (cases "Sale_Status s = SaleCOMPLETED")
    case True
    with co s have "s \<in> set (db_sales d)" "items_of d' (sale_key s) = items_of d (sale_key s)"
      by (simp_all add: completed_before_def)
    with inv same show ?thesis by (simp add: system_inv_def settled_cong [of d' s d])
  next
    case False
    have "Sale_Status x \<noteq> SaleCOMPLETED" if "x \<in> set (db_sales d)" "sale_key x = sale_key s" for x
    proof
      assume "Sale_Status x = SaleCOMPLETED"
      with cl that(1) have "x \<in> set (db_sales d')" by (simp add: closed_kept_def)
      with u s that(2) have "x = s" by (metis sale_key_inj)
      with False \<open>Sale_Status x = SaleCOMPLETED\<close> show False by simp
    qed
    from none [OF this] False same show ?thesis by (simp add: settled_def Let_def)
  qed
  moreover have "refs_ok d'"
    unfolding refs_ok_def
  proof (intro allI impI)
    fix k assume k: "k \<notin> sale_key ` set (db_sales d')"
    have "Sale_Status x \<noteq> SaleCOMPLETED" if "x \<in> set (db_sales d)" "sale_key x = k" for x
    proof
      assume "Sale_Status x = SaleCOMPLETED"
      with cl that(1) have "x \<in> set (db_sales d')" by (simp add: closed_kept_def)
      with k that(2) show False by blast
    qed
    from none [OF this] same show "payments_of d' k = [] \<and> documents_of d' k = [] \<and> sale_movements d' k = []" by simp
  qed
  ultimately show ?thesis
    using inv si t by (simp add: system_inv_def stock_inv_cong [of d' d] payments_inv_cong [of d' d]
        documents_inv_cong [of d' d])
qed

section \<open>The commercial transaction of the checkout\<close>

text \<open>The tables no checkout writes.\<close>

definition masters_same :: "db \<Rightarrow> db \<Rightarrow> bool" where
  "masters_same d d' \<longleftrightarrow> db_stores d' = db_stores d \<and> db_memberships d' = db_memberships d \<and>
     db_products d' = db_products d \<and> db_payment_methods d' = db_payment_methods d \<and>
     db_store_payment_methods d' = db_store_payment_methods d"

text \<open>What it does to the database, as one relation.\<close>

definition checked_out ::
    "env \<Rightarrow> time \<Rightarrow> store_actor \<Rightarrow> uuid \<Rightarrow> normalized_payment list \<Rightarrow> checkout_state \<Rightarrow> db \<Rightarrow> db \<Rightarrow> bool" where
  "checked_out E now actor sid inputs st d d' \<longleftrightarrow>
     (let k = (Actor_OrganizationID actor, Actor_StoreID actor, sid) in
      (\<exists>s. s \<in> set (db_sales d) \<and> sale_key s = k \<and> Sale_Status s = SaleOPEN \<and>
         CS_Sale st = s\<lparr>Sale_Status := SaleCOMPLETED,
           Sale_CompletedByMembershipID := Some (Actor_MembershipID actor),
           Sale_CompletedAt := Some now, Sale_UpdatedAt := now\<rparr> \<and>
         CS_Sale st \<in> set (db_sales d') \<and>
         (\<exists>vs. vs \<noteq> [] \<and> list_all2 (payment_accepted actor d) inputs vs \<and>
            sum_list (map (\<lambda>v. cents (VP_Amount v)) vs) = Sale_Total s \<and>
            payments_created E now actor sid vs (map fst (CS_Payments st)) d d')) \<and>
      items_of d k \<noteq> [] \<and> db_sale_items d' = db_sale_items d \<and> only_sale k d d' \<and> closed_kept d d' \<and>
      (\<exists>ps. distinct ps \<and> set ps = Item_ProductID ` set (items_of d k) \<and>
         stock_taken actor sid ps (sold (items_of d k)) d d') \<and>
      (\<exists>x. db_fiscal_documents d' = db_fiscal_documents d @ [x] \<and> doc_sale_key x = k \<and> Doc_Status x = DocPENDING \<and>
         CS_FiscalDocument st = toFiscalDocumentResponse E x))"

lemma sold_perm: "mset xs = mset ys \<Longrightarrow> sold xs = sold ys"
proof
  fix p assume "mset xs = mset ys"
  then have "mset (filter (\<lambda>i. Item_ProductID i = p) xs) = mset (filter (\<lambda>i. Item_ProductID i = p) ys)" by simp
  then have "mset (map Item_Quantity (filter (\<lambda>i. Item_ProductID i = p) xs)) =
      mset (map Item_Quantity (filter (\<lambda>i. Item_ProductID i = p) ys))" by simp
  then show "sold xs p = sold ys p" unfolding sold_def by (metis sum_mset_sum_list)
qed

lemma ListSaleItems_mset:
  "mset (ListSaleItemsBySaleIDForStore scope sid d) =
     mset (items_of d (SS_OrganizationID scope, SS_StoreID scope, sid))"
  by (simp add: ListSaleItemsBySaleIDForStore_def items_of_def item_in_sale_def [abs_def])

lemma Checkout_tx_InrE:
  assumes "Checkout_tx E T actor sid inputs d = Inr (st, d')"
  obtains s vs d1 pays d2 c d3 x where
    "s \<in> set (db_sales d)" "sale_key s = (Actor_OrganizationID actor, Actor_StoreID actor, sid)"
    "Sale_Status s = SaleOPEN" "ListSaleItemsBySaleIDForStore (ToStoreScope actor) sid d \<noteq> []"
    "ValidatePayments actor (numericFromScaledInt (Sale_Total s) 2) inputs d = Inr vs"
    "applyInventoryChanges E (tx_now T) actor sid (ListSaleItemsBySaleIDForStore (ToStoreScope actor) sid d) d = Inr d1"
    "createPayments E (tx_now T) actor sid vs d1 = Inr (pays, d2)"
    "CompleteSaleForStore (tx_now T) (ToActorScope actor) sid d2 = (Inr (c, d3) :: checkout_error + _)"
    "CreateFiscalDocumentForStore E (tx_now T) (ToStoreScope actor) sid d3 = (Inr (x, d') :: checkout_error + _)"
    "st = \<lparr>CS_Sale = c, CS_Items = ListSaleItemsBySaleIDForStore (ToStoreScope actor) sid d, CS_Payments = pays,
       CS_FiscalDocument = toFiscalDocumentResponse E x\<rparr>"
  using assms
  by (auto simp: Checkout_tx_def Let_def result_simps LockSaleByIDForStore_def sale_in_scope_key
      split: if_splits dest!: find_SomeD)

lemma total_nonneg: "first_violation (sale_checks s) = None \<Longrightarrow> 0 \<le> Sale_Total s"
  by (simp add: sale_checks_def split: if_splits)

lemma Checkout_tx_done:
  assumes run: "Checkout_tx E T actor sid inputs d = Inr (st, d')"
    and inv: "system_inv E d" and laws: "uuid_law E" and money: "\<forall>p \<in> set inputs. payment_money p"
  shows "checked_out E (tx_now T) actor sid inputs st d d' \<and>
    sales_inv d' \<and> stock_inv d' \<and> payments_inv E d' \<and> documents_inv d' \<and> masters_same d d'"
  using run
proof (rule Checkout_tx_InrE)
  fix s vs d1 pays d2 c d3 x
  let ?k = "(Actor_OrganizationID actor, Actor_StoreID actor, sid)"
  let ?its = "ListSaleItemsBySaleIDForStore (ToStoreScope actor) sid d"
  assume a: "s \<in> set (db_sales d)" "sale_key s = ?k" "Sale_Status s = SaleOPEN" "?its \<noteq> []"
    "ValidatePayments actor (numericFromScaledInt (Sale_Total s) 2) inputs d = Inr vs"
    "applyInventoryChanges E (tx_now T) actor sid ?its d = Inr d1"
    "createPayments E (tx_now T) actor sid vs d1 = Inr (pays, d2)"
    "CompleteSaleForStore (tx_now T) (ToActorScope actor) sid d2 = (Inr (c, d3) :: checkout_error + _)"
    "CreateFiscalDocumentForStore E (tx_now T) (ToStoreScope actor) sid d3 = (Inr (x, d') :: checkout_error + _)"
    "st = \<lparr>CS_Sale = c, CS_Items = ?its, CS_Payments = pays, CS_FiscalDocument = toFiscalDocumentResponse E x\<rparr>"
  have i: "sales_inv d" "stock_inv d" "payments_inv E d" "documents_inv d" "settled d s"
    using inv a(1) by (simp_all add: system_inv_def)
  then have none: "payments_of d ?k = []" "documents_of d ?k = []" "sale_movements d ?k = []"
    using a(2,3) by (simp_all add: settled_def Let_def)
  have mset: "mset ?its = mset (items_of d ?k)" using ListSaleItems_mset [of "ToStoreScope actor" sid d] by simp
  have its: "sold ?its = sold (items_of d ?k)" "set ?its = set (items_of d ?k)" "items_of d ?k \<noteq> []"
    using sold_perm [OF mset] mset_eq_setD [OF mset] a(4) mset by auto
  have "0 \<le> Sale_Total s" using i(1) a(1) by (simp add: sales_inv_def sales_wf_def total_nonneg)
  from ValidatePayments_spec [OF a(5) money this] have v: "vs \<noteq> []" "list_all2 (payment_accepted actor d) inputs vs"
    "sum_list (map (\<lambda>v. cents (VP_Amount v)) vs) = Sale_Total s" by simp_all
  then have vm: "\<forall>v \<in> set vs. validated_money v"
    by (auto simp: list_all2_conv_all_nth in_set_conv_nth) (blast dest: payment_accepted_money)
  from applyInventoryChanges_step [OF a(6) i(2) laws] its obtain ps where
    st1: "stock_inv d1" "stock_frame d d1" "distinct ps" "set ps = Item_ProductID ` set (items_of d ?k)"
    "stock_taken actor sid ps (sold (items_of d ?k)) d d1" by auto
  note f1 = stock_frameD [OF st1(2)]
  have p1: "payments_inv E d1" "payments_of d1 ?k = []"
    using i(3) none(1) f1 payments_inv_cong [of d1 d] of_cong(1) [of d1 d] by simp_all
  from createPayments_step [OF a(7) p1(1) laws p1(2) vm] have
    st2: "payments_inv E d2" "payment_frame d1 d2" "payments_created E (tx_now T) actor sid vs (map fst pays) d1 d2" by simp_all
  note f2 = payment_frameD [OF st2(2)]
  have sv: "sales_inv d2" using i(1) f1 f2 sales_inv_cong [of d2 d] by simp
  from CompleteSale_step [OF a(8) sv] obtain s' where
    st3: "s' \<in> set (db_sales d2)" "sale_key s' = ?k" "Sale_Status s' = SaleOPEN" "c \<in> set (db_sales d3)"
    "c = s'\<lparr>Sale_Status := SaleCOMPLETED, Sale_CompletedByMembershipID := Some (Actor_MembershipID actor),
       Sale_CompletedAt := Some (tx_now T), Sale_UpdatedAt := tx_now T\<rparr>"
    "sales_inv d3" "only_sale ?k d2 d3" "sales_frame d2 d3" "closed_kept d2 d3" "db_sale_items d3 = db_sale_items d2"
    by auto
  note f3 = sales_frameD [OF st3(8)]
  have "sales.unique d" using i(1) by (simp add: sales_inv_def sales_wf_def)
  then have "s' = s" using st3(1,2) a(1,2) f1 f2 sale_key_inj [of d s' s] by simp
  have dd: "documents_inv d3" "documents_of d3 ?k = []"
    using i(4) none(2) f1 f2 f3 documents_inv_cong [of d3 d] of_cong(2) [of d3 d] by simp_all
  from CreateFiscalDocument_new [OF a(9)] dd have
    st4: "documents_inv d'" "document_frame d3 d'" "db_fiscal_documents d' = db_fiscal_documents d3 @ [x]"
    "doc_sale_key x = ?k" "Doc_Status x = DocPENDING" by simp_all
  note f4 = document_frameD [OF st4(2)]
  have sinv: "stock_inv d'" using st1(1) f2 f3 f4 stock_inv_cong [of d' d1] by simp
  have pinv: "payments_inv E d'" using st2(1) f3 f4 payments_inv_cong [of d' d2] by simp
  have sainv: "sales_inv d'" using st3(6,10) f4 sales_inv_cong [of d' d3] by simp
  have "payments_created E (tx_now T) actor sid vs (map fst (CS_Payments st)) d d'"
  proof -
    have "db_payments d1 = db_payments d" "db_payments d' = db_payments d2" "CS_Payments st = pays"
      using f1 f3 f4 a(10) by simp_all
    then have "payments_created E (tx_now T) actor sid vs (map fst (CS_Payments st)) d d' =
        payments_created E (tx_now T) actor sid vs (map fst pays) d1 d2" by (simp add: payments_created_def)
    with st2(3) show ?thesis by blast
  qed
  moreover have "stock_taken actor sid ps (sold (items_of d ?k)) d d'"
  proof -
    have "stock_level d' = stock_level d1" "db_movements d' = db_movements d1"
      using f2 f3 f4 by (simp_all add: stock_level_def fun_eq_iff)
    with st1(5) show ?thesis by (simp add: stock_taken_def)
  qed
  moreover have "only_sale ?k d d'" "closed_kept d d'"
  proof -
    have "items_of d' = items_of d3" "items_of d2 = items_of d" using f1 f2 f4 by (simp_all add: items_of_def fun_eq_iff)
    with st3(7,9) f1 f2 f4 show "only_sale ?k d d'" "closed_kept d d'"
      by (simp_all add: only_sale_def closed_kept_def)
  qed
  moreover have "db_sale_items d' = db_sale_items d" "db_fiscal_documents d' = db_fiscal_documents d @ [x]"
    "CS_Sale st \<in> set (db_sales d')" using f1 f2 f3 f4 st3(4,10) st4(3) a(10) by simp_all
  ultimately have "checked_out E (tx_now T) actor sid inputs st d d'"
    unfolding checked_out_def Let_def
    using a(1-3,10) v st3(5) \<open>s' = s\<close> its(3) st1(3,4) st4(4,5)
    by (intro conjI exI [of _ s] exI [of _ vs] exI [of _ ps] exI [of _ x]) simp_all
  moreover have "masters_same d d'" using f1 f2 f3 f4 by (simp add: masters_same_def)
  ultimately show ?thesis using sinv pinv sainv st4(1) by simp
qed

text \<open>The sale is settled afterwards, and nothing changed for any other.\<close>

lemma stock_taken_movements:
  assumes "stock_taken actor sid ps q d d'" "distinct ps"
  shows "\<exists>ms. sale_movements d' (Actor_OrganizationID actor, Actor_StoreID actor, sid) =
      sale_movements d (Actor_OrganizationID actor, Actor_StoreID actor, sid) @ ms \<and>
      map Movement_ProductID ms = ps \<and> (\<forall>m \<in> set ms. Movement_Quantity m = q (Movement_ProductID m))"
    "k \<noteq> (Actor_OrganizationID actor, Actor_StoreID actor, sid) \<Longrightarrow> sale_movements d' k = sale_movements d k"
proof -
  from assms(1) obtain ms where ms: "db_movements d' = db_movements d @ ms" "map Movement_ProductID ms = ps"
    "\<forall>m \<in> set ms. sale_movement actor sid m \<and> Movement_Quantity m = q (Movement_ProductID m)"
    unfolding stock_taken_def by blast
  have "filter (\<lambda>m. Movement_MovementType m = MovSALE \<and> Movement_ReferenceType m = ''sale'' \<and>
     (Movement_OrganizationID m, Movement_StoreID m, Movement_ReferenceID m) =
       (Actor_OrganizationID actor, Actor_StoreID actor, sid)) ms = ms"
    using ms(3) by (intro filter_True) (auto simp: sale_movement_def)
  with ms show "\<exists>ms. sale_movements d' (Actor_OrganizationID actor, Actor_StoreID actor, sid) =
      sale_movements d (Actor_OrganizationID actor, Actor_StoreID actor, sid) @ ms \<and>
      map Movement_ProductID ms = ps \<and> (\<forall>m \<in> set ms. Movement_Quantity m = q (Movement_ProductID m))"
    by (intro exI [of _ ms]) (simp add: sale_movements_def)
  show "sale_movements d' k = sale_movements d k" if "k \<noteq> (Actor_OrganizationID actor, Actor_StoreID actor, sid)"
    using ms(1,3) that by (auto simp: sale_movements_def sale_movement_def filter_empty_conv)
qed

lemma checked_out_settles:
  assumes co: "checked_out E now actor sid inputs st d d'" and inv: "system_inv E d"
    and k: "k = (Actor_OrganizationID actor, Actor_StoreID actor, sid)"
  shows "settled d' (CS_Sale st)" "sale_key (CS_Sale st) = k" "CS_Sale st \<in> set (db_sales d')"
    "k \<in> sale_key ` set (db_sales d)" "Sale_Status (CS_Sale st) = SaleCOMPLETED"
proof -
  note c = co [unfolded checked_out_def Let_def, folded k]
  from c obtain s vs where s: "s \<in> set (db_sales d)" "sale_key s = k" "Sale_Status s = SaleOPEN"
    "CS_Sale st = s\<lparr>Sale_Status := SaleCOMPLETED, Sale_CompletedByMembershipID := Some (Actor_MembershipID actor),
       Sale_CompletedAt := Some now, Sale_UpdatedAt := now\<rparr>" "CS_Sale st \<in> set (db_sales d')"
    "vs \<noteq> []" "sum_list (map (\<lambda>v. cents (VP_Amount v)) vs) = Sale_Total s"
    "payments_created E now actor sid vs (map fst (CS_Payments st)) d d'" by blast
  have "settled d s" using inv s(1) by (simp add: system_inv_def)
  then have none: "payments_of d k = []" "documents_of d k = []" "sale_movements d k = []"
    using s(2,3) by (simp_all add: settled_def Let_def)
  note p = payments_created_of_sale [OF s(8), folded k]
  have pay: "payments_of d' k = map fst (CS_Payments st)" using p(1) none(1) by simp
  have "length (map fst (CS_Payments st)) = length vs" using s(8) by (simp add: payments_created_def)
  then have ne: "map fst (CS_Payments st) \<noteq> []" using s(6) by auto
  from c obtain ps where ps: "distinct ps" "set ps = Item_ProductID ` set (items_of d k)"
    "stock_taken actor sid ps (sold (items_of d k)) d d'" by blast
  from stock_taken_movements(1) [OF ps(3,1), folded k] none(3) obtain ms where
    ms: "sale_movements d' k = ms" "map Movement_ProductID ms = ps"
      "\<forall>m \<in> set ms. Movement_Quantity m = sold (items_of d k) (Movement_ProductID m)" by auto
  from c obtain x where x: "db_fiscal_documents d' = db_fiscal_documents d @ [x]" "doc_sale_key x = k" by blast
  then have doc: "documents_of d' k = [x]" using none(2) by (simp add: documents_of_def)
  have it: "items_of d' k = items_of d k" using c by (simp add: items_of_def)
  have sk: "sale_key (CS_Sale st) = k" "Sale_Total (CS_Sale st) = Sale_Total s" using s(2,4) by simp_all
  have dm: "distinct (map Movement_ProductID ms)" "Movement_ProductID ` set ms = Item_ProductID ` set (items_of d k)"
    using ms(2) ps(1,2) by (simp, metis list.set_map)
  show st: "Sale_Status (CS_Sale st) = SaleCOMPLETED" using s(4) by simp
  show "settled d' (CS_Sale st)"
    unfolding settled_def Let_def sk(1) pay doc ms(1) it sk(2)
    using st ne p(3,4) s(7) dm ms(3) by simp
  show "sale_key (CS_Sale st) = k" "CS_Sale st \<in> set (db_sales d')" using sk(1) s(5) by simp_all
  show "k \<in> sale_key ` set (db_sales d)" using s(1,2) by blast
qed

lemma checked_out_others:
  assumes "checked_out E now actor sid inputs st d d'" "k' \<noteq> (Actor_OrganizationID actor, Actor_StoreID actor, sid)"
  shows "payments_of d' k' = payments_of d k'" "documents_of d' k' = documents_of d k'"
    "sale_movements d' k' = sale_movements d k'" "items_of d' k' = items_of d k'"
proof -
  note c = assms(1) [unfolded checked_out_def Let_def]
  from c obtain vs where "payments_created E now actor sid vs (map fst (CS_Payments st)) d d'" by blast
  from payments_created_of_sale(2) [OF this assms(2)] show "payments_of d' k' = payments_of d k'" .
  from c obtain ps q where "distinct ps" "stock_taken actor sid ps q d d'" by blast
  from stock_taken_movements(2) [OF this(2,1) assms(2)] show "sale_movements d' k' = sale_movements d k'" .
  show "items_of d' k' = items_of d k'" using c assms(2) unfolding only_sale_def by blast
  from c obtain x where "db_fiscal_documents d' = db_fiscal_documents d @ [x]"
    "doc_sale_key x = (Actor_OrganizationID actor, Actor_StoreID actor, sid)" by blast
  with assms(2) show "documents_of d' k' = documents_of d k'" by (auto simp: documents_of_def)
qed

lemma checked_out_system:
  assumes co: "checked_out E now actor sid inputs st d d'" and inv: "system_inv E d"
    and parts: "sales_inv d'" "stock_inv d'" "payments_inv E d'" "documents_inv d'"
  shows "system_inv E d'"
proof -
  let ?k = "(Actor_OrganizationID actor, Actor_StoreID actor, sid)"
  note st = checked_out_settles [OF co inv refl] and ot = checked_out_others [OF co]
  have only: "only_sale ?k d d'" using co unfolding checked_out_def Let_def by blast
  have u: "sales.unique d'" using parts(1) by (simp add: sales_inv_def sales_wf_def)
  have "settled d' s" if s: "s \<in> set (db_sales d')" for s
  proof (cases "sale_key s = ?k")
    case True
    with sale_key_inj [OF u s st(3)] st(2) have "s = CS_Sale st" by simp
    with st(1) show ?thesis by simp
  next
    case False
    with s only_sale_in [OF only] have "s \<in> set (db_sales d)" by blast
    then have "settled d s" using inv by (simp add: system_inv_def)
    with settled_cong [of d' s d] ot [OF False] show ?thesis by simp
  qed
  moreover have "refs_ok d'"
    unfolding refs_ok_def
  proof (intro allI impI)
    fix k assume k: "k \<notin> sale_key ` set (db_sales d')"
    have nk: "k \<noteq> ?k" 
    proof
      assume "k = ?k"
      with st(2,3) have "k \<in> sale_key ` set (db_sales d')" by (intro rev_image_eqI [of "CS_Sale st"]) simp_all
      with k show False ..
    qed
    have "k \<notin> sale_key ` set (db_sales d)"
    proof
      assume "k \<in> sale_key ` set (db_sales d)"
      then obtain s where s: "s \<in> set (db_sales d)" "k = sale_key s" by blast
      with nk have "s \<in> set (db_sales d')" using only_sale_in [OF only, of s] by metis
      with k s(2) show False by blast
    qed
    then have "payments_of d k = [] \<and> documents_of d k = [] \<and> sale_movements d k = []"
      using inv unfolding system_inv_def refs_ok_def by blast
    with ot [OF nk] show "payments_of d' k = [] \<and> documents_of d' k = [] \<and> sale_movements d' k = []" by simp
  qed
  ultimately show ?thesis using parts by (simp add: system_inv_def)
qed

end
