(* ===== verification/System.thy ===== *)
theory System
  imports Settlement
begin

text \<open>
  The services together: every operation keeps the invariant of the whole database, and the
  databases reachable by any sequence of operations, from any start that satisfies it, do.
\<close>

section \<open>Fiscal documents after the sale\<close>

lemma document_change_system:
  assumes "system_inv E d" "document_frame d d'" "documents_inv d'"
    and len: "\<And>k. length (documents_of d' k) = length (documents_of d k)"
  shows "system_inv E d'"
proof -
  note f = document_frameD [OF assms(2)]
  have same: "payments_of d' k = payments_of d k" "sale_movements d' k = sale_movements d k" "items_of d' k = items_of d k"
    for k by (intro of_cong f)+
  have empty: "documents_of d' k = [] \<longleftrightarrow> documents_of d k = []" for k using len [of k] by (metis length_0_conv)
  have "settled d' s = settled d s" for s using same empty len by (simp add: settled_def Let_def)
  moreover have "refs_ok d' = refs_ok d" using f same empty by (simp add: refs_ok_def)
  ultimately show ?thesis
    using assms(1,3) f sales_inv_cong [of d' d] stock_inv_cong [of d' d] payments_inv_cong [of d' d]
    by (simp add: system_inv_def)
qed

lemma update_document_kept:
  assumes "update_document now cond f d = Inr (r, d')" "documents_inv d"
    and "\<And>x. Doc_ID (f x) = Doc_ID x \<and> doc_sale_key (f x) = doc_sale_key x"
  shows "documents_inv d' \<and> document_frame d d' \<and> (\<forall>k. length (documents_of d' k) = length (documents_of d k))"
  using assms(1)
proof (rule update_document_InrE)
  fix pre x post
  assume a: "db_fiscal_documents d = pre @ x # post" "r = (f x)\<lparr>Doc_UpdatedAt := now\<rparr>"
    "first_violation (fiscal_document_checks r) = None" "d' = d\<lparr>db_fiscal_documents := pre @ r # post\<rparr>"
  have r: "Doc_ID r = Doc_ID x" "doc_sale_key r = doc_sale_key x" using a(2) assms(3) [of x] by simp_all
  have "map Doc_ID (db_fiscal_documents d') = map Doc_ID (db_fiscal_documents d)"
    "map doc_sale_key (db_fiscal_documents d') = map doc_sale_key (db_fiscal_documents d)"
    using a(1,4) r by simp_all
  then have "documents_inv d'" using assms(2) a(1,3,4) by (auto simp: documents_inv_def documents.unique_def)
  moreover have "document_frame d d'"
    unfolding document_frame_def a(4) by (rule exI [of _ "pre @ r # post"], rule exI [of _ "db_uuid_calls d"]) simp
  moreover have "length (documents_of d' k) = length (documents_of d k)" for k
    using a(1,4) r by (simp add: documents_of_def)
  ultimately show ?thesis by blast
qed

lemma MarkAuthorized_kept:
  "MarkFiscalDocumentAuthorizedForStore now scope fid P d = Inr (r, d') \<Longrightarrow> documents_inv d \<Longrightarrow>
     documents_inv d' \<and> document_frame d d' \<and> (\<forall>k. length (documents_of d' k) = length (documents_of d k))"
  by (auto simp: MarkFiscalDocumentAuthorizedForStore_def Let_def result_simps split: if_splits
      dest!: update_document_kept)

lemma MarkError_kept:
  "MarkFiscalDocumentErrorForStore now scope fid c m d = Inr (r, d') \<Longrightarrow> documents_inv d \<Longrightarrow>
     documents_inv d' \<and> document_frame d d' \<and> (\<forall>k. length (documents_of d' k) = length (documents_of d k))"
  by (auto simp: MarkFiscalDocumentErrorForStore_def Let_def result_simps split: if_splits
      dest!: update_document_kept)

lemma document_change_system':
  assumes "documents_inv d' \<and> document_frame d d' \<and> (\<forall>k. length (documents_of d' k) = length (documents_of d k))"
    and "system_inv E d"
  shows "system_inv E d'"
  by (rule document_change_system [OF assms(2)]) (use assms(1) in blast)+

lemma system_documents: "system_inv E d \<Longrightarrow> documents_inv d"
  by (simp add: system_inv_def)

lemma authorizeFiscalDocument_system:
  assumes "authorizeFiscalDocument E T provider actor state d = (res, d')" "system_inv E d"
  shows "system_inv E d'"
proof -
  have e: "system_inv E d2" if "WithTx T (\<lambda>d. MarkFiscalDocumentErrorForStore (tx_now T) (ToStoreScope actor) fid a b d) d =
      (r2 :: checkout_error + _, d2)" for fid a b r2 d2
    by (rule WithTx_keeps [where Q = "system_inv E", OF that assms(2)])
       (use assms(2) in \<open>auto dest!: MarkError_kept [OF _ system_documents] intro: document_change_system'\<close>)
  have a: "system_inv E d2" if "WithTx T (\<lambda>d. chain (MarkFiscalDocumentAuthorizedForStore (tx_now T) (ToStoreScope actor) fid P d)
      (\<lambda>(row, d). Inr (toFiscalDocumentResponse E row, d))) d = (r2 :: checkout_error + _, d2)" for fid P r2 d2
    by (rule WithTx_keeps [where Q = "system_inv E", OF that assms(2)])
       (use assms(2) in \<open>auto simp: result_simps dest!: MarkAuthorized_kept [OF _ system_documents]
          intro: document_change_system'\<close>)
  from assms show ?thesis
    by (auto simp: authorizeFiscalDocument_def split: option.splits sum.splits prod.splits dest: e a)
qed

lemma Fiscal_Authorize_system:
  assumes "Fiscal_Authorize E now provider actor rawSaleID input d = (res, d')" "system_inv E d"
  shows "system_inv E d'"
  using assms
  by (auto simp: Fiscal_Authorize_def split: option.splits sum.splits prod.splits
      dest!: MarkError_kept [OF _ system_documents] MarkAuthorized_kept [OF _ system_documents]
      intro: document_change_system')

section \<open>Stock entries and adjustments\<close>

lemma stock_change_system:
  assumes "system_inv E d" "stock_inv d'" "stock_frame d d'"
    and "\<And>k. sale_movements d' k = sale_movements d k"
  shows "system_inv E d'"
proof -
  note f = stock_frameD [OF assms(3)]
  have same: "payments_of d' k = payments_of d k" "documents_of d' k = documents_of d k" "items_of d' k = items_of d k"
    for k by (intro of_cong f)+
  have "settled d' s = settled d s" for s using same assms(4) by (simp add: settled_def Let_def)
  moreover have "refs_ok d' = refs_ok d" using f same assms(4) by (simp add: refs_ok_def)
  ultimately show ?thesis
    using assms(1,2) f sales_inv_cong [of d' d] documents_inv_cong [of d' d] payments_inv_cong [of d' d]
    by (simp add: system_inv_def)
qed

lemma stock_moved_sale_movements:
  "stock_moved actor pid mt q rt rid d d' \<Longrightarrow> mt \<noteq> MovSALE \<Longrightarrow> sale_movements d' k = sale_movements d k"
  by (auto simp: stock_moved_def Let_def sale_movements_def)

lemma stock_moved_system:
  "stock_inv d' \<and> stock_moved actor pid mt q rt rid d d' \<Longrightarrow> mt \<noteq> MovSALE \<Longrightarrow> system_inv E d \<Longrightarrow> system_inv E d'"
  by (auto intro!: stock_change_system [of E d d'] stock_moved_frame stock_moved_sale_movements)

lemma system_stock: "system_inv E d \<Longrightarrow> stock_inv d"
  by (simp add: system_inv_def)

lemma Inventory_CreateEntry_system:
  assumes "Inventory_CreateEntry E T actor input d = (res, d')" "scan_law E" "system_inv E d"
  shows "system_inv E d'"
proof (cases res)
  case (Inl e)
  with assms show ?thesis by (auto dest!: Inventory_Inl_unchanged(1))
next
  case (Inr r)
  with assms show ?thesis
    by (auto elim!: CreateEntry_InrE dest!: CreateEntry_tx_step [OF _ _ system_stock] intro: stock_moved_system)
qed

lemma Inventory_CreateAdjustment_system:
  assumes "Inventory_CreateAdjustment E T actor input d = (res, d')" "scan_law E" "system_inv E d"
  shows "system_inv E d'"
proof (cases res)
  case (Inl e)
  with assms show ?thesis by (auto dest!: Inventory_Inl_unchanged(2))
next
  case (Inr r)
  with assms(1,2) obtain n q where n: "denotes (N_Quantity n) q 3" "Inventory_CreateAdjustment_tx E T actor n d = Inr (r, d')"
    by (auto elim!: CreateAdjustment_InrE)
  from stock_moved_system [OF CreateAdjustment_tx_step [OF n(2,1) system_stock [OF assms(3)]] _ assms(3)]
  show ?thesis by simp
qed

section \<open>Checkout\<close>

lemma Checkout_tx_system:
  assumes "Checkout_tx E T actor sid inputs d = Inr (st, d')" "uuid_law E" "\<forall>p \<in> set inputs. payment_money p" "system_inv E d"
  shows "system_inv E d'"
  using Checkout_tx_done [OF assms(1,4,2,3)] checked_out_system [OF _ assms(4)] by blast

lemma Checkout_system:
  assumes "Checkout E T1 T2 provider actor rawSaleID input d = (res, d')" "uuid_law E" "scan_law E" "system_inv E d"
  shows "system_inv E d'"
proof -
  have commercial: "system_inv E d2" if "WithTx T1 (Checkout_tx E T1 actor sid nps) d = (r2, d2)"
    "normalizeCheckoutInput E input = Inr nps" for sid nps r2 d2
  proof (rule WithTx_keeps [where Q = "system_inv E", OF that(1) assms(4)])
    fix r d1 assume "Checkout_tx E T1 actor sid nps d = Inr (r, d1)"
    moreover have "\<forall>p \<in> set nps. payment_money p"
      using normalize_payments_loop_money [OF assms(3)] that(2) unfolding normalizeCheckoutInput_def by blast
    ultimately show "system_inv E d1" using Checkout_tx_system assms(2,4) by blast
  qed
  from assms(1,4) show ?thesis
    by (auto simp: Checkout_def split: sum.splits prod.splits
        dest: commercial authorizeFiscalDocument_system)
qed

section \<open>Steps\<close>

text \<open>
  One request, run by an actor. The checkout is two steps, its commercial transaction and the
  one that stores the provider's answer, so that other requests may run in between; the
  second is taken with whatever state an earlier one returned.
\<close>

inductive step :: "env \<Rightarrow> store_actor \<Rightarrow> db \<Rightarrow> db \<Rightarrow> bool" for E actor where
  sales_create: "Sales_Create E T actor key d = (r1, d') \<Longrightarrow> step E actor d d'"
| sales_add_item: "Sales_AddItem E T actor rawSaleID rawProductID rawQuantity rawDiscount d = (r2, d') \<Longrightarrow> step E actor d d'"
| sales_update_item: "Sales_UpdateItem E T actor rawSaleID rawItemID rawQuantity rawDiscount d = (r3, d') \<Longrightarrow> step E actor d d'"
| sales_remove_item: "Sales_RemoveItem E T actor rawSaleID rawItemID d = (r4, d') \<Longrightarrow> step E actor d d'"
| sales_cancel: "Sales_Cancel E T actor rawSaleID d = (r5, d') \<Longrightarrow> step E actor d d'"
| stock_entry: "Inventory_CreateEntry E T actor entry d = (r6, d') \<Longrightarrow> step E actor d d'"
| stock_adjustment: "Inventory_CreateAdjustment E T actor adjustment d = (r7, d') \<Longrightarrow> step E actor d d'"
| checkout: "normalizeCheckoutInput E payments = Inr nps \<Longrightarrow> WithTx T (Checkout_tx E T actor sid nps) d = (r8, d') \<Longrightarrow>
    step E actor d d'"
| checkout_fiscal: "authorizeFiscalDocument E T provider actor state d = (r9, d') \<Longrightarrow> step E actor d d'"
| fiscal_authorize: "Fiscal_Authorize E now provider actor rawSaleID input d = (r10, d') \<Longrightarrow> step E actor d d'"

inductive reachable :: "env \<Rightarrow> db \<Rightarrow> db \<Rightarrow> bool" for E d where
  start: "reachable E d d"
| request: "reachable E d d1 \<Longrightarrow> step E actor d1 d2 \<Longrightarrow> reachable E d d2"

lemma normalized_money:
  "scan_law E \<Longrightarrow> normalizeCheckoutInput E payments = Inr nps \<Longrightarrow> \<forall>p \<in> set nps. payment_money p"
  unfolding normalizeCheckoutInput_def by (rule normalize_payments_loop_money)

lemma system_sales: "system_inv E d \<Longrightarrow> sales_inv d"
  by (simp add: system_inv_def)

lemma step_system:
  assumes "step E actor d d'" "uuid_law E" "scan_law E" "system_inv E d"
  shows "system_inv E d'"
  using assms(1)
proof cases
  case (checkout payments nps T sid r8)
  show ?thesis
    by (rule WithTx_keeps [where Q = "system_inv E", OF checkout(2) assms(4)])
       (rule Checkout_tx_system [OF _ assms(2) normalized_money [OF assms(3) checkout(1)] assms(4)])
qed (use assms in \<open>blast intro: sales_kept_system Sales_Create_kept Sales_AddItem_kept Sales_UpdateItem_kept
    Sales_RemoveItem_kept Sales_Cancel_kept system_sales Inventory_CreateEntry_system
    Inventory_CreateAdjustment_system authorizeFiscalDocument_system Fiscal_Authorize_system\<close>)+

lemma reachable_system:
  assumes "reachable E d d'" "uuid_law E" "scan_law E" "system_inv E d"
  shows "system_inv E d'"
  using assms(1) by (induction) (use assms(4) step_system [OF _ assms(2,3)] in blast)+

section \<open>Closed sales\<close>

lemma closed_kept_frame: "db_sales d' = db_sales d \<Longrightarrow> db_sale_items d' = db_sale_items d \<Longrightarrow> closed_kept d d'"
  by (simp add: closed_kept_def items_of_def)

lemma sales_kept_closed: "sales_kept actor d d' \<Longrightarrow> closed_kept d d'"
  by (simp add: sales_kept_def)

lemma document_frame_closed: "document_frame d d' \<Longrightarrow> closed_kept d d'"
  by (simp add: closed_kept_frame document_frameD)

lemma stock_frame_closed: "stock_frame d d' \<Longrightarrow> closed_kept d d'"
  by (simp add: closed_kept_frame stock_frameD)

lemma authorize_frame:
  assumes "authorizeFiscalDocument E T provider actor state d = (res, d')" "documents_inv d"
  shows "document_frame d d'"
proof -
  have e: "document_frame d d2" if "WithTx T (\<lambda>d. MarkFiscalDocumentErrorForStore (tx_now T) (ToStoreScope actor) fid a b d) d =
      (r2 :: checkout_error + _, d2)" for fid a b r2 d2
    by (rule WithTx_keeps [where Q = "document_frame d", OF that])
       (use assms(2) in \<open>auto dest!: MarkError_kept\<close>)
  have a: "document_frame d d2" if "WithTx T (\<lambda>d. chain (MarkFiscalDocumentAuthorizedForStore (tx_now T) (ToStoreScope actor) fid P d)
      (\<lambda>(row, d). Inr (toFiscalDocumentResponse E row, d))) d = (r2 :: checkout_error + _, d2)" for fid P r2 d2
    by (rule WithTx_keeps [where Q = "document_frame d", OF that])
       (use assms(2) in \<open>auto simp: result_simps dest!: MarkAuthorized_kept\<close>)
  from assms(1) show ?thesis
    by (auto simp: authorizeFiscalDocument_def split: option.splits sum.splits prod.splits dest: e a)
qed

lemma Fiscal_Authorize_frame:
  "Fiscal_Authorize E now provider actor rawSaleID input d = (res, d') \<Longrightarrow> documents_inv d \<Longrightarrow> document_frame d d'"
  by (auto simp: Fiscal_Authorize_def split: option.splits sum.splits prod.splits
      dest!: MarkError_kept MarkAuthorized_kept)

lemma step_closed:
  assumes "step E actor d d'" "uuid_law E" "scan_law E" "system_inv E d"
  shows "closed_kept d d'"
  using assms(1)
proof cases
  case (checkout payments nps T sid r8)
  show ?thesis
  proof (rule WithTx_keeps [where Q = "closed_kept d", OF checkout(2) closed_kept_refl])
    fix r d1 assume "Checkout_tx E T actor sid nps d = Inr (r, d1)"
    from Checkout_tx_done [OF this assms(4,2) normalized_money [OF assms(3) checkout(1)]]
    show "closed_kept d d1" unfolding checked_out_def Let_def by blast
  qed
next
  case (checkout_fiscal T provider state r9)
  with assms(4) show ?thesis by (blast intro: document_frame_closed authorize_frame system_documents)
next
  case (fiscal_authorize now provider rawSaleID input r10)
  with assms(4) show ?thesis by (blast intro: document_frame_closed Fiscal_Authorize_frame system_documents)
next
  case (stock_entry T entry r6)
  with CreateEntry_kept [OF this assms(3) system_stock [OF assms(4)]] show ?thesis by (blast intro: stock_frame_closed)
next
  case (stock_adjustment T adjustment r7)
  with CreateAdjustment_kept [OF this assms(3) system_stock [OF assms(4)]] show ?thesis by (blast intro: stock_frame_closed)
qed (use assms in \<open>blast intro: sales_kept_closed Sales_Create_kept Sales_AddItem_kept Sales_UpdateItem_kept
    Sales_RemoveItem_kept Sales_Cancel_kept system_sales\<close>)+

lemma reachable_closed:
  assumes "reachable E d d'" "uuid_law E" "scan_law E" "system_inv E d"
  shows "closed_kept d d'"
  using assms(1)
proof (induction)
  case start
  show ?case by simp
next
  case (request d1 actor d2)
  have "system_inv E d1" by (rule reachable_system [OF request.hyps(1) assms(2-4)])
  from request.IH step_closed [OF request.hyps(2) assms(2,3) this] show ?case by (rule closed_kept_trans)
qed

end
