(* ===== verification/Printing.thy ===== *)
theory Printing
  imports Validation
begin

text \<open>
  Parsing undoes printing: the text \<open>scaledIntToString\<close> gives for an amount that is
  not negative is accepted by the parsers and denotes that amount.
\<close>

lemma scaledIntToString_parts:
  assumes "0 \<le> v" "0 < k"
  obtains w f where "scaledIntToString v (int k) = w @ CHR ''.'' # f" "allDigits w" "allDigits f"
    "length f = k" "int (dec_value (w @ f)) = v"
proof -
  let ?n = "nat_dec (nat v)"
  define ds where "ds = (if length ?n \<le> k then replicate (k - length ?n + 1) (CHR ''0'') @ ?n else ?n)"
  have len: "k < length ds" by (simp add: ds_def)
  have digits: "list_all is_digit ds" using nat_dec_digits [of "nat v"] 
    by (auto simp: ds_def list_all_iff in_set_replicate split: if_splits)
  have val: "int (dec_value ds) = v" unfolding ds_def using assms(1)
    by (auto simp del: replicate.simps simp flip: replicate_append_same)
  define w f where "w = take (length ds - k) ds" and "f = drop (length ds - k) ds"
  have "int (length ?n) \<le> int k \<longleftrightarrow> length ?n \<le> k" by simp
  then have "scaledIntToString v (int k) = w @ CHR ''.'' # f"
    using assms by (simp add: scaledIntToString_def Let_def w_def f_def ds_def nat_add_distrib nat_diff_distrib
        Suc_diff_le del: replicate.simps)
  moreover have "allDigits w" "allDigits f" "length f = k"
    using digits len assms(2)
    by (auto simp: w_def f_def allDigits_def list_all_iff dest: in_set_takeD in_set_dropD)
  moreover have "int (dec_value (w @ f)) = v" using val by (simp add: w_def f_def)
  ultimately show ?thesis using that by blast
qed

lemma allDigits_no_dot: "allDigits w \<Longrightarrow> CHR ''.'' \<notin> set w"
  by (auto simp: allDigits_def list_all_iff)

lemma TrimSpace_decimal:
  assumes "allDigits w" "allDigits f"
  shows "strings_TrimSpace (w @ CHR ''.'' # f) = w @ CHR ''.'' # f"
  using assms allDigits_plain [OF assms(1)] allDigits_plain [OF assms(2)]
  by (intro TrimSpace_plain) (auto simp: allDigits_def)

lemma money_value_print: "0 \<le> v \<Longrightarrow> money_value (scaledIntToString v 2) = Some v"
  using scaledIntToString_parts [of v 2 "money_value (scaledIntToString v 2) = Some v"]
  by (simp add: money_value_def Cut_append allDigits_no_dot)

lemma quantity_value_print: "0 \<le> v \<Longrightarrow> quantity_value (scaledIntToString v 3) = Some v"
  using scaledIntToString_parts [of v 3 "quantity_value (scaledIntToString v 3) = Some v"]
  by (simp add: quantity_value_def Cut_append allDigits_no_dot)

lemma TrimSpace_print:
  "0 \<le> v \<Longrightarrow> strings_TrimSpace (scaledIntToString v 2) = scaledIntToString v 2"
  "0 \<le> v \<Longrightarrow> strings_TrimSpace (scaledIntToString v 3) = scaledIntToString v 3"
  using scaledIntToString_parts [of v 2 "strings_TrimSpace (scaledIntToString v 2) = scaledIntToString v 2"]
    scaledIntToString_parts [of v 3 "strings_TrimSpace (scaledIntToString v 3) = scaledIntToString v 3"]
  by (simp_all add: TrimSpace_decimal)

lemma parse_print_money:
  assumes "scan_law E" "0 \<le> v"
  shows "\<exists>n. parseMoney E field (scaledIntToString v 2) = (Inr n :: 's go_error + numeric) \<and> denotes n v 2"
  using parseMoney_Some [OF assms(1), where 's = 's] assms(2) by (simp add: TrimSpace_print money_value_print)

lemma parse_print_quantity:
  assumes "scan_law E" "0 < v"
  shows "\<exists>n. parseQuantity E field (scaledIntToString v 3) = (Inr n :: 's go_error + numeric) \<and> denotes n v 3"
  using parseQuantity_Some [OF assms(1), where 's = 's] assms(2) by (simp add: TrimSpace_print quantity_value_print)

end
