(* ===== verification/Uuid_Text.thy ===== *)
theory Uuid_Text
  imports Sha256 Validation
begin

text \<open>
  The text of a UUID as \<open>uuidStr\<close> of \<open>sessions/helpers.go\<close> prints it (8-4-4-4-12 hexadecimal
  digits), the reading back of such a text, and \<open>newRandomUUID\<close>, which turns sixteen random
  bytes into a version 4 UUID.
\<close>

unbundle bit_operations_syntax

section \<open>Printing\<close>

fun hex_text :: "nat \<Rightarrow> nat \<Rightarrow> string" where
  "hex_text 0 n = []"
| "hex_text (Suc k) n = hex_text k (n div 16) @ [hex_digit (n mod 16)]"

definition dashed :: "string \<Rightarrow> string" where
  "dashed h = take 8 h @ ''-'' @ take 4 (drop 8 h) @ ''-'' @ take 4 (drop 12 h) @ ''-'' @
     take 4 (drop 16 h) @ ''-'' @ drop 20 h"

definition uuidStr :: "uuid \<Rightarrow> string" where
  "uuidStr u = dashed (hex_text 32 (unat u))"

text \<open>Byte 6 keeps its low half and gets the version, byte 8 its low six bits and the variant.\<close>

definition newRandomUUID :: "uuid \<Rightarrow> uuid" where
  "newRandomUUID bytes =
     (let b = (bytes AND NOT (push_bit 72 240)) OR push_bit 72 64
      in (b AND NOT (push_bit 56 192)) OR push_bit 56 128)"

section \<open>Reading\<close>

definition hex_digit_val :: "char \<Rightarrow> nat" where
  "hex_digit_val c = (if (of_char c :: nat) < 58 then of_char c - 48 else of_char c - 87)"

definition hex_value :: "string \<Rightarrow> nat" where
  "hex_value s = foldl (\<lambda>n c. 16 * n + hex_digit_val c) 0 s"

definition undashed :: "string \<Rightarrow> string" where
  "undashed s = take 8 s @ take 4 (drop 9 s) @ take 4 (drop 14 s) @ take 4 (drop 19 s) @ drop 24 s"

lemma length_hex_text [simp]: "length (hex_text k n) = k"
  by (induction k n rule: hex_text.induct) auto

lemma hex_digit_val_digit [simp]: "n < 16 \<Longrightarrow> hex_digit_val (hex_digit n) = n"
  by (simp add: hex_digit_val_def hex_digit_def)

lemma hex_value_text: "hex_value (hex_text k n) = n mod 16 ^ k"
proof (induction k n rule: hex_text.induct)
  case (1 n)
  then show ?case by (simp add: hex_value_def)
next
  case (2 k n)
  have "hex_value (hex_text (Suc k) n) = 16 * hex_value (hex_text k (n div 16)) + n mod 16"
    by (simp add: hex_value_def)
  also have "\<dots> = n mod 16 ^ Suc k" using 2 by (simp add: mod_mult2_eq [of n 16])
  finally show ?case .
qed

lemma hex_digit_plain: "n < 16 \<Longrightarrow> plain_char (hex_digit n)"
  by (auto simp: plain_char_def hex_digit_def)

lemma hex_text_plain: "list_all plain_char (hex_text k n)"
  by (induction k n rule: hex_text.induct) (auto simp: hex_digit_plain)

lemma undashed_dashed: "length h = 32 \<Longrightarrow> undashed (dashed h) = h"
proof -
  assume h: "length h = 32"
  have "h = take 8 h @ take 4 (drop 8 h) @ take 4 (drop 12 h) @ take 4 (drop 16 h) @ drop 20 h"
    using append_take_drop_id [of 8 h] append_take_drop_id [of 4 "drop 8 h"]
      append_take_drop_id [of 4 "drop 12 h"] append_take_drop_id [of 4 "drop 16 h"] by simp
  with h show ?thesis by (simp add: undashed_def dashed_def)
qed

lemma length_dashed: "length h = 32 \<Longrightarrow> length (dashed h) = 36"
  by (simp add: dashed_def)

lemma length_uuidStr [simp]: "length (uuidStr u) = 36"
  by (simp add: uuidStr_def length_dashed)

lemma uuid_nat_bound: "unat u < 16 ^ 32" for u :: uuid
  using unsigned_less [of u, where 'a = nat] by simp

lemma hex_value_uuidStr: "of_nat (hex_value (undashed (uuidStr u))) = u"
  using uuid_nat_bound [of u] by (simp add: uuidStr_def undashed_dashed hex_value_text)

lemma uuidStr_inj: "uuidStr u = uuidStr v \<longleftrightarrow> u = v"
  by (metis hex_value_uuidStr)

lemma hex_digit_not_dot: "hex_digit (n mod 16) \<noteq> CHR ''.''"
proof
  assume "hex_digit (n mod 16) = CHR ''.''"
  moreover have "(of_char (hex_digit (n mod 16)) :: nat) \<ge> 48"
    using mod_less_divisor [of 16 n] by (simp add: hex_digit_def del: mod_less_divisor)
  ultimately show False by simp
qed

lemma hex_text_no_dot: "CHR ''.'' \<notin> set (hex_text k n)"
  by (induction k n rule: hex_text.induct) (auto simp: hex_digit_not_dot [symmetric])

lemma uuidStr_no_dot: "CHR ''.'' \<notin> set (uuidStr u)"
  using hex_text_no_dot [of 32 "unat u"] by (auto simp: uuidStr_def dashed_def dest: in_set_takeD in_set_dropD)

end
