(* ===== verification/Example_Env.thy ===== *)
theory Example_Env
  imports Checkout_Stock Printing Uuid_Text
begin

text \<open>
  A concrete environment: the library code the model takes as a parameter, written out (UUID
  texts in the 8-4-4-4-12 form, decimal numerals, identifiers counted upwards), and the proof
  that it satisfies the laws the development assumes of that code.
\<close>

section \<open>UUID texts\<close>

definition example_uuid_String :: "uuid \<Rightarrow> string" where
  "example_uuid_String u = uuidStr u"

definition example_uuid_Scan :: "string \<Rightarrow> uuid option" where
  "example_uuid_Scan s = (if length s = 36 then Some (of_nat (hex_value (undashed s))) else None)"

lemma example_uuid_roundtrip: "example_uuid_Scan (example_uuid_String u) = Some u"
proof -
  show ?thesis by (simp add: example_uuid_Scan_def example_uuid_String_def hex_value_uuidStr)
qed

lemma example_uuid_trim: "strings_TrimSpace (example_uuid_String u) = example_uuid_String u"
proof (rule TrimSpace_plain)
  let ?h = "hex_text 32 (unat u)"
  have ne: "take 8 ?h \<noteq> []" "drop 20 ?h \<noteq> []"
    using length_hex_text [of 32 "unat u"] by (auto simp del: length_hex_text)
  have p: "plain_char c" if "c \<in> set ?h" for c using that hex_text_plain by (auto simp: list_all_iff)
  show "example_uuid_String u \<noteq> []" using ne by (simp add: example_uuid_String_def uuidStr_def dashed_def)
  have "hd (example_uuid_String u) = hd (take 8 ?h)" "last (example_uuid_String u) = last (drop 20 ?h)"
    using ne by (simp_all add: example_uuid_String_def uuidStr_def dashed_def hd_append)
  then show "plain_char (hd (example_uuid_String u))" "plain_char (last (example_uuid_String u))"
    using p ne by (metis hd_in_set in_set_takeD, metis in_set_dropD last_in_set)
qed

section \<open>Numbers\<close>

definition example_ScanScientific :: "string \<Rightarrow> numeric option" where
  "example_ScanScientific s =
     (case strings_Cut s (CHR ''.'') of (w, f, found) \<Rightarrow>
        if allDigits w \<and> (found \<longrightarrow> allDigits f)
        then Some \<lparr>num_Int = Some (int (dec_value (w @ f))), num_Exp = - int (length f), num_NaN = False,
                   num_InfinityModifier = 0, num_Valid = True\<rparr>
        else None)"

definition example_Numeric_Value :: "numeric \<Rightarrow> string option" where
  "example_Numeric_Value n =
     (case (numericToScaledInt n 3 :: unit go_error + int) of Inl _ \<Rightarrow> None | Inr v \<Rightarrow> Some (scaledIntToString v 3))"

definition example_env :: env where
  "example_env = \<lparr>uuid_Scan = example_uuid_Scan, uuid_String = example_uuid_String,
     ScanScientific = example_ScanScientific, unicode_upper = (\<lambda>s. s),
     unicode_lower = (\<lambda>s. s), uuidv7 = (\<lambda>n. of_nat (n + 1000)),
     Numeric_Value = example_Numeric_Value, pg_ILIKE = (\<lambda>s pattern. take (length pattern - 2) s = tl (butlast pattern)),
     collation_key = length\<rparr>"

lemma example_uuid_law: "uuid_law example_env"
  unfolding uuid_law_def
  by (simp add: example_env_def example_uuid_roundtrip example_uuid_trim)
     (simp add: example_uuid_String_def)

lemma example_scan_law: "scan_law example_env"
  by (auto simp: scan_law_def example_env_def example_ScanScientific_def Cut_append allDigits_no_dot denotes_def)

lemma example_value_law: "value_law example_env"
  by (auto simp: value_law_def example_env_def example_Numeric_Value_def numericToScaledInt_3
      quantity_value_print TrimSpace_print)

lemmas example_laws = example_uuid_law example_scan_law example_value_law

end
