(* ===== verification/Example.thy ===== *)
theory Example
  imports System Example_Env
begin

text \<open>
  A small store in the concrete environment: one product with stock bought in, one cash
  payment method, and one open sale with an item. The properties of the other theories are
  applied to it to show that their hypotheses can hold.
\<close>

definition example_actor :: store_actor where
  "example_actor = \<lparr>Actor_UserID = 7, Actor_SessionID = 8, Actor_OrganizationID = 1, Actor_MembershipID = 3,
     Actor_StoreID = 2, Actor_ClientID = ''pdv''\<rparr>"

definition example_tx :: txn where
  "example_tx = \<lparr>tx_now = 5000, tx_begin_error = None, tx_commit_error = None\<rparr>"

definition example_product :: product where
  "example_product = \<lparr>Product_OrganizationID = 1, Product_ID = 10, Product_SKU = ''COF-1'', Product_Barcode = None,
     Product_Name = ''Coffee'', Product_CategoryID = None, Product_Price = 1250, Product_Cost = None,
     Product_IsActive = True, Product_CreatedAt = 1000, Product_UpdatedAt = 1000\<rparr>"

definition example_stock :: inventory where
  "example_stock = \<lparr>Inventory_OrganizationID = 1, Inventory_StoreID = 2, Inventory_ProductID = 10,
     Inventory_Quantity = 8000, Inventory_CreatedAt = 1000, Inventory_UpdatedAt = 1000\<rparr>"

definition example_purchase :: inventory_movement where
  "example_purchase = \<lparr>Movement_OrganizationID = 1, Movement_StoreID = 2, Movement_ID = 11, Movement_ProductID = 10,
     Movement_ActorMembershipID = 3, Movement_MovementType = MovPURCHASE, Movement_Quantity = 8000,
     Movement_PreviousQuantity = 0, Movement_CurrentQuantity = 8000, Movement_Reason = None,
     Movement_ReferenceType = ''invoice'', Movement_ReferenceID = 12, Movement_CreatedAt = 1000\<rparr>"

definition example_method :: payment_method where
  "example_method = \<lparr>Method_ID = 20, Method_OrganizationID = 1, Method_Code = ''CASH'', Method_Name = ''Cash'',
     Method_Kind = PMCASH, Method_Provider = None, Method_AllowsChange = True,
     Method_RequiresExternalReference = False, Method_AllowsInstallments = False, Method_MaxInstallments = 1,
     Method_FeePercentage = 0, Method_SettlementDays = 0, Method_IsActive = True, Method_SortOrder = 1,
     Method_CreatedAt = 1000, Method_UpdatedAt = 1000\<rparr>"

definition example_sale :: sale where
  "example_sale = \<lparr>Sale_ID = 30, Sale_OrganizationID = 1, Sale_StoreID = 2, Sale_Number = 1,
     Sale_IdempotencyKey = ''sale-1'', Sale_Status = SaleOPEN, Sale_Subtotal = 2500, Sale_Discount = 0,
     Sale_Addition = 0, Sale_Total = 2500, Sale_OpenedByMembershipID = 3, Sale_CompletedByMembershipID = None,
     Sale_CancelledByMembershipID = None, Sale_OpenedAt = 2000, Sale_CompletedAt = None,
     Sale_CancelledAt = None, Sale_CreatedAt = 2000, Sale_UpdatedAt = 2000\<rparr>"

definition example_item :: sale_item where
  "example_item = \<lparr>Item_ID = 31, Item_OrganizationID = 1, Item_StoreID = 2, Item_SaleID = 30, Item_ProductID = 10,
     Item_ProductName = ''Coffee'', Item_ProductSKU = ''COF-1'', Item_UnitPrice = 1250, Item_Quantity = 2000,
     Item_Discount = 0, Item_Total = 2500, Item_CreatedAt = 2000\<rparr>"

text \<open>The store before its first sale, and with one open sale.\<close>

definition example_shop :: db where
  "example_shop = \<lparr>db_stores = [(1, 2), (1, 5)], db_memberships = [(1, 3)], db_products = [example_product],
     db_counters = [], db_sales = [], db_sale_items = [], db_inventory = [example_stock],
     db_movements = [example_purchase], db_payment_methods = [example_method],
     db_store_payment_methods = [\<lparr>Binding_OrganizationID = 1, Binding_StoreID = 2,
       Binding_PaymentMethodID = 20, Binding_IsActive = True, Binding_SortOrder = 1,
       Binding_CreatedAt = 0, Binding_UpdatedAt = 0\<rparr>],
     db_payments = [], db_fiscal_documents = [], db_uuid_calls = 0\<rparr>"

definition example_open :: db where
  "example_open = example_shop\<lparr>db_sales := [example_sale], db_sale_items := [example_item],
     db_counters := [\<lparr>Counter_OrganizationID = 1, Counter_StoreID = 2, Counter_NextNumber = 2\<rparr>]\<rparr>"

lemmas example_defs = example_shop_def example_open_def example_actor_def example_tx_def example_product_def
  example_stock_def example_purchase_def example_method_def example_sale_def example_item_def

lemma gross_example: "gross 1250 2000 = 2500"
  by (simp add: gross_def quo_round_nonneg)

lemma example_stock_inv: "stock_inv example_open" "stock_inv example_shop"
  unfolding stock_inv_def ledger.balanced_def
  by (auto simp: stock.unique_def movements.unique_def example_defs movements_of_def stock_level_def
      movement_delta_def)

lemma example_sales_inv: "sales_inv example_open" "sales_inv example_shop"
  by (auto simp: sales_inv_def sales_wf_def sales.unique_def sale_items.unique_def example_defs sale_checks_def
      btrim_blank_def item_ok_def item_gross_def gross_example sale_totals_ok_def items_of_def)

lemma example_open_inv: "system_inv example_env example_open"
  using example_stock_inv(1) example_sales_inv(1)
  by (auto simp: system_inv_def payments_inv_def payments.unique_def documents_inv_def documents.unique_def
      refs_ok_def settled_def payments_of_def documents_of_def sale_movements_def example_defs)

lemma example_shop_inv: "system_inv example_env example_shop"
  using example_stock_inv(2) example_sales_inv(2)
  by (auto simp: system_inv_def payments_inv_def payments.unique_def documents_inv_def documents.unique_def
      refs_ok_def settled_def payments_of_def documents_of_def sale_movements_def example_defs)

section \<open>A checkout of the open sale\<close>

text \<open>2500 cents in cash, 3000 received.\<close>

definition example_input :: checkout_payment_input where
  "example_input = \<lparr>Pay_PaymentMethodID = uuid_String example_env 20, Pay_Amount = ''25.00'',
     Pay_ReceivedAmount = Some ''30'', Pay_Installments = None, Pay_ExternalReference = None\<rparr>"

definition example_payment :: normalized_payment where
  "example_payment = \<lparr>NP_PaymentMethodID = 20, NP_Amount = numericFromScaledInt 2500 2,
     NP_ReceivedAmount = Some (numericFromScaledInt 3000 2), NP_Installments = 1, NP_ExternalReference = None\<rparr>"

definition example_validated :: validated_payment where
  "example_validated = \<lparr>VP_Method = example_method, VP_Amount = numericFromScaledInt 2500 2,
     VP_ReceivedAmount = Some (numericFromScaledInt 3000 2), VP_ChangeAmount = Some (numericFromScaledInt 500 2),
     VP_Installments = 1, VP_ExternalReference = None\<rparr>"

text \<open>The rows the transaction writes.\<close>

definition example_taken :: inventory_movement where
  "example_taken = \<lparr>Movement_OrganizationID = 1, Movement_StoreID = 2, Movement_ID = 1000, Movement_ProductID = 10,
     Movement_ActorMembershipID = 3, Movement_MovementType = MovSALE, Movement_Quantity = 2000,
     Movement_PreviousQuantity = 8000, Movement_CurrentQuantity = 6000, Movement_Reason = None,
     Movement_ReferenceType = ''sale'', Movement_ReferenceID = 30, Movement_CreatedAt = 5000\<rparr>"

definition example_paid :: payment where
  "example_paid = \<lparr>Payment_ID = 1001, Payment_OrganizationID = 1, Payment_StoreID = 2, Payment_SaleID = 30,
     Payment_PaymentMethodID = 20, Payment_IdempotencyKey = PaymentIdempotencyKey example_env 30 0,
     Payment_Status = PayAPPROVED, Payment_Amount = 2500, Payment_ReceivedAmount = Some 3000,
     Payment_ChangeAmount = Some 500, Payment_Installments = 1, Payment_ExternalReference = None,
     Payment_PaidAt = Some 5000, Payment_CancelledAt = None, Payment_CreatedAt = 5000, Payment_UpdatedAt = 5000\<rparr>"

definition example_document :: fiscal_document where
  "example_document = \<lparr>Doc_ID = 1002, Doc_OrganizationID = 1, Doc_StoreID = 2, Doc_SaleID = 30,
     Doc_Status = DocPENDING, Doc_Environment = ''HOMOLOGATION'', Doc_DocumentModel = 65, Doc_Series = None,
     Doc_Number = None, Doc_AccessKey = None, Doc_Protocol = None, Doc_Provider = None,
     Doc_ExternalReference = None, Doc_XML = None, Doc_ErrorCode = None, Doc_ErrorMessage = None,
     Doc_IssuedAt = None, Doc_CancelledAt = None, Doc_CreatedAt = 5000, Doc_UpdatedAt = 5000\<rparr>"

definition example_completed :: sale where
  "example_completed = example_sale\<lparr>Sale_Status := SaleCOMPLETED, Sale_CompletedByMembershipID := Some 3,
     Sale_CompletedAt := Some 5000, Sale_UpdatedAt := 5000\<rparr>"

definition example_after_stock :: db where
  "example_after_stock = example_open\<lparr>
     db_inventory := [example_stock\<lparr>Inventory_Quantity := 6000, Inventory_UpdatedAt := 5000\<rparr>],
     db_movements := [example_purchase, example_taken], db_uuid_calls := 1\<rparr>"

definition example_after_payment :: db where
  "example_after_payment = example_after_stock\<lparr>db_payments := [example_paid], db_uuid_calls := 2\<rparr>"

definition example_closed :: db where
  "example_closed = example_after_payment\<lparr>db_sales := [example_completed],
     db_fiscal_documents := [example_document], db_uuid_calls := 3\<rparr>"

definition example_state :: checkout_state where
  "example_state = \<lparr>CS_Sale = example_completed, CS_Items = [example_item],
     CS_Payments = [(example_paid, example_method)],
     CS_FiscalDocument = toFiscalDocumentResponse example_env example_document\<rparr>"

lemmas example_rows = example_payment_def example_validated_def example_taken_def example_paid_def
  example_document_def example_completed_def example_after_stock_def example_after_payment_def
  example_closed_def example_state_def

lemma example_uuidv7 [simp]: "uuidv7 example_env n = of_nat (n + 1000)"
  by (simp add: example_env_def)

lemma example_pg:
  "pg_numeric_param 3 (numericFromScaledInt v 3) = Some v"
  "pg_numeric 2 (numericFromScaledInt v 2) = (if \<bar>v\<bar> < 10 ^ 15 then Inr (Some v) else Inl (PgError ''22003'' []))"
  "pg_numeric_not_null 2 (numericFromScaledInt v 2) = (if \<bar>v\<bar> < 10 ^ 15 then Inr v else Inl (PgError ''22003'' []))"
  "pg_numeric_not_null 3 (numericFromScaledInt v 3) = (if \<bar>v\<bar> < 10 ^ 15 then Inr v else Inl (PgError ''22003'' []))"
  by (simp_all add: pg_numeric_param_denotes pg_numeric_denotes [where v = v] pg_numeric_not_null_denotes [where v = v])

lemma example_items: "ListSaleItemsBySaleIDForStore (ToStoreScope example_actor) 30 example_open = [example_item]"
  by (simp add: ListSaleItemsBySaleIDForStore_def example_defs item_in_sale_def)

lemma example_totals: "validateSaleTotals example_sale [example_item] = Inr ()"
  by (simp add: validateSaleTotals_def example_defs gross_example zeroMoney_def big_Cmp_def)

lemma example_validate:
  "ValidatePayments example_actor (numericFromScaledInt 2500 2) [example_payment] example_open = Inr [example_validated]"
  by (simp add: ValidatePayments_def example_rows validate_payment_def big_Cmp_def example_defs
      GetPaymentMethodByIDForOrganization_def zeroMoney_def validateReceivedAmount_def validateInstallments_def)

lemma example_take:
  "applyInventoryChanges example_env 5000 example_actor 30 [example_item] example_open = Inr example_after_stock"
  by (simp add: applyInventoryChanges_def take_stock_def DecreaseInventoryForStore_def example_pg
      example_defs example_rows at_stock_def decrease_row_def inventory_checks_def check_row_def Let_def
      CreateInventoryMovementForStore_def movement_checks_def btrim_blank_def pg_varchar_def char_length_def
      movement_reference_def)

lemma example_key:
  "char_length (PaymentIdempotencyKey example_env 30 0) \<le> 255"
  "\<not> btrim_blank (PaymentIdempotencyKey example_env 30 0)"
proof -
  have "length (uuid_String example_env 30) = 36" using example_uuid_law by (simp add: uuid_law_def)
  moreover have "intToString 0 = ''0''" by (simp add: intToString_def)
  ultimately have "length (PaymentIdempotencyKey example_env 30 0) \<le> 255"
    by (simp add: PaymentIdempotencyKey_def)
  then show "char_length (PaymentIdempotencyKey example_env 30 0) \<le> 255"
    using length_filter_le le_trans unfolding char_length_def by blast
  show "\<not> btrim_blank (PaymentIdempotencyKey example_env 30 0)"
    by (simp add: PaymentIdempotencyKey_def btrim_blank_def)
qed

lemma example_pay:
  "createPayments example_env 5000 example_actor 30 [example_validated] example_after_stock =
     Inr ([(example_paid, example_method)], example_after_payment)"
  by (simp add: createPayments_def create_payment_def example_rows example_defs CreatePaymentForStore_def Let_def
      active_binding_def pg_varchar_def example_key example_pg derefNumeric_def pg_varchar_null_def new_payment_def
      payment_checks_def check_row_def ApprovePaymentForStore_def payment_in_scope_def write_payment_def
      payment_transition_ok_def payment_with_key_def same_external_reference_def)

lemma example_complete:
  "CompleteSaleForStore 5000 (ToActorScope example_actor) 30 example_after_payment =
     Inr (example_completed, example_after_payment\<lparr>db_sales := [example_completed]\<rparr>)"
  by (simp add: CompleteSaleForStore_def update_sale_def write_sale_def example_rows example_defs sale_in_scope_def
      sale_transition_ok_def sale_checks_def check_row_def btrim_blank_def Let_def)

lemma example_file:
  "CreateFiscalDocumentForStore example_env 5000 (ToStoreScope example_actor) 30
     (example_after_payment\<lparr>db_sales := [example_completed]\<rparr>) = Inr (example_document, example_closed)"
  by (simp add: CreateFiscalDocumentForStore_def example_rows example_defs fiscal_document_checks_def check_row_def
      Let_def)

lemma example_sale_found:
  "LockSaleByIDForStore (ToStoreScope example_actor) 30 example_open = Inr example_sale"
  by (simp add: LockSaleByIDForStore_def example_defs sale_in_scope_def)

lemma example_checkout:
  "Checkout_tx example_env example_tx example_actor 30 [example_payment] example_open = Inr (example_state, example_closed)"
proof -
  have "Sale_Status example_sale = SaleOPEN" "Sale_Total example_sale = 2500" "tx_now example_tx = 5000"
    by (simp_all add: example_defs)
  then show ?thesis
    by (simp add: Checkout_tx_def example_sale_found example_items example_totals example_validate example_take
        example_pay example_complete example_file Let_def)
       (simp add: example_state_def)
qed

lemma example_money: "payment_money example_payment"
  by (simp add: payment_money_def example_rows)

lemma example_scan:
  "allDigits w \<Longrightarrow> allDigits f \<Longrightarrow> ScanScientific example_env (w @ CHR ''.'' # f) =
     Some \<lparr>num_Int = Some (int (dec_value (w @ f))), num_Exp = - int (length f), num_NaN = False,
        num_InfinityModifier = 0, num_Valid = True\<rparr>"
  by (simp add: example_env_def example_ScanScientific_def Cut_append allDigits_no_dot)

lemma example_texts: "strings_TrimSpace ''25.00'' = ''25.00''" "strings_TrimSpace ''30'' = ''30''"
  by (rule TrimSpace_plain; simp add: plain_char_def)+

lemma example_parse:
  "Checkout_parseMoney example_env f ''25.00'' = Inr (numericFromScaledInt 2500 2)"
  "Checkout_parseMoney example_env f ''30'' = Inr (numericFromScaledInt 3000 2)"
  using example_scan [of "''25''" "''00''"] example_scan [of "''30''" "''00''"]
  by (simp_all add: Checkout_parseMoney_def Checkout_normalizeMoneyString_def example_texts has_prefix_char_def
      strings_Cut_def allDigits_def is_digit_def dec_value_def digit_val_def numericFromScaledInt_def)

lemma example_input_normalized: "normalizeCheckoutInput example_env [example_input] = Inr [example_payment]"
  by (simp add: normalizeCheckoutInput_def normalizeCheckoutPaymentInput_def example_input_def example_parse
      parseUUID_String [OF example_uuid_law] example_payment_def)

end
