(* ===== verification/Money_Properties.thy ===== *)
theory Money_Properties
  imports Example Checkout_Payments
begin

text \<open>
  Properties of the amounts: what the parsers accept and what it denotes, how products are
  rounded, that printed amounts parse back and parsed texts print canonically, and that the two
  packages' arithmetic agrees.
\<close>

section \<open>Parsing\<close>

text \<open>C33: the money parser of the sales service accepts exactly the trimmed texts of digits with
  at most two decimals and no sign, and the number it returns is that amount in cents; every
  other text is refused with a validation error on the field.\<close>

theorem parseMoney_exact:
  assumes "scan_law E"
  shows "case money_value (strings_TrimSpace s) of
      None \<Rightarrow> \<exists>msg. parseMoney E field s = (Inl (ValidationError field msg) :: sales_error + numeric)
    | Some v \<Rightarrow> \<exists>n. parseMoney E field s = (Inr n :: sales_error + numeric) \<and> denotes n v 2"
  using parseMoney_None [of s E field, where 's = sales_sentinel] parseMoney_Some [OF assms, of s _ field, where 's = sales_sentinel]
  by (simp split: option.split)

theorem parseMoney_exact_witness:
  "\<exists>n. parseMoney example_env ''price'' ''12.5'' = (Inr n :: sales_error + numeric) \<and> denotes n 1250 2"
proof -
  have "strings_TrimSpace ''12.5'' = ''12.5''" by (rule TrimSpace_plain) (simp_all add: plain_char_def)
  moreover have "money_value ''12.5'' = Some 1250"
    by (simp add: money_value_def strings_Cut_def allDigits_def is_digit_def dec_value_def digit_val_def)
  ultimately show ?thesis using parseMoney_exact [OF example_scan_law, where s = "''12.5''" and field = "''price''"] by simp
qed

text \<open>the quantity parser accepts exactly the positive decimals without sign and with at most
  three significant decimals (further decimals must be zeros), and returns that number of
  thousandths; zero and every other text is refused with a validation error.\<close>

theorem parseQuantity_exact:
  assumes "scan_law E"
  shows "case quantity_value (strings_TrimSpace s) of
      None \<Rightarrow> \<exists>msg. parseQuantity E field s = (Inl (ValidationError field msg) :: sales_error + numeric)
    | Some v \<Rightarrow> if v = 0
        then parseQuantity E field s = (Inl (ValidationError field ''must be greater than zero'') :: sales_error + numeric)
        else \<exists>n. parseQuantity E field s = (Inr n :: sales_error + numeric) \<and> denotes n v 3 \<and> 0 < v"
proof (cases "quantity_value (strings_TrimSpace s)")
  case None
  with parseQuantity_None [OF None, where 's = sales_sentinel] show ?thesis by simp
next
  case (Some v)
  then have "0 \<le> v" by (rule quantity_value_nonneg)
  with Some parseQuantity_zero [of s, where 's = sales_sentinel]
    parseQuantity_Some [OF assms Some, where 's = sales_sentinel]
  show ?thesis by (cases "v = 0") simp_all
qed

theorem parseQuantity_exact_witness:
  "\<exists>n. parseQuantity example_env ''quantity'' ''0.2500'' = (Inr n :: sales_error + numeric) \<and> denotes n 250 3"
proof -
  have "strings_TrimSpace ''0.2500'' = ''0.2500''" by (rule TrimSpace_plain) (simp_all add: plain_char_def)
  moreover have "quantity_value ''0.2500'' = Some 250"
    by (simp add: quantity_value_def strings_Cut_def allDigits_def is_digit_def dec_value_def digit_val_def)
  ultimately show ?thesis using parseQuantity_exact [OF example_scan_law, where s = "''0.2500''" and field = "''quantity''"] by simp
qed

text \<open>C34: an amount that is not negative (a quantity that is positive) survives printing and parsing: in
  whatever representation, its text is accepted and denotes the same cents (thousandths). In the other direction,
  what the parser returns for a text prints as the canonical text of the amount that the text
  denotes, which denotes that amount again.\<close>

theorem print_parse:
  assumes "scan_law E"
  shows "(denotes n v 2 \<and> 0 \<le> v \<longrightarrow> (\<exists>s n'. numericToMoneyString n = (Inr s :: sales_error + string) \<and>
            parseMoney E field s = (Inr n' :: sales_error + numeric) \<and> denotes n' v 2)) \<and>
    (denotes n v 3 \<and> 0 < v \<longrightarrow> (\<exists>s n'. numericToQuantityString n = (Inr s :: sales_error + string) \<and>
            parseQuantity E field s = (Inr n' :: sales_error + numeric) \<and> denotes n' v 3)) \<and>
    (parseMoney E field raw = (Inr m :: sales_error + numeric) \<longrightarrow> (\<exists>w. money_value (strings_TrimSpace raw) = Some w \<and>
            numericToMoneyString m = (Inr (scaledIntToString w 2) :: sales_error + string) \<and>
            money_value (scaledIntToString w 2) = Some w)) \<and>
    (parseQuantity E field raw = (Inr m :: sales_error + numeric) \<longrightarrow> (\<exists>w. quantity_value (strings_TrimSpace raw) = Some w \<and>
            numericToQuantityString m = (Inr (scaledIntToString w 3) :: sales_error + string) \<and>
            quantity_value (scaledIntToString w 3) = Some w))"
proof (intro conjI impI)
  assume a: "denotes n v 2 \<and> 0 \<le> v"
  then have d: "denotes n v 2" by blast
  have "numericToMoneyString n = (Inr (scaledIntToString v 2) :: sales_error + string)"
    by (simp add: numericToMoneyString_def numericToScaledInt_2 [OF d])
  with a parse_print_money [OF assms, of v field, where 's = sales_sentinel]
  show "\<exists>s n'. numericToMoneyString n = (Inr s :: sales_error + string) \<and>
      parseMoney E field s = (Inr n' :: sales_error + numeric) \<and> denotes n' v 2" by auto
next
  assume a: "denotes n v 3 \<and> 0 < v"
  then have d: "denotes n v 3" by blast
  have "numericToQuantityString n = (Inr (scaledIntToString v 3) :: sales_error + string)"
    by (simp add: numericToQuantityString_def numericToScaledInt_3 [OF d])
  with a parse_print_quantity [OF assms, of v field, where 's = sales_sentinel]
  show "\<exists>s n'. numericToQuantityString n = (Inr s :: sales_error + string) \<and>
      parseQuantity E field s = (Inr n' :: sales_error + numeric) \<and> denotes n' v 3" by auto
next
  assume "parseMoney E field raw = (Inr m :: sales_error + numeric)"
  from parseMoney_denotes [OF assms this] obtain w where w: "money_value (strings_TrimSpace raw) = Some w" "denotes m w 2" by blast
  then show "\<exists>w. money_value (strings_TrimSpace raw) = Some w \<and>
      numericToMoneyString m = (Inr (scaledIntToString w 2) :: sales_error + string) \<and> money_value (scaledIntToString w 2) = Some w"
    using money_value_nonneg [OF w(1)] by (simp add: numericToMoneyString_def numericToScaledInt_2 money_value_print)
next
  assume "parseQuantity E field raw = (Inr m :: sales_error + numeric)"
  from parseQuantity_denotes [OF assms this] obtain w where w: "quantity_value (strings_TrimSpace raw) = Some w" "denotes m w 3" "0 < w" by blast
  then show "\<exists>w. quantity_value (strings_TrimSpace raw) = Some w \<and>
      numericToQuantityString m = (Inr (scaledIntToString w 3) :: sales_error + string) \<and> quantity_value (scaledIntToString w 3) = Some w"
    by (simp add: numericToQuantityString_def numericToScaledInt_3 quantity_value_print)
qed

theorem print_parse_witness:
  "(\<exists>s n. numericToMoneyString (numericFromScaledInt 905 2) = (Inr s :: sales_error + string) \<and>
     parseMoney example_env ''amount'' s = (Inr n :: sales_error + numeric) \<and> denotes n 905 2) \<and>
   (\<exists>m. parseMoney example_env ''amount'' ''12.5'' = (Inr m :: sales_error + numeric) \<and>
     numericToMoneyString m = (Inr ''12.50'' :: sales_error + string))"
proof -
  have t: "strings_TrimSpace ''12.5'' = ''12.5''" by (rule TrimSpace_plain) (simp_all add: plain_char_def)
  have v: "money_value ''12.5'' = Some 1250"
    by (simp add: money_value_def strings_Cut_def allDigits_def is_digit_def dec_value_def digit_val_def)
  obtain m where m: "parseMoney example_env ''amount'' ''12.5'' = (Inr m :: sales_error + numeric)"
    using parseMoney_Some [OF example_scan_law, of "''12.5''"] t v by metis
  note pp = print_parse [OF example_scan_law, where n = "numericFromScaledInt 905 2" and v = 905 and field = "''amount''" and
      raw = "''12.5''" and m = m]
  from pp m t v have "numericToMoneyString m = (Inr (scaledIntToString 1250 2) :: sales_error + string)" by simp
  moreover have "scaledIntToString 1250 2 = ''12.50''" by code_simp
  ultimately have "numericToMoneyString m = (Inr ''12.50'' :: sales_error + string)" by (simp only:)
  with pp m show ?thesis by (intro conjI exI [of _ m]) simp_all
qed

section \<open>Products\<close>

text \<open>C35: the gross value of a line, price times quantity, is the exact product rounded to the
  nearest cent with halves upwards, however the two numbers are represented.\<close>

theorem multiply_nearest:
  assumes "denotes unitPrice p 2" "denotes quantity q 3" "0 \<le> p" "0 \<le> q"
  shows "\<exists>g. multiplyMoneyQuantity unitPrice quantity = (Inr (numericFromScaledInt g 2) :: sales_error + numeric) \<and>
    0 \<le> g \<and> - 1000 < 2 * (1000 * g - p * q) \<and> 2 * (1000 * g - p * q) \<le> 1000"
proof -
  have "0 \<le> p * q" using assms(3,4) by simp
  with quo_round_nearest [of "p * q" 1000] gross_nonneg [OF assms(3,4)]
  show ?thesis
    by (intro exI [of _ "gross p q"])
       (simp add: multiplyMoneyQuantity_denotes [OF assms(1,2)] gross_def)
qed

theorem multiply_nearest_witness:
  "\<exists>g. multiplyMoneyQuantity (numericFromScaledInt 333 2) (numericFromScaledInt 500 3) =
      (Inr (numericFromScaledInt g 2) :: sales_error + numeric) \<and> - 1000 < 2 * (1000 * g - 333 * 500)"
  using multiply_nearest [of "numericFromScaledInt 333 2" 333 "numericFromScaledInt 500 3" 500] by auto



section \<open>Integers and pages\<close>

text \<open>C37: the integer printer of the checkout prints the decimal numeral of every \<open>int\<close> but the
  smallest, for which it prints a sign without digits.\<close>

theorem intToString_spec:
  assumes "- (2 ^ 63) \<le> i" "i < 2 ^ 63"
  shows "intToString i = (if i = - (2 ^ 63) then ''-'' else int_dec i)"
  using assms intToString_int_dec [of i] intToString_min by (auto simp: le_less)

theorem intToString_spec_witness: "intToString (- 120) = int_dec (- 120)"
  using intToString_spec [of "- 120"] by simp

text \<open>accepted page parameters are a page of at least 1 and a size between 1 and 100 (1 and 20
  when absent), and the number of pages of the response is the least that holds all rows.\<close>

theorem pagination_covers:
  assumes "normalizePagination page pageSize = (Inr (p, n) :: sales_error + int \<times> int)" "0 \<le> rows"
  shows "1 \<le> p \<and> 1 \<le> n \<and> n \<le> 100 \<and> (page = None \<longrightarrow> p = 1) \<and> (pageSize = None \<longrightarrow> n = 20) \<and>
    rows \<le> pg_TotalPages (paginationResponse p n rows) * n \<and>
    (pg_TotalPages (paginationResponse p n rows) - 1) * n < rows + (if rows = 0 then n else 0)"
proof -
  from assms(1) have n: "1 \<le> p" "1 \<le> n" "n \<le> 100" "page = None \<longrightarrow> p = 1" "pageSize = None \<longrightarrow> n = 20"
    by (auto simp: normalizePagination_def result_simps split: option.splits if_splits)
  have "big_Quo (rows + n - 1) n = (rows + n - 1) div n"
    using big_QuoRem_nonneg [of "rows + n - 1" n] assms(2) n(2) by simp
  then have t: "pg_TotalPages (paginationResponse p n rows) = (if rows > 0 then (rows + n - 1) div n else 0)"
    by (simp add: paginationResponse_def)
  have "(rows + n - 1) div n * n + (rows + n - 1) mod n = rows + n - 1" by simp
  moreover have "0 \<le> (rows + n - 1) mod n" "(rows + n - 1) mod n < n" using n(2) by auto
  ultimately have "rows \<le> (rows + n - 1) div n * n" "((rows + n - 1) div n - 1) * n < rows"
    by (simp_all add: left_diff_distrib, linarith+)
  with t n assms(2) show ?thesis by auto
qed

theorem pagination_covers_witness:
  "pg_TotalPages (paginationResponse 1 20 41) * 20 \<ge> 41"
  using pagination_covers [of None None 1 20 41] by (simp add: normalizePagination_def)

end
