(* ===== verification/Sales_Behaviour.thy ===== *)
theory Sales_Behaviour
  imports Sales_Operations
begin

text \<open>
  What the operations of the sales service compute when they succeed: the line total, the
  item an addition stores, and the idempotence of creating a sale.
\<close>

section \<open>The line total\<close>

lemma item_total_denotes:
  assumes "denotes quantity q 3" "denotes discount disc 2"
  shows "item_total (numericFromScaledInt p 2) quantity discount =
    (if disc > gross p q then Inl (ValidationError ''discount'' ''cannot be greater than the item subtotal'')
     else Inr (numericFromScaledInt (gross p q - disc) 2))"
  by (simp add: item_total_def assms multiplyMoneyQuantity_denotes [where p = p and q = q]
      compareMoney_denotes [where i = disc and j = "gross p q"]
      subtractMoney_denotes [where i = "gross p q" and j = disc])

section \<open>Adding an item\<close>

lemma CreateSaleItem_values:
  assumes "CreateSaleItemForStore E now scope P d = (Inr (i, d') :: 's go_error + _)"
    and "denotes (CI_UnitPrice P) p 2" "denotes (CI_Quantity P) q 3" "denotes (CI_Discount P) disc 2"
  shows "Item_UnitPrice i = p \<and> Item_Quantity i = q \<and> Item_Discount i = disc \<and> Item_CreatedAt i = now \<and>
    Item_ProductName i = CI_ProductName P \<and> Item_ProductSKU i = CI_ProductSKU P"
proof -
  have "pg_numeric_not_null 2 (CI_UnitPrice P) = (if \<bar>p\<bar> < 10 ^ 15 then Inr p else Inl (PgError ''22003'' []) :: 's go_error + _)"
    "pg_numeric_not_null 3 (CI_Quantity P) = (if \<bar>q\<bar> < 10 ^ 15 then Inr q else Inl (PgError ''22003'' []) :: 's go_error + _)"
    "pg_numeric_not_null 2 (CI_Discount P) = (if \<bar>disc\<bar> < 10 ^ 15 then Inr disc else Inl (PgError ''22003'' []) :: 's go_error + _)"
    by (rule pg_numeric_not_null_denotes; use assms in simp)+
  with assms(1) show ?thesis
    by (auto simp: CreateSaleItemForStore_def Let_def result_simps split: if_splits)
qed

lemma sale_at_key:
  "sales.unique d \<Longrightarrow> s \<in> set (db_sales d) \<Longrightarrow> s' \<in> set (db_sales d) \<Longrightarrow> sale_key s = k \<Longrightarrow> sale_key s' = k \<Longrightarrow> s = s'"
  by (rule sale_key_inj) simp_all

text \<open>One more row, and totals that grow by its amounts.\<close>

definition item_added :: "store_actor \<Rightarrow> time \<Rightarrow> uuid \<Rightarrow> uuid \<Rightarrow> int \<Rightarrow> int \<Rightarrow> db \<Rightarrow> db \<Rightarrow> bool" where
  "item_added actor now sid pid q disc d d' \<longleftrightarrow>
     (let k = (Actor_OrganizationID actor, Actor_StoreID actor, sid) in
      \<exists>p s s' i. p \<in> set (db_products d) \<and> Product_OrganizationID p = Actor_OrganizationID actor \<and>
        Product_ID p = pid \<and> Product_IsActive p \<and>
        s \<in> set (db_sales d) \<and> sale_key s = k \<and> Sale_Status s = SaleOPEN \<and>
        s' \<in> set (db_sales d') \<and> sale_key s' = k \<and> Sale_Status s' = SaleOPEN \<and>
        db_sale_items d' = db_sale_items d @ [i] \<and> item_sale_key i = k \<and> Item_ProductID i = pid \<and>
        Item_ProductName i = Product_Name p \<and> Item_ProductSKU i = Product_SKU p \<and>
        Item_UnitPrice i = Product_Price p \<and> Item_Quantity i = q \<and> Item_Discount i = disc \<and>
        disc \<le> gross (Product_Price p) q \<and> Item_Total i = gross (Product_Price p) q - disc \<and>
        Item_CreatedAt i = now \<and>
        Sale_Subtotal s' = Sale_Subtotal s + gross (Product_Price p) q \<and>
        Sale_Discount s' = Sale_Discount s + disc \<and> Sale_Total s' = Sale_Total s + Item_Total i)"

lemma Sales_AddItem_tx_adds:
  assumes run: "Sales_AddItem_tx E T actor sid n d = Inr (r, d')" and inv: "sales_inv d"
    and q: "denotes (Add_Quantity n) q 3" and disc: "denotes (Add_Discount n) disc 2"
  shows "item_added actor (tx_now T) sid (Add_ProductID n) q disc d d'"
proof -
  let ?k = "(Actor_OrganizationID actor, Actor_StoreID actor, sid)"
  let ?P = "\<lambda>p. \<lparr>CI_SaleID = sid, CI_ProductID = Product_ID p, CI_ProductName = Product_Name p,
      CI_ProductSKU = Product_SKU p, CI_UnitPrice = numericFromScaledInt (Product_Price p) 2,
      CI_Quantity = Add_Quantity n, CI_Discount = Add_Discount n,
      CI_Total = numericFromScaledInt (gross (Product_Price p) q - disc) 2\<rparr>"
  from run obtain s p i d1 where lock: "lock_open_sale actor sid d = Inr s"
    and p: "GetProductByIDForStore (ToStoreScope actor) (Add_ProductID n) d = (Inr p :: sales_error + _)" "Product_IsActive p"
    and le: "disc \<le> gross (Product_Price p) q"
    and cr: "CreateSaleItemForStore E (tx_now T) (ToStoreScope actor) (?P p) d = (Inr (i, d1) :: sales_error + _)"
    and rc: "recalculate_sale E T actor sid d1 = Inr (r, d')"
    by (auto simp: Sales_AddItem_tx_def result_simps item_total_denotes [OF q disc] split: if_splits)
  from lock have s: "s \<in> set (db_sales d)" "sale_key s = ?k" "Sale_Status s = SaleOPEN" by (elim lock_open_saleE; simp)+
  from p(1) have pr: "p \<in> set (db_products d)" "Product_OrganizationID p = Actor_OrganizationID actor"
    "Product_ID p = Add_ProductID n"
    by (auto simp: GetProductByIDForStore_def result_simps split: if_splits dest!: find_SomeD)
  from CreateSaleItem_step [OF cr sales_inv_wf [OF inv]] have st: "sales_wf d1" "only_sale ?k d d1"
    "db_sales d1 = db_sales d" "items_of d1 ?k = items_of d ?k @ [i]" by simp_all
  from cr have i: "db_sale_items d1 = db_sale_items d @ [i]" "item_sale_key i = ?k" "Item_ProductID i = Product_ID p" "item_ok i"
    by (elim CreateSaleItem_InrE; simp)+
  have "denotes (CI_UnitPrice (?P p)) (Product_Price p) 2" "denotes (CI_Quantity (?P p)) q 3"
    "denotes (CI_Discount (?P p)) disc 2" using q disc by simp_all
  from CreateSaleItem_values [OF cr this] have v: "Item_UnitPrice i = Product_Price p" "Item_Quantity i = q"
    "Item_Discount i = disc" "Item_CreatedAt i = tx_now T" "Item_ProductName i = Product_Name p"
    "Item_ProductSKU i = Product_SKU p" by simp_all
  have tot: "Item_Total i = gross (Product_Price p) q - disc" "item_gross i = gross (Product_Price p) q"
    using i(4) v by (simp_all add: item_ok_def item_gross_def)
  have te: "totals_except ?k d1"
    using only_sale_totals [OF st(2)] inv by (simp add: sales_inv_except [of d ?k])
  note rs = recalculate_sale_step [OF rc st(1) te]
  from rs(4) obtain s' where s': "s' \<in> set (db_sales d')" "sale_key s' = ?k" "Sale_Status s' = SaleOPEN" by blast
  from rc have it: "db_sale_items d' = db_sale_items d1"
    by (auto simp: recalculate_sale_def Let_def sumSaleTotals_eq result_simps elim!: Recalculate_InrE)
  have "items_of d' ?k = items_of d ?k @ [i]" using it st(4) by (simp add: items_of_def)
  moreover have "sale_totals_ok d' s'" "sale_totals_ok d s" using rs(1) s'(1) inv s(1) by (simp_all add: sales_inv_def)
  ultimately have sums: "Sale_Subtotal s' = Sale_Subtotal s + item_gross i" "Sale_Discount s' = Sale_Discount s + disc"
    "Sale_Total s' = Sale_Total s + Item_Total i" using s(2) s'(2) v(3) by (simp_all add: sale_totals_ok_def)
  show ?thesis
    unfolding item_added_def Let_def
    by (rule exI [of _ p], rule exI [of _ s], rule exI [of _ s'], rule exI [of _ i])
       (use pr p(2) s s' i it v le tot sums in simp)
qed

section \<open>Creating a sale is idempotent\<close>

lemma CreateSale_again:
  assumes "CreateSaleForStore E now scope key d = (Inr (s, d') :: 's go_error + _)"
  shows "CreateSaleForStore E now' scope key d' = (Inr (s, d') :: 's go_error + _)"
proof -
  let ?p = "\<lambda>s. Sale_OrganizationID s = AS_OrganizationID scope \<and> Sale_StoreID s = AS_StoreID scope \<and>
        Sale_IdempotencyKey s = key"
  have "List.find ?p (db_sales d') = Some s"
  proof (cases "List.find ?p (db_sales d)")
    case None
    from assms None have "d' = d\<lparr>db_counters := advance_sale_counter scope d, db_sales := db_sales d @ [s],
        db_uuid_calls := Suc (db_uuid_calls d)\<rparr>" "?p s"
      by (auto simp: CreateSaleForStore_def result_simps Let_def new_sale_def simp del: find_None_iff)
    with None show ?thesis by (simp add: find_append del: find_None_iff)
  next
    case (Some s0)
    with assms show ?thesis by (simp add: CreateSaleForStore_def)
  qed
  then show ?thesis by (simp add: CreateSaleForStore_def)
qed

lemma Sales_Create_tx_again:
  assumes "Sales_Create_tx E T actor key d = Inr (r, d')"
  shows "Sales_Create_tx E T' actor key d' = Inr (r, d')"
proof -
  from assms obtain s where s: "CreateSaleForStore E (tx_now T) (ToActorScope actor) key d = (Inr (s, d') :: sales_error + _)"
    "toSaleResponseFromFields E s (ListSaleItemsBySaleIDForStore (ToStoreScope actor) (Sale_ID s) d') = Inr r"
    by (auto simp: Sales_Create_tx_def Let_def result_simps)
  from CreateSale_again [OF s(1), of "tx_now T'"] s(2) show ?thesis by (simp add: Sales_Create_tx_def Let_def)
qed

text \<open>The numbers of the sales of a store follow its counter.\<close>

lemma next_number_advances:
  assumes "counters.unique d"
  shows "next_sale_number scope (d\<lparr>db_counters := advance_sale_counter scope d\<rparr>) = next_sale_number scope d + 1"
proof -
  let ?here = "\<lambda>c. Counter_OrganizationID c = AS_OrganizationID scope \<and> Counter_StoreID c = AS_StoreID scope"
  show ?thesis
  proof (cases "List.find ?here (db_counters d)")
    case None
    then have "advance_sale_counter scope d = db_counters d @ [\<lparr>Counter_OrganizationID = AS_OrganizationID scope,
                 Counter_StoreID = AS_StoreID scope, Counter_NextNumber = 2\<rparr>]"
      by (simp add: advance_sale_counter_def Let_def del: find_None_iff)
    with None show ?thesis by (simp add: next_sale_number_def find_append del: find_None_iff)
  next
    case (Some c)
    have map: "List.find ?here (map (\<lambda>c. if ?here c then c\<lparr>Counter_NextNumber := Counter_NextNumber c + 1\<rparr> else c) cs) =
        map_option (\<lambda>c. c\<lparr>Counter_NextNumber := Counter_NextNumber c + 1\<rparr>) (List.find ?here cs)" for cs
      by (induction cs) auto
    from Some show ?thesis by (simp add: next_sale_number_def advance_sale_counter_def Let_def map)
  qed
qed

section \<open>Responses can always be built\<close>

lemma money_text [simp]: "numericToMoneyString (numericFromScaledInt v 2) = Inr (scaledIntToString v 2)"
  and quantity_text [simp]: "numericToQuantityString (numericFromScaledInt v 3) = Inr (scaledIntToString v 3)"
  by (simp_all add: numericToMoneyString_def numericToQuantityString_def)

lemma toSaleItemResponse_total: "\<exists>r. toSaleItemResponse E i = Inr r"
  by (simp add: toSaleItemResponse_def)

lemma toSaleHeader_total: "\<exists>r. toSaleHeaderFromFields E s = Inr r"
  by (simp add: toSaleHeaderFromFields_def)

lemma toSaleResponse_total: "\<exists>r. toSaleResponseFromFields E s items = Inr r"
proof -
  obtain h where "toSaleHeaderFromFields E s = Inr h" using toSaleHeader_total by blast
  moreover have "map_result (\<lambda>item. wrap_error ''map sale item'' (toSaleItemResponse E item)) items =
      Inr (map (\<lambda>item. projr (toSaleItemResponse E item)) items)"
  proof (rule map_result_total)
    fix i obtain r where "toSaleItemResponse E i = Inr r" using toSaleItemResponse_total by blast
    then show "wrap_error ''map sale item'' (toSaleItemResponse E i) = Inr (projr (toSaleItemResponse E i))" by simp
  qed
  ultimately show ?thesis by (simp add: toSaleResponseFromFields_def)
qed

end
