(* ===== verification/Sales_Properties.thy ===== *)
theory Sales_Properties
  imports Example Sales_Behaviour
begin

text \<open>
  Properties of the sales service: what its commands do to a sale, that creating a sale is
  idempotent and numbers the sales of a store one by one, that totals always agree with the
  items, and three places where the code's answer is an internal error.
\<close>

section \<open>Examples\<close>

lemma example_quantity: "parseQuantity example_env f ''2'' = (Inr (numericFromScaledInt 2000 3) :: sales_error + numeric)"
proof -
  have "strings_TrimSpace ''2'' = ''2''" by (rule TrimSpace_plain) (simp_all add: plain_char_def)
  then show ?thesis using example_scan [of "''2''" "''000''"]
    by (simp add: parseQuantity_def normalizeQuantityString_def has_prefix_char_def strings_Cut_def allDigits_def
        is_digit_def dec_value_def digit_val_def numericFromScaledInt_def hasPositiveDigit_def)
qed

lemma example_parsed: "parseUUID example_env (uuid_String example_env u) f = Inr u"
  by (rule parseUUID_String [OF example_uuid_law])

text \<open>A second item on the open sale.\<close>

lemma example_add_item:
  "\<exists>r d'. Sales_AddItem example_env example_tx example_actor (uuid_String example_env 30) (uuid_String example_env 10)
     ''2'' None example_open = (Inr r, d')"
proof -
  let ?i = "example_item\<lparr>Item_ID := 1000, Item_CreatedAt := 5000\<rparr>"
  let ?d1 = "example_open\<lparr>db_sale_items := [example_item, ?i], db_uuid_calls := Suc 0\<rparr>"
  let ?s = "example_sale\<lparr>Sale_Subtotal := 5000, Sale_Total := 5000, Sale_UpdatedAt := 5000\<rparr>"
  have cr: "CreateSaleItemForStore example_env 5000 (ToStoreScope example_actor)
      \<lparr>CI_SaleID = 30, CI_ProductID = 10, CI_ProductName = ''Coffee'', CI_ProductSKU = ''COF-1'',
       CI_UnitPrice = numericFromScaledInt 1250 2, CI_Quantity = numericFromScaledInt 2000 3,
       CI_Discount = numericFromScaledInt 0 2, CI_Total = numericFromScaledInt 2500 2\<rparr> example_open = (Inr (?i, ?d1) :: sales_error + _)"
    by (simp add: CreateSaleItemForStore_def Let_def example_pg pg_varchar_def char_length_def example_defs
        sale_item_checks_def check_row_def btrim_blank_def pg_round_div_def sale_in_scope_def)
  have its: "ListSaleItemsBySaleIDForStore (ToStoreScope example_actor) 30 ?d1 = [example_item, ?i]"
    by (simp add: ListSaleItemsBySaleIDForStore_def example_defs item_in_sale_def)
  have up: "RecalculateSaleTotalsForStore 5000 (ToStoreScope example_actor) 30 (numericFromScaledInt 5000 2)
      (numericFromScaledInt 0 2) zeroMoney (numericFromScaledInt 5000 2) ?d1 =
      (Inr (?s, ?d1\<lparr>db_sales := [?s]\<rparr>) :: sales_error + _)"
    by (simp add: RecalculateSaleTotalsForStore_def zeroMoney_def example_pg update_sale_def write_sale_def
        example_defs sale_in_scope_def sale_transition_ok_def sale_checks_def check_row_def btrim_blank_def Let_def)
  obtain r where r: "toSaleResponseFromFields example_env ?s [example_item, ?i] = Inr r" using toSaleResponse_total by blast
  have g: "item_gross example_item = 2500" "item_gross ?i = 2500"
    by (simp_all add: item_gross_def gross_example example_item_def)
  have sums: "sumSaleTotals [example_item, ?i] =
      Inr (numericFromScaledInt 5000 2, numericFromScaledInt 0 2, numericFromScaledInt 5000 2)"
    unfolding sumSaleTotals_eq using g by (simp add: example_item_def)
  have rc: "recalculate_sale example_env example_tx example_actor 30 ?d1 = Inr (r, ?d1\<lparr>db_sales := [?s]\<rparr>)"
    unfolding recalculate_sale_def its Let_def sums using up r by (simp add: example_tx_def)
  have lock: "lock_open_sale example_actor 30 example_open = Inr example_sale"
    by (simp add: lock_open_sale_def example_sale_found) (simp add: example_sale_def)
  have pr: "GetProductByIDForStore (ToStoreScope example_actor) 10 example_open = (Inr example_product :: sales_error + product)"
    by (simp add: GetProductByIDForStore_def example_defs)
  have p: "Product_Price example_product = 1250" "Product_IsActive example_product" "Product_ID example_product = 10"
    "Product_Name example_product = ''Coffee''" "Product_SKU example_product = ''COF-1''" "tx_now example_tx = 5000"
    by (simp_all add: example_defs)
  have t: "item_total (numericFromScaledInt 1250 2) (numericFromScaledInt 2000 3) (numericFromScaledInt 0 2) =
      Inr (numericFromScaledInt 2500 2)"
    using item_total_denotes [of "numericFromScaledInt 2000 3" 2000 "numericFromScaledInt 0 2" 0 1250]
    by (simp add: gross_example)
  have "Sales_AddItem_tx example_env example_tx example_actor 30
      \<lparr>Add_ProductID = 10, Add_Quantity = numericFromScaledInt 2000 3, Add_Discount = numericFromScaledInt 0 2\<rparr> example_open =
      Inr (r, ?d1\<lparr>db_sales := [?s]\<rparr>)"
    by (simp add: Sales_AddItem_tx_def lock pr p t cr rc)
  then show ?thesis
    by (simp add: Sales_AddItem_def example_parsed normalizeAddSaleItemInput_def example_quantity parseOptionalMoney_def
        zeroMoney_def WithTx_def example_tx_def)
qed

section \<open>Editing a sale\<close>

text \<open>adding an item to a sale, when it succeeds, has read the sale and product named in the
  request, a positive quantity and a discount no greater than the gross value; it stores exactly
  one new item, at the product's present price, name and SKU, whose total is the gross value less
  the discount, and the open sale's subtotal, discount and total grow by the item's.\<close>

lemma add_item_effect:
  assumes "Sales_AddItem E T actor rawSaleID rawProductID rawQuantity rawDiscount d = (Inr r, d')"
    and "scan_law E" "sales_inv d"
  shows "\<exists>sid pid q disc. parseUUID E rawSaleID ''id'' = (Inr sid :: sales_error + uuid) \<and>
    parseUUID E rawProductID ''productId'' = (Inr pid :: sales_error + uuid) \<and>
    quantity_value (strings_TrimSpace rawQuantity) = Some q \<and> 0 < q \<and>
    (case rawDiscount of None \<Rightarrow> disc = 0 | Some s \<Rightarrow> money_value (strings_TrimSpace s) = Some disc) \<and>
    item_added actor (tx_now T) sid pid q disc d d'"
proof -
  from assms(1) obtain sid n where sid: "parseUUID E rawSaleID ''id'' = (Inr sid :: sales_error + uuid)"
    and n: "normalizeAddSaleItemInput E rawProductID rawQuantity rawDiscount = Inr n"
    and tx: "Sales_AddItem_tx E T actor sid n d = Inr (r, d')"
    by (auto simp: Sales_AddItem_def WithTx_Inr split: sum.splits)
  from n have p: "parseUUID E rawProductID ''productId'' = (Inr (Add_ProductID n) :: sales_error + uuid)"
    and q: "parseQuantity E ''quantity'' rawQuantity = (Inr (Add_Quantity n) :: sales_error + numeric)"
    and m: "parseOptionalMoney E ''discount'' rawDiscount = (Inr (Add_Discount n) :: sales_error + numeric)"
    by (auto simp: normalizeAddSaleItemInput_def result_simps)
  from parseQuantity_denotes [OF assms(2) q] obtain v where
    v: "quantity_value (strings_TrimSpace rawQuantity) = Some v" "denotes (Add_Quantity n) v 3" "0 < v" by blast
  obtain c where
    c: "case rawDiscount of None \<Rightarrow> c = 0 | Some s \<Rightarrow> money_value (strings_TrimSpace s) = Some c"
      "denotes (Add_Discount n) c 2"
  proof (cases rawDiscount)
    case None
    with m have "Add_Discount n = numericFromScaledInt 0 2" by (simp add: parseOptionalMoney_def zeroMoney_def)
    with None that [of 0] show ?thesis by simp
  next
    case (Some s)
    with m have "parseMoney E ''discount'' s = (Inr (Add_Discount n) :: sales_error + numeric)"
      by (simp add: parseOptionalMoney_def)
    from parseMoney_denotes [OF assms(2) this] Some that show ?thesis by auto
  qed
  from Sales_AddItem_tx_adds [OF tx assms(3) v(2) c(2)] sid p v c(1) show ?thesis by blast
qed

lemma add_item_effect_witness:
  "\<exists>d' sid pid q disc. 0 < q \<and> item_added example_actor 5000 sid pid q disc example_open d'"
proof -
  obtain r d' where "Sales_AddItem example_env example_tx example_actor (uuid_String example_env 30)
      (uuid_String example_env 10) ''2'' None example_open = (Inr r, d')" using example_add_item by blast
  from add_item_effect [OF this example_scan_law example_sales_inv(1)] show ?thesis
    by (simp add: example_tx_def) blast
qed

text \<open>C30: every command of the sales service, successful or not, leaves each sale's subtotal,
  discount and total equal to the sums over its items and every item within its constraints,
  changes at most one sale, of the actor's own store, and never a sale that is no longer open.\<close>

theorem sales_commands_keep_totals:
  assumes "sales_inv d"
    and "(\<exists>key. Sales_Create E T actor key d = (res, d')) \<or>
      (\<exists>s p q x. Sales_AddItem E T actor s p q x d = (res, d')) \<or>
      (\<exists>s i q x. Sales_UpdateItem E T actor s i q x d = (res, d')) \<or>
      (\<exists>s i. Sales_RemoveItem E T actor s i d = (res, d')) \<or>
      (\<exists>s. Sales_Cancel E T actor s d = (res, d'))"
  shows "sales_inv d' \<and> closed_kept d d' \<and>
    (\<exists>sid. only_sale (Actor_OrganizationID actor, Actor_StoreID actor, sid) d d')"
proof -
  have "sales_kept actor d d'"
    using assms by (blast intro: Sales_Create_kept Sales_AddItem_kept Sales_UpdateItem_kept
        Sales_RemoveItem_kept Sales_Cancel_kept)
  then show ?thesis by (simp add: sales_kept_def)
qed

theorem sales_commands_keep_totals_witness:
  "sales_inv (snd (Sales_Cancel example_env example_tx example_actor (uuid_String example_env 30) example_open))"
  using sales_commands_keep_totals [OF example_sales_inv(1), of example_env example_tx example_actor
    "fst (Sales_Cancel example_env example_tx example_actor (uuid_String example_env 30) example_open)"
    "snd (Sales_Cancel example_env example_tx example_actor (uuid_String example_env 30) example_open)"]
  by (metis prod.collapse)

section \<open>Creating a sale\<close>

text \<open>creating a sale is idempotent: a second request with the same key, in any later
  transaction that begins and commits, answers with the same response and changes nothing.\<close>

lemma create_idempotent:
  assumes "Sales_Create E T actor key d = (Inr r, d')" "tx_begin_error T' = None" "tx_commit_error T' = None"
  shows "Sales_Create E T' actor key d' = (Inr r, d')"
  using assms Sales_Create_tx_again [of E T actor _ d r d' T']
  by (auto simp: Sales_Create_def WithTx_Inr split: sum.splits)

text \<open>The example: the first sale of the store.\<close>

lemma example_create_with:
  fixes i :: "inventory list" and m :: "inventory_movement list"
  defines "shop \<equiv> example_shop\<lparr>db_inventory := i, db_movements := m\<rparr>"
  shows "\<exists>r d'. Sales_Create example_env example_tx example_actor ''first'' shop = (Inr r, d') \<and>
    db_sales d' \<noteq> []"
proof -
  let ?s = "new_sale (ToActorScope example_actor) 5000 1000 1 ''first''"
  let ?d = "shop\<lparr>db_counters := advance_sale_counter (ToActorScope example_actor) shop,
      db_sales := [?s], db_uuid_calls := 1\<rparr>"
  have key: "normalizeRequiredText ''idempotencyKey'' ''first'' = (Inr ''first'' :: sales_error + string)"
    using TrimSpace_plain [of "''first''"] by (simp add: normalizeRequiredText_def plain_char_def)
  have cr: "CreateSaleForStore example_env 5000 (ToActorScope example_actor) ''first'' shop =
      (Inr (?s, ?d) :: sales_error + _)"
    by (simp add: CreateSaleForStore_def Let_def pg_varchar_def char_length_def new_sale_def sale_checks_def
        check_row_def btrim_blank_def example_defs shop_def next_sale_number_def advance_sale_counter_def)
  obtain r where "toSaleResponseFromFields example_env ?s
      (ListSaleItemsBySaleIDForStore (ToStoreScope example_actor) (Sale_ID ?s) ?d) = Inr r"
    using toSaleResponse_total by blast
  moreover have "db_sales ?d \<noteq> []" by simp
  moreover have "tx_now example_tx = 5000" "tx_begin_error example_tx = None" "tx_commit_error example_tx = None"
    by (simp_all add: example_tx_def)
  ultimately show ?thesis
    by (simp add: Sales_Create_def key WithTx_def Sales_Create_tx_def cr Let_def)
qed

lemma example_create: "\<exists>r d'. Sales_Create example_env example_tx example_actor ''first'' example_shop = (Inr r, d') \<and>
    d' \<noteq> example_shop"
proof -
  have "example_shop\<lparr>db_inventory := db_inventory example_shop, db_movements := db_movements example_shop\<rparr> = example_shop"
    by simp
  with example_create_with [where i = "db_inventory example_shop" and m = "db_movements example_shop"]
  show ?thesis by (metis db.select_convs(5) example_shop_def)
qed

lemma create_idempotent_witness:
  "\<exists>r d'. Sales_Create example_env (example_tx\<lparr>tx_now := 9000\<rparr>) example_actor ''first'' d' = (Inr r, d') \<and> d' \<noteq> example_shop"
proof -
  obtain r d' where "Sales_Create example_env example_tx example_actor ''first'' example_shop = (Inr r, d')"
    "d' \<noteq> example_shop" using example_create by blast
  from create_idempotent [OF this(1), of "example_tx\<lparr>tx_now := 9000\<rparr>"] this(2) show ?thesis
    by (auto simp: example_tx_def)
qed

text \<open>a successful request with a key that is new in the actor's store stores one open, empty
  sale of that store, numbered with the store's next number, and the next number afterwards is
  one more.\<close>

lemma create_numbers_sales:
  assumes "Sales_Create E T actor key d = (Inr r, d')" "counters.unique d"
    and "\<forall>s \<in> set (db_sales d). Sale_OrganizationID s \<noteq> Actor_OrganizationID actor \<or>
      Sale_StoreID s \<noteq> Actor_StoreID actor \<or> Sale_IdempotencyKey s \<noteq> strings_TrimSpace key"
  shows "\<exists>s. db_sales d' = db_sales d @ [s] \<and> Sale_Number s = next_sale_number (ToActorScope actor) d \<and>
    next_sale_number (ToActorScope actor) d' = Sale_Number s + 1 \<and>
    Sale_IdempotencyKey s = strings_TrimSpace key \<and> Sale_Status s = SaleOPEN \<and> Sale_Total s = 0 \<and>
    Sale_OrganizationID s = Actor_OrganizationID actor \<and> Sale_StoreID s = Actor_StoreID actor"
proof -
  from assms(1) obtain s where cr: "CreateSaleForStore E (tx_now T) (ToActorScope actor) (strings_TrimSpace key) d =
      (Inr (s, d') :: sales_error + _)"
    by (auto simp: Sales_Create_def WithTx_Inr Sales_Create_tx_def Let_def result_simps normalizeRequiredText_def
        split: sum.splits if_splits)
  show ?thesis
    using cr
  proof (cases rule: CreateSale_new)
    case existing
    with assms(3) show ?thesis by auto
  next
    case new
    have "next_sale_number (ToActorScope actor) d' =
        next_sale_number (ToActorScope actor) (d\<lparr>db_counters := advance_sale_counter (ToActorScope actor) d\<rparr>)"
      using new(6) by (simp add: next_sale_number_def)
    then show ?thesis using new(1,6) next_number_advances [OF assms(2)]
      by (intro exI [of _ s]) (simp add: new_sale_def)
  qed
qed

lemma create_numbers_sales_witness:
  "\<exists>d' s. db_sales d' = [s] \<and> Sale_Number s = 1 \<and> next_sale_number (ToActorScope example_actor) d' = 2"
proof -
  obtain r d' where "Sales_Create example_env example_tx example_actor ''first'' example_shop = (Inr r, d')"
    using example_create by blast
  from create_numbers_sales [OF this] obtain s where "db_sales d' = db_sales example_shop @ [s]"
    "Sale_Number s = next_sale_number (ToActorScope example_actor) example_shop"
    "next_sale_number (ToActorScope example_actor) d' = Sale_Number s + 1"
    by (auto simp: example_shop_def counters.unique_def)
  moreover have "db_sales example_shop = []" "next_sale_number (ToActorScope example_actor) example_shop = 1"
    by (simp_all add: example_shop_def next_sale_number_def)
  ultimately show ?thesis by (intro exI [of _ d'] exI [of _ s]) simp
qed

section \<open>Internal errors\<close>

text \<open>C39: a discount equal to the rounded value of a line whose exact value ends in half a cent
  is accepted by the service's own checks, with a line total of zero, but the row is refused by the
  constraint that recomputes the total from the unrounded product, and the client gets an internal
  error.\<close>

theorem half_cent_full_discount_refused:
  assumes "0 \<le> p" "0 < q" "p * q mod 1000 = 500" "denotes quantity q 3" "denotes discount (gross p q) 2"
    and "Item_UnitPrice i = p" "Item_Quantity i = q" "Item_Discount i = gross p q" "Item_Total i = 0"
    and "\<not> btrim_blank (Item_ProductName i)" "\<not> btrim_blank (Item_ProductSKU i)"
  shows "item_total (numericFromScaledInt p 2) quantity discount = Inr (numericFromScaledInt 0 2) \<and>
    first_violation (sale_item_checks i) = Some ''sale_items_total_consistency'' \<and>
    writeServiceError (Wrapped ''create sale item'' (translateSaleMutationError
      (PgError ''23514'' ''sale_items_total_consistency''))) =
      (500, ''internal_server_error'', ''An unexpected error occurred'', [])"
proof -
  have x: "0 \<le> p * q" using assms(1,2) by simp
  define k where "k = (p * q) div 1000"
  have pq: "p * q = 1000 * k + 500" using assms(3) mult_div_mod_eq [of 1000 "p * q"] by (simp add: k_def)
  have g: "gross p q = k + 1"
    using quo_round_nonneg [OF x, of 1000] by (simp add: gross_def pq)
  have diff: "p * q - 1000 * gross p q = - 500" unfolding pq g by simp
  have "pg_round_div (p * q - 1000 * gross p q) 1000 = - 1" unfolding diff by (simp add: pg_round_div_def)
  moreover have "pg_round_div (p * q) 1000 = gross p q" using assms(1,2) by (intro pg_gross) simp_all
  ultimately have "first_violation (sale_item_checks i) = Some ''sale_items_total_consistency''"
    using assms(1,2,6-) gross_nonneg [of p q] by (simp add: sale_item_checks_def)
  then show ?thesis
    using item_total_denotes [OF assms(4,5), of p]
    by (simp add: writeServiceError_def translateSaleMutationError_def)
qed

theorem half_cent_full_discount_refused_witness:
  "item_total (numericFromScaledInt 1 2) (numericFromScaledInt 500 3) (numericFromScaledInt 1 2) = Inr (numericFromScaledInt 0 2) \<and>
   first_violation (sale_item_checks (example_item\<lparr>Item_UnitPrice := 1, Item_Quantity := 500, Item_Discount := 1, Item_Total := 0\<rparr>)) =
     Some ''sale_items_total_consistency''"
proof -
  have g: "gross 1 500 = 1" by (simp add: gross_def quo_round_nonneg)
  let ?i = "example_item\<lparr>Item_UnitPrice := 1, Item_Quantity := 500, Item_Discount := 1, Item_Total := 0\<rparr>"
  have "item_total (numericFromScaledInt 1 2) (numericFromScaledInt 500 3) (numericFromScaledInt 1 2) = Inr (numericFromScaledInt 0 2) \<and>
    first_violation (sale_item_checks ?i) = Some ''sale_items_total_consistency'' \<and>
    writeServiceError (Wrapped ''create sale item'' (translateSaleMutationError
      (PgError ''23514'' ''sale_items_total_consistency''))) =
      (500, ''internal_server_error'', ''An unexpected error occurred'', [])"
    by (rule half_cent_full_discount_refused [where p = 1 and q = 500])
       (simp_all add: g example_item_def btrim_blank_def)
  then show ?thesis by blast
qed

text \<open>the page offset of the sales list is computed in 64 bits and cut to 32, so a page number
  that the validation accepts can become a negative offset, which the database refuses: the client
  gets an internal error instead of an empty page.\<close>

theorem sales_page_offset_wraps:
  "Sales_List E actor [] (Some 21474838) (Some 100) d = Inl (Wrapped ''list sales'' (PgError ''2201X'' [])) \<and>
   writeServiceError (Wrapped ''list sales'' (PgError ''2201X'' [])) =
     (500, ''internal_server_error'', ''An unexpected error occurred'', [])"
proof -
  have "page_offset 21474838 100 = - 2147483596"
    by (simp add: page_offset_def int64_id int32_def)
  then show ?thesis
    by (simp add: Sales_List_def normalizePagination_def parseSaleStatusFilter_def ListSalesForStore_def
        writeServiceError_def Let_def)
qed

end
