(* ===== verification/Stock_Behaviour.thy ===== *)
theory Stock_Behaviour
  imports Inventory_Ledger
begin

text \<open>
  The refusals of the inventory service: an adjustment out of a product without a balance row
  or with too low a balance, and a second operation under a reference already used.
\<close>

lemma stock_row:
  "List.find (at_stock org store pid) (db_inventory d) = None \<longleftrightarrow>
     (org, store, pid) \<notin> inventory_key ` set (db_inventory d)"
  by (auto simp: find_None_iff at_stock_key image_iff)

lemma stock_level_found:
  "List.find (at_stock org store pid) (db_inventory d) = Some i \<Longrightarrow> stock_level d (org, store, pid) = Inventory_Quantity i"
  by (simp add: stock_level_def at_stock_key [abs_def])

lemma Decrease_refused:
  assumes "denotes n q 3" "stock.unique d" "stock_level d (SS_OrganizationID scope, SS_StoreID scope, pid) < q"
  shows "DecreaseInventoryForStore now scope pid n d = Inl ErrNoRows"
proof -
  have "\<not> (at_stock (SS_OrganizationID scope) (SS_StoreID scope) pid i \<and> q > 0 \<and> Inventory_Quantity i \<ge> q)"
    if i: "i \<in> set (db_inventory d)" for i
  proof
    assume a: "at_stock (SS_OrganizationID scope) (SS_StoreID scope) pid i \<and> q > 0 \<and> Inventory_Quantity i \<ge> q"
    obtain j where j: "List.find (at_stock (SS_OrganizationID scope) (SS_StoreID scope) pid) (db_inventory d) = Some j"
      using a i by (cases "List.find (at_stock (SS_OrganizationID scope) (SS_StoreID scope) pid) (db_inventory d)")
        (auto simp: find_None_iff)
    from find_SomeD [OF j] a have "inventory_key j = inventory_key i" by (simp add: at_stock_key)
    with stock.unique_inj [OF assms(2)] find_SomeD [OF j] i have "j = i" by blast
    with stock_level_found [OF j] a assms(3) show False by simp
  qed
  then show ?thesis
    using assms(1) by (simp add: DecreaseInventoryForStore_def pg_numeric_param_denotes update_row_NoRows)
qed

lemma adjustment_out_refused:
  assumes "N_Direction n = ''OUT''" "denotes (N_Quantity n) q 3" "stock.unique d"
    and "GetProductByIDForStore (ToStoreScope actor) (N_ProductID n) d = (Inr p :: inventory_error + product)"
    and "stock_level d (Actor_OrganizationID actor, Actor_StoreID actor, N_ProductID n) < q"
  shows "Inventory_CreateAdjustment_tx E T actor n d = Inl (Sentinel
    (if (Actor_OrganizationID actor, Actor_StoreID actor, N_ProductID n) \<in> inventory_key ` set (db_inventory d)
     then Inventory_ErrInsufficientInventory else Inventory_ErrInventoryNotFound))"
proof -
  let ?k = "(Actor_OrganizationID actor, Actor_StoreID actor, N_ProductID n)"
  have dec: "DecreaseInventoryForStore (tx_now T) (ToStoreScope actor) (N_ProductID n) (N_Quantity n) d =
      (Inl ErrNoRows :: inventory_error + _)"
    by (rule Decrease_refused [OF assms(2,3)]) (use assms(5) in simp)
  have "translateDecreaseInventoryError (ToStoreScope actor) (N_ProductID n) d ErrNoRows = Sentinel
      (if ?k \<in> inventory_key ` set (db_inventory d) then Inventory_ErrInsufficientInventory else Inventory_ErrInventoryNotFound)"
  proof (cases "List.find (at_stock (Actor_OrganizationID actor) (Actor_StoreID actor) (N_ProductID n)) (db_inventory d)")
    case None
    then have "?k \<notin> inventory_key ` set (db_inventory d)" unfolding stock_row .
    with None show ?thesis
      by (simp add: translateDecreaseInventoryError_def GetInventoryByProductIDForStore_def del: find_None_iff)
  next
    case (Some i)
    then have "List.find (at_stock (Actor_OrganizationID actor) (Actor_StoreID actor) (N_ProductID n)) (db_inventory d) \<noteq> None"
      by (simp only: option.distinct not_False_eq_True)
    then have "?k \<in> inventory_key ` set (db_inventory d)" unfolding stock_row by (simp only: not_not)
    with Some show ?thesis
      by (simp add: translateDecreaseInventoryError_def GetInventoryByProductIDForStore_def)
  qed
  with assms(1,4) dec show ?thesis
    by (simp add: Inventory_CreateAdjustment_tx_def Inventory_getProduct_def applyAdjustment_def)
qed

text \<open>The reference of a successful operation is taken: repeating it never succeeds.\<close>

lemma CreateEntry_tx_once:
  assumes "Inventory_CreateEntry_tx E T actor n d = Inr (r, d')" "denotes (N_Quantity n) q 3" "stock_inv d"
  shows "Inventory_CreateEntry_tx E T' actor n d' \<noteq> Inr (r', d'')"
proof
  assume again: "Inventory_CreateEntry_tx E T' actor n d' = Inr (r', d'')"
  from CreateEntry_tx_step [OF assms] have
    "stock_inv d'" "stock_moved actor (N_ProductID n) MovPURCHASE q (N_ReferenceType n) (N_ReferenceID n) d d'" by simp_all
  from CreateEntry_tx_step [OF again assms(2) this(1)] this(2) show False
    unfolding stock_moved_def Let_def by (auto simp: movement_reference_def)
qed

end
