(* ===== verification/Stock_Properties.thy ===== *)
theory Stock_Properties
  imports Example Stock_Behaviour
begin

text \<open>
  Properties of the inventory service: what an entry and an adjustment do to the balance and
  the movements, how they are refused, and that a reference can be used once.
\<close>

section \<open>Example: two units bought\<close>

definition example_entry :: inventory_entry_input where
  "example_entry = \<lparr>In_ProductID = uuid_String example_env 10, In_Quantity = ''2'', In_Reason = None,
     In_ReferenceType = ''invoice'', In_ReferenceID = uuid_String example_env 13\<rparr>"

definition example_entry_n :: normalized_entry where
  "example_entry_n = \<lparr>N_ProductID = 10, N_Quantity = numericFromScaledInt 2000 3, N_Reason = None,
     N_ReferenceType = ''invoice'', N_ReferenceID = 13\<rparr>"

lemma example_parsed_uuid: "parseUUID example_env (uuid_String example_env u) f = Inr u"
  by (rule parseUUID_String [OF example_uuid_law])

lemma example_entry_quantity: "parseQuantity example_env f ''2'' = (Inr (numericFromScaledInt 2000 3) :: inventory_error + numeric)"
proof -
  have "strings_TrimSpace ''2'' = ''2''" by (rule TrimSpace_plain) (simp_all add: plain_char_def)
  then show ?thesis using example_scan [of "''2''" "''000''"]
    by (simp add: parseQuantity_def normalizeQuantityString_def has_prefix_char_def strings_Cut_def allDigits_def
        is_digit_def dec_value_def digit_val_def numericFromScaledInt_def hasPositiveDigit_def)
qed

lemma example_entry_normalized: "normalizeEntryInput example_env example_entry = (Inr example_entry_n :: inventory_error + normalized_entry)"
proof -
  have "strings_TrimSpace ''invoice'' = ''invoice''" by (rule TrimSpace_plain) (simp_all add: plain_char_def)
  then show ?thesis
    by (simp add: normalizeEntryInput_def example_entry_def example_parsed_uuid example_entry_quantity
        normalizeOptionalReason_def normalizeRequiredText_def example_entry_n_def)
qed

lemma example_entry_runs:
  "\<exists>r d'. Inventory_CreateEntry_tx example_env example_tx example_actor example_entry_n example_shop = Inr (r, d')"
  by (simp add: Inventory_CreateEntry_tx_def Inventory_getProduct_def GetProductByIDForStore_def example_defs
      example_entry_n_def IncreaseInventoryForStore_def example_pg at_stock_def increase_row_def inventory_checks_def
      check_row_def Let_def record_movement_def CreateInventoryMovementForStore_def pg_varchar_def char_length_def
      movement_checks_def btrim_blank_def movement_reference_def toInventoryMovementResponse_def)

lemma example_entry_done:
  "\<exists>r d'. Inventory_CreateEntry example_env example_tx example_actor example_entry example_shop = (Inr r, d')"
  using example_entry_runs
  by (auto simp: Inventory_CreateEntry_def example_entry_normalized WithTx_def example_tx_def)

definition example_adjustment :: inventory_adjustment_input where
  "example_adjustment = \<lparr>Adj_ProductID = uuid_String example_env 10, Adj_Direction = ''out'', Adj_Quantity = ''2'',
     Adj_Reason = ''broken'', Adj_ReferenceType = ''count'', Adj_ReferenceID = uuid_String example_env 14\<rparr>"

definition example_adjustment_n :: normalized_adjustment where
  "example_adjustment_n = \<lparr>N_ProductID = 10, N_Quantity = numericFromScaledInt 2000 3, N_Reason = Some ''broken'',
     N_ReferenceType = ''count'', N_ReferenceID = 14, N_Direction = ''OUT''\<rparr>"

lemma example_adjustment_normalized:
  "normalizeAdjustmentInput example_env example_adjustment = (Inr example_adjustment_n :: inventory_error + normalized_adjustment)"
proof -
  have "strings_TrimSpace ''broken'' = ''broken''" "strings_TrimSpace ''count'' = ''count''"
    "strings_TrimSpace ''out'' = ''out''"
    by (rule TrimSpace_plain; simp add: plain_char_def)+
  moreover have "strings_ToUpper (unicode_upper example_env) ''out'' = ''OUT''"
  proof -
    have "map ascii_upper ''out'' = ''OUT''" by code_simp
    then show ?thesis by (simp add: strings_ToUpper_def)
  qed
  ultimately show ?thesis
    by (simp add: normalizeAdjustmentInput_def example_adjustment_def example_parsed_uuid example_entry_quantity
        normalizeRequiredText_def example_adjustment_n_def)
qed

lemma example_adjustment_done:
  "\<exists>r d'. Inventory_CreateAdjustment example_env example_tx example_actor example_adjustment example_shop = (Inr r, d')"
proof -
  have "\<exists>r d'. Inventory_CreateAdjustment_tx example_env example_tx example_actor example_adjustment_n example_shop = Inr (r, d')"
    by (simp add: Inventory_CreateAdjustment_tx_def Inventory_getProduct_def GetProductByIDForStore_def example_defs
        example_adjustment_n_def applyAdjustment_def DecreaseInventoryForStore_def example_pg at_stock_def
        decrease_row_def inventory_checks_def check_row_def Let_def record_movement_def
        CreateInventoryMovementForStore_def pg_varchar_def char_length_def movement_checks_def btrim_blank_def
        movement_reference_def toInventoryMovementResponse_def normalized_entry.truncate_def)
  then show ?thesis
    by (auto simp: Inventory_CreateAdjustment_def example_adjustment_normalized WithTx_def example_tx_def)
qed

section \<open>Entries and adjustments\<close>

text \<open>a successful stock entry adds the positive quantity of the request to the balance of the
  product in the actor's store and to no other balance, appends one purchase movement that states
  the balance before and after and the reference, and keeps every balance equal to the replay of its
  movements.\<close>

lemma entry_effect:
  assumes "Inventory_CreateEntry E T actor input d = (Inr r, d')" "scan_law E" "stock_inv d"
  shows "\<exists>pid rid q. parseUUID E (In_ProductID input) ''productId'' = (Inr pid :: inventory_error + uuid) \<and>
    parseUUID E (In_ReferenceID input) ''referenceId'' = (Inr rid :: inventory_error + uuid) \<and>
    quantity_value (strings_TrimSpace (In_Quantity input)) = Some q \<and> stock_inv d' \<and>
    stock_moved actor pid MovPURCHASE q (strings_TrimSpace (In_ReferenceType input)) rid d d'"
proof -
  from assms(1,2) obtain n q where n: "normalizeEntryInput E input = (Inr n :: inventory_error + _)"
    "denotes (N_Quantity n) q 3" "quantity_value (strings_TrimSpace (In_Quantity input)) = Some q"
    "Inventory_CreateEntry_tx E T actor n d = Inr (r, d')" by (rule CreateEntry_InrE)
  from n(1) have "parseUUID E (In_ProductID input) ''productId'' = (Inr (N_ProductID n) :: inventory_error + uuid)"
    "parseUUID E (In_ReferenceID input) ''referenceId'' = (Inr (N_ReferenceID n) :: inventory_error + uuid)"
    "N_ReferenceType n = strings_TrimSpace (In_ReferenceType input)"
    by (auto simp: normalizeEntryInput_def normalizeRequiredText_def Let_def result_simps split: if_splits)
  with CreateEntry_tx_step [OF n(4,2) assms(3)] n(3) show ?thesis by auto
qed

lemma entry_effect_witness:
  "\<exists>pid rid q d'. stock_moved example_actor pid MovPURCHASE q ''invoice'' rid example_shop d' \<and> stock_inv d'"
proof -
  obtain r d' where "Inventory_CreateEntry example_env example_tx example_actor example_entry example_shop = (Inr r, d')"
    using example_entry_done by blast
  moreover have "strings_TrimSpace (In_ReferenceType example_entry) = ''invoice''"
    unfolding example_entry_def by (simp, rule TrimSpace_plain) (simp_all add: plain_char_def)
  ultimately show ?thesis using entry_effect [OF _ example_scan_law example_stock_inv(2)] by metis
qed

text \<open>a successful adjustment has the direction IN or OUT (in any case of letters); it raises,
  respectively lowers, the balance of the product in the actor's store by the positive quantity of
  the request, never below zero, and records the matching movement.\<close>

lemma adjustment_effect:
  assumes "Inventory_CreateAdjustment E T actor input d = (Inr r, d')" "scan_law E" "stock_inv d"
  shows "\<exists>pid rid q dir. dir = strings_ToUpper (unicode_upper E) (strings_TrimSpace (Adj_Direction input)) \<and>
    (dir = ''IN'' \<or> dir = ''OUT'') \<and>
    parseUUID E (Adj_ProductID input) ''productId'' = (Inr pid :: inventory_error + uuid) \<and>
    quantity_value (strings_TrimSpace (Adj_Quantity input)) = Some q \<and> stock_inv d' \<and>
    stock_moved actor pid (if dir = ''IN'' then MovADJUSTMENT_IN else MovADJUSTMENT_OUT) q
      (strings_TrimSpace (Adj_ReferenceType input)) rid d d'"
proof -
  from assms(1,2) obtain n q where n: "normalizeAdjustmentInput E input = (Inr n :: inventory_error + _)"
    "denotes (N_Quantity n) q 3" "quantity_value (strings_TrimSpace (Adj_Quantity input)) = Some q"
    "Inventory_CreateAdjustment_tx E T actor n d = Inr (r, d')" by (rule CreateAdjustment_InrE)
  let ?dir = "strings_ToUpper (unicode_upper E) (strings_TrimSpace (Adj_Direction input))"
  from n(1) have "parseUUID E (Adj_ProductID input) ''productId'' = (Inr (N_ProductID n) :: inventory_error + uuid)"
    "N_ReferenceType n = strings_TrimSpace (Adj_ReferenceType input)"
    "N_Direction n = ?dir" "?dir = ''IN'' \<or> ?dir = ''OUT''"
    by (auto simp: normalizeAdjustmentInput_def normalizeRequiredText_def Let_def result_simps split: if_splits)
  with CreateAdjustment_tx_step [OF n(4,2) assms(3)] n(3) show ?thesis by metis
qed

lemma adjustment_effect_witness:
  "\<exists>pid rid q mt d'. stock_moved example_actor pid mt q ''count'' rid example_shop d' \<and> stock_inv d'"
proof -
  obtain r d' where "Inventory_CreateAdjustment example_env example_tx example_actor example_adjustment example_shop = (Inr r, d')"
    using example_adjustment_done by blast
  moreover have "strings_TrimSpace (Adj_ReferenceType example_adjustment) = ''count''"
    unfolding example_adjustment_def by (simp, rule TrimSpace_plain) (simp_all add: plain_char_def)
  ultimately show ?thesis using adjustment_effect [OF _ example_scan_law example_stock_inv(2)] by metis
qed

section \<open>Refusals\<close>

text \<open>an adjustment out of more than the balance is refused: as insufficient inventory when the
  product has a balance row in the store, as inventory not found when it has none.\<close>

theorem adjustment_out_of_stock:
  assumes "N_Direction n = ''OUT''" "denotes (N_Quantity n) q 3" "stock.unique d"
    and "GetProductByIDForStore (ToStoreScope actor) (N_ProductID n) d = (Inr p :: inventory_error + product)"
    and "stock_level d (Actor_OrganizationID actor, Actor_StoreID actor, N_ProductID n) < q"
  shows "Inventory_CreateAdjustment_tx E T actor n d = Inl (Sentinel
    (if (Actor_OrganizationID actor, Actor_StoreID actor, N_ProductID n) \<in> inventory_key ` set (db_inventory d)
     then Inventory_ErrInsufficientInventory else Inventory_ErrInventoryNotFound))"
  by (rule adjustment_out_refused [OF assms])

theorem adjustment_out_of_stock_witness:
  "Inventory_CreateAdjustment_tx example_env example_tx example_actor
     (example_adjustment_n\<lparr>N_Quantity := numericFromScaledInt 8001 3\<rparr>) example_shop =
     Inl (Sentinel Inventory_ErrInsufficientInventory)"
  by (subst adjustment_out_of_stock [where q = 8001 and p = example_product])
     (simp_all add: example_adjustment_n_def stock.unique_def GetProductByIDForStore_def stock_level_def example_defs)

text \<open>the reference of a stock entry can be used once: after a successful entry the same request
  never succeeds again.\<close>

lemma entry_not_repeated:
  assumes "Inventory_CreateEntry E T actor input d = (Inr r, d')" "scan_law E" "stock_inv d"
  shows "Inventory_CreateEntry E T' actor input d' \<noteq> (Inr r', d'')"
proof
  assume again: "Inventory_CreateEntry E T' actor input d' = (Inr r', d'')"
  from assms(1,2) obtain n q where n: "normalizeEntryInput E input = (Inr n :: inventory_error + _)"
    "denotes (N_Quantity n) q 3" "Inventory_CreateEntry_tx E T actor n d = Inr (r, d')" by (rule CreateEntry_InrE)
  from again assms(2) obtain n' where n': "normalizeEntryInput E input = (Inr n' :: inventory_error + _)"
    "Inventory_CreateEntry_tx E T' actor n' d' = Inr (r', d'')" by (rule CreateEntry_InrE)
  from n(1) n'(1) have "n' = n" by simp
  with CreateEntry_tx_once [OF n(3,2) assms(3)] n'(2) show False by simp
qed

lemma entry_not_repeated_witness:
  "\<exists>d'. (\<forall>r' d''. Inventory_CreateEntry example_env (example_tx\<lparr>tx_now := 6000\<rparr>) example_actor example_entry d' \<noteq> (Inr r', d''))
     \<and> (\<exists>r. Inventory_CreateEntry example_env example_tx example_actor example_entry example_shop = (Inr r, d'))"
  using example_entry_done entry_not_repeated [OF _ example_scan_law example_stock_inv(2)] by blast

end
