(* ===== verification/Checkout_Behaviour.thy ===== *)
theory Checkout_Behaviour
  imports Settlement Sales_Behaviour
begin

text \<open>
  The checkout's decisions, case by case: the totals of a sale that satisfies the invariant
  are always accepted, a closed sale is refused with the error that names its state, the rows of
  other sales stay as they are, a sale
  without a positive total and a payment without an active store binding are refused.
\<close>

section \<open>The totals check passes on every stored sale\<close>

lemma sale_totals_loop_ok:
  assumes "\<forall>i \<in> set items. item_ok i"
  shows "sale_totals_loop items (numericFromScaledInt a 2) (numericFromScaledInt b 2) (numericFromScaledInt c 2) =
    Inr (numericFromScaledInt (a + sum_list (map item_gross items)) 2,
         numericFromScaledInt (b + sum_list (map Item_Discount items)) 2,
         numericFromScaledInt (c + sum_list (map Item_Total items)) 2)"
  using assms
  by (induction items arbitrary: a b c) (simp_all add: item_ok_def item_gross_def algebra_simps)

lemma item_total_sums:
  assumes "\<forall>i \<in> set items. item_ok i"
  shows "sum_list (map item_gross items) - sum_list (map Item_Discount items) = sum_list (map Item_Total items)"
  using assms by (induction items) (auto simp: item_ok_def)

lemma validateSaleTotals_ok:
  assumes "sales_inv d" "s \<in> set (db_sales d)" "sale_key s = (SS_OrganizationID scope, SS_StoreID scope, sid)"
  shows "validateSaleTotals s (ListSaleItemsBySaleIDForStore scope sid d) = Inr ()"
proof -
  let ?its = "ListSaleItemsBySaleIDForStore scope sid d"
  have ok: "\<forall>i \<in> set ?its. item_ok i"
    using assms(1) by (auto simp: ListSaleItems_set items_of_def sales_inv_def sales_wf_def)
  have "sale_totals_ok d s" using assms(1,2) by (simp add: sales_inv_def)
  then have t: "Sale_Subtotal s = sum_list (map item_gross ?its)" "Sale_Discount s = sum_list (map Item_Discount ?its)"
    "Sale_Total s = sum_list (map Item_Total ?its)" "Sale_Addition s = 0"
    using assms(3) by (simp_all add: sale_totals_ok_def ListSaleItems_sums)
  from item_total_sums [OF ok] t have "Sale_Subtotal s - Sale_Discount s = Sale_Total s" by simp
  with t show ?thesis
    by (simp add: validateSaleTotals_def zeroMoney_def sale_totals_loop_ok [OF ok])
qed

section \<open>A sale is closed once\<close>

lemma lock_sale:
  assumes "sales.unique d" "s \<in> set (db_sales d)" "sale_key s = (SS_OrganizationID scope, SS_StoreID scope, sid)"
  shows "LockSaleByIDForStore scope sid d = Inr s"
proof -
  have "List.find (sale_in_scope (SS_OrganizationID scope) (SS_StoreID scope) sid) (db_sales d) = Some s"
  proof (cases "List.find (sale_in_scope (SS_OrganizationID scope) (SS_StoreID scope) sid) (db_sales d)")
    case None
    with assms(2,3) show ?thesis by (auto simp: find_None_iff sale_in_scope_key)
  next
    case (Some s')
    from find_SomeD [OF Some] assms have "s' = s" by (auto simp: sale_in_scope_key intro: sale_at_key)
    with Some show ?thesis by simp
  qed
  then show ?thesis by (simp add: LockSaleByIDForStore_def)
qed

lemma Checkout_tx_closed:
  assumes "sales.unique d" "s \<in> set (db_sales d)" "sale_key s = (Actor_OrganizationID actor, Actor_StoreID actor, sid)"
    and "Sale_Status s \<noteq> SaleOPEN"
  shows "Checkout_tx E T actor sid inputs d =
    Inl (Sentinel (if Sale_Status s = SaleCOMPLETED then Checkout_ErrSaleAlreadyCompleted else Checkout_ErrSaleNotOpen))"
proof -
  have "LockSaleByIDForStore (ToStoreScope actor) sid d = (Inr s :: checkout_error + sale)"
    by (rule lock_sale [OF assms(1,2)]) (use assms(3) in simp)
  with assms(4) show ?thesis by (cases "Sale_Status s") (simp_all add: Checkout_tx_def)
qed

lemma Checkout_tx_closed_later:
  assumes "sales.unique d" "x \<in> set (db_sales d)" "Sale_Status x = SaleCOMPLETED"
    and "sale_key x = (Actor_OrganizationID actor, Actor_StoreID actor, sid)"
  shows "Checkout_tx E T actor sid inputs d = Inl (Sentinel Checkout_ErrSaleAlreadyCompleted)"
  using Checkout_tx_closed [OF assms(1,2,4)] assms(3) by simp

lemma Checkout_refused:
  assumes "parseUUID E raw ''id'' = (Inr sid :: checkout_error + _)"
    and "\<And>nps. Checkout_tx E T1 actor sid nps d = Inl e"
  shows "\<exists>err. Checkout E T1 T2 provider actor raw input d = (Inl err, d) \<and>
    (tx_begin_error T1 = None \<and> normalizeCheckoutInput E input = Inr nps \<longrightarrow> err = e)"
proof (cases "normalizeCheckoutInput E input")
  case (Inl e')
  then show ?thesis using assms(1) by (simp add: Checkout_def)
next
  case (Inr ps)
  then show ?thesis using assms by (simp add: Checkout_def WithTx_def split: option.split)
qed

section \<open>Everything else stays\<close>

text \<open>The tables the sale at the key \<open>k\<close> is not in, and what the others hold for other sales.\<close>

definition other_rows_same :: "uuid \<times> uuid \<times> uuid \<Rightarrow> db \<Rightarrow> db \<Rightarrow> bool" where
  "other_rows_same k d d' \<longleftrightarrow> masters_same d d' \<and> db_counters d' = db_counters d \<and> db_sale_items d' = db_sale_items d \<and>
     filter (\<lambda>s. sale_key s \<noteq> k) (db_sales d') = filter (\<lambda>s. sale_key s \<noteq> k) (db_sales d) \<and>
     (\<forall>k'. k' \<noteq> k \<longrightarrow> payments_of d' k' = payments_of d k' \<and> documents_of d' k' = documents_of d k')"

lemma Checkout_tx_counters:
  assumes "Checkout_tx E T actor sid inputs d = Inr (st, d')"
    and "system_inv E d" "uuid_law E" "\<forall>p \<in> set inputs. payment_money p"
  shows "db_counters d' = db_counters d"
  using assms(1)
proof (rule Checkout_tx_InrE)
  fix s vs d1 pays d2 c d3 x
  let ?k = "(Actor_OrganizationID actor, Actor_StoreID actor, sid)"
  let ?its = "ListSaleItemsBySaleIDForStore (ToStoreScope actor) sid d"
  assume a: "s \<in> set (db_sales d)" "sale_key s = ?k" "Sale_Status s = SaleOPEN" "?its \<noteq> []"
    "ValidatePayments actor (numericFromScaledInt (Sale_Total s) 2) inputs d = Inr vs"
    "applyInventoryChanges E (tx_now T) actor sid ?its d = Inr d1"
    "createPayments E (tx_now T) actor sid vs d1 = Inr (pays, d2)"
    "CompleteSaleForStore (tx_now T) (ToActorScope actor) sid d2 = (Inr (c, d3) :: checkout_error + _)"
    "CreateFiscalDocumentForStore E (tx_now T) (ToStoreScope actor) sid d3 = (Inr (x, d') :: checkout_error + _)"
  have i: "sales_inv d" "stock_inv d" "payments_inv E d" "documents_inv d" "settled d s"
    using assms(2) a(1) by (simp_all add: system_inv_def)
  then have none: "payments_of d ?k = []" "documents_of d ?k = []" using a(2,3) by (simp_all add: settled_def Let_def)
  have "0 \<le> Sale_Total s" using i(1) a(1) by (simp add: sales_inv_def sales_wf_def total_nonneg)
  from ValidatePayments_spec [OF a(5) assms(4) this] have vm: "\<forall>v \<in> set vs. validated_money v"
    by (auto simp: list_all2_conv_all_nth in_set_conv_nth) (blast dest: payment_accepted_money)
  from applyInventoryChanges_step [OF a(6) i(2) assms(3)] have f1: "stock_frame d d1" by blast
  note e1 = stock_frameD [OF f1]
  have p1: "payments_inv E d1" "payments_of d1 ?k = []"
    using i(3) none(1) e1 payments_inv_cong [of d1 d] of_cong(1) [of d1 d] by simp_all
  from createPayments_step [OF a(7) p1(1) assms(3) p1(2) vm] have f2: "payment_frame d1 d2" by blast
  note e2 = payment_frameD [OF f2]
  have f3: "db_counters d3 = db_counters d2" "db_fiscal_documents d3 = db_fiscal_documents d2"
    using a(8) by (auto simp: CompleteSaleForStore_def result_simps elim!: update_sale_InrE)
  have dd: "documents_inv d3" "documents_of d3 ?k = []"
    using i(4) none(2) e1 e2 f3 documents_inv_cong [of d3 d] of_cong(2) [of d3 d] by simp_all
  from CreateFiscalDocument_new [OF a(9)] dd have "document_frame d3 d'" by simp
  note e4 = document_frameD [OF this]
  show ?thesis using e1 e2 f3 e4 by simp
qed

lemma Checkout_tx_others:
  assumes "Checkout_tx E T actor sid inputs d = Inr (st, d')"
    and "system_inv E d" "uuid_law E" "\<forall>p \<in> set inputs. payment_money p"
  shows "other_rows_same (Actor_OrganizationID actor, Actor_StoreID actor, sid) d d'"
proof -
  note Done = Checkout_tx_done [OF assms]
  then have co: "checked_out E (tx_now T) actor sid inputs st d d'" by blast
  from co have "db_sale_items d' = db_sale_items d" "only_sale (Actor_OrganizationID actor, Actor_StoreID actor, sid) d d'"
    by (simp_all add: checked_out_def Let_def)
  then show ?thesis
    using Done Checkout_tx_counters [OF assms] checked_out_others(1,2) [OF co]
    by (simp add: other_rows_same_def only_sale_def)
qed

section \<open>Payments that are refused\<close>

lemma ValidatePayments_zero:
  assumes "\<forall>p \<in> set inputs. payment_money p"
  shows "ValidatePayments actor (numericFromScaledInt 0 2) inputs d \<noteq> Inr vs"
proof
  assume "ValidatePayments actor (numericFromScaledInt 0 2) inputs d = Inr vs"
  from ValidatePayments_spec [OF this assms] have
    v: "vs \<noteq> []" "list_all2 (payment_accepted actor d) inputs vs" "sum_list (map (\<lambda>v. cents (VP_Amount v)) vs) = 0" by simp_all
  then have pos: "\<forall>v \<in> set vs. 0 < cents (VP_Amount v)"
    by (auto simp: list_all2_conv_all_nth in_set_conv_nth payment_accepted_def)
  obtain w ws where "vs = w # ws" using v(1) by (cases vs) auto
  moreover have "0 \<le> sum_list (map (\<lambda>v. cents (VP_Amount v)) ws)"
    by (rule sum_list_nonneg_int) (use pos \<open>vs = w # ws\<close> in fastforce)
  ultimately show False using pos v(3) by simp
qed

lemma create_payment_no_binding:
  assumes "\<not> active_binding (Actor_OrganizationID actor) (Actor_StoreID actor) (Method_ID (VP_Method v)) d"
    and "List.find (payment_with_key (ToStoreScope actor) (PaymentIdempotencyKey E sid i)) (db_payments d) = None"
  shows "create_payment E now actor sid i v d = Inl (Wrapped ''create payment'' ErrNoRows)"
  using assms by (simp add: create_payment_def CreatePaymentForStore_def del: find_None_iff)

section \<open>The two halves of a request\<close>

text \<open>A checkout that reports an error either changed nothing or has closed the sale.\<close>

lemma Checkout_error:
  assumes "Checkout E T1 T2 provider actor rawSaleID input d = (Inl err, d')"
  shows "d' = d \<or> (\<exists>sid nps st d1 res. normalizeCheckoutInput E input = Inr nps \<and>
    Checkout_tx E T1 actor sid nps d = Inr (st, d1) \<and>
    authorizeFiscalDocument E T2 provider actor st d1 = (res, d'))"
  using assms
  by (auto simp: Checkout_def split: sum.splits prod.splits dest: WithTx_Inl simp: WithTx_Inr)

end
