(* ===== verification/Checkout_Properties.thy ===== *)
theory Checkout_Properties
  imports Example Checkout_Behaviour
begin

text \<open>
  Properties of the checkout and of the fiscal documents: what closing a sale does, that a sale
  is closed once, which payments are accepted, and the cases where a request ends in an internal
  error or leaves a state the service cannot leave.
\<close>

section \<open>Closing a sale\<close>

text \<open>C6: when the commercial transaction of the checkout succeeds, the sale was open and is now
  completed by the actor, its payments are approved and add up to its total, one pending fiscal
  document exists for it, every balance of the store went down by the quantity sold of that
  product, with one sale movement for each product, and the whole database still satisfies the
  invariant. Nothing else changed: the items, the other sales with their payments and documents,
  the balances of other stores, the movements that were there, the sale numbers and the tables
  of stores, memberships, products and payment methods are as they were.\<close>

theorem checkout_closes_sale:
  assumes "Checkout_tx E T actor sid inputs d = Inr (st, d')"
    and "system_inv E d" "uuid_law E" "\<forall>p \<in> set inputs. payment_money p"
  defines "k \<equiv> (Actor_OrganizationID actor, Actor_StoreID actor, sid)"
  shows "system_inv E d' \<and>
    (\<exists>s x. s \<in> set (db_sales d) \<and> sale_key s = k \<and> Sale_Status s = SaleOPEN \<and>
      CS_Sale st = s\<lparr>Sale_Status := SaleCOMPLETED, Sale_CompletedByMembershipID := Some (Actor_MembershipID actor),
        Sale_CompletedAt := Some (tx_now T), Sale_UpdatedAt := tx_now T\<rparr> \<and> CS_Sale st \<in> set (db_sales d') \<and>
      payments_of d' k = map fst (CS_Payments st) \<and> length (CS_Payments st) = length inputs \<and>
      (\<forall>p \<in> set (payments_of d' k). Payment_Status p = PayAPPROVED) \<and>
      sum_list (map Payment_Amount (payments_of d' k)) = Sale_Total s \<and>
      documents_of d' k = [x] \<and> Doc_Status x = DocPENDING) \<and>
    (\<forall>org store pid. stock_level d' (org, store, pid) = stock_level d (org, store, pid) -
      (if org = Actor_OrganizationID actor \<and> store = Actor_StoreID actor then sold (items_of d k) pid else 0)) \<and>
    (\<exists>ms. db_movements d' = db_movements d @ ms \<and> distinct (map Movement_ProductID ms) \<and>
      Movement_ProductID ` set ms = Item_ProductID ` set (items_of d k) \<and>
      (\<forall>m \<in> set ms. sale_movement actor sid m \<and> Movement_Quantity m = sold (items_of d k) (Movement_ProductID m))) \<and>
    other_rows_same k d d'"
proof -
  note Done = Checkout_tx_done [OF assms(1-4)]
  then have co: "checked_out E (tx_now T) actor sid inputs st d d'" by blast
  note st = checked_out_settles [OF co assms(2) refl, folded k_def]
  have sys: "system_inv E d'" using Done by (blast intro: checked_out_system [OF co assms(2)])
  note c = co [unfolded checked_out_def Let_def, folded k_def]
  from c obtain s vs where s: "s \<in> set (db_sales d)" "sale_key s = k" "Sale_Status s = SaleOPEN"
    "CS_Sale st = s\<lparr>Sale_Status := SaleCOMPLETED, Sale_CompletedByMembershipID := Some (Actor_MembershipID actor),
        Sale_CompletedAt := Some (tx_now T), Sale_UpdatedAt := tx_now T\<rparr>" "CS_Sale st \<in> set (db_sales d')"
    "list_all2 (payment_accepted actor d) inputs vs"
    "payments_created E (tx_now T) actor sid vs (map fst (CS_Payments st)) d d'" by blast
  have none: "payments_of d k = []" "documents_of d k = []"
    using assms(2) s(1-3) by (auto simp: system_inv_def settled_def Let_def)
  have pay: "payments_of d' k = map fst (CS_Payments st)"
    using payments_created_of_sale(1) [OF s(7), folded k_def] none(1) by simp
  have len: "length (CS_Payments st) = length inputs"
    using s(7) list_all2_lengthD [OF s(6)] by (simp add: payments_created_def)
  from c obtain x where x: "db_fiscal_documents d' = db_fiscal_documents d @ [x]" "doc_sale_key x = k" "Doc_Status x = DocPENDING"
    by blast
  have doc: "documents_of d' k = [x]" using x(1,2) none(2) by (simp add: documents_of_def)
  have paid: "\<forall>p \<in> set (payments_of d' k). Payment_Status p = PayAPPROVED"
    "sum_list (map Payment_Amount (payments_of d' k)) = Sale_Total s"
    using st(1,2,5) s(4) by (simp_all add: settled_def Let_def)
  from c obtain ps where ps: "distinct ps" "set ps = Item_ProductID ` set (items_of d k)"
    "stock_taken actor sid ps (sold (items_of d k)) d d'" by blast
  have stock: "stock_level d' (org, store, pid) = stock_level d (org, store, pid) -
      (if org = Actor_OrganizationID actor \<and> store = Actor_StoreID actor then sold (items_of d k) pid else 0)" for org store pid
    using ps(2,3) sold_absent [of pid "items_of d k"] by (simp add: stock_taken_def)
  from ps(3) obtain ms where ms: "db_movements d' = db_movements d @ ms" "map Movement_ProductID ms = ps"
    "\<forall>m \<in> set ms. sale_movement actor sid m \<and> Movement_Quantity m = sold (items_of d k) (Movement_ProductID m)"
    unfolding stock_taken_def by blast
  have "distinct (map Movement_ProductID ms)" "Movement_ProductID ` set ms = Item_ProductID ` set (items_of d k)"
    using ms(2) ps(1,2) by (simp, metis list.set_map)
  then have moves: "\<exists>ms. db_movements d' = db_movements d @ ms \<and> distinct (map Movement_ProductID ms) \<and>
      Movement_ProductID ` set ms = Item_ProductID ` set (items_of d k) \<and>
      (\<forall>m \<in> set ms. sale_movement actor sid m \<and> Movement_Quantity m = sold (items_of d k) (Movement_ProductID m))"
    using ms(1,3) by (intro exI [of _ ms] conjI)
  show ?thesis
    by (intro conjI allI sys stock moves Checkout_tx_others [OF assms(1-4), folded k_def] exI [of _ s] exI [of _ x]
        s(1-5) pay len paid doc x(3))
qed

theorem checkout_closes_sale_witness:
  "system_inv example_env example_closed \<and> stock_level example_closed (1, 2, 10) = 6000 \<and>
   sum_list (map Payment_Amount (payments_of example_closed (1, 2, 30))) = 2500 \<and>
   db_counters example_closed = db_counters example_open"
proof -
  have m: "\<forall>p \<in> set [example_payment]. payment_money p" using example_money by simp
  have a: "Actor_OrganizationID example_actor = 1" "Actor_StoreID example_actor = 2" by (simp_all add: example_actor_def)
  note r = checkout_closes_sale [OF example_checkout example_open_inv example_uuid_law m, unfolded a]
  have "stock_level example_open (1, 2, 10) = 8000" "sold (items_of example_open (1, 2, 30)) 10 = 2000"
    by (simp_all add: stock_level_def sold_def items_of_def example_defs)
  moreover have "Sale_Total s = 2500" if "s \<in> set (db_sales example_open)" for s
    using that by (simp add: example_defs)
  moreover have "db_counters example_closed = db_counters example_open" using r unfolding other_rows_same_def by blast
  ultimately show ?thesis using r by force
qed

text \<open>C7: a sale is closed once: in every database reachable from the one a successful checkout
  left, by any requests, a further checkout request for the sale by any member acting in its store, with any
  payments and at any time, fails and changes nothing; with payments in the right form and a
  working connection the error is that the sale is already completed.\<close>

theorem checkout_once:
  assumes "Checkout_tx E T actor sid inputs d = Inr (st, d1)"
    and "system_inv E d" "uuid_law E" "scan_law E" "\<forall>p \<in> set inputs. payment_money p"
    and "reachable E d1 d2"
    and "Actor_OrganizationID actor' = Actor_OrganizationID actor" "Actor_StoreID actor' = Actor_StoreID actor"
    and "parseUUID E rawSaleID ''id'' = (Inr sid :: checkout_error + _)"
  shows "\<exists>err. Checkout E T1 T2 provider actor' rawSaleID input d2 = (Inl err, d2) \<and>
    (tx_begin_error T1 = None \<and> normalizeCheckoutInput E input = Inr nps \<longrightarrow>
       err = Sentinel Checkout_ErrSaleAlreadyCompleted)"
proof (rule Checkout_refused [OF assms(9)])
  fix ps
  note Done = Checkout_tx_done [OF assms(1-3,5)]
  then have co: "checked_out E (tx_now T) actor sid inputs st d d1" by blast
  note st = checked_out_settles [OF co assms(2) refl]
  have s1: "system_inv E d1" using Done by (blast intro: checked_out_system [OF co assms(2)])
  from reachable_system [OF assms(6,3,4) s1] have "sales.unique d2"
    by (simp add: system_inv_def sales_inv_def sales_wf_def)
  moreover have "CS_Sale st \<in> set (db_sales d2)"
    using reachable_closed [OF assms(6,3,4) s1] st(3,5) by (simp add: closed_kept_def)
  ultimately show "Checkout_tx E T1 actor' sid ps d2 = Inl (Sentinel Checkout_ErrSaleAlreadyCompleted)"
    by (rule Checkout_tx_closed_later) (use st(2,5) assms(7,8) in simp_all)
qed

theorem checkout_once_witness:
  "Checkout example_env example_tx example_tx None (example_actor\<lparr>Actor_MembershipID := 4\<rparr>)
     (uuid_String example_env 30) [example_input] example_closed =
     (Inl (Sentinel Checkout_ErrSaleAlreadyCompleted), example_closed)"
proof -
  have m: "\<forall>p \<in> set [example_payment]. payment_money p" using example_money by simp
  have a: "Actor_OrganizationID (example_actor\<lparr>Actor_MembershipID := 4\<rparr>) = Actor_OrganizationID example_actor"
    "Actor_StoreID (example_actor\<lparr>Actor_MembershipID := 4\<rparr>) = Actor_StoreID example_actor" by simp_all
  have t: "tx_begin_error example_tx = None" by (simp add: example_tx_def)
  note once = checkout_once [OF example_checkout example_open_inv example_uuid_law example_scan_law m reachable.start a
      parseUUID_String [OF example_uuid_law]]
  obtain err where err: "Checkout example_env example_tx example_tx None (example_actor\<lparr>Actor_MembershipID := 4\<rparr>)
     (uuid_String example_env 30) [example_input] example_closed = (Inl err, example_closed)"
    "tx_begin_error example_tx = None \<and> normalizeCheckoutInput example_env [example_input] = Inr [example_payment] \<longrightarrow>
       err = Sentinel Checkout_ErrSaleAlreadyCompleted" using once by blast
  from err(2) t example_input_normalized have "err = Sentinel Checkout_ErrSaleAlreadyCompleted" by blast
  with err(1) show ?thesis by simp
qed

text \<open>a checkout request that reports an error has either changed nothing, or its commercial
  transaction had already closed the sale and only the fiscal part failed.\<close>

lemma checkout_error_is_clean:
  assumes "Checkout E T1 T2 provider actor rawSaleID input d = (Inl err, d')"
  shows "d' = d \<or> (\<exists>sid nps st d1 res. normalizeCheckoutInput E input = Inr nps \<and>
    Checkout_tx E T1 actor sid nps d = Inr (st, d1) \<and>
    authorizeFiscalDocument E T2 provider actor st d1 = (res, d'))"
  by (rule Checkout_error [OF assms])

lemma checkout_error_is_clean_witness:
  "\<exists>err. Checkout example_env example_tx example_tx None example_actor [] [] example_open = (Inl err, example_open)"
proof -
  have "\<exists>err d'. Checkout example_env example_tx example_tx None example_actor [] [] example_open = (Inl err, d')"
    by (simp add: Checkout_def parseUUID_def)
  then obtain err d' where run: "Checkout example_env example_tx example_tx None example_actor [] [] example_open = (Inl err, d')"
    by blast
  moreover from run have "d' = example_open" by (simp add: Checkout_def parseUUID_def)
  ultimately show ?thesis using checkout_error_is_clean [OF run] by blast
qed

section \<open>Checks before the stock is taken\<close>

text \<open>C32: for a stored sale of a database that satisfies the invariant, the comparison of the stored
  totals with the items, in the checkout's own arithmetic, always passes.\<close>

theorem totals_check_passes:
  assumes "sales_inv d" "s \<in> set (db_sales d)" "sale_key s = (SS_OrganizationID scope, SS_StoreID scope, sid)"
  shows "validateSaleTotals s (ListSaleItemsBySaleIDForStore scope sid d) = Inr ()"
  by (rule validateSaleTotals_ok [OF assms])

theorem totals_check_passes_witness:
  "validateSaleTotals example_sale (ListSaleItemsBySaleIDForStore (ToStoreScope example_actor) 30 example_open) = Inr ()"
  by (rule totals_check_passes [OF example_sales_inv(1)]) (simp_all add: example_defs)

text \<open>C8: the payments that pass validation correspond one to one to the requested ones: each is of
  an active method of the organization, for a positive amount, with the change the received amount
  leaves where the method gives change and none otherwise, with installments the method allows and
  a reference where the method asks for one; and together they are exactly the sale's total.\<close>

theorem payments_validated:
  assumes "ValidatePayments actor (numericFromScaledInt tot 2) inputs d = Inr vs"
    and "\<forall>p \<in> set inputs. payment_money p" "0 \<le> tot"
  shows "vs \<noteq> [] \<and> list_all2 (payment_accepted actor d) inputs vs \<and> sum_list (map (\<lambda>v. cents (VP_Amount v)) vs) = tot"
  by (rule ValidatePayments_spec [OF assms])

theorem payments_validated_witness: "payment_accepted example_actor example_open example_payment example_validated"
  using payments_validated [OF example_validate] example_money by simp

text \<open>C40: a sale whose total is zero (every item discounted in full) can never be closed: no list of
  payments is accepted for it, since each payment must be positive and one is required.\<close>

theorem free_sale_never_closes:
  assumes "sales.unique d" "s \<in> set (db_sales d)" "sale_key s = (Actor_OrganizationID actor, Actor_StoreID actor, sid)"
    and "Sale_Total s = 0" "\<forall>p \<in> set inputs. payment_money p"
  shows "Checkout_tx E T actor sid inputs d \<noteq> Inr (st, d')"
proof
  assume "Checkout_tx E T actor sid inputs d = Inr (st, d')"
  then show False
  proof (rule Checkout_tx_InrE)
    fix s' vs
    assume a: "s' \<in> set (db_sales d)" "sale_key s' = (Actor_OrganizationID actor, Actor_StoreID actor, sid)"
      "ValidatePayments actor (numericFromScaledInt (Sale_Total s') 2) inputs d = Inr vs"
    have "s' = s" by (rule sale_at_key [OF assms(1) a(1) assms(2) a(2) assms(3)])
    with a(3) ValidatePayments_zero [OF assms(5)] assms(4) show False by simp
  qed
qed

theorem free_sale_never_closes_witness:
  "\<forall>st d'. Checkout_tx example_env example_tx example_actor 30 [example_payment]
     (example_open\<lparr>db_sales := [example_sale\<lparr>Sale_Subtotal := 0, Sale_Total := 0\<rparr>]\<rparr>) \<noteq> Inr (st, d')"
proof (intro allI)
  fix st d'
  show "Checkout_tx example_env example_tx example_actor 30 [example_payment]
     (example_open\<lparr>db_sales := [example_sale\<lparr>Sale_Subtotal := 0, Sale_Total := 0\<rparr>]\<rparr>) \<noteq> Inr (st, d')"
    by (rule free_sale_never_closes [where s = "example_sale\<lparr>Sale_Subtotal := 0, Sale_Total := 0\<rparr>"])
       (use example_money in \<open>simp_all add: sales.unique_def example_sale_def example_actor_def\<close>)
qed

text \<open>a payment method that is active in the organization but has no active binding to the
  store passes the validation and then fails in the insert, after the stock was taken: the
  transaction is rolled back and the client gets an internal error.\<close>

theorem unbound_method_internal_error:
  assumes "\<not> active_binding (Actor_OrganizationID actor) (Actor_StoreID actor) (Method_ID (VP_Method v)) d"
    and "List.find (payment_with_key (ToStoreScope actor) (PaymentIdempotencyKey E sid i)) (db_payments d) = None"
  shows "create_payment E now actor sid i v d = Inl (Wrapped ''create payment'' ErrNoRows) \<and>
    Checkout_writeServiceError (Wrapped ''create payment'' ErrNoRows) =
      (500, ''internal_server_error'', ''An unexpected error occurred'', [])"
  using create_payment_no_binding [OF assms] by (simp add: Checkout_writeServiceError_def)

theorem unbound_method_internal_error_witness:
  "ValidatePayments example_actor (numericFromScaledInt 2500 2) [example_payment]
     (example_open\<lparr>db_store_payment_methods := []\<rparr>) = Inr [example_validated] \<and>
   create_payment example_env 5000 example_actor 30 0 example_validated (example_open\<lparr>db_store_payment_methods := []\<rparr>) =
     Inl (Wrapped ''create payment'' ErrNoRows)"
proof
  have "GetPaymentMethodByIDForOrganization o1 m (d\<lparr>db_store_payment_methods := b\<rparr>) =
      (GetPaymentMethodByIDForOrganization o1 m d :: checkout_error + _)" for o1 m d b
    by (simp add: GetPaymentMethodByIDForOrganization_def)
  then show "ValidatePayments example_actor (numericFromScaledInt 2500 2) [example_payment]
     (example_open\<lparr>db_store_payment_methods := []\<rparr>) = Inr [example_validated]"
    using example_validate by (simp add: ValidatePayments_def validate_payment_def)
  show "create_payment example_env 5000 example_actor 30 0 example_validated (example_open\<lparr>db_store_payment_methods := []\<rparr>) =
     Inl (Wrapped ''create payment'' ErrNoRows)"
    by (rule unbound_method_internal_error [THEN conjunct1])
       (simp_all add: active_binding_def example_open_def example_shop_def)
qed

text \<open>the number of installments is cut to 16 bits after a check of its upper bound only, so
  -65535 installments in a request are accepted as one.\<close>

theorem installments_wrap:
  "normalizeCheckoutPaymentInput E (input\<lparr>Pay_Installments := Some (- 65535)\<rparr>) i =
   normalizeCheckoutPaymentInput E (input\<lparr>Pay_Installments := Some 1\<rparr>) i"
  by (simp add: normalizeCheckoutPaymentInput_def int16_def)

section \<open>Taking the stock\<close>

text \<open>C31: the items of a sale are summed per product before the stock is touched: the sequence of
  decrements has every product of the items exactly once, with the sum of its quantities, in
  ascending order of the products' identifier texts, so that concurrent checkouts lock balances in
  one order.\<close>

theorem stock_aggregated:
  assumes "uuid_law E"
  shows "\<exists>al ps. aggregate_loop E items [] = Inr al \<and> distinct ps \<and> set ps = Item_ProductID ` set items \<and>
    applyInventoryChanges E now actor sid items d =
      take_stock_loop E now actor sid (map (\<lambda>p. (p, numericFromScaledInt (sold items p) 3)) ps) d \<and>
    sorted (map (uuid_String E) ps)"
  using aggregate_spec [OF assms, of items] by (auto simp: applyInventoryChanges_def)

theorem stock_aggregated_witness:
  "\<exists>ps. distinct ps \<and> set ps = {10} \<and> sorted (map (uuid_String example_env) ps)"
proof -
  let ?items = "[example_item, example_item\<lparr>Item_ID := 32\<rparr>]"
  have s: "Item_ProductID ` set ?items = {10}" by (simp add: example_item_def)
  obtain ps where "distinct ps" "set ps = Item_ProductID ` set ?items" "sorted (map (uuid_String example_env) ps)"
    using stock_aggregated [OF example_uuid_law, of ?items] by blast
  with s show ?thesis by metis
qed

section \<open>Fiscal documents\<close>

text \<open>the mock provider is a function of the sale's identifier, total and number: whenever it
  answers, its access key has the 44 characters the column asks for, and a pending document that
  satisfied its constraints still does with the answer stored in it.\<close>

theorem mock_authorization_fits:
  assumes "MockProvider_Authorize p input = Inr r" "first_violation (fiscal_document_checks x) = None"
    and "Doc_CancelledAt x = None" "issued \<ge> Doc_CreatedAt x" "now \<ge> Doc_CreatedAt x"
  shows "char_length (ARes_AccessKey r) = 44 \<and>
    first_violation (fiscal_document_checks (x\<lparr>Doc_Status := DocAUTHORIZED,
      Doc_AccessKey := Some (ARes_AccessKey r), Doc_Protocol := Some (ARes_Protocol r),
      Doc_Provider := Some (ARes_Provider r), Doc_ExternalReference := Some (ARes_ExternalReference r),
      Doc_XML := Some (ARes_XML r), Doc_IssuedAt := Some issued,
      Doc_ErrorCode := None, Doc_ErrorMessage := None, Doc_UpdatedAt := now\<rparr>)) = None"
  using mock.access_key [OF assms(1)] mock.authorized_row_ok [OF assms(1,2,4,5,3)] by simp

theorem mock_authorization_fits_witness:
  "\<exists>r. MockProvider_Authorize \<lparr>Mock_Fail = False, Mock_FailError = None, Mock_Now = 6000\<rparr>
     \<lparr>AIn_SaleID = ''s'', AIn_SaleNumber = 1, AIn_SaleTotal = ''25.00'', AIn_ItemCount = 1, AIn_PaymentCount = 1,
      AIn_CompletedAt = 5000, AIn_Environment = ''HOMOLOGATION'', AIn_DocumentModel = 65\<rparr> = Inr r \<and>
     char_length (ARes_AccessKey r) = 44"
proof -
  let ?p = "\<lparr>Mock_Fail = False, Mock_FailError = None, Mock_Now = 6000\<rparr>"
  let ?i = "\<lparr>AIn_SaleID = ''s'', AIn_SaleNumber = 1, AIn_SaleTotal = ''25.00'', AIn_ItemCount = 1, AIn_PaymentCount = 1,
      AIn_CompletedAt = 5000, AIn_Environment = ''HOMOLOGATION'', AIn_DocumentModel = 65\<rparr>"
  obtain r where r: "MockProvider_Authorize ?p ?i = Inr r" by (simp add: MockProvider_Authorize_def Let_def)
  from mock_authorization_fits [OF r, of example_document 6000 6000]
  have "char_length (ARes_AccessKey r) = 44" by (simp add: example_document_def fiscal_document_checks_def Let_def)
  with r show ?thesis by blast
qed

text \<open>a document that a provider's failure left in ERROR stays there: a later authorization of
  the sale, for which the provider now answers, finds no row to update, reports an internal error
  and changes nothing.\<close>

theorem failed_document_stuck:
  assumes "sale_document E actor rawSaleID d = Inr x" "documents.unique d" "Doc_Status x = DocERROR"
    and "authorize input = Inr result"
  shows "Fiscal_Authorize E now (Some authorize) actor rawSaleID input d =
    ((Some (Wrapped ''mark fiscal document authorized'' ErrNoRows), None), d) \<and>
    Fiscal_writeServiceError (Wrapped ''mark fiscal document authorized'' ErrNoRows) =
      (500, ''internal_server_error'', ''An unexpected error occurred'', [])"
proof -
  from assms(1) have x: "x \<in> set (db_fiscal_documents d)"
    by (auto simp: sale_document_def GetFiscalDocumentBySaleIDForStore_def result_simps dest!: find_SomeD)
  have none: "List.find (\<lambda>y. document_in_scope (ToStoreScope actor) (Doc_ID x) y \<and>
      (Doc_Status y = DocPENDING \<or> Doc_Status y = DocPROCESSING)) (db_fiscal_documents d) = None"
  proof (rule find_None_ball, rule ballI, rule notI)
    fix y assume y: "y \<in> set (db_fiscal_documents d)"
      "document_in_scope (ToStoreScope actor) (Doc_ID x) y \<and> (Doc_Status y = DocPENDING \<or> Doc_Status y = DocPROCESSING)"
    then have "Doc_ID y = Doc_ID x" by (simp add: document_in_scope_def)
    with documents.unique_inj [OF assms(2) y(1) x] y(2) assms(3) show False by auto
  qed
  then show ?thesis
    using assms(1,4) unfolding Fiscal_Authorize_def MarkFiscalDocumentAuthorizedForStore_def Let_def
    by (simp add: Fiscal_writeServiceError_def none)
qed

theorem failed_document_stuck_witness:
  "\<forall>input. \<exists>msg. Fiscal_Authorize example_env 9000 (Some (\<lambda>i. Inr \<lparr>ARes_Provider = ''p'', ARes_AccessKey = ''k'',
      ARes_Protocol = ''q'', ARes_XML = [], ARes_ExternalReference = ''e'', ARes_AuthorizedAt = 9000\<rparr>))
     example_actor (uuid_String example_env 30) input
     (example_closed\<lparr>db_fiscal_documents := [example_document\<lparr>Doc_Status := DocERROR\<rparr>]\<rparr>) =
     ((Some msg, None), example_closed\<lparr>db_fiscal_documents := [example_document\<lparr>Doc_Status := DocERROR\<rparr>]\<rparr>)"
proof
  fix input :: authorization_input
  let ?d = "example_closed\<lparr>db_fiscal_documents := [example_document\<lparr>Doc_Status := DocERROR\<rparr>]\<rparr>"
  have doc: "sale_document example_env example_actor (uuid_String example_env 30) ?d =
      Inr (example_document\<lparr>Doc_Status := DocERROR\<rparr>)"
    by (simp add: sale_document_def parseUUID_String [OF example_uuid_law] GetSaleByIDForStore_def sale_in_scope_def
        GetFiscalDocumentBySaleIDForStore_def document_of_sale_def example_rows example_defs)
  have u: "documents.unique ?d" by (simp add: documents.unique_def)
  show "\<exists>msg. Fiscal_Authorize example_env 9000 (Some (\<lambda>i. Inr \<lparr>ARes_Provider = ''p'', ARes_AccessKey = ''k'',
      ARes_Protocol = ''q'', ARes_XML = [], ARes_ExternalReference = ''e'', ARes_AuthorizedAt = 9000\<rparr>))
     example_actor (uuid_String example_env 30) input ?d = ((Some msg, None), ?d)"
    by (rule exI, rule failed_document_stuck [OF doc u _ refl, THEN conjunct1]) simp
qed

end
