(* ===== verification/Isolation.thy ===== *)
theory Isolation
  imports System
begin

text \<open>
  Tenancy: what one actor's request leaves unchanged. Every statement is scoped by the
  organization and the store of the actor, so the sales, items, payments, fiscal documents,
  balances and movements of any other store are as they were, and so are the tables of
  stores, members, products and payment methods.
\<close>

definition in_store :: "uuid \<times> uuid \<Rightarrow> sale \<Rightarrow> bool" where
  "in_store os s \<longleftrightarrow> (Sale_OrganizationID s, Sale_StoreID s) = os"

definition store_same :: "uuid \<Rightarrow> uuid \<Rightarrow> db \<Rightarrow> db \<Rightarrow> bool" where
  "store_same org store d d' \<longleftrightarrow>
     filter (in_store (org, store)) (db_sales d') = filter (in_store (org, store)) (db_sales d) \<and>
     (\<forall>sid. items_of d' (org, store, sid) = items_of d (org, store, sid) \<and>
        payments_of d' (org, store, sid) = payments_of d (org, store, sid) \<and>
        documents_of d' (org, store, sid) = documents_of d (org, store, sid)) \<and>
     (\<forall>pid. stock_level d' (org, store, pid) = stock_level d (org, store, pid) \<and>
        movements_of d' (org, store, pid) = movements_of d (org, store, pid))"

definition elsewhere_same :: "store_actor \<Rightarrow> db \<Rightarrow> db \<Rightarrow> bool" where
  "elsewhere_same actor d d' \<longleftrightarrow> masters_same d d' \<and>
     (\<forall>org store. (org, store) \<noteq> (Actor_OrganizationID actor, Actor_StoreID actor) \<longrightarrow> store_same org store d d')"

lemma store_same_refl [simp]: "store_same org store d d"
  by (simp add: store_same_def)

lemma elsewhere_same_refl [simp]: "elsewhere_same actor d d"
  by (simp add: elsewhere_same_def masters_same_def)

lemma of_frame:
  "db_sale_items d' = db_sale_items d \<Longrightarrow> items_of d' = items_of d"
  "db_payments d' = db_payments d \<Longrightarrow> payments_of d' = payments_of d"
  "db_fiscal_documents d' = db_fiscal_documents d \<Longrightarrow> documents_of d' = documents_of d"
  "db_inventory d' = db_inventory d \<Longrightarrow> stock_level d' = stock_level d"
  "db_movements d' = db_movements d \<Longrightarrow> movements_of d' = movements_of d"
  by (simp_all add: fun_eq_iff items_of_def payments_of_def documents_of_def stock_level_def movements_of_def)

lemma only_sale_in_store:
  assumes "only_sale (o1, s1, sid) d d'" "(org, store) \<noteq> (o1, s1)"
  shows "filter (in_store (org, store)) (db_sales d') = filter (in_store (org, store)) (db_sales d)"
proof -
  let ?Q = "\<lambda>s. sale_key s \<noteq> (o1, s1, sid)"
  have "(?Q s \<and> in_store (org, store) s) = in_store (org, store) s" for s
    using assms(2) unfolding in_store_def by blast
  then have h: "filter (in_store (org, store)) (filter ?Q xs) = filter (in_store (org, store)) xs" for xs
    unfolding filter_filter by (intro filter_cong refl)
  from assms(1) have "filter ?Q (db_sales d') = filter ?Q (db_sales d)" unfolding only_sale_def by blast
  then have "filter (in_store (org, store)) (filter ?Q (db_sales d')) =
      filter (in_store (org, store)) (filter ?Q (db_sales d))" by (rule arg_cong)
  then show ?thesis unfolding h .
qed

lemma sales_kept_elsewhere:
  assumes "sales_kept actor d d'"
  shows "elsewhere_same actor d d'"
proof -
  from assms obtain sid where f: "sales_frame d d'" and
    o: "only_sale (Actor_OrganizationID actor, Actor_StoreID actor, sid) d d'" unfolding sales_kept_def by blast
  note t = sales_frameD [OF f]
  note same = of_frame(2) [OF t(8)] of_frame(3) [OF t(9)] of_frame(4) [OF t(4)] of_frame(5) [OF t(5)]
  have "store_same org store d d'" if "(org, store) \<noteq> (Actor_OrganizationID actor, Actor_StoreID actor)" for org store
  proof -
    have "items_of d' (org, store, x) = items_of d (org, store, x)" for x
      using o that unfolding only_sale_def by blast
    then show ?thesis
      using only_sale_in_store [OF o that] by (simp add: store_same_def same)
  qed
  with t show ?thesis unfolding elsewhere_same_def masters_same_def by blast
qed

lemma stock_moved_elsewhere:
  assumes "stock_moved actor pid mt q rt rid d d'"
  shows "elsewhere_same actor d d'"
proof -
  from assms have f: "stock_frame d d'" and
    o: "only_stock (Actor_OrganizationID actor, Actor_StoreID actor, pid) d d'" by (simp_all add: stock_moved_def Let_def)
  note t = stock_frameD [OF f]
  note same = of_frame(1) [OF t(5)] of_frame(2) [OF t(9)] of_frame(3) [OF t(10)]
  have "store_same org store d d'" if "(org, store) \<noteq> (Actor_OrganizationID actor, Actor_StoreID actor)" for org store
  proof -
    have "stock_level d' (org, store, x) = stock_level d (org, store, x) \<and>
        movements_of d' (org, store, x) = movements_of d (org, store, x)" for x
      using o that unfolding only_stock_def by blast
    then show ?thesis using t by (simp add: store_same_def same)
  qed
  with t show ?thesis unfolding elsewhere_same_def masters_same_def by blast
qed

section \<open>Fiscal documents\<close>

lemma update_document_elsewhere:
  assumes "update_document now cond f d = Inr (r, d')"
    and "\<And>x. Doc_ID (f x) = Doc_ID x \<and> doc_sale_key (f x) = doc_sale_key x"
    and "\<And>x. cond x \<Longrightarrow> Doc_OrganizationID x = Actor_OrganizationID actor \<and> Doc_StoreID x = Actor_StoreID actor"
  shows "elsewhere_same actor d d'"
  using assms(1)
proof (rule update_document_InrE)
  fix pre x post
  assume a: "db_fiscal_documents d = pre @ x # post" "cond x" "r = (f x)\<lparr>Doc_UpdatedAt := now\<rparr>"
    "d' = d\<lparr>db_fiscal_documents := pre @ r # post\<rparr>"
  have k: "doc_sale_key r = doc_sale_key x" using a(3) assms(2) [of x] by simp
  have "documents_of d' (org, store, sid) = documents_of d (org, store, sid)"
    if "(org, store) \<noteq> (Actor_OrganizationID actor, Actor_StoreID actor)" for org store sid
    using a(1,4) k assms(3) [OF a(2)] that by (auto simp: documents_of_def)
  moreover have "items_of d' = items_of d" "payments_of d' = payments_of d" "stock_level d' = stock_level d"
    "movements_of d' = movements_of d" by (rule of_frame; simp add: a(4))+
  moreover have "masters_same d d'" "db_sales d' = db_sales d" using a(4) by (simp_all add: masters_same_def)
  ultimately show ?thesis unfolding elsewhere_same_def store_same_def by metis
qed

lemma MarkAuthorized_elsewhere:
  "MarkFiscalDocumentAuthorizedForStore now (ToStoreScope actor) fid P d = Inr (r, d') \<Longrightarrow> elsewhere_same actor d d'"
  by (auto simp: MarkFiscalDocumentAuthorizedForStore_def Let_def result_simps document_in_scope_def split: if_splits
      elim!: update_document_elsewhere split: option.splits)

lemma MarkError_elsewhere:
  "MarkFiscalDocumentErrorForStore now (ToStoreScope actor) fid c m d = Inr (r, d') \<Longrightarrow> elsewhere_same actor d d'"
  by (auto simp: MarkFiscalDocumentErrorForStore_def Let_def result_simps document_in_scope_def split: if_splits
      elim!: update_document_elsewhere split: option.splits)

lemma authorizeFiscalDocument_elsewhere:
  assumes "authorizeFiscalDocument E T provider actor state d = (res, d')"
  shows "elsewhere_same actor d d'"
proof -
  have e: "elsewhere_same actor d d2" if "WithTx T (\<lambda>d. MarkFiscalDocumentErrorForStore (tx_now T) (ToStoreScope actor) fid a b d) d =
      (r2 :: checkout_error + _, d2)" for fid a b r2 d2
    by (rule WithTx_keeps [where Q = "elsewhere_same actor d", OF that elsewhere_same_refl])
       (blast intro: MarkError_elsewhere)
  have a: "elsewhere_same actor d d2" if "WithTx T (\<lambda>d. chain (MarkFiscalDocumentAuthorizedForStore (tx_now T) (ToStoreScope actor) fid P d)
      (\<lambda>(row, d). Inr (toFiscalDocumentResponse E row, d))) d = (r2 :: checkout_error + _, d2)" for fid P r2 d2
    by (rule WithTx_keeps [where Q = "elsewhere_same actor d", OF that elsewhere_same_refl])
       (auto simp: result_simps intro: MarkAuthorized_elsewhere)
  from assms show ?thesis
    by (auto simp: authorizeFiscalDocument_def split: option.splits sum.splits prod.splits dest: e a)
qed

lemma Fiscal_Authorize_elsewhere:
  "Fiscal_Authorize E now provider actor rawSaleID input d = (res, d') \<Longrightarrow> elsewhere_same actor d d'"
  by (auto simp: Fiscal_Authorize_def split: option.splits sum.splits prod.splits
      intro: MarkError_elsewhere MarkAuthorized_elsewhere)

section \<open>The checkout\<close>

lemma checked_out_elsewhere:
  assumes co: "checked_out E now actor sid inputs st d d'" and masters: "masters_same d d'"
  shows "elsewhere_same actor d d'"
proof -
  note c = co [unfolded checked_out_def Let_def]
  have o: "only_sale (Actor_OrganizationID actor, Actor_StoreID actor, sid) d d'" using c by blast
  from c obtain ps q where st: "stock_taken actor sid ps q d d'" by blast
  then obtain ms where ms: "db_movements d' = db_movements d @ ms" "\<forall>m \<in> set ms. sale_movement actor sid m"
    unfolding stock_taken_def by blast
  have "store_same org store d d'" if ne: "(org, store) \<noteq> (Actor_OrganizationID actor, Actor_StoreID actor)" for org store
  proof -
    have "movements_of d' (org, store, p) = movements_of d (org, store, p)" for p
      using ms ne by (auto simp: movements_of_def sale_movement_def filter_empty_conv)
    moreover have "stock_level d' (org, store, p) = stock_level d (org, store, p)" for p
      using st ne unfolding stock_taken_def by auto
    moreover have "(org, store, x) \<noteq> (Actor_OrganizationID actor, Actor_StoreID actor, sid)" for x using ne by blast
    ultimately show ?thesis
      using only_sale_in_store [OF o ne] checked_out_others [OF co] by (simp add: store_same_def)
  qed
  with masters show ?thesis unfolding elsewhere_same_def by blast
qed

section \<open>Stock entries and adjustments\<close>

lemma Inventory_CreateEntry_elsewhere:
  assumes "Inventory_CreateEntry E T actor input d = (res, d')" "scan_law E" "stock_inv d"
  shows "elsewhere_same actor d d'"
proof (cases res)
  case (Inl e)
  with assms show ?thesis by (auto dest!: Inventory_Inl_unchanged(1))
next
  case (Inr r)
  with assms show ?thesis
    by (auto elim!: CreateEntry_InrE dest!: CreateEntry_tx_step intro: stock_moved_elsewhere)
qed

lemma Inventory_CreateAdjustment_elsewhere:
  assumes "Inventory_CreateAdjustment E T actor input d = (res, d')" "scan_law E" "stock_inv d"
  shows "elsewhere_same actor d d'"
proof (cases res)
  case (Inl e)
  with assms show ?thesis by (auto dest!: Inventory_Inl_unchanged(2))
next
  case (Inr r)
  with assms show ?thesis
    by (auto elim!: CreateAdjustment_InrE dest!: CreateAdjustment_tx_step intro: stock_moved_elsewhere)
qed

section \<open>Every step\<close>

lemma step_elsewhere:
  assumes "step E actor d d'" "uuid_law E" "scan_law E" "system_inv E d"
  shows "elsewhere_same actor d d'"
  using assms(1)
proof cases
  case (checkout payments nps T sid r8)
  show ?thesis
  proof (rule WithTx_keeps [where Q = "elsewhere_same actor d", OF checkout(2) elsewhere_same_refl])
    fix r d1 assume "Checkout_tx E T actor sid nps d = Inr (r, d1)"
    from Checkout_tx_done [OF this assms(4,2) normalized_money [OF assms(3) checkout(1)]]
    show "elsewhere_same actor d d1" by (blast intro: checked_out_elsewhere)
  qed
qed (use assms in \<open>blast intro: sales_kept_elsewhere Sales_Create_kept Sales_AddItem_kept Sales_UpdateItem_kept
    Sales_RemoveItem_kept Sales_Cancel_kept system_sales authorizeFiscalDocument_elsewhere
    Fiscal_Authorize_elsewhere Inventory_CreateEntry_elsewhere Inventory_CreateAdjustment_elsewhere system_stock\<close>)+

end
