(* ===== verification/System_Properties.thy ===== *)
theory System_Properties
  imports Sales_Properties Isolation
begin

text \<open>
  Properties of the services together: what holds of every database that any sequence of
  requests, by any actors, can lead to.
\<close>

section \<open>A database to start from\<close>

text \<open>Stores, members, products and payment methods are there; nothing has been sold or stocked.\<close>

definition no_trade :: "db \<Rightarrow> bool" where
  "no_trade d \<longleftrightarrow> db_sales d = [] \<and> db_sale_items d = [] \<and> db_inventory d = [] \<and> db_movements d = [] \<and>
     db_payments d = [] \<and> db_fiscal_documents d = []"

lemma no_trade_system: "no_trade d \<Longrightarrow> system_inv E d"
  by (simp add: no_trade_def system_inv_def sales_inv_def sales_wf_def sales.unique_def sale_items.unique_def
      stock_inv_def stock.unique_def movements.unique_def ledger.balanced_def movements_of_def stock_level_def
      payments_inv_def payments.unique_def documents_inv_def documents.unique_def refs_ok_def payments_of_def
      documents_of_def sale_movements_def)

lemma checkout_step:
  "normalizeCheckoutInput E ps = Inr nps \<Longrightarrow> Checkout_tx E T actor sid nps d = Inr (st, d') \<Longrightarrow>
     tx_begin_error T = None \<Longrightarrow> tx_commit_error T = None \<Longrightarrow> step E actor d d'"
  using step.checkout [of E ps nps T actor sid d "Inr st" d'] by (simp add: WithTx_def)

lemma example_step: "step example_env example_actor example_open example_closed"
  by (rule checkout_step [OF example_input_normalized example_checkout]) (simp_all add: example_tx_def)

lemma example_reachable: "reachable example_env example_open example_closed"
  by (rule reachable.request [OF reachable.start example_step])

section \<open>Properties\<close>

text \<open>C3: from a database without trade, and so from any database the requests can reach, every
  request keeps the invariant of the whole database: rows satisfy their constraints, sale totals are
  the sums over the items, balances are the replay of the movements, and payments, documents and
  stock movements belong to completed sales and settle them.\<close>

theorem requests_keep_invariant:
  assumes "uuid_law E" "scan_law E" "no_trade d0" "reachable E d0 d" "step E actor d d'"
  shows "system_inv E d \<and> system_inv E d'"
proof -
  have "system_inv E d" by (rule reachable_system [OF assms(4,1,2) no_trade_system [OF assms(3)]])
  with step_system [OF assms(5,1,2)] show ?thesis by blast
qed

theorem requests_keep_invariant_witness:
  "\<exists>d'. system_inv example_env d' \<and> db_sales d' \<noteq> []"
proof -
  let ?d0 = "example_shop\<lparr>db_inventory := [], db_movements := []\<rparr>"
  obtain r d' where c: "Sales_Create example_env example_tx example_actor ''first'' ?d0 = (Inr r, d')" "db_sales d' \<noteq> []"
    using example_create_with by blast
  have "no_trade ?d0" by (simp add: no_trade_def example_shop_def)
  from requests_keep_invariant [OF example_uuid_law example_scan_law this reachable.start step.sales_create [OF c(1)]] c(2)
  show ?thesis by blast
qed

text \<open>C1: in every reachable database a completed sale has been paid in full by approved payments,
  has exactly one fiscal document, and has taken exactly the sold quantity of each of its products
  from the stock, while a sale that is open or cancelled has no payment, document or movement.\<close>

theorem completed_sales_settled:
  assumes "uuid_law E" "scan_law E" "system_inv E d" "reachable E d d'" "s \<in> set (db_sales d')"
  shows "let k = sale_key s in
    if Sale_Status s = SaleCOMPLETED then
      payments_of d' k \<noteq> [] \<and> (\<forall>p \<in> set (payments_of d' k). Payment_Status p = PayAPPROVED) \<and>
      sum_list (map Payment_Amount (payments_of d' k)) = Sale_Total s \<and>
      Sale_Total s = sum_list (map Item_Total (items_of d' k)) \<and> length (documents_of d' k) = 1 \<and>
      Movement_ProductID ` set (sale_movements d' k) = Item_ProductID ` set (items_of d' k) \<and>
      (\<forall>m \<in> set (sale_movements d' k). Movement_Quantity m = sold (items_of d' k) (Movement_ProductID m))
    else payments_of d' k = [] \<and> documents_of d' k = [] \<and> sale_movements d' k = []"
proof -
  have i: "system_inv E d'" by (rule reachable_system [OF assms(4,1,2,3)])
  with assms(5) have "settled d' s" "sale_totals_ok d' s" by (simp_all add: system_inv_def sales_inv_def)
  then show ?thesis by (simp add: settled_def sale_totals_ok_def Let_def)
qed

theorem completed_sales_settled_witness:
  "sum_list (map Payment_Amount (payments_of example_closed (1, 2, 30))) = 2500"
proof -
  have "example_completed \<in> set (db_sales example_closed)" by (simp add: example_closed_def)
  from completed_sales_settled [OF example_uuid_law example_scan_law example_open_inv example_reachable this]
  show ?thesis by (simp add: example_completed_def example_sale_def Let_def)
qed

text \<open>C2: in every reachable database the balance of a product in a store is never negative, is the
  sum of its movements with their signs, and is the balance its last movement states.\<close>

theorem stock_is_ledger:
  assumes "uuid_law E" "scan_law E" "system_inv E d" "reachable E d d'"
  shows "0 \<le> stock_level d' k \<and> stock_level d' k = sum_list (map movement_delta (movements_of d' k)) \<and>
    (movements_of d' k \<noteq> [] \<longrightarrow> Movement_CurrentQuantity (last (movements_of d' k)) = stock_level d' k)"
proof -
  have "ledger.balanced d'"
    using system_stock [OF reachable_system [OF assms(4,1,2,3)]] by (simp add: stock_inv_def)
  then show ?thesis using ledger.balanced_sum ledger.balanced_nonneg ledger.balanced_last by blast
qed

theorem stock_is_ledger_witness:
  "stock_level example_closed (1, 2, 10) = 6000 \<and>
     sum_list (map movement_delta (movements_of example_closed (1, 2, 10))) = 6000"
proof -
  have "movements_of example_closed (1, 2, 10) = [example_purchase, example_taken]"
    by (simp add: movements_of_def example_rows example_defs)
  then show ?thesis
    using stock_is_ledger [OF example_uuid_law example_scan_law example_open_inv example_reachable, of "(1, 2, 10)"]
    by (simp add: example_rows example_defs)
qed

text \<open>C4: no sequence of requests changes a sale that has been completed or cancelled, nor its items.\<close>

theorem closed_sales_immutable:
  assumes "uuid_law E" "scan_law E" "system_inv E d" "reachable E d d'"
    and "s \<in> set (db_sales d)" "Sale_Status s \<noteq> SaleOPEN"
  shows "s \<in> set (db_sales d') \<and> items_of d' (sale_key s) = items_of d (sale_key s)"
  using reachable_closed [OF assms(4,1,2,3)] assms(5,6) by (simp add: closed_kept_def)

theorem closed_sales_immutable_witness:
  "\<exists>d. example_completed \<in> set (db_sales d) \<and> items_of d (1, 2, 30) = [example_item] \<and> reachable example_env example_closed d"
proof -
  have inv: "system_inv example_env example_closed"
    by (rule reachable_system [OF example_reachable example_uuid_law example_scan_law example_open_inv])
  have c: "example_completed \<in> set (db_sales example_closed)" by (simp add: example_closed_def)
  obtain r d where "Sales_Cancel example_env example_tx example_actor (uuid_String example_env 30) example_closed = (r, d)"
    by (cases "Sales_Cancel example_env example_tx example_actor (uuid_String example_env 30) example_closed")
  from reachable.request [OF reachable.start step.sales_cancel [OF this]] have r: "reachable example_env example_closed d" .
  have "items_of example_closed (1, 2, 30) = [example_item]" by (simp add: items_of_def example_rows example_defs)
  with closed_sales_immutable [OF example_uuid_law example_scan_law inv r c] r
  show ?thesis by (auto simp: example_completed_def example_sale_def)
qed



end
