(* ===== verification/Auth_Database.thy ===== *)
theory Auth_Database
  imports Tables
begin

text \<open>
  The tables of identity and access: users, organizations with their members and stores,
  sessions, refresh tokens and the audit trail (\<open>models.go\<close>), with the constraints and
  triggers of \<open>20260717090500_create_auth_sessions_and_tokens\<close> and
  \<open>20260717090600_create_audit_events\<close>. Times are counted in microseconds, the resolution of
  the columns.
\<close>

section \<open>Enumerations\<close>

datatype user_status = UserACTIVE | UserSUSPENDED | UserDISABLED

datatype organization_status = OrgACTIVE | OrgSUSPENDED | OrgARCHIVED

datatype membership_status = MemACTIVE | MemSUSPENDED | MemREMOVED

datatype store_status = StoreACTIVE | StoreINACTIVE | StoreARCHIVED

datatype auth_session_status = SesACTIVE | SesREVOKED | SesCOMPROMISED | SesEXPIRED

datatype auth_context_kind = CtxIDENTITY | CtxORGANIZATION | CtxSTORE

datatype permission_scope_level = LevelORGANIZATION | LevelSTORE

datatype role_assignment_scope = AssignORGANIZATION | AssignSTORE

datatype audit_outcome = AuditSUCCESS | AuditFAILURE

fun session_status_string :: "auth_session_status \<Rightarrow> string" where
  "session_status_string SesACTIVE = ''ACTIVE''"
| "session_status_string SesREVOKED = ''REVOKED''"
| "session_status_string SesCOMPROMISED = ''COMPROMISED''"
| "session_status_string SesEXPIRED = ''EXPIRED''"

section \<open>Rows\<close>

record user =
  User_ID :: uuid
  User_Email :: string
  User_EmailNormalized :: string
  User_DisplayName :: string
  User_Status :: user_status
  User_EmailVerifiedAt :: "time option"
  User_PasswordVersion :: int
  User_LastLoginAt :: "time option"
  User_CreatedAt :: time
  User_UpdatedAt :: time

record organization =
  Org_ID :: uuid
  Org_Name :: string
  Org_Slug :: string
  Org_Status :: organization_status
  Org_Timezone :: string
  Org_Locale :: string
  Org_Currency :: string
  Org_AuthorizationVersion :: int
  Org_CreatedByUserID :: "uuid option"
  Org_ArchivedAt :: "time option"
  Org_CreatedAt :: time
  Org_UpdatedAt :: time

record membership =
  Mem_ID :: uuid
  Mem_OrganizationID :: uuid
  Mem_UserID :: uuid
  Mem_Status :: membership_status
  Mem_DefaultStoreID :: "uuid option"
  Mem_AuthorizationVersion :: int
  Mem_JoinedAt :: time
  Mem_SuspendedAt :: "time option"
  Mem_RemovedAt :: "time option"
  Mem_CreatedByUserID :: "uuid option"
  Mem_CreatedAt :: time
  Mem_UpdatedAt :: time

record store =
  Store_ID :: uuid
  Store_OrganizationID :: uuid
  Store_Code :: string
  Store_Name :: string
  Store_Status :: store_status
  Store_Timezone :: string
  Store_CreatedByUserID :: "uuid option"
  Store_ArchivedAt :: "time option"
  Store_CreatedAt :: time
  Store_UpdatedAt :: time

record auth_session =
  Ses_ID :: uuid
  Ses_UserID :: uuid
  Ses_Status :: auth_session_status
  Ses_ClientID :: string
  Ses_DeviceName :: "string option"
  Ses_UserAgent :: "string option"
  Ses_IpAddress :: "string option"
  Ses_ContextKind :: auth_context_kind
  Ses_OrganizationID :: "uuid option"
  Ses_MembershipID :: "uuid option"
  Ses_StoreID :: "uuid option"
  Ses_IdleExpiresAt :: time
  Ses_AbsoluteExpiresAt :: time
  Ses_LastSeenAt :: time
  Ses_RevokedAt :: "time option"
  Ses_RevokeReason :: "string option"
  Ses_CreatedAt :: time
  Ses_UpdatedAt :: time

record refresh_token =
  Tok_ID :: uuid
  Tok_SessionID :: uuid
  Tok_ParentTokenID :: "uuid option"
  Tok_ReplacedByTokenID :: "uuid option"
  Tok_SecretHash :: "nat list"
  Tok_ExpiresAt :: time
  Tok_ConsumedAt :: "time option"
  Tok_RevokedAt :: "time option"
  Tok_CreatedAt :: time

record permission_scope =
  Scope_Code :: string
  Scope_Resource :: string
  Scope_Action :: string
  Scope_Level :: permission_scope_level
  Scope_Description :: string
  Scope_IsAssignable :: bool
  Scope_CreatedAt :: time

record role =
  Role_ID :: uuid
  Role_OrganizationID :: uuid
  Role_Key :: string
  Role_Name :: string
  Role_Description :: "string option"
  Role_AssignmentScope :: role_assignment_scope
  Role_IsSystem :: bool
  Role_IsMutable :: bool
  Role_IsActive :: bool
  Role_CreatedByMembershipID :: "uuid option"
  Role_CreatedAt :: time
  Role_UpdatedAt :: time

record role_scope =
  RS_OrganizationID :: uuid
  RS_RoleID :: uuid
  RS_ScopeCode :: string
  RS_CreatedAt :: time

record role_binding =
  Bind_ID :: uuid
  Bind_OrganizationID :: uuid
  Bind_MembershipID :: uuid
  Bind_RoleID :: uuid
  Bind_StoreID :: "uuid option"
  Bind_CreatedByMembershipID :: uuid
  Bind_ExpiresAt :: "time option"
  Bind_CreatedAt :: time

text \<open>The values of an event's metadata object.\<close>

datatype metadata_value = MetaText string | MetaInt int | MetaBool bool | MetaNull

record audit_event =
  Audit_ID :: uuid
  Audit_OrganizationID :: "uuid option"
  Audit_StoreID :: "uuid option"
  Audit_ActorUserID :: "uuid option"
  Audit_ActorMembershipID :: "uuid option"
  Audit_SessionID :: "uuid option"
  Audit_EventType :: string
  Audit_EntityType :: "string option"
  Audit_EntityID :: "uuid option"
  Audit_RequestID :: "string option"
  Audit_IpAddress :: "string option"
  Audit_UserAgent :: "string option"
  Audit_Outcome :: audit_outcome
  Audit_Metadata :: "(string \<times> metadata_value) list"
  Audit_OccurredAt :: time

record auth_db =
  au_users :: "user list"
  au_organizations :: "organization list"
  au_memberships :: "membership list"
  au_stores :: "store list"
  au_scopes :: "permission_scope list"
  au_roles :: "role list"
  au_role_scopes :: "role_scope list"
  au_bindings :: "role_binding list"
  au_sessions :: "auth_session list"
  au_refresh_tokens :: "refresh_token list"
  au_audit :: "audit_event list"
  au_uuid_calls :: nat

interpretation auth_sessions: row_table au_sessions "\<lambda>rs d. d\<lparr>au_sessions := rs\<rparr>" Ses_ID
  by unfold_locales simp

interpretation refresh_tokens: row_table au_refresh_tokens "\<lambda>rs d. d\<lparr>au_refresh_tokens := rs\<rparr>" Tok_ID
  by unfold_locales simp

interpretation roles: row_table au_roles "\<lambda>rs d. d\<lparr>au_roles := rs\<rparr>" Role_ID
  by unfold_locales simp

interpretation bindings: row_table au_bindings "\<lambda>rs d. d\<lparr>au_bindings := rs\<rparr>" Bind_ID
  by unfold_locales simp

interpretation memberships: row_table au_memberships "\<lambda>rs d. d\<lparr>au_memberships := rs\<rparr>" Mem_ID
  by unfold_locales simp

section \<open>Constraints\<close>

definition auth_session_checks :: "auth_session \<Rightarrow> (string \<times> bool) list" where
  "auth_session_checks s =
     (let not_blank = (\<lambda>t. case t of None \<Rightarrow> True | Some x \<Rightarrow> \<not> btrim_blank x) in
    [(''auth_sessions_absolute_expires_at_check'', Ses_AbsoluteExpiresAt s > Ses_CreatedAt s),
     (''auth_sessions_client_id_not_blank'', \<not> btrim_blank (Ses_ClientID s)),
     (''auth_sessions_context_check'',
        case Ses_ContextKind s of
          CtxIDENTITY \<Rightarrow> Ses_OrganizationID s = None \<and> Ses_MembershipID s = None \<and> Ses_StoreID s = None
        | CtxORGANIZATION \<Rightarrow> Ses_OrganizationID s \<noteq> None \<and> Ses_MembershipID s \<noteq> None \<and> Ses_StoreID s = None
        | CtxSTORE \<Rightarrow> Ses_OrganizationID s \<noteq> None \<and> Ses_MembershipID s \<noteq> None \<and> Ses_StoreID s \<noteq> None),
     (''auth_sessions_device_name_not_blank'', not_blank (Ses_DeviceName s)),
     (''auth_sessions_expiration_order_check'', Ses_IdleExpiresAt s \<le> Ses_AbsoluteExpiresAt s),
     (''auth_sessions_idle_expires_at_check'', Ses_IdleExpiresAt s > Ses_CreatedAt s),
     (''auth_sessions_last_seen_at_check'', Ses_LastSeenAt s \<ge> Ses_CreatedAt s),
     (''auth_sessions_revoke_reason_not_blank'', not_blank (Ses_RevokeReason s)),
     (''auth_sessions_revoked_at_check'',
        case Ses_RevokedAt s of None \<Rightarrow> True | Some t \<Rightarrow> t \<ge> Ses_CreatedAt s),
     (''auth_sessions_status_check'',
        if Ses_Status s = SesACTIVE then Ses_RevokedAt s = None \<and> Ses_RevokeReason s = None
        else Ses_RevokedAt s \<noteq> None),
     (''auth_sessions_updated_at_check'', Ses_UpdatedAt s \<ge> Ses_CreatedAt s),
     (''auth_sessions_user_agent_not_blank'', not_blank (Ses_UserAgent s))])"

text \<open>\<open>validate_auth_session_context\<close>: the session's membership belongs to the session's user.\<close>

definition session_context_ok :: "auth_db \<Rightarrow> auth_session \<Rightarrow> bool" where
  "session_context_ok d s \<longleftrightarrow>
     (Ses_ContextKind s \<noteq> CtxIDENTITY \<and> Ses_OrganizationID s \<noteq> None \<and> Ses_MembershipID s \<noteq> None \<longrightarrow>
      list_ex (\<lambda>m. Ses_OrganizationID s = Some (Mem_OrganizationID m) \<and> Ses_MembershipID s = Some (Mem_ID m) \<and>
        Mem_UserID m = Ses_UserID s) (au_memberships d))"

text \<open>The references of a session; a reference with a null column is not checked.\<close>

definition session_references_ok :: "auth_db \<Rightarrow> auth_session \<Rightarrow> 's go_error + unit" where
  "session_references_ok d s =
     chain (guard_error (list_ex (\<lambda>u. User_ID u = Ses_UserID s) (au_users d))
             (PgError ''23503'' ''auth_sessions_user_id_fkey'')) (\<lambda>_.
     chain (guard_error (Ses_OrganizationID s = None \<or> Ses_MembershipID s = None \<or>
               list_ex (\<lambda>m. Ses_OrganizationID s = Some (Mem_OrganizationID m) \<and>
                 Ses_MembershipID s = Some (Mem_ID m)) (au_memberships d))
             (PgError ''23503'' ''auth_sessions_current_membership_fkey'')) (\<lambda>_.
     guard_error (Ses_OrganizationID s = None \<or> Ses_StoreID s = None \<or>
               list_ex (\<lambda>t. Ses_OrganizationID s = Some (Store_OrganizationID t) \<and>
                 Ses_StoreID s = Some (Store_ID t)) (au_stores d))
             (PgError ''23503'' ''auth_sessions_current_store_fkey'')))"

definition refresh_token_checks :: "refresh_token \<Rightarrow> (string \<times> bool) list" where
  "refresh_token_checks t =
    [(''auth_refresh_tokens_consumed_at_check'',
        case Tok_ConsumedAt t of None \<Rightarrow> True | Some x \<Rightarrow> x \<ge> Tok_CreatedAt t),
     (''auth_refresh_tokens_expires_at_check'', Tok_ExpiresAt t > Tok_CreatedAt t),
     (''auth_refresh_tokens_parent_not_self'', Tok_ParentTokenID t \<noteq> Some (Tok_ID t)),
     (''auth_refresh_tokens_replacement_not_self'', Tok_ReplacedByTokenID t \<noteq> Some (Tok_ID t)),
     (''auth_refresh_tokens_revoked_at_check'',
        case Tok_RevokedAt t of None \<Rightarrow> True | Some x \<Rightarrow> x \<ge> Tok_CreatedAt t),
     (''auth_refresh_tokens_secret_hash_length'', length (Tok_SecretHash t) = 32)]"

text \<open>
  \<open>validate_refresh_token_lineage\<close>, a constraint trigger deferred to the commit: parent and
  replacement links are reciprocal. The trigger looks at the tokens the transaction changed;
  the others satisfied it before and are checked here too.
\<close>

definition tokens_linked :: "refresh_token list \<Rightarrow> bool" where
  "tokens_linked ts \<longleftrightarrow>
     list_all (\<lambda>c. case Tok_ParentTokenID c of None \<Rightarrow> True | Some p \<Rightarrow>
        list_ex (\<lambda>t. Tok_SessionID t = Tok_SessionID c \<and> Tok_ID t = p \<and> Tok_ReplacedByTokenID t = Some (Tok_ID c)) ts) ts \<and>
     list_all (\<lambda>p. case Tok_ReplacedByTokenID p of None \<Rightarrow> True | Some c \<Rightarrow>
        list_ex (\<lambda>t. Tok_SessionID t = Tok_SessionID p \<and> Tok_ID t = c \<and> Tok_ParentTokenID t = Some (Tok_ID p)) ts) ts"

definition lineage_ok :: "auth_db \<Rightarrow> bool" where
  "lineage_ok d = tokens_linked (au_refresh_tokens d)"

definition audit_event_checks :: "audit_event \<Rightarrow> (string \<times> bool) list" where
  "audit_event_checks e =
     (let not_blank = (\<lambda>t. case t of None \<Rightarrow> True | Some x \<Rightarrow> \<not> btrim_blank x) in
    [(''security_audit_events_entity_type_not_blank'', not_blank (Audit_EntityType e)),
     (''security_audit_events_event_type_not_blank'', \<not> btrim_blank (Audit_EventType e)),
     (''security_audit_events_membership_context_check'',
        Audit_ActorMembershipID e = None \<or> Audit_OrganizationID e \<noteq> None),
     (''security_audit_events_request_id_not_blank'', not_blank (Audit_RequestID e)),
     (''security_audit_events_store_context_check'', Audit_StoreID e = None \<or> Audit_OrganizationID e \<noteq> None),
     (''security_audit_events_user_agent_not_blank'', not_blank (Audit_UserAgent e))])"

text \<open>\<open>validate_security_audit_actor\<close>: the actor's membership belongs to the actor.\<close>

definition audit_actor_ok :: "auth_db \<Rightarrow> audit_event \<Rightarrow> bool" where
  "audit_actor_ok d e \<longleftrightarrow> Audit_ActorMembershipID e = None \<or>
     list_ex (\<lambda>m. Some (Mem_OrganizationID m) = Audit_OrganizationID e \<and> Some (Mem_ID m) = Audit_ActorMembershipID e \<and>
       Some (Mem_UserID m) = Audit_ActorUserID e) (au_memberships d)"

section \<open>Transactions\<close>

text \<open>The commit of a transaction on these tables runs the deferred trigger.\<close>

definition Auth_WithTx ::
    "txn \<Rightarrow> (auth_db \<Rightarrow> 's go_error + 'a \<times> auth_db) \<Rightarrow> auth_db \<Rightarrow> ('s go_error + 'a) \<times> auth_db" where
  "Auth_WithTx T fn d =
     WithTx T (\<lambda>d. chain (fn d) (\<lambda>(r, d').
       chain (guard_error (lineage_ok d') (PgError ''23514'' ''auth_refresh_tokens_lineage_consistency'')) (\<lambda>_.
       Inr (r, d')))) d"

lemma Auth_WithTx_Inr [result_simps]:
  "Auth_WithTx T fn d = (Inr r, d') \<longleftrightarrow>
     tx_begin_error T = None \<and> tx_commit_error T = None \<and> fn d = Inr (r, d') \<and> lineage_ok d'"
  by (auto simp: Auth_WithTx_def result_simps)

lemma Auth_WithTx_Inl: "Auth_WithTx T fn d = (Inl e, d') \<Longrightarrow> d' = d"
  by (simp add: Auth_WithTx_def WithTx_Inl)

lemma Auth_WithTx_keeps:
  assumes "Auth_WithTx T fn d = (res, d')" "Q d" "\<And>r d1. fn d = Inr (r, d1) \<Longrightarrow> lineage_ok d1 \<Longrightarrow> Q d1"
  shows "Q d'"
proof (cases res)
  case (Inl e)
  with assms(1,2) show ?thesis using Auth_WithTx_Inl by blast
next
  case (Inr r)
  with assms(1,3) show ?thesis by (auto simp: result_simps)
qed

end
