(* ===== verification/Session_Queries.thy ===== *)
theory Session_Queries
  imports Auth_Database
begin

text \<open>
  The statements of \<open>platform/database/sessions.sql.go\<close> that the session service runs, and
  \<open>CreateAuditEvent\<close> of \<open>audit.sql.go\<close>, on the tables of identity and access.
\<close>

section \<open>Sessions\<close>

record create_session_params =
  CS_UserID :: uuid
  CS_ClientID :: string
  CS_DeviceName :: "string option"
  CS_UserAgent :: "string option"
  CS_IpAddress :: "string option"
  CS_ContextKind :: auth_context_kind
  CS_OrganizationID :: "uuid option"
  CS_MembershipID :: "uuid option"
  CS_StoreID :: "uuid option"
  CS_IdleExpiresAt :: time
  CS_AbsoluteExpiresAt :: time

definition new_session :: "time \<Rightarrow> uuid \<Rightarrow> create_session_params \<Rightarrow> auth_session" where
  "new_session now sid P =
     \<lparr>Ses_ID = sid, Ses_UserID = CS_UserID P, Ses_Status = SesACTIVE, Ses_ClientID = CS_ClientID P,
      Ses_DeviceName = CS_DeviceName P, Ses_UserAgent = CS_UserAgent P, Ses_IpAddress = CS_IpAddress P,
      Ses_ContextKind = CS_ContextKind P, Ses_OrganizationID = CS_OrganizationID P,
      Ses_MembershipID = CS_MembershipID P, Ses_StoreID = CS_StoreID P,
      Ses_IdleExpiresAt = CS_IdleExpiresAt P, Ses_AbsoluteExpiresAt = CS_AbsoluteExpiresAt P,
      Ses_LastSeenAt = now, Ses_RevokedAt = None, Ses_RevokeReason = None,
      Ses_CreatedAt = now, Ses_UpdatedAt = now\<rparr>"

definition CreateAuthSession ::
    "env \<Rightarrow> time \<Rightarrow> create_session_params \<Rightarrow> auth_db \<Rightarrow> 's go_error + auth_session \<times> auth_db" where
  "CreateAuthSession E now P d =
     chain (pg_varchar 50 (CS_ClientID P)) (\<lambda>_.
     chain (pg_varchar_null 150 (CS_DeviceName P)) (\<lambda>_.
     chain (pg_varchar_null 512 (CS_UserAgent P)) (\<lambda>_.
     let s = new_session now (uuidv7 E (au_uuid_calls d)) P in
     chain (guard_error (session_context_ok d s) (PgError ''23514'' ''auth_sessions_user_membership_check'')) (\<lambda>_.
     chain (check_row (auth_session_checks s)) (\<lambda>_.
     chain (guard_error (List.find (\<lambda>r. Ses_ID r = Ses_ID s) (au_sessions d) = None)
             (PgError ''23505'' ''auth_sessions_pkey'')) (\<lambda>_.
     chain (session_references_ok d s) (\<lambda>_.
     Inr (s, d\<lparr>au_sessions := au_sessions d @ [s], au_uuid_calls := Suc (au_uuid_calls d)\<rparr>))))))))"

text \<open>
  An \<open>UPDATE auth_sessions\<close>: \<open>updated_at\<close>, the trigger that keeps a terminal status, then the
  constraints.
\<close>

definition write_session :: "time \<Rightarrow> (auth_session \<Rightarrow> auth_session) \<Rightarrow> auth_session \<Rightarrow> 's go_error + auth_session" where
  "write_session now f s =
     (let s' = (f s)\<lparr>Ses_UpdatedAt := now\<rparr> in
      chain (guard_error (Ses_Status s = SesACTIVE \<or> Ses_Status s' = Ses_Status s)
               (PgError ''23514'' ''auth_sessions_status_terminal'')) (\<lambda>_.
      chain (check_row (auth_session_checks s')) (\<lambda>_. Inr s')))"

definition terminated :: "time \<Rightarrow> auth_session_status \<Rightarrow> string \<Rightarrow> auth_session \<Rightarrow> auth_session" where
  "terminated now status reason s =
     s\<lparr>Ses_Status := status, Ses_RevokedAt := Some now, Ses_RevokeReason := Some reason\<rparr>"

definition MarkSessionCompromised ::
    "time \<Rightarrow> uuid \<Rightarrow> string \<Rightarrow> auth_db \<Rightarrow> 's go_error + auth_session \<times> auth_db" where
  "MarkSessionCompromised now sid reason d =
     chain (pg_varchar 100 reason) (\<lambda>reason.
     chain (update_row (\<lambda>s. Ses_ID s = sid \<and> Ses_Status s = SesACTIVE)
             (write_session now (terminated now SesCOMPROMISED reason)) (au_sessions d)) (\<lambda>(s, rows).
     Inr (s, d\<lparr>au_sessions := rows\<rparr>)))"

definition RevokeSession ::
    "time \<Rightarrow> uuid \<Rightarrow> uuid \<Rightarrow> string \<Rightarrow> auth_db \<Rightarrow> 's go_error + auth_session \<times> auth_db" where
  "RevokeSession now sid userID reason d =
     chain (pg_varchar 100 reason) (\<lambda>reason.
     chain (update_row (\<lambda>s. Ses_ID s = sid \<and> Ses_UserID s = userID \<and> Ses_Status s = SesACTIVE)
             (write_session now (terminated now SesREVOKED reason)) (au_sessions d)) (\<lambda>(s, rows).
     Inr (s, d\<lparr>au_sessions := rows\<rparr>)))"

definition RevokeAllActiveUserSessions ::
    "time \<Rightarrow> uuid \<Rightarrow> string \<Rightarrow> auth_db \<Rightarrow> 's go_error + uuid list \<times> auth_db" where
  "RevokeAllActiveUserSessions now userID reason d =
     chain (pg_varchar 100 reason) (\<lambda>reason.
     chain (update_rows (\<lambda>s. Ses_UserID s = userID \<and> Ses_Status s = SesACTIVE)
             (write_session now (terminated now SesREVOKED reason)) (au_sessions d)) (\<lambda>(us, rows).
     Inr (map Ses_ID us, d\<lparr>au_sessions := rows\<rparr>)))"

definition TouchSession :: "time \<Rightarrow> uuid \<Rightarrow> uuid \<Rightarrow> time \<Rightarrow> auth_db \<Rightarrow> 's go_error + auth_session \<times> auth_db" where
  "TouchSession now sid userID idleExpiresAt d =
     chain (update_row (\<lambda>s. Ses_ID s = sid \<and> Ses_UserID s = userID \<and> Ses_Status s = SesACTIVE \<and>
               Ses_IdleExpiresAt s > now \<and> Ses_AbsoluteExpiresAt s > now)
             (write_session now (\<lambda>s. s\<lparr>Ses_LastSeenAt := now,
                Ses_IdleExpiresAt := min idleExpiresAt (Ses_AbsoluteExpiresAt s)\<rparr>)) (au_sessions d)) (\<lambda>(s, rows).
     Inr (s, d\<lparr>au_sessions := rows\<rparr>))"

definition GetAuthSessionByID :: "uuid \<Rightarrow> auth_db \<Rightarrow> 's go_error + auth_session" where
  "GetAuthSessionByID sid d = one_row (List.find (\<lambda>s. Ses_ID s = sid) (au_sessions d))"

definition ListUserSessions :: "uuid \<Rightarrow> auth_db \<Rightarrow> auth_session list" where
  "ListUserSessions userID d =
     sort_key (\<lambda>s. - Ses_LastSeenAt s) (filter (\<lambda>s. Ses_UserID s = userID) (au_sessions d))"

text \<open>The session with its user, and the organization, membership and store of its context.\<close>

record session_state_row =
  SSR_Session :: auth_session
  SSR_UserStatus :: user_status
  SSR_PasswordVersion :: int
  SSR_OrganizationStatus :: "organization_status option"
  SSR_OrganizationAuthorizationVersion :: "int option"
  SSR_MembershipStatus :: "membership_status option"
  SSR_MembershipAuthorizationVersion :: "int option"
  SSR_StoreStatus :: "store_status option"

definition session_state_of :: "auth_db \<Rightarrow> auth_session \<Rightarrow> user \<Rightarrow> session_state_row" where
  "session_state_of d s u =
     (let o' = List.find (\<lambda>r. Some (Org_ID r) = Ses_OrganizationID s) (au_organizations d);
          m = List.find (\<lambda>r. Some (Mem_OrganizationID r) = Ses_OrganizationID s \<and>
                Some (Mem_ID r) = Ses_MembershipID s \<and> Mem_UserID r = Ses_UserID s) (au_memberships d);
          st = List.find (\<lambda>r. Some (Store_OrganizationID r) = Ses_OrganizationID s \<and>
                Some (Store_ID r) = Ses_StoreID s) (au_stores d)
      in \<lparr>SSR_Session = s, SSR_UserStatus = User_Status u, SSR_PasswordVersion = User_PasswordVersion u,
          SSR_OrganizationStatus = map_option Org_Status o',
          SSR_OrganizationAuthorizationVersion = map_option Org_AuthorizationVersion o',
          SSR_MembershipStatus = map_option Mem_Status m,
          SSR_MembershipAuthorizationVersion = map_option Mem_AuthorizationVersion m,
          SSR_StoreStatus = map_option Store_Status st\<rparr>)"

definition GetAuthSessionForUpdate :: "uuid \<Rightarrow> auth_db \<Rightarrow> 's go_error + session_state_row" where
  "GetAuthSessionForUpdate sid d =
     chain (one_row (List.find (\<lambda>s. Ses_ID s = sid) (au_sessions d))) (\<lambda>s.
     chain (one_row (List.find (\<lambda>u. User_ID u = Ses_UserID s) (au_users d))) (\<lambda>u.
     Inr (session_state_of d s u)))"

definition GetAuthSessionState :: "uuid \<Rightarrow> auth_db \<Rightarrow> 's go_error + session_state_row" where
  "GetAuthSessionState sid d =
     chain (one_row (List.find (\<lambda>s. Ses_ID s = sid) (au_sessions d))) (\<lambda>s.
     chain (one_row (List.find (\<lambda>u. User_ID u = Ses_UserID s) (au_users d))) (\<lambda>u.
     Inr (session_state_of d s u)))"

section \<open>Refresh tokens\<close>

record create_token_params =
  CT_ID :: uuid
  CT_SessionID :: uuid
  CT_ParentTokenID :: "uuid option"
  CT_SecretHash :: "nat list"
  CT_ExpiresAt :: time

definition new_token :: "time \<Rightarrow> create_token_params \<Rightarrow> refresh_token" where
  "new_token now P =
     \<lparr>Tok_ID = CT_ID P, Tok_SessionID = CT_SessionID P, Tok_ParentTokenID = CT_ParentTokenID P,
      Tok_ReplacedByTokenID = None, Tok_SecretHash = CT_SecretHash P, Tok_ExpiresAt = CT_ExpiresAt P,
      Tok_ConsumedAt = None, Tok_RevokedAt = None, Tok_CreatedAt = now\<rparr>"

definition CreateRefreshToken ::
    "time \<Rightarrow> create_token_params \<Rightarrow> auth_db \<Rightarrow> 's go_error + refresh_token \<times> auth_db" where
  "CreateRefreshToken now P d =
     (let t = new_token now P in
      chain (check_row (refresh_token_checks t)) (\<lambda>_.
      chain (guard_error (List.find (\<lambda>r. Tok_ID r = Tok_ID t) (au_refresh_tokens d) = None)
              (PgError ''23505'' ''auth_refresh_tokens_pkey'')) (\<lambda>_.
      chain (guard_error (List.find (\<lambda>r. Tok_SecretHash r = Tok_SecretHash t) (au_refresh_tokens d) = None)
              (PgError ''23505'' ''idx_auth_refresh_tokens_secret_hash'')) (\<lambda>_.
      chain (guard_error (Tok_ParentTokenID t = None \<or>
                List.find (\<lambda>r. Tok_ParentTokenID r = Tok_ParentTokenID t) (au_refresh_tokens d) = None)
              (PgError ''23505'' ''idx_auth_refresh_tokens_parent_unique'')) (\<lambda>_.
      chain (guard_error (list_ex (\<lambda>s. Ses_ID s = Tok_SessionID t) (au_sessions d))
              (PgError ''23503'' ''auth_refresh_tokens_session_id_fkey'')) (\<lambda>_.
      chain (guard_error (Tok_ParentTokenID t = None \<or>
                list_ex (\<lambda>r. Tok_SessionID r = Tok_SessionID t \<and> Some (Tok_ID r) = Tok_ParentTokenID t)
                  (au_refresh_tokens d))
              (PgError ''23503'' ''auth_refresh_tokens_parent_token_id_fkey'')) (\<lambda>_.
      Inr (t, d\<lparr>au_refresh_tokens := au_refresh_tokens d @ [t]\<rparr>))))))))"

definition GetRefreshTokenForUpdate :: "uuid \<Rightarrow> auth_db \<Rightarrow> 's go_error + refresh_token" where
  "GetRefreshTokenForUpdate tid d = one_row (List.find (\<lambda>t. Tok_ID t = tid) (au_refresh_tokens d))"

definition write_token :: "(refresh_token \<Rightarrow> refresh_token) \<Rightarrow> refresh_token \<Rightarrow> 's go_error + refresh_token" where
  "write_token f t = chain (check_row (refresh_token_checks (f t))) (\<lambda>_. Inr (f t))"

definition consume_token ::
    "time \<Rightarrow> uuid \<Rightarrow> auth_db \<Rightarrow> refresh_token \<Rightarrow> 's go_error + refresh_token" where
  "consume_token now replacedBy d t =
     chain (write_token (\<lambda>t. t\<lparr>Tok_ConsumedAt := Some now, Tok_ReplacedByTokenID := Some replacedBy\<rparr>) t) (\<lambda>t'.
     chain (guard_error (List.find (\<lambda>r. Tok_ReplacedByTokenID r = Some replacedBy \<and> Tok_ID r \<noteq> Tok_ID t)
               (au_refresh_tokens d) = None)
             (PgError ''23505'' ''idx_auth_refresh_tokens_replacement_unique'')) (\<lambda>_.
     chain (guard_error (list_ex (\<lambda>r. Tok_SessionID r = Tok_SessionID t \<and> Tok_ID r = replacedBy) (au_refresh_tokens d))
             (PgError ''23503'' ''auth_refresh_tokens_replaced_by_token_id_fkey'')) (\<lambda>_.
     Inr t')))"

definition ConsumeAndReplaceRefreshToken ::
    "time \<Rightarrow> uuid \<Rightarrow> uuid \<Rightarrow> uuid \<Rightarrow> auth_db \<Rightarrow> 's go_error + refresh_token \<times> auth_db" where
  "ConsumeAndReplaceRefreshToken now replacedBy sid tid d =
     chain (update_row (\<lambda>t. Tok_SessionID t = sid \<and> Tok_ID t = tid \<and> Tok_ConsumedAt t = None \<and>
               Tok_RevokedAt t = None \<and> Tok_ExpiresAt t > now)
             (consume_token now replacedBy d) (au_refresh_tokens d)) (\<lambda>(t, rows).
     Inr (t, d\<lparr>au_refresh_tokens := rows\<rparr>))"

definition RevokeSessionRefreshTokens ::
    "time \<Rightarrow> uuid \<Rightarrow> auth_db \<Rightarrow> 's go_error + refresh_token list \<times> auth_db" where
  "RevokeSessionRefreshTokens now sid d =
     chain (update_rows (\<lambda>t. Tok_SessionID t = sid \<and> Tok_RevokedAt t = None)
             (write_token (\<lambda>t. t\<lparr>Tok_RevokedAt := Some now\<rparr>)) (au_refresh_tokens d)) (\<lambda>(us, rows).
     Inr (us, d\<lparr>au_refresh_tokens := rows\<rparr>))"

definition RevokeAllUserRefreshTokens :: "time \<Rightarrow> uuid \<Rightarrow> auth_db \<Rightarrow> 's go_error + int \<times> auth_db" where
  "RevokeAllUserRefreshTokens now userID d =
     chain (update_rows (\<lambda>t. Tok_RevokedAt t = None \<and>
               list_ex (\<lambda>s. Ses_ID s = Tok_SessionID t \<and> Ses_UserID s = userID) (au_sessions d))
             (write_token (\<lambda>t. t\<lparr>Tok_RevokedAt := Some now\<rparr>)) (au_refresh_tokens d)) (\<lambda>(us, rows).
     Inr (int (length us), d\<lparr>au_refresh_tokens := rows\<rparr>))"

section \<open>Audit events\<close>

record create_audit_params =
  CA_OrganizationID :: "uuid option"
  CA_StoreID :: "uuid option"
  CA_ActorUserID :: "uuid option"
  CA_ActorMembershipID :: "uuid option"
  CA_SessionID :: "uuid option"
  CA_EventType :: string
  CA_EntityType :: "string option"
  CA_EntityID :: "uuid option"
  CA_RequestID :: "string option"
  CA_IpAddress :: "string option"
  CA_UserAgent :: "string option"
  CA_Outcome :: audit_outcome
  CA_Metadata :: "(string \<times> metadata_value) list"

definition new_audit_event :: "time \<Rightarrow> uuid \<Rightarrow> create_audit_params \<Rightarrow> audit_event" where
  "new_audit_event now eid P =
     \<lparr>Audit_ID = eid, Audit_OrganizationID = CA_OrganizationID P, Audit_StoreID = CA_StoreID P,
      Audit_ActorUserID = CA_ActorUserID P, Audit_ActorMembershipID = CA_ActorMembershipID P,
      Audit_SessionID = CA_SessionID P, Audit_EventType = CA_EventType P, Audit_EntityType = CA_EntityType P,
      Audit_EntityID = CA_EntityID P, Audit_RequestID = CA_RequestID P, Audit_IpAddress = CA_IpAddress P,
      Audit_UserAgent = CA_UserAgent P, Audit_Outcome = CA_Outcome P, Audit_Metadata = CA_Metadata P,
      Audit_OccurredAt = now\<rparr>"

definition CreateAuditEvent ::
    "env \<Rightarrow> time \<Rightarrow> create_audit_params \<Rightarrow> auth_db \<Rightarrow> 's go_error + audit_event \<times> auth_db" where
  "CreateAuditEvent E now P d =
     chain (pg_varchar 100 (CA_EventType P)) (\<lambda>_.
     chain (pg_varchar_null 80 (CA_EntityType P)) (\<lambda>_.
     chain (pg_varchar_null 100 (CA_RequestID P)) (\<lambda>_.
     chain (pg_varchar_null 512 (CA_UserAgent P)) (\<lambda>_.
     let e = new_audit_event now (uuidv7 E (au_uuid_calls d)) P in
     chain (guard_error (audit_actor_ok d e) (PgError ''23514'' ''security_audit_events_actor_membership_user_check'')) (\<lambda>_.
     chain (check_row (audit_event_checks e)) (\<lambda>_.
     chain (guard_error (List.find (\<lambda>r. Audit_ID r = Audit_ID e) (au_audit d) = None)
             (PgError ''23505'' ''security_audit_events_pkey'')) (\<lambda>_.
     chain (guard_error (case Audit_OrganizationID e of None \<Rightarrow> True | Some i \<Rightarrow>
               list_ex (\<lambda>r. Org_ID r = i) (au_organizations d))
             (PgError ''23503'' ''security_audit_events_organization_id_fkey'')) (\<lambda>_.
     chain (guard_error (Audit_OrganizationID e = None \<or> Audit_StoreID e = None \<or>
               list_ex (\<lambda>r. Some (Store_OrganizationID r) = Audit_OrganizationID e \<and> Some (Store_ID r) = Audit_StoreID e)
                 (au_stores d))
             (PgError ''23503'' ''security_audit_events_store_fkey'')) (\<lambda>_.
     chain (guard_error (case Audit_ActorUserID e of None \<Rightarrow> True | Some i \<Rightarrow>
               list_ex (\<lambda>r. User_ID r = i) (au_users d))
             (PgError ''23503'' ''security_audit_events_actor_user_id_fkey'')) (\<lambda>_.
     chain (guard_error (Audit_OrganizationID e = None \<or> Audit_ActorMembershipID e = None \<or>
               list_ex (\<lambda>r. Some (Mem_OrganizationID r) = Audit_OrganizationID e \<and>
                 Some (Mem_ID r) = Audit_ActorMembershipID e) (au_memberships d))
             (PgError ''23503'' ''security_audit_events_actor_membership_fkey'')) (\<lambda>_.
     Inr (e, d\<lparr>au_audit := au_audit d @ [e], au_uuid_calls := Suc (au_uuid_calls d)\<rparr>))))))))))))"

end
