(* ===== verification/Base64.thy ===== *)
theory Base64
  imports Sha256
begin

text \<open>
  \<open>base64.RawURLEncoding\<close> (no padding, the URL alphabet) and HMAC-SHA-256, as the standard
  library defines them. The decoder skips carriage returns and line feeds and ignores the
  spare bits of the last digit, as Go's does.
\<close>

unbundle bit_operations_syntax

section \<open>Base64\<close>

definition base64_char :: "nat \<Rightarrow> char" where
  "base64_char n = (if n < 26 then char_of (65 + n) else if n < 52 then char_of (71 + n)
     else if n < 62 then char_of (n - 4) else if n = 62 then CHR ''-'' else CHR ''_'')"

definition base64_val :: "char \<Rightarrow> nat option" where
  "base64_val c = (let n = of_char c in
     if 65 \<le> n \<and> n \<le> 90 then Some (n - 65) else if 97 \<le> n \<and> n \<le> 122 then Some (n - 71)
     else if 48 \<le> n \<and> n \<le> 57 then Some (n + 4) else if n = 45 then Some 62 else if n = 95 then Some 63 else None)"

fun base64_digits :: "nat list \<Rightarrow> nat list" where
  "base64_digits [] = []"
| "base64_digits [a] = [a div 4, (a mod 4) * 16]"
| "base64_digits [a, b] = [a div 4, (a mod 4) * 16 + b div 16, (b mod 16) * 4]"
| "base64_digits (a # b # c # bs) =
     a div 4 # ((a mod 4) * 16 + b div 16) # ((b mod 16) * 4 + c div 64) # (c mod 64) # base64_digits bs"

fun base64_bytes :: "nat list \<Rightarrow> nat list option" where
  "base64_bytes [] = Some []"
| "base64_bytes [a] = None"
| "base64_bytes [a, b] = Some [a * 4 + b div 16]"
| "base64_bytes [a, b, c] = Some [a * 4 + b div 16, (b mod 16) * 16 + c div 4]"
| "base64_bytes (a # b # c # d # ds) =
     map_option (\<lambda>bs. (a * 4 + b div 16) # ((b mod 16) * 16 + c div 4) # ((c mod 4) * 64 + d) # bs) (base64_bytes ds)"

definition RawURLEncoding_EncodeToString :: "nat list \<Rightarrow> string" where
  "RawURLEncoding_EncodeToString bytes = map base64_char (base64_digits bytes)"

definition RawURLEncoding_DecodeString :: "string \<Rightarrow> nat list option" where
  "RawURLEncoding_DecodeString s =
     (case those (map base64_val (filter (\<lambda>c. c \<noteq> CHR 0x0D \<and> c \<noteq> CHR 0x0A) s)) of
        None \<Rightarrow> None | Some ds \<Rightarrow> base64_bytes ds)"

lemma base64_val_char [simp]: "n < 64 \<Longrightarrow> base64_val (base64_char n) = Some n"
  by (auto simp: base64_val_def base64_char_def Let_def)

lemma base64_char_plain: "n < 64 \<Longrightarrow> base64_char n \<noteq> CHR 0x0D \<and> base64_char n \<noteq> CHR 0x0A \<and> base64_char n \<noteq> CHR ''=''"
  using base64_val_char [of n] by (auto simp del: base64_val_char simp: base64_val_def)

lemma base64_digits_small: "\<forall>b \<in> set bs. b < 256 \<Longrightarrow> \<forall>d \<in> set (base64_digits bs). d < 64"
  by (induction bs rule: base64_digits.induct) auto

lemma base64_bytes_digits: "\<forall>b \<in> set bs. b < 256 \<Longrightarrow> base64_bytes (base64_digits bs) = Some bs"
  by (induction bs rule: base64_digits.induct) auto

lemma those_vals: "\<forall>d \<in> set ds. d < 64 \<Longrightarrow> those (map base64_val (map base64_char ds)) = Some ds"
  by (induction ds) auto

lemma Decode_Encode:
  assumes "\<forall>b \<in> set bs. b < 256"
  shows "RawURLEncoding_DecodeString (RawURLEncoding_EncodeToString bs) = Some bs"
proof -
  note d = base64_digits_small [OF assms]
  have "filter (\<lambda>c. c \<noteq> CHR 0x0D \<and> c \<noteq> CHR 0x0A) (map base64_char (base64_digits bs)) = map base64_char (base64_digits bs)"
    using d base64_char_plain by (auto simp: filter_id_conv)
  with those_vals [OF d] base64_bytes_digits [OF assms] show ?thesis
    by (simp add: RawURLEncoding_DecodeString_def RawURLEncoding_EncodeToString_def del: map_map)
qed

lemma Encode_no_padding: "\<forall>b \<in> set bs. b < 256 \<Longrightarrow> CHR ''='' \<notin> set (RawURLEncoding_EncodeToString bs)"
  using base64_digits_small base64_char_plain by (fastforce simp: RawURLEncoding_EncodeToString_def)

lemma length_base64_digits: "length (base64_digits bs) = (4 * length bs + 2) div 3"
  by (induction bs rule: base64_digits.induct) auto

section \<open>HMAC\<close>

definition sha256_bytes :: "nat list \<Rightarrow> nat list" where
  "sha256_bytes bytes = sha256_Sum256 (map char_of bytes)"

definition hmac_sha256 :: "nat list \<Rightarrow> nat list \<Rightarrow> nat list" where
  "hmac_sha256 key msg =
     (let k = (if length key > 64 then sha256_bytes key else key);
          block = k @ replicate (64 - length k) 0
      in sha256_bytes (map (\<lambda>b. b XOR 92) block @ sha256_bytes (map (\<lambda>b. b XOR 54) block @ msg)))"

lemma length_hmac: "length (hmac_sha256 key msg) = 32"
  by (simp add: hmac_sha256_def Let_def sha256_bytes_def length_Sum256)

end
