(* ===== verification/Refresh_Token.thy ===== *)
theory Refresh_Token
  imports Base64 Uuid_Text
begin

text \<open>
  The opaque refresh token of \<open>sessions/refresh_token.go\<close>: a prefix, the selector (the
  token's UUID), a separator and the base64 text of a 32-byte secret, of which the database
  keeps only the HMAC. The errors are those of \<open>sessions/errors.go\<close>.
\<close>

section \<open>Errors\<close>

datatype session_sentinel =
    ErrRefreshTokenMissing | ErrRefreshTokenInvalid | ErrRefreshTokenExpired | ErrRefreshTokenReused
  | ErrSessionNotFound | ErrSessionRevoked | ErrSessionExpired | ErrSessionCompromised | ErrSessionNotOwned
  | ErrInvalidClientID | ErrInvalidContext | ErrUserSuspended | ErrUserDisabled | ErrDependencyUnavailable

type_synonym session_error = "session_sentinel go_error"

section \<open>The codec\<close>

definition refreshTokenPrefix :: string where "refreshTokenPrefix = ''rt_''"

definition refreshTokenSecretBytes :: nat where "refreshTokenSecretBytes = 32"

definition maxRawTokenLength :: nat where "maxRawTokenLength = 512"

record parsed_refresh_token =
  Parsed_Selector :: uuid
  Parsed_Secret :: "nat list"

definition HashSecret :: "nat list \<Rightarrow> nat list \<Rightarrow> nat list" where
  "HashSecret hashKey secret = hmac_sha256 hashKey secret"

text \<open>
  The other methods of a codec take its hash function \<open>hash\<close>; that of the codec made by
  \<open>NewRefreshTokenCodec\<close> is \<open>HashSecret hashKey\<close>. \<open>subtle.ConstantTimeCompare\<close> is 1 exactly on equal byte
  strings.
\<close>

definition VerifySecret :: "(nat list \<Rightarrow> nat list) \<Rightarrow> nat list \<Rightarrow> nat list \<Rightarrow> bool" where
  "VerifySecret hash secret expectedHash = (hash secret = expectedHash)"

text \<open>
  \<open>Generate\<close>: what \<open>io.ReadFull\<close> delivers is an argument (None is a read error). The text of
  a valid UUID is never empty, so the branch \<open>invalid token ID\<close> has no counterpart.
\<close>

definition Generate :: "(nat list \<Rightarrow> nat list) \<Rightarrow> nat list option \<Rightarrow> uuid \<Rightarrow> session_error + string \<times> nat list" where
  "Generate hash random tokenID =
     (case random of
        None \<Rightarrow> Inl (Wrapped ''failed to generate refresh token secret'' (OtherError ''read''))
      | Some secret \<Rightarrow>
          let rawToken = refreshTokenPrefix @ uuidStr tokenID @ ''.'' @ RawURLEncoding_EncodeToString secret in
          chain (guard_error (length rawToken \<le> maxRawTokenLength)
                  (OtherError ''generated token exceeds maximum length'')) (\<lambda>_.
          Inr (rawToken, hash secret)))"

definition invalid_token :: "string \<Rightarrow> session_error" where
  "invalid_token text = Wrapped text (Sentinel ErrRefreshTokenInvalid)"

definition Parse :: "env \<Rightarrow> string \<Rightarrow> session_error + parsed_refresh_token" where
  "Parse E rawToken =
     chain (guard_error (rawToken \<noteq> []) (Sentinel ErrRefreshTokenMissing)) (\<lambda>_.
     chain (guard_error (length rawToken \<le> maxRawTokenLength) (invalid_token ''token too long'')) (\<lambda>_.
     chain (guard_error (take (length refreshTokenPrefix) rawToken = refreshTokenPrefix)
             (invalid_token ''invalid prefix'')) (\<lambda>_.
     let (selectorStr, secretB64, found) = strings_Cut (drop (length refreshTokenPrefix) rawToken) (CHR ''.'') in
     chain (guard_error found (invalid_token ''missing separator'')) (\<lambda>_.
     chain (guard_error (selectorStr \<noteq> []) (invalid_token ''empty selector'')) (\<lambda>_.
     chain (case uuid_Scan E selectorStr of
              None \<Rightarrow> Inl (Joined (invalid_token ''invalid selector'') (OtherError ''scan''))
            | Some u \<Rightarrow> Inr u) (\<lambda>selector.
     chain (guard_error (secretB64 \<noteq> []) (invalid_token ''empty secret'')) (\<lambda>_.
     chain (guard_error (CHR ''='' \<notin> set secretB64) (invalid_token ''secret contains padding'')) (\<lambda>_.
     chain (case RawURLEncoding_DecodeString secretB64 of
              None \<Rightarrow> Inl (Joined (invalid_token ''invalid secret encoding'') (OtherError ''illegal base64 data''))
            | Some bs \<Rightarrow> Inr bs) (\<lambda>secret.
     chain (guard_error (length secret = refreshTokenSecretBytes) (invalid_token ''invalid secret length'')) (\<lambda>_.
     Inr \<lparr>Parsed_Selector = selector, Parsed_Secret = secret\<rparr>))))))))))"

section \<open>Lemmas\<close>

definition secret_ok :: "nat list \<Rightarrow> bool" where
  "secret_ok secret \<longleftrightarrow> length secret = refreshTokenSecretBytes \<and> (\<forall>b \<in> set secret. b < 256)"

text \<open>What the code relies on: the library's scanner reads the printed form of a UUID.\<close>

definition selector_law :: "env \<Rightarrow> bool" where
  "selector_law E \<longleftrightarrow> (\<forall>u. uuid_Scan E (uuidStr u) = Some u)"

definition raw_token :: "uuid \<Rightarrow> nat list \<Rightarrow> string" where
  "raw_token u secret = refreshTokenPrefix @ uuidStr u @ ''.'' @ RawURLEncoding_EncodeToString secret"

lemma length_raw_token: "secret_ok secret \<Longrightarrow> length (raw_token u secret) = 83"
  by (simp add: raw_token_def secret_ok_def refreshTokenPrefix_def refreshTokenSecretBytes_def
      RawURLEncoding_EncodeToString_def length_base64_digits)

lemma Generate_total:
  "secret_ok secret \<Longrightarrow> Generate hash (Some secret) u = Inr (raw_token u secret, hash secret)"
  using length_raw_token [of secret u] by (simp add: Generate_def raw_token_def Let_def maxRawTokenLength_def)

lemma Generate_Inr:
  "Generate hash random u = Inr (raw, h) \<Longrightarrow>
     \<exists>secret. random = Some secret \<and> raw = raw_token u secret \<and> h = hash secret"
  by (auto simp: Generate_def raw_token_def Let_def result_simps split: option.splits)

lemma length_HashSecret [simp]: "length (HashSecret k s) = 32"
  by (simp add: HashSecret_def length_hmac)

lemma Parse_raw_token:
  assumes "selector_law E" "secret_ok secret"
  shows "Parse E (raw_token u secret) = Inr \<lparr>Parsed_Selector = u, Parsed_Secret = secret\<rparr>"
proof -
  let ?b = "RawURLEncoding_EncodeToString secret"
  have b: "\<forall>x \<in> set secret. x < 256" "length secret = 32"
    using assms(2) by (simp_all add: secret_ok_def refreshTokenSecretBytes_def)
  have "length ?b = 43" using b(2) by (simp add: RawURLEncoding_EncodeToString_def length_base64_digits)
  then have "?b \<noteq> []" by auto
  moreover have "uuidStr u \<noteq> []" using length_uuidStr [of u] by (auto simp del: length_uuidStr)
  moreover have "drop (length refreshTokenPrefix) (raw_token u secret) = uuidStr u @ CHR ''.'' # ?b"
    "take (length refreshTokenPrefix) (raw_token u secret) = refreshTokenPrefix" "raw_token u secret \<noteq> []"
    by (simp_all add: raw_token_def)
  moreover have "strings_Cut (uuidStr u @ CHR ''.'' # ?b) (CHR ''.'') = (uuidStr u, ?b, True)"
    using uuidStr_no_dot by (rule Cut_append)
  moreover have "uuid_Scan E (uuidStr u) = Some u" using assms(1) by (simp add: selector_law_def)
  ultimately show ?thesis
    using length_raw_token [OF assms(2), of u] b Decode_Encode [OF b(1)] Encode_no_padding [OF b(1)]
    by (simp add: Parse_def maxRawTokenLength_def refreshTokenSecretBytes_def)
qed

text \<open>Whatever \<open>Parse\<close> refuses is reported as a missing or an invalid token.\<close>

lemma Parse_error:
  "Parse E raw = Inl e \<Longrightarrow> e = Sentinel ErrRefreshTokenMissing \<and> raw = [] \<or> errors_Is e ErrRefreshTokenInvalid"
  by (auto simp: Parse_def Let_def invalid_token_def result_simps split: option.splits prod.splits)

lemma Parse_secret_length: "Parse E raw = Inr p \<Longrightarrow> length (Parsed_Secret p) = 32"
  by (auto simp: Parse_def Let_def refreshTokenSecretBytes_def result_simps split: option.splits prod.splits)

end
