(* ===== verification/Sessions.thy ===== *)
theory Sessions
  imports Session_Queries Refresh_Token
begin

text \<open>
  The session service of \<open>internal/sessions\<close>: creating a session with its first refresh
  token, rotating a token, detecting the reuse of a consumed one, revoking one or all of a
  user's sessions, and the reads. An operation that ends with cache invalidation returns the
  invalidated session identifiers next to the result and the tables.
\<close>

section \<open>The service and its inputs\<close>

text \<open>
  The hash function of the service's codec, its configuration, and \<open>netip.ParseAddr\<close> with the text the address
  prints as. Durations are in microseconds, like times.
\<close>

record session_service =
  svc_HashSecret :: "nat list \<Rightarrow> nat list"
  svc_RefreshIdleTTL :: int
  svc_SessionAbsoluteTTL :: int
  svc_ParseAddr :: "string \<Rightarrow> string option"

text \<open>What the random source delivers to one call: None is a read error.\<close>

record entropy =
  ent_uuid :: "uuid option"
  ent_secret :: "nat list option"

record request_meta =
  RM_ClientIP :: string
  RM_UserAgent :: string
  RM_RequestID :: string

record create_session_input =
  CSI_UserID :: uuid
  CSI_ClientID :: string
  CSI_DeviceName :: "string option"
  CSI_UserAgent :: "string option"
  CSI_IPAddress :: "string option"
  CSI_ContextKind :: string
  CSI_OrganizationID :: "uuid option"
  CSI_MembershipID :: "uuid option"
  CSI_StoreID :: "uuid option"

section \<open>Validation and mapping\<close>

definition validateClientID :: "string \<Rightarrow> session_error + unit" where
  "validateClientID clientID =
     guard_error (clientID \<in> {''pdv-web'', ''pdv-admin''}) (ValidationError ''client_id'' ''unsupported client id'')"

text \<open>Returns the context kind the text names.\<close>

definition validateContextCoherence ::
    "string \<Rightarrow> uuid option \<Rightarrow> uuid option \<Rightarrow> uuid option \<Rightarrow> session_error + auth_context_kind" where
  "validateContextCoherence kind orgID memID storeID =
     (if kind = ''IDENTITY'' then
        chain (guard_error (orgID = None \<and> memID = None \<and> storeID = None)
                (ValidationError ''context'' ''identity context must not have tenant attributes'')) (\<lambda>_.
        Inr CtxIDENTITY)
      else if kind = ''ORGANIZATION'' then
        chain (guard_error (orgID \<noteq> None \<and> memID \<noteq> None)
                (ValidationError ''context'' ''organization context requires organization_id and membership_id'')) (\<lambda>_.
        chain (guard_error (storeID = None)
                (ValidationError ''context'' ''organization context must not have store_id'')) (\<lambda>_.
        Inr CtxORGANIZATION))
      else if kind = ''STORE'' then
        chain (guard_error (orgID \<noteq> None \<and> memID \<noteq> None \<and> storeID \<noteq> None)
                (ValidationError ''context'' ''store context requires organization_id, membership_id, and store_id'')) (\<lambda>_.
        Inr CtxSTORE)
      else Inl (ValidationError ''context_kind'' ''unsupported context kind''))"

fun context_kind_string :: "auth_context_kind \<Rightarrow> string" where
  "context_kind_string CtxIDENTITY = ''IDENTITY''"
| "context_kind_string CtxORGANIZATION = ''ORGANIZATION''"
| "context_kind_string CtxSTORE = ''STORE''"

record session =
  Session_ID :: uuid
  Session_UserID :: uuid
  Session_Status :: string
  Session_ClientID :: string
  Session_DeviceName :: "string option"
  Session_UserAgent :: "string option"
  Session_IPAddress :: "string option"
  Session_ContextKind :: string
  Session_OrganizationID :: "uuid option"
  Session_MembershipID :: "uuid option"
  Session_StoreID :: "uuid option"
  Session_IdleExpiresAt :: time
  Session_AbsoluteExpiresAt :: time
  Session_LastSeenAt :: time
  Session_RevokedAt :: "time option"
  Session_RevokeReason :: "string option"
  Session_CreatedAt :: time
  Session_UpdatedAt :: time

definition sessionFromDBRow :: "auth_session \<Rightarrow> session" where
  "sessionFromDBRow r =
     \<lparr>Session_ID = Ses_ID r, Session_UserID = Ses_UserID r, Session_Status = session_status_string (Ses_Status r),
      Session_ClientID = Ses_ClientID r, Session_DeviceName = Ses_DeviceName r, Session_UserAgent = Ses_UserAgent r,
      Session_IPAddress = Ses_IpAddress r, Session_ContextKind = context_kind_string (Ses_ContextKind r),
      Session_OrganizationID = Ses_OrganizationID r, Session_MembershipID = Ses_MembershipID r,
      Session_StoreID = Ses_StoreID r, Session_IdleExpiresAt = Ses_IdleExpiresAt r,
      Session_AbsoluteExpiresAt = Ses_AbsoluteExpiresAt r, Session_LastSeenAt = Ses_LastSeenAt r,
      Session_RevokedAt = Ses_RevokedAt r, Session_RevokeReason = Ses_RevokeReason r,
      Session_CreatedAt = Ses_CreatedAt r, Session_UpdatedAt = Ses_UpdatedAt r\<rparr>"

text \<open>An item of the list response; an absent time stays out of it. Times are not printed here.\<close>

record session_list_item =
  SLI_ID :: string
  SLI_ClientID :: string
  SLI_DeviceName :: string
  SLI_IPAddress :: string
  SLI_UserAgent :: string
  SLI_IsCurrent :: bool
  SLI_Status :: string
  SLI_LastSeenAt :: "time option"
  SLI_CreatedAt :: "time option"
  SLI_IdleExpiresAt :: "time option"
  SLI_AbsoluteExpiresAt :: "time option"

definition sessionToListItem :: "session \<Rightarrow> uuid option \<Rightarrow> session_list_item" where
  "sessionToListItem s currentSessionID =
     (let text = (\<lambda>t. case t of None \<Rightarrow> [] | Some x \<Rightarrow> x);
          present = (\<lambda>t. if t = zero_time then None else Some t) in
      \<lparr>SLI_ID = uuidStr (Session_ID s), SLI_ClientID = Session_ClientID s,
       SLI_DeviceName = text (Session_DeviceName s), SLI_IPAddress = text (Session_IPAddress s),
       SLI_UserAgent = text (Session_UserAgent s), SLI_IsCurrent = (Some (Session_ID s) = currentSessionID),
       SLI_Status = Session_Status s, SLI_LastSeenAt = present (Session_LastSeenAt s),
       SLI_CreatedAt = present (Session_CreatedAt s), SLI_IdleExpiresAt = present (Session_IdleExpiresAt s),
       SLI_AbsoluteExpiresAt = present (Session_AbsoluteExpiresAt s)\<rparr>)"

section \<open>Audit\<close>

record audit_subject =
  AudS_UserID :: "uuid option"
  AudS_MembershipID :: "uuid option"
  AudS_OrganizationID :: "uuid option"
  AudS_StoreID :: "uuid option"
  AudS_SessionID :: "uuid option"

definition session_subject :: "auth_session \<Rightarrow> audit_subject" where
  "session_subject s = \<lparr>AudS_UserID = Some (Ses_UserID s), AudS_MembershipID = Ses_MembershipID s,
     AudS_OrganizationID = Ses_OrganizationID s, AudS_StoreID = Ses_StoreID s, AudS_SessionID = Some (Ses_ID s)\<rparr>"

definition writeAuditEventWithSubject ::
    "env \<Rightarrow> session_service \<Rightarrow> time \<Rightarrow> string \<Rightarrow> audit_outcome \<Rightarrow> (string \<times> metadata_value) list \<Rightarrow>
     request_meta \<Rightarrow> audit_subject \<Rightarrow> auth_db \<Rightarrow> session_error + auth_db" where
  "writeAuditEventWithSubject E S txnow eventType outcome metadata M subject d =
     chain (wrap_error ''create audit event'' (CreateAuditEvent E txnow
       \<lparr>CA_OrganizationID = AudS_OrganizationID subject, CA_StoreID = AudS_StoreID subject,
        CA_ActorUserID = AudS_UserID subject, CA_ActorMembershipID = AudS_MembershipID subject,
        CA_SessionID = AudS_SessionID subject, CA_EventType = eventType, CA_EntityType = None, CA_EntityID = None,
        CA_RequestID = (if RM_RequestID M = [] then None else Some (RM_RequestID M)),
        CA_IpAddress = (if RM_ClientIP M = [] then None else svc_ParseAddr S (RM_ClientIP M)),
        CA_UserAgent = (if RM_UserAgent M = [] then None else Some (RM_UserAgent M)),
        CA_Outcome = outcome, CA_Metadata = metadata\<rparr> d)) (\<lambda>(_, d').
     Inr d')"

section \<open>Errors of the service\<close>

definition dependency_error :: "string \<Rightarrow> session_error \<Rightarrow> session_error" where
  "dependency_error text e = Joined (Wrapped text (Sentinel ErrDependencyUnavailable)) e"

definition no_rows_error :: "session_error \<Rightarrow> string \<Rightarrow> session_error \<Rightarrow> session_error" where
  "no_rows_error absent text e = (if errors_Is_NoRows e then absent else dependency_error text e)"

section \<open>Creating a session\<close>

text \<open>The idle deadline is capped by the absolute one.\<close>

definition idle_deadline :: "session_service \<Rightarrow> time \<Rightarrow> time \<Rightarrow> time" where
  "idle_deadline S now absoluteExpiresAt =
     (if now + svc_RefreshIdleTTL S > absoluteExpiresAt then absoluteExpiresAt else now + svc_RefreshIdleTTL S)"

definition create_params ::
    "session_service \<Rightarrow> time \<Rightarrow> auth_context_kind \<Rightarrow> create_session_input \<Rightarrow> create_session_params" where
  "create_params S now kind input =
     \<lparr>CS_UserID = CSI_UserID input, CS_ClientID = CSI_ClientID input, CS_DeviceName = CSI_DeviceName input,
      CS_UserAgent = CSI_UserAgent input, CS_IpAddress = CSI_IPAddress input, CS_ContextKind = kind,
      CS_OrganizationID = CSI_OrganizationID input, CS_MembershipID = CSI_MembershipID input,
      CS_StoreID = CSI_StoreID input,
      CS_IdleExpiresAt = idle_deadline S now (now + svc_SessionAbsoluteTTL S),
      CS_AbsoluteExpiresAt = now + svc_SessionAbsoluteTTL S\<rparr>"

definition CreateSessionInTx ::
    "env \<Rightarrow> session_service \<Rightarrow> time \<Rightarrow> entropy \<Rightarrow> time \<Rightarrow> create_session_input \<Rightarrow> auth_db \<Rightarrow>
     session_error + (session \<times> string) \<times> auth_db" where
  "CreateSessionInTx E S txnow ent now input d =
     chain (wrap_error ''validate session client'' (validateClientID (CSI_ClientID input))) (\<lambda>_.
     chain (wrap_error ''validate session context''
       (validateContextCoherence (CSI_ContextKind input) (CSI_OrganizationID input) (CSI_MembershipID input)
          (CSI_StoreID input))) (\<lambda>kind.
     chain (wrap_error ''create auth session'' (CreateAuthSession E txnow (create_params S now kind input) d)) (\<lambda>(row, d1).
     chain (case ent_uuid ent of
              None \<Rightarrow> Inl (Wrapped ''create refresh token selector'' (Wrapped ''generate UUID'' (OtherError ''read'')))
            | Some b \<Rightarrow> Inr (newRandomUUID b)) (\<lambda>tokenID.
     chain (wrap_error ''generate initial refresh token'' (Generate (svc_HashSecret S) (ent_secret ent) tokenID))
       (\<lambda>(rawToken, secretHash).
     chain (wrap_error ''create initial refresh token'' (CreateRefreshToken txnow
       \<lparr>CT_ID = tokenID, CT_SessionID = Ses_ID row, CT_ParentTokenID = None, CT_SecretHash = secretHash,
        CT_ExpiresAt = now + svc_SessionAbsoluteTTL S\<rparr> d1)) (\<lambda>(refreshToken, d2).
     chain (guard_error (Tok_ID refreshToken = tokenID)
       (OtherError ''create initial refresh token: persisted selector does not match generated selector'')) (\<lambda>_.
     Inr ((sessionFromDBRow row, rawToken), d2))))))))"

definition CreateSession ::
    "env \<Rightarrow> session_service \<Rightarrow> txn \<Rightarrow> entropy \<Rightarrow> time \<Rightarrow> create_session_input \<Rightarrow> auth_db \<Rightarrow>
     (session_error + session \<times> string) \<times> auth_db" where
  "CreateSession E S T ent now input d =
     (case Auth_WithTx T (CreateSessionInTx E S (tx_now T) ent now input) d of
        (r, d') \<Rightarrow> (wrap_error ''create session transaction'' r, d'))"

section \<open>Rotating a refresh token\<close>

fun errFromSessionStatus :: "auth_session_status \<Rightarrow> session_sentinel" where
  "errFromSessionStatus SesREVOKED = ErrSessionRevoked"
| "errFromSessionStatus SesCOMPROMISED = ErrSessionCompromised"
| "errFromSessionStatus SesEXPIRED = ErrSessionExpired"
| "errFromSessionStatus SesACTIVE = ErrSessionRevoked"

definition handleReuse ::
    "env \<Rightarrow> session_service \<Rightarrow> time \<Rightarrow> refresh_token \<Rightarrow> request_meta \<Rightarrow> auth_db \<Rightarrow> session_error + auth_db" where
  "handleReuse E S txnow token M d =
     chain (on_error (no_rows_error (Wrapped ''session not found for reuse handling'' (Sentinel ErrSessionNotFound))
              ''mark session compromised'')
            (MarkSessionCompromised txnow (Tok_SessionID token) ''refresh_token_reused'' d)) (\<lambda>(marked, d1).
     chain (on_error (dependency_error ''revoke session refresh tokens'')
            (RevokeSessionRefreshTokens txnow (Tok_SessionID token) d1)) (\<lambda>(_, d2).
     on_error (dependency_error ''write refresh reuse audit event'')
       (writeAuditEventWithSubject E S txnow ''auth.refresh.reused'' AuditFAILURE
          [(''token_id'', MetaText (uuidStr (Tok_ID token))), (''session_id'', MetaText (uuidStr (Tok_SessionID token))),
           (''previous_status'', MetaText ''ACTIVE''), (''new_status'', MetaText ''COMPROMISED'')]
          M (session_subject marked) d2)))"

record rotate_result =
  Rot_Session :: session
  Rot_RawRefreshToken :: string
  Rot_ExpiresIn :: int
  Rot_MustClearCookies :: bool

text \<open>What the transaction leaves in the variables of the enclosing function.\<close>

datatype rotate_outcome = Rotated rotate_result | ReuseDetected

definition rotate_token ::
    "env \<Rightarrow> session_service \<Rightarrow> time \<Rightarrow> entropy \<Rightarrow> time \<Rightarrow> refresh_token \<Rightarrow> auth_session \<Rightarrow> request_meta \<Rightarrow> auth_db \<Rightarrow>
     session_error + rotate_result \<times> auth_db" where
  "rotate_token E S txnow ent now token s M d =
     (let newIdleExpiresAt = idle_deadline S now (Ses_AbsoluteExpiresAt s) in
     chain (case ent_uuid ent of
              None \<Rightarrow> Inl (Wrapped ''generate child token selector'' (Wrapped ''generate UUID'' (OtherError ''read'')))
            | Some b \<Rightarrow> Inr (newRandomUUID b)) (\<lambda>childID.
     chain (wrap_error ''generate child token'' (Generate (svc_HashSecret S) (ent_secret ent) childID))
       (\<lambda>(childRaw, childHash).
     chain (wrap_error ''create child refresh token'' (CreateRefreshToken txnow
       \<lparr>CT_ID = childID, CT_SessionID = Tok_SessionID token, CT_ParentTokenID = Some (Tok_ID token),
        CT_SecretHash = childHash, CT_ExpiresAt = Ses_AbsoluteExpiresAt s\<rparr> d)) (\<lambda>(child, d1).
     chain (guard_error (Tok_ID child = childID)
       (OtherError ''create child refresh token: persisted selector does not match generated selector'')) (\<lambda>_.
     chain (on_error (\<lambda>e. if errors_Is_NoRows e then invalid_token ''token could not be consumed''
                          else Wrapped ''consume and replace refresh token'' e)
            (ConsumeAndReplaceRefreshToken txnow (Tok_ID child) (Tok_SessionID token) (Tok_ID token) d1)) (\<lambda>(_, d2).
     chain (wrap_error ''touch session''
            (TouchSession txnow (Tok_SessionID token) (Ses_UserID s) newIdleExpiresAt d2)) (\<lambda>(_, d3).
     chain (wrap_error ''write refresh audit event''
            (writeAuditEventWithSubject E S txnow ''auth.refreshed'' AuditSUCCESS
              [(''previous_token_id'', MetaText (uuidStr (Tok_ID token))),
               (''new_token_id'', MetaText (uuidStr (Tok_ID child)))] M (session_subject s) d3)) (\<lambda>d4.
     Inr (\<lparr>Rot_Session = sessionFromDBRow s, Rot_RawRefreshToken = childRaw,
           Rot_ExpiresIn = newIdleExpiresAt - now, Rot_MustClearCookies = False\<rparr>, d4)))))))))"

fun check_user_status :: "user_status \<Rightarrow> session_error + unit" where
  "check_user_status UserSUSPENDED = Inl (Wrapped ''user is suspended'' (Sentinel ErrUserSuspended))"
| "check_user_status UserDISABLED = Inl (Wrapped ''user is disabled'' (Sentinel ErrUserDisabled))"
| "check_user_status UserACTIVE = Inr ()"

lemma check_user_status_eq_Inr [result_simps]: "check_user_status u = Inr x \<longleftrightarrow> u = UserACTIVE"
  by (cases u) auto

definition rotate_tx ::
    "env \<Rightarrow> session_service \<Rightarrow> time \<Rightarrow> entropy \<Rightarrow> time \<Rightarrow> parsed_refresh_token \<Rightarrow> request_meta \<Rightarrow> auth_db \<Rightarrow>
     session_error + (rotate_outcome \<times> uuid) \<times> auth_db" where
  "rotate_tx E S txnow ent now parsed M d =
     chain (on_error (\<lambda>e. if errors_Is_NoRows e then invalid_token ''token not found''
                          else Joined (Sentinel ErrDependencyUnavailable) e)
            (GetRefreshTokenForUpdate (Parsed_Selector parsed) d)) (\<lambda>token.
     chain (guard_error (VerifySecret (svc_HashSecret S) (Parsed_Secret parsed) (Tok_SecretHash token))
            (invalid_token ''invalid secret'')) (\<lambda>_.
     chain (guard_error (Tok_RevokedAt token = None) (invalid_token ''token is revoked'')) (\<lambda>_.
     chain (guard_error (\<not> now > Tok_ExpiresAt token) (Wrapped ''token expired'' (Sentinel ErrRefreshTokenExpired))) (\<lambda>_.
     if Tok_ConsumedAt token \<noteq> None then
       chain (handleReuse E S txnow token M d) (\<lambda>d'. Inr ((ReuseDetected, Tok_SessionID token), d'))
     else
     chain (on_error (\<lambda>e. if errors_Is_NoRows e then Wrapped ''session not found'' (Sentinel ErrSessionNotFound)
                          else Joined (Sentinel ErrDependencyUnavailable) e)
            (GetAuthSessionForUpdate (Tok_SessionID token) d)) (\<lambda>sessionRow.
     let s = SSR_Session sessionRow in
     chain (guard_error (Ses_Status s = SesACTIVE)
            (Wrapped (''session status is '' @ session_status_string (Ses_Status s))
              (Sentinel (errFromSessionStatus (Ses_Status s))))) (\<lambda>_.
     chain (check_user_status (SSR_UserStatus sessionRow)) (\<lambda>_.
     chain (guard_error (\<not> now > Ses_IdleExpiresAt s)
            (Wrapped ''session idle expired'' (Sentinel ErrSessionExpired))) (\<lambda>_.
     chain (guard_error (\<not> now > Ses_AbsoluteExpiresAt s)
            (Wrapped ''session absolute expired'' (Sentinel ErrSessionExpired))) (\<lambda>_.
     chain (rotate_token E S txnow ent now token s M d) (\<lambda>(result, d').
     Inr ((Rotated result, Tok_SessionID token), d')))))))))))"

definition RotateRefreshToken ::
    "env \<Rightarrow> session_service \<Rightarrow> txn \<Rightarrow> entropy \<Rightarrow> time \<Rightarrow> string \<Rightarrow> request_meta \<Rightarrow> auth_db \<Rightarrow>
     (session_error + rotate_result) \<times> auth_db \<times> uuid list" where
  "RotateRefreshToken E S T ent now raw M d =
     (case Parse E raw of
        Inl e \<Rightarrow> (Inl (Wrapped ''parse refresh token'' e), d, [])
      | Inr parsed \<Rightarrow>
          (case Auth_WithTx T (rotate_tx E S (tx_now T) ent now parsed M) d of
             (Inl e, d') \<Rightarrow> (Inl (Wrapped ''rotate refresh token transaction'' e), d', [])
           | (Inr (Rotated result, sid), d') \<Rightarrow> (Inr result, d', [sid])
           | (Inr (ReuseDetected, sid), d') \<Rightarrow>
               (Inl (Wrapped ''token was already consumed'' (Sentinel ErrRefreshTokenReused)), d', [sid])))"

definition ResolveRefreshSessionID ::
    "env \<Rightarrow> session_service \<Rightarrow> time \<Rightarrow> string \<Rightarrow> auth_db \<Rightarrow> session_error + uuid" where
  "ResolveRefreshSessionID E S now raw d =
     chain (wrap_error ''parse refresh token'' (Parse E raw)) (\<lambda>parsed.
     chain (on_error (no_rows_error (invalid_token ''token not found'') ''resolve refresh token'')
            (GetRefreshTokenForUpdate (Parsed_Selector parsed) d)) (\<lambda>token.
     chain (guard_error (VerifySecret (svc_HashSecret S) (Parsed_Secret parsed) (Tok_SecretHash token))
            (invalid_token ''invalid secret'')) (\<lambda>_.
     chain (guard_error (now < Tok_ExpiresAt token) (Wrapped ''token expired'' (Sentinel ErrRefreshTokenExpired))) (\<lambda>_.
     Inr (Tok_SessionID token)))))"

section \<open>Revoking sessions\<close>

definition revoke_tx ::
    "env \<Rightarrow> session_service \<Rightarrow> time \<Rightarrow> uuid \<Rightarrow> uuid \<Rightarrow> uuid option \<Rightarrow> string \<Rightarrow> string \<Rightarrow> request_meta \<Rightarrow> auth_db \<Rightarrow>
     session_error + (session \<times> bool) \<times> auth_db" where
  "revoke_tx E S txnow actorUserID target current reason eventType M d =
     chain (on_error (no_rows_error (Wrapped ''target session does not exist'' (Sentinel ErrSessionNotFound))
              ''get target session'') (GetAuthSessionForUpdate target d)) (\<lambda>sessionRow.
     let row = SSR_Session sessionRow;
         session = sessionFromDBRow row;
         statusChanged = (Ses_Status row = SesACTIVE) in
     chain (guard_error (Ses_UserID row = actorUserID)
            (Wrapped ''target session does not exist'' (Sentinel ErrSessionNotFound))) (\<lambda>_.
     chain (if statusChanged then
              chain (on_error (no_rows_error (Wrapped ''target session is not active'' (Sentinel ErrSessionNotFound))
                       ''revoke session'') (RevokeSession txnow target actorUserID reason d)) (\<lambda>(revoked, d1).
              Inr (session\<lparr>Session_Status := session_status_string (Ses_Status revoked),
                     Session_RevokedAt := Ses_RevokedAt revoked, Session_RevokeReason := Ses_RevokeReason revoked,
                     Session_UpdatedAt := Ses_UpdatedAt revoked\<rparr>, d1))
            else Inr (session, d)) (\<lambda>(session', d1).
     chain (on_error (dependency_error ''revoke refresh tokens'') (RevokeSessionRefreshTokens txnow target d1)) (\<lambda>(_, d2).
     chain (if statusChanged then
              on_error (dependency_error ''write session revoke audit event'')
                (writeAuditEventWithSubject E S txnow eventType AuditSUCCESS
                  [(''reason'', MetaText reason), (''session_id'', MetaText (uuidStr target)),
                   (''previous_status'', MetaText (session_status_string (Ses_Status row))),
                   (''new_status'', MetaText ''REVOKED'')] M (session_subject row) d2)
            else Inr d2) (\<lambda>d3.
     Inr ((session', Some target = current), d3))))))"

definition revokeSession ::
    "env \<Rightarrow> session_service \<Rightarrow> txn \<Rightarrow> uuid \<Rightarrow> uuid \<Rightarrow> uuid option \<Rightarrow> string \<Rightarrow> string \<Rightarrow> request_meta \<Rightarrow> auth_db \<Rightarrow>
     (session_error + session \<times> bool) \<times> auth_db \<times> uuid list" where
  "revokeSession E S T actorUserID target current reason eventType M d =
     (case Auth_WithTx T (revoke_tx E S (tx_now T) actorUserID target current reason eventType M) d of
        (Inl e, d') \<Rightarrow> (Inl (Wrapped ''revoke session transaction'' e), d', [])
      | (Inr r, d') \<Rightarrow> (Inr r, d', [target]))"

definition RevokeCurrentSession ::
    "env \<Rightarrow> session_service \<Rightarrow> txn \<Rightarrow> uuid \<Rightarrow> uuid \<Rightarrow> request_meta \<Rightarrow> auth_db \<Rightarrow>
     (session_error + session \<times> bool) \<times> auth_db \<times> uuid list" where
  "RevokeCurrentSession E S T userID sessionID M d =
     revokeSession E S T userID sessionID (Some sessionID) ''user_logged_out'' ''auth.logged_out'' M d"

definition RevokeSessionWithCurrent ::
    "env \<Rightarrow> session_service \<Rightarrow> txn \<Rightarrow> uuid \<Rightarrow> uuid \<Rightarrow> uuid option \<Rightarrow> request_meta \<Rightarrow> auth_db \<Rightarrow>
     (session_error + session \<times> bool) \<times> auth_db \<times> uuid list" where
  "RevokeSessionWithCurrent E S T actorUserID target current M d =
     revokeSession E S T actorUserID target current ''user_revoked'' ''session.revoked'' M d"

definition Sessions_RevokeSession ::
    "env \<Rightarrow> session_service \<Rightarrow> txn \<Rightarrow> uuid \<Rightarrow> uuid \<Rightarrow> request_meta \<Rightarrow> auth_db \<Rightarrow>
     (session_error + session \<times> bool) \<times> auth_db \<times> uuid list" where
  "Sessions_RevokeSession E S T actorUserID target M d = RevokeSessionWithCurrent E S T actorUserID target None M d"

definition RevokeAllUserSessionsInTx ::
    "time \<Rightarrow> uuid \<Rightarrow> string \<Rightarrow> auth_db \<Rightarrow> session_error + uuid list \<times> auth_db" where
  "RevokeAllUserSessionsInTx txnow userID reason d =
     chain (on_error (dependency_error ''revoke all user sessions'')
            (RevokeAllActiveUserSessions txnow userID reason d)) (\<lambda>(ids, d1).
     chain (on_error (dependency_error ''revoke all user refresh tokens'')
            (RevokeAllUserRefreshTokens txnow userID d1)) (\<lambda>(_, d2).
     Inr (ids, d2)))"

definition revoke_all_tx ::
    "env \<Rightarrow> session_service \<Rightarrow> time \<Rightarrow> uuid \<Rightarrow> uuid option \<Rightarrow> request_meta \<Rightarrow> auth_db \<Rightarrow>
     session_error + (uuid list \<times> bool) \<times> auth_db" where
  "revoke_all_tx E S txnow userID current M d =
     chain (RevokeAllUserSessionsInTx txnow userID ''user_logged_out_all'' d) (\<lambda>(ids, d1).
     chain (on_error (dependency_error ''write revoke-all audit event'')
            (writeAuditEventWithSubject E S txnow ''auth.logged_out_all'' AuditSUCCESS
              [(''reason'', MetaText ''user_logged_out_all''), (''affected_session_count'', MetaInt (int (length ids)))]
              M \<lparr>AudS_UserID = Some userID, AudS_MembershipID = None, AudS_OrganizationID = None, AudS_StoreID = None,
                 AudS_SessionID = current\<rparr> d1)) (\<lambda>d2.
     Inr ((ids, list_ex (\<lambda>i. Some i = current) ids), d2)))"

definition RevokeAllUserSessions ::
    "env \<Rightarrow> session_service \<Rightarrow> txn \<Rightarrow> uuid \<Rightarrow> uuid option \<Rightarrow> request_meta \<Rightarrow> auth_db \<Rightarrow>
     (session_error + uuid list \<times> bool) \<times> auth_db \<times> uuid list" where
  "RevokeAllUserSessions E S T userID current M d =
     (case Auth_WithTx T (revoke_all_tx E S (tx_now T) userID current M) d of
        (Inl e, d') \<Rightarrow> (Inl (Wrapped ''revoke all sessions transaction'' e), d', [])
      | (Inr r, d') \<Rightarrow> (Inr r, d', fst r))"

section \<open>Reads\<close>

definition Sessions_ListUserSessions :: "uuid \<Rightarrow> uuid option \<Rightarrow> auth_db \<Rightarrow> session_list_item list" where
  "Sessions_ListUserSessions userID current d =
     map (\<lambda>row. sessionToListItem (sessionFromDBRow row) current) (ListUserSessions userID d)"

definition GetSessionByID :: "uuid \<Rightarrow> auth_db \<Rightarrow> session_error + session" where
  "GetSessionByID sid d =
     chain (on_error (\<lambda>e. if errors_Is_NoRows e then Sentinel ErrSessionNotFound else dependency_error ''get session'' e)
            (GetAuthSessionByID sid d)) (\<lambda>row.
     Inr (sessionFromDBRow row))"

end
