(* ===== verification/Sessions_Invariant.thy ===== *)
theory Sessions_Invariant
  imports Sessions
begin

text \<open>
  What the session service keeps true of sessions and refresh tokens, whatever else the other
  services do to them: rows keep their identity and satisfy their constraints, a session that
  ended is never written again, a consumed token stays consumed, and a session has at most
  one token that was not consumed.
\<close>

section \<open>How rows may change\<close>

definition session_rewrite :: "auth_session \<Rightarrow> auth_session \<Rightarrow> bool" where
  "session_rewrite s s' \<longleftrightarrow> s' = s \<or>
     (Ses_Status s = SesACTIVE \<and> Ses_ID s' = Ses_ID s \<and> Ses_UserID s' = Ses_UserID s \<and>
      Ses_AbsoluteExpiresAt s' = Ses_AbsoluteExpiresAt s \<and> Ses_CreatedAt s' = Ses_CreatedAt s \<and>
      first_violation (auth_session_checks s') = None)"

definition token_revoke :: "refresh_token \<Rightarrow> refresh_token \<Rightarrow> bool" where
  "token_revoke t t' \<longleftrightarrow> t' = t \<or>
     (Tok_RevokedAt t = None \<and> (\<exists>now. t' = t\<lparr>Tok_RevokedAt := Some now\<rparr>) \<and>
      first_violation (refresh_token_checks t') = None)"

definition token_rewrite :: "refresh_token \<Rightarrow> refresh_token \<Rightarrow> bool" where
  "token_rewrite t t' \<longleftrightarrow>
     Tok_ID t' = Tok_ID t \<and> Tok_SessionID t' = Tok_SessionID t \<and> Tok_ParentTokenID t' = Tok_ParentTokenID t \<and>
     Tok_SecretHash t' = Tok_SecretHash t \<and> Tok_ExpiresAt t' = Tok_ExpiresAt t \<and> Tok_CreatedAt t' = Tok_CreatedAt t \<and>
     (Tok_ConsumedAt t \<noteq> None \<longrightarrow>
        Tok_ConsumedAt t' = Tok_ConsumedAt t \<and> Tok_ReplacedByTokenID t' = Tok_ReplacedByTokenID t) \<and>
     (Tok_RevokedAt t \<noteq> None \<longrightarrow> Tok_RevokedAt t' = Tok_RevokedAt t)"

definition grows :: "('r \<Rightarrow> 'r \<Rightarrow> bool) \<Rightarrow> 'r list \<Rightarrow> 'r list \<Rightarrow> bool" where
  "grows R rows rows' \<longleftrightarrow> (\<exists>old new. rows' = old @ new \<and> list_all2 R rows old)"

definition evolves :: "auth_db \<Rightarrow> auth_db \<Rightarrow> bool" where
  "evolves d d' \<longleftrightarrow> grows session_rewrite (au_sessions d) (au_sessions d') \<and>
     grows token_rewrite (au_refresh_tokens d) (au_refresh_tokens d')"

lemma session_rewrite_refl [simp]: "session_rewrite s s"
  by (simp add: session_rewrite_def)

lemma session_rewrite_trans: "session_rewrite s s' \<Longrightarrow> session_rewrite s' s'' \<Longrightarrow> session_rewrite s s''"
  by (auto simp: session_rewrite_def)

lemma session_rewrite_key: "session_rewrite s s' \<Longrightarrow> Ses_ID s' = Ses_ID s \<and> Ses_UserID s' = Ses_UserID s \<and>
    Ses_AbsoluteExpiresAt s' = Ses_AbsoluteExpiresAt s"
  by (auto simp: session_rewrite_def)

lemma token_rewrite_refl [simp]: "token_rewrite t t"
  by (simp add: token_rewrite_def)

lemma token_rewrite_trans: "token_rewrite t t' \<Longrightarrow> token_rewrite t' t'' \<Longrightarrow> token_rewrite t t''"
  unfolding token_rewrite_def by metis

lemma token_revoke_refl [simp]: "token_revoke t t"
  by (simp add: token_revoke_def)

lemma token_revoke_rewrite: "token_revoke t t' \<Longrightarrow> token_rewrite t t'"
  by (auto simp: token_revoke_def token_rewrite_def)

lemma grows_all2: "list_all2 R rows rows' \<Longrightarrow> grows R rows rows'"
  by (auto simp: grows_def intro: exI [of _ "[]"])

lemma grows_append: "(\<And>r. R r r) \<Longrightarrow> grows R rows (rows @ new)"
  by (auto simp: grows_def intro: list_all2_refl)

lemma grows_trans:
  assumes "grows R rows rows'" "grows R rows' rows''" and trans: "\<And>x y z. R x y \<Longrightarrow> R y z \<Longrightarrow> R x z"
  shows "grows R rows rows''"
proof -
  from assms(1) obtain old new where o: "rows' = old @ new" "list_all2 R rows old" by (auto simp: grows_def)
  from assms(2) o(1) obtain old2 new2 tail where n: "rows'' = (old2 @ tail) @ new2" "list_all2 R old old2"
    by (auto simp: grows_def list_all2_append1)
  with o(2) have "list_all2 R rows old2" using trans by (blast intro: list_all2_trans)
  with n(1) show ?thesis by (auto simp: grows_def)
qed

lemma grows_refl: "(\<And>r. R r r) \<Longrightarrow> grows R rows rows"
  using grows_append [of R rows "[]"] by simp

lemma grows_member: "grows R rows rows' \<Longrightarrow> r \<in> set rows \<Longrightarrow> \<exists>r' \<in> set rows'. R r r'"
  by (fastforce simp: grows_def list_all2_conv_all_nth in_set_conv_nth nth_append)

lemma evolves_refl [simp]: "evolves d d"
  by (simp add: evolves_def grows_refl)

lemma evolves_trans: "evolves d d' \<Longrightarrow> evolves d' d'' \<Longrightarrow> evolves d d''"
  unfolding evolves_def by (blast intro: grows_trans session_rewrite_trans token_rewrite_trans)

lemma evolves_terminal: "evolves d d' \<Longrightarrow> s \<in> set (au_sessions d) \<Longrightarrow> Ses_Status s \<noteq> SesACTIVE \<Longrightarrow> s \<in> set (au_sessions d')"
  by (auto simp: evolves_def session_rewrite_def dest!: grows_member [where R = session_rewrite])

lemma evolves_session: "evolves d d' \<Longrightarrow> s \<in> set (au_sessions d) \<Longrightarrow> \<exists>s' \<in> set (au_sessions d'). session_rewrite s s'"
  by (auto simp: evolves_def dest: grows_member)

lemma evolves_token: "evolves d d' \<Longrightarrow> t \<in> set (au_refresh_tokens d) \<Longrightarrow> \<exists>t' \<in> set (au_refresh_tokens d'). token_rewrite t t'"
  by (auto simp: evolves_def dest: grows_member)

section \<open>Updates as rewrites\<close>

lemma update_row_all2:
  assumes "update_row p f rows = Inr (r', rows')" "\<And>r. p r \<Longrightarrow> f r = Inr r' \<Longrightarrow> R r r'" "\<And>r. R r r"
  shows "list_all2 R rows rows'"
proof -
  from update_row_InrD [OF assms(1)] obtain pre r post where
    "rows = pre @ r # post" "p r" "f r = Inr r'" "rows' = pre @ r' # post" by blast
  with assms(2,3) show ?thesis by (auto intro!: list_all2_appendI list_all2_refl)
qed

lemma update_rows_all2:
  assumes "update_rows p f rows = Inr (us, rows')" "\<And>r r'. p r \<Longrightarrow> f r = Inr r' \<Longrightarrow> R r r'" "\<And>r. R r r"
  shows "list_all2 R rows rows'"
  using update_rows_InrD(1) [OF assms(1)] by (rule list_all2_mono) (auto split: if_splits intro: assms(2,3))

lemma write_session_eq_Inr [result_simps]:
  "write_session now f s = Inr s' \<longleftrightarrow> s' = (f s)\<lparr>Ses_UpdatedAt := now\<rparr> \<and>
     (Ses_Status s = SesACTIVE \<or> Ses_Status s' = Ses_Status s) \<and> first_violation (auth_session_checks s') = None"
  by (auto simp: write_session_def Let_def result_simps)

lemma write_token_eq_Inr [result_simps]:
  "write_token f t = Inr t' \<longleftrightarrow> t' = f t \<and> first_violation (refresh_token_checks t') = None"
  by (auto simp: write_token_def result_simps)

lemma write_terminated_rewrite:
  "Ses_Status s = SesACTIVE \<Longrightarrow> write_session now (terminated now st reason) s = Inr s' \<Longrightarrow> session_rewrite s s'"
  by (auto simp: result_simps session_rewrite_def terminated_def)

lemma write_touched_rewrite:
  "Ses_Status s = SesACTIVE \<Longrightarrow> write_session now (\<lambda>s. s\<lparr>Ses_LastSeenAt := x, Ses_IdleExpiresAt := f s\<rparr>) s = Inr s' \<Longrightarrow>
     session_rewrite s s'"
  by (auto simp: result_simps session_rewrite_def)

lemma write_revoked_revoke:
  "Tok_RevokedAt t = None \<Longrightarrow> write_token (\<lambda>t. t\<lparr>Tok_RevokedAt := Some now\<rparr>) t = Inr t' \<Longrightarrow> token_revoke t t'"
  by (auto simp: result_simps token_revoke_def)

section \<open>The invariant\<close>

definition token_ok :: "auth_db \<Rightarrow> refresh_token \<Rightarrow> bool" where
  "token_ok d t \<longleftrightarrow> first_violation (refresh_token_checks t) = None \<and>
     (Tok_ConsumedAt t \<noteq> None) = (Tok_ReplacedByTokenID t \<noteq> None) \<and>
     (\<exists>s \<in> set (au_sessions d). Ses_ID s = Tok_SessionID t \<and> Ses_AbsoluteExpiresAt s = Tok_ExpiresAt t)"

definition unconsumed :: "auth_db \<Rightarrow> refresh_token list" where
  "unconsumed d = filter (\<lambda>t. Tok_ConsumedAt t = None) (au_refresh_tokens d)"

definition sessions_wf :: "auth_db \<Rightarrow> bool" where
  "sessions_wf d \<longleftrightarrow> auth_sessions.unique d \<and> refresh_tokens.unique d \<and>
     (\<forall>s \<in> set (au_sessions d). first_violation (auth_session_checks s) = None) \<and>
     (\<forall>t \<in> set (au_refresh_tokens d). token_ok d t) \<and>
     distinct (map Tok_SessionID (unconsumed d))"

definition sessions_inv :: "auth_db \<Rightarrow> bool" where
  "sessions_inv d \<longleftrightarrow> sessions_wf d \<and> lineage_ok d"

definition keeps :: "auth_db \<Rightarrow> auth_db \<Rightarrow> bool" where
  "keeps d d' \<longleftrightarrow> (sessions_wf d \<longrightarrow> sessions_wf d') \<and> evolves d d'"

lemma keeps_refl [simp]: "keeps d d"
  by (simp add: keeps_def)

lemma keeps_trans: "keeps d d' \<Longrightarrow> keeps d' d'' \<Longrightarrow> keeps d d''"
  by (auto simp: keeps_def intro: evolves_trans)

lemma keeps_frame:
  assumes "au_sessions d' = au_sessions d" "au_refresh_tokens d' = au_refresh_tokens d"
  shows "keeps d d'"
  using assms by (simp add: keeps_def sessions_wf_def token_ok_def unconsumed_def auth_sessions.unique_def
      refresh_tokens.unique_def evolves_def grows_refl)

lemma all2_map_eq: "list_all2 R xs ys \<Longrightarrow> (\<And>x y. R x y \<Longrightarrow> f y = f x) \<Longrightarrow> map f ys = map f xs"
  by (induction rule: list_all2_induct) auto

lemma all2_member: "list_all2 R xs ys \<Longrightarrow> y \<in> set ys \<Longrightarrow> \<exists>x \<in> set xs. R x y"
  by (fastforce simp: list_all2_conv_all_nth in_set_conv_nth)

lemma all2_member1: "list_all2 R xs ys \<Longrightarrow> x \<in> set xs \<Longrightarrow> \<exists>y \<in> set ys. R x y"
  by (fastforce simp: list_all2_conv_all_nth in_set_conv_nth)

text \<open>Rewriting session rows keeps the invariant.\<close>

lemma sessions_rewritten_wf:
  assumes "sessions_wf d" "list_all2 session_rewrite (au_sessions d) (au_sessions d')"
    "au_refresh_tokens d' = au_refresh_tokens d"
  shows "sessions_wf d'"
proof -
  have "map Ses_ID (au_sessions d') = map Ses_ID (au_sessions d)"
    by (rule all2_map_eq [OF assms(2)]) (simp add: session_rewrite_key)
  then have "auth_sessions.unique d'" using assms(1) by (simp add: sessions_wf_def auth_sessions.unique_def)
  moreover have "first_violation (auth_session_checks s) = None" if "s \<in> set (au_sessions d')" for s
    using all2_member [OF assms(2) that] assms(1) by (auto simp: sessions_wf_def session_rewrite_def)
  moreover have "token_ok d' t" if "token_ok d t" for t
    using that all2_member1 [OF assms(2)] session_rewrite_key unfolding token_ok_def by metis
  ultimately show ?thesis
    using assms(1,3) by (simp add: sessions_wf_def refresh_tokens.unique_def unconsumed_def)
qed

lemma sessions_rewritten:
  assumes "list_all2 session_rewrite (au_sessions d) (au_sessions d')" "au_refresh_tokens d' = au_refresh_tokens d"
  shows "keeps d d'"
  using sessions_rewritten_wf [OF _ assms] assms by (simp add: keeps_def evolves_def grows_all2 grows_refl)

lemma all2_list_ex: "list_all2 R xs ys \<Longrightarrow> (\<And>x y. R x y \<Longrightarrow> Q y = P x) \<Longrightarrow> list_ex Q ys = list_ex P xs"
  by (induction rule: list_all2_induct) auto

lemma all2_list_all: "list_all2 R xs ys \<Longrightarrow> (\<And>x y. R x y \<Longrightarrow> Q y = P x) \<Longrightarrow> list_all Q ys = list_all P xs"
  by (induction rule: list_all2_induct) auto

lemma tokens_linked_cong:
  assumes "list_all2 (\<lambda>t t'. Tok_ID t' = Tok_ID t \<and> Tok_SessionID t' = Tok_SessionID t \<and>
      Tok_ParentTokenID t' = Tok_ParentTokenID t \<and> Tok_ReplacedByTokenID t' = Tok_ReplacedByTokenID t) ts ts'"
  shows "tokens_linked ts' = tokens_linked ts"
  unfolding tokens_linked_def
  by (intro arg_cong2 [where f = "(\<and>)"] all2_list_all [OF assms])
     (auto split: option.splits intro!: all2_list_ex [OF assms] iffD1 [OF all2_list_ex [OF assms]]
        iffD2 [OF all2_list_ex [OF assms]])

text \<open>Revoking tokens keeps the invariant.\<close>

lemma tokens_revoked_wf:
  assumes "sessions_wf d" "list_all2 token_revoke (au_refresh_tokens d) (au_refresh_tokens d')"
    "au_sessions d' = au_sessions d"
  shows "sessions_wf d'"
proof -
  have "map Tok_ID (au_refresh_tokens d') = map Tok_ID (au_refresh_tokens d)"
    by (rule all2_map_eq [OF assms(2)]) (auto simp: token_revoke_def)
  then have "refresh_tokens.unique d'" using assms(1) by (simp add: sessions_wf_def refresh_tokens.unique_def)
  moreover have "token_ok d' t" if "t \<in> set (au_refresh_tokens d')" for t
    using all2_member [OF assms(2) that] assms(1,3) by (auto simp: sessions_wf_def token_revoke_def token_ok_def)
  moreover have "map Tok_SessionID (unconsumed d') = map Tok_SessionID (unconsumed d)"
    unfolding unconsumed_def using assms(2)
    by (induction rule: list_all2_induct) (auto simp: token_revoke_def)
  ultimately show ?thesis
    using assms(1,3) by (simp add: sessions_wf_def auth_sessions.unique_def)
qed

lemma tokens_revoked:
  assumes "list_all2 token_revoke (au_refresh_tokens d) (au_refresh_tokens d')" "au_sessions d' = au_sessions d"
  shows "keeps d d'"
  using tokens_revoked_wf [OF _ assms] assms list_all2_mono [OF assms(1) token_revoke_rewrite]
  by (simp add: keeps_def evolves_def grows_all2 grows_refl)

lemma tokens_revoked_linked:
  "list_all2 token_revoke ts ts' \<Longrightarrow> tokens_linked ts' = tokens_linked ts"
  by (rule tokens_linked_cong, erule list_all2_mono) (auto simp: token_revoke_def)

section \<open>Statements\<close>

lemmas statement_simps = chain_eq_Inr pg_varchar_eq_Inr

lemma CreateAuditEvent_InrD:
  "CreateAuditEvent E now P d = Inr (e, d') \<Longrightarrow> au_sessions d' = au_sessions d \<and>
     au_refresh_tokens d' = au_refresh_tokens d \<and> au_audit d' = au_audit d @ [e] \<and>
     (\<exists>i. e = new_audit_event now i P)"
  by (auto simp: CreateAuditEvent_def Let_def result_simps)

lemma writeAudit_InrD:
  assumes "writeAuditEventWithSubject E S now ev out meta M subj d = Inr d'"
  shows "au_sessions d' = au_sessions d" "au_refresh_tokens d' = au_refresh_tokens d"
    "\<exists>e. au_audit d' = au_audit d @ [e] \<and> Audit_EventType e = ev \<and> Audit_Outcome e = out \<and>
       Audit_SessionID e = AudS_SessionID subj \<and> Audit_Metadata e = meta"
  using assms by (auto simp: writeAuditEventWithSubject_def result_simps new_audit_event_def dest!: CreateAuditEvent_InrD)

lemma writeAudit_keeps: "writeAuditEventWithSubject E S now ev out meta M subj d = Inr d' \<Longrightarrow> keeps d d'"
  by (rule keeps_frame) (simp_all add: writeAudit_InrD)

lemma MarkSessionCompromised_keeps: "MarkSessionCompromised now sid reason d = Inr (s, d') \<Longrightarrow> keeps d d'"
  by (rule sessions_rewritten)
     (auto simp: MarkSessionCompromised_def statement_simps intro: write_terminated_rewrite
       elim!: update_row_all2 [where R = session_rewrite])

lemma RevokeSession_keeps: "RevokeSession now sid userID reason d = Inr (s, d') \<Longrightarrow> keeps d d'"
  by (rule sessions_rewritten)
     (auto simp: RevokeSession_def statement_simps intro: write_terminated_rewrite
       elim!: update_row_all2 [where R = session_rewrite])

lemma RevokeAllActive_keeps: "RevokeAllActiveUserSessions now userID reason d = Inr (ids, d') \<Longrightarrow> keeps d d'"
  by (rule sessions_rewritten)
     (auto simp: RevokeAllActiveUserSessions_def statement_simps intro: write_terminated_rewrite
       elim!: update_rows_all2 [where R = session_rewrite])

lemma TouchSession_keeps: "TouchSession now sid userID idle d = Inr (s, d') \<Longrightarrow> keeps d d'"
  by (rule sessions_rewritten)
     (auto simp: TouchSession_def statement_simps intro: write_touched_rewrite
       elim!: update_row_all2 [where R = session_rewrite])

lemma RevokeSessionRefreshTokens_keeps: "RevokeSessionRefreshTokens now sid d = Inr (us, d') \<Longrightarrow> keeps d d'"
  by (rule tokens_revoked)
     (auto simp: RevokeSessionRefreshTokens_def statement_simps intro: write_revoked_revoke
       elim!: update_rows_all2 [where R = token_revoke])

lemma RevokeAllUserRefreshTokens_keeps: "RevokeAllUserRefreshTokens now userID d = Inr (n, d') \<Longrightarrow> keeps d d'"
  by (rule tokens_revoked)
     (auto simp: RevokeAllUserRefreshTokens_def statement_simps intro: write_revoked_revoke
       elim!: update_rows_all2 [where R = token_revoke])

section \<open>New sessions and tokens\<close>

lemma CreateAuthSession_InrD:
  assumes "CreateAuthSession E now P d = Inr (s, d')"
  shows "s = new_session now (uuidv7 E (au_uuid_calls d)) P" "au_sessions d' = au_sessions d @ [s]"
    "au_refresh_tokens d' = au_refresh_tokens d" "\<forall>r \<in> set (au_sessions d). Ses_ID r \<noteq> Ses_ID s"
    "first_violation (auth_session_checks s) = None"
  using assms by (auto simp: CreateAuthSession_def Let_def result_simps find_None_iff)

lemma CreateRefreshToken_InrD:
  assumes "CreateRefreshToken now P d = Inr (t, d')"
  shows "t = new_token now P" "d' = d\<lparr>au_refresh_tokens := au_refresh_tokens d @ [t]\<rparr>"
    "\<forall>r \<in> set (au_refresh_tokens d). Tok_ID r \<noteq> Tok_ID t" "first_violation (refresh_token_checks t) = None"
  using assms by (auto simp: CreateRefreshToken_def Let_def result_simps find_None_iff)

lemma token_ok_more_sessions:
  "token_ok d t \<Longrightarrow> set (au_sessions d) \<subseteq> set (au_sessions d') \<Longrightarrow> token_ok d' t"
  by (auto simp: token_ok_def)

lemma session_added:
  assumes "CreateAuthSession E now P d = Inr (s, d')"
  shows "keeps d d'"
proof -
  note c = CreateAuthSession_InrD [OF assms]
  have "auth_sessions.unique d'" if "auth_sessions.unique d"
    using that c(2,4) by (auto simp: auth_sessions.unique_def)
  moreover have "token_ok d' t" if "token_ok d t" for t
    using that c(2) by (auto intro: token_ok_more_sessions)
  ultimately have "sessions_wf d \<longrightarrow> sessions_wf d'"
    using c by (auto simp: sessions_wf_def refresh_tokens.unique_def unconsumed_def)
  then show ?thesis using c(2,3) by (simp add: keeps_def evolves_def grows_append grows_refl)
qed

text \<open>A fresh token of a session that has no unconsumed one.\<close>

lemma token_added:
  assumes c: "CreateRefreshToken now P d = Inr (t, d')"
    and s: "\<exists>s \<in> set (au_sessions d). Ses_ID s = CT_SessionID P \<and> Ses_AbsoluteExpiresAt s = CT_ExpiresAt P"
    and n: "\<forall>t \<in> set (unconsumed d). Tok_SessionID t \<noteq> CT_SessionID P"
  shows "keeps d d'"
proof -
  note c = CreateRefreshToken_InrD [OF c]
  have "refresh_tokens.unique d'" if "refresh_tokens.unique d"
    using that c(2,3) by (auto simp: refresh_tokens.unique_def)
  moreover have "token_ok d' t" using c(1,2,4) s by (auto simp: token_ok_def new_token_def)
  moreover have "token_ok d' t'" if "token_ok d t'" for t' using that c(2) by (auto intro: token_ok_more_sessions)
  moreover have "distinct (map Tok_SessionID (unconsumed d'))" if "distinct (map Tok_SessionID (unconsumed d))"
    using that c(1,2) n by (auto simp: unconsumed_def new_token_def)
  ultimately have "sessions_wf d \<longrightarrow> sessions_wf d'"
    using c(2) by (auto simp: sessions_wf_def auth_sessions.unique_def)
  then show ?thesis using c(2) by (simp add: keeps_def evolves_def grows_append grows_refl)
qed

lemma CreateSessionInTx_InrE:
  assumes r: "CreateSessionInTx E S txnow ent now input d = Inr (r, d')"
  obtains kind row d1 b secret t where
    "validateClientID (CSI_ClientID input) = Inr ()"
    "validateContextCoherence (CSI_ContextKind input) (CSI_OrganizationID input) (CSI_MembershipID input)
       (CSI_StoreID input) = Inr kind"
    "CreateAuthSession E txnow (create_params S now kind input) d = (Inr (row, d1) :: session_error + _)"
    "ent_uuid ent = Some b" "ent_secret ent = Some secret"
    "CreateRefreshToken txnow
       \<lparr>CT_ID = newRandomUUID b, CT_SessionID = Ses_ID row, CT_ParentTokenID = None,
        CT_SecretHash = svc_HashSecret S secret, CT_ExpiresAt = now + svc_SessionAbsoluteTTL S\<rparr> d1 =
       (Inr (t, d') :: session_error + _)"
    "r = (sessionFromDBRow row, raw_token (newRandomUUID b) secret)"
  using r by (auto simp: CreateSessionInTx_def result_simps split: option.splits dest!: Generate_Inr intro!: that)

lemma CreateSessionInTx_keeps:
  assumes "CreateSessionInTx E S txnow ent now input d = Inr (r, d')" "sessions_wf d"
  shows "keeps d d'"
  using assms(1)
proof (cases rule: CreateSessionInTx_InrE)
  case (1 kind row d1 b secret t)
  note c = CreateAuthSession_InrD [OF 1(3)]
  have "\<forall>t \<in> set (unconsumed d1). Tok_SessionID t \<noteq> Ses_ID row"
    using assms(2) c(3,4) by (auto simp: unconsumed_def sessions_wf_def token_ok_def)
  moreover have "Ses_AbsoluteExpiresAt row = now + svc_SessionAbsoluteTTL S"
    using c(1) by (simp add: new_session_def create_params_def)
  ultimately have "keeps d1 d'" using c(2) by (intro token_added [OF 1(6)]) auto
  with session_added [OF 1(3)] show ?thesis by (rule keeps_trans)
qed

section \<open>Rotation\<close>

lemma ConsumeAndReplace_InrE:
  assumes "ConsumeAndReplaceRefreshToken now child sid tid d = (Inr (r, d') :: 's go_error + _)"
  obtains pre t post where "au_refresh_tokens d = pre @ t # post" "Tok_ID t = tid" "Tok_SessionID t = sid"
    "Tok_ConsumedAt t = None" "Tok_RevokedAt t = None" "now < Tok_ExpiresAt t"
    "r = t\<lparr>Tok_ConsumedAt := Some now, Tok_ReplacedByTokenID := Some child\<rparr>"
    "first_violation (refresh_token_checks r) = None"
    "d' = d\<lparr>au_refresh_tokens := pre @ r # post\<rparr>"
proof -
  from assms obtain rows where u: "update_row (\<lambda>t. Tok_SessionID t = sid \<and> Tok_ID t = tid \<and> Tok_ConsumedAt t = None \<and>
       Tok_RevokedAt t = None \<and> now < Tok_ExpiresAt t) (consume_token now child d) (au_refresh_tokens d) =
       (Inr (r, rows) :: 's go_error + _)" "d' = d\<lparr>au_refresh_tokens := rows\<rparr>"
    by (auto simp: ConsumeAndReplaceRefreshToken_def chain_eq_Inr)
  from update_row_InrD [OF u(1)] obtain pre t post where
    p: "au_refresh_tokens d = pre @ t # post" "Tok_ID t = tid" "Tok_SessionID t = sid"
      "Tok_ConsumedAt t = None" "Tok_RevokedAt t = None" "now < Tok_ExpiresAt t"
      "consume_token now child d t = (Inr r :: 's go_error + _)" "rows = pre @ r # post" by blast
  from p(7) have "r = t\<lparr>Tok_ConsumedAt := Some now, Tok_ReplacedByTokenID := Some child\<rparr>"
    "first_violation (refresh_token_checks r) = None"
    by (auto simp: consume_token_def result_simps)
  from that [OF p(1-6) this] u(2) p(8) show thesis by simp
qed

text \<open>What a rotation does to the tokens: the presented one is consumed, its child is appended.\<close>

definition rotated :: "time \<Rightarrow> refresh_token \<Rightarrow> refresh_token \<Rightarrow> auth_db \<Rightarrow> auth_db \<Rightarrow> bool" where
  "rotated txnow token child d d' \<longleftrightarrow> (\<exists>pre post.
     au_refresh_tokens d = pre @ token # post \<and>
     au_refresh_tokens d' =
       pre @ token\<lparr>Tok_ConsumedAt := Some txnow, Tok_ReplacedByTokenID := Some (Tok_ID child)\<rparr> # post @ [child])"

lemma rotate_token_InrE:
  assumes "rotate_token E S txnow ent now token s M d = Inr (res, d')"
    and "token \<in> set (au_refresh_tokens d)" "refresh_tokens.unique d"
  obtains b secret child touched d2 d3 where
    "ent_uuid ent = Some b" "ent_secret ent = Some secret"
    "child = new_token txnow \<lparr>CT_ID = newRandomUUID b, CT_SessionID = Tok_SessionID token,
       CT_ParentTokenID = Some (Tok_ID token), CT_SecretHash = svc_HashSecret S secret,
       CT_ExpiresAt = Ses_AbsoluteExpiresAt s\<rparr>"
    "first_violation (refresh_token_checks child) = None" "\<forall>r \<in> set (au_refresh_tokens d). Tok_ID r \<noteq> Tok_ID child"
    "rotated txnow token child d d2" "au_sessions d2 = au_sessions d"
    "first_violation (refresh_token_checks
       (token\<lparr>Tok_ConsumedAt := Some txnow, Tok_ReplacedByTokenID := Some (Tok_ID child)\<rparr>)) = None"
    "Tok_ConsumedAt token = None" "Tok_RevokedAt token = None" "txnow < Tok_ExpiresAt token"
    "TouchSession txnow (Tok_SessionID token) (Ses_UserID s) (idle_deadline S now (Ses_AbsoluteExpiresAt s)) d2 =
       (Inr (touched, d3) :: session_error + _)"
    "writeAuditEventWithSubject E S txnow ''auth.refreshed'' AuditSUCCESS
       [(''previous_token_id'', MetaText (uuidStr (Tok_ID token))), (''new_token_id'', MetaText (uuidStr (Tok_ID child)))]
       M (session_subject s) d3 = Inr d'"
    "res = \<lparr>Rot_Session = sessionFromDBRow s, Rot_RawRefreshToken = raw_token (newRandomUUID b) secret,
       Rot_ExpiresIn = idle_deadline S now (Ses_AbsoluteExpiresAt s) - now, Rot_MustClearCookies = False\<rparr>"
proof -
  let ?P = "\<lambda>b secret. \<lparr>CT_ID = newRandomUUID b, CT_SessionID = Tok_SessionID token,
       CT_ParentTokenID = Some (Tok_ID token), CT_SecretHash = svc_HashSecret S secret,
       CT_ExpiresAt = Ses_AbsoluteExpiresAt s\<rparr>"
  from assms(1) obtain b secret child d1 d2 r touched d3 where
    e: "ent_uuid ent = Some b" "ent_secret ent = Some secret" and
    c: "CreateRefreshToken txnow (?P b secret) d = (Inr (child, d1) :: session_error + _)" and
    u: "ConsumeAndReplaceRefreshToken txnow (Tok_ID child) (Tok_SessionID token) (Tok_ID token) d1 =
      (Inr (r, d2) :: session_error + _)" and
    rest: "TouchSession txnow (Tok_SessionID token) (Ses_UserID s) (idle_deadline S now (Ses_AbsoluteExpiresAt s)) d2 =
       (Inr (touched, d3) :: session_error + _)"
    "writeAuditEventWithSubject E S txnow ''auth.refreshed'' AuditSUCCESS
       [(''previous_token_id'', MetaText (uuidStr (Tok_ID token))), (''new_token_id'', MetaText (uuidStr (Tok_ID child)))]
       M (session_subject s) d3 = Inr d'"
    "res = \<lparr>Rot_Session = sessionFromDBRow s, Rot_RawRefreshToken = raw_token (newRandomUUID b) secret,
       Rot_ExpiresIn = idle_deadline S now (Ses_AbsoluteExpiresAt s) - now, Rot_MustClearCookies = False\<rparr>"
    by (auto simp: rotate_token_def Let_def result_simps split: option.splits dest!: Generate_Inr)
  note c = CreateRefreshToken_InrD [OF c]
  from u show thesis
  proof (cases rule: ConsumeAndReplace_InrE)
    case (1 pre t post)
    have ne: "Tok_ID child \<noteq> Tok_ID token" using c(3) assms(2) by auto
    from 1(1) c(2) have split: "au_refresh_tokens d @ [child] = pre @ t # post" by simp
    with 1(2) ne have "post \<noteq> []" by auto
    with split obtain post' where p: "post = post' @ [child]" "au_refresh_tokens d = pre @ t # post'"
      by (cases post rule: rev_cases) auto
    have "t = token" using refresh_tokens.unique_inj [OF assms(3) _ assms(2) 1(2)] p(2) by simp
    with 1 p c(2) have "rotated txnow token child d d2" by (auto simp: rotated_def)
    with that [OF e c(1,4,3) this _ _ _ _ _ rest] 1 c(2) \<open>t = token\<close> show ?thesis by simp
  qed
qed

lemma rotated_keeps:
  assumes r: "rotated txnow token child d d2" and s: "au_sessions d2 = au_sessions d"
    and fresh: "\<forall>r \<in> set (au_refresh_tokens d). Tok_ID r \<noteq> Tok_ID child"
    and child: "Tok_SessionID child = Tok_SessionID token" "Tok_ConsumedAt child = None"
      "Tok_ReplacedByTokenID child = None" "Tok_ExpiresAt child = Tok_ExpiresAt token"
    and token: "Tok_ConsumedAt token = None"
    and checks: "first_violation (refresh_token_checks child) = None"
      "first_violation (refresh_token_checks
         (token\<lparr>Tok_ConsumedAt := Some txnow, Tok_ReplacedByTokenID := Some (Tok_ID child)\<rparr>)) = None"
  shows "keeps d d2"
proof -
  from r obtain pre post where t: "au_refresh_tokens d = pre @ token # post"
    "au_refresh_tokens d2 = (pre @
       token\<lparr>Tok_ConsumedAt := Some txnow, Tok_ReplacedByTokenID := Some (Tok_ID child)\<rparr> # post) @ [child]"
    by (auto simp: rotated_def)
  have "token_rewrite token (token\<lparr>Tok_ConsumedAt := Some txnow, Tok_ReplacedByTokenID := Some (Tok_ID child)\<rparr>)"
    using token by (simp add: token_rewrite_def)
  then have "list_all2 token_rewrite (au_refresh_tokens d) (pre @
       token\<lparr>Tok_ConsumedAt := Some txnow, Tok_ReplacedByTokenID := Some (Tok_ID child)\<rparr> # post)"
    by (auto simp: t(1) intro!: list_all2_appendI list_all2_refl)
  then have "grows token_rewrite (au_refresh_tokens d) (au_refresh_tokens d2)" unfolding t(2) grows_def by blast
  then have "evolves d d2" by (simp add: evolves_def s grows_refl)
  moreover have "sessions_wf d2" if "sessions_wf d"
    using that t fresh child token checks
    by (auto simp: sessions_wf_def refresh_tokens.unique_def auth_sessions.unique_def unconsumed_def token_ok_def s)
  ultimately show ?thesis by (simp add: keeps_def)
qed

lemma rotate_token_keeps:
  assumes "rotate_token E S txnow ent now token s M d = Inr (res, d')" "token \<in> set (au_refresh_tokens d)"
    "sessions_wf d" "s \<in> set (au_sessions d)" "Ses_ID s = Tok_SessionID token"
  shows "keeps d d'"
proof -
  have u: "refresh_tokens.unique d" "auth_sessions.unique d" using assms(3) by (simp_all add: sessions_wf_def)
  from assms(2,3) obtain s' where s': "s' \<in> set (au_sessions d)" "Ses_ID s' = Tok_SessionID token"
    "Ses_AbsoluteExpiresAt s' = Tok_ExpiresAt token" by (auto simp: sessions_wf_def token_ok_def)
  have "s' = s" using auth_sessions.unique_inj [OF u(2) s'(1) assms(4)] s'(2) assms(5) by simp
  with s'(3) have x: "Ses_AbsoluteExpiresAt s = Tok_ExpiresAt token" by simp
  from assms(1,2) u(1) show ?thesis
  proof (cases rule: rotate_token_InrE)
    case (1 b secret child touched d2 d3)
    have "keeps d d2"
      using 1(3) x by (intro rotated_keeps [OF 1(6,7,5) _ _ _ _ 1(9,4,8)]) (simp_all add: new_token_def)
    with TouchSession_keeps [OF 1(12)] writeAudit_keeps [OF 1(13)] show ?thesis by (blast intro: keeps_trans)
  qed
qed

lemma handleReuse_keeps: "handleReuse E S txnow token M d = Inr d' \<Longrightarrow> keeps d d'"
  by (auto simp: handleReuse_def result_simps elim!: keeps_trans dest!: MarkSessionCompromised_keeps
      RevokeSessionRefreshTokens_keeps writeAudit_keeps)

lemma GetRefreshTokenForUpdate_InrD:
  "GetRefreshTokenForUpdate tid d = Inr t \<Longrightarrow> t \<in> set (au_refresh_tokens d) \<and> Tok_ID t = tid"
  by (auto simp: GetRefreshTokenForUpdate_def result_simps dest: find_SomeD)

lemma GetAuthSessionForUpdate_InrD:
  "GetAuthSessionForUpdate sid d = Inr r \<Longrightarrow> SSR_Session r \<in> set (au_sessions d) \<and> Ses_ID (SSR_Session r) = sid"
  by (auto simp: GetAuthSessionForUpdate_def session_state_of_def Let_def result_simps dest!: find_SomeD)

text \<open>The two ways a rotation can end well.\<close>

lemma rotate_tx_InrE:
  assumes "rotate_tx E S txnow ent now parsed M d = Inr ((out, sid), d')"
  obtains (reuse) token where
    "GetRefreshTokenForUpdate (Parsed_Selector parsed) d = (Inr token :: session_error + _)"
    "VerifySecret (svc_HashSecret S) (Parsed_Secret parsed) (Tok_SecretHash token)"
    "Tok_RevokedAt token = None" "now \<le> Tok_ExpiresAt token" "Tok_ConsumedAt token \<noteq> None"
    "handleReuse E S txnow token M d = Inr d'" "out = ReuseDetected" "sid = Tok_SessionID token"
  | (rotation) token row res where
    "GetRefreshTokenForUpdate (Parsed_Selector parsed) d = (Inr token :: session_error + _)"
    "VerifySecret (svc_HashSecret S) (Parsed_Secret parsed) (Tok_SecretHash token)"
    "Tok_RevokedAt token = None" "now \<le> Tok_ExpiresAt token" "Tok_ConsumedAt token = None"
    "GetAuthSessionForUpdate (Tok_SessionID token) d = (Inr row :: session_error + _)"
    "Ses_Status (SSR_Session row) = SesACTIVE" "SSR_UserStatus row = UserACTIVE"
    "now \<le> Ses_IdleExpiresAt (SSR_Session row)" "now \<le> Ses_AbsoluteExpiresAt (SSR_Session row)"
    "rotate_token E S txnow ent now token (SSR_Session row) M d = Inr (res, d')"
    "out = Rotated res" "sid = Tok_SessionID token"
proof -
  from assms obtain token where t: "GetRefreshTokenForUpdate (Parsed_Selector parsed) d = (Inr token :: session_error + _)"
    "VerifySecret (svc_HashSecret S) (Parsed_Secret parsed) (Tok_SecretHash token)"
    "Tok_RevokedAt token = None" "now \<le> Tok_ExpiresAt token"
    by (auto simp: rotate_tx_def result_simps)
  show thesis
  proof (cases "Tok_ConsumedAt token")
    case None
    with assms t show thesis
      by (auto simp: rotate_tx_def Let_def result_simps not_less intro: rotation)
  next
    case (Some x)
    with assms t show thesis by (auto simp: rotate_tx_def result_simps intro!: reuse)
  qed
qed

lemma rotate_tx_keeps:
  assumes "rotate_tx E S txnow ent now parsed M d = Inr (r, d')" "sessions_wf d"
  shows "keeps d d'"
proof -
  obtain out sid where "r = (out, sid)" by force
  with assms(1) have "rotate_tx E S txnow ent now parsed M d = Inr ((out, sid), d')" by simp
  then show ?thesis
  proof (cases rule: rotate_tx_InrE)
    case (reuse token)
    then show ?thesis by (simp add: handleReuse_keeps)
  next
    case (rotation token row res)
    then show ?thesis
      using GetRefreshTokenForUpdate_InrD [OF rotation(1)] GetAuthSessionForUpdate_InrD [OF rotation(6)] assms(2)
      by (auto intro: rotate_token_keeps)
  qed
qed

lemma revoke_tx_keeps: "revoke_tx E S txnow actor target current reason ev M d = Inr (r, d') \<Longrightarrow> keeps d d'"
  by (auto simp: revoke_tx_def Let_def result_simps split: if_splits
      elim!: keeps_trans dest!: RevokeSession_keeps RevokeSessionRefreshTokens_keeps writeAudit_keeps)

lemma RevokeAllUserSessionsInTx_keeps: "RevokeAllUserSessionsInTx txnow userID reason d = Inr (ids, d') \<Longrightarrow> keeps d d'"
  by (auto simp: RevokeAllUserSessionsInTx_def result_simps
      elim!: keeps_trans dest!: RevokeAllActive_keeps RevokeAllUserRefreshTokens_keeps)

lemma revoke_all_tx_keeps: "revoke_all_tx E S txnow userID current M d = Inr (r, d') \<Longrightarrow> keeps d d'"
  by (auto simp: revoke_all_tx_def result_simps
      elim!: keeps_trans dest!: RevokeAllUserSessionsInTx_keeps writeAudit_keeps)

end
