(* ===== verification/Sessions_Behaviour.thy ===== *)
theory Sessions_Behaviour
  imports Sessions_Invariant
begin

text \<open>
  The session service as a step relation together with what the other services may do to the
  same tables, the invariant of every reachable state, and what a rotation, a detected reuse
  and a revocation leave behind.
\<close>

section \<open>Steps\<close>

text \<open>
  A step is a call of an operation, or a committed transaction of another service: login and
  registration create sessions, a password change revokes all, and other statements may
  switch or end an active session and revoke tokens.
\<close>

inductive session_step :: "env \<Rightarrow> session_service \<Rightarrow> auth_db \<Rightarrow> auth_db \<Rightarrow> bool" for E S where
  create: "CreateSessionInTx E S txnow ent now input d = Inr (r, d') \<Longrightarrow> lineage_ok d' \<Longrightarrow> session_step E S d d'"
| rotate: "RotateRefreshToken E S T ent now raw M d = (res, d', ids) \<Longrightarrow> session_step E S d d'"
| revoke: "revokeSession E S T actor target current reason ev M d = (res, d', ids) \<Longrightarrow> session_step E S d d'"
| revoke_all: "RevokeAllUserSessions E S T userID current M d = (res, d', ids) \<Longrightarrow> session_step E S d d'"
| revoke_all_in_tx: "RevokeAllUserSessionsInTx txnow userID reason d = Inr (r, d') \<Longrightarrow> lineage_ok d' \<Longrightarrow> session_step E S d d'"
| others: "list_all2 session_rewrite (au_sessions d) (au_sessions d') \<Longrightarrow>
    list_all2 token_revoke (au_refresh_tokens d) (au_refresh_tokens d') \<Longrightarrow> session_step E S d d'"

lemma RotateRefreshToken_cases:
  assumes "RotateRefreshToken E S T ent now raw M d = (res, d', ids)"
  obtains (refused) e where "res = Inl e" "d' = d" "ids = []"
      "e \<noteq> Wrapped ''token was already consumed'' (Sentinel ErrRefreshTokenReused)"
  | (committed) parsed out sid where "Parse E raw = Inr parsed" "tx_begin_error T = None" "tx_commit_error T = None"
      "rotate_tx E S (tx_now T) ent now parsed M d = Inr ((out, sid), d')" "lineage_ok d'" "ids = [sid]"
      "res = (case out of Rotated r \<Rightarrow> Inr r
         | ReuseDetected \<Rightarrow> Inl (Wrapped ''token was already consumed'' (Sentinel ErrRefreshTokenReused)))"
proof (cases "Parse E raw")
  case (Inl e)
  with assms show thesis by (auto simp: RotateRefreshToken_def intro: refused)
next
  case (Inr parsed)
  obtain r d1 where r: "Auth_WithTx T (rotate_tx E S (tx_now T) ent now parsed M) d = (r, d1)" by fastforce
  show thesis
  proof (cases r)
    case (Inl e)
    with Auth_WithTx_Inl r have "d1 = d" by blast
    with Inl Inr r assms show thesis by (auto simp: RotateRefreshToken_def intro: refused)
  next
    case Inr': (Inr x)
    obtain out sid where x: "x = (out, sid)" by force
    from r Inr' x Inr assms have "d' = d1" "ids = [sid]" "res = (case out of Rotated r \<Rightarrow> Inr r
         | ReuseDetected \<Rightarrow> Inl (Wrapped ''token was already consumed'' (Sentinel ErrRefreshTokenReused)))"
      by (auto simp: RotateRefreshToken_def split: rotate_outcome.splits)
    moreover from r Inr' x have "tx_begin_error T = None" "tx_commit_error T = None"
      "rotate_tx E S (tx_now T) ent now parsed M d = Inr ((out, sid), d1)" "lineage_ok d1"
      by (auto simp: Auth_WithTx_Inr)
    ultimately show thesis using Inr by (intro committed) auto
  qed
qed

lemma revokeSession_cases:
  assumes "revokeSession E S T actor target current reason ev M d = (res, d', ids)"
  obtains (refused) e where "res = Inl e" "d' = d" "ids = []"
  | (committed) r where "res = Inr r" "tx_begin_error T = None" "tx_commit_error T = None" "ids = [target]"
      "revoke_tx E S (tx_now T) actor target current reason ev M d = Inr (r, d')" "lineage_ok d'"
proof -
  obtain r d1 where r: "Auth_WithTx T (revoke_tx E S (tx_now T) actor target current reason ev M) d = (r, d1)"
    by fastforce
  show thesis
    using assms r
    by (cases r) (auto simp: revokeSession_def Auth_WithTx_Inr dest: Auth_WithTx_Inl intro: refused committed)
qed

lemma RevokeAllUserSessions_cases:
  assumes "RevokeAllUserSessions E S T userID current M d = (res, d', ids)"
  obtains (refused) e where "res = Inl e" "d' = d" "ids = []"
  | (committed) r where "res = Inr r" "tx_begin_error T = None" "tx_commit_error T = None" "ids = fst r"
      "revoke_all_tx E S (tx_now T) userID current M d = Inr (r, d')" "lineage_ok d'"
proof -
  obtain r d1 where r: "Auth_WithTx T (revoke_all_tx E S (tx_now T) userID current M) d = (r, d1)" by fastforce
  show thesis
    using assms r
    by (cases r) (auto simp: RevokeAllUserSessions_def Auth_WithTx_Inr dest: Auth_WithTx_Inl intro: refused committed)
qed

lemma keeps_inv: "(sessions_wf d \<Longrightarrow> keeps d d') \<Longrightarrow> lineage_ok d' \<Longrightarrow> sessions_inv d \<Longrightarrow> sessions_inv d' \<and> evolves d d'"
  by (simp add: keeps_def sessions_inv_def)

lemma step_inv:
  assumes "session_step E S d d'" "sessions_inv d"
  shows "sessions_inv d' \<and> evolves d d'"
  using assms(1)
proof (cases rule: session_step.cases)
  case (create txnow ent now input r)
  with assms(2) CreateSessionInTx_keeps [OF create(1)] show ?thesis by (simp add: sessions_inv_def keeps_def)
next
  case (rotate T ent now raw M res ids)
  from rotate show ?thesis
  proof (cases rule: RotateRefreshToken_cases)
    case (refused e)
    with assms(2) show ?thesis by simp
  next
    case (committed parsed out sid)
    with assms(2) rotate_tx_keeps [OF committed(4)] show ?thesis by (simp add: keeps_def sessions_inv_def)
  qed
next
  case (revoke T actor target current reason ev M res ids)
  from revoke assms(2) show ?thesis
    by (cases rule: revokeSession_cases) (simp, metis keeps_inv revoke_tx_keeps)
next
  case (revoke_all T userID current M res ids)
  from revoke_all assms(2) show ?thesis
    by (cases rule: RevokeAllUserSessions_cases) (simp, metis keeps_inv revoke_all_tx_keeps)
next
  case (revoke_all_in_tx txnow userID reason r)
  with assms(2) show ?thesis by (metis keeps_inv RevokeAllUserSessionsInTx_keeps)
next
  case others
  let ?m = "d\<lparr>au_sessions := au_sessions d'\<rparr>"
  have "keeps d ?m" by (rule sessions_rewritten) (simp_all add: others)
  moreover have "keeps ?m d'" by (rule tokens_revoked) (simp_all add: others)
  ultimately have "keeps d d'" by (rule keeps_trans)
  moreover have "lineage_ok d' = lineage_ok d" using tokens_revoked_linked [OF others(2)] by (simp add: lineage_ok_def)
  ultimately show ?thesis using assms(2) by (simp add: keeps_def sessions_inv_def)
qed

lemma steps_inv: "rtranclp (session_step E S) d d' \<Longrightarrow> sessions_inv d \<Longrightarrow> sessions_inv d' \<and> evolves d d'"
  by (induction rule: rtranclp_induct) (auto dest: step_inv intro: evolves_trans)

lemma no_sessions_inv: "au_sessions d = [] \<Longrightarrow> au_refresh_tokens d = [] \<Longrightarrow> sessions_inv d"
  by (simp add: sessions_inv_def sessions_wf_def auth_sessions.unique_def refresh_tokens.unique_def
      unconsumed_def lineage_ok_def tokens_linked_def)

section \<open>What a detected reuse leaves behind\<close>

definition compromised :: "uuid \<Rightarrow> auth_db \<Rightarrow> bool" where
  "compromised sid d \<longleftrightarrow> (\<exists>s \<in> set (au_sessions d). Ses_ID s = sid \<and> Ses_Status s = SesCOMPROMISED) \<and>
     (\<forall>t \<in> set (au_refresh_tokens d). Tok_SessionID t = sid \<longrightarrow> Tok_RevokedAt t \<noteq> None)"

lemma RevokeSessionRefreshTokens_all:
  assumes "RevokeSessionRefreshTokens now sid d = (Inr (us, d') :: 's go_error + _)" "t \<in> set (au_refresh_tokens d')" "Tok_SessionID t = sid"
  shows "Tok_RevokedAt t \<noteq> None"
proof -
  from assms(1) obtain rows where "update_rows (\<lambda>t. Tok_SessionID t = sid \<and> Tok_RevokedAt t = None)
      (write_token (\<lambda>t. t\<lparr>Tok_RevokedAt := Some now\<rparr>)) (au_refresh_tokens d) = (Inr (us, rows) :: 's go_error + _)"
    "d' = d\<lparr>au_refresh_tokens := rows\<rparr>"
    by (auto simp: RevokeSessionRefreshTokens_def chain_eq_Inr)
  with update_rows_InrD(1) [OF this(1)] assms(2) obtain r where
    "if Tok_SessionID r = sid \<and> Tok_RevokedAt r = None then write_token (\<lambda>t. t\<lparr>Tok_RevokedAt := Some now\<rparr>) r =
       (Inr t :: 's go_error + _) else t = r"
    by (auto dest: all2_member)
  with assms(3) show ?thesis by (auto simp: result_simps split: if_splits)
qed

lemma RevokeSessionRefreshTokens_sessions:
  "RevokeSessionRefreshTokens now sid d = Inr (us, d') \<Longrightarrow> au_sessions d' = au_sessions d \<and> au_audit d' = au_audit d"
  by (auto simp: RevokeSessionRefreshTokens_def chain_eq_Inr)

lemma terminated_row:
  assumes "update_row p (write_session now (terminated now status reason)) rows = Inr (s', rows')"
  shows "s' \<in> set rows' \<and> Ses_Status s' = status \<and> (\<exists>s \<in> set rows. p s \<and> Ses_ID s' = Ses_ID s \<and> Ses_UserID s' = Ses_UserID s)"
  using update_row_InrD [OF assms] by (auto simp: result_simps terminated_def)

lemma MarkSessionCompromised_InrD:
  assumes "MarkSessionCompromised now sid reason d = Inr (s', d')"
  shows "s' \<in> set (au_sessions d')" "Ses_ID s' = sid" "Ses_Status s' = SesCOMPROMISED" "au_audit d' = au_audit d"
    "\<exists>s \<in> set (au_sessions d). Ses_ID s = sid \<and> Ses_Status s = SesACTIVE"
  using assms by (auto simp: MarkSessionCompromised_def statement_simps dest!: terminated_row)

lemma handleReuse_compromises:
  assumes "handleReuse E S txnow token M d = Inr d'"
  shows "compromised (Tok_SessionID token) d'"
    "\<exists>e. au_audit d' = au_audit d @ [e] \<and> Audit_EventType e = ''auth.refresh.reused'' \<and>
       Audit_Outcome e = AuditFAILURE \<and> Audit_SessionID e = Some (Tok_SessionID token)"
proof -
  from assms obtain marked d1 us d2 where
    m: "MarkSessionCompromised txnow (Tok_SessionID token) ''refresh_token_reused'' d = (Inr (marked, d1) :: session_error + _)" and
    r: "RevokeSessionRefreshTokens txnow (Tok_SessionID token) d1 = (Inr (us, d2) :: session_error + _)" and
    w: "writeAuditEventWithSubject E S txnow ''auth.refresh.reused'' AuditFAILURE
          [(''token_id'', MetaText (uuidStr (Tok_ID token))), (''session_id'', MetaText (uuidStr (Tok_SessionID token))),
           (''previous_status'', MetaText ''ACTIVE''), (''new_status'', MetaText ''COMPROMISED'')]
          M (session_subject marked) d2 = Inr d'"
    by (auto simp: handleReuse_def result_simps)
  note f = writeAudit_InrD [OF w] RevokeSessionRefreshTokens_sessions [OF r] MarkSessionCompromised_InrD [OF m]
  show "compromised (Tok_SessionID token) d'"
    using f RevokeSessionRefreshTokens_all [OF r] unfolding compromised_def by metis
  show "\<exists>e. au_audit d' = au_audit d @ [e] \<and> Audit_EventType e = ''auth.refresh.reused'' \<and>
       Audit_Outcome e = AuditFAILURE \<and> Audit_SessionID e = Some (Tok_SessionID token)"
    using f by (auto simp: session_subject_def)
qed

section \<open>A session that ended never rotates again\<close>

lemma find_unique_token:
  assumes "refresh_tokens.unique d" "t \<in> set (au_refresh_tokens d)"
  shows "GetRefreshTokenForUpdate (Tok_ID t) d = Inr t"
proof -
  obtain t' where "List.find (\<lambda>r. Tok_ID r = Tok_ID t) (au_refresh_tokens d) = Some t'"
    using assms(2) by (cases "List.find (\<lambda>r. Tok_ID r = Tok_ID t) (au_refresh_tokens d)") (auto simp: find_None_iff)
  moreover from this have "t' = t" using refresh_tokens.unique_inj [OF assms(1) _ assms(2)] by (auto dest: find_SomeD)
  ultimately show ?thesis by (simp add: GetRefreshTokenForUpdate_def)
qed

lemma find_unique_session:
  assumes "auth_sessions.unique d" "s \<in> set (au_sessions d)"
  shows "List.find (\<lambda>r. Ses_ID r = Ses_ID s) (au_sessions d) = Some s"
proof -
  obtain s' where "List.find (\<lambda>r. Ses_ID r = Ses_ID s) (au_sessions d) = Some s'"
    using assms(2) by (cases "List.find (\<lambda>r. Ses_ID r = Ses_ID s) (au_sessions d)") (auto simp: find_None_iff)
  moreover from this have "s' = s" using auth_sessions.unique_inj [OF assms(1) _ assms(2)] by (auto dest: find_SomeD)
  ultimately show ?thesis by simp
qed

lemma ended_session_refused:
  assumes inv: "sessions_inv d" and s: "s \<in> set (au_sessions d)" "Ses_Status s \<noteq> SesACTIVE"
    and parsed: "Parse E raw = Inr parsed" "t \<in> set (au_refresh_tokens d)" "Tok_ID t = Parsed_Selector parsed"
      "Tok_SessionID t = Ses_ID s"
  shows "\<exists>e. RotateRefreshToken E S T ent now raw M d = (Inl e, d, [])"
proof -
  have u: "refresh_tokens.unique d" "auth_sessions.unique d" using inv by (simp_all add: sessions_inv_def sessions_wf_def)
  have g: "GetRefreshTokenForUpdate (Parsed_Selector parsed) d = (Inr t :: session_error + _)"
    using find_unique_token [OF u(1) parsed(2)] parsed(3) by simp
  have f: "List.find (\<lambda>r. Ses_ID r = Ses_ID s) (au_sessions d) = Some s" by (rule find_unique_session [OF u(2) s(1)])
  obtain res d' ids where r: "RotateRefreshToken E S T ent now raw M d = (res, d', ids)" by (metis prod_cases3)
  then show ?thesis
  proof (cases rule: RotateRefreshToken_cases)
    case (refused e)
    with r show ?thesis by simp
  next
    case (committed parsed' out sid)
    with parsed have p: "parsed' = parsed" by simp
    from committed(4) show ?thesis
    proof (cases rule: rotate_tx_InrE)
      case (reuse token)
      with g p have "token = t" by simp
      with reuse have "\<exists>s' \<in> set (au_sessions d). Ses_ID s' = Ses_ID s \<and> Ses_Status s' = SesACTIVE"
        using parsed(4) by (auto simp: handleReuse_def result_simps dest!: MarkSessionCompromised_InrD(5))
      with auth_sessions.unique_inj [OF u(2) _ s(1)] s(2) show ?thesis by blast
    next
      case (rotation token row res')
      with g p have "token = t" by simp
      with rotation GetAuthSessionForUpdate_InrD [OF rotation(6)] auth_sessions.unique_inj [OF u(2) _ s(1)] s(2) parsed(4)
      show ?thesis by auto
    qed
  qed
qed

section \<open>A reuse is handled\<close>

text \<open>
  What handling a reuse needs beyond the code: the clock of the database is not behind the rows
  of the session, the texts of the request fit the columns of the audit trail, the rows that the
  session refers to exist, and the identifier drawn for the event is new.
\<close>

definition clock_after :: "time \<Rightarrow> auth_session \<Rightarrow> auth_db \<Rightarrow> bool" where
  "clock_after now s d \<longleftrightarrow> Ses_CreatedAt s \<le> now \<and>
     (\<forall>t \<in> set (au_refresh_tokens d). Tok_SessionID t = Ses_ID s \<longrightarrow> Tok_CreatedAt t \<le> now)"

definition audit_texts_fit :: "request_meta \<Rightarrow> bool" where
  "audit_texts_fit M \<longleftrightarrow> char_length (RM_RequestID M) \<le> 100 \<and> (RM_RequestID M = [] \<or> \<not> btrim_blank (RM_RequestID M)) \<and>
     char_length (RM_UserAgent M) \<le> 512 \<and> (RM_UserAgent M = [] \<or> \<not> btrim_blank (RM_UserAgent M))"

definition session_refers :: "auth_db \<Rightarrow> auth_session \<Rightarrow> bool" where
  "session_refers d s \<longleftrightarrow> session_context_ok d s \<and> session_references_ok d s = (Inr () :: unit go_error + unit) \<and>
     (case Ses_OrganizationID s of None \<Rightarrow> True | Some g \<Rightarrow> list_ex (\<lambda>r. Org_ID r = g) (au_organizations d))"

lemma mark_total:
  assumes "sessions_wf d" "s \<in> set (au_sessions d)" "Ses_Status s = SesACTIVE" "Ses_CreatedAt s \<le> now"
  shows "\<exists>s' rows. MarkSessionCompromised now (Ses_ID s) ''refresh_token_reused'' d = (Inr (s', d\<lparr>au_sessions := rows\<rparr>) :: 's go_error + _) \<and>
    s' = (terminated now SesCOMPROMISED ''refresh_token_reused'' s)\<lparr>Ses_UpdatedAt := now\<rparr>"
proof -
  let ?s = "(terminated now SesCOMPROMISED ''refresh_token_reused'' s)\<lparr>Ses_UpdatedAt := now\<rparr>"
  have "first_violation (auth_session_checks s) = None" using assms(1,2) by (simp add: sessions_wf_def)
  then have "first_violation (auth_session_checks ?s) = None"
    using assms(4) by (cases "Ses_ContextKind s")
      (auto simp: auth_session_checks_def terminated_def Let_def btrim_blank_def [of "''refresh_token_reused''"] split: if_splits)
  then have w: "write_session now (terminated now SesCOMPROMISED ''refresh_token_reused'') s = (Inr ?s :: 's go_error + _)"
    using assms(3) by (simp add: write_session_def Let_def check_row_def)
  have "List.find (\<lambda>r. Ses_ID r = Ses_ID s \<and> Ses_Status r = SesACTIVE) (au_sessions d) = Some s"
  proof (cases "List.find (\<lambda>r. Ses_ID r = Ses_ID s \<and> Ses_Status r = SesACTIVE) (au_sessions d)")
    case None
    with assms(2,3) show ?thesis by (auto simp: find_None_iff)
  next
    case (Some r)
    with find_SomeD [OF Some] auth_sessions.unique_inj [of d r s] assms(1,2) show ?thesis by (simp add: sessions_wf_def)
  qed
  from update_row_found [where f = "write_session now (terminated now SesCOMPROMISED ''refresh_token_reused'')", OF this w]
  show ?thesis by (auto simp: MarkSessionCompromised_def pg_varchar_def char_length_def)
qed

lemma update_rows_total:
  "(\<And>r. r \<in> set rows \<Longrightarrow> p r \<Longrightarrow> \<exists>r'. f r = Inr r') \<Longrightarrow> \<exists>us rows'. update_rows p f rows = Inr (us, rows')"
proof (induction rows)
  case (Cons r rows)
  then obtain us rows' where "update_rows p f rows = Inr (us, rows')" by force
  moreover have "p r \<Longrightarrow> \<exists>r'. f r = Inr r'" using Cons.prems by simp
  ultimately show ?case by (cases "p r") auto
qed simp

lemma revoke_tokens_total:
  assumes "\<forall>t \<in> set (au_refresh_tokens d). first_violation (refresh_token_checks t) = None"
    and "\<forall>t \<in> set (au_refresh_tokens d). Tok_SessionID t = sid \<longrightarrow> Tok_CreatedAt t \<le> now"
  shows "\<exists>us rows. RevokeSessionRefreshTokens now sid d = (Inr (us, d\<lparr>au_refresh_tokens := rows\<rparr>) :: 's go_error + _) \<and>
    list_all2 token_revoke (au_refresh_tokens d) rows"
proof -
  let ?f = "write_token (\<lambda>t. t\<lparr>Tok_RevokedAt := Some now\<rparr>) :: refresh_token \<Rightarrow> 's go_error + refresh_token"
  have "\<exists>t'. ?f t = Inr t'" if "t \<in> set (au_refresh_tokens d)" "Tok_SessionID t = sid \<and> Tok_RevokedAt t = None" for t
  proof -
    from assms(1) that(1) have "first_violation (refresh_token_checks t) = None" by blast
    moreover have "Tok_CreatedAt t \<le> now" using assms(2) that by blast
    ultimately have "first_violation (refresh_token_checks (t\<lparr>Tok_RevokedAt := Some now\<rparr>)) = None"
      by (cases "Tok_ConsumedAt t") (simp_all add: refresh_token_checks_def split: if_splits)
    then show ?thesis by (simp add: write_token_eq_Inr)
  qed
  then obtain us rows where u: "update_rows (\<lambda>t. Tok_SessionID t = sid \<and> Tok_RevokedAt t = None) ?f (au_refresh_tokens d) = Inr (us, rows)"
    using update_rows_total [of "au_refresh_tokens d" "\<lambda>t. Tok_SessionID t = sid \<and> Tok_RevokedAt t = None" ?f] by blast
  have "list_all2 token_revoke (au_refresh_tokens d) rows"
    by (rule update_rows_all2 [OF u]) (auto intro: write_revoked_revoke)
  with u show ?thesis by (intro exI [of _ us] exI [of _ rows]) (simp add: RevokeSessionRefreshTokens_def)
qed

lemma audit_total:
  assumes "audit_texts_fit M" "session_refers d s" "first_violation (auth_session_checks s) = None"
    and "\<forall>e \<in> set (au_audit d). Audit_ID e \<noteq> uuidv7 E (au_uuid_calls d)"
  shows "\<exists>d'. writeAuditEventWithSubject E S now ''auth.refresh.reused'' AuditFAILURE meta M (session_subject s) d = Inr d'"
proof -
  let ?P = "\<lparr>CA_OrganizationID = Ses_OrganizationID s, CA_StoreID = Ses_StoreID s, CA_ActorUserID = Some (Ses_UserID s),
      CA_ActorMembershipID = Ses_MembershipID s, CA_SessionID = Some (Ses_ID s), CA_EventType = ''auth.refresh.reused'',
      CA_EntityType = None, CA_EntityID = None, CA_RequestID = (if RM_RequestID M = [] then None else Some (RM_RequestID M)),
      CA_IpAddress = (if RM_ClientIP M = [] then None else svc_ParseAddr S (RM_ClientIP M)),
      CA_UserAgent = (if RM_UserAgent M = [] then None else Some (RM_UserAgent M)),
      CA_Outcome = AuditFAILURE, CA_Metadata = meta\<rparr>"
  let ?e = "new_audit_event now (uuidv7 E (au_uuid_calls d)) ?P"
  have ctx: "(Ses_MembershipID s = None \<or> Ses_OrganizationID s \<noteq> None) \<and> (Ses_StoreID s = None \<or> Ses_OrganizationID s \<noteq> None) \<and>
      (Ses_MembershipID s \<noteq> None \<longrightarrow> Ses_ContextKind s \<noteq> CtxIDENTITY)"
    using assms(3) by (auto simp: auth_session_checks_def Let_def split: if_splits auth_context_kind.splits)
  have refs: "list_ex (\<lambda>u. User_ID u = Ses_UserID s) (au_users d)"
    "Ses_OrganizationID s = None \<or> Ses_MembershipID s = None \<or>
       list_ex (\<lambda>m. Some (Mem_OrganizationID m) = Ses_OrganizationID s \<and> Some (Mem_ID m) = Ses_MembershipID s) (au_memberships d)"
    "Ses_OrganizationID s = None \<or> Ses_StoreID s = None \<or>
       list_ex (\<lambda>t. Some (Store_OrganizationID t) = Ses_OrganizationID s \<and> Some (Store_ID t) = Ses_StoreID s) (au_stores d)"
    "case Ses_OrganizationID s of None \<Rightarrow> True | Some g \<Rightarrow> list_ex (\<lambda>r. Org_ID r = g) (au_organizations d)"
    using assms(2) by (auto simp: session_refers_def session_references_ok_def result_simps list_ex_iff)
  have actor: "audit_actor_ok d ?e"
    using assms(2) ctx by (auto simp: audit_actor_ok_def new_audit_event_def session_refers_def session_context_ok_def list_ex_iff)
  have fresh: "List.find (\<lambda>r. Audit_ID r = Audit_ID ?e) (au_audit d) = None"
    using assms(4) by (simp add: find_None_iff new_audit_event_def)
  have checks: "first_violation (audit_event_checks ?e) = None"
    using assms(1) ctx by (auto simp: audit_event_checks_def new_audit_event_def Let_def btrim_blank_def [of "''auth.refresh.reused''"]
        audit_texts_fit_def)
  have "pg_varchar_null 100 (CA_RequestID ?P) = (Inr (CA_RequestID ?P) :: session_error + _)"
    "pg_varchar_null 512 (CA_UserAgent ?P) = (Inr (CA_UserAgent ?P) :: session_error + _)"
    using assms(1) by (simp_all add: pg_varchar_null_def pg_varchar_def audit_texts_fit_def)
  then have "\<exists>d'. CreateAuditEvent E now ?P d = (Inr (?e, d') :: session_error + _)"
    using actor fresh checks refs
    by (simp add: CreateAuditEvent_def Let_def check_row_def) (simp add: new_audit_event_def pg_varchar_def pg_varchar_null_def char_length_def)
  then show ?thesis by (auto simp: writeAuditEventWithSubject_def session_subject_def)
qed

lemma handleReuse_total:
  assumes "sessions_wf d" "s \<in> set (au_sessions d)" "Ses_Status s = SesACTIVE" "Ses_ID s = Tok_SessionID token"
    and "clock_after now s d" "audit_texts_fit M" "session_refers d s"
    and "\<forall>e \<in> set (au_audit d). Audit_ID e \<noteq> uuidv7 E (au_uuid_calls d)"
  shows "\<exists>d'. handleReuse E S now token M d = Inr d' \<and> list_all2 token_revoke (au_refresh_tokens d) (au_refresh_tokens d')"
proof -
  let ?s = "(terminated now SesCOMPROMISED ''refresh_token_reused'' s)\<lparr>Ses_UpdatedAt := now\<rparr>"
  from mark_total [OF assms(1-3), of now, where ?'s = session_sentinel] assms(4,5) obtain rows where
    m: "MarkSessionCompromised now (Tok_SessionID token) ''refresh_token_reused'' d = (Inr (?s, d\<lparr>au_sessions := rows\<rparr>) :: session_error + _)"
    by (auto simp: clock_after_def)
  let ?d1 = "d\<lparr>au_sessions := rows\<rparr>"
  have tc: "\<forall>t \<in> set (au_refresh_tokens d). first_violation (refresh_token_checks t) = None"
    using assms(1) by (simp add: sessions_wf_def token_ok_def)
  from revoke_tokens_total [of ?d1 "Tok_SessionID token" now, where ?'s = session_sentinel] tc assms(4,5) obtain us toks where
    r: "RevokeSessionRefreshTokens now (Tok_SessionID token) ?d1 = (Inr (us, ?d1\<lparr>au_refresh_tokens := toks\<rparr>) :: session_error + _)"
    "list_all2 token_revoke (au_refresh_tokens d) toks" by (auto simp: clock_after_def)
  let ?d2 = "?d1\<lparr>au_refresh_tokens := toks\<rparr>"
  have "first_violation (auth_session_checks s) = None" using assms(1,2) by (simp add: sessions_wf_def)
  moreover have "session_refers ?d2 s" using assms(7)
    by (auto simp: session_refers_def session_context_ok_def session_references_ok_def split: option.split)
  moreover have "session_subject ?s = session_subject s" by (simp add: session_subject_def terminated_def)
  ultimately obtain d' where w: "writeAuditEventWithSubject E S now ''auth.refresh.reused'' AuditFAILURE
      [(''token_id'', MetaText (uuidStr (Tok_ID token))), (''session_id'', MetaText (uuidStr (Tok_SessionID token))),
       (''previous_status'', MetaText ''ACTIVE''), (''new_status'', MetaText ''COMPROMISED'')]
      M (session_subject ?s) ?d2 = Inr d'"
    using audit_total [OF assms(6), of ?d2 s E S now] assms(8) by auto
  from m r(1) w have "handleReuse E S now token M d = Inr d'" by (simp add: handleReuse_def)
  with r(2) writeAudit_InrD(2) [OF w] show ?thesis by simp
qed

text \<open>Presenting a consumed token of an active session reaches that handling, and its transaction commits.\<close>

lemma reuse_reported:
  assumes "sessions_inv d" "Parse E raw = Inr parsed" "tok \<in> set (au_refresh_tokens d)" "Tok_ID tok = Parsed_Selector parsed"
    and "VerifySecret (svc_HashSecret S) (Parsed_Secret parsed) (Tok_SecretHash tok)" "Tok_RevokedAt tok = None"
    and "now \<le> Tok_ExpiresAt tok" "Tok_ConsumedAt tok \<noteq> None"
    and "s \<in> set (au_sessions d)" "Ses_ID s = Tok_SessionID tok" "Ses_Status s = SesACTIVE"
    and "tx_begin_error T = None" "tx_commit_error T = None"
    and "clock_after (tx_now T) s d" "audit_texts_fit M" "session_refers d s"
    and "\<forall>e \<in> set (au_audit d). Audit_ID e \<noteq> uuidv7 E (au_uuid_calls d)"
  shows "\<exists>d'. RotateRefreshToken E S T ent now raw M d =
    (Inl (Wrapped ''token was already consumed'' (Sentinel ErrRefreshTokenReused)), d', [Tok_SessionID tok])"
proof -
  have wf: "sessions_wf d" "lineage_ok d" using assms(1) by (simp_all add: sessions_inv_def)
  have g: "GetRefreshTokenForUpdate (Parsed_Selector parsed) d = (Inr tok :: session_error + _)"
    using find_unique_token [of d tok] wf(1) assms(3,4) by (simp add: sessions_wf_def)
  from handleReuse_total [OF wf(1) assms(9,11,10,14-17)] obtain d' where
    h: "handleReuse E S (tx_now T) tok M d = Inr d'" "list_all2 token_revoke (au_refresh_tokens d) (au_refresh_tokens d')" by blast
  have "lineage_ok d'" using wf(2) tokens_revoked_linked [OF h(2)] by (simp add: lineage_ok_def)
  moreover have "rotate_tx E S (tx_now T) ent now parsed M d = Inr ((ReuseDetected, Tok_SessionID tok), d')"
    using g h(1) assms(5-8) by (simp add: rotate_tx_def)
  ultimately have "Auth_WithTx T (rotate_tx E S (tx_now T) ent now parsed M) d = (Inr (ReuseDetected, Tok_SessionID tok), d')"
    using assms(12,13) by (simp add: Auth_WithTx_Inr)
  with assms(2) show ?thesis by (simp add: RotateRefreshToken_def)
qed

section \<open>A consumed token never rotates again\<close>

lemma CreateSession_step: "CreateSession E S T ent now input d = (Inr r, d') \<Longrightarrow> session_step E S d d'"
  by (auto simp: CreateSession_def Auth_WithTx_Inr wrap_error_eq_Inr split: prod.splits intro: session_step.create)

lemma rotate_token_consumes:
  assumes "rotate_token E S txnow ent now token s M d = Inr (res, d')" "token \<in> set (au_refresh_tokens d)"
    "refresh_tokens.unique d"
  shows "\<exists>t \<in> set (au_refresh_tokens d'). Tok_ID t = Tok_ID token \<and> Tok_ConsumedAt t \<noteq> None"
  using assms
proof (cases rule: rotate_token_InrE)
  case (1 b secret child touched d2 d3)
  from 1(6) have "token\<lparr>Tok_ConsumedAt := Some txnow, Tok_ReplacedByTokenID := Some (Tok_ID child)\<rparr> \<in> set (au_refresh_tokens d2)"
    by (auto simp: rotated_def)
  moreover have "au_refresh_tokens d3 = au_refresh_tokens d2" using 1(12) by (auto simp: TouchSession_def chain_eq_Inr)
  ultimately show ?thesis using writeAudit_InrD(2) [OF 1(13)]
    by (intro bexI [of _ "token\<lparr>Tok_ConsumedAt := Some txnow, Tok_ReplacedByTokenID := Some (Tok_ID child)\<rparr>"]) simp_all
qed

lemma rotation_consumes:
  assumes "RotateRefreshToken E S T ent now raw M d = (Inr res, d', ids)" "sessions_inv d"
  shows "\<exists>parsed. Parse E raw = Inr parsed \<and>
    (\<exists>t \<in> set (au_refresh_tokens d'). Tok_ID t = Parsed_Selector parsed \<and> Tok_ConsumedAt t \<noteq> None)"
  using assms(1)
proof (cases rule: RotateRefreshToken_cases)
  case (committed parsed out sid)
  have u: "refresh_tokens.unique d" using assms(2) by (simp add: sessions_inv_def sessions_wf_def)
  from committed(4) show ?thesis
  proof (cases rule: rotate_tx_InrE)
    case (reuse token)
    with committed(7) show ?thesis by simp
  next
    case (rotation token row res')
    with GetRefreshTokenForUpdate_InrD [OF rotation(1)] rotate_token_consumes [OF rotation(11) _ u] committed(1)
    show ?thesis by auto
  qed
qed simp

lemma consumed_refused:
  assumes "sessions_inv d" "Parse E raw = Inr parsed" "t \<in> set (au_refresh_tokens d)"
    "Tok_ID t = Parsed_Selector parsed" "Tok_ConsumedAt t \<noteq> None"
  shows "\<exists>e. fst (RotateRefreshToken E S T ent now raw M d) = Inl e"
proof -
  have f: "GetRefreshTokenForUpdate (Parsed_Selector parsed) d = (Inr t :: session_error + _)"
    using find_unique_token [of d t] assms(1,3,4) by (simp add: sessions_inv_def sessions_wf_def)
  obtain res' d' ids' where r: "RotateRefreshToken E S T ent now raw M d = (res', d', ids')" by (metis prod_cases3)
  then show ?thesis
  proof (cases rule: RotateRefreshToken_cases)
    case (committed parsed' out sid)
    with assms(2) have "parsed' = parsed" by simp
    with committed(4) f assms(5) have "out = ReuseDetected" by (auto elim: rotate_tx_InrE)
    with committed(7) r show ?thesis by simp
  qed (simp add: r)
qed

section \<open>Revocation of all sessions\<close>

lemma RevokeAllActive_InrD:
  assumes "RevokeAllActiveUserSessions now userID reason d = (Inr (ids, d') :: 's go_error + _)"
  shows "\<forall>s \<in> set (au_sessions d'). Ses_UserID s = userID \<longrightarrow> Ses_Status s \<noteq> SesACTIVE"
    "au_refresh_tokens d' = au_refresh_tokens d"
    "list_all2 (\<lambda>s s'. Ses_ID s' = Ses_ID s \<and> Ses_UserID s' = Ses_UserID s \<and> (Ses_UserID s \<noteq> userID \<longrightarrow> s' = s))
       (au_sessions d) (au_sessions d')"
    "ids = map Ses_ID (filter (\<lambda>s. Ses_UserID s = userID \<and> Ses_Status s = SesACTIVE) (au_sessions d))"
proof -
  let ?p = "\<lambda>s. Ses_UserID s = userID \<and> Ses_Status s = SesACTIVE"
  from assms obtain us rows where
    u: "update_rows ?p (write_session now (terminated now SesREVOKED reason)) (au_sessions d) = (Inr (us, rows) :: 's go_error + _)"
    and d': "d' = d\<lparr>au_sessions := rows\<rparr>" "ids = map Ses_ID us"
    by (auto simp: RevokeAllActiveUserSessions_def statement_simps)
  let ?R = "\<lambda>s s'. Ses_ID s' = Ses_ID s \<and> Ses_UserID s' = Ses_UserID s \<and> (Ses_UserID s \<noteq> userID \<longrightarrow> s' = s) \<and>
      (Ses_UserID s = userID \<longrightarrow> Ses_Status s' \<noteq> SesACTIVE)"
  have R: "list_all2 ?R (au_sessions d) rows"
    by (rule list_all2_mono [OF update_rows_InrD(1) [OF u]]) (auto simp: result_simps terminated_def split: if_splits)
  then show "\<forall>s \<in> set (au_sessions d'). Ses_UserID s = userID \<longrightarrow> Ses_Status s \<noteq> SesACTIVE"
    using d'(1) by (auto dest: all2_member)
  show "au_refresh_tokens d' = au_refresh_tokens d" using d' by simp
  show "list_all2 (\<lambda>s s'. Ses_ID s' = Ses_ID s \<and> Ses_UserID s' = Ses_UserID s \<and> (Ses_UserID s \<noteq> userID \<longrightarrow> s' = s))
       (au_sessions d) (au_sessions d')"
    using R d'(1) by (auto elim: list_all2_mono)
  have "map Ses_ID (map snd (filter (\<lambda>(r, _). ?p r) (zip (au_sessions d) rows))) = map Ses_ID (filter ?p (au_sessions d))"
    using R by (induction rule: list_all2_induct) auto
  then show "ids = map Ses_ID (filter ?p (au_sessions d))" using update_rows_InrD(2) [OF u] d'(2) by simp
qed

lemma RevokeAllUserRefreshTokens_InrD:
  assumes "RevokeAllUserRefreshTokens now userID d = (Inr (n, d') :: 's go_error + _)"
  shows "au_sessions d' = au_sessions d"
    "\<forall>t \<in> set (au_refresh_tokens d'). (\<exists>s \<in> set (au_sessions d). Ses_ID s = Tok_SessionID t \<and> Ses_UserID s = userID) \<longrightarrow>
       Tok_RevokedAt t \<noteq> None"
    "list_all2 (\<lambda>t t'. Tok_SessionID t' = Tok_SessionID t \<and>
       (\<not> (\<exists>s \<in> set (au_sessions d). Ses_ID s = Tok_SessionID t \<and> Ses_UserID s = userID) \<longrightarrow> t' = t))
       (au_refresh_tokens d) (au_refresh_tokens d')"
proof -
  let ?u = "\<lambda>t. list_ex (\<lambda>s. Ses_ID s = Tok_SessionID t \<and> Ses_UserID s = userID) (au_sessions d)"
  from assms obtain us rows where
    u: "update_rows (\<lambda>t. Tok_RevokedAt t = None \<and> ?u t) (write_token (\<lambda>t. t\<lparr>Tok_RevokedAt := Some now\<rparr>))
      (au_refresh_tokens d) = (Inr (us, rows) :: 's go_error + _)" and d': "d' = d\<lparr>au_refresh_tokens := rows\<rparr>"
    by (auto simp: RevokeAllUserRefreshTokens_def statement_simps)
  let ?R = "\<lambda>t t'. Tok_SessionID t' = Tok_SessionID t \<and> (\<not> ?u t \<longrightarrow> t' = t) \<and> (?u t \<longrightarrow> Tok_RevokedAt t' \<noteq> None)"
  have R: "list_all2 ?R (au_refresh_tokens d) rows"
    by (rule list_all2_mono [OF update_rows_InrD(1) [OF u]]) (auto simp: result_simps split: if_splits)
  show "au_sessions d' = au_sessions d" using d' by simp
  show "\<forall>t \<in> set (au_refresh_tokens d'). (\<exists>s \<in> set (au_sessions d). Ses_ID s = Tok_SessionID t \<and> Ses_UserID s = userID) \<longrightarrow>
       Tok_RevokedAt t \<noteq> None"
    using R d' by (auto simp: list_ex_iff dest!: all2_member)
  show "list_all2 (\<lambda>t t'. Tok_SessionID t' = Tok_SessionID t \<and>
       (\<not> (\<exists>s \<in> set (au_sessions d). Ses_ID s = Tok_SessionID t \<and> Ses_UserID s = userID) \<longrightarrow> t' = t))
       (au_refresh_tokens d) (au_refresh_tokens d')"
    using R d' by (auto simp: list_ex_iff elim: list_all2_mono)
qed

text \<open>Every session of the user ends, with its tokens; the sessions of other users are as before.\<close>

lemma RevokeAllUserSessionsInTx_InrD:
  assumes "RevokeAllUserSessionsInTx txnow userID reason d = Inr (ids, d')"
  shows "\<forall>s \<in> set (au_sessions d'). Ses_UserID s = userID \<longrightarrow> Ses_Status s \<noteq> SesACTIVE \<and>
      (\<forall>t \<in> set (au_refresh_tokens d'). Tok_SessionID t = Ses_ID s \<longrightarrow> Tok_RevokedAt t \<noteq> None)"
    "\<forall>s \<in> set (au_sessions d). Ses_UserID s \<noteq> userID \<longrightarrow> s \<in> set (au_sessions d')"
    "ids = map Ses_ID (filter (\<lambda>s. Ses_UserID s = userID \<and> Ses_Status s = SesACTIVE) (au_sessions d))"
proof -
  from assms obtain d1 n where a: "RevokeAllActiveUserSessions txnow userID reason d = (Inr (ids, d1) :: session_error + _)"
    and t: "RevokeAllUserRefreshTokens txnow userID d1 = (Inr (n, d') :: session_error + _)"
    by (auto simp: RevokeAllUserSessionsInTx_def result_simps)
  note A = RevokeAllActive_InrD [OF a] and T = RevokeAllUserRefreshTokens_InrD [OF t]
  show "\<forall>s \<in> set (au_sessions d'). Ses_UserID s = userID \<longrightarrow> Ses_Status s \<noteq> SesACTIVE \<and>
      (\<forall>t \<in> set (au_refresh_tokens d'). Tok_SessionID t = Ses_ID s \<longrightarrow> Tok_RevokedAt t \<noteq> None)"
    using A(1) T(1,2) by metis
  show "\<forall>s \<in> set (au_sessions d). Ses_UserID s \<noteq> userID \<longrightarrow> s \<in> set (au_sessions d')"
    using A(3) T(1) by (auto dest!: all2_member1)
  show "ids = map Ses_ID (filter (\<lambda>s. Ses_UserID s = userID \<and> Ses_Status s = SesACTIVE) (au_sessions d))" by (rule A(4))
qed

section \<open>Audit events and request identifiers\<close>

text \<open>The column of the request identifier holds a hundred characters.\<close>

lemma writeAudit_long_request_id:
  "100 < char_length (RM_RequestID M) \<Longrightarrow> \<exists>e. writeAuditEventWithSubject E S now ev out meta M subj d = Inl e"
proof -
  assume "100 < char_length (RM_RequestID M)"
  then have r: "RM_RequestID M \<noteq> []" "\<not> char_length (RM_RequestID M) \<le> 100" by (auto simp: char_length_def)
  have "\<not> (\<exists>d'. writeAuditEventWithSubject E S now ev out meta M subj d = Inr d')"
    using r by (auto simp: writeAuditEventWithSubject_def CreateAuditEvent_def result_simps)
  then show ?thesis by (metis sum.exhaust)
qed

lemma rotate_tx_long_request_id:
  assumes "100 < char_length (RM_RequestID M)"
  shows "\<exists>e. rotate_tx E S txnow ent now parsed M d = Inl e"
proof -
  have w: "writeAuditEventWithSubject E S t ev out meta M subj x \<noteq> Inr y" for t ev out meta subj x y
    using writeAudit_long_request_id [OF assms] by (metis sum.distinct(1))
  have "rotate_tx E S txnow ent now parsed M d \<noteq> Inr ((out, sid), d')" for out sid d'
  proof
    assume "rotate_tx E S txnow ent now parsed M d = Inr ((out, sid), d')"
    then show False
    proof (cases rule: rotate_tx_InrE)
      case (reuse token)
      then show ?thesis using w by (auto simp: handleReuse_def result_simps)
    next
      case (rotation token row res)
      then show ?thesis using w by (auto simp: rotate_token_def Let_def result_simps)
    qed
  qed
  then show ?thesis by (metis sum.exhaust surj_pair)
qed

lemma reused_outcome:
  assumes "RotateRefreshToken E S T ent now raw M d =
      (Inl (Wrapped ''token was already consumed'' (Sentinel ErrRefreshTokenReused)), d', ids)"
  obtains parsed sid where "Parse E raw = Inr parsed" "ids = [sid]"
    "rotate_tx E S (tx_now T) ent now parsed M d = Inr ((ReuseDetected, sid), d')"
  using assms
proof (cases rule: RotateRefreshToken_cases)
  case (committed parsed out sid)
  then show ?thesis by (cases out) (auto intro: that)
qed simp

end
