(* ===== verification/Sessions_Properties.thy ===== *)
theory Sessions_Properties
  imports Sessions_Behaviour Example_Env
begin

text \<open>
  The properties of refresh tokens and sessions, each with a witness on a database of one user
  and a codec whose hash keeps the secret as it is.
\<close>

section \<open>A concrete service\<close>

definition example_service :: session_service where
  "example_service = \<lparr>svc_HashSecret = (\<lambda>s. s), svc_RefreshIdleTTL = 100, svc_SessionAbsoluteTTL = 1000,
     svc_ParseAddr = Some\<rparr>"

definition example_user :: user where
  "example_user = \<lparr>User_ID = 7, User_Email = ''ana@pdv'', User_EmailNormalized = ''ana@pdv'', User_DisplayName = ''Ana'',
     User_Status = UserACTIVE, User_EmailVerifiedAt = None, User_PasswordVersion = 1, User_LastLoginAt = None,
     User_CreatedAt = 0, User_UpdatedAt = 0\<rparr>"

definition example_auth :: auth_db where
  "example_auth = \<lparr>au_users = [example_user], au_organizations = [], au_memberships = [], au_stores = [], au_scopes = [], au_roles = [], au_role_scopes = [], au_bindings = [],
     au_sessions = [], au_refresh_tokens = [], au_audit = [], au_uuid_calls = 0\<rparr>"

definition example_login :: create_session_input where
  "example_login = \<lparr>CSI_UserID = 7, CSI_ClientID = ''pdv-web'', CSI_DeviceName = None, CSI_UserAgent = None,
     CSI_IPAddress = None, CSI_ContextKind = ''IDENTITY'', CSI_OrganizationID = None, CSI_MembershipID = None,
     CSI_StoreID = None\<rparr>"

definition example_secret :: "nat \<Rightarrow> nat list" where
  "example_secret k = replicate 32 k"

definition example_entropy :: "nat \<Rightarrow> entropy" where
  "example_entropy k = \<lparr>ent_uuid = Some (of_nat k), ent_secret = Some (example_secret k)\<rparr>"

definition example_meta :: request_meta where
  "example_meta = \<lparr>RM_ClientIP = [], RM_UserAgent = [], RM_RequestID = ''r''\<rparr>"

definition example_txn :: "time \<Rightarrow> txn" where
  "example_txn now = \<lparr>tx_now = now, tx_begin_error = None, tx_commit_error = None\<rparr>"

definition example_session :: auth_session where
  "example_session = \<lparr>Ses_ID = 1000, Ses_UserID = 7, Ses_Status = SesACTIVE, Ses_ClientID = ''pdv-web'',
     Ses_DeviceName = None, Ses_UserAgent = None, Ses_IpAddress = None, Ses_ContextKind = CtxIDENTITY,
     Ses_OrganizationID = None, Ses_MembershipID = None, Ses_StoreID = None, Ses_IdleExpiresAt = 110,
     Ses_AbsoluteExpiresAt = 1010, Ses_LastSeenAt = 10, Ses_RevokedAt = None, Ses_RevokeReason = None,
     Ses_CreatedAt = 10, Ses_UpdatedAt = 10\<rparr>"

definition example_token :: "nat \<Rightarrow> time \<Rightarrow> refresh_token" where
  "example_token k now = \<lparr>Tok_ID = newRandomUUID (of_nat k), Tok_SessionID = 1000, Tok_ParentTokenID = None,
     Tok_ReplacedByTokenID = None, Tok_SecretHash = example_secret k, Tok_ExpiresAt = 1010, Tok_ConsumedAt = None,
     Tok_RevokedAt = None, Tok_CreatedAt = now\<rparr>"

text \<open>Ana is logged in.\<close>

definition example_logged_in :: auth_db where
  "example_logged_in = example_auth\<lparr>au_sessions := [example_session], au_refresh_tokens := [example_token 1 10],
     au_uuid_calls := 1\<rparr>"

text \<open>Ana's first token was rotated.\<close>

definition example_rotated :: auth_db where
  "example_rotated = example_logged_in\<lparr>
     au_sessions := [example_session\<lparr>Ses_LastSeenAt := 20, Ses_IdleExpiresAt := 120, Ses_UpdatedAt := 20\<rparr>],
     au_refresh_tokens := [(example_token 1 10)\<lparr>Tok_ConsumedAt := Some 20, Tok_ReplacedByTokenID := Some (newRandomUUID 2)\<rparr>,
       (example_token 2 20)\<lparr>Tok_ParentTokenID := Some (newRandomUUID 1)\<rparr>],
     au_audit := [new_audit_event 20 1001 \<lparr>CA_OrganizationID = None, CA_StoreID = None, CA_ActorUserID = Some 7,
       CA_ActorMembershipID = None, CA_SessionID = Some 1000, CA_EventType = ''auth.refreshed'', CA_EntityType = None,
       CA_EntityID = None, CA_RequestID = Some ''r'', CA_IpAddress = None, CA_UserAgent = None, CA_Outcome = AuditSUCCESS,
       CA_Metadata = [(''previous_token_id'', MetaText (uuidStr (newRandomUUID 1))),
         (''new_token_id'', MetaText (uuidStr (newRandomUUID 2)))]\<rparr>],
     au_uuid_calls := 2\<rparr>"

lemma example_selector_law: "selector_law example_env"
  using example_uuid_roundtrip by (simp add: selector_law_def example_env_def example_uuid_String_def)

lemma example_secret_ok [simp]: "k < 256 \<Longrightarrow> secret_ok (example_secret k)"
  by (simp add: secret_ok_def example_secret_def refreshTokenSecretBytes_def)

lemma length_example_secret [simp]: "length (example_secret k) = 32"
  by (simp add: example_secret_def)

lemma example_secret_inj [simp]: "example_secret j = example_secret k \<longleftrightarrow> j = k"
  by (simp add: example_secret_def)

lemma example_uuids [simp]: "newRandomUUID 1 \<noteq> newRandomUUID 2"
  by code_simp

definition example_raw :: "nat \<Rightarrow> string" where
  "example_raw k = raw_token (newRandomUUID (of_nat k)) (example_secret k)"

lemma example_token_parse: "k < 256 \<Longrightarrow> Parse example_env (example_raw k) =
    Inr \<lparr>Parsed_Selector = newRandomUUID (of_nat k), Parsed_Secret = example_secret k\<rparr>"
  unfolding example_raw_def by (rule Parse_raw_token [OF example_selector_law]) simp

lemmas example_login_defs = example_service_def example_user_def example_auth_def example_login_def
  example_entropy_def example_txn_def example_session_def example_token_def example_logged_in_def example_meta_def

lemma example_row_uuid: "uuidv7 example_env n = of_nat (n + 1000)"
  by (simp add: example_env_def)

lemma example_created: "CreateSession example_env example_service (example_txn 10) (example_entropy 1) 10 example_login example_auth =
    (Inr (sessionFromDBRow example_session, example_raw 1), example_logged_in)"
  by (simp add: CreateSession_def Auth_WithTx_def WithTx_def CreateSessionInTx_def validateClientID_def
      validateContextCoherence_def create_params_def idle_deadline_def CreateAuthSession_def new_session_def
      auth_session_checks_def session_context_ok_def session_references_ok_def Generate_total CreateRefreshToken_def
      new_token_def refresh_token_checks_def check_row_def lineage_ok_def tokens_linked_def example_login_defs
      pg_varchar_def pg_varchar_null_def char_length_def btrim_blank_def Let_def example_row_uuid example_raw_def)

lemmas example_rotation_defs = RotateRefreshToken_def Auth_WithTx_def WithTx_def rotate_tx_def GetRefreshTokenForUpdate_def
  VerifySecret_def GetAuthSessionForUpdate_def session_state_of_def rotate_token_def idle_deadline_def CreateRefreshToken_def
  new_token_def refresh_token_checks_def check_row_def ConsumeAndReplaceRefreshToken_def consume_token_def write_token_def
  TouchSession_def write_session_def auth_session_checks_def writeAuditEventWithSubject_def session_subject_def
  CreateAuditEvent_def new_audit_event_def audit_event_checks_def audit_actor_ok_def lineage_ok_def tokens_linked_def
  pg_varchar_def pg_varchar_null_def char_length_def btrim_blank_def

lemma example_rotation:
  "RotateRefreshToken example_env example_service (example_txn 20) (example_entropy 2) 20 (example_raw 1) example_meta
     example_logged_in =
   (Inr \<lparr>Rot_Session = sessionFromDBRow example_session, Rot_RawRefreshToken = example_raw 2, Rot_ExpiresIn = 100,
      Rot_MustClearCookies = False\<rparr>, example_rotated, [1000])"
  by (simp add: example_rotation_defs example_token_parse example_login_defs example_rotated_def example_row_uuid Generate_total
      example_raw_def [of 2] Let_def example_uuids [symmetric])

definition example_reused :: auth_db where
  "example_reused = example_rotated\<lparr>
     au_sessions := [example_session\<lparr>Ses_LastSeenAt := 20, Ses_IdleExpiresAt := 120, Ses_UpdatedAt := 30,
       Ses_Status := SesCOMPROMISED, Ses_RevokedAt := Some 30, Ses_RevokeReason := Some ''refresh_token_reused''\<rparr>],
     au_refresh_tokens := [(example_token 1 10)\<lparr>Tok_ConsumedAt := Some 20, Tok_ReplacedByTokenID := Some (newRandomUUID 2),
         Tok_RevokedAt := Some 30\<rparr>,
       (example_token 2 20)\<lparr>Tok_ParentTokenID := Some (newRandomUUID 1), Tok_RevokedAt := Some 30\<rparr>],
     au_audit := au_audit example_rotated @ [new_audit_event 30 1002 \<lparr>CA_OrganizationID = None, CA_StoreID = None,
       CA_ActorUserID = Some 7, CA_ActorMembershipID = None, CA_SessionID = Some 1000, CA_EventType = ''auth.refresh.reused'',
       CA_EntityType = None, CA_EntityID = None, CA_RequestID = Some ''r'', CA_IpAddress = None, CA_UserAgent = None,
       CA_Outcome = AuditFAILURE, CA_Metadata = [(''token_id'', MetaText (uuidStr (newRandomUUID 1))),
         (''session_id'', MetaText (uuidStr 1000)), (''previous_status'', MetaText ''ACTIVE''),
         (''new_status'', MetaText ''COMPROMISED'')]\<rparr>],
     au_uuid_calls := 3\<rparr>"

lemma example_reuse:
  "RotateRefreshToken example_env example_service (example_txn 30) (example_entropy 3) 30 (example_raw 1) example_meta
     example_rotated =
   (Inl (Wrapped ''token was already consumed'' (Sentinel ErrRefreshTokenReused)), example_reused, [1000])"
  by (simp add: example_rotation_defs handleReuse_def MarkSessionCompromised_def RevokeSessionRefreshTokens_def
      terminated_def example_token_parse example_login_defs example_rotated_def example_reused_def
      example_row_uuid Let_def example_uuids [symmetric])

lemma example_steps:
  "rtranclp (session_step example_env example_service) example_auth example_logged_in"
  "rtranclp (session_step example_env example_service) example_logged_in example_rotated"
  "rtranclp (session_step example_env example_service) example_rotated example_reused"
  by (rule r_into_rtranclp, rule CreateSession_step [OF example_created] session_step.rotate [OF example_rotation]
      session_step.rotate [OF example_reuse])+

lemma example_states_inv:
  "sessions_inv example_auth" "sessions_inv example_logged_in" "sessions_inv example_rotated" "sessions_inv example_reused"
proof -
  show a: "sessions_inv example_auth" by (rule no_sessions_inv) (simp_all add: example_auth_def)
  show b: "sessions_inv example_logged_in" using steps_inv [OF example_steps(1) a] by blast
  show c: "sessions_inv example_rotated" using steps_inv [OF example_steps(2) b] by blast
  show "sessions_inv example_reused" using steps_inv [OF example_steps(3) c] by blast
qed

section \<open>Properties\<close>

text \<open>C28: the token generated for any selector and secret is within the length limit, parses back to
  that selector and secret, and verifies against the stored hash; two tokens with different
  selectors or secrets have different texts.\<close>

theorem refresh_token_roundtrip:
  assumes "selector_law E" "secret_ok secret"
  shows "\<exists>raw. Generate hash (Some secret) u = Inr (raw, hash secret) \<and> length raw \<le> maxRawTokenLength \<and>
      Parse E raw = Inr \<lparr>Parsed_Selector = u, Parsed_Secret = secret\<rparr> \<and> VerifySecret hash secret (hash secret) \<and>
      (\<forall>u' secret' h. secret_ok secret' \<and> Generate hash (Some secret') u' = Inr (raw, h) \<longrightarrow> u' = u \<and> secret' = secret)"
proof (intro exI conjI allI impI)
  show "Generate hash (Some secret) u = Inr (raw_token u secret, hash secret)" by (rule Generate_total [OF assms(2)])
  show "length (raw_token u secret) \<le> maxRawTokenLength"
    using length_raw_token [OF assms(2)] by (simp add: maxRawTokenLength_def)
  show p: "Parse E (raw_token u secret) = Inr \<lparr>Parsed_Selector = u, Parsed_Secret = secret\<rparr>"
    by (rule Parse_raw_token [OF assms])
  show "VerifySecret hash secret (hash secret)" by (simp add: VerifySecret_def)
  fix u' secret' h assume o: "secret_ok secret' \<and> Generate hash (Some secret') u' = Inr (raw_token u secret, h)"
  then have "secret_ok secret'" "raw_token u' secret' = raw_token u secret"
    using Generate_total [of secret' hash u'] by (simp_all only: simp_thms sum.inject prod.inject)
  from Parse_raw_token [OF assms(1) this(1), of u'] this(2) p
  have "(Inr \<lparr>Parsed_Selector = u', Parsed_Secret = secret'\<rparr> :: session_error + _) =
      Inr \<lparr>Parsed_Selector = u, Parsed_Secret = secret\<rparr>" by (simp only:)
  then show "u' = u" "secret' = secret" by simp_all
qed

theorem refresh_token_roundtrip_witness:
  "\<exists>raw. Generate (HashSecret [1, 2, 3]) (Some (replicate 32 7)) 5 = Inr (raw, HashSecret [1, 2, 3] (replicate 32 7)) \<and>
     Parse example_env raw = Inr \<lparr>Parsed_Selector = 5, Parsed_Secret = replicate 32 7\<rparr>"
  using refresh_token_roundtrip [OF example_selector_law, of "replicate 32 7" "HashSecret [1, 2, 3]" 5]
  by (auto simp: secret_ok_def refreshTokenSecretBytes_def)

text \<open>C26: in every state the services can reach, sessions and tokens have unique identifiers, every
  row satisfies its constraints, a token belongs to a session and expires with it, a token is
  consumed exactly when it has a successor, and a session has at most one token that was not
  consumed.\<close>

theorem one_live_token:
  assumes "au_sessions d0 = []" "au_refresh_tokens d0 = []" "rtranclp (session_step E S) d0 d"
  shows "sessions_inv d \<and>
    (\<forall>t \<in> set (au_refresh_tokens d). \<forall>t' \<in> set (au_refresh_tokens d).
       Tok_SessionID t = Tok_SessionID t' \<and> Tok_ConsumedAt t = None \<and> Tok_ConsumedAt t' = None \<longrightarrow> t = t')"
proof -
  have i: "sessions_inv d" using steps_inv [OF assms(3) no_sessions_inv [OF assms(1,2)]] by blast
  then have "inj_on Tok_SessionID (set (unconsumed d))" by (simp add: sessions_inv_def sessions_wf_def distinct_map)
  with i show ?thesis by (auto simp: unconsumed_def inj_on_def)
qed

theorem one_live_token_witness: "sessions_inv example_rotated \<and> length (au_refresh_tokens example_rotated) = 2"
  using one_live_token [of example_auth, OF _ _ rtranclp_trans [OF example_steps(1,2)]]
  by (simp add: example_auth_def example_rotated_def)

text \<open>C25: a refresh token works once: after a rotation that accepted it, presenting it again is
  refused, in whatever state the database is by then.\<close>

theorem refresh_token_single_use:
  assumes "sessions_inv d" "RotateRefreshToken E S T ent now raw M d = (Inr res, d1, ids)"
    and "rtranclp (session_step E S) d1 d2"
  shows "\<exists>e. fst (RotateRefreshToken E S T' ent' now' raw M' d2) = Inl e"
proof -
  from rotation_consumes [OF assms(2,1)] obtain parsed t1 where p: "Parse E raw = Inr parsed" and
    t1: "t1 \<in> set (au_refresh_tokens d1)" "Tok_ID t1 = Parsed_Selector parsed" "Tok_ConsumedAt t1 \<noteq> None" by blast
  have "sessions_inv d1" using step_inv [OF session_step.rotate [OF assms(2)] assms(1)] by blast
  from steps_inv [OF assms(3) this] have e: "evolves d1 d2" "sessions_inv d2" by blast+
  from evolves_token [OF e(1) t1(1)] t1 obtain t2 where
    "t2 \<in> set (au_refresh_tokens d2)" "Tok_ID t2 = Parsed_Selector parsed" "Tok_ConsumedAt t2 \<noteq> None"
    by (auto simp: token_rewrite_def)
  then show ?thesis by (rule consumed_refused [OF e(2) p])
qed

theorem refresh_token_single_use_witness:
  "\<exists>e. fst (RotateRefreshToken example_env example_service (example_txn 30) (example_entropy 3) 30 (example_raw 1)
     example_meta example_rotated) = Inl e"
  by (rule refresh_token_single_use [OF example_states_inv(2) example_rotation rtranclp.rtrancl_refl])

text \<open>What a reported reuse has done.\<close>

lemma reported_reuse_ends_session:
  assumes "sessions_inv d" "RotateRefreshToken E S T ent now raw M d =
      (Inl (Wrapped ''token was already consumed'' (Sentinel ErrRefreshTokenReused)), d', ids)"
    and "Parse E raw = Inr parsed" "tok \<in> set (au_refresh_tokens d)" "Tok_ID tok = Parsed_Selector parsed"
  shows "ids = [Tok_SessionID tok] \<and> compromised (Tok_SessionID tok) d' \<and>
      (\<exists>ev. au_audit d' = au_audit d @ [ev] \<and> Audit_EventType ev = ''auth.refresh.reused'' \<and>
        Audit_SessionID ev = Some (Tok_SessionID tok)) \<and>
      (\<forall>d2 t raw' p T' ent' now' M'. rtranclp (session_step E S) d' d2 \<and> t \<in> set (au_refresh_tokens d2) \<and>
        Tok_SessionID t = Tok_SessionID tok \<and> Parse E raw' = Inr p \<and> Parsed_Selector p = Tok_ID t \<longrightarrow>
        (\<exists>e'. RotateRefreshToken E S T' ent' now' raw' M' d2 = (Inl e', d2, [])))"
proof -
  from assms(1) have u: "refresh_tokens.unique d" by (simp add: sessions_inv_def sessions_wf_def)
  have "ids = [Tok_SessionID tok] \<and> (\<exists>txnow. handleReuse E S txnow tok M d = Inr d')"
  proof (rule reused_outcome [OF assms(2)])
    fix p' sid assume r: "Parse E raw = Inr p'" "ids = [sid]" "rotate_tx E S (tx_now T) ent now p' M d = Inr ((ReuseDetected, sid), d')"
    from r(3) show ?thesis
    proof (cases rule: rotate_tx_InrE)
      case (reuse token)
      have "GetRefreshTokenForUpdate (Tok_ID tok) d = (Inr tok :: session_error + _)" by (rule find_unique_token [OF u assms(4)])
      with reuse(1) r(1) assms(3,5) have "token = tok" by simp
      with reuse r(2) show ?thesis by blast
    qed simp
  qed
  then obtain txnow where h: "ids = [Tok_SessionID tok]" "handleReuse E S txnow tok M d = Inr d'" by blast
  note c = handleReuse_compromises [OF h(2)]
  have i: "sessions_inv d'" using step_inv [OF session_step.rotate [OF assms(2)] assms(1)] by blast
  from c(1) obtain s where s: "s \<in> set (au_sessions d')" "Ses_ID s = Tok_SessionID tok" "Ses_Status s \<noteq> SesACTIVE"
    by (auto simp: compromised_def)
  have "\<exists>e'. RotateRefreshToken E S T' ent' now' raw' M' d2 = (Inl e', d2, [])"
    if "rtranclp (session_step E S) d' d2" "t \<in> set (au_refresh_tokens d2)" "Tok_SessionID t = Tok_SessionID tok"
      "Parse E raw' = Inr p" "Parsed_Selector p = Tok_ID t" for d2 t raw' p T' ent' now' M'
  proof -
    from steps_inv [OF that(1) i] have "sessions_inv d2" "s \<in> set (au_sessions d2)"
      using evolves_terminal s(1,3) by blast+
    with s(2,3) that show ?thesis by (intro ended_session_refused) auto
  qed
  with h(1) c show ?thesis by blast
qed

text \<open>C24: When a refresh token that was consumed before is presented again, with its secret, unrevoked and
  unexpired, while its session is active, the rotation reports the reuse; the session is compromised,
  all of its tokens are revoked, the event is in the audit trail and the session's cached state is
  invalidated; and from then on no token of that session is accepted, whatever the services do. This
  needs a transaction that begins and commits, a clock that is not behind the session's rows, and
  room for the event: the texts of the request fit the audit columns, the rows the session refers to
  exist and the event's identifier is new.\<close>

theorem reuse_ends_session:
  assumes "sessions_inv d" "Parse E raw = Inr parsed" "tok \<in> set (au_refresh_tokens d)" "Tok_ID tok = Parsed_Selector parsed"
    and "VerifySecret (svc_HashSecret S) (Parsed_Secret parsed) (Tok_SecretHash tok)" "Tok_RevokedAt tok = None"
    and "now \<le> Tok_ExpiresAt tok" "Tok_ConsumedAt tok \<noteq> None"
    and "s \<in> set (au_sessions d)" "Ses_ID s = Tok_SessionID tok" "Ses_Status s = SesACTIVE"
    and "tx_begin_error T = None" "tx_commit_error T = None"
    and "clock_after (tx_now T) s d" "audit_texts_fit M" "session_refers d s"
    and "\<forall>e \<in> set (au_audit d). Audit_ID e \<noteq> uuidv7 E (au_uuid_calls d)"
  shows "\<exists>d'. RotateRefreshToken E S T ent now raw M d =
        (Inl (Wrapped ''token was already consumed'' (Sentinel ErrRefreshTokenReused)), d', [Tok_SessionID tok]) \<and>
      compromised (Tok_SessionID tok) d' \<and>
      (\<exists>ev. au_audit d' = au_audit d @ [ev] \<and> Audit_EventType ev = ''auth.refresh.reused'' \<and>
        Audit_SessionID ev = Some (Tok_SessionID tok)) \<and>
      (\<forall>d2 t raw' p T' ent' now' M'. rtranclp (session_step E S) d' d2 \<and> t \<in> set (au_refresh_tokens d2) \<and>
        Tok_SessionID t = Tok_SessionID tok \<and> Parse E raw' = Inr p \<and> Parsed_Selector p = Tok_ID t \<longrightarrow>
        (\<exists>e'. RotateRefreshToken E S T' ent' now' raw' M' d2 = (Inl e', d2, [])))"
proof -
  from reuse_reported [OF assms] obtain d' where r: "RotateRefreshToken E S T ent now raw M d =
    (Inl (Wrapped ''token was already consumed'' (Sentinel ErrRefreshTokenReused)), d', [Tok_SessionID tok])" by blast
  from reported_reuse_ends_session [OF assms(1) r assms(2-4)] r show ?thesis by blast
qed

theorem reuse_ends_session_witness:
  "\<exists>d'. RotateRefreshToken example_env example_service (example_txn 30) (example_entropy 3) 30 (example_raw 1) example_meta
      example_rotated = (Inl (Wrapped ''token was already consumed'' (Sentinel ErrRefreshTokenReused)), d', [1000]) \<and>
    compromised 1000 d'"
proof -
  let ?t = "(example_token 1 10)\<lparr>Tok_ConsumedAt := Some 20, Tok_ReplacedByTokenID := Some (newRandomUUID 2)\<rparr>"
  let ?s = "example_session\<lparr>Ses_LastSeenAt := 20, Ses_IdleExpiresAt := 120, Ses_UpdatedAt := 20\<rparr>"
  let ?p = "\<lparr>Parsed_Selector = newRandomUUID 1, Parsed_Secret = example_secret 1\<rparr>"
  have t: "?t \<in> set (au_refresh_tokens example_rotated)" "Tok_ID ?t = Parsed_Selector ?p"
    "VerifySecret (svc_HashSecret example_service) (Parsed_Secret ?p) (Tok_SecretHash ?t)"
    "Tok_RevokedAt ?t = None" "30 \<le> Tok_ExpiresAt ?t" "Tok_ConsumedAt ?t \<noteq> None"
    by (simp_all add: example_rotated_def example_token_def VerifySecret_def example_service_def)
  have s: "?s \<in> set (au_sessions example_rotated)" "Ses_ID ?s = Tok_SessionID ?t" "Ses_Status ?s = SesACTIVE"
    by (simp_all add: example_rotated_def example_session_def example_token_def)
  have T: "tx_begin_error (example_txn 30) = None" "tx_commit_error (example_txn 30) = None"
    "clock_after (tx_now (example_txn 30)) ?s example_rotated"
    by (simp_all add: example_txn_def clock_after_def example_rotated_def example_logged_in_def example_session_def example_token_def)
  have a: "audit_texts_fit example_meta" "session_refers example_rotated ?s"
    "\<forall>e \<in> set (au_audit example_rotated). Audit_ID e \<noteq> uuidv7 example_env (au_uuid_calls example_rotated)"
    subgoal by (simp add: audit_texts_fit_def example_meta_def char_length_def btrim_blank_def)
    subgoal by (simp add: session_refers_def session_context_ok_def session_references_ok_def example_session_def
        example_rotated_def example_logged_in_def example_auth_def example_user_def)
    subgoal by (simp add: example_rotated_def new_audit_event_def example_row_uuid)
    done
  have p: "Parse example_env (example_raw 1) = Inr ?p" using example_token_parse [of 1] by simp
  have k: "Tok_SessionID ?t = 1000" by (simp add: example_token_def)
  show ?thesis
    using reuse_ends_session [where ent = "example_entropy 3", OF example_states_inv(3) p t s T a, unfolded k] by blast
qed

text \<open>a session of somebody else answers a revocation exactly as a session that does not exist,
  and nothing changes.\<close>

lemma revoke_foreign_session:
  assumes "tx_begin_error T = None" "\<forall>s \<in> set (au_sessions d). Ses_ID s = target \<longrightarrow> Ses_UserID s \<noteq> actor"
  shows "revokeSession E S T actor target current reason ev M d =
    (Inl (Wrapped ''revoke session transaction'' (Wrapped ''target session does not exist'' (Sentinel ErrSessionNotFound))),
     d, [])"
proof -
  have "revoke_tx E S (tx_now T) actor target current reason ev M d =
      Inl (Wrapped ''target session does not exist'' (Sentinel ErrSessionNotFound))"
  proof (cases "GetAuthSessionForUpdate target d :: session_error + session_state_row")
    case (Inl e)
    then have "e = ErrNoRows" by (auto simp: GetAuthSessionForUpdate_def result_simps)
    with Inl show ?thesis by (simp add: revoke_tx_def no_rows_error_def)
  next
    case (Inr row)
    from GetAuthSessionForUpdate_InrD [OF Inr] assms(2) have "Ses_UserID (SSR_Session row) \<noteq> actor" by blast
    with Inr show ?thesis by (simp add: revoke_tx_def Let_def)
  qed
  with assms(1) show ?thesis by (simp add: revokeSession_def Auth_WithTx_def WithTx_def)
qed

lemma revoke_foreign_session_witness:
  "RevokeSessionWithCurrent example_env example_service (example_txn 20) 8 1000 None example_meta example_logged_in =
    (Inl (Wrapped ''revoke session transaction'' (Wrapped ''target session does not exist'' (Sentinel ErrSessionNotFound))),
     example_logged_in, [])"
  unfolding RevokeSessionWithCurrent_def
  by (rule revoke_foreign_session) (simp_all add: example_txn_def example_logged_in_def example_session_def)

text \<open>C27: after a user's sessions were all revoked none of them is active and none of their tokens
  is live, in any later state; the sessions that ended are exactly those reported and invalidated,
  and the sessions of other users are as they were.\<close>

theorem revoke_all_ends_sessions:
  assumes "sessions_inv d" "RevokeAllUserSessions E S T userID current M d = (Inr (affected, clear), d', ids)"
  shows "ids = affected \<and>
    affected = map Ses_ID (filter (\<lambda>s. Ses_UserID s = userID \<and> Ses_Status s = SesACTIVE) (au_sessions d)) \<and>
    (\<forall>s \<in> set (au_sessions d). Ses_UserID s \<noteq> userID \<longrightarrow> s \<in> set (au_sessions d')) \<and>
    (\<forall>s \<in> set (au_sessions d'). Ses_UserID s = userID \<longrightarrow> Ses_Status s \<noteq> SesACTIVE \<and>
      (\<forall>t \<in> set (au_refresh_tokens d'). Tok_SessionID t = Ses_ID s \<longrightarrow> Tok_RevokedAt t \<noteq> None) \<and>
      (\<forall>d2. rtranclp (session_step E S) d' d2 \<longrightarrow> s \<in> set (au_sessions d2)))"
  using assms(2)
proof (cases rule: RevokeAllUserSessions_cases)
  case (committed r)
  then have r: "r = (affected, clear)" by simp
  from committed(5) r obtain d1 where a: "RevokeAllUserSessionsInTx (tx_now T) userID ''user_logged_out_all'' d = Inr (affected, d1)"
    and s: "au_sessions d' = au_sessions d1" "au_refresh_tokens d' = au_refresh_tokens d1"
    by (auto simp: revoke_all_tx_def result_simps dest: writeAudit_InrD)
  note A = RevokeAllUserSessionsInTx_InrD [OF a]
  have "s \<in> set (au_sessions d2)" if "rtranclp (session_step E S) d' d2" "s \<in> set (au_sessions d')" "Ses_Status s \<noteq> SesACTIVE" for s d2
    using steps_inv [OF that(1)] step_inv [OF session_step.revoke_all [OF assms(2)] assms(1)] evolves_terminal that(2,3) by blast
  with A committed(4) r s show ?thesis by auto
qed simp

theorem revoke_all_ends_sessions_witness:
  "\<exists>d'. RevokeAllUserSessions example_env example_service (example_txn 20) 7 (Some 1000) example_meta example_logged_in =
      (Inr ([1000], True), d', [1000]) \<and> (\<forall>s \<in> set (au_sessions d'). Ses_UserID s = 7 \<longrightarrow> Ses_Status s \<noteq> SesACTIVE)"
proof -
  have "\<exists>d'. RevokeAllUserSessions example_env example_service (example_txn 20) 7 (Some 1000) example_meta example_logged_in =
      (Inr ([1000], True), d', [1000])"
    by (simp add: RevokeAllUserSessions_def revoke_all_tx_def RevokeAllUserSessionsInTx_def RevokeAllActiveUserSessions_def
        RevokeAllUserRefreshTokens_def terminated_def example_rotation_defs example_login_defs example_row_uuid Let_def)
  then obtain d' where r: "RevokeAllUserSessions example_env example_service (example_txn 20) 7 (Some 1000) example_meta
      example_logged_in = (Inr ([1000], True), d', [1000])" by blast
  with revoke_all_ends_sessions [OF example_states_inv(2) r] show ?thesis by blast
qed

text \<open>C29: a request identifier of more than a hundred characters, which the client chooses, makes
  every rotation fail without a trace: in particular the reuse of a stolen token is not recorded and
  its session stays active.\<close>

theorem long_request_id_hides_reuse:
  assumes "100 < char_length (RM_RequestID M)"
  shows "\<exists>e. RotateRefreshToken E S T ent now raw M d = (Inl e, d, [])"
proof -
  obtain res d' ids where r: "RotateRefreshToken E S T ent now raw M d = (res, d', ids)" by (metis prod_cases3)
  then show ?thesis
  proof (cases rule: RotateRefreshToken_cases)
    case (committed parsed out sid)
    with rotate_tx_long_request_id [OF assms] show ?thesis by (metis sum.distinct(1))
  qed (simp add: r)
qed

theorem long_request_id_hides_reuse_witness:
  "\<exists>e. RotateRefreshToken example_env example_service (example_txn 30) (example_entropy 3) 30 (example_raw 1)
     (example_meta\<lparr>RM_RequestID := replicate 101 CHR ''x''\<rparr>) example_rotated = (Inl e, example_rotated, [])"
  by (rule long_request_id_hides_reuse) (simp add: char_length_def eval_nat_numeral)

end
