(* ===== verification/Access_Queries.thy ===== *)
theory Access_Queries
  imports Session_Queries "HOL-Library.List_Lexorder"
begin

text \<open>
  The statements of \<open>platform/database/roles.sql.go\<close> and \<open>memberships.sql.go\<close>, and those of
  \<open>organizations.sql.go\<close>, \<open>stores.sql.go\<close> and \<open>sessions.sql.go\<close> that the services of roles
  and memberships run, with the constraints and triggers of
  \<open>20260717090300_create_memberships_roles_and_scopes\<close>. \<open>now\<close> is the transaction's time.
\<close>

section \<open>Constraints\<close>

definition pg_bigint :: "int \<Rightarrow> 's go_error + unit" where
  "pg_bigint n = guard_error (- (2 ^ 63) \<le> n \<and> n < 2 ^ 63) (PgError ''22003'' [])"

text \<open>\<open>^[a-z0-9]+(?:_[a-z0-9]+)*$\<close>, and the same with a dash: \<open>segments sep False\<close>.\<close>

definition key_char :: "char \<Rightarrow> bool" where
  "key_char c = (let n = (of_char c :: nat) in (97 \<le> n \<and> n \<le> 122) \<or> (48 \<le> n \<and> n \<le> 57))"

fun segments :: "char \<Rightarrow> bool \<Rightarrow> string \<Rightarrow> bool" where
  "segments sep opened [] = opened"
| "segments sep opened (c # cs) =
     (if key_char c then segments sep True cs else c = sep \<and> opened \<and> segments sep False cs)"

definition role_key_format :: "string \<Rightarrow> bool" where
  "role_key_format key = segments (CHR ''_'') False key"

definition role_checks :: "role \<Rightarrow> (string \<times> bool) list" where
  "role_checks r =
    [(''roles_key_format'', role_key_format (Role_Key r)),
     (''roles_key_not_blank'', \<not> btrim_blank (Role_Key r)),
     (''roles_name_not_blank'', \<not> btrim_blank (Role_Name r)),
     (''roles_owner_shape_check'', Role_Key r \<noteq> ''owner'' \<or>
        (Role_AssignmentScope r = AssignORGANIZATION \<and> Role_IsSystem r \<and> \<not> Role_IsMutable r \<and> Role_IsActive r)),
     (''roles_system_immutable_check'', \<not> Role_IsSystem r \<or> \<not> Role_IsMutable r),
     (''roles_updated_at_check'', Role_UpdatedAt r \<ge> Role_CreatedAt r)]"

definition membership_checks :: "membership \<Rightarrow> (string \<times> bool) list" where
  "membership_checks m =
    [(''organization_memberships_authorization_version_positive'', Mem_AuthorizationVersion m > 0),
     (''organization_memberships_joined_at_check'', Mem_JoinedAt m \<ge> Mem_CreatedAt m),
     (''organization_memberships_lifecycle_order_check'',
        case (Mem_SuspendedAt m, Mem_RemovedAt m) of (Some s, Some r) \<Rightarrow> s \<le> r | _ \<Rightarrow> True),
     (''organization_memberships_removed_at_check'',
        case Mem_RemovedAt m of None \<Rightarrow> True | Some r \<Rightarrow> r \<ge> Mem_JoinedAt m),
     (''organization_memberships_status_timestamps_check'',
        case Mem_Status m of
          MemACTIVE \<Rightarrow> Mem_SuspendedAt m = None \<and> Mem_RemovedAt m = None
        | MemSUSPENDED \<Rightarrow> Mem_SuspendedAt m \<noteq> None \<and> Mem_RemovedAt m = None
        | MemREMOVED \<Rightarrow> Mem_RemovedAt m \<noteq> None),
     (''organization_memberships_suspended_at_check'',
        case Mem_SuspendedAt m of None \<Rightarrow> True | Some s \<Rightarrow> s \<ge> Mem_JoinedAt m),
     (''organization_memberships_updated_at_check'', Mem_UpdatedAt m \<ge> Mem_CreatedAt m)]"

definition organization_checks :: "organization \<Rightarrow> (string \<times> bool) list" where
  "organization_checks g =
    [(''organizations_archived_at_check'',
        case Org_ArchivedAt g of None \<Rightarrow> True | Some t \<Rightarrow> t \<ge> Org_CreatedAt g),
     (''organizations_archived_status_check'', (Org_Status g = OrgARCHIVED) = (Org_ArchivedAt g \<noteq> None)),
     (''organizations_authorization_version_positive'', Org_AuthorizationVersion g > 0),
     (''organizations_currency_format'',
        length (Org_Currency g) = 3 \<and> list_all (\<lambda>c. 65 \<le> (of_char c :: nat) \<and> (of_char c :: nat) \<le> 90) (Org_Currency g)),
     (''organizations_locale_not_blank'', \<not> btrim_blank (Org_Locale g)),
     (''organizations_name_not_blank'', \<not> btrim_blank (Org_Name g)),
     (''organizations_slug_format'', segments (CHR ''-'') False (Org_Slug g)),
     (''organizations_slug_not_blank'', \<not> btrim_blank (Org_Slug g)),
     (''organizations_timezone_not_blank'', \<not> btrim_blank (Org_Timezone g)),
     (''organizations_updated_at_check'', Org_UpdatedAt g \<ge> Org_CreatedAt g)]"

section \<open>Lookups\<close>

definition role_of :: "uuid \<Rightarrow> uuid \<Rightarrow> auth_db \<Rightarrow> role option" where
  "role_of orgID roleID d =
     List.find (\<lambda>r. Role_OrganizationID r = orgID \<and> Role_ID r = roleID) (au_roles d)"

definition scope_of :: "string \<Rightarrow> auth_db \<Rightarrow> permission_scope option" where
  "scope_of code d = List.find (\<lambda>p. Scope_Code p = code) (au_scopes d)"

definition membership_of :: "uuid \<Rightarrow> uuid \<Rightarrow> auth_db \<Rightarrow> membership option" where
  "membership_of orgID membershipID d =
     List.find (\<lambda>m. Mem_OrganizationID m = orgID \<and> Mem_ID m = membershipID) (au_memberships d)"

definition store_of :: "uuid \<Rightarrow> uuid \<Rightarrow> auth_db \<Rightarrow> store option" where
  "store_of orgID storeID d =
     List.find (\<lambda>s. Store_OrganizationID s = orgID \<and> Store_ID s = storeID) (au_stores d)"

text \<open>\<open>expires_at IS NULL OR expires_at > NOW()\<close>\<close>

definition unexpired :: "time \<Rightarrow> time option \<Rightarrow> bool" where
  "unexpired now t = (case t of None \<Rightarrow> True | Some e \<Rightarrow> e > now)"

section \<open>Permission scopes\<close>

definition ListPermissionScopes :: "env \<Rightarrow> auth_db \<Rightarrow> permission_scope list" where
  "ListPermissionScopes E d = sort_key (\<lambda>p. collation_key E (Scope_Code p)) (au_scopes d)"

definition GetPermissionScopesByCodes :: "env \<Rightarrow> string list \<Rightarrow> auth_db \<Rightarrow> permission_scope list" where
  "GetPermissionScopesByCodes E codes d =
     sort_key (\<lambda>p. collation_key E (Scope_Code p)) (filter (\<lambda>p. Scope_Code p \<in> set codes) (au_scopes d))"

definition role_scope_codes :: "env \<Rightarrow> uuid \<Rightarrow> uuid \<Rightarrow> auth_db \<Rightarrow> string list" where
  "role_scope_codes E orgID roleID d =
     sort_key (collation_key E)
       (map RS_ScopeCode (filter (\<lambda>s. RS_OrganizationID s = orgID \<and> RS_RoleID s = roleID) (au_role_scopes d)))"

text \<open>
  \<open>ResolveActorGrantScopes\<close>: the scopes a membership holds for the whole organization, through
  active roles bound without a store.
\<close>

definition ResolveActorGrantScopes :: "env \<Rightarrow> time \<Rightarrow> uuid \<Rightarrow> uuid \<Rightarrow> auth_db \<Rightarrow> string list" where
  "ResolveActorGrantScopes E now orgID membershipID d =
     sort_key (collation_key E) (remdups
       [Scope_Code ps. b \<leftarrow> au_bindings d, r \<leftarrow> au_roles d, rs \<leftarrow> au_role_scopes d, ps \<leftarrow> au_scopes d, m \<leftarrow> au_memberships d,
          Role_OrganizationID r = Bind_OrganizationID b \<and> Role_ID r = Bind_RoleID b \<and>
          RS_OrganizationID rs = Role_OrganizationID r \<and> RS_RoleID rs = Role_ID r \<and>
          Scope_Code ps = RS_ScopeCode rs \<and>
          Mem_OrganizationID m = Bind_OrganizationID b \<and> Mem_ID m = Bind_MembershipID b \<and>
          Bind_OrganizationID b = orgID \<and> Bind_MembershipID b = membershipID \<and>
          Mem_Status m = MemACTIVE \<and> Role_IsActive r \<and> Bind_StoreID b = None \<and> unexpired now (Bind_ExpiresAt b)])"

section \<open>Roles\<close>

record create_role_params =
  CR_OrganizationID :: uuid
  CR_Key :: string
  CR_Name :: string
  CR_Description :: "string option"
  CR_AssignmentScope :: role_assignment_scope
  CR_IsSystem :: bool
  CR_IsMutable :: bool
  CR_CreatedByMembershipID :: "uuid option"

definition new_role :: "time \<Rightarrow> uuid \<Rightarrow> create_role_params \<Rightarrow> role" where
  "new_role now rid P =
     \<lparr>Role_ID = rid, Role_OrganizationID = CR_OrganizationID P, Role_Key = CR_Key P, Role_Name = CR_Name P,
      Role_Description = CR_Description P, Role_AssignmentScope = CR_AssignmentScope P,
      Role_IsSystem = CR_IsSystem P, Role_IsMutable = CR_IsMutable P, Role_IsActive = True,
      Role_CreatedByMembershipID = CR_CreatedByMembershipID P, Role_CreatedAt = now, Role_UpdatedAt = now\<rparr>"

definition CreateRole_row :: "env \<Rightarrow> time \<Rightarrow> create_role_params \<Rightarrow> auth_db \<Rightarrow> 's go_error + role \<times> auth_db" where
  "CreateRole_row E now P d =
     chain (pg_varchar 80 (CR_Key P)) (\<lambda>_.
     chain (pg_varchar 120 (CR_Name P)) (\<lambda>_.
     chain (pg_varchar_null 255 (CR_Description P)) (\<lambda>_.
     let r = new_role now (uuidv7 E (au_uuid_calls d)) P in
     chain (check_row (role_checks r)) (\<lambda>_.
     chain (guard_error (List.find (\<lambda>q. Role_ID q = Role_ID r) (au_roles d) = None)
             (PgError ''23505'' ''roles_pkey'')) (\<lambda>_.
     chain (guard_error (List.find (\<lambda>q. Role_OrganizationID q = Role_OrganizationID r \<and> Role_Key q = Role_Key r)
               (au_roles d) = None) (PgError ''23505'' ''roles_organization_id_key_unique'')) (\<lambda>_.
     chain (guard_error (list_ex (\<lambda>g. Org_ID g = Role_OrganizationID r) (au_organizations d))
             (PgError ''23503'' ''roles_organization_id_fkey'')) (\<lambda>_.
     chain (guard_error (case Role_CreatedByMembershipID r of None \<Rightarrow> True
               | Some m \<Rightarrow> membership_of (Role_OrganizationID r) m d \<noteq> None)
             (PgError ''23503'' ''roles_created_by_membership_fkey'')) (\<lambda>_.
     Inr (r, d\<lparr>au_roles := au_roles d @ [r], au_uuid_calls := Suc (au_uuid_calls d)\<rparr>)))))))))"

text \<open>
  An \<open>UPDATE roles\<close>: \<open>updated_at\<close>, the trigger \<open>validate_role_update\<close> for statements that
  leave the assignment scope as it is, then the constraints.
\<close>

definition write_role :: "time \<Rightarrow> (role \<Rightarrow> role) \<Rightarrow> role \<Rightarrow> 's go_error + role" where
  "write_role now f r =
     (let r' = (f r)\<lparr>Role_UpdatedAt := now\<rparr> in
      chain (guard_error (Role_IsMutable r \<or> r' = r\<lparr>Role_UpdatedAt := now\<rparr>)
              (PgError ''23514'' ''roles_immutable_update'')) (\<lambda>_.
      chain (guard_error (Role_IsSystem r' = Role_IsSystem r)
              (PgError ''23514'' ''roles_system_designation_immutable'')) (\<lambda>_.
      chain (check_row (role_checks r')) (\<lambda>_. Inr r'))))"

definition UpdateRole_row ::
    "time \<Rightarrow> string \<Rightarrow> string option \<Rightarrow> uuid \<Rightarrow> uuid \<Rightarrow> auth_db \<Rightarrow> 's go_error + role \<times> auth_db" where
  "UpdateRole_row now name description orgID roleID d =
     chain (pg_varchar 120 name) (\<lambda>_.
     chain (pg_varchar_null 255 description) (\<lambda>_.
     chain (update_row (\<lambda>r. Role_OrganizationID r = orgID \<and> Role_ID r = roleID \<and> Role_IsMutable r)
             (write_role now (\<lambda>r. r\<lparr>Role_Name := name, Role_Description := description\<rparr>)) (au_roles d)) (\<lambda>(r, rows).
     Inr (r, d\<lparr>au_roles := rows\<rparr>))))"

definition UpdateRoleStatus ::
    "time \<Rightarrow> bool \<Rightarrow> uuid \<Rightarrow> uuid \<Rightarrow> auth_db \<Rightarrow> 's go_error + role \<times> auth_db" where
  "UpdateRoleStatus now active orgID roleID d =
     chain (update_row (\<lambda>r. Role_OrganizationID r = orgID \<and> Role_ID r = roleID \<and> Role_IsMutable r)
             (write_role now (\<lambda>r. r\<lparr>Role_IsActive := active\<rparr>)) (au_roles d)) (\<lambda>(r, rows).
     Inr (r, d\<lparr>au_roles := rows\<rparr>))"

definition LockRoleForScopeChange :: "uuid \<Rightarrow> uuid \<Rightarrow> auth_db \<Rightarrow> 's go_error + role" where
  "LockRoleForScopeChange orgID roleID d =
     one_row (List.find (\<lambda>r. Role_OrganizationID r = orgID \<and> Role_ID r = roleID \<and> Role_IsMutable r) (au_roles d))"

text \<open>A role with its scope codes.\<close>

type_synonym role_with_scopes = "role \<times> string list"

definition GetRoleWithScopesForOrganization ::
    "env \<Rightarrow> uuid \<Rightarrow> uuid \<Rightarrow> auth_db \<Rightarrow> 's go_error + role_with_scopes" where
  "GetRoleWithScopesForOrganization E orgID roleID d =
     chain (one_row (role_of orgID roleID d)) (\<lambda>r. Inr (r, role_scope_codes E orgID roleID d))"

definition ListRolesWithScopes :: "env \<Rightarrow> uuid \<Rightarrow> auth_db \<Rightarrow> role_with_scopes list" where
  "ListRolesWithScopes E orgID d =
     map (\<lambda>r. (r, role_scope_codes E orgID (Role_ID r) d))
       (sort_key (\<lambda>r. (collation_key E (Role_Name r), Role_ID r))
         (filter (\<lambda>r. Role_OrganizationID r = orgID) (au_roles d)))"

text \<open>The trigger \<open>validate_role_scope_assignment\<close>.\<close>

definition role_scope_assignment :: "uuid \<Rightarrow> uuid \<Rightarrow> string \<Rightarrow> auth_db \<Rightarrow> 's go_error + unit" where
  "role_scope_assignment orgID roleID code d =
     (case (role_of orgID roleID d, scope_of code d) of
        (Some r, Some p) \<Rightarrow>
          chain (guard_error (\<not> (Role_AssignmentScope r = AssignSTORE \<and> Scope_Level p \<noteq> LevelSTORE))
                  (PgError ''23514'' ''role_scopes_assignment_scope_check'')) (\<lambda>_.
          guard_error (Scope_IsAssignable p \<or> Role_IsSystem r)
            (PgError ''23514'' ''role_scopes_assignable_check''))
      | _ \<Rightarrow> Inr ())"

text \<open>
  Scopes that are not requested are deleted, the requested ones that the role does not have
  are inserted; the trigger runs on every requested one, the foreign keys on the inserted ones.
\<close>

definition ReplaceRoleScopes ::
    "env \<Rightarrow> time \<Rightarrow> uuid \<Rightarrow> uuid \<Rightarrow> string list \<Rightarrow> auth_db \<Rightarrow> 's go_error + role_scope list \<times> auth_db" where
  "ReplaceRoleScopes E now orgID roleID codes d =
     (let requested = sort_key (collation_key E) (remdups codes);
          kept = filter (\<lambda>s. \<not> (RS_OrganizationID s = orgID \<and> RS_RoleID s = roleID \<and> RS_ScopeCode s \<notin> set codes))
            (au_role_scopes d);
          added = map (\<lambda>code. \<lparr>RS_OrganizationID = orgID, RS_RoleID = roleID, RS_ScopeCode = code, RS_CreatedAt = now\<rparr>)
            (filter (\<lambda>code. code \<notin> set (role_scope_codes E orgID roleID d)) requested)
      in
      chain (map_result (\<lambda>code. chain (pg_varchar 100 code) (\<lambda>_. role_scope_assignment orgID roleID code d)) requested) (\<lambda>_.
      chain (guard_error (added = [] \<or> role_of orgID roleID d \<noteq> None)
              (PgError ''23503'' ''role_scopes_role_fkey'')) (\<lambda>_.
      chain (guard_error (list_all (\<lambda>s. scope_of (RS_ScopeCode s) d \<noteq> None) added)
              (PgError ''23503'' ''role_scopes_scope_code_fkey'')) (\<lambda>_.
      Inr (added, d\<lparr>au_role_scopes := kept @ added\<rparr>)))))"

section \<open>Role bindings\<close>

record create_binding_params =
  CB_OrganizationID :: uuid
  CB_MembershipID :: uuid
  CB_RoleID :: uuid
  CB_CreatedByMembershipID :: uuid
  CB_ExpiresAt :: "time option"
  CB_StoreID :: "uuid option"

definition new_binding :: "time \<Rightarrow> uuid \<Rightarrow> create_binding_params \<Rightarrow> role_binding" where
  "new_binding now bid P =
     \<lparr>Bind_ID = bid, Bind_OrganizationID = CB_OrganizationID P, Bind_MembershipID = CB_MembershipID P,
      Bind_RoleID = CB_RoleID P, Bind_StoreID = CB_StoreID P,
      Bind_CreatedByMembershipID = CB_CreatedByMembershipID P, Bind_ExpiresAt = CB_ExpiresAt P, Bind_CreatedAt = now\<rparr>"

definition binding_checks :: "role_binding \<Rightarrow> (string \<times> bool) list" where
  "binding_checks b =
    [(''membership_role_bindings_expires_at_check'',
        case Bind_ExpiresAt b of None \<Rightarrow> True | Some t \<Rightarrow> t > Bind_CreatedAt b)]"

text \<open>The trigger \<open>validate_role_binding_scope\<close>.\<close>

definition role_binding_scope :: "auth_db \<Rightarrow> role_binding \<Rightarrow> 's go_error + unit" where
  "role_binding_scope d b =
     (case role_of (Bind_OrganizationID b) (Bind_RoleID b) d of
        None \<Rightarrow> Inr ()
      | Some r \<Rightarrow>
          chain (guard_error (\<not> (Role_AssignmentScope r = AssignORGANIZATION \<and> Bind_StoreID b \<noteq> None))
                  (PgError ''23514'' ''role_binding_store_forbidden'')) (\<lambda>_.
          chain (guard_error (\<not> (Role_AssignmentScope r = AssignSTORE \<and> Bind_StoreID b = None))
                  (PgError ''23514'' ''role_binding_store_required'')) (\<lambda>_.
          guard_error (\<not> (Role_IsSystem r \<and> Role_Key r = ''owner'' \<and> Bind_ExpiresAt b \<noteq> None))
            (PgError ''23514'' ''owner_binding_expiration_forbidden''))))"

definition binding_creator_ok :: "auth_db \<Rightarrow> role_binding \<Rightarrow> 's go_error + unit" where
  "binding_creator_ok d b =
     guard_error (membership_of (Bind_OrganizationID b) (Bind_CreatedByMembershipID b) d \<noteq> None)
       (PgError ''23503'' ''membership_role_bindings_creator_fkey'')"

definition binding_references_ok :: "auth_db \<Rightarrow> role_binding \<Rightarrow> 's go_error + unit" where
  "binding_references_ok d b =
     chain (guard_error (membership_of (Bind_OrganizationID b) (Bind_MembershipID b) d \<noteq> None)
             (PgError ''23503'' ''membership_role_bindings_membership_fkey'')) (\<lambda>_.
     chain (guard_error (role_of (Bind_OrganizationID b) (Bind_RoleID b) d \<noteq> None)
             (PgError ''23503'' ''membership_role_bindings_role_fkey'')) (\<lambda>_.
     chain (binding_creator_ok d b) (\<lambda>_.
     guard_error (case Bind_StoreID b of None \<Rightarrow> True | Some s \<Rightarrow> store_of (Bind_OrganizationID b) s d \<noteq> None)
       (PgError ''23503'' ''membership_role_bindings_store_fkey''))))"

definition replace_binding :: "auth_db \<Rightarrow> role_binding \<Rightarrow> role_binding \<Rightarrow> 's go_error + role_binding" where
  "replace_binding d b old =
     (let b' = old\<lparr>Bind_ExpiresAt := Bind_ExpiresAt b, Bind_CreatedByMembershipID := Bind_CreatedByMembershipID b\<rparr> in
      chain (role_binding_scope d b') (\<lambda>_.
      chain (check_row (binding_checks b')) (\<lambda>_.
      chain (binding_creator_ok d b') (\<lambda>_. Inr b'))))"

text \<open>
  An upsert on the two partial unique indexes: one binding of a role to a membership without a
  store, and one for each store.
\<close>

definition same_binding :: "role_binding \<Rightarrow> role_binding \<Rightarrow> bool" where
  "same_binding b q \<longleftrightarrow> Bind_OrganizationID q = Bind_OrganizationID b \<and> Bind_MembershipID q = Bind_MembershipID b \<and>
     Bind_RoleID q = Bind_RoleID b \<and> Bind_StoreID q = Bind_StoreID b"

definition CreateRoleBinding ::
    "env \<Rightarrow> time \<Rightarrow> create_binding_params \<Rightarrow> auth_db \<Rightarrow> 's go_error + role_binding \<times> auth_db" where
  "CreateRoleBinding E now P d =
     (let b = new_binding now (uuidv7 E (au_uuid_calls d)) P in
      chain (role_binding_scope d b) (\<lambda>_.
      chain (check_row (binding_checks b)) (\<lambda>_.
      if List.find (same_binding b) (au_bindings d) = None then
        chain (guard_error (List.find (\<lambda>q. Bind_ID q = Bind_ID b) (au_bindings d) = None)
                (PgError ''23505'' ''membership_role_bindings_pkey'')) (\<lambda>_.
        chain (binding_references_ok d b) (\<lambda>_.
        Inr (b, d\<lparr>au_bindings := au_bindings d @ [b], au_uuid_calls := Suc (au_uuid_calls d)\<rparr>)))
      else
        chain (update_row (same_binding b) (replace_binding d b) (au_bindings d)) (\<lambda>(b', rows).
        Inr (b', d\<lparr>au_bindings := rows, au_uuid_calls := Suc (au_uuid_calls d)\<rparr>)))))"

definition DeleteRoleBinding ::
    "uuid \<Rightarrow> uuid \<Rightarrow> uuid \<Rightarrow> auth_db \<Rightarrow> 's go_error + role_binding \<times> auth_db" where
  "DeleteRoleBinding orgID membershipID bindingID d =
     chain (one_row (delete_row (\<lambda>b. Bind_OrganizationID b = orgID \<and> Bind_MembershipID b = membershipID \<and>
              Bind_ID b = bindingID) (au_bindings d))) (\<lambda>(b, rows).
     Inr (b, d\<lparr>au_bindings := rows\<rparr>))"

text \<open>A binding with its role.\<close>

definition bound_roles :: "(role_binding \<Rightarrow> bool) \<Rightarrow> auth_db \<Rightarrow> (role_binding \<times> role) list" where
  "bound_roles p d =
     [(b, r). b \<leftarrow> au_bindings d, r \<leftarrow> au_roles d,
        Role_OrganizationID r = Bind_OrganizationID b \<and> Role_ID r = Bind_RoleID b \<and> p b]"

definition GetRoleBindingForOrganization ::
    "uuid \<Rightarrow> uuid \<Rightarrow> uuid \<Rightarrow> auth_db \<Rightarrow> 's go_error + role_binding \<times> role" where
  "GetRoleBindingForOrganization orgID membershipID bindingID d =
     one_row (List.find (\<lambda>_. True) (bound_roles (\<lambda>b. Bind_OrganizationID b = orgID \<and>
       Bind_MembershipID b = membershipID \<and> Bind_ID b = bindingID) d))"

fun assignment_order :: "role_assignment_scope \<Rightarrow> nat" where
  "assignment_order AssignORGANIZATION = 0"
| "assignment_order AssignSTORE = 1"

type_synonym member_binding_row = "role_binding \<times> role \<times> store option"

definition ListMemberRoleBindings :: "env \<Rightarrow> uuid \<Rightarrow> uuid \<Rightarrow> auth_db \<Rightarrow> member_binding_row list" where
  "ListMemberRoleBindings E orgID membershipID d =
     sort_key (\<lambda>(b, r, s). (assignment_order (Role_AssignmentScope r), collation_key E (Role_Name r),
         case s of None \<Rightarrow> 0 | Some st \<Rightarrow> Suc (collation_key E (Store_Name st)), Bind_ID b))
       (map (\<lambda>(b, r). (b, r, Option.bind (Bind_StoreID b) (\<lambda>s. store_of (Bind_OrganizationID b) s d)))
         (bound_roles (\<lambda>b. Bind_OrganizationID b = orgID \<and> Bind_MembershipID b = membershipID) d))"

text \<open>The active memberships of an organization that hold its owner role.\<close>

definition owner_memberships :: "time \<Rightarrow> uuid \<Rightarrow> auth_db \<Rightarrow> uuid list" where
  "owner_memberships now orgID d =
     remdups [Mem_ID m. m \<leftarrow> au_memberships d, b \<leftarrow> au_bindings d, r \<leftarrow> au_roles d,
       Bind_OrganizationID b = Mem_OrganizationID m \<and> Bind_MembershipID b = Mem_ID m \<and>
       Role_OrganizationID r = Bind_OrganizationID b \<and> Role_ID r = Bind_RoleID b \<and>
       Mem_OrganizationID m = orgID \<and> Mem_Status m = MemACTIVE \<and>
       Role_Key r = ''owner'' \<and> Role_IsSystem r \<and> Role_IsActive r \<and> Bind_StoreID b = None \<and>
       unexpired now (Bind_ExpiresAt b)]"

definition CountActiveOwnersForUpdate :: "time \<Rightarrow> uuid \<Rightarrow> auth_db \<Rightarrow> int" where
  "CountActiveOwnersForUpdate now orgID d = int (length (owner_memberships now orgID d))"

section \<open>Effective scopes\<close>

text \<open>\<open>valid_context\<close>: user, organization and membership are active, and the store of a store context too.\<close>

definition valid_context ::
    "auth_context_kind \<Rightarrow> uuid option \<Rightarrow> uuid \<Rightarrow> uuid \<Rightarrow> uuid \<Rightarrow> auth_db \<Rightarrow> bool" where
  "valid_context kind storeID orgID membershipID userID d \<longleftrightarrow>
     list_ex (\<lambda>m. Mem_OrganizationID m = orgID \<and> Mem_ID m = membershipID \<and> Mem_UserID m = userID \<and>
        Mem_Status m = MemACTIVE \<and>
        list_ex (\<lambda>u. User_ID u = Mem_UserID m \<and> User_Status u = UserACTIVE) (au_users d) \<and>
        list_ex (\<lambda>g. Org_ID g = Mem_OrganizationID m \<and> Org_Status g = OrgACTIVE) (au_organizations d)) (au_memberships d) \<and>
     (case kind of
        CtxORGANIZATION \<Rightarrow> storeID = None
      | CtxSTORE \<Rightarrow> (case storeID of None \<Rightarrow> False
          | Some s \<Rightarrow> (case store_of orgID s d of None \<Rightarrow> False | Some st \<Rightarrow> Store_Status st = StoreACTIVE))
      | CtxIDENTITY \<Rightarrow> False)"

text \<open>Which bindings count in the context.\<close>

definition binding_in_context :: "auth_context_kind \<Rightarrow> uuid option \<Rightarrow> role_binding \<Rightarrow> role \<Rightarrow> bool" where
  "binding_in_context kind storeID b r \<longleftrightarrow>
     (kind = CtxORGANIZATION \<and> Role_AssignmentScope r = AssignORGANIZATION \<and> Bind_StoreID b = None) \<or>
     (kind = CtxSTORE \<and>
        ((Role_AssignmentScope r = AssignORGANIZATION \<and> Bind_StoreID b = None) \<or>
         (Role_AssignmentScope r = AssignSTORE \<and> Bind_StoreID b = storeID \<and> storeID \<noteq> None)))"

definition effective_roles ::
    "time \<Rightarrow> auth_context_kind \<Rightarrow> uuid option \<Rightarrow> uuid \<Rightarrow> uuid \<Rightarrow> auth_db \<Rightarrow> role list" where
  "effective_roles now kind storeID orgID membershipID d =
     remdups (map snd (filter (\<lambda>(b, r). Role_IsActive r \<and> unexpired now (Bind_ExpiresAt b) \<and>
         binding_in_context kind storeID b r)
       (bound_roles (\<lambda>b. Bind_OrganizationID b = orgID \<and> Bind_MembershipID b = membershipID) d)))"

definition ResolveEffectiveScopes ::
    "env \<Rightarrow> time \<Rightarrow> auth_context_kind \<Rightarrow> uuid option \<Rightarrow> uuid \<Rightarrow> uuid \<Rightarrow> uuid \<Rightarrow> auth_db \<Rightarrow>
     's go_error + string list \<times> string list" where
  "ResolveEffectiveScopes E now kind storeID orgID membershipID userID d =
     chain (guard_error (valid_context kind storeID orgID membershipID userID d) ErrNoRows) (\<lambda>_.
     let roles = effective_roles now kind storeID orgID membershipID d in
     Inr (sort_key (collation_key E) (map Role_Key roles),
          sort_key (collation_key E) (remdups
            [RS_ScopeCode rs. r \<leftarrow> roles, rs \<leftarrow> au_role_scopes d, ps \<leftarrow> au_scopes d,
               RS_OrganizationID rs = Role_OrganizationID r \<and> RS_RoleID rs = Role_ID r \<and>
               Scope_Code ps = RS_ScopeCode rs \<and> (kind = CtxSTORE \<or> Scope_Level ps = LevelORGANIZATION)])))"

section \<open>Organizations\<close>

definition write_organization ::
    "time \<Rightarrow> (organization \<Rightarrow> organization) \<Rightarrow> organization \<Rightarrow> 's go_error + organization" where
  "write_organization now f g =
     (let g' = (f g)\<lparr>Org_UpdatedAt := now\<rparr> in
      chain (pg_bigint (Org_AuthorizationVersion g')) (\<lambda>_.
      chain (check_row (organization_checks g')) (\<lambda>_. Inr g')))"

definition IncrementOrganizationAuthorizationVersion ::
    "time \<Rightarrow> uuid \<Rightarrow> auth_db \<Rightarrow> 's go_error + organization \<times> auth_db" where
  "IncrementOrganizationAuthorizationVersion now orgID d =
     chain (update_row (\<lambda>g. Org_ID g = orgID)
             (write_organization now (\<lambda>g. g\<lparr>Org_AuthorizationVersion := Org_AuthorizationVersion g + 1\<rparr>))
             (au_organizations d)) (\<lambda>(g, rows).
     Inr (g, d\<lparr>au_organizations := rows\<rparr>))"

definition LockOrganizationForOwnerChange :: "uuid \<Rightarrow> auth_db \<Rightarrow> 's go_error + organization" where
  "LockOrganizationForOwnerChange orgID d = one_row (List.find (\<lambda>g. Org_ID g = orgID) (au_organizations d))"

section \<open>Memberships\<close>

definition GetMembershipForUpdate :: "uuid \<Rightarrow> uuid \<Rightarrow> auth_db \<Rightarrow> 's go_error + membership" where
  "GetMembershipForUpdate orgID membershipID d = one_row (membership_of orgID membershipID d)"

text \<open>
  An \<open>UPDATE organization_memberships\<close>: \<open>updated_at\<close>, the trigger that keeps a removed
  membership removed, then the constraints and the reference to the default store.
\<close>

definition write_membership ::
    "time \<Rightarrow> auth_db \<Rightarrow> (membership \<Rightarrow> membership) \<Rightarrow> membership \<Rightarrow> 's go_error + membership" where
  "write_membership now d f m =
     (let m' = (f m)\<lparr>Mem_UpdatedAt := now\<rparr> in
      chain (pg_bigint (Mem_AuthorizationVersion m')) (\<lambda>_.
      chain (guard_error (\<not> (Mem_Status m = MemREMOVED \<and> Mem_Status m' \<noteq> MemREMOVED))
              (PgError ''23514'' ''organization_memberships_removed_terminal'')) (\<lambda>_.
      chain (check_row (membership_checks m')) (\<lambda>_.
      chain (guard_error (Mem_DefaultStoreID m' = Mem_DefaultStoreID m \<or>
               (case Mem_DefaultStoreID m' of None \<Rightarrow> True
                | Some s \<Rightarrow> store_of (Mem_OrganizationID m') s d \<noteq> None))
              (PgError ''23503'' ''organization_memberships_default_store_fkey'')) (\<lambda>_.
      Inr m')))))"

definition update_membership ::
    "time \<Rightarrow> (membership \<Rightarrow> membership) \<Rightarrow> uuid \<Rightarrow> uuid \<Rightarrow> auth_db \<Rightarrow> 's go_error + membership \<times> auth_db" where
  "update_membership now f orgID membershipID d =
     chain (update_row (\<lambda>m. Mem_OrganizationID m = orgID \<and> Mem_ID m = membershipID)
             (write_membership now d f) (au_memberships d)) (\<lambda>(m, rows).
     Inr (m, d\<lparr>au_memberships := rows\<rparr>))"

definition IncrementMembershipAuthorizationVersion ::
    "time \<Rightarrow> uuid \<Rightarrow> uuid \<Rightarrow> auth_db \<Rightarrow> 's go_error + membership \<times> auth_db" where
  "IncrementMembershipAuthorizationVersion now =
     update_membership now (\<lambda>m. m\<lparr>Mem_AuthorizationVersion := Mem_AuthorizationVersion m + 1\<rparr>)"

definition UpdateMembershipStatus ::
    "time \<Rightarrow> membership_status \<Rightarrow> uuid \<Rightarrow> uuid \<Rightarrow> auth_db \<Rightarrow> 's go_error + membership \<times> auth_db" where
  "UpdateMembershipStatus now status =
     update_membership now (\<lambda>m. m\<lparr>Mem_Status := status,
       Mem_SuspendedAt := (if status = MemSUSPENDED then Some now else None),
       Mem_RemovedAt := (if status = MemREMOVED then Some now else None),
       Mem_AuthorizationVersion := Mem_AuthorizationVersion m + 1\<rparr>)"

definition UpdateMembershipDefaultStore ::
    "time \<Rightarrow> uuid \<Rightarrow> uuid \<Rightarrow> uuid option \<Rightarrow> auth_db \<Rightarrow> 's go_error + membership \<times> auth_db" where
  "UpdateMembershipDefaultStore now orgID membershipID storeID d =
     update_membership now (\<lambda>m. m\<lparr>Mem_DefaultStoreID := storeID,
       Mem_AuthorizationVersion := Mem_AuthorizationVersion m + 1\<rparr>) orgID membershipID d"

text \<open>A membership with its user and its default store.\<close>

type_synonym membership_row = "membership \<times> user \<times> store option"

definition membership_rows :: "(membership \<Rightarrow> user \<Rightarrow> bool) \<Rightarrow> auth_db \<Rightarrow> membership_row list" where
  "membership_rows p d =
     [(m, u, Option.bind (Mem_DefaultStoreID m) (\<lambda>s. store_of (Mem_OrganizationID m) s d)).
        m \<leftarrow> au_memberships d, u \<leftarrow> au_users d, User_ID u = Mem_UserID m \<and> p m u]"

definition GetMembershipForOrganization ::
    "uuid \<Rightarrow> uuid \<Rightarrow> auth_db \<Rightarrow> 's go_error + membership_row" where
  "GetMembershipForOrganization orgID membershipID d =
     one_row (List.find (\<lambda>_. True)
       (membership_rows (\<lambda>m _. Mem_OrganizationID m = orgID \<and> Mem_ID m = membershipID) d))"

definition membership_matches ::
    "env \<Rightarrow> uuid \<Rightarrow> membership_status option \<Rightarrow> string option \<Rightarrow> membership \<Rightarrow> user \<Rightarrow> bool" where
  "membership_matches E orgID status search m u \<longleftrightarrow>
     Mem_OrganizationID m = orgID \<and>
     (case status of None \<Rightarrow> True | Some s \<Rightarrow> Mem_Status m = s) \<and>
     (case search of None \<Rightarrow> True
      | Some t \<Rightarrow> pg_ILIKE E (User_DisplayName u) (''%'' @ t @ ''%'') \<or>
                  pg_ILIKE E (User_EmailNormalized u) (''%'' @ t @ ''%''))"

definition ListMemberships ::
    "env \<Rightarrow> uuid \<Rightarrow> membership_status option \<Rightarrow> string option \<Rightarrow> int \<Rightarrow> int \<Rightarrow> auth_db \<Rightarrow> 's go_error + membership_row list" where
  "ListMemberships E orgID status search pageOffset pageSize d =
     (if pageSize < 0 then Inl (PgError ''2201W'' [])
      else if pageOffset < 0 then Inl (PgError ''2201X'' [])
      else Inr (take (nat pageSize) (drop (nat pageOffset)
        (rev (sort_key (\<lambda>(m, _). (Mem_CreatedAt m, Mem_ID m))
          (membership_rows (membership_matches E orgID status search) d))))))"

definition CountMemberships :: "env \<Rightarrow> uuid \<Rightarrow> membership_status option \<Rightarrow> string option \<Rightarrow> auth_db \<Rightarrow> int" where
  "CountMemberships E orgID status search d =
     int (length (membership_rows (membership_matches E orgID status search) d))"

section \<open>Stores and sessions\<close>

definition GetStoreForOrganization :: "uuid \<Rightarrow> uuid \<Rightarrow> auth_db \<Rightarrow> 's go_error + store" where
  "GetStoreForOrganization orgID storeID d = one_row (store_of orgID storeID d)"

text \<open>
  The active stores where a membership holds a store-level scope, through a role of the whole
  organization or a role of that store.
\<close>

definition store_available :: "time \<Rightarrow> uuid \<Rightarrow> uuid \<Rightarrow> auth_db \<Rightarrow> store \<Rightarrow> bool" where
  "store_available now orgID membershipID d s \<longleftrightarrow>
     list_ex (\<lambda>(b, r). Role_IsActive r \<and> unexpired now (Bind_ExpiresAt b) \<and>
         ((Bind_StoreID b = None \<and> Role_AssignmentScope r = AssignORGANIZATION) \<or>
          (Bind_StoreID b = Some (Store_ID s) \<and> Role_AssignmentScope r = AssignSTORE)) \<and>
         list_ex (\<lambda>rs. RS_OrganizationID rs = Role_OrganizationID r \<and> RS_RoleID rs = Role_ID r \<and>
             list_ex (\<lambda>ps. Scope_Code ps = RS_ScopeCode rs \<and> Scope_Level ps = LevelSTORE) (au_scopes d)) (au_role_scopes d))
       (bound_roles (\<lambda>b. Bind_OrganizationID b = orgID \<and> Bind_MembershipID b = membershipID) d)"

definition ListStoresForMembership :: "env \<Rightarrow> time \<Rightarrow> uuid \<Rightarrow> uuid \<Rightarrow> auth_db \<Rightarrow> store list" where
  "ListStoresForMembership E now orgID membershipID d =
     sort_key (\<lambda>s. (collation_key E (Store_Name s), Store_ID s))
       [s. m \<leftarrow> au_memberships d, g \<leftarrow> au_organizations d, s \<leftarrow> au_stores d,
          Mem_OrganizationID m = orgID \<and> Mem_ID m = membershipID \<and> Org_ID g = Mem_OrganizationID m \<and>
          Store_OrganizationID s = Mem_OrganizationID m \<and>
          Mem_Status m = MemACTIVE \<and> Org_Status g = OrgACTIVE \<and> Store_Status s = StoreACTIVE \<and>
          store_available now orgID membershipID d s]"

definition ListSessionIDsForOrganization :: "uuid \<Rightarrow> auth_db \<Rightarrow> uuid list" where
  "ListSessionIDsForOrganization orgID d =
     sort (map Ses_ID (filter (\<lambda>s. Ses_OrganizationID s = Some orgID) (au_sessions d)))"

definition ListSessionIDsForMembership :: "uuid \<Rightarrow> uuid \<Rightarrow> auth_db \<Rightarrow> uuid list" where
  "ListSessionIDsForMembership orgID membershipID d =
     sort (map Ses_ID (filter (\<lambda>s. Ses_OrganizationID s = Some orgID \<and> Ses_MembershipID s = Some membershipID)
       (au_sessions d)))"

end
