(* ===== verification/Principal.thy ===== *)
theory Principal
  imports Access_Queries
begin

text \<open>
  Who acts: the authenticated principal of \<open>platform/authcontext\<close> with its set of scopes, the
  guards of \<open>platform/authz\<close> that routes put before a handler, and the scopes the services ask
  for. A \<open>ScopeSet\<close> is the list of the scopes it holds; a nil set holds none.
\<close>

section \<open>Scope sets\<close>

definition ScopeSet_Has :: "string list \<Rightarrow> string \<Rightarrow> bool" where
  "ScopeSet_Has s scope = (scope \<in> set s)"

definition ScopeSet_HasAll :: "string list \<Rightarrow> string list \<Rightarrow> bool" where
  "ScopeSet_HasAll s scopes = list_all (ScopeSet_Has s) scopes"

definition ScopeSet_HasAny :: "string list \<Rightarrow> string list \<Rightarrow> bool" where
  "ScopeSet_HasAny s scopes = list_ex (ScopeSet_Has s) scopes"

section \<open>Principals\<close>

record principal =
  Pr_UserID :: "uuid option"
  Pr_SessionID :: "uuid option"
  Pr_ClientID :: string
  Pr_ContextKind :: string
  Pr_OrganizationID :: "uuid option"
  Pr_MembershipID :: "uuid option"
  Pr_StoreID :: "uuid option"
  Pr_RoleKeys :: "string list"
  Pr_Scopes :: "string list"
  Pr_OrgAuthzVersion :: "int option"
  Pr_MemberAuthzVersion :: "int option"
  Pr_PasswordVersion :: int
  Pr_AuthTime :: time
  Pr_TokenID :: "uuid option"

definition ContextKind_Valid :: "string \<Rightarrow> bool" where
  "ContextKind_Valid c \<longleftrightarrow> c \<in> {''identity'', ''organization'', ''store''}"

definition HasOrganizationScope :: "principal \<Rightarrow> bool" where
  "HasOrganizationScope p \<longleftrightarrow> Pr_ContextKind p = ''organization'' \<or> Pr_ContextKind p = ''store''"

definition HasStoreScope :: "principal \<Rightarrow> bool" where
  "HasStoreScope p \<longleftrightarrow> Pr_ContextKind p = ''store''"

definition principal_requires :: "bool \<Rightarrow> string \<Rightarrow> 's go_error + unit" where
  "principal_requires ok text = guard_error ok (OtherError (''principal: '' @ text))"

definition Principal_Validate :: "principal \<Rightarrow> 's go_error + unit" where
  "Principal_Validate p =
     chain (principal_requires (Pr_UserID p \<noteq> None) ''user_id is required'') (\<lambda>_.
     chain (principal_requires (Pr_SessionID p \<noteq> None) ''session_id is required'') (\<lambda>_.
     chain (principal_requires (Pr_ClientID p \<noteq> []) ''client_id is required'') (\<lambda>_.
     chain (principal_requires (ContextKind_Valid (Pr_ContextKind p))
             (''invalid context kind '' @ Pr_ContextKind p)) (\<lambda>_.
     chain (principal_requires (Pr_TokenID p \<noteq> None) ''token_id is required'') (\<lambda>_.
     if Pr_ContextKind p = ''identity'' then
       chain (principal_requires (Pr_OrganizationID p = None) ''identity context must not have organization_id'') (\<lambda>_.
       chain (principal_requires (Pr_MembershipID p = None) ''identity context must not have membership_id'') (\<lambda>_.
       chain (principal_requires (Pr_StoreID p = None) ''identity context must not have store_id'') (\<lambda>_.
       chain (principal_requires (Pr_OrgAuthzVersion p = None) ''identity context must not have org_authz_version'') (\<lambda>_.
       principal_requires (Pr_MemberAuthzVersion p = None) ''identity context must not have member_authz_version''))))
     else if Pr_ContextKind p = ''organization'' then
       chain (principal_requires (Pr_OrganizationID p \<noteq> None) ''organization context requires organization_id'') (\<lambda>_.
       chain (principal_requires (Pr_MembershipID p \<noteq> None) ''organization context requires membership_id'') (\<lambda>_.
       chain (principal_requires (Pr_StoreID p = None) ''organization context must not have store_id'') (\<lambda>_.
       chain (principal_requires (Pr_OrgAuthzVersion p \<noteq> None) ''organization context requires org_authz_version'') (\<lambda>_.
       principal_requires (Pr_MemberAuthzVersion p \<noteq> None) ''organization context requires member_authz_version''))))
     else
       chain (principal_requires (Pr_OrganizationID p \<noteq> None) ''store context requires organization_id'') (\<lambda>_.
       chain (principal_requires (Pr_MembershipID p \<noteq> None) ''store context requires membership_id'') (\<lambda>_.
       chain (principal_requires (Pr_StoreID p \<noteq> None) ''store context requires store_id'') (\<lambda>_.
       chain (principal_requires (Pr_OrgAuthzVersion p \<noteq> None) ''store context requires org_authz_version'') (\<lambda>_.
       principal_requires (Pr_MemberAuthzVersion p \<noteq> None) ''store context requires member_authz_version'')))))))))"

section \<open>Guards\<close>

text \<open>
  A guard looks at the principal of the request (None when the request carries none) and
  either answers with a status, a code and a message, or calls the next handler.
\<close>

type_synonym 'r handler = "principal option \<Rightarrow> (int \<times> string \<times> string) + 'r"

definition with_principal :: "(principal \<Rightarrow> (int \<times> string \<times> string) + 'r) \<Rightarrow> 'r handler" where
  "with_principal k p =
     (case p of None \<Rightarrow> Inl (401, ''ACCESS_TOKEN_MISSING'', ''authentication required'') | Some q \<Rightarrow> k q)"

definition RequireIdentity :: "'r handler \<Rightarrow> 'r handler" where
  "RequireIdentity next_handler = with_principal (\<lambda>p. next_handler (Some p))"

definition RequireOrganizationContext :: "'r handler \<Rightarrow> 'r handler" where
  "RequireOrganizationContext next_handler = with_principal (\<lambda>p.
     if \<not> HasOrganizationScope p then
       Inl (400, ''ORGANIZATION_CONTEXT_REQUIRED'', ''organization context is required for this operation'')
     else next_handler (Some p))"

definition RequireStoreContext :: "'r handler \<Rightarrow> 'r handler" where
  "RequireStoreContext next_handler = with_principal (\<lambda>p.
     if \<not> HasStoreScope p then Inl (400, ''STORE_CONTEXT_REQUIRED'', ''store context is required for this operation'')
     else next_handler (Some p))"

definition RequireAll :: "string list \<Rightarrow> 'r handler \<Rightarrow> 'r handler" where
  "RequireAll scopes next_handler = with_principal (\<lambda>p.
     if \<not> ScopeSet_HasAll (Pr_Scopes p) scopes then Inl (403, ''INSUFFICIENT_SCOPE'', ''insufficient permissions'')
     else next_handler (Some p))"

definition RequireAny :: "string list \<Rightarrow> 'r handler \<Rightarrow> 'r handler" where
  "RequireAny scopes next_handler = with_principal (\<lambda>p.
     if \<not> ScopeSet_HasAny (Pr_Scopes p) scopes then Inl (403, ''INSUFFICIENT_SCOPE'', ''insufficient permissions'')
     else next_handler (Some p))"

lemma with_principal_eq_Inr [result_simps]:
  "with_principal k p = Inr r \<longleftrightarrow> (\<exists>q. p = Some q \<and> k q = Inr r)"
  by (cases p) (auto simp: with_principal_def)

lemma RequireAll_eq_Inr [result_simps]:
  "RequireAll scopes h p = Inr r \<longleftrightarrow> (\<exists>q. p = Some q \<and> set scopes \<subseteq> set (Pr_Scopes q) \<and> h p = Inr r)"
  by (auto simp: RequireAll_def result_simps ScopeSet_HasAll_def ScopeSet_Has_def list_all_iff split: if_splits)

end
