(* ===== verification/Roles.thy ===== *)
theory Roles
  imports Principal Sessions Inventory
begin

text \<open>
  The role service of \<open>internal/roles\<close>: the custom roles of an organization, the scopes they
  grant and the bindings that give them to members. A change writes an audit event, raises the
  authorization version of what it touched and returns, next to the result and the tables,
  the cache entries it invalidates.
\<close>

section \<open>Errors, inputs and responses\<close>

datatype roles_sentinel =
    Roles_ErrAuthorizationEscalation
  | Roles_ErrDependencyUnavailable
  | Roles_ErrInsufficientScope
  | Roles_ErrLastOwnerRequired
  | Roles_ErrMembershipInactive
  | Roles_ErrMembershipNotFound
  | Roles_ErrOrganizationContext
  | Roles_ErrRoleBindingNotFound
  | Roles_ErrRoleInactive
  | Roles_ErrRoleKeyAlreadyInUse
  | Roles_ErrRoleNotFound
  | Roles_ErrScopeNotAssignable
  | Roles_ErrScopeLevelInvalid
  | Roles_ErrStoreNotFound
  | Roles_ErrSystemRoleImmutable

type_synonym roles_error = "roles_sentinel go_error"

text \<open>\<open>fmt.Errorf("%w: text: %w", ErrDependencyUnavailable, err)\<close>\<close>

definition roles_unavailable :: "string \<Rightarrow> roles_error \<Rightarrow> roles_error" where
  "roles_unavailable text e = Joined (Sentinel Roles_ErrDependencyUnavailable) (Wrapped text e)"

definition absent_or :: "roles_error \<Rightarrow> string \<Rightarrow> roles_error \<Rightarrow> roles_error" where
  "absent_or absent text e = (if errors_Is_NoRows e then absent else roles_unavailable text e)"

record upsert_role_input =
  URI_Key :: string
  URI_Name :: string
  URI_Description :: "string option"
  URI_AssignmentScope :: string
  URI_Scopes :: "string list"

record create_binding_input =
  CBI_RoleID :: string
  CBI_StoreID :: "string option"
  CBI_ExpiresAt :: "time option"

record scope_response =
  ScR_Code :: string
  ScR_Resource :: string
  ScR_Action :: string
  ScR_ScopeLevel :: string
  ScR_Description :: string
  ScR_IsAssignable :: bool
  ScR_CreatedAt :: time

record role_response =
  RoR_ID :: string
  RoR_Key :: string
  RoR_Name :: string
  RoR_Description :: "string option"
  RoR_AssignmentScope :: string
  RoR_IsSystem :: bool
  RoR_IsMutable :: bool
  RoR_IsActive :: bool
  RoR_Scopes :: "string list"
  RoR_CreatedAt :: time
  RoR_UpdatedAt :: time

record binding_role_response =
  BRR_ID :: string
  BRR_Key :: string
  BRR_Name :: string
  BRR_AssignmentScope :: string

record binding_store_response =
  BSR_ID :: string
  BSR_Code :: string
  BSR_Name :: string

record binding_response =
  BiR_ID :: string
  BiR_MembershipID :: string
  BiR_Role :: binding_role_response
  BiR_Store :: "binding_store_response option"
  BiR_ExpiresAt :: "time option"
  BiR_CreatedAt :: time

fun scope_level_string :: "permission_scope_level \<Rightarrow> string" where
  "scope_level_string LevelORGANIZATION = ''ORGANIZATION''"
| "scope_level_string LevelSTORE = ''STORE''"

fun assignment_scope_string :: "role_assignment_scope \<Rightarrow> string" where
  "assignment_scope_string AssignORGANIZATION = ''ORGANIZATION''"
| "assignment_scope_string AssignSTORE = ''STORE''"

definition mapScope :: "permission_scope \<Rightarrow> scope_response" where
  "mapScope p = \<lparr>ScR_Code = Scope_Code p, ScR_Resource = Scope_Resource p, ScR_Action = Scope_Action p,
     ScR_ScopeLevel = scope_level_string (Scope_Level p), ScR_Description = Scope_Description p,
     ScR_IsAssignable = Scope_IsAssignable p, ScR_CreatedAt = Scope_CreatedAt p\<rparr>"

definition mapRole :: "env \<Rightarrow> role \<Rightarrow> string list \<Rightarrow> role_response" where
  "mapRole E r scopes = \<lparr>RoR_ID = uuid_String E (Role_ID r), RoR_Key = Role_Key r, RoR_Name = Role_Name r,
     RoR_Description = Role_Description r, RoR_AssignmentScope = assignment_scope_string (Role_AssignmentScope r),
     RoR_IsSystem = Role_IsSystem r, RoR_IsMutable = Role_IsMutable r, RoR_IsActive = Role_IsActive r,
     RoR_Scopes = scopes, RoR_CreatedAt = Role_CreatedAt r, RoR_UpdatedAt = Role_UpdatedAt r\<rparr>"

definition mapBinding ::
    "env \<Rightarrow> uuid \<Rightarrow> uuid \<Rightarrow> role \<Rightarrow> store option \<Rightarrow> time option \<Rightarrow> time \<Rightarrow> binding_response" where
  "mapBinding E bid membershipID r st expiresAt createdAt =
     \<lparr>BiR_ID = uuid_String E bid, BiR_MembershipID = uuid_String E membershipID,
      BiR_Role = \<lparr>BRR_ID = uuid_String E (Role_ID r), BRR_Key = Role_Key r, BRR_Name = Role_Name r,
        BRR_AssignmentScope = assignment_scope_string (Role_AssignmentScope r)\<rparr>,
      BiR_Store = map_option (\<lambda>s. \<lparr>BSR_ID = uuid_String E (Store_ID s), BSR_Code = Store_Code s,
        BSR_Name = Store_Name s\<rparr>) st,
      BiR_ExpiresAt = expiresAt, BiR_CreatedAt = createdAt\<rparr>"

section \<open>Validation\<close>

record normalized_role_input =
  NRI_key :: string
  NRI_name :: string
  NRI_description :: "string option"
  NRI_assignmentScope :: role_assignment_scope
  NRI_scopes :: "string list"

text \<open>The loop over the scope codes, with the codes seen so far.\<close>

fun normalize_scopes :: "string list \<Rightarrow> string list \<Rightarrow> roles_error + string list" where
  "normalize_scopes seen [] = Inr seen"
| "normalize_scopes seen (raw # raws) =
     (let code = strings_TrimSpace raw in
      if code = [] then Inl (ValidationError ''scopes'' ''scope codes must not be blank'')
      else if code \<in> set seen then normalize_scopes seen raws
      else if length code > 100 then Inl (ValidationError ''scopes'' ''scope codes must be at most 100 characters'')
      else normalize_scopes (seen @ [code]) raws)"

text \<open>\<open>sort.Strings\<close>: the order of the bytes.\<close>

definition sort_Strings :: "string list \<Rightarrow> string list" where
  "sort_Strings = sort_key (map (of_char :: char \<Rightarrow> nat))"

definition parse_assignment_scope :: "string \<Rightarrow> role_assignment_scope option" where
  "parse_assignment_scope s =
     (if s = ''ORGANIZATION'' then Some AssignORGANIZATION else if s = ''STORE'' then Some AssignSTORE else None)"

definition normalizeRoleInput :: "env \<Rightarrow> upsert_role_input \<Rightarrow> roles_error + normalized_role_input" where
  "normalizeRoleInput E input =
     (let key = strings_ToLower (unicode_lower E) (strings_TrimSpace (URI_Key input)) in
      chain (guard_error (key \<noteq> []) (ValidationError ''key'' ''is required'')) (\<lambda>_.
      chain (guard_error (\<not> (length key > 80 \<or> \<not> role_key_format key))
              (ValidationError ''key'' ''must be at most 80 characters in lowercase snake_case'')) (\<lambda>_.
      let name = strings_TrimSpace (URI_Name input) in
      chain (guard_error (name \<noteq> []) (ValidationError ''name'' ''is required'')) (\<lambda>_.
      chain (guard_error (\<not> length name > 120) (ValidationError ''name'' ''must be at most 120 characters'')) (\<lambda>_.
      let description = map_option strings_TrimSpace (URI_Description input) in
      chain (guard_error (case description of None \<Rightarrow> True | Some v \<Rightarrow> \<not> length v > 255)
              (ValidationError ''description'' ''must be at most 255 characters'')) (\<lambda>_.
      chain (case parse_assignment_scope (strings_ToUpper (unicode_upper E) (strings_TrimSpace (URI_AssignmentScope input))) of
               None \<Rightarrow> Inl (ValidationError ''assignmentScope'' ''must be ORGANIZATION or STORE'')
             | Some a \<Rightarrow> Inr a) (\<lambda>assignmentScope.
      chain (normalize_scopes [] (URI_Scopes input)) (\<lambda>scopes.
      Inr \<lparr>NRI_key = key, NRI_name = name,
           NRI_description = (if description = Some [] then None else description),
           NRI_assignmentScope = assignmentScope, NRI_scopes = sort_Strings scopes\<rparr>))))))))"

text \<open>The null UUID is refused.\<close>

definition roles_parseUUID :: "env \<Rightarrow> string \<Rightarrow> string \<Rightarrow> roles_error + uuid" where
  "roles_parseUUID E raw field =
     (case uuid_Scan E (strings_TrimSpace raw) of
        None \<Rightarrow> Inl (ValidationError field ''must be a valid UUID'')
      | Some u \<Rightarrow> if u = 0 then Inl (ValidationError field ''must be a valid UUID'') else Inr u)"

definition optionalUUID :: "env \<Rightarrow> string option \<Rightarrow> string \<Rightarrow> roles_error + uuid option" where
  "optionalUUID E raw field =
     (case raw of None \<Rightarrow> Inr None | Some t \<Rightarrow> chain (roles_parseUUID E t field) (\<lambda>u. Inr (Some u)))"

definition normalizeExpiration :: "time option \<Rightarrow> time \<Rightarrow> roles_error + time option" where
  "normalizeExpiration t now =
     (case t of None \<Rightarrow> Inr None
      | Some expiresAt \<Rightarrow>
          if \<not> expiresAt > now then Inl (ValidationError ''expiresAt'' ''must be in the future'')
          else Inr (Some expiresAt))"

section \<open>The service\<close>

text \<open>Whether the service has a cache to invalidate, and \<open>netip.ParseAddr\<close>.\<close>

record roles_service =
  rsv_invalidator :: bool
  rsv_ParseAddr :: "string \<Rightarrow> string option"

datatype cache_invalidation =
    InvalidateSession uuid
  | InvalidateOrganizationAuthorizationVersion uuid
  | InvalidateMembershipAuthorizationVersion uuid

definition invalidate :: "bool \<Rightarrow> uuid list \<Rightarrow> cache_invalidation \<Rightarrow> cache_invalidation list" where
  "invalidate configured sessionIDs version =
     (if configured then map InvalidateSession sessionIDs @ [version] else [])"

text \<open>Returns the organization and the membership of the actor.\<close>

definition requireActorScope :: "principal \<Rightarrow> string \<Rightarrow> roles_error + uuid \<times> uuid" where
  "requireActorScope actor scope =
     (case (Pr_OrganizationID actor, Pr_MembershipID actor, Pr_UserID actor, Pr_SessionID actor) of
        (Some orgID, Some memID, Some _, Some _) \<Rightarrow>
          if \<not> HasOrganizationScope actor then Inl (Sentinel Roles_ErrOrganizationContext)
          else if \<not> ScopeSet_HasAll (Pr_Scopes actor) [scope] then Inl (Sentinel Roles_ErrInsufficientScope)
          else Inr (orgID, memID)
      | _ \<Rightarrow> Inl (Sentinel Roles_ErrOrganizationContext))"

text \<open>The writer of \<open>internal/audit\<close> refuses an event without a type.\<close>

definition audit_Write ::
    "env \<Rightarrow> time \<Rightarrow> create_audit_params \<Rightarrow> auth_db \<Rightarrow> 's go_error + auth_db" where
  "audit_Write E txnow P d =
     (if CA_EventType P = [] then Inl (Wrapped ''audit: write failed'' (OtherError ''event_type is required''))
      else chain (wrap_error ''audit: write failed'' (CreateAuditEvent E txnow P d)) (\<lambda>(_, d'). Inr d'))"

definition roles_writeAudit ::
    "env \<Rightarrow> roles_service \<Rightarrow> time \<Rightarrow> request_meta \<Rightarrow> principal \<Rightarrow> string \<Rightarrow> string \<Rightarrow> uuid \<Rightarrow>
     (string \<times> metadata_value) list \<Rightarrow> auth_db \<Rightarrow> roles_error + auth_db" where
  "roles_writeAudit E S txnow M actor eventType entityType entityID metadata d =
     on_error (roles_unavailable ''write audit event'') (audit_Write E txnow
       \<lparr>CA_OrganizationID = Pr_OrganizationID actor, CA_StoreID = Pr_StoreID actor,
        CA_ActorUserID = Pr_UserID actor, CA_ActorMembershipID = Pr_MembershipID actor,
        CA_SessionID = Pr_SessionID actor, CA_EventType = eventType, CA_EntityType = Some entityType,
        CA_EntityID = Some entityID,
        CA_RequestID = (if RM_RequestID M = [] then None else Some (RM_RequestID M)),
        CA_IpAddress = rsv_ParseAddr S (RM_ClientIP M),
        CA_UserAgent = (if RM_UserAgent M = [] then None else Some (RM_UserAgent M)),
        CA_Outcome = AuditSUCCESS, CA_Metadata = metadata\<rparr> d)"

definition translatePersistenceError :: "roles_error \<Rightarrow> roles_error" where
  "translatePersistenceError e =
     (if errors_Is_NoRows e then Sentinel Roles_ErrRoleNotFound
      else case errors_As_Pg e of
        Some (_, c) \<Rightarrow>
          if c = ''roles_organization_id_key_unique'' then Sentinel Roles_ErrRoleKeyAlreadyInUse
          else if c = ''roles_immutable_update'' \<or> c = ''roles_system_designation_immutable''
          then Sentinel Roles_ErrSystemRoleImmutable
          else if c = ''role_scopes_assignment_scope_check'' then Sentinel Roles_ErrScopeLevelInvalid
          else if c = ''role_scopes_assignable_check'' then Sentinel Roles_ErrScopeNotAssignable
          else if c = ''role_binding_store_required'' then ValidationError ''storeId'' ''is required for a store role''
          else if c = ''role_binding_store_forbidden''
          then ValidationError ''storeId'' ''must be null for an organization role''
          else if c = ''owner_binding_expiration_forbidden''
          then ValidationError ''expiresAt'' ''owner binding cannot expire''
          else roles_unavailable ''database operation'' e
      | None \<Rightarrow> roles_unavailable ''database operation'' e)"

section \<open>What an actor may grant\<close>

definition ensureGrantSubset ::
    "env \<Rightarrow> time \<Rightarrow> uuid \<Rightarrow> uuid \<Rightarrow> string list \<Rightarrow> auth_db \<Rightarrow> roles_error + unit" where
  "ensureGrantSubset E txnow orgID memID requested d =
     (let granted = ResolveActorGrantScopes E txnow orgID memID d in
      case List.find (\<lambda>code. code \<notin> set granted) requested of
        Some code \<Rightarrow> Inl (Joined (Sentinel Roles_ErrAuthorizationEscalation) (OtherError (''actor cannot grant '' @ code)))
      | None \<Rightarrow> Inr ())"

definition role_scope_row_ok :: "role_assignment_scope \<Rightarrow> permission_scope \<Rightarrow> roles_error + unit" where
  "role_scope_row_ok assignmentScope p =
     (if \<not> Scope_IsAssignable p then Inl (Joined (Sentinel Roles_ErrScopeNotAssignable) (OtherError (Scope_Code p)))
      else if assignmentScope = AssignSTORE \<and> Scope_Level p \<noteq> LevelSTORE
      then Inl (Joined (Sentinel Roles_ErrScopeLevelInvalid) (OtherError (''store role cannot contain '' @ Scope_Code p)))
      else Inr ())"

definition validateRoleScopes ::
    "env \<Rightarrow> time \<Rightarrow> uuid \<Rightarrow> uuid \<Rightarrow> role_assignment_scope \<Rightarrow> string list \<Rightarrow> auth_db \<Rightarrow> roles_error + unit" where
  "validateRoleScopes E txnow orgID memID assignmentScope scopeCodes d =
     (let rows = GetPermissionScopesByCodes E scopeCodes d in
      chain (guard_error (length rows = length scopeCodes)
              (ValidationError ''scopes'' ''contains an unknown scope code'')) (\<lambda>_.
      chain (map_result (role_scope_row_ok assignmentScope) rows) (\<lambda>_.
      ensureGrantSubset E txnow orgID memID scopeCodes d)))"

section \<open>Roles\<close>

text \<open>What ends the transaction of a role change: version, affected sessions, audit event.\<close>

definition organization_changed ::
    "env \<Rightarrow> roles_service \<Rightarrow> time \<Rightarrow> request_meta \<Rightarrow> principal \<Rightarrow> uuid \<Rightarrow> string \<Rightarrow> uuid \<Rightarrow>
     (string \<times> metadata_value) list \<Rightarrow> auth_db \<Rightarrow> roles_error + uuid list \<times> auth_db" where
  "organization_changed E S txnow M actor orgID eventType roleID metadata d =
     chain (on_error (roles_unavailable ''increment organization authorization version'')
             (IncrementOrganizationAuthorizationVersion txnow orgID d)) (\<lambda>(_, d1).
     chain (roles_writeAudit E S txnow M actor eventType ''role'' roleID metadata d1) (\<lambda>d2.
     Inr (ListSessionIDsForOrganization orgID d1, d2)))"

text \<open>The transaction, and the invalidations after its commit.\<close>

definition roles_commit ::
    "roles_service \<Rightarrow> txn \<Rightarrow> string \<Rightarrow> cache_invalidation \<Rightarrow>
     (auth_db \<Rightarrow> roles_error + ('a \<times> uuid list) \<times> auth_db) \<Rightarrow> auth_db \<Rightarrow>
     (roles_error + 'a) \<times> auth_db \<times> cache_invalidation list" where
  "roles_commit S T text version fn d =
     (case Auth_WithTx T fn d of
        (Inl e, d') \<Rightarrow> (Inl (Wrapped text e), d', [])
      | (Inr (r, sessionIDs), d') \<Rightarrow> (Inr r, d', invalidate (rsv_invalidator S) sessionIDs version))"

definition create_role_params_of :: "uuid \<Rightarrow> uuid \<Rightarrow> normalized_role_input \<Rightarrow> create_role_params" where
  "create_role_params_of orgID memID n =
     \<lparr>CR_OrganizationID = orgID, CR_Key = NRI_key n, CR_Name = NRI_name n, CR_Description = NRI_description n,
      CR_AssignmentScope = NRI_assignmentScope n, CR_IsSystem = False, CR_IsMutable = True,
      CR_CreatedByMembershipID = Some memID\<rparr>"

definition create_role_tx ::
    "env \<Rightarrow> roles_service \<Rightarrow> time \<Rightarrow> request_meta \<Rightarrow> principal \<Rightarrow> uuid \<Rightarrow> uuid \<Rightarrow> normalized_role_input \<Rightarrow> auth_db \<Rightarrow>
     roles_error + (role_response \<times> uuid list) \<times> auth_db" where
  "create_role_tx E S txnow M actor orgID memID n d =
     chain (validateRoleScopes E txnow orgID memID (NRI_assignmentScope n) (NRI_scopes n) d) (\<lambda>_.
     chain (on_error translatePersistenceError
             (CreateRole_row E txnow (create_role_params_of orgID memID n) d)) (\<lambda>(r, d1).
     chain (on_error translatePersistenceError
             (ReplaceRoleScopes E txnow orgID (Role_ID r) (NRI_scopes n) d1)) (\<lambda>(_, d2).
     chain (organization_changed E S txnow M actor orgID ''role.created'' (Role_ID r)
              [(''key'', MetaText (Role_Key r)),
               (''assignment_scope'', MetaText (assignment_scope_string (Role_AssignmentScope r))),
               (''scope_count'', MetaInt (int (length (NRI_scopes n))))] d2) (\<lambda>(sessionIDs, d3).
     Inr ((mapRole E r (NRI_scopes n), sessionIDs), d3)))))"

definition CreateRole ::
    "env \<Rightarrow> roles_service \<Rightarrow> txn \<Rightarrow> request_meta \<Rightarrow> principal \<Rightarrow> upsert_role_input \<Rightarrow> auth_db \<Rightarrow>
     (roles_error + role_response) \<times> auth_db \<times> cache_invalidation list" where
  "CreateRole E S T M actor input d =
     (case chain (requireActorScope actor ''roles.create'') (\<lambda>ids.
           chain (normalizeRoleInput E input) (\<lambda>n. Inr (ids, n))) of
        Inl e \<Rightarrow> (Inl e, d, [])
      | Inr ((orgID, memID), n) \<Rightarrow>
          roles_commit S T ''create role transaction'' (InvalidateOrganizationAuthorizationVersion orgID)
            (create_role_tx E S (tx_now T) M actor orgID memID n) d)"

definition get_role :: "env \<Rightarrow> uuid \<Rightarrow> uuid \<Rightarrow> auth_db \<Rightarrow> roles_error + role_with_scopes" where
  "get_role E orgID roleID d =
     on_error (absent_or (Sentinel Roles_ErrRoleNotFound) ''get role'') (GetRoleWithScopesForOrganization E orgID roleID d)"

text \<open>Lock the role, and read it again.\<close>

definition lock_and_reload ::
    "env \<Rightarrow> roles_sentinel \<Rightarrow> uuid \<Rightarrow> uuid \<Rightarrow> auth_db \<Rightarrow> roles_error + role_with_scopes" where
  "lock_and_reload E absent orgID roleID d =
     chain (on_error (absent_or (Sentinel absent) ''lock role'') (LockRoleForScopeChange orgID roleID d)) (\<lambda>_.
     on_error (roles_unavailable ''reload locked role'') (GetRoleWithScopesForOrganization E orgID roleID d))"

definition update_role_tx ::
    "env \<Rightarrow> roles_service \<Rightarrow> time \<Rightarrow> request_meta \<Rightarrow> principal \<Rightarrow> uuid \<Rightarrow> uuid \<Rightarrow> uuid \<Rightarrow> normalized_role_input \<Rightarrow> auth_db \<Rightarrow>
     roles_error + (role_response \<times> uuid list) \<times> auth_db" where
  "update_role_tx E S txnow M actor orgID memID roleID n d =
     chain (get_role E orgID roleID d) (\<lambda>(current, _).
     chain (guard_error (\<not> (Role_IsSystem current \<or> \<not> Role_IsMutable current))
             (Sentinel Roles_ErrSystemRoleImmutable)) (\<lambda>_.
     chain (guard_error (NRI_key n = Role_Key current)
             (ValidationError ''key'' ''cannot be changed after role creation'')) (\<lambda>_.
     chain (guard_error (NRI_assignmentScope n = Role_AssignmentScope current)
             (ValidationError ''assignmentScope'' ''cannot be changed after role creation'')) (\<lambda>_.
     chain (lock_and_reload E Roles_ErrSystemRoleImmutable orgID roleID d) (\<lambda>(current, codes).
     chain (validateRoleScopes E txnow orgID memID (Role_AssignmentScope current) (NRI_scopes n) d) (\<lambda>_.
     if Role_Name current = NRI_name n \<and> Role_Description current = NRI_description n \<and> codes = NRI_scopes n
     then Inr ((mapRole E current codes, []), d)
     else
       chain (on_error translatePersistenceError
               (UpdateRole_row txnow (NRI_name n) (NRI_description n) orgID roleID d)) (\<lambda>(updated, d1).
       chain (on_error translatePersistenceError
               (ReplaceRoleScopes E txnow orgID roleID (NRI_scopes n) d1)) (\<lambda>(_, d2).
       chain (organization_changed E S txnow M actor orgID ''role.updated'' roleID
                [(''key'', MetaText (Role_Key current)),
                 (''previous_scope_count'', MetaInt (int (length codes))),
                 (''scope_count'', MetaInt (int (length (NRI_scopes n))))] d2) (\<lambda>(sessionIDs, d3).
       Inr ((mapRole E updated (NRI_scopes n), sessionIDs), d3))))))))))"

definition UpdateRole ::
    "env \<Rightarrow> roles_service \<Rightarrow> txn \<Rightarrow> request_meta \<Rightarrow> principal \<Rightarrow> string \<Rightarrow> upsert_role_input \<Rightarrow> auth_db \<Rightarrow>
     (roles_error + role_response) \<times> auth_db \<times> cache_invalidation list" where
  "UpdateRole E S T M actor rawRoleID input d =
     (case chain (requireActorScope actor ''roles.update'') (\<lambda>ids.
           chain (roles_parseUUID E rawRoleID ''roleId'') (\<lambda>roleID.
           chain (normalizeRoleInput E input) (\<lambda>n. Inr (ids, roleID, n)))) of
        Inl e \<Rightarrow> (Inl e, d, [])
      | Inr ((orgID, memID), roleID, n) \<Rightarrow>
          roles_commit S T ''update role transaction'' (InvalidateOrganizationAuthorizationVersion orgID)
            (update_role_tx E S (tx_now T) M actor orgID memID roleID n) d)"

definition set_role_active_tx ::
    "env \<Rightarrow> roles_service \<Rightarrow> time \<Rightarrow> request_meta \<Rightarrow> principal \<Rightarrow> uuid \<Rightarrow> uuid \<Rightarrow> uuid \<Rightarrow> bool \<Rightarrow> auth_db \<Rightarrow>
     roles_error + (role_response \<times> uuid list) \<times> auth_db" where
  "set_role_active_tx E S txnow M actor orgID memID roleID active d =
     chain (get_role E orgID roleID d) (\<lambda>(current, _).
     chain (guard_error (\<not> (Role_IsSystem current \<or> \<not> Role_IsMutable current))
             (Sentinel Roles_ErrSystemRoleImmutable)) (\<lambda>_.
     chain (lock_and_reload E Roles_ErrSystemRoleImmutable orgID roleID d) (\<lambda>(current, codes).
     if Role_IsActive current = active then Inr ((mapRole E current codes, []), d)
     else
       chain (if active then ensureGrantSubset E txnow orgID memID codes d else Inr ()) (\<lambda>_.
       chain (on_error translatePersistenceError (UpdateRoleStatus txnow active orgID roleID d)) (\<lambda>(updated, d1).
       chain (organization_changed E S txnow M actor orgID ''role.status_changed'' roleID
                [(''key'', MetaText (Role_Key current)),
                 (''previous_active'', MetaBool (Role_IsActive current)),
                 (''active'', MetaBool active)] d1) (\<lambda>(sessionIDs, d2).
       Inr ((mapRole E updated codes, sessionIDs), d2)))))))"

definition setRoleActive ::
    "env \<Rightarrow> roles_service \<Rightarrow> txn \<Rightarrow> request_meta \<Rightarrow> principal \<Rightarrow> string \<Rightarrow> bool \<Rightarrow> auth_db \<Rightarrow>
     (roles_error + role_response) \<times> auth_db \<times> cache_invalidation list" where
  "setRoleActive E S T M actor rawRoleID active d =
     (case chain (requireActorScope actor ''roles.status.update'') (\<lambda>ids.
           chain (roles_parseUUID E rawRoleID ''roleId'') (\<lambda>roleID. Inr (ids, roleID))) of
        Inl e \<Rightarrow> (Inl e, d, [])
      | Inr ((orgID, memID), roleID) \<Rightarrow>
          roles_commit S T ''update role status transaction'' (InvalidateOrganizationAuthorizationVersion orgID)
            (set_role_active_tx E S (tx_now T) M actor orgID memID roleID active) d)"

definition ActivateRole ::
    "env \<Rightarrow> roles_service \<Rightarrow> txn \<Rightarrow> request_meta \<Rightarrow> principal \<Rightarrow> string \<Rightarrow> auth_db \<Rightarrow>
     (roles_error + role_response) \<times> auth_db \<times> cache_invalidation list" where
  "ActivateRole E S T M actor rawRoleID = setRoleActive E S T M actor rawRoleID True"

definition DeactivateRole ::
    "env \<Rightarrow> roles_service \<Rightarrow> txn \<Rightarrow> request_meta \<Rightarrow> principal \<Rightarrow> string \<Rightarrow> auth_db \<Rightarrow>
     (roles_error + role_response) \<times> auth_db \<times> cache_invalidation list" where
  "DeactivateRole E S T M actor rawRoleID = setRoleActive E S T M actor rawRoleID False"

section \<open>Bindings\<close>

definition findBinding ::
    "env \<Rightarrow> uuid \<Rightarrow> uuid \<Rightarrow> uuid \<Rightarrow> uuid option \<Rightarrow> auth_db \<Rightarrow> member_binding_row option" where
  "findBinding E orgID membershipID roleID storeID d =
     List.find (\<lambda>(b, _, _). Bind_RoleID b = roleID \<and> Bind_StoreID b = storeID)
       (ListMemberRoleBindings E orgID membershipID d)"

definition nullable_uuid :: "env \<Rightarrow> uuid option \<Rightarrow> metadata_value" where
  "nullable_uuid E u = (case u of None \<Rightarrow> MetaNull | Some i \<Rightarrow> MetaText (uuid_String E i))"

text \<open>What ends the transaction of a binding change.\<close>

definition membership_changed ::
    "env \<Rightarrow> roles_service \<Rightarrow> time \<Rightarrow> request_meta \<Rightarrow> principal \<Rightarrow> uuid \<Rightarrow> uuid \<Rightarrow> string \<Rightarrow> uuid \<Rightarrow>
     (string \<times> metadata_value) list \<Rightarrow> auth_db \<Rightarrow> roles_error + uuid list \<times> auth_db" where
  "membership_changed E S txnow M actor orgID membershipID eventType bindingID metadata d =
     chain (on_error (roles_unavailable ''increment membership authorization version'')
             (IncrementMembershipAuthorizationVersion txnow orgID membershipID d)) (\<lambda>(_, d1).
     chain (roles_writeAudit E S txnow M actor eventType ''role_binding'' bindingID metadata d1) (\<lambda>d2.
     Inr (ListSessionIDsForMembership orgID membershipID d1, d2)))"

text \<open>The role to bind: active, and locked and read again when it can change.\<close>

definition role_to_bind :: "env \<Rightarrow> uuid \<Rightarrow> uuid \<Rightarrow> auth_db \<Rightarrow> roles_error + role_with_scopes" where
  "role_to_bind E orgID roleID d =
     chain (get_role E orgID roleID d) (\<lambda>(r, codes).
     chain (guard_error (Role_IsActive r) (Sentinel Roles_ErrRoleInactive)) (\<lambda>_.
     if Role_IsMutable r then
       chain (lock_and_reload E Roles_ErrRoleNotFound orgID roleID d) (\<lambda>(r, codes).
       chain (guard_error (Role_IsActive r) (Sentinel Roles_ErrRoleInactive)) (\<lambda>_.
       Inr (r, codes)))
     else Inr (r, codes)))"

text \<open>What the actor, the role and the request must agree on.\<close>

definition binding_allowed ::
    "principal \<Rightarrow> role \<Rightarrow> uuid option \<Rightarrow> time option \<Rightarrow> roles_error + unit" where
  "binding_allowed actor r storeID expiresAt =
     chain (if Role_Key r = ''owner'' \<and> Role_IsSystem r then
              chain (guard_error (ScopeSet_Has (Pr_Scopes actor) ''organization.owners.manage'')
                      (Sentinel Roles_ErrInsufficientScope)) (\<lambda>_.
              guard_error (expiresAt = None) (ValidationError ''expiresAt'' ''owner binding cannot expire''))
            else Inr ()) (\<lambda>_.
     chain (guard_error (\<not> (Role_AssignmentScope r = AssignSTORE \<and> storeID = None))
             (ValidationError ''storeId'' ''is required for a store role'')) (\<lambda>_.
     guard_error (\<not> (Role_AssignmentScope r = AssignORGANIZATION \<and> storeID \<noteq> None))
       (ValidationError ''storeId'' ''must be null for an organization role'')))"

definition target_store :: "uuid \<Rightarrow> uuid option \<Rightarrow> auth_db \<Rightarrow> roles_error + store option" where
  "target_store orgID storeID d =
     (case storeID of None \<Rightarrow> Inr None
      | Some i \<Rightarrow> chain (on_error (absent_or (Sentinel Roles_ErrStoreNotFound) ''get store'')
                         (GetStoreForOrganization orgID i d)) (\<lambda>st. Inr (Some st)))"

definition create_binding_tx ::
    "env \<Rightarrow> roles_service \<Rightarrow> time \<Rightarrow> request_meta \<Rightarrow> principal \<Rightarrow> uuid \<Rightarrow> uuid \<Rightarrow> uuid \<Rightarrow> uuid \<Rightarrow> uuid option \<Rightarrow> time option \<Rightarrow>
     auth_db \<Rightarrow> roles_error + ((binding_response \<times> bool) \<times> uuid list) \<times> auth_db" where
  "create_binding_tx E S txnow M actor orgID memID membershipID roleID storeID expiresAt d =
     chain (on_error (absent_or (Sentinel Roles_ErrMembershipNotFound) ''get membership'')
             (GetMembershipForUpdate orgID membershipID d)) (\<lambda>m.
     chain (guard_error (Mem_Status m = MemACTIVE) (Sentinel Roles_ErrMembershipInactive)) (\<lambda>_.
     chain (role_to_bind E orgID roleID d) (\<lambda>(r, codes).
     chain (binding_allowed actor r storeID expiresAt) (\<lambda>_.
     chain (target_store orgID storeID d) (\<lambda>targetStore.
     chain (ensureGrantSubset E txnow orgID memID codes d) (\<lambda>_.
     let existing = findBinding E orgID membershipID roleID storeID d;
         perform =
           chain (on_error translatePersistenceError (CreateRoleBinding E txnow
             \<lparr>CB_OrganizationID = orgID, CB_MembershipID = membershipID, CB_RoleID = roleID,
              CB_CreatedByMembershipID = memID, CB_ExpiresAt = expiresAt, CB_StoreID = storeID\<rparr> d)) (\<lambda>(b, d1).
           chain (membership_changed E S txnow M actor orgID membershipID ''role.binding_added'' (Bind_ID b)
                    [(''membership_id'', MetaText (uuid_String E membershipID)),
                     (''role_id'', MetaText (uuid_String E roleID)), (''role_key'', MetaText (Role_Key r)),
                     (''store_id'', nullable_uuid E storeID), (''replaced'', MetaBool (existing \<noteq> None))] d1)
             (\<lambda>(sessionIDs, d2).
           Inr (((mapBinding E (Bind_ID b) membershipID r targetStore (Bind_ExpiresAt b) (Bind_CreatedAt b),
                  existing = None), sessionIDs), d2)))
     in case existing of
          Some (b, _, _) \<Rightarrow>
            if Bind_ExpiresAt b = expiresAt then
              Inr (((mapBinding E (Bind_ID b) membershipID r targetStore (Bind_ExpiresAt b) (Bind_CreatedAt b), False),
                    []), d)
            else perform
        | None \<Rightarrow> perform))))))"

definition CreateBinding ::
    "env \<Rightarrow> roles_service \<Rightarrow> txn \<Rightarrow> time \<Rightarrow> request_meta \<Rightarrow> principal \<Rightarrow> string \<Rightarrow> create_binding_input \<Rightarrow> auth_db \<Rightarrow>
     (roles_error + binding_response \<times> bool) \<times> auth_db \<times> cache_invalidation list" where
  "CreateBinding E S T now M actor rawMembershipID input d =
     (case chain (requireActorScope actor ''roles.assign'') (\<lambda>ids.
           chain (roles_parseUUID E rawMembershipID ''membershipId'') (\<lambda>membershipID.
           chain (roles_parseUUID E (CBI_RoleID input) ''roleId'') (\<lambda>roleID.
           chain (optionalUUID E (CBI_StoreID input) ''storeId'') (\<lambda>storeID.
           chain (normalizeExpiration (CBI_ExpiresAt input) now) (\<lambda>expiresAt.
           Inr (ids, membershipID, roleID, storeID, expiresAt)))))) of
        Inl e \<Rightarrow> (Inl e, d, [])
      | Inr ((orgID, memID), membershipID, roleID, storeID, expiresAt) \<Rightarrow>
          roles_commit S T ''create role binding transaction'' (InvalidateMembershipAuthorizationVersion membershipID)
            (create_binding_tx E S (tx_now T) M actor orgID memID membershipID roleID storeID expiresAt) d)"

definition owner_may_leave ::
    "time \<Rightarrow> time \<Rightarrow> principal \<Rightarrow> uuid \<Rightarrow> membership \<Rightarrow> role_binding \<Rightarrow> role \<Rightarrow> auth_db \<Rightarrow> roles_error + unit" where
  "owner_may_leave txnow now actor orgID m b r d =
     (if Role_Key r = ''owner'' \<and> Role_IsSystem r then
        chain (guard_error (ScopeSet_Has (Pr_Scopes actor) ''organization.owners.manage'')
                (Sentinel Roles_ErrInsufficientScope)) (\<lambda>_.
        let ownerCount = CountActiveOwnersForUpdate txnow orgID d;
            contributesOwner = (Mem_Status m = MemACTIVE \<and> Role_IsActive r \<and> unexpired now (Bind_ExpiresAt b))
        in guard_error (\<not> (contributesOwner \<and> ownerCount \<le> 1)) (Sentinel Roles_ErrLastOwnerRequired))
      else Inr ())"

definition delete_binding_tx ::
    "env \<Rightarrow> roles_service \<Rightarrow> time \<Rightarrow> time \<Rightarrow> request_meta \<Rightarrow> principal \<Rightarrow> uuid \<Rightarrow> uuid \<Rightarrow> uuid \<Rightarrow> auth_db \<Rightarrow>
     roles_error + (unit \<times> uuid list) \<times> auth_db" where
  "delete_binding_tx E S txnow now M actor orgID membershipID bindingID d =
     chain (on_error (roles_unavailable ''lock organization'') (LockOrganizationForOwnerChange orgID d)) (\<lambda>_.
     chain (on_error (absent_or (Sentinel Roles_ErrMembershipNotFound) ''get membership'')
             (GetMembershipForUpdate orgID membershipID d)) (\<lambda>m.
     chain (on_error (absent_or (Sentinel Roles_ErrRoleBindingNotFound) ''get role binding'')
             (GetRoleBindingForOrganization orgID membershipID bindingID d)) (\<lambda>(b, r).
     chain (owner_may_leave txnow now actor orgID m b r d) (\<lambda>_.
     chain (on_error (\<lambda>e. if errors_Is_NoRows e then Sentinel Roles_ErrRoleBindingNotFound else translatePersistenceError e)
             (DeleteRoleBinding orgID membershipID bindingID d)) (\<lambda>(deleted, d1).
     chain (membership_changed E S txnow M actor orgID membershipID ''role.binding_removed'' (Bind_ID deleted)
              [(''membership_id'', MetaText (uuid_String E membershipID)),
               (''role_id'', MetaText (uuid_String E (Bind_RoleID deleted))), (''role_key'', MetaText (Role_Key r)),
               (''store_id'', nullable_uuid E (Bind_StoreID deleted))] d1) (\<lambda>(sessionIDs, d2).
     Inr (((), sessionIDs), d2)))))))"

definition DeleteBinding ::
    "env \<Rightarrow> roles_service \<Rightarrow> txn \<Rightarrow> time \<Rightarrow> request_meta \<Rightarrow> principal \<Rightarrow> string \<Rightarrow> string \<Rightarrow> auth_db \<Rightarrow>
     (roles_error + unit) \<times> auth_db \<times> cache_invalidation list" where
  "DeleteBinding E S T now M actor rawMembershipID rawBindingID d =
     (case chain (requireActorScope actor ''roles.assign'') (\<lambda>ids.
           chain (roles_parseUUID E rawMembershipID ''membershipId'') (\<lambda>membershipID.
           chain (roles_parseUUID E rawBindingID ''bindingId'') (\<lambda>bindingID. Inr (ids, membershipID, bindingID)))) of
        Inl e \<Rightarrow> (Inl e, d, [])
      | Inr ((orgID, memID), membershipID, bindingID) \<Rightarrow>
          roles_commit S T ''delete role binding transaction'' (InvalidateMembershipAuthorizationVersion membershipID)
            (delete_binding_tx E S (tx_now T) now M actor orgID membershipID bindingID) d)"

section \<open>Reads\<close>

definition ListScopes :: "env \<Rightarrow> principal \<Rightarrow> auth_db \<Rightarrow> roles_error + scope_response list" where
  "ListScopes E actor d =
     chain (requireActorScope actor ''scopes.read'') (\<lambda>_. Inr (map mapScope (ListPermissionScopes E d)))"

definition ListRoles :: "env \<Rightarrow> principal \<Rightarrow> auth_db \<Rightarrow> roles_error + role_response list" where
  "ListRoles E actor d =
     chain (requireActorScope actor ''roles.read'') (\<lambda>(orgID, _).
     Inr (map (\<lambda>(r, codes). mapRole E r codes) (ListRolesWithScopes E orgID d)))"

definition GetRole :: "env \<Rightarrow> principal \<Rightarrow> string \<Rightarrow> auth_db \<Rightarrow> roles_error + role_response" where
  "GetRole E actor rawRoleID d =
     chain (requireActorScope actor ''roles.read'') (\<lambda>(orgID, _).
     chain (roles_parseUUID E rawRoleID ''roleId'') (\<lambda>roleID.
     chain (get_role E orgID roleID d) (\<lambda>(r, codes). Inr (mapRole E r codes))))"

section \<open>Responses to errors\<close>

definition roles_sentinel_response :: "roles_error \<Rightarrow> http_response" where
  "roles_sentinel_response e =
     (if errors_Is e Roles_ErrOrganizationContext
      then (400, ''ORGANIZATION_CONTEXT_REQUIRED'', ''Organization context is required.'', [])
      else if errors_Is e Roles_ErrInsufficientScope \<or> errors_Is e Roles_ErrAuthorizationEscalation
      then (403, ''INSUFFICIENT_SCOPE'', ''You do not have permission to perform this action.'', [])
      else if errors_Is e Roles_ErrRoleNotFound then (404, ''ROLE_NOT_FOUND'', ''Role not found.'', [])
      else if errors_Is e Roles_ErrMembershipNotFound then (404, ''MEMBERSHIP_NOT_FOUND'', ''Membership not found.'', [])
      else if errors_Is e Roles_ErrStoreNotFound then (404, ''STORE_NOT_FOUND'', ''Store not found.'', [])
      else if errors_Is e Roles_ErrRoleBindingNotFound
      then (404, ''ROLE_BINDING_NOT_FOUND'', ''Role binding not found.'', [])
      else if errors_Is e Roles_ErrRoleKeyAlreadyInUse
      then (409, ''ROLE_KEY_ALREADY_IN_USE'', ''A role with this key already exists.'', ''key'')
      else if errors_Is e Roles_ErrLastOwnerRequired
      then (409, ''LAST_OWNER_REQUIRED'', ''The organization must retain at least one active owner.'', [])
      else if errors_Is e Roles_ErrSystemRoleImmutable
      then (409, ''SYSTEM_ROLE_IMMUTABLE'', ''System roles cannot be changed.'', [])
      else if errors_Is e Roles_ErrScopeLevelInvalid
      then (422, ''ROLE_SCOPE_LEVEL_INVALID'', ''The scope level is incompatible with the role.'', ''scopes'')
      else if errors_Is e Roles_ErrScopeNotAssignable
      then (422, ''SCOPE_NOT_ASSIGNABLE'', ''The scope cannot be assigned to a custom role.'', ''scopes'')
      else if errors_Is e Roles_ErrMembershipInactive
      then (422, ''VALIDATION_ERROR'', ''The membership must be active.'', ''membershipId'')
      else if errors_Is e Roles_ErrRoleInactive
      then (422, ''VALIDATION_ERROR'', ''The role must be active.'', ''roleId'')
      else if errors_Is e Roles_ErrDependencyUnavailable
      then (503, ''AUTH_DEPENDENCY_UNAVAILABLE'', ''Authorization service is unavailable.'', [])
      else (500, ''INTERNAL_SERVER_ERROR'', ''An unexpected error occurred.'', []))"

definition roles_writeError :: "roles_error \<Rightarrow> http_response" where
  "roles_writeError e =
     (case errors_As_Validation e of
        Some (field, msg) \<Rightarrow>
          (422, if field = ''storeId'' \<and> msg = ''is required for a store role'' then ''ROLE_BINDING_STORE_REQUIRED''
                else if field = ''storeId'' \<and> msg = ''must be null for an organization role''
                then ''ROLE_BINDING_STORE_FORBIDDEN''
                else ''VALIDATION_ERROR'', msg, field)
      | None \<Rightarrow> roles_sentinel_response e)"

end
