(* ===== verification/Memberships.thy ===== *)
theory Memberships
  imports Roles
begin

text \<open>
  The membership service of \<open>internal/memberships\<close>: listing and reading the members of an
  organization, choosing a member's default store, and suspending, reactivating or removing a
  member, which ends the member's sessions in the organization. Times are not printed here.
\<close>

section \<open>Errors, actors and responses\<close>

datatype memberships_sentinel =
    Members_ErrDependencyUnavailable
  | Members_ErrInsufficientScope
  | Members_ErrInvalidStatusTransition
  | Members_ErrLastOwnerRequired
  | Members_ErrMembershipNotFound
  | Members_ErrStoreNotAvailable

type_synonym members_error = "memberships_sentinel go_error"

definition members_unavailable :: "string \<Rightarrow> members_error \<Rightarrow> members_error" where
  "members_unavailable operation e = Joined (Sentinel Members_ErrDependencyUnavailable) (Wrapped operation e)"

definition mapTransactionError :: "string \<Rightarrow> members_error \<Rightarrow> members_error" where
  "mapTransactionError operation e =
     (if errors_Is e Members_ErrMembershipNotFound \<or> errors_Is e Members_ErrInvalidStatusTransition \<or>
         errors_Is e Members_ErrLastOwnerRequired \<or> errors_Is e Members_ErrStoreNotAvailable \<or>
         errors_Is e Members_ErrInsufficientScope \<or> errors_Is e Members_ErrDependencyUnavailable
      then e else members_unavailable operation e)"

record member_actor =
  MA_UserID :: "uuid option"
  MA_SessionID :: "uuid option"
  MA_OrganizationID :: "uuid option"
  MA_MembershipID :: "uuid option"
  MA_Scopes :: "string list"
  MA_RequestMeta :: request_meta

record member_list_input =
  MLI_Search :: string
  MLI_Status :: string
  MLI_Page :: "int option"
  MLI_PageSize :: "int option"

record member_user_response =
  MUR_ID :: string
  MUR_Email :: string
  MUR_DisplayName :: string
  MUR_Status :: string
  MUR_EmailVerifiedAt :: "time option"

record member_store_response =
  MSR_ID :: string
  MSR_Code :: string
  MSR_Name :: string
  MSR_Status :: string

record member_binding_response =
  MBR_ID :: string
  MBR_RoleID :: string
  MBR_RoleKey :: string
  MBR_RoleName :: string
  MBR_AssignmentScope :: string
  MBR_Store :: "member_store_response option"
  MBR_ExpiresAt :: "time option"
  MBR_IsActive :: bool
  MBR_CreatedAt :: time

record membership_response =
  MeR_ID :: string
  MeR_OrganizationID :: string
  MeR_User :: member_user_response
  MeR_Status :: string
  MeR_DefaultStore :: "member_store_response option"
  MeR_AuthorizationVersion :: int
  MeR_RoleBindings :: "member_binding_response list"
  MeR_JoinedAt :: time
  MeR_SuspendedAt :: "time option"
  MeR_RemovedAt :: "time option"
  MeR_CreatedAt :: time
  MeR_UpdatedAt :: time

fun user_status_string :: "user_status \<Rightarrow> string" where
  "user_status_string UserACTIVE = ''ACTIVE''"
| "user_status_string UserSUSPENDED = ''SUSPENDED''"
| "user_status_string UserDISABLED = ''DISABLED''"

fun membership_status_string :: "membership_status \<Rightarrow> string" where
  "membership_status_string MemACTIVE = ''ACTIVE''"
| "membership_status_string MemSUSPENDED = ''SUSPENDED''"
| "membership_status_string MemREMOVED = ''REMOVED''"

fun store_status_string :: "store_status \<Rightarrow> string" where
  "store_status_string StoreACTIVE = ''ACTIVE''"
| "store_status_string StoreINACTIVE = ''INACTIVE''"
| "store_status_string StoreARCHIVED = ''ARCHIVED''"

text \<open>The default store of a list row has no status.\<close>

definition mapListRow :: "env \<Rightarrow> membership_row \<Rightarrow> membership_response" where
  "mapListRow E row =
     (case row of (m, u, st) \<Rightarrow>
      \<lparr>MeR_ID = uuid_String E (Mem_ID m), MeR_OrganizationID = uuid_String E (Mem_OrganizationID m),
       MeR_User = \<lparr>MUR_ID = uuid_String E (Mem_UserID m), MUR_Email = User_Email u,
         MUR_DisplayName = User_DisplayName u, MUR_Status = user_status_string (User_Status u),
         MUR_EmailVerifiedAt = None\<rparr>,
       MeR_Status = membership_status_string (Mem_Status m),
       MeR_DefaultStore = map_option (\<lambda>i. \<lparr>MSR_ID = uuid_String E i,
         MSR_Code = (case st of None \<Rightarrow> [] | Some s \<Rightarrow> Store_Code s),
         MSR_Name = (case st of None \<Rightarrow> [] | Some s \<Rightarrow> Store_Name s), MSR_Status = []\<rparr>) (Mem_DefaultStoreID m),
       MeR_AuthorizationVersion = Mem_AuthorizationVersion m, MeR_RoleBindings = [],
       MeR_JoinedAt = Mem_JoinedAt m, MeR_SuspendedAt = Mem_SuspendedAt m, MeR_RemovedAt = Mem_RemovedAt m,
       MeR_CreatedAt = Mem_CreatedAt m, MeR_UpdatedAt = Mem_UpdatedAt m\<rparr>)"

definition map_member_binding :: "env \<Rightarrow> member_binding_row \<Rightarrow> member_binding_response" where
  "map_member_binding E row =
     (case row of (b, r, st) \<Rightarrow>
      \<lparr>MBR_ID = uuid_String E (Bind_ID b), MBR_RoleID = uuid_String E (Bind_RoleID b), MBR_RoleKey = Role_Key r,
       MBR_RoleName = Role_Name r, MBR_AssignmentScope = assignment_scope_string (Role_AssignmentScope r),
       MBR_Store = map_option (\<lambda>i. \<lparr>MSR_ID = uuid_String E i,
         MSR_Code = (case st of None \<Rightarrow> [] | Some s \<Rightarrow> Store_Code s),
         MSR_Name = (case st of None \<Rightarrow> [] | Some s \<Rightarrow> Store_Name s), MSR_Status = []\<rparr>) (Bind_StoreID b),
       MBR_ExpiresAt = Bind_ExpiresAt b, MBR_IsActive = Role_IsActive r, MBR_CreatedAt = Bind_CreatedAt b\<rparr>)"

definition mapDetailRow :: "env \<Rightarrow> membership_row \<Rightarrow> member_binding_row list \<Rightarrow> membership_response" where
  "mapDetailRow E row bindings =
     (case row of (m, u, st) \<Rightarrow>
      \<lparr>MeR_ID = uuid_String E (Mem_ID m), MeR_OrganizationID = uuid_String E (Mem_OrganizationID m),
       MeR_User = \<lparr>MUR_ID = uuid_String E (Mem_UserID m), MUR_Email = User_Email u,
         MUR_DisplayName = User_DisplayName u, MUR_Status = user_status_string (User_Status u),
         MUR_EmailVerifiedAt = User_EmailVerifiedAt u\<rparr>,
       MeR_Status = membership_status_string (Mem_Status m),
       MeR_DefaultStore = map_option (\<lambda>i. \<lparr>MSR_ID = uuid_String E i,
         MSR_Code = (case st of None \<Rightarrow> [] | Some s \<Rightarrow> Store_Code s),
         MSR_Name = (case st of None \<Rightarrow> [] | Some s \<Rightarrow> Store_Name s),
         MSR_Status = (case st of None \<Rightarrow> [] | Some s \<Rightarrow> store_status_string (Store_Status s))\<rparr>) (Mem_DefaultStoreID m),
       MeR_AuthorizationVersion = Mem_AuthorizationVersion m,
       MeR_RoleBindings = map (map_member_binding E) bindings,
       MeR_JoinedAt = Mem_JoinedAt m, MeR_SuspendedAt = Mem_SuspendedAt m, MeR_RemovedAt = Mem_RemovedAt m,
       MeR_CreatedAt = Mem_CreatedAt m, MeR_UpdatedAt = Mem_UpdatedAt m\<rparr>)"

section \<open>Validation\<close>

definition validUUID :: "uuid option \<Rightarrow> bool" where
  "validUUID u = (case u of None \<Rightarrow> False | Some i \<Rightarrow> i \<noteq> 0)"

text \<open>Returns the actor's organization.\<close>

definition validateActor :: "member_actor \<Rightarrow> string \<Rightarrow> members_error + uuid" where
  "validateActor actor scope =
     (case MA_OrganizationID actor of
        Some orgID \<Rightarrow>
          if \<not> validUUID (MA_UserID actor) \<or> \<not> validUUID (MA_SessionID actor) \<or>
             \<not> validUUID (MA_OrganizationID actor) \<or> \<not> validUUID (MA_MembershipID actor)
          then Inl (ValidationError ''context'' ''organization context is required'')
          else if \<not> ScopeSet_Has (MA_Scopes actor) scope then Inl (Sentinel Members_ErrInsufficientScope)
          else Inr orgID
      | None \<Rightarrow> Inl (ValidationError ''context'' ''organization context is required''))"

definition members_parseUUID :: "env \<Rightarrow> string \<Rightarrow> string \<Rightarrow> members_error + uuid" where
  "members_parseUUID E field value =
     (case uuid_Scan E (strings_TrimSpace value) of
        Some u \<Rightarrow> if validUUID (Some u) then Inr u else Inl (ValidationError field ''must be a valid UUID'')
      | None \<Rightarrow> Inl (ValidationError field ''must be a valid UUID''))"

definition members_normalizePagination :: "int option \<Rightarrow> int option \<Rightarrow> members_error + int \<times> int" where
  "members_normalizePagination page pageSize =
     (let resolvedPage = (case page of None \<Rightarrow> 1 | Some p \<Rightarrow> p);
          resolvedSize = (case pageSize of None \<Rightarrow> 20 | Some p \<Rightarrow> p) in
      if resolvedPage < 1 then Inl (ValidationError ''page'' ''must be at least 1'')
      else if resolvedSize < 1 \<or> resolvedSize > 100 then Inl (ValidationError ''pageSize'' ''must be between 1 and 100'')
      else Inr (resolvedPage, resolvedSize))"

definition requiredStatus :: "env \<Rightarrow> string \<Rightarrow> members_error + membership_status" where
  "requiredStatus E value =
     (let status = strings_ToUpper (unicode_upper E) (strings_TrimSpace value) in
      if status = ''ACTIVE'' then Inr MemACTIVE
      else if status = ''SUSPENDED'' then Inr MemSUSPENDED
      else if status = ''REMOVED'' then Inr MemREMOVED
      else Inl (ValidationError ''status'' ''must be ACTIVE, SUSPENDED, or REMOVED''))"

definition optionalStatus :: "env \<Rightarrow> string \<Rightarrow> members_error + membership_status option" where
  "optionalStatus E value =
     (if strings_TrimSpace value = [] then Inr None else chain (requiredStatus E value) (\<lambda>s. Inr (Some s)))"

definition nullableText :: "string \<Rightarrow> string option" where
  "nullableText value = (if value = [] then None else Some value)"

definition validTransition :: "membership_status \<Rightarrow> membership_status \<Rightarrow> bool" where
  "validTransition old new \<longleftrightarrow>
     (old = MemACTIVE \<and> (new = MemSUSPENDED \<or> new = MemREMOVED)) \<or>
     (old = MemSUSPENDED \<and> (new = MemACTIVE \<or> new = MemREMOVED))"

definition hasOwnerBinding :: "member_binding_row list \<Rightarrow> time \<Rightarrow> bool" where
  "hasOwnerBinding bindings now =
     list_ex (\<lambda>(b, r, _). Role_Key r = ''owner'' \<and> Role_IsSystem r \<and> Role_IsActive r \<and> Bind_StoreID b = None \<and>
       unexpired now (Bind_ExpiresAt b)) bindings"

definition containsStore :: "store list \<Rightarrow> uuid \<Rightarrow> bool" where
  "containsStore stores i = list_ex (\<lambda>s. Store_ID s = i) stores"

section \<open>The service\<close>

text \<open>Whether the service has a session revoker and a cache, and \<open>netip.ParseAddr\<close>.\<close>

record members_service =
  msv_sessions :: bool
  msv_invalidator :: bool
  msv_ParseAddr :: "string \<Rightarrow> string option"

definition newAuditEvent ::
    "members_service \<Rightarrow> member_actor \<Rightarrow> uuid \<Rightarrow> string \<Rightarrow> (string \<times> metadata_value) list \<Rightarrow> create_audit_params" where
  "newAuditEvent S actor entityID eventType metadata =
     \<lparr>CA_OrganizationID = MA_OrganizationID actor, CA_StoreID = None, CA_ActorUserID = MA_UserID actor,
      CA_ActorMembershipID = MA_MembershipID actor, CA_SessionID = MA_SessionID actor, CA_EventType = eventType,
      CA_EntityType = Some ''organization_membership'', CA_EntityID = Some entityID,
      CA_RequestID = nullableText (RM_RequestID (MA_RequestMeta actor)),
      CA_IpAddress = msv_ParseAddr S (RM_ClientIP (MA_RequestMeta actor)),
      CA_UserAgent = nullableText (RM_UserAgent (MA_RequestMeta actor)),
      CA_Outcome = AuditSUCCESS, CA_Metadata = metadata\<rparr>"

definition getTargetForUpdate :: "uuid \<Rightarrow> uuid \<Rightarrow> auth_db \<Rightarrow> members_error + membership" where
  "getTargetForUpdate orgID membershipID d =
     on_error (\<lambda>e. if errors_Is_NoRows e then Sentinel Members_ErrMembershipNotFound
                   else members_unavailable ''lock target membership'' e)
       (GetMembershipForUpdate orgID membershipID d)"

definition get_membership :: "env \<Rightarrow> uuid \<Rightarrow> uuid \<Rightarrow> auth_db \<Rightarrow> members_error + membership_response" where
  "get_membership E orgID membershipID d =
     chain (on_error (\<lambda>e. if errors_Is_NoRows e then Sentinel Members_ErrMembershipNotFound
                          else members_unavailable ''get membership'' e)
             (GetMembershipForOrganization orgID membershipID d)) (\<lambda>row.
     Inr (mapDetailRow E row (ListMemberRoleBindings E orgID membershipID d)))"

definition Members_Get :: "env \<Rightarrow> member_actor \<Rightarrow> string \<Rightarrow> auth_db \<Rightarrow> members_error + membership_response" where
  "Members_Get E actor membershipID d =
     chain (validateActor actor ''members.read'') (\<lambda>orgID.
     chain (members_parseUUID E ''membershipId'' membershipID) (\<lambda>i. get_membership E orgID i d))"

definition Members_List ::
    "env \<Rightarrow> member_actor \<Rightarrow> member_list_input \<Rightarrow> auth_db \<Rightarrow>
     members_error + membership_response list \<times> pagination" where
  "Members_List E actor input d =
     chain (validateActor actor ''members.read'') (\<lambda>orgID.
     chain (members_normalizePagination (MLI_Page input) (MLI_PageSize input)) (\<lambda>(page, pageSize).
     chain (optionalStatus E (MLI_Status input)) (\<lambda>status.
     let search = nullableText (strings_TrimSpace (MLI_Search input)) in
     chain (on_error (members_unavailable ''list memberships'')
             (ListMemberships E orgID status search (int32 (int64 ((page - 1) * pageSize))) (int32 pageSize) d)) (\<lambda>rows.
     let total = CountMemberships E orgID status search d in
     Inr (map (mapListRow E) rows, paginationResponse page pageSize total)))))"

section \<open>Default store\<close>

definition nullable_uuid_text :: "env \<Rightarrow> uuid option \<Rightarrow> metadata_value" where
  "nullable_uuid_text E u = (case u of None \<Rightarrow> MetaNull | Some i \<Rightarrow> MetaText (uuid_String E i))"

definition update_default_store_tx ::
    "env \<Rightarrow> members_service \<Rightarrow> time \<Rightarrow> member_actor \<Rightarrow> uuid \<Rightarrow> uuid \<Rightarrow> uuid option \<Rightarrow> auth_db \<Rightarrow>
     members_error + uuid list \<times> auth_db" where
  "update_default_store_tx E S txnow actor orgID targetID defaultStoreID d =
     chain (getTargetForUpdate orgID targetID d) (\<lambda>target.
     chain (guard_error (Mem_Status target = MemACTIVE) (Sentinel Members_ErrInvalidStatusTransition)) (\<lambda>_.
     chain (case defaultStoreID of None \<Rightarrow> Inr ()
            | Some i \<Rightarrow> guard_error (containsStore (ListStoresForMembership E txnow orgID targetID d) i)
                          (Sentinel Members_ErrStoreNotAvailable)) (\<lambda>_.
     if Mem_DefaultStoreID target = defaultStoreID then Inr ([], d)
     else
       chain (on_error (members_unavailable ''update default store'')
               (UpdateMembershipDefaultStore txnow orgID targetID defaultStoreID d)) (\<lambda>(updated, d1).
       chain (audit_Write E txnow (newAuditEvent S actor targetID ''membership.default_store_changed''
                [(''previous_default_store_id'', nullable_uuid_text E (Mem_DefaultStoreID target)),
                 (''new_default_store_id'', nullable_uuid_text E (Mem_DefaultStoreID updated)),
                 (''authorization_version'', MetaInt (Mem_AuthorizationVersion updated))]) d1) (\<lambda>d2.
       Inr (ListSessionIDsForMembership orgID targetID d1, d2))))))"

text \<open>The transaction, the invalidations after its commit, and the reading of the member.\<close>

definition members_commit ::
    "env \<Rightarrow> members_service \<Rightarrow> txn \<Rightarrow> string \<Rightarrow> uuid \<Rightarrow> uuid \<Rightarrow>
     (auth_db \<Rightarrow> members_error + uuid list \<times> auth_db) \<Rightarrow> auth_db \<Rightarrow>
     (members_error + membership_response) \<times> auth_db \<times> cache_invalidation list" where
  "members_commit E S T operation orgID targetID fn d =
     (case Auth_WithTx T fn d of
        (Inl e, d') \<Rightarrow> (Inl (mapTransactionError operation e), d', [])
      | (Inr sessionIDs, d') \<Rightarrow>
          (get_membership E orgID targetID d', d',
           invalidate (msv_invalidator S) sessionIDs (InvalidateMembershipAuthorizationVersion targetID)))"

definition UpdateDefaultStore ::
    "env \<Rightarrow> members_service \<Rightarrow> txn \<Rightarrow> member_actor \<Rightarrow> string \<Rightarrow> string option \<Rightarrow> auth_db \<Rightarrow>
     (members_error + membership_response) \<times> auth_db \<times> cache_invalidation list" where
  "UpdateDefaultStore E S T actor membershipID defaultStore d =
     (case chain (validateActor actor ''members.status.update'') (\<lambda>orgID.
           chain (members_parseUUID E ''membershipId'' membershipID) (\<lambda>targetID.
           chain (case defaultStore of None \<Rightarrow> Inr None
                  | Some t \<Rightarrow> chain (members_parseUUID E ''defaultStoreId'' t) (\<lambda>i. Inr (Some i))) (\<lambda>storeID.
           Inr (orgID, targetID, storeID)))) of
        Inl e \<Rightarrow> (Inl e, d, [])
      | Inr (orgID, targetID, storeID) \<Rightarrow>
          members_commit E S T ''update membership default store'' orgID targetID
            (update_default_store_tx E S (tx_now T) actor orgID targetID storeID) d)"

section \<open>Status\<close>

text \<open>
  The sessions that stand in the membership's context are revoked one by one with their
  refresh tokens; one that already ended is passed over.
\<close>

fun revoke_each :: "time \<Rightarrow> uuid \<Rightarrow> string \<Rightarrow> uuid list \<Rightarrow> auth_db \<Rightarrow> members_error + auth_db" where
  "revoke_each txnow userID reason [] d = Inr d"
| "revoke_each txnow userID reason (i # ids) d =
     chain (case RevokeSession txnow i userID reason d of
              Inl e \<Rightarrow> if errors_Is_NoRows e then Inr d else Inl (Wrapped ''revoke membership session'' e)
            | Inr (_, d') \<Rightarrow> Inr d') (\<lambda>d1.
     chain (wrap_error ''revoke membership refresh tokens'' (RevokeSessionRefreshTokens txnow i d1)) (\<lambda>(_, d2).
     revoke_each txnow userID reason ids d2))"

definition RevokeMembershipSessions ::
    "time \<Rightarrow> uuid \<Rightarrow> uuid \<Rightarrow> uuid \<Rightarrow> string \<Rightarrow> auth_db \<Rightarrow> members_error + uuid list \<times> auth_db" where
  "RevokeMembershipSessions txnow orgID membershipID userID reason d =
     (let ids = ListSessionIDsForMembership orgID membershipID d in
      chain (revoke_each txnow userID reason ids d) (\<lambda>d'. Inr (ids, d')))"

text \<open>\<open>LockActiveOwnerMembershipsForUpdate\<close>: the organization is locked before its owners are counted.\<close>

definition LockActiveOwnerMembershipsForUpdate :: "time \<Rightarrow> uuid \<Rightarrow> auth_db \<Rightarrow> members_error + int" where
  "LockActiveOwnerMembershipsForUpdate txnow orgID d =
     chain (LockOrganizationForOwnerChange orgID d) (\<lambda>_. Inr (CountActiveOwnersForUpdate txnow orgID d))"

definition membership_event :: "membership_status \<Rightarrow> string" where
  "membership_event status =
     (if status = MemSUSPENDED then ''membership.suspended''
      else if status = MemREMOVED then ''membership.removed'' else ''membership.reactivated'')"

definition end_sessions ::
    "env \<Rightarrow> members_service \<Rightarrow> time \<Rightarrow> uuid \<Rightarrow> uuid \<Rightarrow> uuid \<Rightarrow> membership_status \<Rightarrow> auth_db \<Rightarrow>
     members_error + uuid list \<times> auth_db" where
  "end_sessions E S txnow orgID targetID userID status d =
     (if status = MemSUSPENDED \<or> status = MemREMOVED then
        chain (guard_error (msv_sessions S)
                (members_unavailable ''revoke membership sessions'' (OtherError ''session revoker is not configured''))) (\<lambda>_.
        on_error (members_unavailable ''invalidate membership sessions'')
          (RevokeMembershipSessions txnow orgID targetID userID
             (''membership_'' @ strings_ToLower (unicode_lower E) (membership_status_string status)) d))
      else Inr (ListSessionIDsForMembership orgID targetID d, d))"

definition update_status_tx ::
    "env \<Rightarrow> members_service \<Rightarrow> time \<Rightarrow> time \<Rightarrow> member_actor \<Rightarrow> uuid \<Rightarrow> uuid \<Rightarrow> membership_status \<Rightarrow> auth_db \<Rightarrow>
     members_error + uuid list \<times> auth_db" where
  "update_status_tx E S txnow now actor orgID targetID status d =
     chain (on_error (members_unavailable ''lock active owners'')
             (LockActiveOwnerMembershipsForUpdate txnow orgID d)) (\<lambda>ownerCount.
     chain (getTargetForUpdate orgID targetID d) (\<lambda>target.
     if Mem_Status target = status then Inr ([], d)
     else
       chain (guard_error (validTransition (Mem_Status target) status) (Sentinel Members_ErrInvalidStatusTransition)) (\<lambda>_.
       let leavingActive = (Mem_Status target = MemACTIVE \<and> status \<noteq> MemACTIVE);
           owner = hasOwnerBinding (ListMemberRoleBindings E orgID targetID d) now
       in
       chain (guard_error (\<not> (owner \<and> \<not> ScopeSet_Has (MA_Scopes actor) ''organization.owners.manage''))
               (Sentinel Members_ErrInsufficientScope)) (\<lambda>_.
       chain (guard_error (\<not> (owner \<and> leavingActive \<and> ownerCount \<le> 1)) (Sentinel Members_ErrLastOwnerRequired)) (\<lambda>_.
       chain (on_error (members_unavailable ''update membership status'')
               (UpdateMembershipStatus txnow status orgID targetID d)) (\<lambda>(updated, d1).
       chain (end_sessions E S txnow orgID targetID (Mem_UserID target) status d1) (\<lambda>(sessionIDs, d2).
       chain (audit_Write E txnow (newAuditEvent S actor targetID (membership_event status)
                [(''previous_status'', MetaText (membership_status_string (Mem_Status target))),
                 (''new_status'', MetaText (membership_status_string (Mem_Status updated))),
                 (''authorization_version'', MetaInt (Mem_AuthorizationVersion updated)),
                 (''affected_sessions'', MetaInt (int (length sessionIDs)))]) d2) (\<lambda>d3.
       Inr (sessionIDs, d3)))))))))"

definition UpdateStatus ::
    "env \<Rightarrow> members_service \<Rightarrow> txn \<Rightarrow> time \<Rightarrow> member_actor \<Rightarrow> string \<Rightarrow> string \<Rightarrow> auth_db \<Rightarrow>
     (members_error + membership_response) \<times> auth_db \<times> cache_invalidation list" where
  "UpdateStatus E S T now actor membershipID statusText d =
     (case chain (requiredStatus E statusText) (\<lambda>status.
           chain (validateActor actor (if status = MemREMOVED then ''members.remove'' else ''members.status.update'')) (\<lambda>orgID.
           chain (members_parseUUID E ''membershipId'' membershipID) (\<lambda>targetID.
           Inr (orgID, targetID, status)))) of
        Inl e \<Rightarrow> (Inl e, d, [])
      | Inr (orgID, targetID, status) \<Rightarrow>
          members_commit E S T ''update membership status'' orgID targetID
            (update_status_tx E S (tx_now T) now actor orgID targetID status) d)"

end
