(* ===== verification/Access_Invariant.thy ===== *)
theory Access_Invariant
  imports Memberships Sessions_Behaviour
begin

text \<open>
  What the services of roles and memberships do to the tables, summed up as a relation on
  databases: which rows a committed operation may add, rewrite or delete, and under which
  conditions. The properties are proved on this relation.
\<close>

section \<open>Statements\<close>

definition scope_codes :: "uuid \<Rightarrow> uuid \<Rightarrow> role_scope list \<Rightarrow> string set" where
  "scope_codes orgID roleID X = {RS_ScopeCode s |s. s \<in> set X \<and> RS_OrganizationID s = orgID \<and> RS_RoleID s = roleID}"

definition scopes_replaced :: "uuid \<Rightarrow> uuid \<Rightarrow> string list \<Rightarrow> role_scope list \<Rightarrow> role_scope list \<Rightarrow> bool" where
  "scopes_replaced orgID roleID codes X X' \<longleftrightarrow> scope_codes orgID roleID X' = set codes \<and>
     (\<forall>q i. (q, i) \<noteq> (orgID, roleID) \<longrightarrow> scope_codes q i X' = scope_codes q i X)"

text \<open>The version of the organization is raised, nothing else of any organization changes.\<close>

definition org_raised :: "uuid \<Rightarrow> organization list \<Rightarrow> organization list \<Rightarrow> bool" where
  "org_raised orgID gs gs' \<longleftrightarrow>
     list_all2 (\<lambda>g g'. \<exists>v t. g' = g\<lparr>Org_AuthorizationVersion := v, Org_UpdatedAt := t\<rparr> \<and> v \<ge> Org_AuthorizationVersion g) gs gs' \<and>
     (\<exists>g g'. List.find (\<lambda>g. Org_ID g = orgID) gs = Some g \<and> List.find (\<lambda>g. Org_ID g = orgID) gs' = Some g' \<and>
        Org_AuthorizationVersion g' = Org_AuthorizationVersion g + 1)"

text \<open>One membership is rewritten, its identity and its user are kept.\<close>

definition member_rewritten ::
    "(membership \<Rightarrow> membership \<Rightarrow> bool) \<Rightarrow> uuid \<Rightarrow> uuid \<Rightarrow> membership list \<Rightarrow> membership list \<Rightarrow> bool" where
  "member_rewritten P orgID membershipID ms ms' \<longleftrightarrow> (\<exists>pre m m' post. ms = pre @ m # post \<and> ms' = pre @ m' # post \<and>
     (\<forall>q \<in> set pre. \<not> (Mem_OrganizationID q = orgID \<and> Mem_ID q = membershipID)) \<and>
     Mem_OrganizationID m = orgID \<and> Mem_ID m = membershipID \<and>
     Mem_OrganizationID m' = orgID \<and> Mem_ID m' = membershipID \<and> Mem_UserID m' = Mem_UserID m \<and>
     Mem_AuthorizationVersion m' = Mem_AuthorizationVersion m + 1 \<and>
     (Mem_Status m = MemREMOVED \<longrightarrow> Mem_Status m' = MemREMOVED) \<and> P m m')"

definition role_rewritten :: "(role \<Rightarrow> role \<Rightarrow> bool) \<Rightarrow> uuid \<Rightarrow> uuid \<Rightarrow> role list \<Rightarrow> role list \<Rightarrow> bool" where
  "role_rewritten P orgID roleID rs rs' \<longleftrightarrow> (\<exists>pre r r' post. rs = pre @ r # post \<and> rs' = pre @ r' # post \<and>
     Role_OrganizationID r = orgID \<and> Role_ID r = roleID \<and> \<not> Role_IsSystem r \<and> \<not> Role_IsSystem r' \<and>
     Role_OrganizationID r' = orgID \<and> Role_ID r' = roleID \<and> Role_Key r' = Role_Key r \<and>
     Role_AssignmentScope r' = Role_AssignmentScope r \<and> P r r')"

lemma find_update_row:
  assumes "update_row p f rows = Inr (r', rows')" "\<And>r. f r = Inr r' \<Longrightarrow> p r \<Longrightarrow> p r'"
  shows "\<exists>r. List.find p rows = Some r \<and> f r = Inr r' \<and> List.find p rows' = Some r'"
proof -
  from update_row_InrD [OF assms(1)] obtain pre r post where
    s: "rows = pre @ r # post" "p r" "\<forall>q \<in> set pre. \<not> p q" "f r = Inr r'" "rows' = pre @ r' # post" by blast
  then have "List.find p pre = None" by (auto simp: find_None_iff)
  with s assms(2) show ?thesis by (simp add: find_append)
qed

lemma scope_codes_append: "scope_codes q i (X @ Y) = scope_codes q i X \<union> scope_codes q i Y"
  by (auto simp: scope_codes_def)

lemma scope_codes_new:
  "scope_codes q i (map (\<lambda>code. \<lparr>RS_OrganizationID = orgID, RS_RoleID = roleID, RS_ScopeCode = code, RS_CreatedAt = now\<rparr>) cs) =
     (if (q, i) = (orgID, roleID) then set cs else {})"
proof (induction cs)
  case Nil
  then show ?case by (simp add: scope_codes_def)
next
  case (Cons c cs)
  moreover have "scope_codes q i (r # rs) = (if RS_OrganizationID r = q \<and> RS_RoleID r = i then {RS_ScopeCode r} else {}) \<union>
      scope_codes q i rs" for r rs
    by (auto simp: scope_codes_def)
  ultimately show ?case by auto
qed

lemma scope_codes_kept:
  "scope_codes q i (filter (\<lambda>s. \<not> (RS_OrganizationID s = orgID \<and> RS_RoleID s = roleID \<and> RS_ScopeCode s \<notin> C)) X) =
     (if (q, i) = (orgID, roleID) then scope_codes q i X \<inter> C else scope_codes q i X)"
  by (auto simp: scope_codes_def)

lemma set_role_scope_codes: "set (role_scope_codes E orgID roleID d) = scope_codes orgID roleID (au_role_scopes d)"
  by (auto simp: role_scope_codes_def scope_codes_def)

lemma ReplaceRoleScopes_InrD:
  assumes "ReplaceRoleScopes E now orgID roleID codes d = Inr (added, d')"
  shows "\<exists>X. d' = d\<lparr>au_role_scopes := X\<rparr> \<and> scopes_replaced orgID roleID codes (au_role_scopes d) X"
proof -
  define X where "X = filter (\<lambda>s. \<not> (RS_OrganizationID s = orgID \<and> RS_RoleID s = roleID \<and> RS_ScopeCode s \<notin> set codes))
      (au_role_scopes d) @ added"
  have added: "added = map (\<lambda>code. \<lparr>RS_OrganizationID = orgID, RS_RoleID = roleID, RS_ScopeCode = code, RS_CreatedAt = now\<rparr>)
      (filter (\<lambda>code. code \<notin> set (role_scope_codes E orgID roleID d)) (sort_key (collation_key E) (remdups codes)))"
    and d': "d' = d\<lparr>au_role_scopes := X\<rparr>"
    using assms by (auto simp: ReplaceRoleScopes_def Let_def chain_eq_Inr X_def)
  have "scope_codes orgID roleID X = set codes"
    unfolding X_def added scope_codes_append scope_codes_new scope_codes_kept by (auto simp: set_role_scope_codes)
  moreover have "scope_codes q i X = scope_codes q i (au_role_scopes d)" if "(q, i) \<noteq> (orgID, roleID)" for q i
    using that unfolding X_def added scope_codes_append scope_codes_new scope_codes_kept by auto
  ultimately show ?thesis using d' by (auto simp: scopes_replaced_def)
qed

lemma CreateRole_row_InrD:
  assumes "CreateRole_row E now P d = Inr (r, d')"
  shows "d' = d\<lparr>au_roles := au_roles d @ [r], au_uuid_calls := Suc (au_uuid_calls d)\<rparr>"
    "r = new_role now (uuidv7 E (au_uuid_calls d)) P" "List.find (\<lambda>q. Role_ID q = Role_ID r) (au_roles d) = None"
  using assms by (auto simp: CreateRole_row_def Let_def result_simps)

lemma role_checks_system: "first_violation (role_checks r) = None \<Longrightarrow> Role_IsSystem r \<Longrightarrow> \<not> Role_IsMutable r"
  by (simp add: first_violation_None role_checks_def del: first_violation.simps)

lemma write_role_system:
  assumes "write_role now f r = Inr r'"
  shows "r' = (f r)\<lparr>Role_UpdatedAt := now\<rparr>" "Role_IsSystem r' = Role_IsSystem r" "Role_IsSystem r' \<Longrightarrow> \<not> Role_IsMutable r'"
  using assms by (auto simp: write_role_def Let_def result_simps dest!: role_checks_system)

lemma role_rewrittenI:
  assumes "Role_OrganizationID r = orgID" "Role_ID r = roleID" "\<not> Role_IsSystem r"
    "Role_OrganizationID r' = orgID \<and> Role_ID r' = roleID \<and> \<not> Role_IsSystem r' \<and> Role_Key r' = Role_Key r \<and>
     Role_AssignmentScope r' = Role_AssignmentScope r" "P r r'"
  shows "role_rewritten P orgID roleID (pre @ r # post) (pre @ r' # post)"
  unfolding role_rewritten_def using assms by blast

lemma UpdateRole_row_InrD:
  assumes "UpdateRole_row now name desc orgID roleID d = (Inr (r', d') :: 's go_error + _)"
  shows "\<exists>rs. d' = d\<lparr>au_roles := rs\<rparr> \<and>
    role_rewritten (\<lambda>r r'. Role_IsActive r' = Role_IsActive r) orgID roleID (au_roles d) rs"
proof -
  from assms obtain rs where
    u: "update_row (\<lambda>r. Role_OrganizationID r = orgID \<and> Role_ID r = roleID \<and> Role_IsMutable r)
         (write_role now (\<lambda>r. r\<lparr>Role_Name := name, Role_Description := desc\<rparr>)) (au_roles d) = (Inr (r', rs) :: 's go_error + _)"
    "d' = d\<lparr>au_roles := rs\<rparr>"
    by (auto simp: UpdateRole_row_def chain_eq_Inr)
  from update_row_InrD [OF u(1)] obtain pre r post where
    s: "au_roles d = pre @ r # post" "Role_OrganizationID r = orgID" "Role_ID r = roleID" "Role_IsMutable r"
      "write_role now (\<lambda>r. r\<lparr>Role_Name := name, Role_Description := desc\<rparr>) r = (Inr r' :: 's go_error + _)" "rs = pre @ r' # post" by blast
  from write_role_system [OF s(5)] s(4) have "r' = r\<lparr>Role_Name := name, Role_Description := desc, Role_UpdatedAt := now\<rparr>" "\<not> Role_IsSystem r" by auto
  with s(1-3,6) u(2) show ?thesis by (auto intro!: exI [of _ rs] role_rewrittenI)
qed

lemma UpdateRoleStatus_InrD:
  assumes "UpdateRoleStatus now active orgID roleID d = (Inr (r', d') :: 's go_error + _)"
  shows "\<exists>rs. d' = d\<lparr>au_roles := rs\<rparr> \<and>
    role_rewritten (\<lambda>r r'. Role_IsActive r' = active) orgID roleID (au_roles d) rs"
proof -
  from assms obtain rs where
    u: "update_row (\<lambda>r. Role_OrganizationID r = orgID \<and> Role_ID r = roleID \<and> Role_IsMutable r)
         (write_role now (\<lambda>r. r\<lparr>Role_IsActive := active\<rparr>)) (au_roles d) = (Inr (r', rs) :: 's go_error + _)"
    "d' = d\<lparr>au_roles := rs\<rparr>"
    by (auto simp: UpdateRoleStatus_def chain_eq_Inr)
  from update_row_InrD [OF u(1)] obtain pre r post where
    s: "au_roles d = pre @ r # post" "Role_OrganizationID r = orgID" "Role_ID r = roleID" "Role_IsMutable r"
      "write_role now (\<lambda>r. r\<lparr>Role_IsActive := active\<rparr>) r = (Inr r' :: 's go_error + _)" "rs = pre @ r' # post" by blast
  from write_role_system [OF s(5)] s(4) have "r' = r\<lparr>Role_IsActive := active, Role_UpdatedAt := now\<rparr>" "\<not> Role_IsSystem r" by auto
  with s(1-3,6) u(2) show ?thesis by (auto intro!: exI [of _ rs] role_rewrittenI)
qed

lemma IncrementOrganization_InrD:
  assumes "IncrementOrganizationAuthorizationVersion now orgID d = (Inr (g, d') :: 's go_error + _)"
  shows "\<exists>gs. d' = d\<lparr>au_organizations := gs\<rparr> \<and> org_raised orgID (au_organizations d) gs"
proof -
  from assms obtain gs where
    u: "update_row (\<lambda>g. Org_ID g = orgID)
         (write_organization now (\<lambda>g. g\<lparr>Org_AuthorizationVersion := Org_AuthorizationVersion g + 1\<rparr>)) (au_organizations d) =
         (Inr (g, gs) :: 's go_error + _)" "d' = d\<lparr>au_organizations := gs\<rparr>"
    by (auto simp: IncrementOrganizationAuthorizationVersion_def chain_eq_Inr)
  have refl: "\<exists>v t. g = g\<lparr>Org_AuthorizationVersion := v, Org_UpdatedAt := t\<rparr> \<and> v \<ge> Org_AuthorizationVersion g" for g
    by (intro exI [of _ "Org_AuthorizationVersion g"] exI [of _ "Org_UpdatedAt g"]) simp
  have "list_all2 (\<lambda>g g'. \<exists>v t. g' = g\<lparr>Org_AuthorizationVersion := v, Org_UpdatedAt := t\<rparr> \<and> v \<ge> Org_AuthorizationVersion g)
      (au_organizations d) gs"
    by (rule update_row_all2 [OF u(1) _ refl], rule exI [of _ "Org_AuthorizationVersion r + 1" for r], rule exI [of _ now])
      (auto simp: write_organization_def Let_def result_simps)
  moreover have "\<exists>r. List.find (\<lambda>g. Org_ID g = orgID) (au_organizations d) = Some r \<and>
      write_organization now (\<lambda>g. g\<lparr>Org_AuthorizationVersion := Org_AuthorizationVersion g + 1\<rparr>) r = (Inr g :: 's go_error + _) \<and>
      List.find (\<lambda>g. Org_ID g = orgID) gs = Some g"
    by (rule find_update_row [OF u(1)]) (auto simp: write_organization_def Let_def result_simps)
  ultimately show ?thesis using u(2)
    by (auto simp: org_raised_def write_organization_def Let_def result_simps)
qed

lemma update_membership_InrD:
  assumes "update_membership now f orgID membershipID d = (Inr (m', d') :: 's go_error + _)"
    and f: "\<And>m. Mem_OrganizationID (f m) = Mem_OrganizationID m \<and> Mem_ID (f m) = Mem_ID m \<and> Mem_UserID (f m) = Mem_UserID m \<and>
      Mem_AuthorizationVersion (f m) = Mem_AuthorizationVersion m + 1"
  shows "\<exists>ms. d' = d\<lparr>au_memberships := ms\<rparr> \<and>
    member_rewritten (\<lambda>m m'. m' = (f m)\<lparr>Mem_UpdatedAt := now\<rparr>) orgID membershipID (au_memberships d) ms"
proof -
  from assms(1) obtain ms where
    u: "update_row (\<lambda>m. Mem_OrganizationID m = orgID \<and> Mem_ID m = membershipID) (write_membership now d f) (au_memberships d) =
         (Inr (m', ms) :: 's go_error + _)" "d' = d\<lparr>au_memberships := ms\<rparr>"
    by (auto simp: update_membership_def chain_eq_Inr)
  from update_row_InrD [OF u(1)] obtain pre m post where
    s: "au_memberships d = pre @ m # post" "Mem_OrganizationID m = orgID" "Mem_ID m = membershipID"
      "\<forall>q \<in> set pre. \<not> (Mem_OrganizationID q = orgID \<and> Mem_ID q = membershipID)"
      "write_membership now d f m = (Inr m' :: 's go_error + _)" "ms = pre @ m' # post" by blast
  from s(5) have "m' = (f m)\<lparr>Mem_UpdatedAt := now\<rparr>" "Mem_Status m = MemREMOVED \<longrightarrow> Mem_Status m' = MemREMOVED"
    by (auto simp: write_membership_def Let_def result_simps)
  with s u(2) f show ?thesis unfolding member_rewritten_def
    by (intro exI [of _ ms] conjI exI [of _ pre] exI [of _ m] exI [of _ m'] exI [of _ post]) auto
qed

section \<open>Changes\<close>

text \<open>
  A committed operation of an actor of organization \<open>orgID\<close> who may grant the scopes \<open>G\<close>. The
  audit trail and the identifier source move with every change.
\<close>

definition owner_role :: "role \<Rightarrow> bool" where
  "owner_role r \<longleftrightarrow> Role_Key r = ''owner'' \<and> Role_IsSystem r"

inductive access_change :: "string set \<Rightarrow> uuid \<Rightarrow> auth_db \<Rightarrow> auth_db \<Rightarrow> bool" for G orgID d where
  unchanged: "access_change G orgID d d"
| role_created:
    "List.find (\<lambda>q. Role_ID q = Role_ID r) (au_roles d) = None \<Longrightarrow> Role_OrganizationID r = orgID \<Longrightarrow> \<not> Role_IsSystem r \<Longrightarrow>
     set codes \<subseteq> G \<Longrightarrow> scopes_replaced orgID (Role_ID r) codes (au_role_scopes d) X \<Longrightarrow>
     org_raised orgID (au_organizations d) gs \<Longrightarrow>
     access_change G orgID d (d\<lparr>au_roles := au_roles d @ [r], au_role_scopes := X, au_organizations := gs,
       au_audit := a, au_uuid_calls := n\<rparr>)"
| role_updated:
    "role_rewritten (\<lambda>r r'. Role_IsActive r' = Role_IsActive r) orgID roleID (au_roles d) rs \<Longrightarrow>
     set codes \<subseteq> G \<Longrightarrow> scopes_replaced orgID roleID codes (au_role_scopes d) X \<Longrightarrow>
     org_raised orgID (au_organizations d) gs \<Longrightarrow>
     access_change G orgID d (d\<lparr>au_roles := rs, au_role_scopes := X, au_organizations := gs, au_audit := a, au_uuid_calls := n\<rparr>)"
| role_switched:
    "role_rewritten (\<lambda>r r'. Role_IsActive r' = active) orgID roleID (au_roles d) rs \<Longrightarrow>
     (active \<longrightarrow> scope_codes orgID roleID (au_role_scopes d) \<subseteq> G) \<Longrightarrow>
     org_raised orgID (au_organizations d) gs \<Longrightarrow>
     access_change G orgID d (d\<lparr>au_roles := rs, au_organizations := gs, au_audit := a, au_uuid_calls := n\<rparr>)"
| binding_added:
    "Bind_OrganizationID b = orgID \<Longrightarrow> (\<forall>q \<in> set (au_bindings d). Bind_ID q \<noteq> Bind_ID b) \<Longrightarrow>
     role_of orgID (Bind_RoleID b) d = Some r \<Longrightarrow> (owner_role r \<longrightarrow> Bind_ExpiresAt b = None) \<Longrightarrow>
     scope_codes orgID (Bind_RoleID b) (au_role_scopes d) \<subseteq> G \<Longrightarrow>
     member_rewritten (\<lambda>m m'. Mem_Status m' = Mem_Status m) orgID (Bind_MembershipID b) (au_memberships d) ms \<Longrightarrow>
     access_change G orgID d (d\<lparr>au_bindings := au_bindings d @ [b], au_memberships := ms, au_audit := a, au_uuid_calls := n\<rparr>)"
| binding_replaced:
    "au_bindings d = pre @ old # post \<Longrightarrow> Bind_OrganizationID old = orgID \<Longrightarrow>
     b = old\<lparr>Bind_ExpiresAt := t, Bind_CreatedByMembershipID := c\<rparr> \<Longrightarrow>
     role_of orgID (Bind_RoleID b) d = Some r \<Longrightarrow> (owner_role r \<longrightarrow> Bind_ExpiresAt b = None) \<Longrightarrow>
     scope_codes orgID (Bind_RoleID b) (au_role_scopes d) \<subseteq> G \<Longrightarrow>
     member_rewritten (\<lambda>m m'. Mem_Status m' = Mem_Status m) orgID (Bind_MembershipID b) (au_memberships d) ms \<Longrightarrow>
     access_change G orgID d (d\<lparr>au_bindings := pre @ b # post, au_memberships := ms, au_audit := a, au_uuid_calls := n\<rparr>)"
| binding_deleted:
    "au_bindings d = pre @ b # post \<Longrightarrow> Bind_OrganizationID b = orgID \<Longrightarrow>
     GetRoleBindingForOrganization orgID (Bind_MembershipID b) (Bind_ID b) d = (Inr (b', r) :: roles_error + _) \<Longrightarrow>
     membership_of orgID (Bind_MembershipID b) d = Some m \<Longrightarrow>
     (owner_role r \<longrightarrow> Mem_Status m = MemACTIVE \<and> Role_IsActive r \<and> unexpired now (Bind_ExpiresAt b') \<longrightarrow>
        CountActiveOwnersForUpdate txnow orgID d > 1) \<Longrightarrow>
     member_rewritten (\<lambda>m m'. Mem_Status m' = Mem_Status m) orgID (Bind_MembershipID b) (au_memberships d) ms \<Longrightarrow>
     access_change G orgID d (d\<lparr>au_bindings := pre @ post, au_memberships := ms, au_audit := a, au_uuid_calls := n\<rparr>)"

section \<open>The operations make such changes\<close>

lemma audit_Write_InrD: "audit_Write E txnow P d = Inr d' \<Longrightarrow> \<exists>a n. d' = d\<lparr>au_audit := a, au_uuid_calls := n\<rparr>"
  by (auto simp: audit_Write_def CreateAuditEvent_def Let_def result_simps split: if_splits)

lemma roles_writeAudit_InrD:
  "roles_writeAudit E S txnow M actor ev ty i meta d = Inr d' \<Longrightarrow> \<exists>a n. d' = d\<lparr>au_audit := a, au_uuid_calls := n\<rparr>"
  by (auto simp: roles_writeAudit_def result_simps dest: audit_Write_InrD)

lemma organization_changed_InrD:
  assumes "organization_changed E S txnow M actor orgID ev i meta d = Inr (ids, d')"
  shows "\<exists>gs a n. d' = d\<lparr>au_organizations := gs, au_audit := a, au_uuid_calls := n\<rparr> \<and>
    org_raised orgID (au_organizations d) gs"
proof -
  from assms obtain g d1 where
    "IncrementOrganizationAuthorizationVersion txnow orgID d = (Inr (g, d1) :: roles_error + _)"
    "roles_writeAudit E S txnow M actor ev ''role'' i meta d1 = Inr d'"
    by (auto simp: organization_changed_def chain_eq_Inr on_error_eq_Inr)
  then show ?thesis by (auto dest!: IncrementOrganization_InrD roles_writeAudit_InrD)
qed

lemma member_rewritten_mono:
  "member_rewritten P orgID i ms ms' \<Longrightarrow> (\<And>m m'. P m m' \<Longrightarrow> Q m m') \<Longrightarrow> member_rewritten Q orgID i ms ms'"
  unfolding member_rewritten_def by blast

lemma membership_changed_InrD:
  assumes "membership_changed E S txnow M actor orgID membershipID ev i meta d = Inr (ids, d')"
  shows "\<exists>ms a n. d' = d\<lparr>au_memberships := ms, au_audit := a, au_uuid_calls := n\<rparr> \<and>
    member_rewritten (\<lambda>m m'. Mem_Status m' = Mem_Status m) orgID membershipID (au_memberships d) ms"
proof -
  from assms obtain m d1 where
    i: "IncrementMembershipAuthorizationVersion txnow orgID membershipID d = (Inr (m, d1) :: roles_error + _)"
    and w: "roles_writeAudit E S txnow M actor ev ''role_binding'' i meta d1 = Inr d'"
    by (auto simp: membership_changed_def chain_eq_Inr on_error_eq_Inr)
  from update_membership_InrD [OF i [unfolded IncrementMembershipAuthorizationVersion_def]] obtain ms where
    "d1 = d\<lparr>au_memberships := ms\<rparr>"
    "member_rewritten (\<lambda>m m'. m' = m\<lparr>Mem_AuthorizationVersion := Mem_AuthorizationVersion m + 1, Mem_UpdatedAt := txnow\<rparr>)
       orgID membershipID (au_memberships d) ms" by auto
  moreover from this(2) have "member_rewritten (\<lambda>m m'. Mem_Status m' = Mem_Status m) orgID membershipID (au_memberships d) ms"
    by (rule member_rewritten_mono) simp
  ultimately show ?thesis using roles_writeAudit_InrD [OF w] by auto
qed

lemma ensureGrantSubset_eq_Inr [result_simps]:
  "ensureGrantSubset E txnow orgID memID requested d = Inr u \<longleftrightarrow>
     set requested \<subseteq> set (ResolveActorGrantScopes E txnow orgID memID d)"
  by (auto simp: ensureGrantSubset_def Let_def find_None_iff split: option.splits dest: find_SomeD)

lemma validateRoleScopes_InrD:
  "validateRoleScopes E txnow orgID memID a codes d = Inr u \<Longrightarrow>
     set codes \<subseteq> set (ResolveActorGrantScopes E txnow orgID memID d)"
  by (auto simp: validateRoleScopes_def Let_def chain_eq_Inr ensureGrantSubset_eq_Inr)

abbreviation grants :: "env \<Rightarrow> time \<Rightarrow> uuid \<Rightarrow> uuid \<Rightarrow> auth_db \<Rightarrow> string set" where
  "grants E txnow orgID memID d \<equiv> set (ResolveActorGrantScopes E txnow orgID memID d)"

lemma create_role_tx_change:
  assumes "create_role_tx E S txnow M actor orgID memID n d = Inr (r, d')"
  shows "access_change (grants E txnow orgID memID d) orgID d d'"
proof -
  from assms obtain row d1 added d2 ids ev i meta where
    v: "validateRoleScopes E txnow orgID memID (NRI_assignmentScope n) (NRI_scopes n) d = Inr ()"
    and c: "CreateRole_row E txnow (create_role_params_of orgID memID n) d = (Inr (row, d1) :: roles_error + _)"
    and s: "ReplaceRoleScopes E txnow orgID (Role_ID row) (NRI_scopes n) d1 = (Inr (added, d2) :: roles_error + _)"
    and o: "organization_changed E S txnow M actor orgID ev i meta d2 = Inr (ids, d')"
    by (auto simp: create_role_tx_def chain_eq_Inr on_error_eq_Inr)
  from CreateRole_row_InrD [OF c] have row: "Role_OrganizationID row = orgID" "\<not> Role_IsSystem row"
    by (simp_all add: new_role_def create_role_params_of_def)
  from ReplaceRoleScopes_InrD [OF s] CreateRole_row_InrD(1) [OF c] obtain X where
    "d2 = d\<lparr>au_roles := au_roles d @ [row], au_uuid_calls := Suc (au_uuid_calls d), au_role_scopes := X\<rparr>"
    "scopes_replaced orgID (Role_ID row) (NRI_scopes n) (au_role_scopes d) X" by auto
  with organization_changed_InrD [OF o] obtain gs a k where
    "d' = d\<lparr>au_roles := au_roles d @ [row], au_role_scopes := X, au_organizations := gs, au_audit := a, au_uuid_calls := k\<rparr>"
    "scopes_replaced orgID (Role_ID row) (NRI_scopes n) (au_role_scopes d) X" "org_raised orgID (au_organizations d) gs"
    by fastforce
  with CreateRole_row_InrD(3) [OF c] row validateRoleScopes_InrD [OF v] show ?thesis
    by (auto intro: access_change.role_created)
qed

lemma lock_and_reload_InrD:
  assumes "lock_and_reload E absent orgID roleID d = Inr (r, codes)"
  shows "role_of orgID roleID d = Some r" "codes = role_scope_codes E orgID roleID d"
  using assms by (auto simp: lock_and_reload_def GetRoleWithScopesForOrganization_def result_simps)

lemma update_role_tx_change:
  assumes "update_role_tx E S txnow M actor orgID memID roleID n d = Inr (r, d')"
  shows "access_change (grants E txnow orgID memID d) orgID d d'"
proof (cases "d' = d")
  case False
  with assms obtain a1 updated d1 added d2 ids ev i meta where
    v: "validateRoleScopes E txnow orgID memID a1 (NRI_scopes n) d = Inr ()"
    and c: "UpdateRole_row txnow (NRI_name n) (NRI_description n) orgID roleID d = (Inr (updated, d1) :: roles_error + _)"
    and s: "ReplaceRoleScopes E txnow orgID roleID (NRI_scopes n) d1 = (Inr (added, d2) :: roles_error + _)"
    and o: "organization_changed E S txnow M actor orgID ev i meta d2 = Inr (ids, d')"
    by (auto simp: update_role_tx_def chain_eq_Inr on_error_eq_Inr split: if_splits)
  from UpdateRole_row_InrD [OF c] ReplaceRoleScopes_InrD [OF s] obtain rs X where
    "d2 = d\<lparr>au_roles := rs, au_role_scopes := X\<rparr>"
    "role_rewritten (\<lambda>r r'. Role_IsActive r' = Role_IsActive r) orgID roleID (au_roles d) rs"
    "scopes_replaced orgID roleID (NRI_scopes n) (au_role_scopes d) X" by auto
  with organization_changed_InrD [OF o] obtain gs a k where
    "d' = d\<lparr>au_roles := rs, au_role_scopes := X, au_organizations := gs, au_audit := a, au_uuid_calls := k\<rparr>"
    "role_rewritten (\<lambda>r r'. Role_IsActive r' = Role_IsActive r) orgID roleID (au_roles d) rs"
    "scopes_replaced orgID roleID (NRI_scopes n) (au_role_scopes d) X" "org_raised orgID (au_organizations d) gs"
    by fastforce
  with validateRoleScopes_InrD [OF v] show ?thesis by (auto intro: access_change.role_updated)
qed (simp add: access_change.unchanged)

lemma set_role_active_tx_change:
  assumes "set_role_active_tx E S txnow M actor orgID memID roleID active d = Inr (r, d')"
  shows "access_change (grants E txnow orgID memID d) orgID d d'"
proof (cases "d' = d")
  case False
  with assms obtain current codes updated d1 ids ev i meta where
    l: "lock_and_reload E Roles_ErrSystemRoleImmutable orgID roleID d = Inr (current, codes)"
    and g: "active \<Longrightarrow> set codes \<subseteq> grants E txnow orgID memID d"
    and c: "UpdateRoleStatus txnow active orgID roleID d = (Inr (updated, d1) :: roles_error + _)"
    and o: "organization_changed E S txnow M actor orgID ev i meta d1 = Inr (ids, d')"
    by (auto simp: set_role_active_tx_def chain_eq_Inr on_error_eq_Inr ensureGrantSubset_eq_Inr split: if_splits)
  from UpdateRoleStatus_InrD [OF c] organization_changed_InrD [OF o] obtain rs gs a k where
    "d' = d\<lparr>au_roles := rs, au_organizations := gs, au_audit := a, au_uuid_calls := k\<rparr>"
    "role_rewritten (\<lambda>r r'. Role_IsActive r' = active) orgID roleID (au_roles d) rs" "org_raised orgID (au_organizations d) gs"
    by fastforce
  moreover have "active \<longrightarrow> scope_codes orgID roleID (au_role_scopes d) \<subseteq> grants E txnow orgID memID d"
    using g lock_and_reload_InrD(2) [OF l] by (auto simp: set_role_scope_codes)
  ultimately show ?thesis by (auto intro: access_change.role_switched)
qed (simp add: access_change.unchanged)

lemma CreateRoleBinding_InrD:
  assumes "CreateRoleBinding E now P d = (Inr (b, d') :: 's go_error + _)"
  obtains (added) r where
      "d' = d\<lparr>au_bindings := au_bindings d @ [b], au_uuid_calls := Suc (au_uuid_calls d)\<rparr>"
      "b = new_binding now (uuidv7 E (au_uuid_calls d)) P" "\<forall>q \<in> set (au_bindings d). Bind_ID q \<noteq> Bind_ID b"
      "role_of (CB_OrganizationID P) (CB_RoleID P) d = Some r" "owner_role r \<longrightarrow> Bind_ExpiresAt b = None"
  | (replaced) pre old post where
      "au_bindings d = pre @ old # post" "same_binding (new_binding now (uuidv7 E (au_uuid_calls d)) P) old"
      "d' = d\<lparr>au_bindings := pre @ b # post, au_uuid_calls := Suc (au_uuid_calls d)\<rparr>"
      "b = old\<lparr>Bind_ExpiresAt := CB_ExpiresAt P, Bind_CreatedByMembershipID := CB_CreatedByMembershipID P\<rparr>"
      "\<forall>r. role_of (CB_OrganizationID P) (CB_RoleID P) d = Some r \<longrightarrow> owner_role r \<longrightarrow> CB_ExpiresAt P = None"
proof -
  let ?b = "new_binding now (uuidv7 E (au_uuid_calls d)) P"
  have trigger: "owner_role r \<longrightarrow> Bind_ExpiresAt q = None"
    if "role_binding_scope d q = (Inr () :: 's go_error + _)" "role_of (Bind_OrganizationID q) (Bind_RoleID q) d = Some r" for q r
    using that by (auto simp: role_binding_scope_def result_simps owner_role_def)
  show thesis
  proof (cases "List.find (same_binding ?b) (au_bindings d)")
    case None
    with assms have t: "role_binding_scope d ?b = (Inr () :: 's go_error + _)"
      and k: "List.find (\<lambda>q. Bind_ID q = Bind_ID ?b) (au_bindings d) = None"
      and refs: "binding_references_ok d ?b = (Inr () :: 's go_error + _)"
      and d': "b = ?b" "d' = d\<lparr>au_bindings := au_bindings d @ [b], au_uuid_calls := Suc (au_uuid_calls d)\<rparr>"
      by (auto simp: CreateRoleBinding_def Let_def chain_eq_Inr guard_error_eq_Inr)
    from refs obtain r where "role_of (CB_OrganizationID P) (CB_RoleID P) d = Some r"
      by (auto simp: binding_references_ok_def chain_eq_Inr guard_error_eq_Inr new_binding_def)
    with added [OF d'(2,1)] k trigger [OF t] d'(1) show thesis
      by (auto simp: find_None_iff new_binding_def)
  next
    case (Some q)
    with assms obtain rows where u: "update_row (same_binding ?b) (replace_binding d ?b) (au_bindings d) = (Inr (b, rows) :: 's go_error + _)"
      and d': "d' = d\<lparr>au_bindings := rows, au_uuid_calls := Suc (au_uuid_calls d)\<rparr>"
      by (auto simp: CreateRoleBinding_def Let_def chain_eq_Inr)
    from update_row_InrD [OF u] obtain pre old post where
      s: "au_bindings d = pre @ old # post" "same_binding ?b old" "replace_binding d ?b old = (Inr b :: 's go_error + _)"
        "rows = pre @ b # post" by blast
    from s(3) have b: "b = old\<lparr>Bind_ExpiresAt := CB_ExpiresAt P, Bind_CreatedByMembershipID := CB_CreatedByMembershipID P\<rparr>"
      and t: "role_binding_scope d b = (Inr () :: 's go_error + _)"
      by (auto simp: replace_binding_def Let_def chain_eq_Inr new_binding_def)
    have "\<forall>r. role_of (CB_OrganizationID P) (CB_RoleID P) d = Some r \<longrightarrow> owner_role r \<longrightarrow> CB_ExpiresAt P = None"
      using trigger [OF t] s(2) b by (auto simp: same_binding_def new_binding_def)
    with replaced [OF s(1,2) _ b] d' s(4) show thesis by simp
  qed
qed

lemma role_to_bind_InrD:
  assumes "role_to_bind E orgID roleID d = Inr (r, codes)"
  shows "role_of orgID roleID d = Some r" "codes = role_scope_codes E orgID roleID d"
  using assms by (auto simp: role_to_bind_def get_role_def GetRoleWithScopesForOrganization_def result_simps
      split: if_splits dest: lock_and_reload_InrD)

lemma create_binding_tx_change:
  assumes "create_binding_tx E S txnow M actor orgID memID membershipID roleID storeID expiresAt d = Inr (res, d')"
  shows "access_change (grants E txnow orgID memID d) orgID d d'"
proof (cases "d' = d")
  case False
  define P where "P = \<lparr>CB_OrganizationID = orgID, CB_MembershipID = membershipID, CB_RoleID = roleID,
    CB_CreatedByMembershipID = memID, CB_ExpiresAt = expiresAt, CB_StoreID = storeID\<rparr>"
  from assms False obtain r codes b d1 ids ev i meta where
    bind: "role_to_bind E orgID roleID d = Inr (r, codes)"
    and g: "set codes \<subseteq> grants E txnow orgID memID d"
    and c: "CreateRoleBinding E txnow P d = (Inr (b, d1) :: roles_error + _)"
    and m: "membership_changed E S txnow M actor orgID membershipID ev i meta d1 = Inr (ids, d')"
    by (fastforce simp: create_binding_tx_def P_def Let_def chain_eq_Inr on_error_eq_Inr ensureGrantSubset_eq_Inr
        split: if_splits option.splits)
  have codes: "scope_codes orgID roleID (au_role_scopes d) \<subseteq> grants E txnow orgID memID d"
    using g role_to_bind_InrD(2) [OF bind] by (simp add: set_role_scope_codes)
  from membership_changed_InrD [OF m] obtain ms a n where
    d': "d' = d1\<lparr>au_memberships := ms, au_audit := a, au_uuid_calls := n\<rparr>"
    and ms: "member_rewritten (\<lambda>m m'. Mem_Status m' = Mem_Status m) orgID membershipID (au_memberships d1) ms" by blast
  from c show ?thesis
  proof (cases rule: CreateRoleBinding_InrD)
    case (added r')
    then have "Bind_OrganizationID b = orgID" "Bind_MembershipID b = membershipID" "Bind_RoleID b = roleID"
      by (simp_all add: new_binding_def P_def)
    with added codes ms have "access_change (grants E txnow orgID memID d) orgID d
        (d\<lparr>au_bindings := au_bindings d @ [b], au_memberships := ms, au_audit := a, au_uuid_calls := n\<rparr>)"
      by (intro access_change.binding_added [where r = r']) (simp_all add: P_def)
    then show ?thesis using d' added(1) by simp
  next
    case (replaced pre old post)
    then have "Bind_OrganizationID old = orgID" "Bind_MembershipID b = membershipID" "Bind_RoleID b = roleID"
      by (simp_all add: new_binding_def P_def same_binding_def)
    with replaced codes ms role_to_bind_InrD(1) [OF bind] have "access_change (grants E txnow orgID memID d) orgID d
        (d\<lparr>au_bindings := pre @ b # post, au_memberships := ms, au_audit := a, au_uuid_calls := n\<rparr>)"
      by (intro access_change.binding_replaced [where r = r]) (simp_all add: P_def)
    then show ?thesis using d' replaced(3) by simp
  qed
qed (simp add: access_change.unchanged)

lemma delete_binding_tx_change:
  assumes "delete_binding_tx E S txnow now M actor orgID membershipID bindingID d = Inr (res, d')"
  shows "access_change G orgID d d'"
proof -
  from assms obtain m b' r b d1 ids ev i meta where
    mem: "membership_of orgID membershipID d = Some m"
    and g: "GetRoleBindingForOrganization orgID membershipID bindingID d = (Inr (b', r) :: roles_error + _)"
    and leave: "owner_may_leave txnow now actor orgID m b' r d = Inr ()"
    and c: "DeleteRoleBinding orgID membershipID bindingID d = (Inr (b, d1) :: roles_error + _)"
    and ch: "membership_changed E S txnow M actor orgID membershipID ev i meta d1 = Inr (ids, d')"
    by (auto simp: delete_binding_tx_def chain_eq_Inr on_error_eq_Inr GetMembershipForUpdate_def one_row_eq_Inr)
  from c obtain rows where del: "delete_row (\<lambda>b. Bind_OrganizationID b = orgID \<and> Bind_MembershipID b = membershipID \<and>
      Bind_ID b = bindingID) (au_bindings d) = Some (b, rows)" "d1 = d\<lparr>au_bindings := rows\<rparr>"
    by (auto simp: DeleteRoleBinding_def chain_eq_Inr one_row_eq_Inr)
  from delete_row_InrD [OF del(1)] obtain pre post where
    s: "au_bindings d = pre @ b # post" "Bind_OrganizationID b = orgID" "Bind_MembershipID b = membershipID"
      "Bind_ID b = bindingID" "rows = pre @ post" by blast
  from membership_changed_InrD [OF ch] obtain ms a n where
    d': "d' = d1\<lparr>au_memberships := ms, au_audit := a, au_uuid_calls := n\<rparr>"
    and ms: "member_rewritten (\<lambda>m m'. Mem_Status m' = Mem_Status m) orgID membershipID (au_memberships d1) ms" by blast
  have "owner_role r \<longrightarrow> Mem_Status m = MemACTIVE \<and> Role_IsActive r \<and> unexpired now (Bind_ExpiresAt b') \<longrightarrow>
      CountActiveOwnersForUpdate txnow orgID d > 1"
    using leave by (auto simp: owner_may_leave_def owner_role_def Let_def chain_eq_Inr guard_error_eq_Inr)
  with s mem g ms del(2) have "access_change G orgID d
      (d\<lparr>au_bindings := pre @ post, au_memberships := ms, au_audit := a, au_uuid_calls := n\<rparr>)"
    by (intro access_change.binding_deleted [where b = b and b' = b' and r = r and m = m]) simp_all
  with d' del(2) s(5) show ?thesis by simp
qed

lemma roles_commit_cases:
  assumes "roles_commit S T text v fn d = (res, d', evs)"
  obtains "d' = d" | r ids where "fn d = Inr ((r, ids), d')" "res = Inr r"
  using assms by (auto simp: roles_commit_def result_simps split: prod.splits sum.splits dest: Auth_WithTx_Inl)

end
