(* ===== verification/Access_Behaviour.thy ===== *)
theory Access_Behaviour
  imports Access_Invariant
begin

text \<open>
  The operations of roles and memberships as steps, and what every step keeps: an organization
  with an active owner keeps one, system roles stay as they are, a removed membership stays
  removed, and nobody gains a scope that the actor could not grant.
\<close>

section \<open>Steps\<close>

text \<open>An operation of the role service by \<open>actor\<close>, in a transaction, whatever its result.\<close>

inductive roles_step :: "env \<Rightarrow> txn \<Rightarrow> principal \<Rightarrow> auth_db \<Rightarrow> auth_db \<Rightarrow> bool" for E T actor d d' where
  create_role: "CreateRole E S T M actor input d = (res, d', evs) \<Longrightarrow> roles_step E T actor d d'"
| update_role: "UpdateRole E S T M actor rawID input d = (res, d', evs) \<Longrightarrow> roles_step E T actor d d'"
| activate_role: "ActivateRole E S T M actor rawID d = (res, d', evs) \<Longrightarrow> roles_step E T actor d d'"
| deactivate_role: "DeactivateRole E S T M actor rawID d = (res, d', evs) \<Longrightarrow> roles_step E T actor d d'"
| create_binding: "CreateBinding E S T now M actor rawID binput d = (bres, d', evs) \<Longrightarrow> roles_step E T actor d d'"
| delete_binding: "DeleteBinding E S T now M actor rawID rawB d = (ures, d', evs) \<Longrightarrow> roles_step E T actor d d'"

inductive members_step :: "env \<Rightarrow> txn \<Rightarrow> member_actor \<Rightarrow> auth_db \<Rightarrow> auth_db \<Rightarrow> bool" for E T actor d d' where
  update_status: "UpdateStatus E S T now actor rawID st d = (res, d', evs) \<Longrightarrow> members_step E T actor d d'"
| update_default_store: "UpdateDefaultStore E S T actor rawID store d = (res, d', evs) \<Longrightarrow> members_step E T actor d d'"

inductive access_step :: "env \<Rightarrow> auth_db \<Rightarrow> auth_db \<Rightarrow> bool" for E where
  "roles_step E T actor d d' \<Longrightarrow> access_step E d d'"
| "members_step E T mactor d d' \<Longrightarrow> access_step E d d'"

lemma requireActorScope_InrD:
  "requireActorScope actor scope = Inr (orgID, memID) \<Longrightarrow>
     Pr_OrganizationID actor = Some orgID \<and> Pr_MembershipID actor = Some memID \<and> scope \<in> set (Pr_Scopes actor) \<and>
     HasOrganizationScope actor"
  by (auto simp: requireActorScope_def ScopeSet_HasAll_def ScopeSet_Has_def split: option.splits if_splits)

text \<open>What a step of the role service does, and the scope it needed.\<close>

definition roles_scopes :: "string set" where
  "roles_scopes = {''roles.create'', ''roles.update'', ''roles.status.update'', ''roles.assign''}"

lemma commit_change:
  assumes "roles_commit S T text v fn d = (res, d', evs)"
    and "\<And>r ids. fn d = Inr ((r, ids), d') \<Longrightarrow> access_change G orgID d d'"
  shows "access_change G orgID d d'"
  using assms(1) by (rule roles_commit_cases) (auto intro: access_change.unchanged assms(2))

definition acts_for :: "principal \<Rightarrow> uuid \<Rightarrow> uuid \<Rightarrow> bool" where
  "acts_for actor orgID memID \<longleftrightarrow> Pr_OrganizationID actor = Some orgID \<and> Pr_MembershipID actor = Some memID \<and>
     HasOrganizationScope actor \<and> set (Pr_Scopes actor) \<inter> roles_scopes \<noteq> {}"

lemma acts_forI: "requireActorScope actor scope = Inr (orgID, memID) \<Longrightarrow> scope \<in> roles_scopes \<Longrightarrow> acts_for actor orgID memID"
  by (auto simp: acts_for_def dest: requireActorScope_InrD)

lemma roles_step_change:
  assumes "roles_step E T actor d d'" "d' \<noteq> d"
  shows "\<exists>orgID memID. acts_for actor orgID memID \<and> access_change (grants E (tx_now T) orgID memID d) orgID d d'"
  using assms(1)
proof cases
  case (create_role S M input res evs)
  with assms(2) obtain orgID memID n where
    a: "requireActorScope actor ''roles.create'' = Inr (orgID, memID)"
    and c: "roles_commit S T ''create role transaction'' (InvalidateOrganizationAuthorizationVersion orgID)
      (create_role_tx E S (tx_now T) M actor orgID memID n) d = (res, d', evs)"
    by (auto simp: CreateRole_def chain_eq_Inr split: sum.splits prod.splits)
  have "access_change (grants E (tx_now T) orgID memID d) orgID d d'"
    using c by (rule commit_change) (rule create_role_tx_change)
  with acts_forI [OF a] show ?thesis by (auto simp: roles_scopes_def)
next
  case (update_role S M rawID input res evs)
  with assms(2) obtain orgID memID n i where
    a: "requireActorScope actor ''roles.update'' = Inr (orgID, memID)"
    and c: "roles_commit S T ''update role transaction'' (InvalidateOrganizationAuthorizationVersion orgID)
      (update_role_tx E S (tx_now T) M actor orgID memID i n) d = (res, d', evs)"
    by (auto simp: UpdateRole_def chain_eq_Inr split: sum.splits prod.splits)
  have "access_change (grants E (tx_now T) orgID memID d) orgID d d'"
    using c by (rule commit_change) (rule update_role_tx_change)
  with acts_forI [OF a] show ?thesis by (auto simp: roles_scopes_def)
next
  case (activate_role S M rawID res evs)
  with assms(2) obtain orgID memID i where
    a: "requireActorScope actor ''roles.status.update'' = Inr (orgID, memID)"
    and c: "roles_commit S T ''update role status transaction'' (InvalidateOrganizationAuthorizationVersion orgID)
      (set_role_active_tx E S (tx_now T) M actor orgID memID i True) d = (res, d', evs)"
    by (auto simp: ActivateRole_def setRoleActive_def chain_eq_Inr split: sum.splits prod.splits)
  have "access_change (grants E (tx_now T) orgID memID d) orgID d d'"
    using c by (rule commit_change) (rule set_role_active_tx_change)
  with acts_forI [OF a] show ?thesis by (auto simp: roles_scopes_def)
next
  case (deactivate_role S M rawID res evs)
  with assms(2) obtain orgID memID i where
    a: "requireActorScope actor ''roles.status.update'' = Inr (orgID, memID)"
    and c: "roles_commit S T ''update role status transaction'' (InvalidateOrganizationAuthorizationVersion orgID)
      (set_role_active_tx E S (tx_now T) M actor orgID memID i False) d = (res, d', evs)"
    by (auto simp: DeactivateRole_def setRoleActive_def chain_eq_Inr split: sum.splits prod.splits)
  have "access_change (grants E (tx_now T) orgID memID d) orgID d d'"
    using c by (rule commit_change) (rule set_role_active_tx_change)
  with acts_forI [OF a] show ?thesis by (auto simp: roles_scopes_def)
next
  case (create_binding S now M rawID binput bres evs)
  with assms(2) obtain orgID memID i j st t where
    a: "requireActorScope actor ''roles.assign'' = Inr (orgID, memID)"
    and c: "roles_commit S T ''create role binding transaction'' (InvalidateMembershipAuthorizationVersion i)
      (create_binding_tx E S (tx_now T) M actor orgID memID i j st t) d = (bres, d', evs)"
    by (auto simp: CreateBinding_def chain_eq_Inr split: sum.splits prod.splits)
  have "access_change (grants E (tx_now T) orgID memID d) orgID d d'"
    using c by (rule commit_change) (rule create_binding_tx_change)
  with acts_forI [OF a] show ?thesis by (auto simp: roles_scopes_def)
next
  case (delete_binding S now M rawID rawB ures evs)
  with assms(2) obtain orgID memID i j where
    a: "requireActorScope actor ''roles.assign'' = Inr (orgID, memID)"
    and c: "roles_commit S T ''delete role binding transaction'' (InvalidateMembershipAuthorizationVersion i)
      (delete_binding_tx E S (tx_now T) now M actor orgID i j) d = (ures, d', evs)"
    by (auto simp: DeleteBinding_def chain_eq_Inr split: sum.splits prod.splits)
  have "access_change (grants E (tx_now T) orgID memID d) orgID d d'"
    using c by (rule commit_change) (rule delete_binding_tx_change)
  with acts_forI [OF a] show ?thesis by (auto simp: roles_scopes_def)
qed

section \<open>Changes of a membership\<close>

inductive member_change :: "env \<Rightarrow> uuid \<Rightarrow> auth_db \<Rightarrow> auth_db \<Rightarrow> bool" for E orgID d where
  unchanged: "member_change E orgID d d"
| default_store:
    "member_rewritten (\<lambda>m m'. Mem_Status m' = Mem_Status m) orgID i (au_memberships d) ms \<Longrightarrow>
     member_change E orgID d (d\<lparr>au_memberships := ms, au_audit := a, au_uuid_calls := n\<rparr>)"
| status:
    "membership_of orgID i d = Some m \<Longrightarrow> validTransition (Mem_Status m) st \<Longrightarrow>
     (hasOwnerBinding (ListMemberRoleBindings E orgID i d) now \<and> Mem_Status m = MemACTIVE \<and> st \<noteq> MemACTIVE \<longrightarrow>
        CountActiveOwnersForUpdate txnow orgID d > 1) \<Longrightarrow>
     member_rewritten (\<lambda>m m'. Mem_Status m' = st) orgID i (au_memberships d) ms \<Longrightarrow>
     member_change E orgID d (d\<lparr>au_memberships := ms, au_sessions := ss, au_refresh_tokens := ts,
       au_audit := a, au_uuid_calls := n\<rparr>)"

lemma RevokeSession_frame:
  "RevokeSession now sid userID reason d = Inr (s, d') \<Longrightarrow> \<exists>ss. d' = d\<lparr>au_sessions := ss\<rparr>"
  by (auto simp: RevokeSession_def chain_eq_Inr)

lemma RevokeSessionRefreshTokens_frame:
  "RevokeSessionRefreshTokens now sid d = Inr (us, d') \<Longrightarrow> \<exists>ts. d' = d\<lparr>au_refresh_tokens := ts\<rparr>"
  by (auto simp: RevokeSessionRefreshTokens_def chain_eq_Inr)

lemma revoke_each_frame:
  "revoke_each txnow userID reason ids d = Inr d' \<Longrightarrow> \<exists>ss ts. d' = d\<lparr>au_sessions := ss, au_refresh_tokens := ts\<rparr>"
proof (induction txnow userID reason ids d rule: revoke_each.induct)
  case (1 txnow userID reason d)
  then show ?case by (intro exI [of _ "au_sessions d"] exI [of _ "au_refresh_tokens d"]) simp
next
  case (2 txnow userID reason i ids d)
  let ?r = "RevokeSession txnow i userID reason d :: members_error + _"
  obtain d1 us d2 where
    r: "(case ?r of Inl e \<Rightarrow> if errors_Is_NoRows e then Inr d else Inl (Wrapped ''revoke membership session'' e)
            | Inr (_, d') \<Rightarrow> Inr d') = (Inr d1 :: members_error + _)"
    and t: "RevokeSessionRefreshTokens txnow i d1 = (Inr (us, d2) :: members_error + _)"
    and rest: "revoke_each txnow userID reason ids d2 = Inr d'"
    using "2.prems" by (auto simp: chain_eq_Inr wrap_error_eq_Inr)
  from r have "\<exists>ss. d1 = d\<lparr>au_sessions := ss\<rparr>"
    by (cases ?r) (auto split: if_splits dest: RevokeSession_frame intro: exI [of _ "au_sessions d"])
  moreover from t have "\<exists>ts. d2 = d1\<lparr>au_refresh_tokens := ts\<rparr>" by (rule RevokeSessionRefreshTokens_frame)
  moreover have "\<exists>ss ts. d' = d2\<lparr>au_sessions := ss, au_refresh_tokens := ts\<rparr>"
    using rest by (rule "2.IH")
  ultimately obtain ss ts where "d' = d\<lparr>au_sessions := ss, au_refresh_tokens := ts\<rparr>" by fastforce
  then show ?case by blast
qed

lemma GetMembershipForUpdate_InrD: "getTargetForUpdate orgID i d = Inr m \<Longrightarrow> membership_of orgID i d = Some m"
  by (auto simp: getTargetForUpdate_def GetMembershipForUpdate_def result_simps)

lemma membership_of_SomeD:
  "membership_of orgID i d = Some m \<Longrightarrow> m \<in> set (au_memberships d) \<and> Mem_OrganizationID m = orgID \<and> Mem_ID m = i"
  by (auto simp: membership_of_def dest: find_SomeD)

lemma UpdateMembershipStatus_InrD:
  assumes "UpdateMembershipStatus now st orgID i d = (Inr (m', d') :: 's go_error + _)"
  shows "\<exists>ms. d' = d\<lparr>au_memberships := ms\<rparr> \<and>
    member_rewritten (\<lambda>m m'. Mem_Status m' = st) orgID i (au_memberships d) ms"
  using update_membership_InrD [OF assms [unfolded UpdateMembershipStatus_def]]
  by (auto elim!: member_rewritten_mono)

lemma update_status_tx_InrE:
  assumes "update_status_tx E S txnow now actor orgID i st d = Inr (ids, d')" "d' \<noteq> d"
  obtains m m' d1 d2 P where "membership_of orgID i d = Some m" "validTransition (Mem_Status m) st"
    "\<not> (hasOwnerBinding (ListMemberRoleBindings E orgID i d) now \<and> (Mem_Status m = MemACTIVE \<and> st \<noteq> MemACTIVE) \<and>
        CountActiveOwnersForUpdate txnow orgID d \<le> 1)"
    "UpdateMembershipStatus txnow st orgID i d = (Inr (m', d1) :: members_error + _)"
    "end_sessions E S txnow orgID i (Mem_UserID m) st d1 = Inr (ids, d2)"
    "audit_Write E txnow P d2 = (Inr d' :: members_error + _)"
proof -
  from assms obtain ownerCount m where o: "LockActiveOwnerMembershipsForUpdate txnow orgID d = Inr ownerCount"
    and g: "getTargetForUpdate orgID i d = Inr m" and ne: "Mem_Status m \<noteq> st"
    by (auto simp: update_status_tx_def chain_eq_Inr on_error_eq_Inr split: if_splits)
  from o have "ownerCount = CountActiveOwnersForUpdate txnow orgID d"
    by (auto simp: LockActiveOwnerMembershipsForUpdate_def chain_eq_Inr)
  with assms(1) o g ne that [OF GetMembershipForUpdate_InrD [OF g]] show thesis
    unfolding update_status_tx_def Let_def
    by (simp only: chain_simps on_error_simps if_False if_True simp_thms)
      (simp only: chain_eq_Inr on_error_eq_Inr guard_error_eq_Inr split_paired_Ex case_prod_conv, blast)
qed

lemma end_sessions_frame:
  "end_sessions E S txnow orgID i userID st d = Inr (ids, d') \<Longrightarrow> \<exists>ss ts. d' = d\<lparr>au_sessions := ss, au_refresh_tokens := ts\<rparr>"
proof (cases "st = MemSUSPENDED \<or> st = MemREMOVED")
  case True
  moreover assume "end_sessions E S txnow orgID i userID st d = Inr (ids, d')"
  ultimately show ?thesis
    by (auto simp: end_sessions_def RevokeMembershipSessions_def Let_def chain_eq_Inr on_error_eq_Inr
        dest!: revoke_each_frame)
next
  case False
  moreover assume "end_sessions E S txnow orgID i userID st d = Inr (ids, d')"
  ultimately show ?thesis
    by (intro exI [of _ "au_sessions d"] exI [of _ "au_refresh_tokens d"]) (simp add: end_sessions_def)
qed

lemma update_status_tx_change:
  assumes "update_status_tx E S txnow now actor orgID i st d = Inr (ids, d')"
  shows "member_change E orgID d d'"
proof (cases "d' = d")
  case False
  with assms show ?thesis
  proof (cases rule: update_status_tx_InrE)
    case (1 m m' d1 d2 P)
    from UpdateMembershipStatus_InrD [OF 1(4)] end_sessions_frame [OF 1(5)] audit_Write_InrD [OF 1(6)] obtain ms ss ts a n where
      "d' = d\<lparr>au_memberships := ms, au_sessions := ss, au_refresh_tokens := ts, au_audit := a, au_uuid_calls := n\<rparr>"
      "member_rewritten (\<lambda>m m'. Mem_Status m' = st) orgID i (au_memberships d) ms" by auto
    moreover have "hasOwnerBinding (ListMemberRoleBindings E orgID i d) now \<and> Mem_Status m = MemACTIVE \<and> st \<noteq> MemACTIVE \<longrightarrow>
        CountActiveOwnersForUpdate txnow orgID d > 1" using 1(3) by linarith
    ultimately show ?thesis using member_change.status [OF 1(1,2)] by blast
  qed
qed (simp add: member_change.unchanged)

lemma update_default_store_tx_change:
  assumes "update_default_store_tx E S txnow actor orgID i store d = Inr (ids, d')"
  shows "member_change E orgID d d'"
proof (cases "d' = d")
  case False
  with assms obtain m' d1 P where u: "UpdateMembershipDefaultStore txnow orgID i store d = (Inr (m', d1) :: members_error + _)"
    and w: "audit_Write E txnow P d1 = (Inr d' :: members_error + _)"
    by (auto simp: update_default_store_tx_def chain_eq_Inr on_error_eq_Inr split: if_splits)
  from update_membership_InrD [OF u [unfolded UpdateMembershipDefaultStore_def]] obtain ms where
    "d1 = d\<lparr>au_memberships := ms\<rparr>" "member_rewritten (\<lambda>m m'. m' = m\<lparr>Mem_DefaultStoreID := store,
       Mem_AuthorizationVersion := Mem_AuthorizationVersion m + 1, Mem_UpdatedAt := txnow\<rparr>) orgID i (au_memberships d) ms" by auto
  moreover from this(2) have "member_rewritten (\<lambda>m m'. Mem_Status m' = Mem_Status m) orgID i (au_memberships d) ms"
    by (rule member_rewritten_mono) simp
  ultimately show ?thesis using audit_Write_InrD [OF w] by (auto intro: member_change.default_store)
qed (simp add: member_change.unchanged)

lemma members_commit_cases:
  assumes "members_commit E S T operation orgID i fn d = (res, d', evs)"
  obtains "d' = d" "\<exists>e. res = Inl e" | ids where "fn d = Inr (ids, d')" "res = get_membership E orgID i d'"
  using assms by (auto simp: members_commit_def result_simps split: prod.splits sum.splits dest: Auth_WithTx_Inl)

lemma validateActor_InrD:
  "validateActor actor scope = Inr orgID \<Longrightarrow> MA_OrganizationID actor = Some orgID \<and> scope \<in> set (MA_Scopes actor)"
  by (auto simp: validateActor_def ScopeSet_Has_def split: option.splits if_splits)

lemma members_step_change:
  assumes "members_step E T actor d d'"
  shows "\<exists>orgID. member_change E orgID d d'"
  using assms
proof cases
  case (update_status S now rawID st res evs)
  show ?thesis
  proof (cases "d' = d")
    case False
    with update_status obtain orgID i status where
      "members_commit E S T ''update membership status'' orgID i (update_status_tx E S (tx_now T) now actor orgID i status) d =
         (res, d', evs)"
      by (auto simp: UpdateStatus_def chain_eq_Inr split: sum.splits prod.splits)
    with False show ?thesis by (auto elim!: members_commit_cases dest: update_status_tx_change)
  qed (auto intro: member_change.unchanged)
next
  case (update_default_store S rawID store res evs)
  show ?thesis
  proof (cases "d' = d")
    case False
    with update_default_store obtain orgID i sid where
      "members_commit E S T ''update membership default store'' orgID i (update_default_store_tx E S (tx_now T) actor orgID i sid) d =
         (res, d', evs)"
      by (auto simp: UpdateDefaultStore_def chain_eq_Inr split: sum.splits prod.splits)
    with False show ?thesis by (auto elim!: members_commit_cases dest: update_default_store_tx_change)
  qed (auto intro: member_change.unchanged)
qed

section \<open>Owners\<close>

text \<open>A membership, a binding and a role that make the membership an owner of the organization.\<close>

definition owner_support :: "auth_db \<Rightarrow> uuid \<Rightarrow> uuid \<Rightarrow> role_binding \<Rightarrow> role \<Rightarrow> bool" where
  "owner_support d orgID x b r \<longleftrightarrow>
     (\<exists>m \<in> set (au_memberships d). Mem_OrganizationID m = orgID \<and> Mem_ID m = x \<and> Mem_Status m = MemACTIVE) \<and>
     b \<in> set (au_bindings d) \<and> Bind_OrganizationID b = orgID \<and> Bind_MembershipID b = x \<and> Bind_StoreID b = None \<and>
     r \<in> set (au_roles d) \<and> Role_OrganizationID r = orgID \<and> Role_ID r = Bind_RoleID b \<and> owner_role r \<and> Role_IsActive r"

definition owners_permanent :: "auth_db \<Rightarrow> bool" where
  "owners_permanent d \<longleftrightarrow> (\<forall>b \<in> set (au_bindings d). \<forall>r.
     role_of (Bind_OrganizationID b) (Bind_RoleID b) d = Some r \<longrightarrow> owner_role r \<longrightarrow> Bind_ExpiresAt b = None)"

definition bindings_refer :: "auth_db \<Rightarrow> bool" where
  "bindings_refer d \<longleftrightarrow> (\<forall>b \<in> set (au_bindings d). role_of (Bind_OrganizationID b) (Bind_RoleID b) d \<noteq> None)"

definition access_wf :: "auth_db \<Rightarrow> bool" where
  "access_wf d \<longleftrightarrow> roles.unique d \<and> bindings.unique d \<and> memberships.unique d \<and> owners_permanent d \<and> bindings_refer d"

lemma role_of_SomeD:
  "role_of orgID i d = Some r \<Longrightarrow> r \<in> set (au_roles d) \<and> Role_OrganizationID r = orgID \<and> Role_ID r = i"
  by (auto simp: role_of_def dest: find_SomeD)

lemma role_of_unique:
  assumes "roles.unique d" "r \<in> set (au_roles d)" "Role_OrganizationID r = orgID" "Role_ID r = i"
  shows "role_of orgID i d = Some r"
proof -
  have "role_of orgID i d \<noteq> None" using assms(2-4) by (auto simp: role_of_def find_None_iff)
  then obtain r' where r': "role_of orgID i d = Some r'" by blast
  with role_of_SomeD [OF this] assms have "r' = r" by (auto intro: roles.unique_inj)
  with r' show ?thesis by simp
qed

lemma membership_of_unique:
  assumes "memberships.unique d" "m \<in> set (au_memberships d)" "Mem_OrganizationID m = orgID" "Mem_ID m = i"
  shows "membership_of orgID i d = Some m"
proof -
  have "membership_of orgID i d \<noteq> None" using assms(2-4) by (auto simp: membership_of_def find_None_iff)
  then obtain m' where m': "membership_of orgID i d = Some m'" by blast
  with membership_of_SomeD [OF this] assms have "m' = m" by (auto intro: memberships.unique_inj)
  with m' show ?thesis by simp
qed

lemma support_permanent:
  "access_wf d \<Longrightarrow> owner_support d orgID x b r \<Longrightarrow> Bind_ExpiresAt b = None"
  unfolding access_wf_def owners_permanent_def owner_support_def by (auto dest!: role_of_unique)

lemma set_join3:
  "x \<in> set [f m. m \<leftarrow> ms, b \<leftarrow> bs, r \<leftarrow> rs, P m b r] \<longleftrightarrow>
     (\<exists>m \<in> set ms. \<exists>b \<in> set bs. \<exists>r \<in> set rs. P m b r \<and> x = f m)"
  by (simp add: disjoint_iff) blast

lemma set_owner_memberships:
  assumes "access_wf d"
  shows "set (owner_memberships now orgID d) = {x. \<exists>b r. owner_support d orgID x b r}"
proof -
  have "x \<in> set (owner_memberships now orgID d) \<longleftrightarrow> (\<exists>b r. owner_support d orgID x b r \<and> unexpired now (Bind_ExpiresAt b))" for x
    unfolding owner_memberships_def owner_support_def owner_role_def set_remdups set_join3 by (intro iffI; fastforce)
  with support_permanent [OF assms] show ?thesis by (fastforce simp: unexpired_def)
qed

lemma distinct_owner_memberships: "distinct (owner_memberships now orgID d)"
  by (simp only: owner_memberships_def distinct_remdups)

lemma another_owner:
  assumes "access_wf d" "CountActiveOwnersForUpdate now orgID d > 1"
  shows "\<exists>x b r. x \<noteq> i \<and> owner_support d orgID x b r"
proof -
  have "card (set (owner_memberships now orgID d)) > 1"
    using assms(2) distinct_owner_memberships [of now orgID d]
    by (simp add: CountActiveOwnersForUpdate_def distinct_card)
  then obtain x where "x \<in> set (owner_memberships now orgID d)" "x \<noteq> i"
    by (metis card_le_Suc0_iff_eq List.finite_set One_nat_def not_le)
  then show ?thesis using set_owner_memberships [OF assms(1)] by auto
qed

text \<open>An owner survives a change of the tables that keeps its three rows.\<close>

lemma owner_support_kept:
  assumes "owner_support d orgID x b r"
    and "\<And>m. m \<in> set (au_memberships d) \<Longrightarrow> Mem_OrganizationID m = orgID \<Longrightarrow> Mem_ID m = x \<Longrightarrow> Mem_Status m = MemACTIVE \<Longrightarrow>
      \<exists>m' \<in> set (au_memberships d'). Mem_OrganizationID m' = orgID \<and> Mem_ID m' = x \<and> Mem_Status m' = MemACTIVE"
    and "r \<in> set (au_roles d')" "b' \<in> set (au_bindings d')" "Bind_OrganizationID b' = Bind_OrganizationID b"
      "Bind_MembershipID b' = Bind_MembershipID b" "Bind_RoleID b' = Bind_RoleID b" "Bind_StoreID b' = Bind_StoreID b"
  shows "owner_support d' orgID x b' r"
  using assms unfolding owner_support_def by auto

lemma member_rewritten_row:
  assumes "member_rewritten P orgID i ms ms'" "m \<in> set ms"
  shows "m \<in> set ms' \<or> (Mem_OrganizationID m = orgID \<and> Mem_ID m = i \<and>
    (\<exists>m' \<in> set ms'. Mem_OrganizationID m' = orgID \<and> Mem_ID m' = i \<and> P m m'))"
  using assms by (auto simp: member_rewritten_def)

lemma same_status_row:
  assumes "member_rewritten (\<lambda>m m'. Mem_Status m' = Mem_Status m) orgID i ms ms'" "m \<in> set ms"
  shows "\<exists>m' \<in> set ms'. Mem_OrganizationID m' = Mem_OrganizationID m \<and> Mem_ID m' = Mem_ID m \<and> Mem_Status m' = Mem_Status m"
  using member_rewritten_row [OF assms] assms(2) by auto

lemma owner_support_same_status:
  assumes "owner_support d orgID x b r"
    and rw: "member_rewritten (\<lambda>m m'. Mem_Status m' = Mem_Status m) o' i (au_memberships d) (au_memberships d')"
    and "au_roles d' = au_roles d" "b' \<in> set (au_bindings d')" "Bind_OrganizationID b' = Bind_OrganizationID b"
      "Bind_MembershipID b' = Bind_MembershipID b" "Bind_RoleID b' = Bind_RoleID b" "Bind_StoreID b' = Bind_StoreID b"
  shows "owner_support d' orgID x b' r"
proof (rule owner_support_kept [OF assms(1)])
  fix m assume m: "m \<in> set (au_memberships d)" "Mem_OrganizationID m = orgID" "Mem_ID m = x" "Mem_Status m = MemACTIVE"
  from same_status_row [OF rw m(1)] m(2-4)
  show "\<exists>m' \<in> set (au_memberships d'). Mem_OrganizationID m' = orgID \<and> Mem_ID m' = x \<and> Mem_Status m' = MemACTIVE" by simp
qed (use assms in \<open>auto simp: owner_support_def\<close>)

lemma system_role_row:
  "role_rewritten P orgID i rs rs' \<Longrightarrow> Role_IsSystem r \<Longrightarrow> r \<in> set rs' \<longleftrightarrow> r \<in> set rs"
  by (auto simp: role_rewritten_def)

lemma deleted_binding_role:
  assumes "access_wf d" "b \<in> set (au_bindings d)" "r \<in> set (au_roles d)" "Role_OrganizationID r = Bind_OrganizationID b" "Role_ID r = Bind_RoleID b"
    and "GetRoleBindingForOrganization (Bind_OrganizationID b) (Bind_MembershipID b) (Bind_ID b) d = (Inr (b', r') :: 's go_error + _)"
  shows "b' = b" "r' = r"
proof -
  have "(b', r') \<in> set (bound_roles (\<lambda>q. Bind_OrganizationID q = Bind_OrganizationID b \<and> Bind_MembershipID q = Bind_MembershipID b \<and>
      Bind_ID q = Bind_ID b) d)"
    using assms(6) by (auto simp: GetRoleBindingForOrganization_def one_row_eq_Inr dest: find_SomeD)
  then have *: "b' \<in> set (au_bindings d)" "r' \<in> set (au_roles d)" "Bind_ID b' = Bind_ID b" "Role_ID r' = Bind_RoleID b'"
    by (auto simp: bound_roles_def)
  with assms(1,2) show "b' = b" by (auto simp: access_wf_def intro: bindings.unique_inj)
  with * assms(1,3,5) show "r' = r" by (auto simp: access_wf_def intro: roles.unique_inj)
qed

lemma change_keeps_owner:
  assumes "access_change G orgID d d'" "access_wf d" "owner_support d q x b r"
  shows "\<exists>x b r. owner_support d' q x b r"
  using assms(1)
proof cases
  case unchanged
  with assms(3) show ?thesis by blast
next
  case (role_created r')
  with owner_support_kept [OF assms(3), of d' b] assms(3) have "owner_support d' q x b r" by (auto simp: owner_support_def)
  then show ?thesis by blast
next
  case (role_updated roleID rs)
  have "r \<in> set rs" using system_role_row [OF role_updated(2), of r] assms(3) by (simp add: owner_support_def owner_role_def)
  with owner_support_kept [OF assms(3), of d' b] assms(3) role_updated(1) have "owner_support d' q x b r"
    by (auto simp: owner_support_def)
  then show ?thesis by blast
next
  case (role_switched active roleID rs)
  have "r \<in> set rs" using system_role_row [OF role_switched(2), of r] assms(3) by (simp add: owner_support_def owner_role_def)
  with owner_support_kept [OF assms(3), of d' b] assms(3) role_switched(1) have "owner_support d' q x b r"
    by (auto simp: owner_support_def)
  then show ?thesis by blast
next
  case (binding_added b' r' ms)
  have "owner_support d' q x b r"
    by (rule owner_support_same_status [OF assms(3)])
      (use binding_added assms(3) in \<open>auto simp: owner_support_def split: if_splits\<close>)
  then show ?thesis by blast
next
  case (binding_replaced pre old post b' t c r' ms)
  define b2 where "b2 = (if b = old then b' else b)"
  have "owner_support d' q x b2 r"
    by (rule owner_support_same_status [OF assms(3)])
      (use binding_replaced assms(3) in \<open>auto simp: owner_support_def b2_def split: if_splits\<close>)
  then show ?thesis by blast
next
  case (binding_deleted pre b' post b'' r' m now txnow ms)
  have other: "\<exists>x b r. owner_support d' q x b r" if "owner_support d q y c s" "c \<noteq> b'" for y c s
  proof -
    have "owner_support d' q y c s"
      by (rule owner_support_same_status [OF that(1)])
        (use binding_deleted(1,2,7) that in \<open>auto simp: owner_support_def\<close>)
    then show ?thesis by blast
  qed
  show ?thesis
  proof (cases "b = b'")
    case False
    with assms(3) other show ?thesis by blast
  next
    case True
    with assms(3) binding_deleted(3) have q: "q = orgID" "x = Bind_MembershipID b'" by (auto simp: owner_support_def)
    have role: "b'' = b'" "r' = r"
      using deleted_binding_role [OF assms(2), of b' r b'' r', where 's = roles_sentinel] binding_deleted(2-4) assms(3) True
      by (auto simp: owner_support_def)
    obtain m0 where m0: "m0 \<in> set (au_memberships d)" "Mem_OrganizationID m0 = orgID" "Mem_ID m0 = x" "Mem_Status m0 = MemACTIVE"
      using assms(3) q by (auto simp: owner_support_def)
    then have "m = m0"
      using membership_of_unique [of d m0 orgID x] binding_deleted(5) assms(2) q by (auto simp: access_wf_def)
    with role m0 binding_deleted(6) assms(3) support_permanent [OF assms(2,3)] True
    have "CountActiveOwnersForUpdate txnow orgID d > 1" by (auto simp: owner_support_def unexpired_def)
    from another_owner [OF assms(2) this] obtain y c s where "y \<noteq> x" "owner_support d orgID y c s" by blast
    with other q show ?thesis by (fastforce simp: owner_support_def)
  qed
qed

lemma member_change_keeps_owner:
  assumes "member_change E orgID d d'" "access_wf d" "owner_support d q x b r"
  shows "\<exists>x b r. owner_support d' q x b r"
  using assms(1)
proof cases
  case unchanged
  with assms(3) show ?thesis by blast
next
  case (default_store i ms)
  have "owner_support d' q x b r"
    by (rule owner_support_same_status [OF assms(3)])
      (use default_store assms(3) in \<open>auto simp: owner_support_def split: if_splits\<close>)
  then show ?thesis by blast
next
  case (status i m st now txnow ms)
  have other: "\<exists>x b r. owner_support d' q x b r" if s: "owner_support d q y c s" "(q, y) \<noteq> (orgID, i) \<or> st = MemACTIVE" for y c s
  proof -
    have "\<exists>m' \<in> set ms. Mem_OrganizationID m' = q \<and> Mem_ID m' = y \<and> Mem_Status m' = MemACTIVE"
      if "m \<in> set (au_memberships d)" "Mem_OrganizationID m = q" "Mem_ID m = y" "Mem_Status m = MemACTIVE" for m
      using member_rewritten_row [OF status(5) that(1)] that s(2) by auto
    then have "owner_support d' q y c s"
      by (intro owner_support_kept [OF s(1)]) (use status(1) s(1) in \<open>auto simp: owner_support_def\<close>)
    then show ?thesis by blast
  qed
  show ?thesis
  proof (cases "(q, x) \<noteq> (orgID, i) \<or> st = MemACTIVE")
    case True
    with other assms(3) show ?thesis by blast
  next
    case False
    then have q: "q = orgID" "x = i" "st \<noteq> MemACTIVE" by auto
    obtain m0 where m0: "m0 \<in> set (au_memberships d)" "Mem_OrganizationID m0 = orgID" "Mem_ID m0 = i" "Mem_Status m0 = MemACTIVE"
      using assms(3) q by (auto simp: owner_support_def)
    then have "m = m0"
      using membership_of_unique [of d m0 orgID i] status(2) assms(2) by (auto simp: access_wf_def)
    moreover have "hasOwnerBinding (ListMemberRoleBindings E orgID i d) now"
      using assms(3) support_permanent [OF assms(2,3)] q
      by (fastforce simp: hasOwnerBinding_def ListMemberRoleBindings_def list_ex_iff bound_roles_def owner_support_def
          owner_role_def unexpired_def)
    ultimately have "CountActiveOwnersForUpdate txnow orgID d > 1" using status(4) q m0 by blast
    from another_owner [OF assms(2) this] obtain y c s where "y \<noteq> i" "owner_support d orgID y c s" by blast
    with other q show ?thesis by blast
  qed
qed

section \<open>The invariant is kept\<close>

lemma role_of_rewritten:
  assumes "role_rewritten P orgID i (au_roles d) rs" "roles.unique d"
  shows "map Role_ID rs = map Role_ID (au_roles d)"
    "role_of q j (d\<lparr>au_roles := rs\<rparr>) = Some r \<Longrightarrow> owner_role r \<Longrightarrow> role_of q j d = Some r"
    "role_of q j d \<noteq> None \<Longrightarrow> role_of q j (d\<lparr>au_roles := rs\<rparr>) \<noteq> None"
proof -
  show ids: "map Role_ID rs = map Role_ID (au_roles d)" using assms(1) by (auto simp: role_rewritten_def)
  show "role_of q j d = Some r" if "role_of q j (d\<lparr>au_roles := rs\<rparr>) = Some r" "owner_role r"
  proof (rule role_of_unique [OF assms(2)])
    from role_of_SomeD [OF that(1)] that(2) system_role_row [OF assms(1), of r]
    show "r \<in> set (au_roles d)" "Role_OrganizationID r = q" "Role_ID r = j" by (auto simp: owner_role_def)
  qed
  show "role_of q j (d\<lparr>au_roles := rs\<rparr>) \<noteq> None" if "role_of q j d \<noteq> None"
  proof -
    from that obtain r where "r \<in> set (au_roles d)" "Role_OrganizationID r = q" "Role_ID r = j"
      by (auto dest!: role_of_SomeD)
    then have "\<exists>r \<in> set rs. Role_OrganizationID r = q \<and> Role_ID r = j"
      using assms(1) by (auto simp: role_rewritten_def)
    then show ?thesis by (auto simp: role_of_def find_None_iff)
  qed
qed

lemma member_rewritten_ids: "member_rewritten P orgID i ms ms' \<Longrightarrow> map Mem_ID ms' = map Mem_ID ms"
  by (auto simp: member_rewritten_def)

lemma access_wf_cong:
  assumes "access_wf d" "au_roles d' = au_roles d" "au_bindings d' = au_bindings d"
    "map Mem_ID (au_memberships d') = map Mem_ID (au_memberships d)"
  shows "access_wf d'"
proof -
  have "role_of q j d' = role_of q j d" for q j by (simp add: role_of_def assms(2))
  with assms show ?thesis
    by (simp add: access_wf_def roles.unique_def bindings.unique_def memberships.unique_def owners_permanent_def
        bindings_refer_def)
qed

lemma access_wf_roles:
  assumes "access_wf d" "role_rewritten P orgID i (au_roles d) rs"
  shows "access_wf (d\<lparr>au_roles := rs\<rparr>)"
proof -
  have u: "roles.unique d" using assms(1) by (simp add: access_wf_def)
  note rw = role_of_rewritten [OF assms(2) u]
  have "owners_permanent (d\<lparr>au_roles := rs\<rparr>)"
    using assms(1) rw(2) unfolding access_wf_def owners_permanent_def by fastforce
  moreover have "bindings_refer (d\<lparr>au_roles := rs\<rparr>)"
    using assms(1) rw(3) unfolding access_wf_def bindings_refer_def by fastforce
  ultimately show ?thesis using assms(1) rw(1)
    by (simp add: access_wf_def roles.unique_def bindings.unique_def memberships.unique_def)
qed

lemma access_wf_role_added:
  assumes "access_wf d" "List.find (\<lambda>q. Role_ID q = Role_ID r) (au_roles d) = None"
  shows "access_wf (d\<lparr>au_roles := au_roles d @ [r]\<rparr>)"
proof -
  have keep: "role_of q j (d\<lparr>au_roles := au_roles d @ [r]\<rparr>) = role_of q j d" if "role_of q j d \<noteq> None" for q j
    using that by (auto simp: role_of_def find_append)
  have "owners_permanent (d\<lparr>au_roles := au_roles d @ [r]\<rparr>)" "bindings_refer (d\<lparr>au_roles := au_roles d @ [r]\<rparr>)"
    using assms(1) keep unfolding access_wf_def owners_permanent_def bindings_refer_def by simp_all
  moreover have "roles.unique (d\<lparr>au_roles := au_roles d @ [r]\<rparr>)"
    using roles.unique_insert [OF _ assms(2), of d] assms(1) by (simp add: access_wf_def)
  ultimately show ?thesis using assms(1)
    by (simp add: access_wf_def bindings.unique_def memberships.unique_def)
qed

lemma access_wf_bindings:
  assumes "access_wf d" "distinct (map Bind_ID bs)"
    and "\<And>b. b \<in> set bs \<Longrightarrow> b \<in> set (au_bindings d) \<or>
      (\<exists>r. role_of (Bind_OrganizationID b) (Bind_RoleID b) d = Some r \<and> (owner_role r \<longrightarrow> Bind_ExpiresAt b = None))"
  shows "access_wf (d\<lparr>au_bindings := bs\<rparr>)"
proof -
  have *: "role_of q j (d\<lparr>au_bindings := bs\<rparr>) = role_of q j d" for q j by (simp add: role_of_def)
  have "owners_permanent (d\<lparr>au_bindings := bs\<rparr>)" "bindings_refer (d\<lparr>au_bindings := bs\<rparr>)"
    using assms(1,3) unfolding access_wf_def owners_permanent_def bindings_refer_def * by fastforce+
  with assms(1,2) show ?thesis
    by (simp add: access_wf_def roles.unique_def bindings.unique_def memberships.unique_def)
qed

lemma change_wf:
  assumes "access_change G orgID d d'" "access_wf d"
  shows "access_wf d'"
  using assms(1)
proof cases
  case unchanged
  with assms(2) show ?thesis by simp
next
  case (role_created r)
  show ?thesis by (rule access_wf_cong [OF access_wf_role_added [OF assms(2) role_created(2)]]) (simp_all add: role_created(1))
next
  case (role_updated roleID rs)
  show ?thesis by (rule access_wf_cong [OF access_wf_roles [OF assms(2) role_updated(2)]]) (simp_all add: role_updated(1))
next
  case (role_switched active roleID rs)
  show ?thesis by (rule access_wf_cong [OF access_wf_roles [OF assms(2) role_switched(2)]]) (simp_all add: role_switched(1))
next
  case (binding_added b r ms)
  have "access_wf (d\<lparr>au_bindings := au_bindings d @ [b]\<rparr>)"
    by (rule access_wf_bindings [OF assms(2)])
      (use assms(2) binding_added(2-5) in \<open>auto simp: access_wf_def bindings.unique_def\<close>)
  then show ?thesis
    by (rule access_wf_cong) (simp_all add: binding_added(1) member_rewritten_ids [OF binding_added(7)])
next
  case (binding_replaced pre old post b t c r ms)
  have "access_wf (d\<lparr>au_bindings := pre @ b # post\<rparr>)"
    by (rule access_wf_bindings [OF assms(2)])
      (use assms(2) binding_replaced(2-6) in \<open>auto simp: access_wf_def bindings.unique_def\<close>)
  then show ?thesis
    by (rule access_wf_cong) (simp_all add: binding_replaced(1) member_rewritten_ids [OF binding_replaced(8)])
next
  case (binding_deleted pre b post b' r m now txnow ms)
  have "access_wf (d\<lparr>au_bindings := pre @ post\<rparr>)"
    by (rule access_wf_bindings [OF assms(2)])
      (use assms(2) binding_deleted(2) in \<open>auto simp: access_wf_def bindings.unique_def\<close>)
  then show ?thesis
    by (rule access_wf_cong) (simp_all add: binding_deleted(1) member_rewritten_ids [OF binding_deleted(7)])
qed

lemma member_change_wf:
  assumes "member_change E orgID d d'" "access_wf d"
  shows "access_wf d'"
  using assms(1)
proof cases
  case unchanged
  with assms(2) show ?thesis by simp
next
  case (default_store i ms)
  show ?thesis
    by (rule access_wf_cong [OF assms(2)]) (simp_all add: default_store(1) member_rewritten_ids [OF default_store(2)])
next
  case (status i m st now txnow ms)
  show ?thesis
    by (rule access_wf_cong [OF assms(2)]) (simp_all add: status(1) member_rewritten_ids [OF status(5)])
qed

text \<open>What every step keeps.\<close>

lemma access_step_cases:
  assumes "access_step E d d'"
  obtains G orgID where "access_change G orgID d d'" | orgID where "member_change E orgID d d'"
  using assms
proof cases
  case (1 T actor)
  with roles_step_change [OF this] that(1) show ?thesis by (cases "d' = d") (auto intro: access_change.unchanged)
next
  case (2 T mactor)
  with members_step_change [OF this] that(2) show ?thesis by blast
qed

lemma access_steps_owner:
  assumes "rtranclp (access_step E) d d'" "access_wf d" "owner_support d q x b r"
  shows "access_wf d' \<and> (\<exists>x b r. owner_support d' q x b r)"
  using assms
proof (induction rule: rtranclp_induct)
  case (step y z)
  then obtain x b r where y: "access_wf y" "owner_support y q x b r" by blast
  from step.hyps(2) show ?case
    by (cases rule: access_step_cases)
      (use y in \<open>auto intro: change_wf member_change_wf change_keeps_owner member_change_keeps_owner\<close>)
qed blast

section \<open>What a member may do\<close>

text \<open>The scopes a member holds in a context; none when the context is not valid.\<close>

definition effective_codes ::
    "env \<Rightarrow> time \<Rightarrow> auth_context_kind \<Rightarrow> uuid option \<Rightarrow> uuid \<Rightarrow> uuid \<Rightarrow> uuid \<Rightarrow> auth_db \<Rightarrow> string set" where
  "effective_codes E now kind storeID q mem user d =
     (case ResolveEffectiveScopes E now kind storeID q mem user d :: roles_error + _ of
        Inl _ \<Rightarrow> {} | Inr (_, codes) \<Rightarrow> set codes)"

definition grants_code :: "time \<Rightarrow> auth_context_kind \<Rightarrow> uuid option \<Rightarrow> uuid \<Rightarrow> uuid \<Rightarrow> string \<Rightarrow> auth_db \<Rightarrow> bool" where
  "grants_code now kind storeID q mem c d \<longleftrightarrow>
     (\<exists>b \<in> set (au_bindings d). \<exists>r \<in> set (au_roles d).
        Bind_OrganizationID b = q \<and> Bind_MembershipID b = mem \<and> Role_OrganizationID r = q \<and> Role_ID r = Bind_RoleID b \<and>
        Role_IsActive r \<and> unexpired now (Bind_ExpiresAt b) \<and> binding_in_context kind storeID b r \<and>
        c \<in> scope_codes q (Role_ID r) (au_role_scopes d))"

definition code_in_context :: "auth_context_kind \<Rightarrow> string \<Rightarrow> auth_db \<Rightarrow> bool" where
  "code_in_context kind c d \<longleftrightarrow>
     (\<exists>ps \<in> set (au_scopes d). Scope_Code ps = c \<and> (kind = CtxSTORE \<or> Scope_Level ps = LevelORGANIZATION))"

lemma set_bound_roles:
  "(b, r) \<in> set (bound_roles p d) \<longleftrightarrow> b \<in> set (au_bindings d) \<and> r \<in> set (au_roles d) \<and>
     Role_OrganizationID r = Bind_OrganizationID b \<and> Role_ID r = Bind_RoleID b \<and> p b"
  by (auto simp: bound_roles_def)

lemma effective_codes_iff:
  "c \<in> effective_codes E now kind storeID q mem user d \<longleftrightarrow>
     valid_context kind storeID q mem user d \<and> grants_code now kind storeID q mem c d \<and> code_in_context kind c d"
proof (cases "valid_context kind storeID q mem user d")
  case False
  then show ?thesis by (simp add: effective_codes_def ResolveEffectiveScopes_def)
next
  case True
  have roles: "r \<in> set (effective_roles now kind storeID q mem d) \<longleftrightarrow>
     (\<exists>b \<in> set (au_bindings d). r \<in> set (au_roles d) \<and> Bind_OrganizationID b = q \<and> Bind_MembershipID b = mem \<and>
        Role_OrganizationID r = q \<and> Role_ID r = Bind_RoleID b \<and> Role_IsActive r \<and> unexpired now (Bind_ExpiresAt b) \<and>
        binding_in_context kind storeID b r)" for r
    by (force simp: effective_roles_def set_bound_roles)
  have "c \<in> effective_codes E now kind storeID q mem user d \<longleftrightarrow>
     (\<exists>r \<in> set (effective_roles now kind storeID q mem d). \<exists>rs \<in> set (au_role_scopes d). \<exists>ps \<in> set (au_scopes d).
        (RS_OrganizationID rs = Role_OrganizationID r \<and> RS_RoleID rs = Role_ID r \<and> Scope_Code ps = RS_ScopeCode rs \<and>
         (kind = CtxSTORE \<or> Scope_Level ps = LevelORGANIZATION)) \<and> c = RS_ScopeCode rs)"
    using True unfolding effective_codes_def ResolveEffectiveScopes_def Let_def guard_error_def chain_def
    by (simp only: if_True sum.case prod.case set_sort set_remdups) (simp add: disjoint_iff, blast)
  also have "\<dots> \<longleftrightarrow> grants_code now kind storeID q mem c d \<and> code_in_context kind c d"
    unfolding Bex_def roles grants_code_def code_in_context_def scope_codes_def by (intro iffI; fastforce)
  finally show ?thesis using True by simp
qed

lemma valid_context_back:
  assumes "valid_context kind storeID q mem user d'"
    and "au_users d' = au_users d" "au_stores d' = au_stores d"
    and "\<And>m'. m' \<in> set (au_memberships d') \<Longrightarrow> \<exists>m \<in> set (au_memberships d). Mem_OrganizationID m = Mem_OrganizationID m' \<and>
      Mem_ID m = Mem_ID m' \<and> Mem_UserID m = Mem_UserID m' \<and> Mem_Status m = Mem_Status m'"
    and "\<And>g'. g' \<in> set (au_organizations d') \<Longrightarrow> \<exists>g \<in> set (au_organizations d). Org_ID g = Org_ID g' \<and> Org_Status g = Org_Status g'"
  shows "valid_context kind storeID q mem user d"
proof -
  have *: "store_of q s d' = store_of q s d" for s by (simp add: store_of_def assms(3))
  show ?thesis using assms(1,2) assms(4,5)
    unfolding valid_context_def list_ex_iff * by (cases kind) (simp_all, metis+)
qed

lemma org_raised_back:
  assumes "org_raised orgID gs gs'" "g' \<in> set gs'"
  shows "\<exists>g \<in> set gs. Org_ID g = Org_ID g' \<and> Org_Status g = Org_Status g'"
  using assms by (auto simp: org_raised_def dest!: all2_member)

lemma same_status_back:
  assumes "member_rewritten (\<lambda>m m'. Mem_Status m' = Mem_Status m) orgID i ms ms'" "m' \<in> set ms'"
  shows "\<exists>m \<in> set ms. Mem_OrganizationID m = Mem_OrganizationID m' \<and> Mem_ID m = Mem_ID m' \<and> Mem_UserID m = Mem_UserID m' \<and>
    Mem_Status m = Mem_Status m'"
  using assms by (auto simp: member_rewritten_def)

lemma change_valid_context:
  assumes "access_change G orgID d d'" "valid_context kind storeID q mem user d'"
  shows "valid_context kind storeID q mem user d"
  using assms(1)
  by cases (rule valid_context_back [OF assms(2)]; auto dest: org_raised_back same_status_back)+

lemma grants_codeE:
  assumes "grants_code now kind storeID q mem c d"
  obtains b r where "b \<in> set (au_bindings d)" "r \<in> set (au_roles d)" "Bind_OrganizationID b = q" "Bind_MembershipID b = mem"
    "Role_OrganizationID r = q" "Role_ID r = Bind_RoleID b" "Role_IsActive r" "unexpired now (Bind_ExpiresAt b)"
    "binding_in_context kind storeID b r" "c \<in> scope_codes q (Role_ID r) (au_role_scopes d)"
  using assms unfolding grants_code_def by blast

lemma change_grants:
  assumes "access_change G orgID d d'" "grants_code now kind storeID q mem c d'"
  shows "grants_code now kind storeID q mem c d \<or> c \<in> G"
proof -
  from assms(2) obtain b r where br: "b \<in> set (au_bindings d')" "r \<in> set (au_roles d')" "Bind_OrganizationID b = q"
    "Bind_MembershipID b = mem" "Role_OrganizationID r = q" "Role_ID r = Bind_RoleID b" "Role_IsActive r"
    "unexpired now (Bind_ExpiresAt b)" "binding_in_context kind storeID b r"
    "c \<in> scope_codes q (Role_ID r) (au_role_scopes d')" by (rule grants_codeE)
  have old: "grants_code now kind storeID q mem c d"
    if "b \<in> set (au_bindings d)" "r \<in> set (au_roles d)" "c \<in> scope_codes q (Role_ID r) (au_role_scopes d)"
    using that br unfolding grants_code_def by blast
  from assms(1) show ?thesis
  proof cases
    case unchanged
    with assms(2) show ?thesis by simp
  next
    case (role_created r0 codes X)
    show ?thesis
    proof (cases "(q, Role_ID r) = (orgID, Role_ID r0)")
      case True
      with br(10) role_created show ?thesis by (auto simp: scopes_replaced_def)
    next
      case False
      with br role_created have "r \<in> set (au_roles d)" "b \<in> set (au_bindings d)" by auto
      with False br(10) role_created old show ?thesis by (auto simp: scopes_replaced_def)
    qed
  next
    case (role_updated i rs codes X)
    show ?thesis
    proof (cases "(q, Role_ID r) = (orgID, i)")
      case True
      with br(10) role_updated show ?thesis by (auto simp: scopes_replaced_def)
    next
      case False
      with br role_updated have "r \<in> set (au_roles d)" "b \<in> set (au_bindings d)" by (auto simp: role_rewritten_def)
      with False br(10) role_updated old show ?thesis by (auto simp: scopes_replaced_def)
    qed
  next
    case (role_switched active i rs)
    show ?thesis
    proof (cases "r \<in> set (au_roles d)")
      case True
      with br(1,10) role_switched(1) old show ?thesis by simp
    next
      case False
      with br(2) role_switched(1,2) have "Role_OrganizationID r = orgID" "Role_ID r = i" "Role_IsActive r = active"
        by (auto simp: role_rewritten_def)
      with br role_switched show ?thesis by auto
    qed
  next
    case (binding_added b0 r0)
    then show ?thesis using old br by auto
  next
    case (binding_replaced pre old' post b0)
    then show ?thesis using old br by auto
  next
    case (binding_deleted pre b0 post)
    then show ?thesis using old br by auto
  qed
qed

lemma change_scopes: "access_change G orgID d d' \<Longrightarrow> au_scopes d' = au_scopes d"
  by (cases rule: access_change.cases) auto

lemma change_no_escalation:
  assumes "access_change G orgID d d'"
  shows "effective_codes E now kind storeID q mem user d' \<subseteq> effective_codes E now kind storeID q mem user d \<union> G"
proof
  fix c assume "c \<in> effective_codes E now kind storeID q mem user d'"
  with change_valid_context [OF assms, of kind storeID q mem user] change_grants [OF assms, of now kind storeID q mem c]
    change_scopes [OF assms]
  show "c \<in> effective_codes E now kind storeID q mem user d \<union> G"
    by (simp add: effective_codes_iff code_in_context_def)
qed

section \<open>Versions\<close>

definition org_version :: "uuid \<Rightarrow> auth_db \<Rightarrow> int option" where
  "org_version q d = map_option Org_AuthorizationVersion (List.find (\<lambda>g. Org_ID g = q) (au_organizations d))"

definition member_version :: "uuid \<Rightarrow> uuid \<Rightarrow> auth_db \<Rightarrow> int option" where
  "member_version q i d = map_option Mem_AuthorizationVersion (membership_of q i d)"

lemma org_raised_version:
  assumes "org_raised orgID (au_organizations d) (au_organizations d')"
  shows "org_version orgID d' \<noteq> org_version orgID d"
  using assms by (auto simp: org_raised_def org_version_def)

lemma member_rewritten_version:
  assumes "member_rewritten P q i (au_memberships d) (au_memberships d')"
  shows "member_version q i d' \<noteq> member_version q i d"
proof -
  from assms obtain pre m m' post where s: "au_memberships d = pre @ m # post" "au_memberships d' = pre @ m' # post"
    "\<forall>x \<in> set pre. \<not> (Mem_OrganizationID x = q \<and> Mem_ID x = i)" "Mem_OrganizationID m = q" "Mem_ID m = i"
    "Mem_OrganizationID m' = q" "Mem_ID m' = i" "Mem_AuthorizationVersion m' = Mem_AuthorizationVersion m + 1"
    unfolding member_rewritten_def by blast
  have "List.find (\<lambda>x. Mem_OrganizationID x = q \<and> Mem_ID x = i) pre = None" using s(3) by (auto simp: find_None_iff)
  with s show ?thesis by (simp add: member_version_def membership_of_def find_append)
qed

lemma grants_code_frame:
  assumes "\<And>b. Bind_OrganizationID b = q \<Longrightarrow> Bind_MembershipID b = mem \<Longrightarrow> b \<in> set (au_bindings d') \<longleftrightarrow> b \<in> set (au_bindings d)"
    and "\<And>r. Role_OrganizationID r = q \<Longrightarrow> r \<in> set (au_roles d') \<longleftrightarrow> r \<in> set (au_roles d)"
    and "\<And>i. scope_codes q i (au_role_scopes d') = scope_codes q i (au_role_scopes d)"
  shows "grants_code now kind storeID q mem c d' = grants_code now kind storeID q mem c d"
  using assms unfolding grants_code_def by blast

lemma org_raised_forth:
  assumes "org_raised orgID gs gs'" "g \<in> set gs"
  shows "\<exists>g' \<in> set gs'. Org_ID g' = Org_ID g \<and> Org_Status g' = Org_Status g"
proof -
  from assms obtain g' v t where "g' \<in> set gs'" "g' = g\<lparr>Org_AuthorizationVersion := v, Org_UpdatedAt := t\<rparr>"
    unfolding org_raised_def by (blast dest: all2_member1)
  then show ?thesis by (intro bexI [of _ g']) simp_all
qed

lemma same_status_forth:
  assumes "member_rewritten (\<lambda>m m'. Mem_Status m' = Mem_Status m) orgID i ms ms'" "m \<in> set ms"
  shows "\<exists>m' \<in> set ms'. Mem_OrganizationID m' = Mem_OrganizationID m \<and> Mem_ID m' = Mem_ID m \<and> Mem_UserID m' = Mem_UserID m \<and>
    Mem_Status m' = Mem_Status m"
  using assms by (auto simp: member_rewritten_def)

lemma change_valid_context_forth:
  assumes "access_change G orgID d d'" "valid_context kind storeID q mem user d"
  shows "valid_context kind storeID q mem user d'"
  using assms(1)
  by cases (rule valid_context_back [OF assms(2)]; auto dest: org_raised_forth same_status_forth)+

lemma same_codes:
  assumes "access_change G orgID d d'" "\<And>c. grants_code now kind storeID q mem c d' = grants_code now kind storeID q mem c d"
  shows "effective_codes E now kind storeID q mem user d' = effective_codes E now kind storeID q mem user d"
  using assms(2) change_scopes [OF assms(1)] change_valid_context [OF assms(1)] change_valid_context_forth [OF assms(1)]
  by (auto simp: effective_codes_iff code_in_context_def)

lemma change_raises_version:
  assumes "access_change G orgID d d'"
    and "effective_codes E now kind storeID q mem user d' \<noteq> effective_codes E now kind storeID q mem user d"
  shows "org_version q d' \<noteq> org_version q d \<or> member_version q mem d' \<noteq> member_version q mem d"
proof -
  have frame: ?thesis if "\<And>c. grants_code now kind storeID q mem c d' = grants_code now kind storeID q mem c d"
    using same_codes [OF assms(1) that] assms(2) by blast
  from assms(1) show ?thesis
  proof cases
    case unchanged
    with assms(2) show ?thesis by simp
  next
    case (role_created r codes X gs)
    show ?thesis
    proof (cases "q = orgID")
      case True
      with org_raised_version [of orgID d d'] role_created show ?thesis by simp
    next
      case False
      show ?thesis by (rule frame, rule grants_code_frame) (use False role_created in \<open>auto simp: scopes_replaced_def\<close>)
    qed
  next
    case (role_updated i rs codes X gs)
    show ?thesis
    proof (cases "q = orgID")
      case True
      with org_raised_version [of orgID d d'] role_updated show ?thesis by simp
    next
      case False
      show ?thesis by (rule frame, rule grants_code_frame) (use False role_updated in \<open>auto simp: scopes_replaced_def role_rewritten_def\<close>)
    qed
  next
    case (role_switched active i rs gs)
    show ?thesis
    proof (cases "q = orgID")
      case True
      with org_raised_version [of orgID d d'] role_switched show ?thesis by simp
    next
      case False
      show ?thesis by (rule frame, rule grants_code_frame) (use False role_switched in \<open>auto simp: role_rewritten_def\<close>)
    qed
  next
    case (binding_added b r ms)
    show ?thesis
    proof (cases "(q, mem) = (orgID, Bind_MembershipID b)")
      case True
      with member_rewritten_version [of _ q mem d d'] binding_added show ?thesis by simp
    next
      case False
      show ?thesis by (rule frame, rule grants_code_frame) (use False binding_added in auto)
    qed
  next
    case (binding_replaced pre old post b t u r ms)
    show ?thesis
    proof (cases "(q, mem) = (orgID, Bind_MembershipID b)")
      case True
      with member_rewritten_version [of _ q mem d d'] binding_replaced show ?thesis by simp
    next
      case False
      show ?thesis by (rule frame, rule grants_code_frame) (use False binding_replaced in auto)
    qed
  next
    case (binding_deleted pre b post b' r m _ _ ms)
    show ?thesis
    proof (cases "(q, mem) = (orgID, Bind_MembershipID b)")
      case True
      with member_rewritten_version [of _ q mem d d'] binding_deleted show ?thesis by simp
    next
      case False
      show ?thesis by (rule frame, rule grants_code_frame) (use False binding_deleted in auto)
    qed
  qed
qed

section \<open>Rows that stay\<close>

lemma change_system_roles:
  assumes "access_change G orgID d d'" "access_wf d" "Role_IsSystem r"
  shows "r \<in> set (au_roles d') \<longleftrightarrow> r \<in> set (au_roles d)"
    "r \<in> set (au_roles d) \<Longrightarrow> scope_codes (Role_OrganizationID r) (Role_ID r) (au_role_scopes d') =
       scope_codes (Role_OrganizationID r) (Role_ID r) (au_role_scopes d)"
proof -
  show "r \<in> set (au_roles d') \<longleftrightarrow> r \<in> set (au_roles d)"
    using assms(1) by cases (use assms(3) in \<open>auto simp: system_role_row\<close>)
  have other: "(Role_OrganizationID r, Role_ID r) \<noteq> (q, i)" if "r \<in> set (au_roles d)" "role_rewritten P q i (au_roles d) rs"
    for q i P rs
  proof
    assume "(Role_OrganizationID r, Role_ID r) = (q, i)"
    moreover have "\<exists>r0 \<in> set (au_roles d). Role_ID r0 = i \<and> \<not> Role_IsSystem r0"
      using that(2) by (auto simp: role_rewritten_def)
    ultimately obtain r0 where r0: "r0 \<in> set (au_roles d)" "Role_ID r = Role_ID r0" "\<not> Role_IsSystem r0" by auto
    have "roles.unique d" using assms(2) by (simp add: access_wf_def)
    from roles.unique_inj [OF this that(1) r0(1,2)] r0(3) assms(3) show False by simp
  qed
  show "scope_codes (Role_OrganizationID r) (Role_ID r) (au_role_scopes d') =
       scope_codes (Role_OrganizationID r) (Role_ID r) (au_role_scopes d)" if r: "r \<in> set (au_roles d)"
    using assms(1)
  proof cases
    case (role_created r0 codes X)
    with r have "(Role_OrganizationID r, Role_ID r) \<noteq> (orgID, Role_ID r0)" by (auto simp: find_None_iff)
    with role_created show ?thesis by (simp add: scopes_replaced_def)
  next
    case (role_updated i rs codes X)
    from other [OF r role_updated(2)] role_updated show ?thesis by (simp add: scopes_replaced_def)
  qed auto
qed

lemma member_change_system_roles:
  "member_change E orgID d d' \<Longrightarrow> au_roles d' = au_roles d \<and> au_role_scopes d' = au_role_scopes d"
  by (cases rule: member_change.cases) auto

lemma access_steps_system_roles:
  assumes "rtranclp (access_step E) d d'" "access_wf d" "Role_IsSystem r"
  shows "access_wf d' \<and> (r \<in> set (au_roles d') \<longleftrightarrow> r \<in> set (au_roles d)) \<and>
    (r \<in> set (au_roles d) \<longrightarrow> scope_codes (Role_OrganizationID r) (Role_ID r) (au_role_scopes d') =
       scope_codes (Role_OrganizationID r) (Role_ID r) (au_role_scopes d))"
  using assms(1)
proof (induction rule: rtranclp_induct)
  case base
  with assms(2) show ?case by simp
next
  case (step y z)
  then have y: "access_wf y" by blast
  from step.hyps(2) show ?case
  proof (cases rule: access_step_cases)
    case (1 G orgID)
    from change_wf [OF 1 y] change_system_roles [OF 1 y assms(3)] step.IH show ?thesis by auto
  next
    case (2 orgID)
    from member_change_wf [OF 2 y] member_change_system_roles [OF 2] step.IH show ?thesis by auto
  qed
qed

definition removed_member :: "uuid \<Rightarrow> uuid \<Rightarrow> auth_db \<Rightarrow> bool" where
  "removed_member q i d \<longleftrightarrow>
     (\<exists>m \<in> set (au_memberships d). Mem_OrganizationID m = q \<and> Mem_ID m = i \<and> Mem_Status m = MemREMOVED)"

lemma member_rewritten_removed:
  assumes "member_rewritten P orgID j ms ms'" "m \<in> set ms" "Mem_Status m = MemREMOVED"
  shows "\<exists>m' \<in> set ms'. Mem_OrganizationID m' = Mem_OrganizationID m \<and> Mem_ID m' = Mem_ID m \<and> Mem_Status m' = MemREMOVED"
  using assms by (auto simp: member_rewritten_def)

lemma access_step_removed:
  assumes "access_step E d d'" "removed_member q i d"
  shows "removed_member q i d'"
  using assms(1)
proof (cases rule: access_step_cases)
  case (1 G orgID)
  then show ?thesis
    by cases (use assms(2) in \<open>auto simp: removed_member_def dest: member_rewritten_removed\<close>)
next
  case (2 orgID)
  then show ?thesis
    by cases (use assms(2) in \<open>auto simp: removed_member_def dest: member_rewritten_removed\<close>)
qed

lemma access_steps_removed: "rtranclp (access_step E) d d' \<Longrightarrow> removed_member q i d \<Longrightarrow> removed_member q i d'"
  by (induction rule: rtranclp_induct) (auto intro: access_step_removed)

end
