(* ===== verification/Access_Leaving.thy ===== *)
theory Access_Leaving
  imports Access_Behaviour
begin

text \<open>
  A member who is suspended or removed: the loop that revokes the sessions of the membership
  ends every one of them and revokes their refresh tokens.
\<close>

section \<open>Ending sessions\<close>

definition session_ended :: "auth_session \<Rightarrow> auth_session \<Rightarrow> bool" where
  "session_ended s s' \<longleftrightarrow> s' = s \<or>
     (Ses_ID s' = Ses_ID s \<and> Ses_UserID s' = Ses_UserID s \<and> Ses_OrganizationID s' = Ses_OrganizationID s \<and>
      Ses_MembershipID s' = Ses_MembershipID s \<and> Ses_Status s' \<noteq> SesACTIVE)"

lemma session_ended_trans: "session_ended s s' \<Longrightarrow> session_ended s' s'' \<Longrightarrow> session_ended s s''"
  by (auto simp: session_ended_def)

lemma session_ended_refl [simp]: "session_ended s s"
  by (simp add: session_ended_def)

lemma session_ended_id: "session_ended s s' \<Longrightarrow> Ses_ID s' = Ses_ID s \<and> Ses_UserID s' = Ses_UserID s"
  by (auto simp: session_ended_def)

text \<open>After one turn of the loop the session of that user is over.\<close>

lemma revoke_one:
  assumes "(case RevokeSession txnow i userID reason d of
              Inl e \<Rightarrow> if errors_Is_NoRows e then Inr d else Inl (Wrapped ''revoke membership session'' e)
            | Inr (_, d') \<Rightarrow> Inr d') = (Inr d1 :: members_error + auth_db)"
    and u: "auth_sessions.unique d"
  shows "list_all2 session_ended (au_sessions d) (au_sessions d1)" "au_refresh_tokens d1 = au_refresh_tokens d"
    "\<forall>s \<in> set (au_sessions d1). Ses_ID s = i \<and> Ses_UserID s = userID \<longrightarrow> Ses_Status s \<noteq> SesACTIVE"
proof -
  let ?p = "\<lambda>s. Ses_ID s = i \<and> Ses_UserID s = userID \<and> Ses_Status s = SesACTIVE"
  let ?f = "write_session txnow (terminated txnow SesREVOKED reason) :: auth_session \<Rightarrow> members_error + auth_session"
  have "(list_all2 session_ended (au_sessions d) (au_sessions d1) \<and> au_refresh_tokens d1 = au_refresh_tokens d) \<and>
    (\<forall>s \<in> set (au_sessions d1). Ses_ID s = i \<and> Ses_UserID s = userID \<longrightarrow> Ses_Status s \<noteq> SesACTIVE)"
  proof (cases "RevokeSession txnow i userID reason d :: members_error + _")
    case (Inl e)
    with assms(1) have n: "errors_Is_NoRows e" "d1 = d" by (auto split: if_splits)
    from Inl n(1) have "List.find ?p (au_sessions d) = None"
      by (auto simp: RevokeSession_def chain_eq_Inl pg_varchar_def update_row_eq_Inl write_session_def Let_def guard_error_def
          check_row_def split: if_splits option.splits)
    with n(2) show ?thesis by (auto simp: find_None_iff intro: list_all2_refl)
  next
    case (Inr x)
    with assms(1) obtain s' where r: "RevokeSession txnow i userID reason d = (Inr (s', d1) :: members_error + _)"
      by (cases x) auto
    then obtain rows where x: "update_row ?p ?f (au_sessions d) = Inr (s', rows)" "d1 = d\<lparr>au_sessions := rows\<rparr>"
      by (auto simp: RevokeSession_def chain_eq_Inr pg_varchar_eq_Inr)
    have w: "Ses_ID q' = Ses_ID q \<and> Ses_UserID q' = Ses_UserID q \<and> Ses_Status q' = SesREVOKED \<and> session_ended q q'"
      if "?f q = Inr q'" for q q'
      using that by (auto simp: write_session_eq_Inr terminated_def session_ended_def)
    have "list_all2 session_ended (au_sessions d) rows"
      by (rule update_row_all2 [OF x(1)]) (use w in auto)
    moreover have "\<forall>s \<in> set rows. Ses_ID s = i \<and> Ses_UserID s = userID \<longrightarrow> Ses_Status s \<noteq> SesACTIVE"
    proof -
      obtain q where q: "?p q" "?f q = Inr s'" "set rows = insert s' {z \<in> set (au_sessions d). Ses_ID z \<noteq> Ses_ID q}"
        using auth_sessions.update_only [OF u x(1)] w by blast
      with w [OF q(2)] show ?thesis by auto
    qed
    ultimately show ?thesis using x(2) by simp
  qed
  then show "list_all2 session_ended (au_sessions d) (au_sessions d1)" "au_refresh_tokens d1 = au_refresh_tokens d"
    "\<forall>s \<in> set (au_sessions d1). Ses_ID s = i \<and> Ses_UserID s = userID \<longrightarrow> Ses_Status s \<noteq> SesACTIVE" by auto
qed

definition revoked_in :: "auth_db \<Rightarrow> uuid set \<Rightarrow> bool" where
  "revoked_in d ids \<longleftrightarrow> (\<forall>t \<in> set (au_refresh_tokens d). Tok_SessionID t \<in> ids \<longrightarrow> Tok_RevokedAt t \<noteq> None)"

lemma RevokeSessionRefreshTokens_more:
  assumes "RevokeSessionRefreshTokens now sid d = (Inr (us, d') :: 's go_error + _)" "revoked_in d ids"
  shows "revoked_in d' (insert sid ids)"
proof -
  from assms(1) obtain rows where u: "update_rows (\<lambda>t. Tok_SessionID t = sid \<and> Tok_RevokedAt t = None)
      (write_token (\<lambda>t. t\<lparr>Tok_RevokedAt := Some now\<rparr>)) (au_refresh_tokens d) = (Inr (us, rows) :: 's go_error + _)"
    "d' = d\<lparr>au_refresh_tokens := rows\<rparr>"
    by (auto simp: RevokeSessionRefreshTokens_def chain_eq_Inr)
  have "Tok_RevokedAt t \<noteq> None" if t: "t \<in> set rows" "Tok_SessionID t \<in> insert sid ids" for t
  proof -
    from update_rows_InrD(1) [OF u(1)] t(1) obtain r where "r \<in> set (au_refresh_tokens d)"
      "if Tok_SessionID r = sid \<and> Tok_RevokedAt r = None then write_token (\<lambda>t. t\<lparr>Tok_RevokedAt := Some now\<rparr>) r =
         (Inr t :: 's go_error + _) else t = r"
      by (auto dest: all2_member)
    with t(2) assms(2) show ?thesis by (auto simp: result_simps revoked_in_def split: if_splits)
  qed
  with u(2) show ?thesis by (simp add: revoked_in_def)
qed

lemma all2_ended_unique:
  "list_all2 session_ended ss ss' \<Longrightarrow> map Ses_ID ss' = map Ses_ID ss"
  by (erule all2_map_eq) (simp add: session_ended_id)

lemma revoke_each_ends:
  assumes "revoke_each txnow userID reason ids d = Inr d'" "auth_sessions.unique d" "revoked_in d R"
  shows "list_all2 session_ended (au_sessions d) (au_sessions d')" "revoked_in d' (set ids \<union> R)"
    "\<forall>s \<in> set (au_sessions d'). Ses_ID s \<in> set ids \<and> Ses_UserID s = userID \<longrightarrow> Ses_Status s \<noteq> SesACTIVE"
proof -
  have "list_all2 session_ended (au_sessions d) (au_sessions d') \<and> revoked_in d' (set ids \<union> R) \<and>
    (\<forall>s \<in> set (au_sessions d'). Ses_ID s \<in> set ids \<and> Ses_UserID s = userID \<longrightarrow> Ses_Status s \<noteq> SesACTIVE)"
    using assms
  proof (induction ids arbitrary: d R)
    case Nil
    then show ?case by (auto intro: list_all2_refl)
  next
    case (Cons i ids)
    obtain d1 us d2 where
      r: "(case RevokeSession txnow i userID reason d of
              Inl e \<Rightarrow> if errors_Is_NoRows e then Inr d else Inl (Wrapped ''revoke membership session'' e)
            | Inr (_, d') \<Rightarrow> Inr d') = (Inr d1 :: members_error + auth_db)"
      and t: "RevokeSessionRefreshTokens txnow i d1 = (Inr (us, d2) :: members_error + _)"
      and rest: "revoke_each txnow userID reason ids d2 = Inr d'"
      using Cons.prems(1) by (auto simp: chain_eq_Inr wrap_error_eq_Inr)
    note one = revoke_one [OF r Cons.prems(2)]
    have ss: "au_sessions d2 = au_sessions d1" using RevokeSessionRefreshTokens_frame [OF t] by auto
    have u: "auth_sessions.unique d2"
      using Cons.prems(2) all2_ended_unique [OF one(1)] ss by (simp add: auth_sessions.unique_def)
    have R: "revoked_in d2 (insert i R)"
      using RevokeSessionRefreshTokens_more [OF t, of R] Cons.prems(3) one(2) by (simp add: revoked_in_def)
    from Cons.IH [OF rest u R] have IH: "list_all2 session_ended (au_sessions d2) (au_sessions d')"
      "revoked_in d' (set ids \<union> insert i R)"
      "\<forall>s \<in> set (au_sessions d'). Ses_ID s \<in> set ids \<and> Ses_UserID s = userID \<longrightarrow> Ses_Status s \<noteq> SesACTIVE" by auto
    have "list_all2 session_ended (au_sessions d) (au_sessions d')"
      using one(1) IH(1) ss by (auto elim: list_all2_trans [rotated 1] intro: session_ended_trans)
    moreover have "Ses_Status s \<noteq> SesACTIVE" if "s \<in> set (au_sessions d')" "Ses_ID s = i" "Ses_UserID s = userID" for s
    proof -
      from all2_member [OF IH(1) that(1)] obtain s0 where "s0 \<in> set (au_sessions d1)" "session_ended s0 s" using ss by auto
      with one(3) that session_ended_id [OF this(2)] show ?thesis by (auto simp: session_ended_def)
    qed
    ultimately show ?case using IH(2,3) by auto
  qed
  then show "list_all2 session_ended (au_sessions d) (au_sessions d')" "revoked_in d' (set ids \<union> R)"
    "\<forall>s \<in> set (au_sessions d'). Ses_ID s \<in> set ids \<and> Ses_UserID s = userID \<longrightarrow> Ses_Status s \<noteq> SesACTIVE" by auto
qed

section \<open>Suspending and removing\<close>

text \<open>The constraints and the trigger of \<open>auth_sessions\<close> hold.\<close>

definition sessions_constrained :: "auth_db \<Rightarrow> bool" where
  "sessions_constrained d \<longleftrightarrow> auth_sessions.unique d \<and> memberships.unique d \<and>
     (\<forall>s \<in> set (au_sessions d). session_context_ok d s \<and> first_violation (auth_session_checks s) = None)"

lemma session_user:
  assumes "sessions_constrained d" "s \<in> set (au_sessions d)" "m \<in> set (au_memberships d)"
    "Ses_OrganizationID s = Some (Mem_OrganizationID m)" "Ses_MembershipID s = Some (Mem_ID m)"
  shows "Ses_UserID s = Mem_UserID m"
proof -
  have k: "Ses_ContextKind s \<noteq> CtxIDENTITY"
    using assms(1,2,4) by (auto simp: sessions_constrained_def auth_session_checks_def first_violation_None Let_def
        simp del: first_violation.simps)
  with assms obtain m' where "m' \<in> set (au_memberships d)" "Mem_ID m' = Mem_ID m" "Mem_UserID m' = Ses_UserID s"
    by (auto simp: sessions_constrained_def session_context_ok_def list_ex_iff)
  with assms(1,3) memberships.unique_inj [of d m' m] show ?thesis by (auto simp: sessions_constrained_def)
qed

lemma update_status_tx_ends:
  assumes "update_status_tx E S txnow now actor orgID i st d = Inr (ids, d')" "d' \<noteq> d" "st \<noteq> MemACTIVE"
    "sessions_constrained d"
    and s: "s \<in> set (au_sessions d')" "Ses_OrganizationID s = Some orgID" "Ses_MembershipID s = Some i"
  shows "Ses_Status s \<noteq> SesACTIVE \<and> Ses_ID s \<in> set ids \<and> revoked_in d' {Ses_ID s}"
  using assms(1,2)
proof (cases rule: update_status_tx_InrE)
  case (1 m m' d1 d2 P)
  from UpdateMembershipStatus_InrD [OF 1(4)] have d1: "au_sessions d1 = au_sessions d" by auto
  from 1(5) assms(3) obtain reason where ids: "ids = ListSessionIDsForMembership orgID i d1"
    and r: "revoke_each txnow (Mem_UserID m) reason ids d1 = Inr d2"
    by (cases st) (auto simp: end_sessions_def RevokeMembershipSessions_def Let_def chain_eq_Inr on_error_eq_Inr)
  from audit_Write_InrD [OF 1(6)] have d': "au_sessions d' = au_sessions d2" "au_refresh_tokens d' = au_refresh_tokens d2" by auto
  have u: "auth_sessions.unique d1" using assms(4) d1 by (simp add: sessions_constrained_def auth_sessions.unique_def)
  have "revoked_in d1 {}" by (simp add: revoked_in_def)
  note ends = revoke_each_ends [OF r u this]
  from all2_member [OF ends(1)] s(1) d' obtain s0 where s0: "s0 \<in> set (au_sessions d1)" "session_ended s0 s" by auto
  then have same: "Ses_OrganizationID s0 = Some orgID" "Ses_MembershipID s0 = Some i" "Ses_ID s0 = Ses_ID s" "Ses_UserID s0 = Ses_UserID s"
    using s(2,3) by (auto simp: session_ended_def)
  have "Ses_ID s0 \<in> set ids" using s0(1) same(1,2) by (simp add: ids ListSessionIDsForMembership_def)
  then have "Ses_ID s \<in> set ids" using same(3) by simp
  moreover have "Ses_UserID s = Mem_UserID m"
    using session_user [OF assms(4), of s0 m] membership_of_SomeD [OF 1(1)] s0(1) same d1 by auto
  ultimately show ?thesis using ends(2,3) s(1) d' by (auto simp: revoked_in_def)
qed

lemma UpdateStatus_ends:
  assumes "UpdateStatus E S T now actor rawID text d = (res, d', evs)" "d' \<noteq> d"
    and "requiredStatus E text = Inr st" "st \<noteq> MemACTIVE" "members_parseUUID E ''membershipId'' rawID = Inr i"
    and "MA_OrganizationID actor = Some orgID" "sessions_constrained d"
  obtains ids where "evs = invalidate (msv_invalidator S) ids (InvalidateMembershipAuthorizationVersion i)"
    "\<And>s. s \<in> set (au_sessions d') \<Longrightarrow> Ses_OrganizationID s = Some orgID \<Longrightarrow> Ses_MembershipID s = Some i \<Longrightarrow>
       Ses_Status s \<noteq> SesACTIVE \<and> Ses_ID s \<in> set ids \<and> revoked_in d' {Ses_ID s}"
proof -
  from assms(1-3,5) obtain q where "validateActor actor (if st = MemREMOVED then ''members.remove'' else ''members.status.update'') = Inr q"
    and c: "members_commit E S T ''update membership status'' q i (update_status_tx E S (tx_now T) now actor q i st) d = (res, d', evs)"
    by (auto simp: UpdateStatus_def result_simps split: sum.splits)
  with assms(6) have c: "members_commit E S T ''update membership status'' orgID i (update_status_tx E S (tx_now T) now actor orgID i st) d =
      (res, d', evs)" by (auto dest!: validateActor_InrD)
  from c assms(2) obtain ids where ids: "update_status_tx E S (tx_now T) now actor orgID i st d = Inr (ids, d')"
    "evs = invalidate (msv_invalidator S) ids (InvalidateMembershipAuthorizationVersion i)"
    by (auto simp: members_commit_def result_simps split: prod.splits sum.splits dest: Auth_WithTx_Inl)
  from that [OF ids(2) update_status_tx_ends [OF ids(1) assms(2,4,7)]] show thesis by blast
qed

end
