(* ===== verification/Access_Properties.thy ===== *)
theory Access_Properties
  imports Access_Leaving Example_Env
begin

text \<open>
  The properties of roles and memberships, each with a witness on the organization Acme: Ana
  owns it, Bia is a member with a custom role and an open session.
\<close>

section \<open>Acme\<close>

definition acme_user :: "uuid \<Rightarrow> string \<Rightarrow> user" where
  "acme_user i name = \<lparr>User_ID = i, User_Email = name @ ''@acme'', User_EmailNormalized = name @ ''@acme'',
     User_DisplayName = name, User_Status = UserACTIVE, User_EmailVerifiedAt = None, User_PasswordVersion = 1,
     User_LastLoginAt = None, User_CreatedAt = 0, User_UpdatedAt = 0\<rparr>"

definition acme_organization :: organization where
  "acme_organization = \<lparr>Org_ID = 1, Org_Name = ''Acme'', Org_Slug = ''acme'', Org_Status = OrgACTIVE,
     Org_Timezone = ''UTC'', Org_Locale = ''pt-BR'', Org_Currency = ''BRL'', Org_AuthorizationVersion = 1,
     Org_CreatedByUserID = Some 7, Org_ArchivedAt = None, Org_CreatedAt = 0, Org_UpdatedAt = 0\<rparr>"

definition acme_membership :: "uuid \<Rightarrow> uuid \<Rightarrow> membership" where
  "acme_membership i u = \<lparr>Mem_ID = i, Mem_OrganizationID = 1, Mem_UserID = u, Mem_Status = MemACTIVE,
     Mem_DefaultStoreID = None, Mem_AuthorizationVersion = 1, Mem_JoinedAt = 0, Mem_SuspendedAt = None,
     Mem_RemovedAt = None, Mem_CreatedByUserID = Some 7, Mem_CreatedAt = 0, Mem_UpdatedAt = 0\<rparr>"

definition acme_scope :: "string \<Rightarrow> permission_scope" where
  "acme_scope code = \<lparr>Scope_Code = code, Scope_Resource = ''roles'', Scope_Action = code, Scope_Level = LevelORGANIZATION,
     Scope_Description = code, Scope_IsAssignable = True, Scope_CreatedAt = 0\<rparr>"

definition acme_role :: "uuid \<Rightarrow> string \<Rightarrow> bool \<Rightarrow> role" where
  "acme_role i key system = \<lparr>Role_ID = i, Role_OrganizationID = 1, Role_Key = key, Role_Name = key,
     Role_Description = None, Role_AssignmentScope = AssignORGANIZATION, Role_IsSystem = system,
     Role_IsMutable = (\<not> system), Role_IsActive = True, Role_CreatedByMembershipID = None, Role_CreatedAt = 0,
     Role_UpdatedAt = 0\<rparr>"

definition acme_role_scope :: "uuid \<Rightarrow> string \<Rightarrow> role_scope" where
  "acme_role_scope i code = \<lparr>RS_OrganizationID = 1, RS_RoleID = i, RS_ScopeCode = code, RS_CreatedAt = 0\<rparr>"

definition acme_binding :: "uuid \<Rightarrow> uuid \<Rightarrow> uuid \<Rightarrow> role_binding" where
  "acme_binding i m r = \<lparr>Bind_ID = i, Bind_OrganizationID = 1, Bind_MembershipID = m, Bind_RoleID = r,
     Bind_StoreID = None, Bind_CreatedByMembershipID = 10, Bind_ExpiresAt = None, Bind_CreatedAt = 0\<rparr>"

definition acme_session :: auth_session where
  "acme_session = \<lparr>Ses_ID = 40, Ses_UserID = 8, Ses_Status = SesACTIVE, Ses_ClientID = ''pdv-web'',
     Ses_DeviceName = None, Ses_UserAgent = None, Ses_IpAddress = None, Ses_ContextKind = CtxORGANIZATION,
     Ses_OrganizationID = Some 1, Ses_MembershipID = Some 11, Ses_StoreID = None, Ses_IdleExpiresAt = 110,
     Ses_AbsoluteExpiresAt = 1010, Ses_LastSeenAt = 10, Ses_RevokedAt = None, Ses_RevokeReason = None,
     Ses_CreatedAt = 10, Ses_UpdatedAt = 10\<rparr>"

definition acme_token :: refresh_token where
  "acme_token = \<lparr>Tok_ID = 50, Tok_SessionID = 40, Tok_ParentTokenID = None, Tok_ReplacedByTokenID = None,
     Tok_SecretHash = replicate 32 1, Tok_ExpiresAt = 1010, Tok_ConsumedAt = None, Tok_RevokedAt = None,
     Tok_CreatedAt = 10\<rparr>"

definition acme :: auth_db where
  "acme = \<lparr>au_users = [acme_user 7 ''ana'', acme_user 8 ''bia''], au_organizations = [acme_organization],
     au_memberships = [acme_membership 10 7, acme_membership 11 8], au_stores = [],
     au_scopes = [acme_scope ''roles.read'', acme_scope ''roles.assign''],
     au_roles = [acme_role 20 ''owner'' True, acme_role 21 ''auditor'' False],
     au_role_scopes = [acme_role_scope 20 ''roles.read'', acme_role_scope 20 ''roles.assign'', acme_role_scope 21 ''roles.read''],
     au_bindings = [acme_binding 30 10 20], au_sessions = [acme_session], au_refresh_tokens = [acme_token],
     au_audit = [], au_uuid_calls = 0\<rparr>"

definition acme_txn :: txn where
  "acme_txn = \<lparr>tx_now = 100, tx_begin_error = None, tx_commit_error = None\<rparr>"

definition acme_meta :: request_meta where
  "acme_meta = \<lparr>RM_ClientIP = [], RM_UserAgent = [], RM_RequestID = []\<rparr>"

definition acme_ana :: principal where
  "acme_ana = \<lparr>Pr_UserID = Some 7, Pr_SessionID = Some 41, Pr_ClientID = ''pdv-web'', Pr_ContextKind = ''organization'',
     Pr_OrganizationID = Some 1, Pr_MembershipID = Some 10, Pr_StoreID = None, Pr_RoleKeys = [''owner''],
     Pr_Scopes = [''roles.create'', ''roles.assign''], Pr_OrgAuthzVersion = Some 1, Pr_MemberAuthzVersion = Some 1,
     Pr_PasswordVersion = 1, Pr_AuthTime = 0, Pr_TokenID = Some 60\<rparr>"

definition acme_ana_member :: member_actor where
  "acme_ana_member = \<lparr>MA_UserID = Some 7, MA_SessionID = Some 41, MA_OrganizationID = Some 1, MA_MembershipID = Some 10,
     MA_Scopes = [''members.remove'', ''members.status.update''], MA_RequestMeta = acme_meta\<rparr>"

definition acme_roles_service :: roles_service where
  "acme_roles_service = \<lparr>rsv_invalidator = True, rsv_ParseAddr = (\<lambda>_. None)\<rparr>"

definition acme_members_service :: members_service where
  "acme_members_service = \<lparr>msv_sessions = True, msv_invalidator = True, msv_ParseAddr = (\<lambda>_. None)\<rparr>"

definition acme_id :: "uuid \<Rightarrow> string" where
  "acme_id u = uuidStr u"

lemmas acme_rows = acme_user_def acme_organization_def acme_membership_def acme_scope_def acme_role_def acme_role_scope_def
  acme_binding_def acme_session_def acme_token_def

lemma acme_id_scan [simp]: "uuid_Scan example_env (strings_TrimSpace (acme_id u)) = Some u"
  using example_uuid_trim [of u] example_uuid_roundtrip [of u]
  by (simp add: acme_id_def example_env_def example_uuid_String_def)

lemma acme_wf: "access_wf acme"
  by (simp add: access_wf_def roles.unique_def bindings.unique_def memberships.unique_def owners_permanent_def
      bindings_refer_def role_of_def acme_def acme_rows)

lemma acme_owner: "owner_support acme 1 10 (acme_binding 30 10 20) (acme_role 20 ''owner'' True)"
  by (simp add: owner_support_def owner_role_def acme_def acme_rows)

text \<open>Ana gives Bia the custom role.\<close>

definition acme_given :: role_binding where
  "acme_given = (acme_binding 1000 11 21)\<lparr>Bind_CreatedAt := 100\<rparr>"

lemma acme_env: "uuidv7 example_env n = of_nat (n + 1000)" "uuid_String example_env u = acme_id u" "collation_key example_env = length"
  by (simp_all add: example_env_def acme_id_def example_uuid_String_def)

lemma acme_grants: "set (ResolveActorGrantScopes example_env 100 1 10 acme) = {''roles.read'', ''roles.assign''}"
  by code_simp

lemma acme_role_to_bind: "role_to_bind example_env 1 21 acme = Inr (acme_role 21 ''auditor'' False, [''roles.read''])"
  by code_simp

lemma acme_no_binding: "findBinding example_env 1 11 21 None acme = None"
  by code_simp

lemma acme_create_binding: "CreateRoleBinding example_env 100
     \<lparr>CB_OrganizationID = 1, CB_MembershipID = 11, CB_RoleID = 21, CB_CreatedByMembershipID = 10, CB_ExpiresAt = None,
      CB_StoreID = None\<rparr> acme =
   (Inr (acme_given, acme\<lparr>au_bindings := [acme_binding 30 10 20, acme_given], au_uuid_calls := 1\<rparr>) :: roles_error + _)"
  by (simp add: CreateRoleBinding_def new_binding_def role_binding_scope_def binding_checks_def same_binding_def
      binding_references_ok_def binding_creator_ok_def role_of_def membership_of_def check_row_def acme_def acme_rows
      acme_given_def acme_env Let_def)

definition acme_raised :: membership where
  "acme_raised = (acme_membership 11 8)\<lparr>Mem_AuthorizationVersion := 2, Mem_UpdatedAt := 100\<rparr>"

lemma acme_write_membership:
  "write_membership 100 d (\<lambda>m. m\<lparr>Mem_AuthorizationVersion := Mem_AuthorizationVersion m + 1\<rparr>) (acme_membership 11 8) =
     (Inr acme_raised :: 's go_error + _)"
  by (simp add: write_membership_def pg_bigint_def membership_checks_def check_row_def acme_rows acme_raised_def Let_def)

lemma acme_increment:
  "IncrementMembershipAuthorizationVersion 100 1 11 (acme\<lparr>au_bindings := bs, au_uuid_calls := n\<rparr>) =
     (Inr (acme_raised, acme\<lparr>au_bindings := bs, au_uuid_calls := n, au_memberships := [acme_membership 10 7, acme_raised]\<rparr>) ::
       's go_error + _)"
proof -
  have "Mem_ID (acme_membership 10 7) = 10" "Mem_ID (acme_membership 11 8) = 11" "Mem_OrganizationID (acme_membership 11 8) = 1"
    by (simp_all add: acme_rows)
  then show ?thesis
    by (simp add: IncrementMembershipAuthorizationVersion_def update_membership_def acme_def acme_write_membership)
qed


definition acme_audit :: "string \<Rightarrow> string \<Rightarrow> uuid \<Rightarrow> (string \<times> metadata_value) list \<Rightarrow> create_audit_params" where
  "acme_audit event entity i metadata = \<lparr>CA_OrganizationID = Some 1, CA_StoreID = None, CA_ActorUserID = Some 7,
     CA_ActorMembershipID = Some 10, CA_SessionID = Some 41, CA_EventType = event, CA_EntityType = Some entity,
     CA_EntityID = Some i, CA_RequestID = None, CA_IpAddress = None, CA_UserAgent = None, CA_Outcome = AuditSUCCESS,
     CA_Metadata = metadata\<rparr>"

lemma acme_audit_written:
  assumes "event \<noteq> []" "char_length event \<le> 100" "\<not> btrim_blank event" "char_length entity \<le> 80" "\<not> btrim_blank entity"
    and d: "au_users d = au_users acme" "au_organizations d = [org]" "Org_ID org = 1"
      "au_memberships d = acme_membership 10 7 # ms" "au_audit d = []"
  shows "audit_Write example_env 100 (acme_audit event entity i metadata) d =
    (Inr (d\<lparr>au_audit := [new_audit_event 100 (of_nat (au_uuid_calls d + 1000)) (acme_audit event entity i metadata)],
           au_uuid_calls := Suc (au_uuid_calls d)\<rparr>) :: 's go_error + _)"
proof -
  let ?P = "acme_audit event entity i metadata" and ?u = "of_nat (au_uuid_calls d + 1000) :: uuid"
  have e: "Audit_EventType (new_audit_event 100 u ?P) = event" "Audit_EntityType (new_audit_event 100 u ?P) = Some entity"
    "Audit_OrganizationID (new_audit_event 100 u ?P) = Some 1" "Audit_StoreID (new_audit_event 100 u ?P) = None"
    "Audit_ActorUserID (new_audit_event 100 u ?P) = Some 7" "Audit_ActorMembershipID (new_audit_event 100 u ?P) = Some 10"
    "Audit_RequestID (new_audit_event 100 u ?P) = None" "Audit_UserAgent (new_audit_event 100 u ?P) = None"
    "CA_EventType ?P = event" "CA_EntityType ?P = Some entity" "CA_RequestID ?P = None" "CA_UserAgent ?P = None" for u
    by (simp_all add: new_audit_event_def acme_audit_def)
  have m: "Mem_ID (acme_membership 10 7) = 10" "Mem_OrganizationID (acme_membership 10 7) = 1" "Mem_UserID (acme_membership 10 7) = 7"
    "list_ex (\<lambda>r. User_ID r = 7) (au_users acme)" by (simp_all add: acme_rows acme_def)
  have "audit_actor_ok d (new_audit_event 100 ?u ?P)" using d by (simp add: audit_actor_ok_def e m)
  moreover have "check_row (audit_event_checks (new_audit_event 100 ?u ?P)) = (Inr () :: 's go_error + _)"
    using assms(3,5) by (simp add: check_row_def audit_event_checks_def e)
  ultimately show ?thesis
    using assms by (simp add: audit_Write_def CreateAuditEvent_def Let_def acme_env e m pg_varchar_def pg_varchar_null_def)
qed

lemma acme_services [simp]: "rsv_invalidator acme_roles_service" "msv_sessions acme_members_service" "msv_invalidator acme_members_service"
  "tx_now acme_txn = 100" "tx_begin_error acme_txn = None" "tx_commit_error acme_txn = None"
  by (simp_all add: acme_roles_service_def acme_members_service_def acme_txn_def)

lemma acme_event_text: "char_length ''role.binding_added'' \<le> 100" "\<not> btrim_blank ''role.binding_added''"
  "char_length ''role_binding'' \<le> 80" "\<not> btrim_blank ''role_binding''"
  by code_simp+

definition acme_given_metadata :: "(string \<times> metadata_value) list" where
  "acme_given_metadata = [(''membership_id'', MetaText (acme_id 11)), (''role_id'', MetaText (acme_id 21)),
     (''role_key'', MetaText ''auditor''), (''store_id'', MetaNull), (''replaced'', MetaBool False)]"

definition acme_bound_db :: auth_db where
  "acme_bound_db = acme\<lparr>au_bindings := [acme_binding 30 10 20, acme_given],
     au_memberships := [acme_membership 10 7, acme_raised],
     au_audit := [new_audit_event 100 1001 (acme_audit ''role.binding_added'' ''role_binding'' 1000 acme_given_metadata)],
     au_uuid_calls := 2\<rparr>"

lemma acme_membership_changed:
  "membership_changed example_env acme_roles_service 100 acme_meta acme_ana 1 11 ''role.binding_added'' 1000 acme_given_metadata
     (acme\<lparr>au_bindings := [acme_binding 30 10 20, acme_given], au_uuid_calls := 1\<rparr>) = Inr ([40], acme_bound_db)"
proof -
  let ?d = "acme\<lparr>au_bindings := [acme_binding 30 10 20, acme_given], au_uuid_calls := 1,
    au_memberships := [acme_membership 10 7, acme_raised]\<rparr>"
  have w: "roles_writeAudit example_env acme_roles_service 100 acme_meta acme_ana ''role.binding_added'' ''role_binding'' 1000
      acme_given_metadata d = on_error (roles_unavailable ''write audit event'') (audit_Write example_env 100
      (acme_audit ''role.binding_added'' ''role_binding'' 1000 acme_given_metadata) d)" for d
    by (simp add: roles_writeAudit_def acme_audit_def acme_ana_def acme_meta_def acme_roles_service_def)
  have "audit_Write example_env 100 (acme_audit ''role.binding_added'' ''role_binding'' 1000 acme_given_metadata) ?d =
      (Inr acme_bound_db :: roles_error + _)"
    by (subst acme_audit_written [where org = acme_organization and ms = "[acme_raised]"])
       (simp_all add: acme_event_text acme_def acme_organization_def acme_bound_db_def)
  moreover have "ListSessionIDsForMembership 1 11 ?d = [40]"
    by (simp add: ListSessionIDsForMembership_def acme_def acme_session_def)
  ultimately show ?thesis by (simp add: membership_changed_def acme_increment w)
qed

definition acme_binding_input :: create_binding_input where
  "acme_binding_input = \<lparr>CBI_RoleID = acme_id 21, CBI_StoreID = None, CBI_ExpiresAt = None\<rparr>"

definition acme_given_response :: binding_response where
  "acme_given_response = mapBinding example_env 1000 11 (acme_role 21 ''auditor'' False) None None 100"

lemma acme_binding_created:
  "CreateBinding example_env acme_roles_service acme_txn 100 acme_meta acme_ana (acme_id 11) acme_binding_input acme =
     (Inr (acme_given_response, True), acme_bound_db,
      invalidate True [40] (InvalidateMembershipAuthorizationVersion 11))"
proof -
  have a: "requireActorScope acme_ana ''roles.assign'' = Inr (1, 10)"
    by (simp add: requireActorScope_def acme_ana_def HasOrganizationScope_def ScopeSet_HasAll_def ScopeSet_Has_def)
  have i: "CBI_RoleID acme_binding_input = acme_id 21" "CBI_StoreID acme_binding_input = None"
    "CBI_ExpiresAt acme_binding_input = None" by (simp_all add: acme_binding_input_def)
  have m: "(GetMembershipForUpdate 1 11 acme :: roles_error + membership) = Inr (acme_membership 11 8)"
    "Mem_Status (acme_membership 11 8) = MemACTIVE"
    by (simp_all add: GetMembershipForUpdate_def membership_of_def one_row_def acme_def acme_membership_def)
  have g: "ensureGrantSubset example_env 100 1 10 [''roles.read''] acme = Inr ()"
    by (simp add: ensureGrantSubset_eq_Inr acme_grants)
  have l: "lineage_ok acme_bound_db"
    by (simp add: lineage_ok_def tokens_linked_def acme_bound_db_def acme_def acme_token_def)
  have b: "binding_allowed acme_ana (acme_role 21 ''auditor'' False) None None = Inr ()"
    by (simp add: binding_allowed_def acme_role_def)
  have r: "Role_Key (acme_role 21 ''auditor'' False) = ''auditor''" "Bind_ID acme_given = 1000" "Bind_ExpiresAt acme_given = None"
    "Bind_CreatedAt acme_given = 100" by (simp_all add: acme_role_def acme_given_def acme_binding_def)
  have c: "membership_changed example_env acme_roles_service 100 acme_meta acme_ana 1 11 ''role.binding_added'' 1000
      [(''membership_id'', MetaText (acme_id 11)), (''role_id'', MetaText (acme_id 21)),
       (''role_key'', MetaText ''auditor''), (''store_id'', MetaNull), (''replaced'', MetaBool False)]
      (acme\<lparr>au_bindings := [acme_binding 30 10 20, acme_given], au_uuid_calls := 1\<rparr>) = Inr ([40], acme_bound_db)"
    using acme_membership_changed by (simp only: acme_given_metadata_def)
  have t: "create_binding_tx example_env acme_roles_service 100 acme_meta acme_ana 1 10 11 21 None None acme =
      Inr (((acme_given_response, True), [40]), acme_bound_db)"
    unfolding create_binding_tx_def m(1) on_error_simps chain_simps acme_role_to_bind prod.case b
    by (simp add: m(2) guard_error_def target_store_def g acme_no_binding acme_create_binding nullable_uuid_def acme_env r c
        acme_given_response_def del: One_nat_def)
  show ?thesis
    by (simp add: CreateBinding_def a i roles_parseUUID_def optionalUUID_def normalizeExpiration_def roles_commit_def
        Auth_WithTx_def WithTx_def t l)
qed

lemma acme_binding_step: "roles_step example_env acme_txn acme_ana acme acme_bound_db"
  using acme_binding_created by (rule roles_step.create_binding)

lemma acme_access_steps: "rtranclp (access_step example_env) acme acme_bound_db"
  using acme_binding_step by (intro r_into_rtranclp access_step.intros(1))

section \<open>Owners and well-formedness\<close>

text \<open>C9: An organization never loses its last owner: if the database is well formed and an
  organization has at least one active owner (an active membership bound, without a store, to the
  active system role \<open>owner\<close>), then after any sequence of operations on roles, bindings and
  memberships, by any actors and whatever their results, it still has at least one, at every
  moment the owners may be counted.\<close>

theorem owner_never_lost:
  assumes "access_wf d" "CountActiveOwnersForUpdate now orgID d \<ge> 1"
    and "rtranclp (access_step E) d d'"
  shows "CountActiveOwnersForUpdate now' orgID d' \<ge> 1"
proof -
  have "owner_memberships now orgID d \<noteq> []" using assms(2) by (auto simp: CountActiveOwnersForUpdate_def)
  then have "hd (owner_memberships now orgID d) \<in> set (owner_memberships now orgID d)" by (rule hd_in_set)
  then obtain x b r where "owner_support d orgID x b r" unfolding set_owner_memberships [OF assms(1)] by blast
  with access_steps_owner [OF assms(3,1)] have wf: "access_wf d'" and "\<exists>x b r. owner_support d' orgID x b r" by blast+
  then have "owner_memberships now' orgID d' \<noteq> []" using set_owner_memberships [OF wf, of now' orgID] by auto
  then show ?thesis by (cases "owner_memberships now' orgID d'") (simp_all add: CountActiveOwnersForUpdate_def)
qed

theorem owner_never_lost_witness:
  "CountActiveOwnersForUpdate 100 1 acme \<ge> 1 \<and> acme_bound_db \<noteq> acme \<and>
   rtranclp (access_step example_env) acme acme_bound_db \<and> CountActiveOwnersForUpdate 100 1 acme_bound_db \<ge> 1"
proof -
  have "CountActiveOwnersForUpdate 100 1 acme \<ge> 1" by code_simp
  moreover have "acme_bound_db \<noteq> acme"
  proof
    assume "acme_bound_db = acme"
    then have "au_uuid_calls acme_bound_db = au_uuid_calls acme" by (rule arg_cong)
    then show False by (simp add: acme_bound_db_def acme_def)
  qed
  ultimately show ?thesis using owner_never_lost [OF acme_wf _ acme_access_steps] acme_access_steps by blast
qed

text \<open>C17: Every operation on roles, bindings and memberships keeps the well-formedness of the
  access tables: the identifiers of roles, bindings and memberships are unique, every binding refers
  to a role of its own organization, and no binding to an owner role expires; and a removed
  membership stays removed.\<close>

theorem access_well_formed:
  assumes "access_wf d" "rtranclp (access_step E) d d'"
  shows "access_wf d' \<and> (removed_member orgID i d \<longrightarrow> removed_member orgID i d')"
  using assms(2,1)
proof (induction rule: rtranclp_induct)
  case (step y z)
  then have "access_wf y" by blast
  with step.hyps(2) have "access_wf z"
    by (cases rule: access_step_cases) (auto intro: change_wf member_change_wf)
  with step show ?case by (auto dest: access_step_removed)
qed blast

theorem access_well_formed_witness: "access_wf acme \<and> access_wf acme_bound_db"
  using access_well_formed [OF acme_wf acme_access_steps] acme_wf by blast

text \<open>C18: No operation on roles, bindings or memberships adds, changes or removes a system role or
  its scopes.\<close>

theorem system_roles_fixed:
  assumes "access_wf d" "rtranclp (access_step E) d d'"
  shows "{r \<in> set (au_roles d'). Role_IsSystem r} = {r \<in> set (au_roles d). Role_IsSystem r} \<and>
    (\<forall>r \<in> set (au_roles d). Role_IsSystem r \<longrightarrow>
      scope_codes (Role_OrganizationID r) (Role_ID r) (au_role_scopes d') =
      scope_codes (Role_OrganizationID r) (Role_ID r) (au_role_scopes d))"
  using access_steps_system_roles [OF assms(2,1)] by blast

theorem system_roles_fixed_witness:
  "acme_role 20 ''owner'' True \<in> set (au_roles acme_bound_db) \<and>
   scope_codes 1 20 (au_role_scopes acme_bound_db) = scope_codes 1 20 (au_role_scopes acme)"
proof -
  let ?r = "acme_role 20 ''owner'' True"
  have r: "?r \<in> set (au_roles acme)" "Role_IsSystem ?r" "Role_OrganizationID ?r = 1" "Role_ID ?r = 20"
    by (simp_all add: acme_def acme_role_def)
  from system_roles_fixed [OF acme_wf acme_access_steps]
  have s: "{r \<in> set (au_roles acme_bound_db). Role_IsSystem r} = {r \<in> set (au_roles acme). Role_IsSystem r}"
    and c: "\<forall>r \<in> set (au_roles acme). Role_IsSystem r \<longrightarrow> scope_codes (Role_OrganizationID r) (Role_ID r) (au_role_scopes acme_bound_db) =
      scope_codes (Role_OrganizationID r) (Role_ID r) (au_role_scopes acme)" by blast+
  from s r(1,2) have "?r \<in> set (au_roles acme_bound_db)" by blast
  moreover from bspec [OF c r(1)] r(2-4) have "scope_codes 1 20 (au_role_scopes acme_bound_db) = scope_codes 1 20 (au_role_scopes acme)"
    by simp
  ultimately show ?thesis ..
qed

section \<open>What operations on roles may grant\<close>

text \<open>C10: An operation on roles gives nobody a scope its actor could not grant: whatever the
  operation, its input and its result, the scopes any member holds afterwards in any context, at any
  moment, are among the ones held before and the ones the actor may grant: its own scopes by active,
  unexpired bindings to the organization.\<close>

theorem no_escalation:
  assumes "roles_step E T actor d d'" "Pr_OrganizationID actor = Some orgID" "Pr_MembershipID actor = Some memID"
  shows "effective_codes E now kind storeID q mem user d' \<subseteq>
    effective_codes E now kind storeID q mem user d \<union> set (ResolveActorGrantScopes E (tx_now T) orgID memID d)"
proof (cases "d' = d")
  case False
  from roles_step_change [OF assms(1) False] assms(2,3)
  have "access_change (grants E (tx_now T) orgID memID d) orgID d d'" by (auto simp: acts_for_def)
  from change_no_escalation [OF this] show ?thesis .
qed simp

theorem no_escalation_witness:
  "effective_codes example_env 100 CtxORGANIZATION None 1 11 8 acme_bound_db \<subseteq>
   effective_codes example_env 100 CtxORGANIZATION None 1 11 8 acme \<union> {''roles.read'', ''roles.assign''}"
  using no_escalation [OF acme_binding_step, of 1 10 100 CtxORGANIZATION None 1 11 8] acme_grants
  by (simp add: acme_ana_def acme_txn_def)

text \<open>C11: Whenever an operation on roles changes the scopes a member holds in some context, it
  raises the authorization version of the organization or of the membership, the versions an access
  token carries.\<close>

theorem stale_versions:
  assumes "roles_step E T actor d d'"
    and "effective_codes E now kind storeID q mem user d' \<noteq> effective_codes E now kind storeID q mem user d"
  shows "org_version q d' \<noteq> org_version q d \<or> member_version q mem d' \<noteq> member_version q mem d"
proof -
  from assms(2) have "d' \<noteq> d" by blast
  with roles_step_change [OF assms(1)] obtain orgID memID where
    "access_change (grants E (tx_now T) orgID memID d) orgID d d'" by blast
  from change_raises_version [OF this assms(2)] show ?thesis .
qed

theorem stale_versions_witness:
  "''roles.read'' \<in> effective_codes example_env 100 CtxORGANIZATION None 1 11 8 acme_bound_db \<and>
   ''roles.read'' \<notin> effective_codes example_env 100 CtxORGANIZATION None 1 11 8 acme \<and>
   \<not> (org_version 1 acme_bound_db = org_version 1 acme \<and> member_version 1 11 acme_bound_db = member_version 1 11 acme)"
proof -
  have "''roles.read'' \<notin> effective_codes example_env 100 CtxORGANIZATION None 1 11 8 acme"
    by (simp add: effective_codes_iff grants_code_def acme_def acme_binding_def)
  moreover have "''roles.read'' \<in> effective_codes example_env 100 CtxORGANIZATION None 1 11 8 acme_bound_db"
    unfolding effective_codes_iff
    by (simp add: valid_context_def grants_code_def code_in_context_def scope_codes_def binding_in_context_def unexpired_def
        acme_bound_db_def acme_def acme_given_def acme_raised_def acme_rows)
      (intro exI [of _ "acme_role_scope 21 ''roles.read''"], simp add: acme_role_scope_def)
  ultimately show ?thesis
    using stale_versions [OF acme_binding_step, of 100 CtxORGANIZATION None 1 11 8] by blast
qed

section \<open>Leaving the organization\<close>

text \<open>C16: When a request suspends or removes a member, then in the same transaction every session of
  that membership stops being active, every refresh token of those sessions is revoked, and after the
  commit a configured cache is told to drop each of those sessions and the version of the
  membership.\<close>

theorem leaving_member:
  assumes "UpdateStatus E S T now actor rawID text d = (res, d', evs)" "d' \<noteq> d"
    and "requiredStatus E text = Inr st" "st \<noteq> MemACTIVE" "members_parseUUID E ''membershipId'' rawID = Inr i"
    and "MA_OrganizationID actor = Some orgID" "sessions_constrained d"
    and "s \<in> set (au_sessions d')" "Ses_OrganizationID s = Some orgID" "Ses_MembershipID s = Some i"
  shows "Ses_Status s \<noteq> SesACTIVE \<and>
    (\<forall>t \<in> set (au_refresh_tokens d'). Tok_SessionID t = Ses_ID s \<longrightarrow> Tok_RevokedAt t \<noteq> None) \<and>
    (msv_invalidator S \<longrightarrow> InvalidateSession (Ses_ID s) \<in> set evs \<and> InvalidateMembershipAuthorizationVersion i \<in> set evs)"
proof -
  from UpdateStatus_ends [OF assms(1-7)] obtain ids where
    "evs = invalidate (msv_invalidator S) ids (InvalidateMembershipAuthorizationVersion i)"
    "\<And>s. s \<in> set (au_sessions d') \<Longrightarrow> Ses_OrganizationID s = Some orgID \<Longrightarrow> Ses_MembershipID s = Some i \<Longrightarrow>
       Ses_Status s \<noteq> SesACTIVE \<and> Ses_ID s \<in> set ids \<and> revoked_in d' {Ses_ID s}" by blast
  with assms(8-10) show ?thesis by (auto simp: revoked_in_def invalidate_def)
qed

definition acme_removed :: membership where
  "acme_removed = (acme_membership 11 8)\<lparr>Mem_Status := MemREMOVED, Mem_RemovedAt := Some 100, Mem_AuthorizationVersion := 2,
     Mem_UpdatedAt := 100\<rparr>"

definition acme_ended :: auth_session where
  "acme_ended = acme_session\<lparr>Ses_Status := SesREVOKED, Ses_RevokedAt := Some 100, Ses_RevokeReason := Some ''membership_removed'',
     Ses_UpdatedAt := 100\<rparr>"

definition acme_left_base :: auth_db where
  "acme_left_base = acme\<lparr>au_memberships := [acme_membership 10 7, acme_removed], au_sessions := [acme_ended],
     au_refresh_tokens := [acme_token\<lparr>Tok_RevokedAt := Some 100\<rparr>]\<rparr>"

definition acme_left_metadata :: "(string \<times> metadata_value) list" where
  "acme_left_metadata = [(''previous_status'', MetaText ''ACTIVE''), (''new_status'', MetaText ''REMOVED''),
     (''authorization_version'', MetaInt 2), (''affected_sessions'', MetaInt 1)]"

definition acme_left :: auth_db where
  "acme_left = acme_left_base\<lparr>au_audit := [new_audit_event 100 1000
       (acme_audit ''membership.removed'' ''organization_membership'' 11 acme_left_metadata)], au_uuid_calls := 1\<rparr>"

lemma acme_left_update: "UpdateMembershipStatus 100 MemREMOVED 1 11 acme =
    (Inr (acme_removed, acme\<lparr>au_memberships := [acme_membership 10 7, acme_removed]\<rparr>) :: 's go_error + _)"
proof -
  have "write_membership 100 d (\<lambda>m. m\<lparr>Mem_Status := MemREMOVED, Mem_SuspendedAt := None, Mem_RemovedAt := Some 100,
       Mem_AuthorizationVersion := Mem_AuthorizationVersion m + 1\<rparr>) (acme_membership 11 8) =
     (Inr acme_removed :: 's go_error + _)" for d
    by (simp add: write_membership_def pg_bigint_def membership_checks_def check_row_def acme_rows acme_removed_def Let_def)
  moreover have "Mem_ID (acme_membership 10 7) = 10" "Mem_ID (acme_membership 11 8) = 11" "Mem_OrganizationID (acme_membership 11 8) = 1"
    by (simp_all add: acme_rows)
  ultimately show ?thesis
    by (simp add: UpdateMembershipStatus_def update_membership_def acme_def)
qed

lemma acme_left_sessions: "revoke_each 100 8 ''membership_removed'' [40] (acme\<lparr>au_memberships := [acme_membership 10 7, acme_removed]\<rparr>) =
    Inr acme_left_base"
proof -
  have s: "write_session 100 (terminated 100 SesREVOKED ''membership_removed'') acme_session = (Inr acme_ended :: members_error + _)"
    by (simp add: write_session_def terminated_def auth_session_checks_def check_row_def acme_session_def acme_ended_def Let_def
        btrim_blank_def)
  have t: "write_token (\<lambda>t. t\<lparr>Tok_RevokedAt := Some 100\<rparr>) acme_token = (Inr (acme_token\<lparr>Tok_RevokedAt := Some 100\<rparr>) :: members_error + _)"
    by (simp add: write_token_def refresh_token_checks_def check_row_def acme_token_def Let_def)
  have f: "Ses_ID acme_session = 40" "Ses_UserID acme_session = 8" "Ses_Status acme_session = SesACTIVE"
    "Tok_SessionID acme_token = 40" "Tok_RevokedAt acme_token = None" by (simp_all add: acme_session_def acme_token_def)
  have v: "(pg_varchar 100 ''membership_removed'' :: members_error + _) = Inr ''membership_removed''"
    by code_simp
  show ?thesis
    by (simp add: RevokeSession_def RevokeSessionRefreshTokens_def v s t f acme_def acme_left_base_def)
qed

lemma acme_left_owner: "LockActiveOwnerMembershipsForUpdate 100 1 acme = Inr 1"
  "\<not> hasOwnerBinding (ListMemberRoleBindings example_env 1 11 acme) 100"
proof -
  have "CountActiveOwnersForUpdate 100 1 acme = 1" by code_simp
  then show "LockActiveOwnerMembershipsForUpdate 100 1 acme = Inr 1"
    by (simp add: LockActiveOwnerMembershipsForUpdate_def LockOrganizationForOwnerChange_def acme_def acme_organization_def
        one_row_def)
  have "bound_roles (\<lambda>b. Bind_OrganizationID b = 1 \<and> Bind_MembershipID b = 11) acme = []"
    by (simp add: bound_roles_def acme_def acme_binding_def)
  then show "\<not> hasOwnerBinding (ListMemberRoleBindings example_env 1 11 acme) 100"
    by (simp add: ListMemberRoleBindings_def hasOwnerBinding_def)
qed

lemma acme_left_tx:
  "update_status_tx example_env acme_members_service 100 100 acme_ana_member 1 11 MemREMOVED acme = Inr ([40], acme_left)"
proof -
  have m: "getTargetForUpdate 1 11 acme = Inr (acme_membership 11 8)" "Mem_Status (acme_membership 11 8) = MemACTIVE"
    "Mem_UserID (acme_membership 11 8) = 8" "Mem_Status acme_removed = MemREMOVED" "Mem_AuthorizationVersion acme_removed = 2"
    by (simp_all add: getTargetForUpdate_def GetMembershipForUpdate_def membership_of_def one_row_def acme_def
        acme_membership_def acme_removed_def)
  have ids: "ListSessionIDsForMembership 1 11 (acme\<lparr>au_memberships := [acme_membership 10 7, acme_removed]\<rparr>) = [40]"
    by (simp add: ListSessionIDsForMembership_def acme_def acme_session_def)
  have reason: "''membership_'' @ strings_ToLower (unicode_lower example_env) (membership_status_string MemREMOVED) =
      ''membership_removed''" by code_simp
  have e: "end_sessions example_env acme_members_service 100 1 11 8 MemREMOVED
      (acme\<lparr>au_memberships := [acme_membership 10 7, acme_removed]\<rparr>) = Inr ([40], acme_left_base)"
    unfolding end_sessions_def RevokeMembershipSessions_def reason ids Let_def acme_left_sessions by simp
  have labels: "membership_event MemREMOVED = ''membership.removed''" "membership_status_string MemACTIVE = ''ACTIVE''"
    "membership_status_string MemREMOVED = ''REMOVED''" by (simp_all add: membership_event_def)
  have c: "char_length ''membership.removed'' \<le> 100" "\<not> btrim_blank ''membership.removed''"
    "char_length ''organization_membership'' \<le> 80" "\<not> btrim_blank ''organization_membership''" by code_simp+
  have w: "audit_Write example_env 100 (acme_audit ''membership.removed'' ''organization_membership'' 11 acme_left_metadata)
      acme_left_base = (Inr acme_left :: members_error + _)"
    by (subst acme_audit_written [where org = acme_organization and ms = "[acme_removed]"])
       (simp_all add: c acme_left_base_def acme_def acme_organization_def acme_left_def)
  have p: "newAuditEvent acme_members_service acme_ana_member 11 ''membership.removed''
      [(''previous_status'', MetaText ''ACTIVE''), (''new_status'', MetaText ''REMOVED''),
       (''authorization_version'', MetaInt 2), (''affected_sessions'', MetaInt 1)] =
      acme_audit ''membership.removed'' ''organization_membership'' 11 acme_left_metadata"
    by (simp add: newAuditEvent_def acme_audit_def acme_ana_member_def acme_meta_def acme_members_service_def nullableText_def
        acme_left_metadata_def)
  show ?thesis
    unfolding update_status_tx_def acme_left_owner(1) m(1) on_error_simps chain_simps Let_def
    by (simp add: m(2-5) acme_left_owner(2) validTransition_def acme_left_update e labels p w)
qed

lemma acme_left_step:
  "UpdateStatus example_env acme_members_service acme_txn 100 acme_ana_member (acme_id 11) ''removed'' acme =
     (get_membership example_env 1 11 acme_left, acme_left, [InvalidateSession 40, InvalidateMembershipAuthorizationVersion 11])"
  and acme_left_inputs: "requiredStatus example_env ''removed'' = Inr MemREMOVED"
    "members_parseUUID example_env ''membershipId'' (acme_id 11) = Inr 11" "MA_OrganizationID acme_ana_member = Some 1"
proof -
  show r: "requiredStatus example_env ''removed'' = Inr MemREMOVED" by code_simp
  show i: "members_parseUUID example_env ''membershipId'' (acme_id 11) = Inr 11"
    by (simp add: members_parseUUID_def validUUID_def)
  show "MA_OrganizationID acme_ana_member = Some 1" by (simp add: acme_ana_member_def)
  have v: "validateActor acme_ana_member ''members.remove'' = Inr 1"
    by (simp add: validateActor_def acme_ana_member_def validUUID_def ScopeSet_Has_def)
  have l: "lineage_ok acme_left"
    by (simp add: lineage_ok_def tokens_linked_def acme_left_def acme_left_base_def acme_def acme_token_def)
  show "UpdateStatus example_env acme_members_service acme_txn 100 acme_ana_member (acme_id 11) ''removed'' acme =
     (get_membership example_env 1 11 acme_left, acme_left, [InvalidateSession 40, InvalidateMembershipAuthorizationVersion 11])"
    by (simp add: UpdateStatus_def r i v members_commit_def Auth_WithTx_def WithTx_def acme_left_tx l invalidate_def)
qed

lemma acme_left_ne: "acme_left \<noteq> acme"
proof
  assume "acme_left = acme"
  then have "au_uuid_calls acme_left = au_uuid_calls acme" by (rule arg_cong)
  then show False by (simp add: acme_left_def acme_def)
qed

lemma acme_sessions_constrained: "sessions_constrained acme"
  by (simp add: sessions_constrained_def auth_sessions.unique_def memberships.unique_def session_context_ok_def
      auth_session_checks_def btrim_blank_def acme_def acme_rows Let_def)

theorem leaving_member_witness:
  "acme_ended \<in> set (au_sessions acme_left) \<and> Ses_Status acme_ended \<noteq> SesACTIVE \<and>
   (\<exists>t. au_refresh_tokens acme_left = [t] \<and> Tok_SessionID t = 40 \<and> Tok_RevokedAt t \<noteq> None)"
proof -
  have t: "au_refresh_tokens acme_left = [acme_token\<lparr>Tok_RevokedAt := Some 100\<rparr>]" "Tok_SessionID acme_token = 40"
    by (simp_all add: acme_left_def acme_left_base_def acme_token_def)
  have s: "acme_ended \<in> set (au_sessions acme_left)" "Ses_OrganizationID acme_ended = Some 1"
    "Ses_MembershipID acme_ended = Some 11" "Ses_ID acme_ended = 40"
    by (simp_all add: acme_left_def acme_left_base_def acme_ended_def acme_session_def)
  show ?thesis
    using leaving_member [OF acme_left_step acme_left_ne acme_left_inputs(1) _ acme_left_inputs(2,3) acme_sessions_constrained s(1-3)] s t
    by simp
qed

section \<open>Creating a role\<close>

lemma normalize_scopes_InrD:
  "normalize_scopes seen raws = Inr codes \<Longrightarrow> distinct seen \<Longrightarrow>
     distinct codes \<and> set codes = set seen \<union> strings_TrimSpace ` set raws"
  by (induction seen raws rule: normalize_scopes.induct) (auto simp: Let_def split: if_splits)

lemma normalizeRoleInput_scopes:
  assumes "normalizeRoleInput E input = Inr n"
  shows "distinct (NRI_scopes n) \<and> set (NRI_scopes n) = strings_TrimSpace ` set (URI_Scopes input) \<and>
    sorted (map (map (of_char :: char \<Rightarrow> nat)) (NRI_scopes n))"
proof -
  from assms obtain codes where "normalize_scopes [] (URI_Scopes input) = Inr codes" "NRI_scopes n = sort_Strings codes"
    by (auto simp: normalizeRoleInput_def Let_def result_simps)
  with normalize_scopes_InrD [OF this(1)] show ?thesis by (simp add: sort_Strings_def)
qed

lemma first_violation_name: "first_violation cs = Some c \<Longrightarrow> c \<in> fst ` set cs"
  by (induction cs rule: first_violation.induct) (auto split: if_splits)


text \<open>A successful request to create a role appends exactly one role to the organization of the
  actor: mutable, active and not a system role, with the normalized key, name, description and scope
  of assignment, with an identifier and a key that no role of the organization had; its scopes are the
  requested ones, trimmed, without repetition and sorted, each of which the actor may grant; no other
  role and none of its scopes changes; and the response is that role.\<close>

lemma create_role_spec:
  assumes "CreateRole E S T M actor input d = (Inr resp, d', evs)" "normalizeRoleInput E input = Inr n"
    and "Pr_OrganizationID actor = Some orgID" "Pr_MembershipID actor = Some memID"
  shows "\<exists>r. au_roles d' = au_roles d @ [r] \<and> resp = mapRole E r (NRI_scopes n) \<and>
    r = new_role (tx_now T) (Role_ID r) (create_role_params_of orgID memID n) \<and>
    (\<forall>q \<in> set (au_roles d). Role_ID q \<noteq> Role_ID r \<and> \<not> (Role_OrganizationID q = orgID \<and> Role_Key q = NRI_key n)) \<and>
    scopes_replaced orgID (Role_ID r) (NRI_scopes n) (au_role_scopes d) (au_role_scopes d') \<and>
    distinct (NRI_scopes n) \<and> set (NRI_scopes n) = strings_TrimSpace ` set (URI_Scopes input) \<and>
    sorted (map (map (of_char :: char \<Rightarrow> nat)) (NRI_scopes n)) \<and>
    set (NRI_scopes n) \<subseteq> set (ResolveActorGrantScopes E (tx_now T) orgID memID d)"
proof -
  from assms obtain a where a: "requireActorScope actor ''roles.create'' = Inr a"
    by (auto simp: CreateRole_def result_simps split: sum.splits)
  with assms(3,4) have a: "requireActorScope actor ''roles.create'' = Inr (orgID, memID)"
    by (cases a) (auto dest!: requireActorScope_InrD)
  with assms(1,2) obtain ids where t: "create_role_tx E S (tx_now T) M actor orgID memID n d = Inr ((resp, ids), d')"
    by (auto simp: CreateRole_def roles_commit_def result_simps split: prod.splits sum.splits)
  then obtain r d1 added d2 ids' ev i meta where
    v: "validateRoleScopes E (tx_now T) orgID memID (NRI_assignmentScope n) (NRI_scopes n) d = Inr ()"
    and c: "CreateRole_row E (tx_now T) (create_role_params_of orgID memID n) d = (Inr (r, d1) :: roles_error + _)"
    and s: "ReplaceRoleScopes E (tx_now T) orgID (Role_ID r) (NRI_scopes n) d1 = (Inr (added, d2) :: roles_error + _)"
    and o: "organization_changed E S (tx_now T) M actor orgID ev i meta d2 = Inr (ids', d')"
    and resp: "resp = mapRole E r (NRI_scopes n)"
    by (auto simp: create_role_tx_def chain_eq_Inr on_error_eq_Inr)
  note r = CreateRole_row_InrD [OF c]
  have keys: "\<forall>q \<in> set (au_roles d). \<not> (Role_OrganizationID q = orgID \<and> Role_Key q = NRI_key n)"
    using c by (auto simp: CreateRole_row_def Let_def result_simps find_None_iff new_role_def create_role_params_of_def)
  from r(3) have ids: "\<forall>q \<in> set (au_roles d). Role_ID q \<noteq> Role_ID r" by (auto simp: find_None_iff)
  from ReplaceRoleScopes_InrD [OF s] organization_changed_InrD [OF o] r(1)
  have "au_roles d' = au_roles d @ [r]" "scopes_replaced orgID (Role_ID r) (NRI_scopes n) (au_role_scopes d) (au_role_scopes d')"
    by auto
  moreover have "r = new_role (tx_now T) (Role_ID r) (create_role_params_of orgID memID n)"
    using r(2) by (simp add: new_role_def)
  ultimately show ?thesis
    using resp keys ids validateRoleScopes_InrD [OF v] normalizeRoleInput_scopes [OF assms(2)] by blast
qed

section \<open>The key of the owner role\<close>

text \<open>C38: A well-formed request to create a role with the key \<open>owner\<close> is answered as an outage: the
  check constraint \<open>roles_owner_shape_check\<close> refuses the row before the unique index is consulted,
  its violation is not translated, and the response is 503, although nothing is unavailable. The
  database is unchanged.\<close>

theorem owner_key_unavailable:
  assumes "requireActorScope actor ''roles.create'' = Inr (orgID, memID)" "normalizeRoleInput E input = Inr n"
    and "NRI_key n = ''owner''" "tx_begin_error T = None"
    and "validateRoleScopes E (tx_now T) orgID memID (NRI_assignmentScope n) (NRI_scopes n) d = Inr ()"
  shows "\<exists>e. CreateRole E S T M actor input d = (Inl e, d, []) \<and>
    roles_writeError e = (503, ''AUTH_DEPENDENCY_UNAVAILABLE'', ''Authorization service is unavailable.'', [])"
proof -
  let ?P = "create_role_params_of orgID memID n" and ?i = "uuidv7 E (au_uuid_calls d)"
  have "first_violation (role_checks (new_role (tx_now T) ?i ?P)) \<noteq> None"
    using assms(3) by (auto simp: first_violation_None role_checks_def new_role_def create_role_params_of_def
        simp del: first_violation.simps)
  moreover note first_violation_name
  ultimately obtain code c where
    pg: "(CreateRole_row E (tx_now T) ?P d :: roles_error + _) = Inl (PgError code c)"
    and c: "c = [] \<or> c \<in> fst ` set (role_checks (new_role (tx_now T) ?i ?P))"
    unfolding CreateRole_row_def Let_def chain_def pg_varchar_def pg_varchar_null_def check_row_def
    by (fastforce split: sum.splits option.splits if_splits)
  then have "translatePersistenceError (PgError code c) = roles_unavailable ''database operation'' (PgError code c)"
    by (auto simp: translatePersistenceError_def role_checks_def)
  with assms(1,2,4,5) pg have "CreateRole E S T M actor input d =
      (Inl (Wrapped ''create role transaction'' (roles_unavailable ''database operation'' (PgError code c))), d, [])"
    by (simp add: CreateRole_def roles_commit_def Auth_WithTx_def WithTx_def create_role_tx_def)
  then show ?thesis by (simp add: roles_writeError_def roles_sentinel_response_def roles_unavailable_def)
qed

definition acme_new_input :: "string \<Rightarrow> upsert_role_input" where
  "acme_new_input key = \<lparr>URI_Key = key, URI_Name = '' Caixa '', URI_Description = None,
     URI_AssignmentScope = ''organization'', URI_Scopes = ['' roles.read'', ''roles.read'']\<rparr>"

definition acme_new_normalized :: "string \<Rightarrow> normalized_role_input" where
  "acme_new_normalized key = \<lparr>NRI_key = key, NRI_name = ''Caixa'', NRI_description = None,
     NRI_assignmentScope = AssignORGANIZATION, NRI_scopes = [''roles.read'']\<rparr>"

lemma acme_new_normalizes:
  "normalizeRoleInput example_env (acme_new_input ''Cashier'') = Inr (acme_new_normalized ''cashier'')"
  "normalizeRoleInput example_env (acme_new_input ''Owner'') = Inr (acme_new_normalized ''owner'')"
  by code_simp+

lemma acme_new_valid: "validateRoleScopes example_env 100 1 10 AssignORGANIZATION [''roles.read''] acme = Inr ()"
  by code_simp

lemma acme_new_actor: "requireActorScope acme_ana ''roles.create'' = Inr (1, 10)"
  by (simp add: requireActorScope_def acme_ana_def HasOrganizationScope_def ScopeSet_HasAll_def ScopeSet_Has_def)

theorem owner_key_unavailable_witness:
  "\<exists>e. CreateRole example_env acme_roles_service acme_txn acme_meta acme_ana (acme_new_input ''Owner'') acme = (Inl e, acme, []) \<and>
     roles_writeError e = (503, ''AUTH_DEPENDENCY_UNAVAILABLE'', ''Authorization service is unavailable.'', [])"
  by (rule owner_key_unavailable [OF acme_new_actor acme_new_normalizes(2)]) (simp_all add: acme_new_normalized_def acme_new_valid)

definition acme_cashier :: role where
  "acme_cashier = new_role 100 1000 (create_role_params_of 1 10 (acme_new_normalized ''cashier''))"

definition acme_org_raised :: organization where
  "acme_org_raised = acme_organization\<lparr>Org_AuthorizationVersion := 2, Org_UpdatedAt := 100\<rparr>"

definition acme_new_scopes :: "role_scope list" where
  "acme_new_scopes = au_role_scopes acme @ [\<lparr>RS_OrganizationID = 1, RS_RoleID = 1000, RS_ScopeCode = ''roles.read'', RS_CreatedAt = 100\<rparr>]"

definition acme_cashier_base :: auth_db where
  "acme_cashier_base = acme\<lparr>au_roles := au_roles acme @ [acme_cashier], au_uuid_calls := 1, au_role_scopes := acme_new_scopes\<rparr>"

definition acme_cashier_metadata :: "(string \<times> metadata_value) list" where
  "acme_cashier_metadata = [(''key'', MetaText ''cashier''), (''assignment_scope'', MetaText ''ORGANIZATION''), (''scope_count'', MetaInt 1)]"

definition acme_cashier_db :: auth_db where
  "acme_cashier_db = acme_cashier_base\<lparr>au_organizations := [acme_org_raised],
     au_audit := [new_audit_event 100 1001 (acme_audit ''role.created'' ''role'' 1000 acme_cashier_metadata)], au_uuid_calls := 2\<rparr>"

lemma acme_cashier_fields: "Role_ID acme_cashier = 1000" "Role_Key acme_cashier = ''cashier''"
  "Role_AssignmentScope acme_cashier = AssignORGANIZATION" "Role_OrganizationID acme_cashier = 1"
  "Role_Name acme_cashier = ''Caixa''" "Role_IsSystem acme_cashier = False" "Role_CreatedAt acme_cashier = 100" "Role_UpdatedAt acme_cashier = 100"
  "Role_CreatedByMembershipID acme_cashier = Some 10"
  by (simp_all add: acme_cashier_def new_role_def create_role_params_of_def acme_new_normalized_def)

lemma acme_cashier_row: "CreateRole_row example_env 100 (create_role_params_of 1 10 (acme_new_normalized ''cashier'')) acme =
    (Inr (acme_cashier, acme\<lparr>au_roles := au_roles acme @ [acme_cashier], au_uuid_calls := 1\<rparr>) :: roles_error + _)"
proof -
  have P: "CR_Key (create_role_params_of 1 10 (acme_new_normalized ''cashier'')) = ''cashier''"
    "CR_Name (create_role_params_of 1 10 (acme_new_normalized ''cashier'')) = ''Caixa''"
    "CR_Description (create_role_params_of 1 10 (acme_new_normalized ''cashier'')) = None"
    by (simp_all add: create_role_params_of_def acme_new_normalized_def)
  have v: "char_length ''cashier'' \<le> 80" "char_length ''Caixa'' \<le> 120" "role_key_format ''cashier''" by code_simp+
  have c: "check_row (role_checks acme_cashier) = (Inr () :: roles_error + _)"
    by (simp add: check_row_def role_checks_def acme_cashier_fields v btrim_blank_def)
  have n: "new_role 100 (uuidv7 example_env (au_uuid_calls acme)) (create_role_params_of 1 10 (acme_new_normalized ''cashier'')) = acme_cashier"
    by (simp add: acme_env acme_def acme_cashier_def)
  show ?thesis
    unfolding CreateRole_row_def P n Let_def pg_varchar_def pg_varchar_null_def
    by (simp add: v c acme_cashier_fields) (simp add: acme_def acme_rows membership_of_def)
qed

lemma acme_cashier_scopes: "ReplaceRoleScopes example_env 100 1 1000 [''roles.read'']
    (acme\<lparr>au_roles := au_roles acme @ [acme_cashier], au_uuid_calls := 1\<rparr>) =
    (Inr ([\<lparr>RS_OrganizationID = 1, RS_RoleID = 1000, RS_ScopeCode = ''roles.read'', RS_CreatedAt = 100\<rparr>], acme_cashier_base) :: roles_error + _)"
proof -
  have "(pg_varchar 100 ''roles.read'' :: roles_error + _) = Inr ''roles.read''" by code_simp
  then show ?thesis
    by (simp add: ReplaceRoleScopes_def role_scope_codes_def role_scope_assignment_def role_of_def scope_of_def Let_def
        acme_cashier_fields acme_cashier_base_def acme_new_scopes_def acme_def acme_rows)
qed

lemma acme_cashier_changed:
  "organization_changed example_env acme_roles_service 100 acme_meta acme_ana 1 ''role.created'' 1000 acme_cashier_metadata acme_cashier_base =
     Inr ([40], acme_cashier_db)"
proof -
  let ?d = "acme_cashier_base\<lparr>au_organizations := [acme_org_raised]\<rparr>"
  have o: "write_organization 100 (\<lambda>g. g\<lparr>Org_AuthorizationVersion := Org_AuthorizationVersion g + 1\<rparr>) acme_organization =
      (Inr acme_org_raised :: roles_error + _)"
    by (simp add: write_organization_def pg_bigint_def organization_checks_def check_row_def btrim_blank_def acme_organization_def
        acme_org_raised_def key_char_def Let_def)
  have i: "IncrementOrganizationAuthorizationVersion 100 1 acme_cashier_base = (Inr (acme_org_raised, ?d) :: roles_error + _)"
    by (simp add: IncrementOrganizationAuthorizationVersion_def acme_cashier_base_def acme_def o)
      (simp add: acme_organization_def)
  have c: "char_length ''role.created'' \<le> 100" "\<not> btrim_blank ''role.created''" "char_length ''role'' \<le> 80" "\<not> btrim_blank ''role''"
    by code_simp+
  have w: "audit_Write example_env 100 (acme_audit ''role.created'' ''role'' 1000 acme_cashier_metadata) ?d =
      (Inr acme_cashier_db :: roles_error + _)"
    by (subst acme_audit_written [where org = acme_org_raised and ms = "[acme_membership 11 8]"])
       (simp_all add: c acme_cashier_base_def acme_def acme_org_raised_def acme_organization_def acme_cashier_db_def)
  have r: "roles_writeAudit example_env acme_roles_service 100 acme_meta acme_ana ''role.created'' ''role'' 1000
      acme_cashier_metadata d = on_error (roles_unavailable ''write audit event'') (audit_Write example_env 100
      (acme_audit ''role.created'' ''role'' 1000 acme_cashier_metadata) d)" for d
    by (simp add: roles_writeAudit_def acme_audit_def acme_ana_def acme_meta_def acme_roles_service_def)
  have "ListSessionIDsForOrganization 1 ?d = [40]"
    by (simp add: ListSessionIDsForOrganization_def acme_cashier_base_def acme_def acme_session_def)
  then show ?thesis by (simp add: organization_changed_def i r w)
qed

lemma acme_cashier_created:
  "CreateRole example_env acme_roles_service acme_txn acme_meta acme_ana (acme_new_input ''Cashier'') acme =
     (Inr (mapRole example_env acme_cashier [''roles.read'']), acme_cashier_db,
      invalidate True [40] (InvalidateOrganizationAuthorizationVersion 1))"
proof -
  have n: "NRI_scopes (acme_new_normalized ''cashier'') = [''roles.read'']"
    "NRI_assignmentScope (acme_new_normalized ''cashier'') = AssignORGANIZATION" by (simp_all add: acme_new_normalized_def)
  have c: "organization_changed example_env acme_roles_service 100 acme_meta acme_ana 1 ''role.created'' 1000
      [(''key'', MetaText ''cashier''), (''assignment_scope'', MetaText ''ORGANIZATION''), (''scope_count'', MetaInt 1)]
      acme_cashier_base = Inr ([40], acme_cashier_db)"
    using acme_cashier_changed by (simp only: acme_cashier_metadata_def)
  have t: "create_role_tx example_env acme_roles_service 100 acme_meta acme_ana 1 10 (acme_new_normalized ''cashier'') acme =
      Inr ((mapRole example_env acme_cashier [''roles.read''], [40]), acme_cashier_db)"
    unfolding create_role_tx_def n acme_new_valid acme_cashier_row chain_simps on_error_simps prod.case acme_cashier_fields
      acme_cashier_scopes
    by (simp add: c)
  have l: "lineage_ok acme_cashier_db"
    by (simp add: lineage_ok_def tokens_linked_def acme_cashier_db_def acme_cashier_base_def acme_def acme_token_def)
  show ?thesis
    by (simp add: CreateRole_def acme_new_actor acme_new_normalizes(1) roles_commit_def Auth_WithTx_def WithTx_def t l)
qed

lemma create_role_spec_witness:
  "(\<exists>r. au_roles acme_cashier_db = au_roles acme @ [r] \<and> r = new_role 100 (Role_ID r) (create_role_params_of 1 10 (acme_new_normalized ''cashier'')) \<and>
      scopes_replaced 1 (Role_ID r) [''roles.read''] (au_role_scopes acme) (au_role_scopes acme_cashier_db)) \<and>
   set [''roles.read''] = strings_TrimSpace ` set ['' roles.read'', ''roles.read'']"
proof -
  have a: "Pr_OrganizationID acme_ana = Some 1" "Pr_MembershipID acme_ana = Some 10" by (simp_all add: acme_ana_def)
  have n: "NRI_scopes (acme_new_normalized ''cashier'') = [''roles.read'']" by (simp add: acme_new_normalized_def)
  have i: "URI_Scopes (acme_new_input ''Cashier'') = ['' roles.read'', ''roles.read'']" by (simp add: acme_new_input_def)
  show ?thesis
    using create_role_spec [OF acme_cashier_created acme_new_normalizes(1) a] unfolding n i acme_services by blast
qed
end
