(* ===== verification/Access_Token.thy ===== *)
theory Access_Token
  imports Principal Sessions
begin

text \<open>
  The access tokens of \<open>platform/token/jwt\<close>: their claims and the claims' validation, the
  signer, and the validator. The JWT library (serialization, signature, and the checks of
  issuer, audience and times) is a parameter; a token is what it makes of a header and claims.
\<close>

section \<open>Claims\<close>

text \<open>Times in claims are Unix seconds (\<open>jwt.NumericDate\<close>); an absent one is None.\<close>

record claims =
  Claim_Issuer :: string
  Claim_Subject :: string
  Claim_Audience :: "string list"
  Claim_ID :: string
  Claim_IssuedAt :: "int option"
  Claim_NotBefore :: "int option"
  Claim_ExpiresAt :: "int option"
  Claim_ClientID :: string
  Claim_Ctx :: string
  Claim_SID :: string
  Claim_OrgID :: string
  Claim_MembershipID :: string
  Claim_StoreID :: string
  Claim_Roles :: "string list"
  Claim_Scope :: string
  Claim_OAV :: "int option"
  Claim_MAV :: "int option"
  Claim_PV :: int
  Claim_AuthTime :: int
  Claim_AMR :: "string list"
  Claim_Ver :: int

datatype jwt_sentinel =
    ErrTokenInvalid | ErrTokenExpired | ErrTokenSignature | ErrTokenAlgorithm | ErrTokenTyp | ErrTokenKID
  | ErrTokenIssuer | ErrTokenAudience | ErrTokenSize | ErrClaimsInvalid | ErrClaimsIncoherent

type_synonym jwt_error = "jwt_sentinel go_error"

definition claims_error :: "jwt_sentinel \<Rightarrow> string \<Rightarrow> jwt_error" where
  "claims_error s text = Joined (Sentinel s) (OtherError text)"

definition Claims_Validate :: "claims \<Rightarrow> jwt_error + unit" where
  "Claims_Validate c =
     chain (guard_error (ContextKind_Valid (Claim_Ctx c))
             (claims_error ErrClaimsInvalid (''invalid context kind '' @ Claim_Ctx c))) (\<lambda>_.
     chain (if Claim_Ctx c = ''identity'' then
              chain (guard_error (\<not> (Claim_OrgID c \<noteq> [] \<or> Claim_MembershipID c \<noteq> [] \<or> Claim_StoreID c \<noteq> []))
                      (claims_error ErrClaimsIncoherent ''identity context must not have tenant claims'')) (\<lambda>_.
              guard_error (\<not> (Claim_OAV c \<noteq> None \<or> Claim_MAV c \<noteq> None))
                (claims_error ErrClaimsIncoherent ''identity context must not have auth version claims''))
            else if Claim_Ctx c = ''organization'' then
              chain (guard_error (\<not> (Claim_OrgID c = [] \<or> Claim_MembershipID c = []))
                      (claims_error ErrClaimsIncoherent ''organization context requires org_id and membership_id'')) (\<lambda>_.
              chain (guard_error (Claim_StoreID c = [])
                      (claims_error ErrClaimsIncoherent ''organization context must not have store_id'')) (\<lambda>_.
              guard_error (\<not> (Claim_OAV c = None \<or> Claim_MAV c = None))
                (claims_error ErrClaimsIncoherent ''organization context requires oav and mav'')))
            else
              chain (guard_error (\<not> (Claim_OrgID c = [] \<or> Claim_MembershipID c = [] \<or> Claim_StoreID c = []))
                      (claims_error ErrClaimsIncoherent ''store context requires org_id, membership_id, and store_id'')) (\<lambda>_.
              guard_error (\<not> (Claim_OAV c = None \<or> Claim_MAV c = None))
                (claims_error ErrClaimsIncoherent ''store context requires oav and mav''))) (\<lambda>_.
     chain (guard_error (Claim_ID c \<noteq> []) (claims_error ErrClaimsInvalid ''missing jti'')) (\<lambda>_.
     chain (guard_error (Claim_Subject c \<noteq> []) (claims_error ErrClaimsInvalid ''missing sub'')) (\<lambda>_.
     guard_error (Claim_IssuedAt c \<noteq> None) (claims_error ErrClaimsInvalid ''missing iat'')))))"

text \<open>An identifier in a claim; the empty text is the invalid identifier.\<close>

definition jwt_parseUUID :: "env \<Rightarrow> string \<Rightarrow> jwt_error + uuid option" where
  "jwt_parseUUID E raw =
     (if raw = [] then Inr None
      else case uuid_Scan E raw of
        None \<Rightarrow> Inl (claims_error ErrClaimsInvalid (''invalid UUID '' @ raw))
      | Some u \<Rightarrow> Inr (Some u))"

section \<open>The library\<close>

record jwt_header =
  Head_alg :: string
  Head_kid :: "string option"
  Head_typ :: "string option"

datatype jwt_failure = LibExpired | LibSignatureInvalid | LibInvalidIssuer | LibInvalidAudience | LibOther string

text \<open>
  \<open>lib_Sign\<close> is \<open>NewWithClaims\<close> with \<open>SignedString\<close>, None when it fails. \<open>lib_Parse\<close> is
  \<open>ParseWithClaims\<close> with the key function, issuer, audience and leeway of the validator, at a time.
\<close>

record jwt_library =
  lib_Sign :: "nat list \<Rightarrow> jwt_header \<Rightarrow> claims \<Rightarrow> string option"
  lib_Parse :: "(jwt_header \<Rightarrow> jwt_error + nat list) \<Rightarrow> string \<Rightarrow> string \<Rightarrow> int \<Rightarrow> time \<Rightarrow> string \<Rightarrow>
     jwt_failure + jwt_header \<times> claims"

record keyring =
  ActiveKID :: string
  PrivateKey :: "nat list"
  PublicKeys :: "(string \<times> nat list) list"

text \<open>The configuration that the signer and the validator of the program share.\<close>

record token_service =
  ts_lib :: jwt_library
  ts_keyring :: keyring
  ts_issuer :: string
  ts_audience :: string
  ts_ttl :: int
  ts_clockSkew :: int

definition MaxTokenSize :: nat where "MaxTokenSize = 16 * 1024"

definition MaxRoles :: nat where "MaxRoles = 20"

definition MaxScopeItems :: nat where "MaxScopeItems = 50"

definition unix_seconds :: "time \<Rightarrow> int" where "unix_seconds t = t div 1000000"

section \<open>Signing\<close>

record signer_claims =
  SC_Subject :: string
  SC_JTI :: string
  SC_SessionID :: string
  SC_ClientID :: string
  SC_Ctx :: string
  SC_OrgID :: string
  SC_MembershipID :: string
  SC_StoreID :: string
  SC_Roles :: "string list"
  SC_Scopes :: "string list"
  SC_OAV :: "int option"
  SC_MAV :: "int option"
  SC_PV :: int
  SC_AuthTime :: time
  SC_AMR :: "string list"

text \<open>Byte order, as \<open>sort.Strings\<close>.\<close>

definition uniqueSorted :: "string list \<Rightarrow> string list" where
  "uniqueSorted items = sort_key (map (of_char :: char \<Rightarrow> nat)) (remdups items)"

fun strings_Join :: "string list \<Rightarrow> string \<Rightarrow> string" where
  "strings_Join [] sep = []"
| "strings_Join [x] sep = x"
| "strings_Join (x # xs) sep = x @ sep @ strings_Join xs sep"

definition signed_claims :: "token_service \<Rightarrow> time \<Rightarrow> signer_claims \<Rightarrow> claims" where
  "signed_claims V now c =
     (let identity = (SC_Ctx c = ''identity'') in
      \<lparr>Claim_Issuer = ts_issuer V, Claim_Subject = SC_Subject c, Claim_Audience = [ts_audience V], Claim_ID = SC_JTI c,
       Claim_IssuedAt = Some (unix_seconds now), Claim_NotBefore = Some (unix_seconds (now - ts_clockSkew V)),
       Claim_ExpiresAt = Some (unix_seconds (now + ts_ttl V)),
       Claim_ClientID = SC_ClientID c, Claim_Ctx = SC_Ctx c, Claim_SID = SC_SessionID c,
       Claim_OrgID = (if identity then [] else SC_OrgID c),
       Claim_MembershipID = (if identity then [] else SC_MembershipID c),
       Claim_StoreID = (if SC_Ctx c = ''store'' then SC_StoreID c else []),
       Claim_Roles = uniqueSorted (SC_Roles c), Claim_Scope = strings_Join (uniqueSorted (SC_Scopes c)) '' '',
       Claim_OAV = (if identity then None else SC_OAV c), Claim_MAV = (if identity then None else SC_MAV c),
       Claim_PV = SC_PV c, Claim_AuthTime = unix_seconds (SC_AuthTime c), Claim_AMR = SC_AMR c, Claim_Ver = 1\<rparr>)"

definition Sign :: "token_service \<Rightarrow> time \<Rightarrow> signer_claims \<Rightarrow> jwt_error + string" where
  "Sign V now c =
     chain (guard_error (SC_Subject c \<noteq> []) (claims_error ErrClaimsInvalid ''subject is required'')) (\<lambda>_.
     chain (guard_error (SC_JTI c \<noteq> []) (claims_error ErrClaimsInvalid ''jti is required'')) (\<lambda>_.
     chain (guard_error (SC_SessionID c \<noteq> []) (claims_error ErrClaimsInvalid ''sid is required'')) (\<lambda>_.
     chain (guard_error (SC_ClientID c \<noteq> []) (claims_error ErrClaimsInvalid ''client_id is required'')) (\<lambda>_.
     chain (guard_error (ContextKind_Valid (SC_Ctx c)) (claims_error ErrClaimsInvalid ''invalid context'')) (\<lambda>_.
     chain (guard_error (SC_PV c \<noteq> 0) (claims_error ErrClaimsInvalid ''pv is required'')) (\<lambda>_.
     chain (guard_error (\<not> length (SC_Roles c) > MaxRoles) (claims_error ErrClaimsInvalid ''too many roles'')) (\<lambda>_.
     chain (guard_error (\<not> length (SC_Scopes c) > MaxScopeItems) (claims_error ErrClaimsInvalid ''too many scopes'')) (\<lambda>_.
     chain (guard_error (\<not> (SC_Ctx c = ''organization'' \<and> (SC_OrgID c = [] \<or> SC_MembershipID c = [])))
             (claims_error ErrClaimsIncoherent ''organization context requires org_id and membership_id'')) (\<lambda>_.
     chain (guard_error (\<not> (SC_Ctx c = ''store'' \<and> (SC_OrgID c = [] \<or> SC_MembershipID c = [] \<or> SC_StoreID c = [])))
             (claims_error ErrClaimsIncoherent ''store context requires org_id, membership_id, and store_id'')) (\<lambda>_.
     case lib_Sign (ts_lib V) (PrivateKey (ts_keyring V))
            \<lparr>Head_alg = ''EdDSA'', Head_kid = Some (ActiveKID (ts_keyring V)), Head_typ = Some ''at+jwt''\<rparr>
            (signed_claims V now c) of
       None \<Rightarrow> Inl (OtherError ''failed to sign token'')
     | Some token \<Rightarrow>
         chain (guard_error (\<not> length token > MaxTokenSize) (claims_error ErrTokenSize ''token exceeds maximum size''))
           (\<lambda>_. Inr token)))))))))))"

section \<open>Validating\<close>

definition key_of :: "keyring \<Rightarrow> jwt_header \<Rightarrow> jwt_error + nat list" where
  "key_of K h =
     chain (guard_error (Head_alg h = ''EdDSA'') (claims_error ErrTokenAlgorithm (''expected EdDSA, got '' @ Head_alg h))) (\<lambda>_.
     case Head_kid h of
       None \<Rightarrow> Inl (claims_error ErrTokenKID ''missing kid'')
     | Some kid \<Rightarrow>
         if kid = [] then Inl (claims_error ErrTokenKID ''missing kid'')
         else (case map_of (PublicKeys K) kid of
             None \<Rightarrow> Inl (claims_error ErrTokenKID (''unknown kid '' @ kid))
           | Some key \<Rightarrow> Inr key))"

definition Token_Validate :: "token_service \<Rightarrow> time \<Rightarrow> string \<Rightarrow> jwt_error + claims" where
  "Token_Validate V now token =
     chain (guard_error (\<not> length token > MaxTokenSize) (claims_error ErrTokenSize ''token exceeds bytes'')) (\<lambda>_.
     case lib_Parse (ts_lib V) (key_of (ts_keyring V)) (ts_issuer V) (ts_audience V) (ts_clockSkew V) now token of
       Inl LibExpired \<Rightarrow> Inl (Sentinel ErrTokenExpired)
     | Inl LibSignatureInvalid \<Rightarrow> Inl (Sentinel ErrTokenSignature)
     | Inl LibInvalidIssuer \<Rightarrow> Inl (Sentinel ErrTokenIssuer)
     | Inl LibInvalidAudience \<Rightarrow> Inl (Sentinel ErrTokenAudience)
     | Inl (LibOther text) \<Rightarrow> Inl (claims_error ErrTokenInvalid text)
     | Inr (h, c) \<Rightarrow>
         chain (guard_error (Head_typ h = Some ''at+jwt'') (claims_error ErrTokenTyp ''expected at+jwt'')) (\<lambda>_.
         chain (Claims_Validate c) (\<lambda>_. Inr c)))"

text \<open>
  What the program relies on: reading a token that the library signed gives, if it is accepted, the
  header and claims that were signed, provided their texts are ASCII (JSON keeps those).
\<close>

definition ascii_text :: "string \<Rightarrow> bool" where
  "ascii_text s \<longleftrightarrow> list_all (\<lambda>c. (of_char c :: nat) < 128) s"

definition ascii_claims :: "claims \<Rightarrow> bool" where
  "ascii_claims c \<longleftrightarrow> list_all ascii_text
     ([Claim_Issuer c, Claim_Subject c, Claim_ID c, Claim_ClientID c, Claim_Ctx c, Claim_SID c, Claim_OrgID c,
       Claim_MembershipID c, Claim_StoreID c, Claim_Scope c] @ Claim_Audience c @ Claim_Roles c @ Claim_AMR c)"

definition jwt_law :: "jwt_library \<Rightarrow> bool" where
  "jwt_law J \<longleftrightarrow> (\<forall>key h c token kf issuer audience leeway now h' c'.
     lib_Sign J key h c = Some token \<longrightarrow> ascii_claims c \<longrightarrow>
     lib_Parse J kf issuer audience leeway now token = Inr (h', c') \<longrightarrow> h' = h \<and> c' = c)"

lemma Token_Validate_signed:
  assumes "Sign V now c = Inr token" "Token_Validate V now' token = Inr c'" "jwt_law (ts_lib V)"
    and "ascii_claims (signed_claims V now c)"
  shows "c' = signed_claims V now c"
proof -
  from assms(1) have s: "lib_Sign (ts_lib V) (PrivateKey (ts_keyring V))
      \<lparr>Head_alg = ''EdDSA'', Head_kid = Some (ActiveKID (ts_keyring V)), Head_typ = Some ''at+jwt''\<rparr>
      (signed_claims V now c) = Some token"
    by (auto simp: Sign_def result_simps split: option.splits)
  from assms(2) obtain h where
    "lib_Parse (ts_lib V) (key_of (ts_keyring V)) (ts_issuer V) (ts_audience V) (ts_clockSkew V) now' token = Inr (h, c')"
    by (auto simp: Token_Validate_def result_simps split: sum.splits jwt_failure.splits)
  with s assms(3,4) show ?thesis unfolding jwt_law_def by blast
qed

section \<open>Scopes in a claim\<close>

text \<open>\<open>strings.Split(s, " ")\<close>, and the set of non-empty parts.\<close>

fun strings_Split_space :: "string \<Rightarrow> string list" where
  "strings_Split_space [] = [[]]"
| "strings_Split_space (c # s) =
     (if c = CHR '' '' then [] # strings_Split_space s
      else case strings_Split_space s of [] \<Rightarrow> [[c]] | w # ws \<Rightarrow> (c # w) # ws)"

definition scope_parts :: "string \<Rightarrow> string list" where
  "scope_parts s = (if s = [] then [] else filter (\<lambda>w. w \<noteq> []) (strings_Split_space s))"

lemma Split_ne [simp]: "strings_Split_space s \<noteq> []"
  by (induction s) (auto split: list.splits)

lemma Split_word: "CHR '' '' \<notin> set w \<Longrightarrow> strings_Split_space w = [w]"
  by (induction w) auto

lemma Split_append: "CHR '' '' \<notin> set w \<Longrightarrow> strings_Split_space (w @ CHR '' '' # s) = w # strings_Split_space s"
  by (induction w) auto

lemma Split_Join:
  "ws \<noteq> [] \<Longrightarrow> \<forall>w \<in> set ws. CHR '' '' \<notin> set w \<Longrightarrow> strings_Split_space (strings_Join ws '' '') = ws"
  by (induction ws "'' ''" rule: strings_Join.induct) (auto simp: Split_word Split_append)

lemma Join_Nil: "strings_Join ws '' '' = [] \<Longrightarrow> set ws \<subseteq> {[]}"
  by (induction ws "'' ''" rule: strings_Join.induct) auto

lemma scope_parts_Join:
  assumes "\<forall>w \<in> set ws. w \<noteq> [] \<and> CHR '' '' \<notin> set w"
  shows "scope_parts (strings_Join ws '' '') = ws"
proof (cases "ws = []")
  case False
  have ne: "strings_Join ws '' '' \<noteq> []"
  proof
    assume "strings_Join ws '' '' = []"
    from Join_Nil [OF this] assms False show False by (cases ws) auto
  qed
  have "filter (\<lambda>w. w \<noteq> []) ws = ws" using assms by (simp add: filter_id_conv)
  moreover have "strings_Split_space (strings_Join ws '' '') = ws" using assms False by (intro Split_Join) auto
  ultimately show ?thesis using ne by (simp add: scope_parts_def)
qed (simp add: scope_parts_def)

lemma set_uniqueSorted [simp]: "set (uniqueSorted xs) = set xs"
  by (simp add: uniqueSorted_def)

end
