(* ===== verification/Authn.thy ===== *)
theory Authn
  imports Access_Token
begin

text \<open>
  Authentication of a request, \<open>platform/authn\<close>: the access token of the \<open>Authorization\<close>
  header, the state of its session from the cache and from the database, the checks of
  status, context and versions, the principal, and the touching of the session afterwards.
\<close>

section \<open>Errors\<close>

datatype authn_sentinel =
    Authn_ErrAccessTokenMissing | Authn_ErrAccessTokenInvalid | Authn_ErrAccessTokenExpired | Authn_ErrSessionRevoked
  | Authn_ErrSessionExpired | Authn_ErrAuthorizationStale | Authn_ErrAuthContextStale | Authn_ErrDependencyUnavailable
  | Authn_ErrUserSuspended | Authn_ErrUserDisabled | Authn_ErrOrgSuspended | Authn_ErrOrgArchived
  | Authn_ErrMembershipSuspended | Authn_ErrMembershipRemoved | Authn_ErrStoreInactive | Authn_ErrStoreArchived

type_synonym authn_error = "authn_sentinel go_error"

text \<open>A response: status, code and message.\<close>

type_synonym auth_response = "int \<times> string \<times> string"

definition Authn_mapErr :: "authn_error \<Rightarrow> auth_response" where
  "Authn_mapErr e =
     (if errors_Is e Authn_ErrAccessTokenMissing then (401, ''ACCESS_TOKEN_MISSING'', ''access token is required'')
      else if errors_Is e Authn_ErrAccessTokenInvalid then (401, ''ACCESS_TOKEN_INVALID'', ''access token is invalid'')
      else if errors_Is e Authn_ErrAccessTokenExpired then (401, ''ACCESS_TOKEN_EXPIRED'', ''access token has expired'')
      else if errors_Is e Authn_ErrSessionRevoked then (401, ''SESSION_REVOKED'', ''session has been revoked'')
      else if errors_Is e Authn_ErrSessionExpired then (401, ''SESSION_EXPIRED'', ''session has expired'')
      else if errors_Is e Authn_ErrAuthorizationStale
      then (401, ''AUTHORIZATION_STALE'', ''authorization is outdated, please re-authenticate'')
      else if errors_Is e Authn_ErrAuthContextStale
      then (401, ''AUTH_CONTEXT_STALE'', ''authentication context is outdated'')
      else if errors_Is e Authn_ErrDependencyUnavailable
      then (503, ''AUTH_DEPENDENCY_UNAVAILABLE'', ''authentication service unavailable'')
      else if errors_Is e Authn_ErrUserSuspended then (403, ''USER_SUSPENDED'', ''user account is suspended'')
      else if errors_Is e Authn_ErrUserDisabled then (403, ''USER_DISABLED'', ''user account is disabled'')
      else if errors_Is e Authn_ErrOrgSuspended then (403, ''ORGANIZATION_SUSPENDED'', ''organization is suspended'')
      else if errors_Is e Authn_ErrOrgArchived then (403, ''ORGANIZATION_ARCHIVED'', ''organization is archived'')
      else if errors_Is e Authn_ErrMembershipSuspended then (403, ''MEMBERSHIP_SUSPENDED'', ''membership is suspended'')
      else if errors_Is e Authn_ErrMembershipRemoved then (403, ''MEMBERSHIP_REMOVED'', ''membership has been removed'')
      else if errors_Is e Authn_ErrStoreInactive then (403, ''STORE_INACTIVE'', ''store is inactive'')
      else if errors_Is e Authn_ErrStoreArchived then (403, ''STORE_ARCHIVED'', ''store is archived'')
      else (500, ''AUTH_INTERNAL_ERROR'', ''internal authentication error''))"

definition jwtErrToAuthnErr :: "jwt_error \<Rightarrow> authn_error" where
  "jwtErrToAuthnErr e =
     (if errors_Is e ErrTokenExpired then Sentinel Authn_ErrAccessTokenExpired else Sentinel Authn_ErrAccessTokenInvalid)"

section \<open>The header\<close>

definition caseInsensitiveEqual :: "string \<Rightarrow> string \<Rightarrow> bool" where
  "caseInsensitiveEqual a b = (map ascii_lower a = map ascii_lower b)"

definition validateBearer :: "string \<Rightarrow> authn_error + string" where
  "validateBearer h =
     (let invalid = (\<lambda>text. Joined (Sentinel Authn_ErrAccessTokenInvalid) (OtherError text)) in
      chain (guard_error (h \<noteq> []) (Sentinel Authn_ErrAccessTokenMissing)) (\<lambda>_.
      chain (guard_error (\<not> length h < 7) (invalid ''missing Bearer scheme'')) (\<lambda>_.
      chain (guard_error (caseInsensitiveEqual (take 7 h) ''Bearer '') (invalid ''unsupported authorization scheme'')) (\<lambda>_.
      let token = drop 7 h in
      chain (guard_error (token \<noteq> []) (invalid ''empty token'')) (\<lambda>_.
      chain (guard_error (CHR '' '' \<notin> set token) (invalid ''multiple tokens or extra whitespace'')) (\<lambda>_.
      chain (guard_error (\<not> length token > MaxTokenSize) (invalid ''token exceeds maximum size'')) (\<lambda>_.
      Inr token)))))))"

section \<open>The state of a session\<close>

definition getSessionState :: "uuid \<Rightarrow> auth_db \<Rightarrow> authn_error + session_state_row" where
  "getSessionState sid d =
     on_error (\<lambda>e. if errors_Is_NoRows e then Joined (Sentinel Authn_ErrSessionRevoked) (OtherError ''session not found'')
                   else Joined (Sentinel Authn_ErrDependencyUnavailable) e)
       (GetAuthSessionState sid d)"

text \<open>What the cache holds for a session, as JSON with a schema version.\<close>

record cached_payload =
  Cached_Version :: int
  Cached_SessionID :: string
  Cached_Status :: string
  Cached_UserID :: string
  Cached_UserStatus :: string
  Cached_ClientID :: string
  Cached_ContextKind :: string
  Cached_OrgID :: string
  Cached_OrganizationStatus :: string
  Cached_MembershipID :: string
  Cached_MembershipStatus :: string
  Cached_StoreID :: string
  Cached_StoreStatus :: string
  Cached_IdleExpiresAt :: int
  Cached_AbsExpiresAt :: int
  Cached_PasswordVer :: int
  Cached_OrgAuthVer :: "int option"
  Cached_MemAuthVer :: "int option"

text \<open>The answer of the cache to a read, and the writes of the program to it.\<close>

datatype cache_read = CacheFailed | CacheMiss | CacheGarbled | CacheHit cached_payload

datatype cache_write =
    SetSession uuid cached_payload int
  | SetPasswordVersion uuid int
  | SetOrgVersion uuid int
  | SetMembershipVersion uuid int
  | DelSession uuid

definition cache_get :: "cache_read \<Rightarrow> uuid \<Rightarrow> (authn_error + cached_payload option) \<times> cache_write list" where
  "cache_get r sid =
     (case r of
        CacheFailed \<Rightarrow> (Inl (Joined (Sentinel Authn_ErrDependencyUnavailable) (OtherError ''valkey'')), [])
      | CacheMiss \<Rightarrow> (Inr None, [])
      | CacheGarbled \<Rightarrow> (Inr None, [DelSession sid])
      | CacheHit p \<Rightarrow> if Cached_Version p \<noteq> 2 then (Inr None, [DelSession sid]) else (Inr (Some p), []))"

text \<open>
  The session state that a payload holds is not used after it is read (the middleware reads the
  database again), so \<open>fromCache\<close> keeps only whether it is an error.
\<close>

definition fromCache :: "env \<Rightarrow> cached_payload \<Rightarrow> time \<Rightarrow> authn_error + unit" where
  "fromCache E p now =
     chain (guard_error (\<not> (Cached_IdleExpiresAt p > 0 \<and> now > Cached_IdleExpiresAt p * 1000000))
             (Sentinel Authn_ErrSessionExpired)) (\<lambda>_.
     chain (guard_error (\<not> (Cached_AbsExpiresAt p > 0 \<and> now > Cached_AbsExpiresAt p * 1000000))
             (Sentinel Authn_ErrSessionExpired)) (\<lambda>_.
     guard_error (uuid_Scan E (Cached_UserID p) \<noteq> None \<and> uuid_Scan E (Cached_SessionID p) \<noteq> None \<and>
         (Cached_OrgID p \<noteq> [] \<longrightarrow> uuid_Scan E (Cached_OrgID p) \<noteq> None) \<and>
         (Cached_MembershipID p \<noteq> [] \<longrightarrow> uuid_Scan E (Cached_MembershipID p) \<noteq> None) \<and>
         (Cached_StoreID p \<noteq> [] \<longrightarrow> uuid_Scan E (Cached_StoreID p) \<noteq> None))
       (OtherError ''cannot scan UUID'')))"

definition computeCacheTTL :: "session_state_row \<Rightarrow> time \<Rightarrow> int \<Rightarrow> int" where
  "computeCacheTTL state now configuredTTL =
     (let idleTTL = Ses_IdleExpiresAt (SSR_Session state) - now;
          absTTL = Ses_AbsoluteExpiresAt (SSR_Session state) - now;
          ttl = (if idleTTL < absTTL then idleTTL else absTTL)
      in if ttl \<le> 0 then 0 else if configuredTTL > 0 \<and> ttl > configuredTTL then configuredTTL else ttl)"

definition optional_uuid_text :: "uuid option \<Rightarrow> string" where
  "optional_uuid_text u = (case u of None \<Rightarrow> [] | Some i \<Rightarrow> uuidStr i)"

definition optional_text :: "('a \<Rightarrow> string) \<Rightarrow> 'a option \<Rightarrow> string" where
  "optional_text f a = (case a of None \<Rightarrow> [] | Some x \<Rightarrow> f x)"

fun db_user_status_text :: "user_status \<Rightarrow> string" where
  "db_user_status_text UserACTIVE = ''ACTIVE''"
| "db_user_status_text UserSUSPENDED = ''SUSPENDED''"
| "db_user_status_text UserDISABLED = ''DISABLED''"

fun db_organization_status_text :: "organization_status \<Rightarrow> string" where
  "db_organization_status_text OrgACTIVE = ''ACTIVE''"
| "db_organization_status_text OrgSUSPENDED = ''SUSPENDED''"
| "db_organization_status_text OrgARCHIVED = ''ARCHIVED''"

fun db_membership_status_text :: "membership_status \<Rightarrow> string" where
  "db_membership_status_text MemACTIVE = ''ACTIVE''"
| "db_membership_status_text MemSUSPENDED = ''SUSPENDED''"
| "db_membership_status_text MemREMOVED = ''REMOVED''"

fun db_store_status_text :: "store_status \<Rightarrow> string" where
  "db_store_status_text StoreACTIVE = ''ACTIVE''"
| "db_store_status_text StoreINACTIVE = ''INACTIVE''"
| "db_store_status_text StoreARCHIVED = ''ARCHIVED''"

fun context_kind_text :: "auth_context_kind \<Rightarrow> string" where
  "context_kind_text CtxIDENTITY = ''IDENTITY''"
| "context_kind_text CtxORGANIZATION = ''ORGANIZATION''"
| "context_kind_text CtxSTORE = ''STORE''"

definition cache_set :: "uuid \<Rightarrow> session_state_row \<Rightarrow> int \<Rightarrow> cache_write list" where
  "cache_set sid state ttl =
     (let s = SSR_Session state in
      if ttl \<le> 0 then []
      else [SetSession sid
        \<lparr>Cached_Version = 2, Cached_SessionID = uuidStr sid, Cached_Status = session_status_string (Ses_Status s),
         Cached_UserID = uuidStr (Ses_UserID s), Cached_UserStatus = db_user_status_text (SSR_UserStatus state),
         Cached_ClientID = Ses_ClientID s, Cached_ContextKind = context_kind_text (Ses_ContextKind s),
         Cached_OrgID = optional_uuid_text (Ses_OrganizationID s),
         Cached_OrganizationStatus = optional_text db_organization_status_text (SSR_OrganizationStatus state),
         Cached_MembershipID = optional_uuid_text (Ses_MembershipID s),
         Cached_MembershipStatus = optional_text db_membership_status_text (SSR_MembershipStatus state),
         Cached_StoreID = optional_uuid_text (Ses_StoreID s),
         Cached_StoreStatus = optional_text db_store_status_text (SSR_StoreStatus state),
         Cached_IdleExpiresAt = unix_seconds (Ses_IdleExpiresAt s), Cached_AbsExpiresAt = unix_seconds (Ses_AbsoluteExpiresAt s),
         Cached_PasswordVer = SSR_PasswordVersion state, Cached_OrgAuthVer = SSR_OrganizationAuthorizationVersion state,
         Cached_MemAuthVer = SSR_MembershipAuthorizationVersion state\<rparr> ttl])"

definition cacheVersionCache :: "session_state_row \<Rightarrow> cache_write list" where
  "cacheVersionCache state =
     SetPasswordVersion (Ses_UserID (SSR_Session state)) (SSR_PasswordVersion state) #
     (case (SSR_OrganizationAuthorizationVersion state, Ses_OrganizationID (SSR_Session state)) of
        (Some v, Some i) \<Rightarrow> [SetOrgVersion i v] | _ \<Rightarrow> []) @
     (case (SSR_MembershipAuthorizationVersion state, Ses_MembershipID (SSR_Session state)) of
        (Some v, Some i) \<Rightarrow> [SetMembershipVersion i v] | _ \<Rightarrow> [])"

definition loadFromDBAndCache :: "int \<Rightarrow> uuid \<Rightarrow> time \<Rightarrow> auth_db \<Rightarrow> (authn_error + unit) \<times> cache_write list" where
  "loadFromDBAndCache configuredTTL sid now d =
     (case getSessionState sid d of
        Inl e \<Rightarrow> (Inl e, [])
      | Inr state \<Rightarrow> (Inr (), cache_set sid state (computeCacheTTL state now configuredTTL) @ cacheVersionCache state))"

definition session_load ::
    "env \<Rightarrow> int \<Rightarrow> cache_read \<Rightarrow> uuid \<Rightarrow> time \<Rightarrow> auth_db \<Rightarrow> (authn_error + unit) \<times> cache_write list" where
  "session_load E configuredTTL r sid now d =
     (case cache_get r sid of
        (Inl _, ws) \<Rightarrow> (map_sum id (\<lambda>_. ()) (getSessionState sid d), ws)
      | (Inr (Some p), ws) \<Rightarrow>
          (case fromCache E p now of
             Inr _ \<Rightarrow> (Inr (), ws)
           | Inl _ \<Rightarrow> (case loadFromDBAndCache configuredTTL sid now d of (res, ws') \<Rightarrow> (res, ws @ ws')))
      | (Inr None, ws) \<Rightarrow> (case loadFromDBAndCache configuredTTL sid now d of (res, ws') \<Rightarrow> (res, ws @ ws')))"

section \<open>Checks\<close>

definition validateSessionStatus :: "auth_session \<Rightarrow> time \<Rightarrow> authn_error + unit" where
  "validateSessionStatus s now =
     chain (case Ses_Status s of
              SesACTIVE \<Rightarrow> Inr ()
            | SesREVOKED \<Rightarrow> Inl (Sentinel Authn_ErrSessionRevoked)
            | SesCOMPROMISED \<Rightarrow> Inl (Sentinel Authn_ErrSessionRevoked)
            | SesEXPIRED \<Rightarrow> Inl (Sentinel Authn_ErrSessionExpired)) (\<lambda>_.
     chain (guard_error (\<not> (Ses_IdleExpiresAt s \<noteq> zero_time \<and> now > Ses_IdleExpiresAt s))
             (Sentinel Authn_ErrSessionExpired)) (\<lambda>_.
     guard_error (\<not> (Ses_AbsoluteExpiresAt s \<noteq> zero_time \<and> now > Ses_AbsoluteExpiresAt s))
       (Sentinel Authn_ErrSessionExpired)))"

definition validateUserStatus :: "user_status \<Rightarrow> authn_error + unit" where
  "validateUserStatus st =
     (case st of UserACTIVE \<Rightarrow> Inr () | UserSUSPENDED \<Rightarrow> Inl (Sentinel Authn_ErrUserSuspended)
      | UserDISABLED \<Rightarrow> Inl (Sentinel Authn_ErrUserDisabled))"

definition validateOrgStatus :: "organization_status option \<Rightarrow> authn_error + unit" where
  "validateOrgStatus st =
     (case st of None \<Rightarrow> Inr () | Some OrgACTIVE \<Rightarrow> Inr () | Some OrgSUSPENDED \<Rightarrow> Inl (Sentinel Authn_ErrOrgSuspended)
      | Some OrgARCHIVED \<Rightarrow> Inl (Sentinel Authn_ErrOrgArchived))"

definition validateMembershipStatus :: "membership_status option \<Rightarrow> authn_error + unit" where
  "validateMembershipStatus st =
     (case st of None \<Rightarrow> Inr () | Some MemACTIVE \<Rightarrow> Inr ()
      | Some MemSUSPENDED \<Rightarrow> Inl (Sentinel Authn_ErrMembershipSuspended)
      | Some MemREMOVED \<Rightarrow> Inl (Sentinel Authn_ErrMembershipRemoved))"

definition validateStoreStatus :: "store_status option \<Rightarrow> authn_error + unit" where
  "validateStoreStatus st =
     (case st of None \<Rightarrow> Inr () | Some StoreACTIVE \<Rightarrow> Inr () | Some StoreINACTIVE \<Rightarrow> Inl (Sentinel Authn_ErrStoreInactive)
      | Some StoreARCHIVED \<Rightarrow> Inl (Sentinel Authn_ErrStoreArchived))"

definition validateContext :: "claims \<Rightarrow> auth_session \<Rightarrow> authn_error + unit" where
  "validateContext c s =
     (let stale = Inl (Sentinel Authn_ErrAuthContextStale) in
      if Claim_Ctx c = ''identity'' \<and> Ses_ContextKind s = CtxIDENTITY then
        (if Ses_OrganizationID s \<noteq> None \<or> Ses_MembershipID s \<noteq> None \<or> Ses_StoreID s \<noteq> None then stale else Inr ())
      else if Claim_Ctx c = ''organization'' \<and> Ses_ContextKind s = CtxORGANIZATION then
        (if Claim_OrgID c \<noteq> optional_uuid_text (Ses_OrganizationID s) then stale
         else if Claim_MembershipID c \<noteq> optional_uuid_text (Ses_MembershipID s) then stale
         else if Ses_StoreID s \<noteq> None then stale else Inr ())
      else if Claim_Ctx c = ''store'' \<and> Ses_ContextKind s = CtxSTORE then
        (if Claim_OrgID c \<noteq> optional_uuid_text (Ses_OrganizationID s) then stale
         else if Claim_MembershipID c \<noteq> optional_uuid_text (Ses_MembershipID s) then stale
         else if Claim_StoreID c \<noteq> optional_uuid_text (Ses_StoreID s) then stale else Inr ())
      else stale)"

definition validateVersions :: "claims \<Rightarrow> session_state_row \<Rightarrow> authn_error + unit" where
  "validateVersions c state =
     (let stale = Inl (Sentinel Authn_ErrAuthorizationStale) in
      if Claim_PV c \<noteq> SSR_PasswordVersion state then stale
      else if Claim_Ctx c = ''organization'' \<or> Claim_Ctx c = ''store'' then
        (case (Claim_OAV c, SSR_OrganizationAuthorizationVersion state) of
           (Some a, Some b) \<Rightarrow> if a \<noteq> b then stale else
             (case (Claim_MAV c, SSR_MembershipAuthorizationVersion state) of
                (Some a, Some b) \<Rightarrow> if a \<noteq> b then stale else Inr () | _ \<Rightarrow> Inr ())
         | _ \<Rightarrow>
             (case (Claim_MAV c, SSR_MembershipAuthorizationVersion state) of
                (Some a, Some b) \<Rightarrow> if a \<noteq> b then stale else Inr () | _ \<Rightarrow> Inr ()))
      else Inr ())"

section \<open>The principal\<close>

definition parsed_or_invalid :: "jwt_error + uuid option \<Rightarrow> uuid option" where
  "parsed_or_invalid r = (case r of Inl _ \<Rightarrow> None | Inr u \<Rightarrow> u)"

definition buildPrincipal :: "env \<Rightarrow> claims \<Rightarrow> principal" where
  "buildPrincipal E c =
     (let id_of = (\<lambda>raw. parsed_or_invalid (jwt_parseUUID E raw));
          tenant = (Claim_Ctx c = ''organization'' \<or> Claim_Ctx c = ''store'')
      in \<lparr>Pr_UserID = id_of (Claim_Subject c), Pr_SessionID = id_of (Claim_SID c), Pr_ClientID = Claim_ClientID c,
          Pr_ContextKind = Claim_Ctx c,
          Pr_OrganizationID = (if tenant then id_of (Claim_OrgID c) else None),
          Pr_MembershipID = (if tenant then id_of (Claim_MembershipID c) else None),
          Pr_StoreID = (if Claim_Ctx c = ''store'' then id_of (Claim_StoreID c) else None),
          Pr_RoleKeys = Claim_Roles c, Pr_Scopes = scope_parts (Claim_Scope c),
          Pr_OrgAuthzVersion = (if tenant then Claim_OAV c else None),
          Pr_MemberAuthzVersion = (if tenant then Claim_MAV c else None),
          Pr_PasswordVersion = Claim_PV c, Pr_AuthTime = Claim_AuthTime c * 1000000,
          Pr_TokenID = id_of (Claim_ID c)\<rparr>)"

section \<open>The middleware\<close>

definition answer_error :: "authn_error \<Rightarrow> auth_response" where
  "answer_error e =
     (if errors_Is e Authn_ErrDependencyUnavailable
      then (503, ''AUTH_DEPENDENCY_UNAVAILABLE'', ''authentication service unavailable'')
      else Authn_mapErr e)"

definition session_checks :: "claims \<Rightarrow> uuid \<Rightarrow> session_state_row \<Rightarrow> time \<Rightarrow> auth_response + unit" where
  "session_checks c userID state now =
     (let s = SSR_Session state in
      chain (guard_error (Ses_UserID s = userID) (401, ''SESSION_REVOKED'', ''session does not match user'')) (\<lambda>_.
      chain (guard_error (\<not> (Ses_ClientID s \<noteq> [] \<and> Ses_ClientID s \<noteq> Claim_ClientID c))
              (401, ''SESSION_REVOKED'', ''client id mismatch'')) (\<lambda>_.
      on_error Authn_mapErr
        (chain (validateSessionStatus s now) (\<lambda>_.
         chain (validateUserStatus (SSR_UserStatus state)) (\<lambda>_.
         chain (validateOrgStatus (SSR_OrganizationStatus state)) (\<lambda>_.
         chain (validateMembershipStatus (SSR_MembershipStatus state)) (\<lambda>_.
         chain (validateStoreStatus (SSR_StoreStatus state)) (\<lambda>_.
         chain (validateContext c s) (\<lambda>_.
         validateVersions c state))))))))))"

text \<open>The first half of the handler: the claims of the header's token, its session and its user.\<close>

definition request_claims ::
    "env \<Rightarrow> token_service \<Rightarrow> time \<Rightarrow> string \<Rightarrow> auth_response + claims \<times> uuid \<times> uuid" where
  "request_claims E V now authHeader =
     chain (guard_error (CHR '','' \<notin> set authHeader) (401, ''ACCESS_TOKEN_INVALID'', ''multiple authorization headers'')) (\<lambda>_.
     chain (on_error Authn_mapErr (validateBearer authHeader)) (\<lambda>token.
     chain (on_error (\<lambda>e. Authn_mapErr (jwtErrToAuthnErr e)) (Token_Validate V now token)) (\<lambda>c.
     chain (on_error (\<lambda>_. (401, ''ACCESS_TOKEN_INVALID'', ''invalid session id in token''))
             (jwt_parseUUID E (Claim_SID c))) (\<lambda>sid.
     case sid of
       None \<Rightarrow> Inl (401, ''ACCESS_TOKEN_INVALID'', ''missing session id in token'')
     | Some sessionID \<Rightarrow>
         (case jwt_parseUUID E (Claim_Subject c) of
            Inr (Some userID) \<Rightarrow> Inr (c, sessionID, userID)
          | _ \<Rightarrow> Inl (401, ''ACCESS_TOKEN_INVALID'', ''invalid subject in token''))))))"

text \<open>
  Returns the response of a refusal, or the principal the next handler gets with the session state,
  and the writes to the cache. The clock is read for the token, the cache and the session checks.
\<close>

definition RequireAccessToken ::
    "env \<Rightarrow> token_service \<Rightarrow> int \<Rightarrow> cache_read \<Rightarrow> time \<Rightarrow> string \<Rightarrow> auth_db \<Rightarrow>
     (auth_response + principal \<times> session_state_row) \<times> cache_write list" where
  "RequireAccessToken E V cacheTTL r now authHeader d =
     (case request_claims E V now authHeader of
        Inl response \<Rightarrow> (Inl response, [])
      | Inr (c, sessionID, userID) \<Rightarrow>
          (case session_load E cacheTTL r sessionID now d of (loaded, ws) \<Rightarrow>
            (chain (on_error answer_error loaded) (\<lambda>_.
             chain (on_error answer_error (getSessionState sessionID d)) (\<lambda>state.
             chain (session_checks c userID state now) (\<lambda>_.
             Inr (buildPrincipal E c, state)))), ws)))"

text \<open>The touch after the handler, in the background; the throttle is a key of the cache.\<close>

definition touchSession :: "time \<Rightarrow> uuid \<Rightarrow> uuid \<Rightarrow> time \<Rightarrow> auth_db \<Rightarrow> authn_error + auth_db" where
  "touchSession txnow sid userID idleExpiresAt d =
     (case TouchSession txnow sid userID idleExpiresAt d of
        Inl e \<Rightarrow> if errors_Is_NoRows e then Inr d else Inl (Wrapped ''touch session'' e)
      | Inr (_, d') \<Rightarrow> Inr d')"

definition tryTouch :: "bool \<Rightarrow> time \<Rightarrow> session_state_row \<Rightarrow> auth_db \<Rightarrow> auth_db \<times> cache_write list" where
  "tryTouch acquired txnow state d =
     (let s = SSR_Session state in
      if \<not> acquired then (d, [])
      else if Ses_IdleExpiresAt s = zero_time then (d, [])
      else ((case touchSession txnow (Ses_ID s) (Ses_UserID s) (Ses_IdleExpiresAt s) d of Inl _ \<Rightarrow> d | Inr d' \<Rightarrow> d'),
            [SetPasswordVersion (Ses_UserID s) (SSR_PasswordVersion state)]))"

section \<open>Actors\<close>

record organization_actor =
  OA_UserID :: uuid
  OA_SessionID :: uuid
  OA_OrganizationID :: uuid
  OA_MembershipID :: uuid
  OA_ClientID :: string

definition OrganizationActorFromPrincipal :: "principal \<Rightarrow> 's go_error + organization_actor" where
  "OrganizationActorFromPrincipal p =
     (case Pr_UserID p of
        None \<Rightarrow> Inl (OtherError ''principal: user_id is required for organization actor'')
      | Some u \<Rightarrow> (case Pr_SessionID p of
          None \<Rightarrow> Inl (OtherError ''principal: session_id is required for organization actor'')
        | Some s \<Rightarrow> (case Pr_OrganizationID p of
            None \<Rightarrow> Inl (OtherError ''principal: organization_id is required for organization actor'')
          | Some g \<Rightarrow> (case Pr_MembershipID p of
              None \<Rightarrow> Inl (OtherError ''principal: membership_id is required for organization actor'')
            | Some m \<Rightarrow> Inr \<lparr>OA_UserID = u, OA_SessionID = s, OA_OrganizationID = g, OA_MembershipID = m,
                OA_ClientID = Pr_ClientID p\<rparr>))))"

definition StoreActorFromPrincipal :: "principal \<Rightarrow> 's go_error + store_actor" where
  "StoreActorFromPrincipal p =
     (case Pr_UserID p of
        None \<Rightarrow> Inl (OtherError ''principal: user_id is required for store actor'')
      | Some u \<Rightarrow> (case Pr_SessionID p of
          None \<Rightarrow> Inl (OtherError ''principal: session_id is required for store actor'')
        | Some s \<Rightarrow> (case Pr_OrganizationID p of
            None \<Rightarrow> Inl (OtherError ''principal: organization_id is required for store actor'')
          | Some g \<Rightarrow> (case Pr_MembershipID p of
              None \<Rightarrow> Inl (OtherError ''principal: membership_id is required for store actor'')
            | Some m \<Rightarrow> (case Pr_StoreID p of
                None \<Rightarrow> Inl (OtherError ''principal: store_id is required for store actor'')
              | Some t \<Rightarrow> Inr \<lparr>Actor_UserID = u, Actor_SessionID = s, Actor_OrganizationID = g,
                  Actor_MembershipID = m, Actor_StoreID = t, Actor_ClientID = Pr_ClientID p\<rparr>)))))"

end
