(* ===== verification/Auth_Context.thy ===== *)
theory Auth_Context
  imports Authn Roles
begin

text \<open>
  The part of \<open>internal/auth\<close> that decides in which context a user acts: resolving a requested
  context, choosing one at login, loading the state of a session, issuing an access token for it,
  refreshing, switching the context, and logging out.
\<close>

section \<open>Errors\<close>

datatype auth_sentinel =
    Auth_ErrInvalidRequest | Auth_ErrInvalidCredentials | Auth_ErrInvalidAuthContext | Auth_ErrRegistrationDisabled
  | Auth_ErrEmailAlreadyInUse | Auth_ErrOrganizationSlugInUse | Auth_ErrStoreCodeInUse | Auth_ErrWeakPassword
  | Auth_ErrCommonPassword | Auth_ErrUserSuspended | Auth_ErrUserDisabled | Auth_ErrEmailNotVerified
  | Auth_ErrOrganizationSuspended | Auth_ErrStoreInactive | Auth_ErrMembershipSuspended | Auth_ErrOrganizationNotFound
  | Auth_ErrStoreNotFound | Auth_ErrMembershipNotFound | Auth_ErrSessionNotFound | Auth_ErrDependencyUnavailable
  | Auth_ErrActionTokenExpired | Auth_ErrActionTokenMissing | Auth_ErrActionTokenInvalid
  | Of_Sessions session_sentinel | Of_Tokens jwt_sentinel

type_synonym auth_error = "auth_sentinel go_error"

definition mapPersistenceError :: "auth_error \<Rightarrow> auth_error" where
  "mapPersistenceError e =
     (let unavailable = Joined (Sentinel Auth_ErrDependencyUnavailable) (Wrapped ''persistence operation'' e) in
      if errors_Is_NoRows e then Sentinel Auth_ErrSessionNotFound
      else case errors_As_Pg e of
        Some (_, c) \<Rightarrow>
          if c = ''users_email_normalized_unique'' then Sentinel Auth_ErrEmailAlreadyInUse
          else if c = ''organizations_slug_unique'' then Sentinel Auth_ErrOrganizationSlugInUse
          else if c = ''stores_organization_id_code_unique'' then Sentinel Auth_ErrStoreCodeInUse
          else unavailable
      | None \<Rightarrow> unavailable)"

section \<open>Statements\<close>

text \<open>The oldest membership of the user in the organization that was not removed.\<close>

definition GetMembershipContextForUser ::
    "uuid \<Rightarrow> uuid \<Rightarrow> auth_db \<Rightarrow> 's go_error + membership \<times> organization" where
  "GetMembershipContextForUser orgID userID d =
     (case sort_key (\<lambda>(m, _). (Mem_JoinedAt m, Mem_ID m))
         [(m, g). m \<leftarrow> au_memberships d, g \<leftarrow> au_organizations d, Org_ID g = Mem_OrganizationID m \<and>
            Mem_OrganizationID m = orgID \<and> Mem_UserID m = userID \<and> Mem_Status m \<noteq> MemREMOVED] of
        [] \<Rightarrow> Inl ErrNoRows | r # _ \<Rightarrow> Inr r)"

definition GetLastActiveSessionContextForClient ::
    "time \<Rightarrow> uuid \<Rightarrow> string \<Rightarrow> auth_db \<Rightarrow> 's go_error + auth_session" where
  "GetLastActiveSessionContextForClient now userID clientID d =
     (case rev (sort_key (\<lambda>s. (Ses_LastSeenAt s, Ses_ID s))
         (filter (\<lambda>s. Ses_UserID s = userID \<and> Ses_ClientID s = clientID \<and> Ses_Status s = SesACTIVE \<and>
            Ses_IdleExpiresAt s > now \<and> Ses_AbsoluteExpiresAt s > now) (au_sessions d))) of
        [] \<Rightarrow> Inl ErrNoRows | s # _ \<Rightarrow> Inr s)"

definition ListUserActiveMemberships :: "uuid \<Rightarrow> auth_db \<Rightarrow> (membership \<times> organization) list" where
  "ListUserActiveMemberships userID d =
     sort_key (\<lambda>(m, _). (Mem_JoinedAt m, Mem_ID m))
       [(m, g). m \<leftarrow> au_memberships d, g \<leftarrow> au_organizations d, Org_ID g = Mem_OrganizationID m \<and>
          Mem_UserID m = userID \<and> Mem_Status m = MemACTIVE \<and> Org_Status g = OrgACTIVE]"

text \<open>The update runs the trigger \<open>validate_auth_session_context\<close> and the references of the row.\<close>

definition UpdateSessionContext ::
    "time \<Rightarrow> auth_context_kind \<Rightarrow> uuid option \<Rightarrow> uuid option \<Rightarrow> uuid option \<Rightarrow> uuid \<Rightarrow> uuid \<Rightarrow> auth_db \<Rightarrow>
     's go_error + auth_session \<times> auth_db" where
  "UpdateSessionContext now kind orgID memID storeID sid userID d =
     chain (update_row (\<lambda>s. Ses_ID s = sid \<and> Ses_UserID s = userID \<and> Ses_Status s = SesACTIVE \<and>
               Ses_IdleExpiresAt s > now \<and> Ses_AbsoluteExpiresAt s > now)
             (\<lambda>s. let f = (\<lambda>s. s\<lparr>Ses_ContextKind := kind, Ses_OrganizationID := orgID, Ses_MembershipID := memID,
                      Ses_StoreID := storeID, Ses_LastSeenAt := now\<rparr>) in
                  chain (guard_error (session_context_ok d (f s)) (PgError ''23514'' ''auth_sessions_user_membership_check''))
                    (\<lambda>_. chain (write_session now f s) (\<lambda>s'.
                  chain (session_references_ok d s') (\<lambda>_. Inr s'))))
             (au_sessions d)) (\<lambda>(s, rows).
     Inr (s, d\<lparr>au_sessions := rows\<rparr>))"

text \<open>The columns of \<open>GetAuthSessionView\<close> that are read: the session and its user.\<close>

definition GetAuthSessionView :: "uuid \<Rightarrow> auth_db \<Rightarrow> 's go_error + auth_session \<times> user" where
  "GetAuthSessionView sid d =
     chain (one_row (List.find (\<lambda>s. Ses_ID s = sid) (au_sessions d))) (\<lambda>s.
     chain (one_row (List.find (\<lambda>u. User_ID u = Ses_UserID s) (au_users d))) (\<lambda>u.
     Inr (s, u)))"

section \<open>Resolving a context\<close>

record auth_context =
  AC_Kind :: auth_context_kind
  AC_OrganizationID :: "uuid option"
  AC_MembershipID :: "uuid option"
  AC_StoreID :: "uuid option"
  AC_OrganizationName :: string
  AC_OrganizationSlug :: string
  AC_StoreCode :: string
  AC_StoreName :: string
  AC_Roles :: "string list"
  AC_Scopes :: "string list"
  AC_OrganizationVersion :: int
  AC_MembershipVersion :: int

definition identity_context :: auth_context where
  "identity_context = \<lparr>AC_Kind = CtxIDENTITY, AC_OrganizationID = None, AC_MembershipID = None, AC_StoreID = None,
     AC_OrganizationName = [], AC_OrganizationSlug = [], AC_StoreCode = [], AC_StoreName = [], AC_Roles = [],
     AC_Scopes = [], AC_OrganizationVersion = 0, AC_MembershipVersion = 0\<rparr>"

definition requested_store ::
    "env \<Rightarrow> time \<Rightarrow> uuid \<Rightarrow> uuid \<Rightarrow> uuid option \<Rightarrow> auth_db \<Rightarrow> auth_error + store option" where
  "requested_store E now orgID memID storeID d =
     (case storeID of None \<Rightarrow> Inr None
      | Some i \<Rightarrow>
          chain (on_error (\<lambda>e. if errors_Is_NoRows e then Sentinel Auth_ErrStoreNotFound else mapPersistenceError e)
                  (GetStoreForOrganization orgID i d)) (\<lambda>st.
          chain (guard_error (Store_Status st = StoreACTIVE) (Sentinel Auth_ErrStoreInactive)) (\<lambda>_.
          chain (guard_error (list_ex (\<lambda>c. Store_ID c = i) (ListStoresForMembership E now orgID memID d))
                  (Sentinel Auth_ErrStoreNotFound)) (\<lambda>_.
          Inr (Some st)))))"

definition resolveContext ::
    "env \<Rightarrow> time \<Rightarrow> uuid \<Rightarrow> uuid option \<Rightarrow> uuid option \<Rightarrow> auth_db \<Rightarrow> auth_error + auth_context" where
  "resolveContext E now userID organizationID storeID d =
     (case organizationID of
        None \<Rightarrow> if storeID \<noteq> None then Inl (Sentinel Auth_ErrInvalidAuthContext) else Inr identity_context
      | Some orgID \<Rightarrow>
          chain (on_error (\<lambda>e. if errors_Is_NoRows e then Sentinel Auth_ErrOrganizationNotFound else mapPersistenceError e)
                  (GetMembershipContextForUser orgID userID d)) (\<lambda>(m, g).
          chain (guard_error (Org_Status g = OrgACTIVE) (Sentinel Auth_ErrOrganizationSuspended)) (\<lambda>_.
          chain (guard_error (Mem_Status m = MemACTIVE) (Sentinel Auth_ErrMembershipSuspended)) (\<lambda>_.
          chain (requested_store E now orgID (Mem_ID m) storeID d) (\<lambda>st.
          let kind = (case st of None \<Rightarrow> CtxORGANIZATION | Some _ \<Rightarrow> CtxSTORE) in
          chain (on_error (\<lambda>e. if errors_Is_NoRows e then Sentinel Auth_ErrInvalidAuthContext else mapPersistenceError e)
                  (ResolveEffectiveScopes E now kind (map_option Store_ID st) orgID (Mem_ID m) userID d))
            (\<lambda>(roleKeys, scopeCodes).
          Inr \<lparr>AC_Kind = kind, AC_OrganizationID = Some orgID, AC_MembershipID = Some (Mem_ID m),
               AC_StoreID = map_option Store_ID st, AC_OrganizationName = Org_Name g, AC_OrganizationSlug = Org_Slug g,
               AC_StoreCode = (case st of None \<Rightarrow> [] | Some s \<Rightarrow> Store_Code s),
               AC_StoreName = (case st of None \<Rightarrow> [] | Some s \<Rightarrow> Store_Name s),
               AC_Roles = uniqueSorted roleKeys, AC_Scopes = uniqueSorted scopeCodes,
               AC_OrganizationVersion = Org_AuthorizationVersion g, AC_MembershipVersion = Mem_AuthorizationVersion m\<rparr>))))))"

text \<open>The text of the error, with the UTF-8 bytes of its accented letter.\<close>

definition invalid_uuid_text :: string where
  "invalid_uuid_text = ''UUID inv'' @ map char_of [195 :: nat, 161] @ ''lido.''"

definition parseOptionalUUID :: "env \<Rightarrow> string option \<Rightarrow> string \<Rightarrow> auth_error + uuid option" where
  "parseOptionalUUID E value field =
     (case value of
        None \<Rightarrow> Inr None
      | Some v \<Rightarrow>
          if v = [] then Inl (ValidationError field invalid_uuid_text)
          else case uuid_Scan E v of
            None \<Rightarrow> Inl (ValidationError field invalid_uuid_text)
          | Some u \<Rightarrow> Inr (Some u))"

text \<open>The first candidate that resolves.\<close>

fun first_context :: "(auth_error + auth_context) list \<Rightarrow> auth_context option" where
  "first_context [] = None"
| "first_context (Inr c # rs) = Some c"
| "first_context (Inl _ # rs) = first_context rs"

definition membership_candidates ::
    "env \<Rightarrow> time \<Rightarrow> uuid \<Rightarrow> auth_db \<Rightarrow> (auth_error + auth_context) list" where
  "membership_candidates E now userID d =
     concat (map (\<lambda>(m, _).
       (if Mem_DefaultStoreID m \<noteq> None
        then [resolveContext E now userID (Some (Mem_OrganizationID m)) (Mem_DefaultStoreID m) d] else []) @
       [resolveContext E now userID (Some (Mem_OrganizationID m)) None d]) (ListUserActiveMemberships userID d))"

definition resolveLoginContext ::
    "env \<Rightarrow> time \<Rightarrow> uuid \<Rightarrow> string \<Rightarrow> string option \<Rightarrow> string option \<Rightarrow> auth_db \<Rightarrow> auth_error + auth_context" where
  "resolveLoginContext E now userID clientID requestedOrg requestedStore d =
     chain (parseOptionalUUID E requestedOrg ''organizationId'') (\<lambda>orgID.
     chain (parseOptionalUUID E requestedStore ''storeId'') (\<lambda>storeID.
     chain (guard_error (\<not> (storeID \<noteq> None \<and> orgID = None)) (Sentinel Auth_ErrInvalidAuthContext)) (\<lambda>_.
     if orgID \<noteq> None then resolveContext E now userID orgID storeID d
     else if requestedOrg \<noteq> None \<or> requestedStore \<noteq> None then resolveContext E now userID None None d
     else
       let last_used = (case GetLastActiveSessionContextForClient now userID clientID d :: auth_error + _ of
             Inl _ \<Rightarrow> [] | Inr s \<Rightarrow> [resolveContext E now userID (Ses_OrganizationID s) (Ses_StoreID s) d])
       in case first_context (last_used @ membership_candidates E now userID d) of
            Some c \<Rightarrow> Inr c
          | None \<Rightarrow> resolveContext E now userID None None d)))"

section \<open>The state of a session, and its token\<close>

record auth_state =
  State_UserID :: uuid
  State_Email :: string
  State_DisplayName :: string
  State_EmailVerified :: bool
  State_PasswordVersion :: int
  State_SessionID :: uuid
  State_ClientID :: string
  State_DeviceName :: string
  State_SessionStatus :: auth_session_status
  State_CreatedAt :: time
  State_IdleExpiresAt :: time
  State_AbsoluteExpires :: time
  State_Context :: auth_context

text \<open>\<open>txnow\<close> is the time the statements read, \<open>now\<close> the clock of the service.\<close>

definition loadState :: "env \<Rightarrow> time \<Rightarrow> time \<Rightarrow> uuid \<Rightarrow> auth_db \<Rightarrow> auth_error + auth_state" where
  "loadState E txnow now sid d =
     chain (on_error mapPersistenceError (GetAuthSessionView sid d)) (\<lambda>(s, u).
     let state = (\<lambda>c. \<lparr>State_UserID = Ses_UserID s, State_Email = User_Email u, State_DisplayName = User_DisplayName u,
           State_EmailVerified = (User_EmailVerifiedAt u \<noteq> None), State_PasswordVersion = User_PasswordVersion u,
           State_SessionID = Ses_ID s, State_ClientID = Ses_ClientID s,
           State_DeviceName = (case Ses_DeviceName s of None \<Rightarrow> [] | Some t \<Rightarrow> t), State_SessionStatus = Ses_Status s,
           State_CreatedAt = Ses_CreatedAt s, State_IdleExpiresAt = Ses_IdleExpiresAt s,
           State_AbsoluteExpires = Ses_AbsoluteExpiresAt s, State_Context = c\<rparr>) in
     chain (guard_error (Ses_Status s = SesACTIVE) (Sentinel (Of_Sessions ErrSessionRevoked))) (\<lambda>_.
     chain (case User_Status u of
              UserACTIVE \<Rightarrow> Inr ()
            | UserSUSPENDED \<Rightarrow> Inl (Sentinel Auth_ErrUserSuspended)
            | UserDISABLED \<Rightarrow> Inl (Sentinel Auth_ErrUserDisabled)) (\<lambda>_.
     chain (guard_error (\<not> (\<not> now < Ses_IdleExpiresAt s \<or> \<not> now < Ses_AbsoluteExpiresAt s))
             (Sentinel (Of_Sessions ErrSessionExpired))) (\<lambda>_.
     if Ses_ContextKind s = CtxIDENTITY then Inr (state identity_context)
     else chain (resolveContext E txnow (Ses_UserID s) (Ses_OrganizationID s) (Ses_StoreID s) d) (\<lambda>c.
          Inr (state c))))))"

fun contextKindString :: "auth_context_kind \<Rightarrow> string" where
  "contextKindString CtxORGANIZATION = ''organization''"
| "contextKindString CtxSTORE = ''store''"
| "contextKindString CtxIDENTITY = ''identity''"

definition issued_claims :: "auth_state \<Rightarrow> uuid \<Rightarrow> time \<Rightarrow> signer_claims" where
  "issued_claims st jti authTime =
     (let c = State_Context st; tenant = (AC_Kind c \<noteq> CtxIDENTITY) in
      \<lparr>SC_Subject = uuidStr (State_UserID st), SC_JTI = uuidStr jti, SC_SessionID = uuidStr (State_SessionID st),
       SC_ClientID = State_ClientID st, SC_Ctx = contextKindString (AC_Kind c),
       SC_OrgID = (if tenant then optional_uuid_text (AC_OrganizationID c) else []),
       SC_MembershipID = (if tenant then optional_uuid_text (AC_MembershipID c) else []),
       SC_StoreID = (if AC_Kind c = CtxSTORE then optional_uuid_text (AC_StoreID c) else []),
       SC_Roles = AC_Roles c, SC_Scopes = AC_Scopes c,
       SC_OAV = (if tenant then Some (AC_OrganizationVersion c) else None),
       SC_MAV = (if tenant then Some (AC_MembershipVersion c) else None),
       SC_PV = State_PasswordVersion st, SC_AuthTime = authTime, SC_AMR = [''pwd'']\<rparr>)"

record auth_user_response =
  AUR_ID :: string
  AUR_Email :: string
  AUR_DisplayName :: string
  AUR_EmailVerified :: bool

record auth_session_response =
  ASR_ID :: string
  ASR_ClientID :: string
  ASR_CreatedAt :: time
  ASR_IdleExpiresAt :: time
  ASR_AbsoluteExpiresAt :: time

record auth_context_response =
  ACR_Kind :: string
  ACR_MembershipID :: "string option"
  ACR_Organization :: "(string \<times> string \<times> string) option"
  ACR_Store :: "(string \<times> string \<times> string) option"
  ACR_Roles :: "string list"
  ACR_Scopes :: "string list"

record issued_response =
  IR_AccessToken :: string
  IR_ExpiresIn :: int
  IR_User :: auth_user_response
  IR_Session :: auth_session_response
  IR_Context :: auth_context_response

definition mapAuthResponse :: "auth_state \<Rightarrow> string \<Rightarrow> int \<Rightarrow> issued_response" where
  "mapAuthResponse st token expiresIn =
     (let c = State_Context st in
      \<lparr>IR_AccessToken = token, IR_ExpiresIn = expiresIn,
       IR_User = \<lparr>AUR_ID = uuidStr (State_UserID st), AUR_Email = State_Email st, AUR_DisplayName = State_DisplayName st,
         AUR_EmailVerified = State_EmailVerified st\<rparr>,
       IR_Session = \<lparr>ASR_ID = uuidStr (State_SessionID st), ASR_ClientID = State_ClientID st,
         ASR_CreatedAt = State_CreatedAt st, ASR_IdleExpiresAt = State_IdleExpiresAt st,
         ASR_AbsoluteExpiresAt = State_AbsoluteExpires st\<rparr>,
       IR_Context = \<lparr>ACR_Kind = contextKindString (AC_Kind c),
         ACR_MembershipID = map_option uuidStr (AC_MembershipID c),
         ACR_Organization = (if AC_MembershipID c = None then None
           else Some (optional_uuid_text (AC_OrganizationID c), AC_OrganizationName c, AC_OrganizationSlug c)),
         ACR_Store = map_option (\<lambda>i. (uuidStr i, AC_StoreCode c, AC_StoreName c)) (AC_StoreID c),
         ACR_Roles = uniqueSorted (AC_Roles c), ACR_Scopes = uniqueSorted (AC_Scopes c)\<rparr>\<rparr>)"

text \<open>\<open>jti\<close> is what the random source delivers; \<open>signed_at\<close> is the clock of the signer.\<close>

definition issue ::
    "token_service \<Rightarrow> uuid option \<Rightarrow> time \<Rightarrow> int \<Rightarrow> auth_state \<Rightarrow> time \<Rightarrow> auth_error + issued_response" where
  "issue V entropy signed_at accessTokenTTL st authTime =
     (case entropy of
        None \<Rightarrow> Inl (Wrapped ''generate access token id'' (OtherError ''read''))
      | Some raw \<Rightarrow>
          chain (on_error (\<lambda>e. Wrapped ''sign access token'' (map_go_error Of_Tokens e))
                  (Sign V signed_at (issued_claims st (newRandomUUID raw) authTime))) (\<lambda>token.
          Inr (mapAuthResponse st token (accessTokenTTL div 1000000))))"

section \<open>Operations\<close>

text \<open>
  The service: its session service, its token service, its life time of access tokens, and
  \<open>netip.ParseAddr\<close>. What one call of the clock and of the random source delivers is an argument.
\<close>

record auth_service =
  asv_sessions :: session_service
  asv_tokens :: token_service
  asv_AccessTokenTTL :: int
  asv_ParseAddr :: "string \<Rightarrow> string option"

definition auth_writeAudit ::
    "env \<Rightarrow> auth_service \<Rightarrow> time \<Rightarrow> string \<Rightarrow> uuid option \<Rightarrow> uuid option \<Rightarrow> uuid option \<Rightarrow> uuid option \<Rightarrow> uuid option \<Rightarrow>
     request_meta \<Rightarrow> (string \<times> metadata_value) list \<Rightarrow> auth_db \<Rightarrow> auth_error + auth_db" where
  "auth_writeAudit E A txnow eventType userID membershipID orgID storeID sessionID M metadata d =
     audit_Write E txnow
       \<lparr>CA_OrganizationID = orgID, CA_StoreID = storeID, CA_ActorUserID = userID, CA_ActorMembershipID = membershipID,
        CA_SessionID = sessionID, CA_EventType = eventType, CA_EntityType = None, CA_EntityID = None,
        CA_RequestID = (if RM_RequestID M = [] then None else Some (RM_RequestID M)),
        CA_IpAddress = asv_ParseAddr A (RM_ClientIP M),
        CA_UserAgent = (if RM_UserAgent M = [] then None else Some (RM_UserAgent M)),
        CA_Outcome = AuditSUCCESS, CA_Metadata = metadata\<rparr> d"

definition switch_tx ::
    "env \<Rightarrow> auth_service \<Rightarrow> time \<Rightarrow> time \<Rightarrow> uuid \<Rightarrow> uuid \<Rightarrow> uuid option \<Rightarrow> uuid option \<Rightarrow> request_meta \<Rightarrow> auth_db \<Rightarrow>
     auth_error + auth_context \<times> auth_db" where
  "switch_tx E A txnow now userID sid orgID storeID M d =
     chain (on_error mapPersistenceError (GetAuthSessionForUpdate sid d)) (\<lambda>row.
     let s = SSR_Session row in
     chain (guard_error (Ses_UserID s = userID) (Sentinel Auth_ErrSessionNotFound)) (\<lambda>_.
     chain (guard_error (Ses_Status s = SesACTIVE) (Sentinel (Of_Sessions ErrSessionRevoked))) (\<lambda>_.
     chain (guard_error (\<not> (\<not> now < Ses_IdleExpiresAt s \<or> \<not> now < Ses_AbsoluteExpiresAt s))
             (Sentinel (Of_Sessions ErrSessionExpired))) (\<lambda>_.
     chain (resolveContext E txnow userID orgID storeID d) (\<lambda>target.
     chain (wrap_error ''update session context'' (UpdateSessionContext txnow (AC_Kind target) (AC_OrganizationID target)
             (AC_MembershipID target) (AC_StoreID target) sid userID d)) (\<lambda>(_, d1).
     chain (wrap_error ''write context audit'' (auth_writeAudit E A txnow ''auth.context.changed'' (Some userID)
             (AC_MembershipID target) (AC_OrganizationID target) (AC_StoreID target) (Some sid) M
             [(''context_kind'', MetaText (contextKindString (AC_Kind target)))] d1)) (\<lambda>d2.
     Inr (target, d2))))))))"

text \<open>The state of the session and a new access token, after the transaction.\<close>

definition issue_for ::
    "env \<Rightarrow> auth_service \<Rightarrow> time \<Rightarrow> time \<Rightarrow> uuid option \<Rightarrow> uuid \<Rightarrow> (auth_state \<Rightarrow> time) \<Rightarrow> auth_db \<Rightarrow>
     auth_error + issued_response \<times> time" where
  "issue_for E A txnow now entropy sid authTime d =
     chain (loadState E txnow now sid d) (\<lambda>st.
     chain (issue (asv_tokens A) entropy now (asv_AccessTokenTTL A) st (authTime st)) (\<lambda>response.
     Inr (response, State_AbsoluteExpires st)))"

definition SwitchContext ::
    "env \<Rightarrow> auth_service \<Rightarrow> txn \<Rightarrow> time \<Rightarrow> uuid option \<Rightarrow> uuid \<Rightarrow> uuid \<Rightarrow> string option \<Rightarrow> string option \<Rightarrow> time \<Rightarrow>
     request_meta \<Rightarrow> auth_db \<Rightarrow> (auth_error + issued_response \<times> time) \<times> auth_db \<times> uuid list" where
  "SwitchContext E A T now entropy userID sid requestedOrg requestedStore authTime M d =
     (case chain (parseOptionalUUID E requestedOrg ''organizationId'') (\<lambda>orgID.
           chain (parseOptionalUUID E requestedStore ''storeId'') (\<lambda>storeID.
           chain (guard_error (\<not> (storeID \<noteq> None \<and> orgID = None)) (Sentinel Auth_ErrInvalidAuthContext)) (\<lambda>_.
           Inr (orgID, storeID)))) of
        Inl e \<Rightarrow> (Inl e, d, [])
      | Inr (orgID, storeID) \<Rightarrow>
          (case Auth_WithTx T (switch_tx E A (tx_now T) now userID sid orgID storeID M) d of
             (Inl e, d') \<Rightarrow> (Inl e, d', [])
           | (Inr _, d') \<Rightarrow> (issue_for E A (tx_now T) now entropy sid (\<lambda>_. authTime) d', d', [sid])))"

definition set_identity_tx ::
    "env \<Rightarrow> auth_service \<Rightarrow> time \<Rightarrow> uuid \<Rightarrow> uuid \<Rightarrow> request_meta \<Rightarrow> auth_db \<Rightarrow> auth_error + unit \<times> auth_db" where
  "set_identity_tx E A txnow userID sid M d =
     chain (on_error mapPersistenceError (GetAuthSessionForUpdate sid d)) (\<lambda>row.
     chain (guard_error (\<not> (Ses_UserID (SSR_Session row) \<noteq> userID \<or> Ses_Status (SSR_Session row) \<noteq> SesACTIVE))
             (Sentinel (Of_Sessions ErrSessionRevoked))) (\<lambda>_.
     chain (wrap_error ''downgrade session context''
             (UpdateSessionContext txnow CtxIDENTITY None None None sid userID d)) (\<lambda>(_, d1).
     chain (auth_writeAudit E A txnow ''auth.context.changed'' (Some userID) None None None (Some sid) M
             [(''context_kind'', MetaText ''identity''), (''reason'', MetaText ''context_no_longer_valid'')] d1) (\<lambda>d2.
     Inr ((), d2)))))"

text \<open>\<open>setContext\<close> with the identity context, its only caller's argument.\<close>

definition setContext ::
    "env \<Rightarrow> auth_service \<Rightarrow> txn \<Rightarrow> uuid \<Rightarrow> uuid \<Rightarrow> request_meta \<Rightarrow> auth_db \<Rightarrow>
     (auth_error + unit) \<times> auth_db \<times> uuid list" where
  "setContext E A T userID sid M d =
     (case Auth_WithTx T (set_identity_tx E A (tx_now T) userID sid M) d of
        (Inl e, d') \<Rightarrow> (Inl e, d', []) | (Inr _, d') \<Rightarrow> (Inr (), d', [sid]))"

definition shouldDowngradeContext :: "auth_error \<Rightarrow> bool" where
  "shouldDowngradeContext e \<longleftrightarrow>
     list_ex (errors_Is e) [Auth_ErrInvalidAuthContext, Auth_ErrOrganizationNotFound, Auth_ErrOrganizationSuspended,
       Auth_ErrMembershipNotFound, Auth_ErrMembershipSuspended, Auth_ErrStoreNotFound, Auth_ErrStoreInactive]"

text \<open>
  \<open>T2\<close> and \<open>now2\<close> are the transaction and the clock of the downgrade and of what follows the rotation.
\<close>

definition Refresh ::
    "env \<Rightarrow> auth_service \<Rightarrow> txn \<Rightarrow> entropy \<Rightarrow> time \<Rightarrow> txn \<Rightarrow> time \<Rightarrow> uuid option \<Rightarrow> string \<Rightarrow> request_meta \<Rightarrow> auth_db \<Rightarrow>
     (auth_error + issued_response \<times> string \<times> time) \<times> auth_db \<times> uuid list" where
  "Refresh E A T ent now T2 now2 entropy raw M d =
     (case RotateRefreshToken E (asv_sessions A) T ent now raw M d of
        (Inl e, d', ids) \<Rightarrow> (Inl (map_go_error Of_Sessions e), d', ids)
      | (Inr rotated, d', ids) \<Rightarrow>
          (let sid = Session_ID (Rot_Session rotated);
               finish = (\<lambda>d. chain (issue_for E A (tx_now T2) now2 entropy sid State_CreatedAt d) (\<lambda>(response, expires).
                 Inr (response, Rot_RawRefreshToken rotated, expires)))
           in case loadState E (tx_now T2) now2 sid d' of
             Inl e \<Rightarrow>
               if shouldDowngradeContext e then
                 (case setContext E A T2 (Session_UserID (Rot_Session rotated)) sid M d' of
                    (Inl e2, d2, ids2) \<Rightarrow> (Inl e2, d2, ids @ ids2)
                  | (Inr _, d2, ids2) \<Rightarrow> (finish d2, d2, ids @ ids2))
               else (Inl e, d', ids)
           | Inr _ \<Rightarrow> (finish d', d', ids)))"

definition Logout ::
    "env \<Rightarrow> auth_service \<Rightarrow> txn \<Rightarrow> uuid \<Rightarrow> uuid \<Rightarrow> request_meta \<Rightarrow> auth_db \<Rightarrow> (auth_error + unit) \<times> auth_db \<times> uuid list" where
  "Logout E A T userID sid M d =
     (case RevokeCurrentSession E (asv_sessions A) T userID sid M d of
        (Inl e, d', ids) \<Rightarrow> (if errors_Is e ErrSessionNotFound then Inr () else Inl (map_go_error Of_Sessions e), d', ids)
      | (Inr _, d', ids) \<Rightarrow> (Inr (), d', ids))"

definition LogoutAll ::
    "env \<Rightarrow> auth_service \<Rightarrow> txn \<Rightarrow> uuid \<Rightarrow> uuid \<Rightarrow> request_meta \<Rightarrow> auth_db \<Rightarrow> (auth_error + unit) \<times> auth_db \<times> uuid list" where
  "LogoutAll E A T userID sid M d =
     (case RevokeAllUserSessions E (asv_sessions A) T userID (Some sid) M d of
        (Inl e, d', ids) \<Rightarrow> (Inl (map_go_error Of_Sessions e), d', ids) | (Inr _, d', ids) \<Rightarrow> (Inr (), d', ids))"

definition Me ::
    "env \<Rightarrow> time \<Rightarrow> time \<Rightarrow> uuid \<Rightarrow> auth_db \<Rightarrow>
     auth_error + auth_user_response \<times> auth_session_response \<times> auth_context_response" where
  "Me E txnow now sid d =
     chain (loadState E txnow now sid d) (\<lambda>st.
     let m = mapAuthResponse st [] 0 in Inr (IR_User m, IR_Session m, IR_Context m))"

section \<open>Responses\<close>

text \<open>Status, code and field of the response to an error; the message in Portuguese is left out.\<close>

definition Auth_mapHTTPError :: "auth_error \<Rightarrow> int \<times> string \<times> string" where
  "Auth_mapHTTPError e =
     (let is = errors_Is e in
      case errors_As_Validation e of
        Some (field, _) \<Rightarrow> (422, ''VALIDATION_ERROR'', field)
      | None \<Rightarrow>
          if is Auth_ErrInvalidRequest then (400, ''INVALID_REQUEST'', [])
          else if is Auth_ErrActionTokenMissing \<or> is Auth_ErrActionTokenInvalid then (400, ''INVALID_REQUEST'', [])
          else if is Auth_ErrActionTokenExpired then (410, ''ACTION_TOKEN_EXPIRED'', [])
          else if is Auth_ErrInvalidAuthContext then (400, ''INVALID_AUTH_CONTEXT'', [])
          else if is Auth_ErrInvalidCredentials then (401, ''INVALID_CREDENTIALS'', [])
          else if is Auth_ErrRegistrationDisabled then (403, ''REGISTRATION_DISABLED'', [])
          else if is Auth_ErrWeakPassword then (422, ''WEAK_PASSWORD'', ''password'')
          else if is Auth_ErrCommonPassword then (422, ''COMMON_PASSWORD'', ''password'')
          else if is Auth_ErrEmailAlreadyInUse then (409, ''EMAIL_ALREADY_IN_USE'', ''email'')
          else if is Auth_ErrOrganizationSlugInUse then (409, ''ORGANIZATION_SLUG_ALREADY_IN_USE'', ''organization.slug'')
          else if is Auth_ErrStoreCodeInUse then (409, ''STORE_CODE_ALREADY_IN_USE'', ''store.code'')
          else if is Auth_ErrUserSuspended \<or> is (Of_Sessions ErrUserSuspended) then (403, ''USER_SUSPENDED'', [])
          else if is Auth_ErrUserDisabled \<or> is (Of_Sessions ErrUserDisabled) then (403, ''USER_DISABLED'', [])
          else if is Auth_ErrEmailNotVerified then (403, ''EMAIL_NOT_VERIFIED'', [])
          else if is Auth_ErrOrganizationSuspended then (403, ''ORGANIZATION_SUSPENDED'', [])
          else if is Auth_ErrStoreInactive then (403, ''STORE_INACTIVE'', [])
          else if is Auth_ErrMembershipSuspended then (403, ''MEMBERSHIP_SUSPENDED'', [])
          else if is Auth_ErrOrganizationNotFound then (404, ''ORGANIZATION_NOT_FOUND'', [])
          else if is Auth_ErrStoreNotFound then (404, ''STORE_NOT_FOUND'', [])
          else if is Auth_ErrMembershipNotFound then (404, ''MEMBERSHIP_NOT_FOUND'', [])
          else if is Auth_ErrSessionNotFound \<or> is (Of_Sessions ErrSessionNotFound) then (404, ''SESSION_NOT_FOUND'', [])
          else if is (Of_Sessions ErrRefreshTokenMissing) then (401, ''REFRESH_TOKEN_MISSING'', [])
          else if is (Of_Sessions ErrRefreshTokenInvalid) then (401, ''REFRESH_TOKEN_INVALID'', [])
          else if is (Of_Sessions ErrRefreshTokenExpired) then (401, ''REFRESH_TOKEN_EXPIRED'', [])
          else if is (Of_Sessions ErrRefreshTokenReused) then (401, ''REFRESH_TOKEN_REUSED'', [])
          else if is (Of_Sessions ErrSessionExpired) then (401, ''SESSION_EXPIRED'', [])
          else if is (Of_Sessions ErrSessionRevoked) \<or> is (Of_Sessions ErrSessionCompromised) then (401, ''SESSION_REVOKED'', [])
          else (503, ''AUTH_DEPENDENCY_UNAVAILABLE'', []))"

end
