(* ===== verification/Token_Behaviour.thy ===== *)
theory Token_Behaviour
  imports Auth_Context Access_Leaving
begin

text \<open>
  What an access token says and what the database says: the versions in the database only grow
  while the services of roles, memberships and sessions work, equal versions mean equal scopes,
  and an accepted request carries the claims that were signed.
\<close>

interpretation organizations: row_table au_organizations "\<lambda>rs d. d\<lparr>au_organizations := rs\<rparr>" Org_ID
  by unfold_locales simp

section \<open>Versions only grow\<close>

definition organization_of :: "uuid \<Rightarrow> auth_db \<Rightarrow> organization option" where
  "organization_of q d = List.find (\<lambda>g. Org_ID g = q) (au_organizations d)"

definition organization_later :: "organization \<Rightarrow> organization \<Rightarrow> bool" where
  "organization_later g g' \<longleftrightarrow> Org_AuthorizationVersion g \<le> Org_AuthorizationVersion g'"

definition membership_later :: "membership \<Rightarrow> membership \<Rightarrow> bool" where
  "membership_later m m' \<longleftrightarrow> Mem_UserID m' = Mem_UserID m \<and> Mem_AuthorizationVersion m \<le> Mem_AuthorizationVersion m'"

definition versions_later :: "auth_db \<Rightarrow> auth_db \<Rightarrow> bool" where
  "versions_later d d' \<longleftrightarrow>
     (\<forall>q. rel_option organization_later (organization_of q d) (organization_of q d')) \<and>
     (\<forall>q i. rel_option membership_later (membership_of q i d) (membership_of q i d'))"

lemma rel_option_refl: "(\<And>x. R x x) \<Longrightarrow> rel_option R a a"
  by (cases a) auto

lemma rel_option_trans: "(\<And>x y z. R x y \<Longrightarrow> R y z \<Longrightarrow> R x z) \<Longrightarrow> rel_option R a b \<Longrightarrow> rel_option R b c \<Longrightarrow> rel_option R a c"
  by (cases a; cases b; cases c) auto

lemma versions_later_refl [simp]: "versions_later d d"
  by (auto simp: versions_later_def organization_later_def membership_later_def intro!: rel_option_refl)

lemma versions_later_trans:
  assumes "versions_later a b" "versions_later b c"
  shows "versions_later a c"
proof -
  have "rel_option organization_later x z" if "rel_option organization_later x y" "rel_option organization_later y z" for x y z
    by (rule rel_option_trans [OF _ that]) (simp add: organization_later_def)
  moreover have "rel_option membership_later x z" if "rel_option membership_later x y" "rel_option membership_later y z" for x y z
    by (rule rel_option_trans [OF _ that]) (simp add: membership_later_def)
  ultimately show ?thesis using assms unfolding versions_later_def by blast
qed

lemma find_all2:
  assumes "list_all2 R xs ys" "\<And>x y. R x y \<Longrightarrow> p y = p x"
  shows "rel_option R (List.find p xs) (List.find p ys)"
  using assms(1) by induction (auto simp: assms(2))

lemma org_raised_later:
  assumes "org_raised orgID (au_organizations d) (au_organizations d')"
  shows "rel_option organization_later (organization_of q d) (organization_of q d')"
proof -
  let ?R = "\<lambda>g g'. \<exists>v t. g' = g\<lparr>Org_AuthorizationVersion := v, Org_UpdatedAt := t\<rparr> \<and> v \<ge> Org_AuthorizationVersion g"
  have "rel_option ?R (organization_of q d) (organization_of q d')"
    unfolding organization_of_def
    by (rule find_all2) (use assms in \<open>auto simp: org_raised_def\<close>)
  then show ?thesis by (rule option.rel_mono_strong) (auto simp: organization_later_def)
qed

lemma member_rewritten_later:
  assumes "member_rewritten P orgID j (au_memberships d) (au_memberships d')"
  shows "rel_option membership_later (membership_of q i d) (membership_of q i d')"
proof -
  from assms obtain pre m m' post where s: "au_memberships d = pre @ m # post" "au_memberships d' = pre @ m' # post"
    "Mem_OrganizationID m = orgID" "Mem_ID m = j" "Mem_OrganizationID m' = orgID" "Mem_ID m' = j" "membership_later m m'"
    unfolding member_rewritten_def membership_later_def by fastforce
  then show ?thesis
    by (auto simp: membership_of_def find_append membership_later_def split: option.splits intro!: rel_option_refl)
qed

lemma same_organizations: "au_organizations d' = au_organizations d \<Longrightarrow>
    rel_option organization_later (organization_of q d) (organization_of q d')"
  by (simp add: organization_of_def organization_later_def rel_option_refl)

lemma same_memberships: "au_memberships d' = au_memberships d \<Longrightarrow>
    rel_option membership_later (membership_of q i d) (membership_of q i d')"
  by (simp add: membership_of_def membership_later_def rel_option_refl)

lemma versions_laterI:
  assumes "au_organizations d' = au_organizations d \<or> (\<exists>q. org_raised q (au_organizations d) (au_organizations d'))"
    and "au_memberships d' = au_memberships d \<or> (\<exists>P q j. member_rewritten P q j (au_memberships d) (au_memberships d'))"
  shows "versions_later d d'"
  using assms unfolding versions_later_def
  by (metis same_organizations same_memberships org_raised_later member_rewritten_later)

lemma change_later: "access_change G orgID d d' \<Longrightarrow> versions_later d d'"
  by (erule access_change.cases; rule versions_laterI) (simp_all, blast+)

lemma member_change_later: "member_change E orgID d d' \<Longrightarrow> versions_later d d'"
  by (erule member_change.cases; rule versions_laterI) (simp_all, blast+)

section \<open>Equal versions, equal scopes\<close>

lemma valid_context_frame:
  assumes "\<And>m. Mem_OrganizationID m = q \<Longrightarrow> Mem_ID m = i \<Longrightarrow> m \<in> set (au_memberships d') \<longleftrightarrow> m \<in> set (au_memberships d)"
    and "au_users d' = au_users d" "au_stores d' = au_stores d" "au_organizations d' = au_organizations d"
  shows "valid_context kind storeID q i user d' = valid_context kind storeID q i user d"
proof -
  have *: "store_of q s d' = store_of q s d" for s by (simp add: store_of_def assms(3))
  show ?thesis unfolding valid_context_def list_ex_iff * assms(2,4) using assms(1) by blast
qed

lemma other_member_rows:
  assumes "member_rewritten P orgID j ms ms'" "(orgID, j) \<noteq> (Mem_OrganizationID m, Mem_ID m)"
  shows "m \<in> set ms' \<longleftrightarrow> m \<in> set ms"
  using assms by (auto simp: member_rewritten_def)

lemma member_change_raises_version:
  assumes "member_change E orgID d d'"
    and "effective_codes F now kind storeID q i user d' \<noteq> effective_codes F now kind storeID q i user d"
  shows "member_version q i d' \<noteq> member_version q i d"
proof -
  have frame: "member_version q i d' \<noteq> member_version q i d"
    if "member_rewritten P orgID j (au_memberships d) (au_memberships d')" "au_users d' = au_users d"
      "au_stores d' = au_stores d" "au_organizations d' = au_organizations d" "au_bindings d' = au_bindings d"
      "au_roles d' = au_roles d" "au_role_scopes d' = au_role_scopes d" "au_scopes d' = au_scopes d" for P j
  proof (cases "(orgID, j) = (q, i)")
    case True
    with member_rewritten_version [OF that(1)] show ?thesis by simp
  next
    case False
    with other_member_rows [OF that(1)] that(2-4) have "valid_context kind storeID q i user d' = valid_context kind storeID q i user d"
      by (intro valid_context_frame) auto
    with that(5-8) have "effective_codes F now kind storeID q i user d' = effective_codes F now kind storeID q i user d"
      by (auto simp: effective_codes_iff grants_code_def code_in_context_def)
    with assms(2) show ?thesis by simp
  qed
  from assms(1) show ?thesis
  proof cases
    case unchanged
    with assms(2) show ?thesis by simp
  next
    case default_store
    then show ?thesis by (intro frame) simp_all
  next
    case status
    then show ?thesis by (intro frame) simp_all
  qed
qed

text \<open>
  A step of the system: an operation on roles or memberships, or one that changes only sessions,
  refresh tokens and the audit trail.
\<close>

definition session_only :: "auth_db \<Rightarrow> auth_db \<Rightarrow> bool" where
  "session_only d d' \<longleftrightarrow> (\<exists>ss ts a n. d' = d\<lparr>au_sessions := ss, au_refresh_tokens := ts, au_audit := a, au_uuid_calls := n\<rparr>)"

inductive world_step :: "env \<Rightarrow> auth_db \<Rightarrow> auth_db \<Rightarrow> bool" for E where
  "access_step E d d' \<Longrightarrow> world_step E d d'"
| "session_only d d' \<Longrightarrow> world_step E d d'"

lemma session_only_same:
  assumes "session_only d d'"
  shows "versions_later d d'" "effective_codes F now kind storeID q i user d' = effective_codes F now kind storeID q i user d"
    "organization_of q d' = organization_of q d" "membership_of q i d' = membership_of q i d" "au_users d' = au_users d"
proof -
  from assms obtain ss ts a n where d': "d' = d\<lparr>au_sessions := ss, au_refresh_tokens := ts, au_audit := a, au_uuid_calls := n\<rparr>"
    unfolding session_only_def by blast
  show "organization_of q d' = organization_of q d" "membership_of q i d' = membership_of q i d" "au_users d' = au_users d"
    by (simp_all add: d' organization_of_def membership_of_def)
  show "versions_later d d'"
    by (auto simp: d' versions_later_def intro!: same_organizations same_memberships)
  have "valid_context kind storeID q i user d' = valid_context kind storeID q i user d"
    by (rule valid_context_frame) (simp_all add: d')
  then show "effective_codes F now kind storeID q i user d' = effective_codes F now kind storeID q i user d"
    by (auto simp: effective_codes_iff) (simp_all add: d' grants_code_def code_in_context_def)
qed

definition same_versions :: "uuid \<Rightarrow> uuid \<Rightarrow> auth_db \<Rightarrow> auth_db \<Rightarrow> bool" where
  "same_versions q i d d' \<longleftrightarrow> org_version q d' = org_version q d \<and> member_version q i d' = member_version q i d"

lemma world_step_versions:
  assumes "world_step E d d'"
  shows "versions_later d d'"
    "same_versions q i d d' \<Longrightarrow> effective_codes F now kind storeID q i user d' = effective_codes F now kind storeID q i user d"
proof -
  have "versions_later d d' \<and>
    (same_versions q i d d' \<longrightarrow> effective_codes F now kind storeID q i user d' = effective_codes F now kind storeID q i user d)"
    using assms
  proof cases
    case 1
    then show ?thesis
    proof (cases rule: access_step_cases)
      case (1 G orgID)
      from change_later [OF this] change_raises_version [OF this, of F now kind storeID q i user] show ?thesis
        unfolding same_versions_def by blast
    next
      case (2 orgID)
      from member_change_later [OF this] member_change_raises_version [OF this, of F now kind storeID q i user] show ?thesis
        unfolding same_versions_def by blast
    qed
  next
    case 2
    from session_only_same [OF this] show ?thesis by blast
  qed
  then show "versions_later d d'"
    "same_versions q i d d' \<Longrightarrow> effective_codes F now kind storeID q i user d' = effective_codes F now kind storeID q i user d"
    by blast+
qed

lemma between_same:
  assumes "versions_later a b" "versions_later b c" "same_versions q i a c"
  shows "same_versions q i a b" "same_versions q i b c"
proof -
  have o: "rel_option organization_later (organization_of q a) (organization_of q b)"
    "rel_option organization_later (organization_of q b) (organization_of q c)"
    and m: "rel_option membership_later (membership_of q i a) (membership_of q i b)"
    "rel_option membership_later (membership_of q i b) (membership_of q i c)"
    using assms(1,2) by (auto simp: versions_later_def)
  have "org_version q b = org_version q a"
    using o assms(3) unfolding same_versions_def org_version_def organization_of_def [symmetric]
    by (cases "organization_of q a"; cases "organization_of q b"; cases "organization_of q c") (auto simp: organization_later_def)
  moreover have "member_version q i b = member_version q i a"
    using m assms(3) unfolding same_versions_def member_version_def
    by (cases "membership_of q i a"; cases "membership_of q i b"; cases "membership_of q i c") (auto simp: membership_later_def)
  ultimately show "same_versions q i a b" "same_versions q i b c" using assms(3) by (simp_all add: same_versions_def)
qed

lemma world_steps_codes:
  assumes "rtranclp (world_step E) d d'"
  shows "versions_later d d' \<and>
    (same_versions q i d d' \<longrightarrow> effective_codes F now kind storeID q i user d' = effective_codes F now kind storeID q i user d)"
  using assms
proof (induction rule: rtranclp_induct)
  case (step y z)
  note yz = world_step_versions [OF step.hyps(2)]
  have "versions_later d z" using step.IH yz(1) by (blast intro: versions_later_trans)
  moreover have "effective_codes F now kind storeID q i user z = effective_codes F now kind storeID q i user d"
    if "same_versions q i d z"
  proof -
    from step.IH have "versions_later d y" by blast
    from between_same [OF this yz(1) that] yz(2) step.IH show ?thesis by simp
  qed
  ultimately show ?case by blast
qed simp

section \<open>What is signed\<close>

lemma ResolveEffectiveScopes_InrD:
  assumes "ResolveEffectiveScopes E now kind storeID q i user d = (Inr (keys, codes) :: 's go_error + _)"
  shows "valid_context kind storeID q i user d" "set keys \<subseteq> Role_Key ` set (au_roles d)"
    "set codes \<subseteq> RS_ScopeCode ` set (au_role_scopes d)" "set codes = effective_codes E now kind storeID q i user d"
proof -
  from assms show "valid_context kind storeID q i user d"
    by (auto simp: ResolveEffectiveScopes_def result_simps)
  from assms show "set keys \<subseteq> Role_Key ` set (au_roles d)"
    by (auto simp: ResolveEffectiveScopes_def result_simps effective_roles_def set_bound_roles Let_def)
  from assms show "set codes \<subseteq> RS_ScopeCode ` set (au_role_scopes d)"
    by (auto simp: ResolveEffectiveScopes_def result_simps Let_def split: if_splits)
  have "ResolveEffectiveScopes E now kind storeID q i user d = (Inr (keys, codes) :: roles_error + _)"
    using assms by (auto simp: ResolveEffectiveScopes_def chain_eq_Inr guard_error_eq_Inr Let_def)
  then show "set codes = effective_codes E now kind storeID q i user d" by (simp add: effective_codes_def)
qed

text \<open>What a resolved context of an organization says is in the database.\<close>

definition context_true :: "env \<Rightarrow> time \<Rightarrow> uuid \<Rightarrow> auth_context \<Rightarrow> auth_db \<Rightarrow> bool" where
  "context_true E now user c d \<longleftrightarrow>
     (AC_Kind c = CtxIDENTITY \<and> c = identity_context) \<or>
     (AC_Kind c = (if AC_StoreID c = None then CtxORGANIZATION else CtxSTORE) \<and>
      (\<exists>m g. m \<in> set (au_memberships d) \<and> g \<in> set (au_organizations d) \<and> Mem_OrganizationID m = Org_ID g \<and> Mem_UserID m = user \<and>
        AC_OrganizationID c = Some (Org_ID g) \<and> AC_MembershipID c = Some (Mem_ID m) \<and>
        AC_OrganizationVersion c = Org_AuthorizationVersion g \<and> AC_MembershipVersion c = Mem_AuthorizationVersion m \<and>
        valid_context (AC_Kind c) (AC_StoreID c) (Org_ID g) (Mem_ID m) user d \<and>
        set (AC_Roles c) \<subseteq> Role_Key ` set (au_roles d) \<and> set (AC_Scopes c) \<subseteq> RS_ScopeCode ` set (au_role_scopes d) \<and>
        set (AC_Scopes c) = effective_codes E now (AC_Kind c) (AC_StoreID c) (Org_ID g) (Mem_ID m) user d))"

lemma context_true_identity: "context_true E now user identity_context d"
  by (simp add: context_true_def identity_context_def)

lemma GetMembershipContextForUser_InrD:
  assumes "GetMembershipContextForUser q user d = (Inr (m, g) :: 's go_error + _)"
  shows "m \<in> set (au_memberships d)" "g \<in> set (au_organizations d)" "Org_ID g = Mem_OrganizationID m"
    "Mem_OrganizationID m = q" "Mem_UserID m = user"
proof -
  let ?xs = "[(m, g). m \<leftarrow> au_memberships d, g \<leftarrow> au_organizations d, Org_ID g = Mem_OrganizationID m \<and>
            Mem_OrganizationID m = q \<and> Mem_UserID m = user \<and> Mem_Status m \<noteq> MemREMOVED]"
  let ?k = "\<lambda>(m, _). (Mem_JoinedAt m, Mem_ID m)"
  from assms have "(m, g) \<in> set (sort_key ?k ?xs)"
    unfolding GetMembershipContextForUser_def by (cases "sort_key ?k ?xs") auto
  then have "(m, g) \<in> set ?xs" by simp
  then show "m \<in> set (au_memberships d)" "g \<in> set (au_organizations d)" "Org_ID g = Mem_OrganizationID m"
    "Mem_OrganizationID m = q" "Mem_UserID m = user" by (auto split: if_splits)
qed

lemma requested_store_InrD:
  "requested_store E now q i storeID d = Inr st \<Longrightarrow> map_option Store_ID st = storeID"
  by (auto simp: requested_store_def result_simps GetStoreForOrganization_def store_of_def dest!: find_SomeD split: option.splits)

lemma resolveContext_true:
  assumes "resolveContext E now user q storeID d = Inr c"
  shows "context_true E now user c d"
proof (cases q)
  case None
  with assms show ?thesis by (auto simp: resolveContext_def context_true_def identity_context_def split: if_splits)
next
  case (Some orgID)
  with assms obtain m g st keys codes where
    g: "GetMembershipContextForUser orgID user d = (Inr (m, g) :: auth_error + _)"
    and st: "requested_store E now orgID (Mem_ID m) storeID d = Inr st"
    and sc: "ResolveEffectiveScopes E now (case st of None \<Rightarrow> CtxORGANIZATION | Some _ \<Rightarrow> CtxSTORE) (map_option Store_ID st)
        orgID (Mem_ID m) user d = (Inr (keys, codes) :: auth_error + _)"
    and c: "c = \<lparr>AC_Kind = (case st of None \<Rightarrow> CtxORGANIZATION | Some _ \<Rightarrow> CtxSTORE), AC_OrganizationID = Some orgID,
               AC_MembershipID = Some (Mem_ID m), AC_StoreID = map_option Store_ID st, AC_OrganizationName = Org_Name g,
               AC_OrganizationSlug = Org_Slug g, AC_StoreCode = (case st of None \<Rightarrow> [] | Some s \<Rightarrow> Store_Code s),
               AC_StoreName = (case st of None \<Rightarrow> [] | Some s \<Rightarrow> Store_Name s),
               AC_Roles = uniqueSorted keys, AC_Scopes = uniqueSorted codes,
               AC_OrganizationVersion = Org_AuthorizationVersion g, AC_MembershipVersion = Mem_AuthorizationVersion m\<rparr>"
    by (auto simp: resolveContext_def result_simps Let_def)
  note g = GetMembershipContextForUser_InrD [OF g]
  note sc = ResolveEffectiveScopes_InrD [OF sc]
  have k: "(case st of None \<Rightarrow> CtxORGANIZATION | Some _ \<Rightarrow> CtxSTORE) =
      (if map_option Store_ID st = None then CtxORGANIZATION else CtxSTORE)" by (cases st) auto
  show ?thesis
    unfolding context_true_def
    by (intro disjI2 conjI exI [of _ m] exI [of _ g]) (use g sc in \<open>simp_all add: c k\<close>)
qed

lemma loadState_InrD:
  assumes "loadState E txnow now sid d = Inr st"
  shows "context_true E txnow (State_UserID st) (State_Context st) d" "State_SessionID st = sid"
    "\<exists>s \<in> set (au_sessions d). Ses_ID s = sid \<and> State_ClientID st = Ses_ClientID s"
proof -
  from assms obtain s u where s: "GetAuthSessionView sid d = (Inr (s, u) :: auth_error + _)"
    and st: "State_UserID st = Ses_UserID s" "State_SessionID st = Ses_ID s" "State_ClientID st = Ses_ClientID s"
    and c: "State_Context st = identity_context \<or>
      resolveContext E txnow (Ses_UserID s) (Ses_OrganizationID s) (Ses_StoreID s) d = Inr (State_Context st)"
    by (auto simp: loadState_def result_simps Let_def split: if_splits)
  from s have s: "s \<in> set (au_sessions d)" "Ses_ID s = sid"
    by (auto simp: GetAuthSessionView_def result_simps dest: find_SomeD)
  from c resolveContext_true [of E txnow "Ses_UserID s"] st(1) show "context_true E txnow (State_UserID st) (State_Context st) d"
    using context_true_identity by metis
  from s st show "State_SessionID st = sid" "\<exists>s \<in> set (au_sessions d). Ses_ID s = sid \<and> State_ClientID st = Ses_ClientID s" by auto
qed

text \<open>Texts that the token format keeps: ASCII, and scope codes without spaces.\<close>

definition scope_text :: "string \<Rightarrow> bool" where
  "scope_text c \<longleftrightarrow> ascii_text c \<and> c \<noteq> [] \<and> CHR '' '' \<notin> set c"

definition token_texts :: "token_service \<Rightarrow> auth_db \<Rightarrow> bool" where
  "token_texts V d \<longleftrightarrow> ascii_text (ts_issuer V) \<and> ascii_text (ts_audience V) \<and>
     list_all (\<lambda>s. ascii_text (Ses_ClientID s)) (au_sessions d) \<and> list_all (\<lambda>r. ascii_text (Role_Key r)) (au_roles d) \<and>
     list_all (\<lambda>x. scope_text (RS_ScopeCode x)) (au_role_scopes d)"

lemma ascii_text_simps [simp]: "ascii_text []" "ascii_text (xs @ ys) \<longleftrightarrow> ascii_text xs \<and> ascii_text ys"
  by (auto simp: ascii_text_def)

lemma ascii_hex: "ascii_text (hex_text k n)"
proof (induction k n rule: hex_text.induct)
  case (2 k n)
  have "n mod 16 < 16" by simp
  then show ?case using 2 by (auto simp: ascii_text_def hex_digit_def)
qed simp

lemma ascii_part: "ascii_text s \<Longrightarrow> ascii_text (take k s) \<and> ascii_text (drop k s)"
  by (auto simp: ascii_text_def list_all_iff dest: in_set_takeD in_set_dropD)

lemma ascii_uuidStr [simp]: "ascii_text (uuidStr u)"
proof -
  note part = ascii_part [THEN conjunct1] ascii_part [THEN conjunct2]
  have "ascii_text ''-''" by (simp add: ascii_text_def)
  then show ?thesis
    unfolding uuidStr_def dashed_def by (simp only: ascii_text_simps part ascii_hex)
qed

lemma ascii_optional_uuid [simp]: "ascii_text (optional_uuid_text u)"
  by (simp add: optional_uuid_text_def split: option.splits)

lemma ascii_contextKind [simp]: "ascii_text (contextKindString k)"
  by (cases k) (simp_all add: ascii_text_def)

lemma ascii_Join: "list_all ascii_text ws \<Longrightarrow> ascii_text (strings_Join ws '' '')"
  by (induction ws "'' ''" rule: strings_Join.induct) (auto simp: ascii_text_def)

lemma issued_ascii:
  assumes "loadState E txnow now sid d = Inr st" "token_texts V d"
  shows "ascii_claims (signed_claims V signed_at (issued_claims st jti authTime))"
    "list_all scope_text (AC_Scopes (State_Context st))"
proof -
  note ld = loadState_InrD [OF assms(1)]
  have roles: "list_all ascii_text (AC_Roles (State_Context st))" and scopes: "list_all scope_text (AC_Scopes (State_Context st))"
    using ld(1) assms(2) by (auto simp: context_true_def identity_context_def token_texts_def list_all_iff)
  have client: "ascii_text (State_ClientID st)" using ld(3) assms(2) by (auto simp: token_texts_def list_all_iff)
  have "ascii_text (strings_Join (uniqueSorted (AC_Scopes (State_Context st))) '' '')"
    by (rule ascii_Join) (use scopes in \<open>auto simp: list_all_iff scope_text_def\<close>)
  moreover have "list_all ascii_text (uniqueSorted (AC_Roles (State_Context st)))" using roles by (simp add: list_all_iff)
  moreover have "ascii_text ''pwd''" by (simp add: ascii_text_def)
  ultimately show "ascii_claims (signed_claims V signed_at (issued_claims st jti authTime))"
    using client assms(2) by (simp add: ascii_claims_def signed_claims_def issued_claims_def Let_def token_texts_def)
  show "list_all scope_text (AC_Scopes (State_Context st))" by (rule scopes)
qed

section \<open>What an accepted request carries\<close>

lemma request_claims_InrD:
  assumes "request_claims E V now h = Inr (c, sid, user)"
  shows "\<exists>token. validateBearer h = Inr token \<and> Token_Validate V now token = Inr c \<and>
    jwt_parseUUID E (Claim_SID c) = Inr (Some sid) \<and> jwt_parseUUID E (Claim_Subject c) = Inr (Some user)"
proof -
  from assms obtain token c' sid' where t: "validateBearer h = Inr token" "Token_Validate V now token = Inr c'"
    "jwt_parseUUID E (Claim_SID c') = Inr sid'"
    and rest: "(case sid' of
       None \<Rightarrow> Inl (401, ''ACCESS_TOKEN_INVALID'', ''missing session id in token'')
     | Some sessionID \<Rightarrow>
         (case jwt_parseUUID E (Claim_Subject c') of
            Inr (Some userID) \<Rightarrow> Inr (c', sessionID, userID)
          | _ \<Rightarrow> Inl (401, ''ACCESS_TOKEN_INVALID'', ''invalid subject in token''))) = (Inr (c, sid, user) :: auth_response + _)"
    by (auto simp: request_claims_def chain_eq_Inr on_error_eq_Inr guard_error_eq_Inr)
  then show ?thesis by (auto split: option.splits sum.splits)
qed

lemma RequireAccessToken_InrD:
  assumes "fst (RequireAccessToken E V ttl r now h d) = Inr (p, state)"
  obtains token c sid user where "validateBearer h = Inr token" "Token_Validate V now token = Inr c"
    "jwt_parseUUID E (Claim_SID c) = Inr (Some sid)" "jwt_parseUUID E (Claim_Subject c) = Inr (Some user)"
    "getSessionState sid d = Inr state" "session_checks c user state now = Inr ()" "p = buildPrincipal E c"
proof -
  from assms obtain c sid user where "request_claims E V now h = Inr (c, sid, user)"
    and rest: "getSessionState sid d = Inr state" "session_checks c user state now = Inr ()" "p = buildPrincipal E c"
    by (cases "request_claims E V now h") (auto simp: RequireAccessToken_def result_simps split: prod.splits)
  from request_claims_InrD [OF this(1)] obtain token where "validateBearer h = Inr token" "Token_Validate V now token = Inr c"
    "jwt_parseUUID E (Claim_SID c) = Inr (Some sid)" "jwt_parseUUID E (Claim_Subject c) = Inr (Some user)" by blast
  from that [OF this rest] show thesis .
qed

lemma validateBearer_token: "validateBearer (''Bearer '' @ token) = Inr t \<Longrightarrow> t = token"
  by (auto simp: validateBearer_def result_simps Let_def)

lemma issue_InrD:
  assumes "issue V entropy signed_at ttl st authTime = Inr response"
  shows "\<exists>jti. Sign V signed_at (issued_claims st jti authTime) = Inr (IR_AccessToken response)"
  using assms by (auto simp: issue_def result_simps mapAuthResponse_def Let_def split: option.splits)

text \<open>The claims that were issued, read back as a principal.\<close>

definition principal_codes :: "env \<Rightarrow> time \<Rightarrow> principal \<Rightarrow> auth_db \<Rightarrow> string set" where
  "principal_codes E now p d =
     (case (Pr_OrganizationID p, Pr_MembershipID p, Pr_UserID p) of
        (Some q, Some i, Some user) \<Rightarrow>
          effective_codes E now (if Pr_StoreID p = None then CtxORGANIZATION else CtxSTORE) (Pr_StoreID p) q i user d
      | _ \<Rightarrow> {})"

definition text_law :: "env \<Rightarrow> bool" where
  "text_law E \<longleftrightarrow> (\<forall>u. uuid_Scan E (uuidStr u) = Some u)"

lemma uuidStr_ne [simp]: "uuidStr u \<noteq> []"
  using length_uuidStr [of u] by force

lemma parse_uuidStr: "text_law E \<Longrightarrow> jwt_parseUUID E (uuidStr u) = Inr (Some u)"
  by (simp add: jwt_parseUUID_def text_law_def)

lemma parse_optional: "text_law E \<Longrightarrow> jwt_parseUUID E (optional_uuid_text u) = Inr u"
  by (cases u) (simp_all add: optional_uuid_text_def parse_uuidStr, simp add: jwt_parseUUID_def)

lemma optional_uuid_text_inj [simp]: "optional_uuid_text u = optional_uuid_text v \<longleftrightarrow> u = v"
  by (cases u; cases v) (simp_all add: optional_uuid_text_def uuidStr_inj uuidStr_ne [symmetric])

lemma issued_principal:
  assumes "text_law E" "context_true E t0 (State_UserID st) (State_Context st) d" "list_all scope_text (AC_Scopes (State_Context st))"
    and c_def: "c = State_Context st" and p_def: "p = buildPrincipal E (signed_claims V now (issued_claims st jti authTime))"
  shows "Pr_UserID p = Some (State_UserID st)" "Pr_SessionID p = Some (State_SessionID st)"
    "Pr_OrganizationID p = AC_OrganizationID c" "Pr_MembershipID p = AC_MembershipID c" "Pr_StoreID p = AC_StoreID c"
    "set (Pr_Scopes p) = set (AC_Scopes c)" "set (Pr_RoleKeys p) = set (AC_Roles c)"
    "Pr_ContextKind p = contextKindString (AC_Kind c)" "Pr_PasswordVersion p = State_PasswordVersion st"
proof -
  have id: "AC_OrganizationID c = None \<and> AC_MembershipID c = None \<and> AC_StoreID c = None" if "AC_Kind c = CtxIDENTITY"
    using assms(2) that by (auto simp: context_true_def c_def identity_context_def split: if_splits)
  have st: "AC_StoreID c = None" if "AC_Kind c = CtxORGANIZATION"
    using assms(2) that by (auto simp: context_true_def c_def split: if_splits)
  have "scope_parts (strings_Join (uniqueSorted (AC_Scopes c)) '' '') = uniqueSorted (AC_Scopes c)"
    by (rule scope_parts_Join) (use assms(3) in \<open>auto simp: c_def list_all_iff scope_text_def\<close>)
  then show "set (Pr_Scopes p) = set (AC_Scopes c)"
    by (simp add: p_def buildPrincipal_def signed_claims_def issued_claims_def Let_def c_def)
  show "Pr_UserID p = Some (State_UserID st)" "Pr_SessionID p = Some (State_SessionID st)" "set (Pr_RoleKeys p) = set (AC_Roles c)"
    "Pr_ContextKind p = contextKindString (AC_Kind c)" "Pr_PasswordVersion p = State_PasswordVersion st"
    by (simp_all add: p_def buildPrincipal_def signed_claims_def issued_claims_def Let_def parsed_or_invalid_def parse_uuidStr
        assms(1) c_def)
  show "Pr_OrganizationID p = AC_OrganizationID c" "Pr_MembershipID p = AC_MembershipID c" "Pr_StoreID p = AC_StoreID c"
    using id st by (cases "AC_Kind c"; simp add: p_def buildPrincipal_def signed_claims_def issued_claims_def Let_def
        parsed_or_invalid_def parse_optional assms(1) c_def)+
qed

lemma contextKindString_identity [simp]: "contextKindString k = ''identity'' \<longleftrightarrow> k = CtxIDENTITY"
  by (cases k) simp_all

lemma issued_tenant_claims:
  assumes "AC_Kind (State_Context st) \<noteq> CtxIDENTITY" "c = signed_claims V now (issued_claims st jti authTime)"
  shows "Claim_Ctx c = contextKindString (AC_Kind (State_Context st))" "Claim_Subject c = uuidStr (State_UserID st)"
    "Claim_OrgID c = optional_uuid_text (AC_OrganizationID (State_Context st))"
    "Claim_MembershipID c = optional_uuid_text (AC_MembershipID (State_Context st))"
    "Claim_OAV c = Some (AC_OrganizationVersion (State_Context st))" "Claim_MAV c = Some (AC_MembershipVersion (State_Context st))"
  using assms(1) by (simp_all add: assms(2) signed_claims_def issued_claims_def Let_def)

text \<open>Claims that pass the checks of a session agree with the versions in the database.\<close>

lemma session_checks_versions:
  assumes "session_checks c user state now = Inr ()" "Claim_Ctx c = contextKindString kind" "kind \<noteq> CtxIDENTITY"
  shows "Ses_UserID (SSR_Session state) = user" "Claim_OrgID c = optional_uuid_text (Ses_OrganizationID (SSR_Session state))"
    "Claim_MembershipID c = optional_uuid_text (Ses_MembershipID (SSR_Session state))"
    "\<And>a b. Claim_OAV c = Some a \<Longrightarrow> SSR_OrganizationAuthorizationVersion state = Some b \<Longrightarrow> b = a"
    "\<And>a b. Claim_MAV c = Some a \<Longrightarrow> SSR_MembershipAuthorizationVersion state = Some b \<Longrightarrow> b = a"
proof -
  from assms(1) have u: "Ses_UserID (SSR_Session state) = user" and x: "validateContext c (SSR_Session state) = Inr ()"
    and v: "validateVersions c state = Inr ()"
    by (auto simp: session_checks_def result_simps Let_def)
  show "Ses_UserID (SSR_Session state) = user" by (rule u)
  show "Claim_OrgID c = optional_uuid_text (Ses_OrganizationID (SSR_Session state))"
    "Claim_MembershipID c = optional_uuid_text (Ses_MembershipID (SSR_Session state))"
    using x assms(2,3) by (cases kind; auto simp: validateContext_def Let_def split: if_splits)+
  show "\<And>a b. Claim_OAV c = Some a \<Longrightarrow> SSR_OrganizationAuthorizationVersion state = Some b \<Longrightarrow> b = a"
    "\<And>a b. Claim_MAV c = Some a \<Longrightarrow> SSR_MembershipAuthorizationVersion state = Some b \<Longrightarrow> b = a"
    using v assms(2,3) by (cases kind; auto simp: validateVersions_def Let_def split: if_splits option.splits)+
qed

lemma getSessionState_InrD:
  assumes "getSessionState sid d = Inr state"
  shows "\<exists>s u. s \<in> set (au_sessions d) \<and> Ses_ID s = sid \<and> u \<in> set (au_users d) \<and> User_ID u = Ses_UserID s \<and>
    state = session_state_of d s u"
  using assms by (auto simp: getSessionState_def GetAuthSessionState_def result_simps dest!: find_SomeD)

lemma organization_of_unique:
  assumes "organizations.unique d" "g \<in> set (au_organizations d)"
  shows "organization_of (Org_ID g) d = Some g"
proof -
  obtain g' where g': "organization_of (Org_ID g) d = Some g'"
    using assms(2) by (cases "organization_of (Org_ID g) d") (auto simp: organization_of_def find_None_iff)
  then have "g' \<in> set (au_organizations d)" "Org_ID g' = Org_ID g" by (auto simp: organization_of_def dest: find_SomeD)
  with assms organizations.unique_inj have "g' = g" by blast
  with g' show ?thesis by simp
qed

lemma find_stronger: "List.find p xs = Some x \<Longrightarrow> q x \<Longrightarrow> List.find (\<lambda>x. p x \<and> q x) xs = Some x"
  by (induction xs) (auto split: if_splits)

lemma accepted_same_versions:
  assumes "versions_later d d'" "state = session_state_of d' s u" "session_checks c user state now = Inr ()"
    and "Claim_Ctx c = contextKindString kind" "kind \<noteq> CtxIDENTITY"
    and "Claim_OrgID c = uuidStr q" "Claim_MembershipID c = uuidStr i"
    and "organization_of q d = Some g" "membership_of q i d = Some m" "Mem_UserID m = user"
    and "Claim_OAV c = Some (Org_AuthorizationVersion g)" "Claim_MAV c = Some (Mem_AuthorizationVersion m)"
  shows "same_versions q i d d'"
proof -
  note chk = session_checks_versions [OF assms(3-5)]
  have ses: "SSR_Session state = s" by (simp add: assms(2) session_state_of_def Let_def)
  have ids: "Ses_OrganizationID s = Some q" "Ses_MembershipID s = Some i" "Ses_UserID s = user"
    using chk(1-3) assms(6,7) optional_uuid_text_inj [of "Ses_OrganizationID s" "Some q"]
      optional_uuid_text_inj [of "Ses_MembershipID s" "Some i"] by (simp_all add: ses optional_uuid_text_def)
  from assms(1) have "rel_option organization_later (organization_of q d) (organization_of q d')"
    "rel_option membership_later (membership_of q i d) (membership_of q i d')" by (simp_all add: versions_later_def)
  with assms(8-10) obtain g' m' where g': "organization_of q d' = Some g'"
    and m': "membership_of q i d' = Some m'" "Mem_UserID m' = user"
    by (auto simp: option_rel_Some1 membership_later_def)
  have "SSR_OrganizationAuthorizationVersion state = Some (Org_AuthorizationVersion g')"
    using g' by (simp add: assms(2) session_state_of_def Let_def ids organization_of_def)
  moreover have "List.find (\<lambda>r. Some (Mem_OrganizationID r) = Ses_OrganizationID s \<and> Some (Mem_ID r) = Ses_MembershipID s \<and>
      Mem_UserID r = Ses_UserID s) (au_memberships d') = Some m'"
    using find_stronger [OF m'(1) [unfolded membership_of_def], of "\<lambda>m. Mem_UserID m = user", OF m'(2)]
    unfolding ids option.inject conj_assoc .
  then have "SSR_MembershipAuthorizationVersion state = Some (Mem_AuthorizationVersion m')"
    by (simp add: assms(2) session_state_of_def Let_def)
  ultimately have "Org_AuthorizationVersion g' = Org_AuthorizationVersion g" "Mem_AuthorizationVersion m' = Mem_AuthorizationVersion m"
    using chk(4) [OF assms(11)] chk(5) [OF assms(12)] by blast+
  then show ?thesis
    using g' m' assms(8,9) by (simp add: same_versions_def org_version_def member_version_def organization_of_def [symmetric])
qed

section \<open>The answer without the cache\<close>

lemma session_load_Inl: "fst (session_load E ttl r sid now d) = Inl e \<Longrightarrow> getSessionState sid d = Inl e"
  by (auto simp: session_load_def loadFromDBAndCache_def split: prod.splits sum.splits option.splits)

lemma RequireAccessToken_fst:
  "fst (RequireAccessToken E V ttl r now h d) =
    chain (request_claims E V now h) (\<lambda>(c, sid, user).
      chain (on_error answer_error (getSessionState sid d)) (\<lambda>state.
      chain (session_checks c user state now) (\<lambda>_. Inr (buildPrincipal E c, state))))"
proof (cases "request_claims E V now h")
  case (Inr x)
  then obtain c sid user where x: "request_claims E V now h = Inr (c, sid, user)" by (cases x) auto
  show ?thesis
    using session_load_Inl [of E ttl r sid now d]
    by (cases "fst (session_load E ttl r sid now d)") (auto simp: RequireAccessToken_def x split: prod.splits)
qed (simp add: RequireAccessToken_def)

end
