(* ===== verification/Token_Properties.thy ===== *)
theory Token_Properties
  imports Token_Behaviour Access_Properties
begin

text \<open>
  The properties of access tokens and of the requests they admit, each with a witness on the
  organization Acme.
\<close>

section \<open>Acme's tokens\<close>

text \<open>Bia with her role, also with one that ends at 105, the token service of the program, and the one token of hers that its library knows.\<close>

definition acme_bia :: auth_db where
  "acme_bia = acme\<lparr>au_bindings := [acme_binding 30 10 20, acme_given]\<rparr>"

definition acme_bia_until :: auth_db where
  "acme_bia_until = acme\<lparr>au_bindings := [acme_binding 30 10 20, acme_given\<lparr>Bind_ExpiresAt := Some 105\<rparr>]\<rparr>"

definition acme_keyring :: keyring where
  "acme_keyring = \<lparr>ActiveKID = ''k1'', PrivateKey = [1], PublicKeys = [(''k1'', [2])]\<rparr>"

definition acme_header :: jwt_header where
  "acme_header = \<lparr>Head_alg = ''EdDSA'', Head_kid = Some ''k1'', Head_typ = Some ''at+jwt''\<rparr>"

definition acme_jti :: uuid where
  "acme_jti = newRandomUUID 0"

definition acme_claims :: claims where
  "acme_claims = \<lparr>Claim_Issuer = ''pdv'', Claim_Subject = uuidStr 8, Claim_Audience = [''api''], Claim_ID = uuidStr acme_jti,
     Claim_IssuedAt = Some 0, Claim_NotBefore = Some 0, Claim_ExpiresAt = Some 900, Claim_ClientID = ''pdv-web'',
     Claim_Ctx = ''organization'', Claim_SID = uuidStr 40, Claim_OrgID = uuidStr 1, Claim_MembershipID = uuidStr 11,
     Claim_StoreID = [], Claim_Roles = [''auditor''], Claim_Scope = ''roles.read'', Claim_OAV = Some 1, Claim_MAV = Some 1,
     Claim_PV = 1, Claim_AuthTime = 0, Claim_AMR = [''pwd''], Claim_Ver = 1\<rparr>"

definition acme_jwt :: jwt_library where
  "acme_jwt = \<lparr>lib_Sign = (\<lambda>key h c. if h = acme_header \<and> c = acme_claims then Some ''bia.signed'' else None),
     lib_Parse = (\<lambda>kf issuer audience leeway now token.
       if token \<noteq> ''bia.signed'' then Inl (LibOther ''malformed'')
       else case kf acme_header of Inl _ \<Rightarrow> Inl (LibOther ''key'') | Inr key \<Rightarrow>
         if issuer = ''pdv'' \<and> audience = ''api'' then Inr (acme_header, acme_claims) else Inl LibInvalidIssuer)\<rparr>"

definition acme_tokens :: token_service where
  "acme_tokens = \<lparr>ts_lib = acme_jwt, ts_keyring = acme_keyring, ts_issuer = ''pdv'', ts_audience = ''api'',
     ts_ttl = 900000000, ts_clockSkew = 0\<rparr>"

definition acme_bia_context :: auth_context where
  "acme_bia_context = \<lparr>AC_Kind = CtxORGANIZATION, AC_OrganizationID = Some 1, AC_MembershipID = Some 11, AC_StoreID = None,
     AC_OrganizationName = ''Acme'', AC_OrganizationSlug = ''acme'', AC_StoreCode = [], AC_StoreName = [],
     AC_Roles = [''auditor''], AC_Scopes = [''roles.read''], AC_OrganizationVersion = 1, AC_MembershipVersion = 1\<rparr>"

definition acme_bia_login :: auth_state where
  "acme_bia_login = \<lparr>State_UserID = 8, State_Email = ''bia@acme'', State_DisplayName = ''bia'', State_EmailVerified = False,
     State_PasswordVersion = 1, State_SessionID = 40, State_ClientID = ''pdv-web'', State_DeviceName = [],
     State_SessionStatus = SesACTIVE, State_CreatedAt = 10, State_IdleExpiresAt = 110, State_AbsoluteExpires = 1010,
     State_Context = acme_bia_context\<rparr>"

lemma acme_bia_rows:
  "GetMembershipContextForUser 1 8 acme_bia = (Inr (acme_membership 11 8, acme_organization) :: auth_error + _)"
  "ResolveEffectiveScopes example_env 100 CtxORGANIZATION None 1 11 8 acme_bia = (Inr ([''auditor''], [''roles.read'']) :: auth_error + _)"
  "GetAuthSessionView 40 acme_bia = (Inr (acme_session, acme_user 8 ''bia'') :: auth_error + _)"
  "uniqueSorted [''auditor''] = [''auditor'']" "uniqueSorted [''roles.read''] = [''roles.read'']"
  by code_simp+

lemma acme_bia_resolved: "resolveContext example_env 100 8 (Some 1) None acme_bia = Inr acme_bia_context"
  by (simp add: resolveContext_def requested_store_def acme_bia_rows Let_def acme_rows acme_bia_context_def)

lemma acme_bia_loaded: "loadState example_env 100 100 40 acme_bia = Inr acme_bia_login"
  by (simp add: loadState_def acme_bia_rows Let_def acme_session_def acme_user_def acme_bia_resolved acme_bia_login_def)

lemma acme_signed_claims: "signed_claims acme_tokens 100 (issued_claims acme_bia_login acme_jti 10) = acme_claims"
  by (simp add: signed_claims_def issued_claims_def Let_def acme_bia_login_def acme_bia_context_def acme_tokens_def acme_claims_def
      optional_uuid_text_def acme_bia_rows unix_seconds_def)

lemma acme_sign: "Sign acme_tokens 100 (issued_claims acme_bia_login acme_jti 10) = Inr ''bia.signed''"
proof -
  have s: "lib_Sign (ts_lib acme_tokens) (PrivateKey (ts_keyring acme_tokens))
      \<lparr>Head_alg = ''EdDSA'', Head_kid = Some (ActiveKID (ts_keyring acme_tokens)), Head_typ = Some ''at+jwt''\<rparr> acme_claims =
    Some ''bia.signed''"
    by (simp add: acme_tokens_def acme_jwt_def acme_header_def acme_keyring_def)
  have "length ''bia.signed'' \<le> MaxTokenSize" by (simp add: MaxTokenSize_def)
  then show ?thesis
    unfolding Sign_def acme_signed_claims s
    by (simp add: issued_claims_def Let_def acme_bia_login_def acme_bia_context_def optional_uuid_text_def ContextKind_Valid_def
        MaxRoles_def MaxScopeItems_def)
qed

definition acme_response :: issued_response where
  "acme_response = mapAuthResponse acme_bia_login ''bia.signed'' 900"

lemma acme_issued: "issue acme_tokens (Some 0) 100 900000000 acme_bia_login 10 = Inr acme_response"
  using acme_sign by (simp add: issue_def acme_jti_def acme_response_def)

definition acme_bia_principal :: principal where
  "acme_bia_principal = \<lparr>Pr_UserID = Some 8, Pr_SessionID = Some 40, Pr_ClientID = ''pdv-web'', Pr_ContextKind = ''organization'',
     Pr_OrganizationID = Some 1, Pr_MembershipID = Some 11, Pr_StoreID = None, Pr_RoleKeys = [''auditor''],
     Pr_Scopes = [''roles.read''], Pr_OrgAuthzVersion = Some 1, Pr_MemberAuthzVersion = Some 1, Pr_PasswordVersion = 1,
     Pr_AuthTime = 0, Pr_TokenID = Some acme_jti\<rparr>"

definition acme_bia_state :: session_state_row where
  "acme_bia_state = \<lparr>SSR_Session = acme_session, SSR_UserStatus = UserACTIVE, SSR_PasswordVersion = 1,
     SSR_OrganizationStatus = Some OrgACTIVE, SSR_OrganizationAuthorizationVersion = Some 1,
     SSR_MembershipStatus = Some MemACTIVE, SSR_MembershipAuthorizationVersion = Some 1, SSR_StoreStatus = None\<rparr>"

lemma acme_text_law: "text_law example_env"
  using example_uuid_roundtrip by (simp add: text_law_def example_env_def example_uuid_String_def)

lemma acme_request_claims:
  "request_claims example_env acme_tokens now (''Bearer '' @ ''bia.signed'') = Inr (acme_claims, 40, 8)"
proof -
  have b: "validateBearer (''Bearer '' @ ''bia.signed'') = Inr ''bia.signed''" by code_simp
  have k: "key_of acme_keyring acme_header = Inr [2]" by code_simp
  have c: "Claims_Validate acme_claims = Inr ()"
    by (simp add: Claims_Validate_def acme_claims_def ContextKind_Valid_def)
  have "Token_Validate acme_tokens now ''bia.signed'' = Inr acme_claims"
    using c k by (simp add: Token_Validate_def acme_tokens_def acme_jwt_def MaxTokenSize_def acme_header_def)
  moreover have "CHR '','' \<notin> set (''Bearer '' @ ''bia.signed'')" by simp
  ultimately show ?thesis
    using parse_uuidStr [OF acme_text_law] by (simp only: request_claims_def b) (simp add: acme_claims_def)
qed

lemma acme_bia_states: "getSessionState 40 acme_bia = Inr acme_bia_state" "getSessionState 40 acme_bia_until = Inr acme_bia_state"
  by code_simp+

lemma acme_principal: "buildPrincipal example_env acme_claims = acme_bia_principal"
proof -
  have "scope_parts ''roles.read'' = [''roles.read'']" by code_simp
  then show ?thesis
    using parse_uuidStr [OF acme_text_law]
    by (simp add: buildPrincipal_def Let_def acme_claims_def acme_bia_principal_def parsed_or_invalid_def)
qed

lemma acme_session_checks: "now < 110 \<Longrightarrow> session_checks acme_claims 8 acme_bia_state now = Inr ()"
  by (simp add: session_checks_def Let_def acme_claims_def acme_bia_state_def acme_session_def validateSessionStatus_def
      validateUserStatus_def validateOrgStatus_def validateMembershipStatus_def validateStoreStatus_def validateContext_def
      validateVersions_def optional_uuid_text_def)

lemma acme_request:
  assumes "getSessionState 40 d = Inr acme_bia_state" "now < 110"
  shows "RequireAccessToken example_env acme_tokens 0 CacheFailed now (''Bearer '' @ ''bia.signed'') d =
     (Inr (acme_bia_principal, acme_bia_state), [])"
  unfolding RequireAccessToken_def acme_request_claims
  using assms by (simp add: session_load_def cache_get_def acme_session_checks acme_principal)

lemma acme_token: "IR_AccessToken acme_response = ''bia.signed''"
  by (simp add: acme_response_def mapAuthResponse_def Let_def)

lemma acme_token_laws: "jwt_law (ts_lib acme_tokens)" "access_wf acme_bia" "organizations.unique acme_bia" "token_texts acme_tokens acme_bia"
  subgoal by (auto simp: jwt_law_def acme_tokens_def acme_jwt_def split: sum.splits if_splits)
  subgoal by (simp add: access_wf_def roles.unique_def bindings.unique_def memberships.unique_def owners_permanent_def
      bindings_refer_def role_of_def acme_bia_def acme_given_def acme_def acme_rows)
  subgoal by (simp add: organizations.unique_def acme_bia_def acme_def)
  subgoal by code_simp
  done

section \<open>Scopes\<close>

text \<open>The scopes of an accepted token, with the bindings judged at the time of issue.\<close>

lemma accepted_scopes:
  assumes "loadState E t0 now0 sid d = Inr st" "issue V entropy signed_at ttl st authTime = Inr response"
    and "rtranclp (world_step E) d d'"
    and "fst (RequireAccessToken E V cacheTTL r now (''Bearer '' @ IR_AccessToken response) d') = Inr (p, state)"
    and "access_wf d" "organizations.unique d" "token_texts V d" "jwt_law (ts_lib V)" "text_law E"
  shows "set (Pr_Scopes p) = principal_codes E t0 p d'"
proof -
  let ?c = "State_Context st"
  from issue_InrD [OF assms(2)] obtain jti where
    sg: "Sign V signed_at (issued_claims st jti authTime) = Inr (IR_AccessToken response)" by blast
  define c where "c = signed_claims V signed_at (issued_claims st jti authTime)"
  note ascii = issued_ascii [OF assms(1,7)]
  from assms(4) obtain user where v: "Token_Validate V now (IR_AccessToken response) = Inr c"
    and user: "jwt_parseUUID E (Claim_Subject c) = Inr (Some user)"
    and chk: "session_checks c user state now = Inr ()" and p: "p = buildPrincipal E c"
    and ses: "\<exists>s u. state = session_state_of d' s u"
  proof (rule RequireAccessToken_InrD)
    fix token c' sid' user'
    assume a: "validateBearer (''Bearer '' @ IR_AccessToken response) = Inr token" "Token_Validate V now token = Inr c'"
      "jwt_parseUUID E (Claim_Subject c') = Inr (Some user')" "getSessionState sid' d' = Inr state"
      "session_checks c' user' state now = Inr ()" "p = buildPrincipal E c'"
    have t: "token = IR_AccessToken response" by (rule validateBearer_token [OF a(1)])
    have "c' = c" using Token_Validate_signed [OF sg a(2) [unfolded t] assms(8) ascii(1)] by (simp add: c_def)
    with a t that getSessionState_InrD [OF a(4)] show thesis by blast
  qed
  from loadState_InrD(1) [OF assms(1)] have true: "context_true E t0 (State_UserID st) ?c d" .
  note pr = issued_principal [OF assms(9) true ascii(2) refl, of p V signed_at jti authTime, folded c_def, OF p]
  show ?thesis
  proof (cases "AC_Kind ?c = CtxIDENTITY")
    case True
    with true have "?c = identity_context" by (auto simp: context_true_def split: if_splits)
    with pr show ?thesis by (simp add: principal_codes_def identity_context_def)
  next
    case False
    with true obtain m g where mg: "m \<in> set (au_memberships d)" "g \<in> set (au_organizations d)"
      "Mem_OrganizationID m = Org_ID g" "Mem_UserID m = State_UserID st" "AC_OrganizationID ?c = Some (Org_ID g)"
      "AC_MembershipID ?c = Some (Mem_ID m)" "AC_OrganizationVersion ?c = Org_AuthorizationVersion g"
      "AC_MembershipVersion ?c = Mem_AuthorizationVersion m"
      and kind: "AC_Kind ?c = (if AC_StoreID ?c = None then CtxORGANIZATION else CtxSTORE)"
      and codes: "set (AC_Scopes ?c) = effective_codes E t0 (AC_Kind ?c) (AC_StoreID ?c) (Org_ID g) (Mem_ID m) (State_UserID st) d"
      by (auto simp: context_true_def)
    have mem: "membership_of (Org_ID g) (Mem_ID m) d = Some m"
      using membership_of_unique [of d m] mg(1,3) assms(5) by (simp add: access_wf_def)
    have org: "organization_of (Org_ID g) d = Some g" by (rule organization_of_unique [OF assms(6) mg(2)])
    note tenant = issued_tenant_claims [OF False c_def]
    have u: "user = State_UserID st" using user parse_uuidStr [OF assms(9)] by (simp add: tenant)
    from world_steps_codes [OF assms(3)] have later: "versions_later d d'" by blast
    from ses obtain s w where w: "state = session_state_of d' s w" by blast
    have "same_versions (Org_ID g) (Mem_ID m) d d'"
      by (rule accepted_same_versions [OF later w chk tenant(1) False _ _ org mem])
        (simp_all add: u tenant mg optional_uuid_text_def)
    with world_steps_codes [OF assms(3)] pr mg codes show ?thesis
      by (simp add: principal_codes_def kind split: if_splits)
  qed
qed

text \<open>Bindings may have an end. One that is reached raises no version.\<close>

definition expired_between :: "time \<Rightarrow> time \<Rightarrow> role_binding \<Rightarrow> bool" where
  "expired_between t0 t b \<longleftrightarrow> unexpired t0 (Bind_ExpiresAt b) \<and> \<not> unexpired t (Bind_ExpiresAt b)"

lemma unexpired_earlier: "t0 \<le> t \<Longrightarrow> unexpired t x \<Longrightarrow> unexpired t0 x"
  by (auto simp: unexpired_def split: option.splits)

lemma principal_codes_shrink:
  assumes "t0 \<le> t"
  shows "principal_codes E t p d \<subseteq> principal_codes E t0 p d"
  using unexpired_earlier [OF assms]
  by (auto simp: principal_codes_def effective_codes_iff split: option.splits if_splits) (auto simp: grants_code_def)

lemma principal_codes_unexpired:
  assumes "t0 \<le> t" "\<forall>b \<in> set (au_bindings d). Some (Bind_MembershipID b) = Pr_MembershipID p \<longrightarrow> \<not> expired_between t0 t b"
  shows "principal_codes E t p d = principal_codes E t0 p d"
proof
  show "principal_codes E t p d \<subseteq> principal_codes E t0 p d" by (rule principal_codes_shrink [OF assms(1)])
  have "grants_code t kind s q i c d" if "grants_code t0 kind s q i c d" "Pr_MembershipID p = Some i" for kind s q i c
    using assms(2) that unfolding grants_code_def expired_between_def by metis
  then show "principal_codes E t0 p d \<subseteq> principal_codes E t p d"
    by (auto simp: principal_codes_def effective_codes_iff split: option.splits)
qed

text \<open>C12: When an access token is issued at \<open>t0\<close> for the state of a session and the services then change roles,
  bindings, memberships and sessions in any order, a request with that token that is still accepted
  at a later time \<open>t\<close> carries every scope that its member holds in the database at that moment, and
  no other scope, save what a binding granted that was valid at \<open>t0\<close> and reached its end by \<open>t\<close>: a
  token whose scopes any change has made out of date is refused, only the passing of a binding's
  own end goes unnoticed.\<close>

theorem token_scopes_current:
  assumes "loadState E t0 now0 sid d = Inr st" "issue V entropy signed_at ttl st authTime = Inr response"
    and "rtranclp (world_step E) d d'"
    and "fst (RequireAccessToken E V cacheTTL r t (''Bearer '' @ IR_AccessToken response) d') = Inr (p, state)"
    and "access_wf d" "organizations.unique d" "token_texts V d" "jwt_law (ts_lib V)" "text_law E" "t0 \<le> t"
  shows "principal_codes E t p d' \<subseteq> set (Pr_Scopes p) \<and> set (Pr_Scopes p) = principal_codes E t0 p d' \<and>
    ((\<forall>b \<in> set (au_bindings d'). Some (Bind_MembershipID b) = Pr_MembershipID p \<longrightarrow> \<not> expired_between t0 t b) \<longrightarrow>
       set (Pr_Scopes p) = principal_codes E t p d')"
proof -
  have "set (Pr_Scopes p) = principal_codes E t0 p d'"
    by (rule accepted_scopes [OF assms(1-9)])
  then show ?thesis using principal_codes_shrink [OF assms(10)] principal_codes_unexpired [OF assms(10)] by metis
qed

theorem token_scopes_current_witness:
  "fst (RequireAccessToken example_env acme_tokens 0 CacheFailed 108 (''Bearer '' @ IR_AccessToken acme_response) acme_bia) =
     Inr (acme_bia_principal, acme_bia_state) \<and>
   set (Pr_Scopes acme_bia_principal) = principal_codes example_env 108 acme_bia_principal acme_bia \<and>
   ''roles.read'' \<in> principal_codes example_env 108 acme_bia_principal acme_bia"
proof -
  have r: "fst (RequireAccessToken example_env acme_tokens 0 CacheFailed 108 (''Bearer '' @ IR_AccessToken acme_response) acme_bia) =
     Inr (acme_bia_principal, acme_bia_state)"
    by (simp only: acme_token acme_request [OF acme_bia_states(1)] fst_conv)
  have "(100::time) \<le> 108" by simp
  note current = token_scopes_current [OF acme_bia_loaded acme_issued rtranclp.rtrancl_refl r acme_token_laws(2-4,1) acme_text_law this]
  have "\<forall>b \<in> set (au_bindings acme_bia). Some (Bind_MembershipID b) = Pr_MembershipID acme_bia_principal \<longrightarrow>
      \<not> expired_between 100 108 b"
    by (simp add: expired_between_def unexpired_def acme_bia_def acme_given_def acme_binding_def)
  with current have "set (Pr_Scopes acme_bia_principal) = principal_codes example_env 108 acme_bia_principal acme_bia" by blast
  moreover have "''roles.read'' \<in> set (Pr_Scopes acme_bia_principal)" by (simp add: acme_bia_principal_def)
  ultimately show ?thesis using r by blast
qed

text \<open>
  The exception is real: Bia's binding ends at 105, no row changes, and at 108 her token is still
  accepted with the scope that she no longer holds.
\<close>

lemma expired_binding_still_granted:
  "loadState example_env 100 100 40 acme_bia_until = Inr acme_bia_login"
  "issue acme_tokens (Some 0) 100 900000000 acme_bia_login 10 = Inr acme_response"
  "fst (RequireAccessToken example_env acme_tokens 0 CacheFailed 108 (''Bearer '' @ IR_AccessToken acme_response) acme_bia_until) =
     Inr (acme_bia_principal, acme_bia_state)"
  "''roles.read'' \<in> set (Pr_Scopes acme_bia_principal)"
  "principal_codes example_env 108 acme_bia_principal acme_bia_until = {}"
proof -
  have rows: "GetMembershipContextForUser 1 8 acme_bia_until = (Inr (acme_membership 11 8, acme_organization) :: auth_error + _)"
    "ResolveEffectiveScopes example_env 100 CtxORGANIZATION None 1 11 8 acme_bia_until = (Inr ([''auditor''], [''roles.read'']) :: auth_error + _)"
    "GetAuthSessionView 40 acme_bia_until = (Inr (acme_session, acme_user 8 ''bia'') :: auth_error + _)"
    by code_simp+
  have "resolveContext example_env 100 8 (Some 1) None acme_bia_until = Inr acme_bia_context"
    by (simp add: resolveContext_def requested_store_def rows acme_bia_rows(4,5) Let_def acme_rows acme_bia_context_def)
  then show "loadState example_env 100 100 40 acme_bia_until = Inr acme_bia_login"
    by (simp add: loadState_def rows Let_def acme_session_def acme_user_def acme_bia_login_def)
  show "issue acme_tokens (Some 0) 100 900000000 acme_bia_login 10 = Inr acme_response" by (rule acme_issued)
  show "fst (RequireAccessToken example_env acme_tokens 0 CacheFailed 108 (''Bearer '' @ IR_AccessToken acme_response) acme_bia_until) =
     Inr (acme_bia_principal, acme_bia_state)"
    by (simp only: acme_token acme_request [OF acme_bia_states(2)] fst_conv)
  show "''roles.read'' \<in> set (Pr_Scopes acme_bia_principal)" by (simp add: acme_bia_principal_def)
  have "\<not> grants_code 108 CtxORGANIZATION None 1 11 c acme_bia_until" for c
    by (simp add: grants_code_def acme_bia_until_def acme_given_def acme_binding_def unexpired_def)
  then show "principal_codes example_env 108 acme_bia_principal acme_bia_until = {}"
    by (auto simp: principal_codes_def acme_bia_principal_def effective_codes_iff)
qed

section \<open>Who is let in\<close>

text \<open>C14: The answer to a request does not depend on the cache: whatever the cache returns for the
  session (a hit, however old, a miss, garbage, or an error) and whatever life time is configured,
  the same requests are refused with the same response and the others get the same principal.\<close>

theorem cache_irrelevant:
  "fst (RequireAccessToken E V ttl r now h d) = fst (RequireAccessToken E V ttl' r' now h d)"
  by (simp only: RequireAccessToken_fst)

text \<open>C13: Once a request has suspended or removed a member, every request with a token of one of the
  member's sessions in that organization is refused with status 401 against the database that it left,
  at any time and whatever the cache still says.\<close>

theorem leaver_locked_out:
  assumes "UpdateStatus F S T now0 actor rawID status d = (res, d', evs)" "d' \<noteq> d"
    and "requiredStatus F status = Inr st" "st \<noteq> MemACTIVE" "members_parseUUID F ''membershipId'' rawID = Inr i"
    and "MA_OrganizationID actor = Some orgID" "sessions_constrained d"
    and "request_claims E V now h = Inr (c, sid, user)"
    and "GetAuthSessionByID sid d' = (Inr s :: unit go_error + _)" "Ses_OrganizationID s = Some orgID" "Ses_MembershipID s = Some i"
  shows "\<exists>code message. fst (RequireAccessToken E V ttl r now h d') = Inl (401, code, message) \<and>
    code \<in> {''SESSION_REVOKED'', ''SESSION_EXPIRED''}"
proof -
  from assms(9) have f: "List.find (\<lambda>s. Ses_ID s = sid) (au_sessions d') = Some s"
    by (simp add: GetAuthSessionByID_def one_row_eq_Inr)
  then have "s \<in> set (au_sessions d')" by (simp add: find_SomeD)
  with UpdateStatus_ends [OF assms(1-7)] assms(10,11) have ended: "Ses_Status s \<noteq> SesACTIVE" by metis
  show ?thesis
  proof (cases "List.find (\<lambda>u. User_ID u = Ses_UserID s) (au_users d')")
    case None
    have "getSessionState sid d' = Inl (Joined (Sentinel Authn_ErrSessionRevoked) (OtherError ''session not found''))"
      by (simp add: getSessionState_def GetAuthSessionState_def f None)
    then show ?thesis
      by (simp add: RequireAccessToken_fst assms(8) answer_error_def Authn_mapErr_def)
  next
    case (Some u)
    have "getSessionState sid d' = Inr (session_state_of d' s u)"
      by (simp add: getSessionState_def GetAuthSessionState_def f Some)
    moreover have "\<exists>code message. session_checks c user (session_state_of d' s u) now = Inl (401, code, message) \<and>
        code \<in> {''SESSION_REVOKED'', ''SESSION_EXPIRED''}"
      using ended by (cases "Ses_Status s") (auto simp: session_checks_def session_state_of_def Let_def validateSessionStatus_def
          Authn_mapErr_def guard_error_def)
    ultimately show ?thesis
      by (auto simp: RequireAccessToken_fst assms(8))
  qed
qed

theorem leaver_locked_out_witness:
  "\<exists>code message. fst (RequireAccessToken example_env acme_tokens 0 CacheFailed 100 (''Bearer '' @ ''bia.signed'') acme_left) =
     Inl (401, code, message) \<and> code \<in> {''SESSION_REVOKED'', ''SESSION_EXPIRED''}"
proof -
  have "GetAuthSessionByID 40 acme_left = (Inr acme_ended :: unit go_error + _)" "Ses_OrganizationID acme_ended = Some 1"
    "Ses_MembershipID acme_ended = Some 11"
    by (simp_all add: GetAuthSessionByID_def acme_left_def acme_left_base_def acme_ended_def acme_session_def)
  then show ?thesis
    using leaver_locked_out [OF acme_left_step acme_left_ne acme_left_inputs(1) _ acme_left_inputs(2,3) acme_sessions_constrained
        acme_request_claims, of acme_ended 0 CacheFailed] by simp
qed

text \<open>C15: Logging in without naming a context always finds one: either the identity context, or a context
  of an organization that is valid in the database, with exactly the scopes the member holds there.\<close>

theorem login_context_total:
  "\<exists>c. resolveLoginContext E now user clientID None None d = Inr c \<and> context_true E now user c d"
proof -
  have first: "context_true E now user c d"
    if "first_context rs = Some c" "\<forall>r \<in> set rs. \<exists>q s. r = resolveContext E now user q s d" for rs c
    using that by (induction rs rule: first_context.induct) (auto dest: resolveContext_true [OF sym])
  define rs where "rs = (case GetLastActiveSessionContextForClient now user clientID d :: auth_error + _ of
      Inl _ \<Rightarrow> [] | Inr s \<Rightarrow> [resolveContext E now user (Ses_OrganizationID s) (Ses_StoreID s) d]) @ membership_candidates E now user d"
  have all: "\<forall>r \<in> set rs. \<exists>q s. r = resolveContext E now user q s d"
    by (auto simp: rs_def membership_candidates_def split: sum.splits if_splits)
  have res: "resolveLoginContext E now user clientID None None d =
      (case first_context rs of Some c \<Rightarrow> Inr c | None \<Rightarrow> resolveContext E now user None None d)"
    by (simp add: resolveLoginContext_def parseOptionalUUID_def rs_def Let_def)
  show ?thesis
  proof (cases "first_context rs")
    case None
    then show ?thesis by (simp add: res resolveContext_def context_true_identity)
  next
    case (Some c)
    with first [OF Some all] show ?thesis by (simp add: res)
  qed
qed

section \<open>Touching a session\<close>

text \<open>
  The touch that follows a request writes the idle deadline that the request read: a deadline that
  a refresh extended in between is set back, here from 500 to 110.
\<close>

definition acme_refreshed :: auth_db where
  "acme_refreshed = acme\<lparr>au_sessions := [acme_session\<lparr>Ses_IdleExpiresAt := 500, Ses_LastSeenAt := 100\<rparr>]\<rparr>"

lemma touch_undoes_refresh:
  "map Ses_IdleExpiresAt (au_sessions acme_refreshed) = [500]"
  "map Ses_IdleExpiresAt (au_sessions (fst (tryTouch True 105 acme_bia_state acme_refreshed))) = [110]"
  subgoal by (simp add: acme_refreshed_def)
  subgoal
  proof -
    let ?f = "write_session 105 (\<lambda>s. s\<lparr>Ses_LastSeenAt := 105, Ses_IdleExpiresAt := min 110 (Ses_AbsoluteExpiresAt s)\<rparr>)"
    have "?f (acme_session\<lparr>Ses_IdleExpiresAt := 500, Ses_LastSeenAt := 100\<rparr>) =
        (Inr (acme_session\<lparr>Ses_IdleExpiresAt := 110, Ses_LastSeenAt := 105, Ses_UpdatedAt := 105\<rparr>) :: authn_error + _)"
      by (simp add: write_session_def auth_session_checks_def check_row_def acme_session_def Let_def btrim_blank_def)
    then show ?thesis
      by (simp add: tryTouch_def touchSession_def TouchSession_def acme_bia_state_def acme_refreshed_def zero_time_def
          acme_session_def Let_def)
  qed
  done

end
