(* ===== verification/Store_Queries.thy ===== *)
theory Store_Queries
  imports Memberships Payment_Queries
begin

text \<open>
  The statements of \<open>stores.sql.go\<close> and \<open>payment_methods.sql.go\<close> that the administration of
  stores and payment methods runs. It works on both halves of the database, the tables of
  identity and access and the tables of trade.
\<close>

record shop_db =
  sh_auth :: auth_db
  sh_trade :: db

abbreviation shop_stores :: "shop_db \<Rightarrow> store list" where
  "shop_stores d \<equiv> au_stores (sh_auth d)"

abbreviation shop_methods :: "shop_db \<Rightarrow> payment_method list" where
  "shop_methods d \<equiv> db_payment_methods (sh_trade d)"

abbreviation shop_bindings :: "shop_db \<Rightarrow> store_payment_method list" where
  "shop_bindings d \<equiv> db_store_payment_methods (sh_trade d)"

definition set_stores :: "store list \<Rightarrow> shop_db \<Rightarrow> shop_db" where
  "set_stores rs d = d\<lparr>sh_auth := (sh_auth d)\<lparr>au_stores := rs\<rparr>\<rparr>"

definition set_methods :: "payment_method list \<Rightarrow> shop_db \<Rightarrow> shop_db" where
  "set_methods rs d = d\<lparr>sh_trade := (sh_trade d)\<lparr>db_payment_methods := rs\<rparr>\<rparr>"

definition set_bindings :: "store_payment_method list \<Rightarrow> shop_db \<Rightarrow> shop_db" where
  "set_bindings rs d = d\<lparr>sh_trade := (sh_trade d)\<lparr>db_store_payment_methods := rs\<rparr>\<rparr>"

definition binding_key :: "store_payment_method \<Rightarrow> uuid \<times> uuid \<times> uuid" where
  "binding_key b = (Binding_OrganizationID b, Binding_StoreID b, Binding_PaymentMethodID b)"

interpretation shops: row_table shop_stores set_stores Store_ID
  by unfold_locales (simp add: set_stores_def)

interpretation methods: row_table shop_methods set_methods Method_ID
  by unfold_locales (simp add: set_methods_def)

interpretation store_methods: row_table shop_bindings set_bindings binding_key
  by unfold_locales (simp add: set_bindings_def)

lemma set_rows_simps [simp]:
  "sh_auth (set_methods rs d) = sh_auth d" "sh_auth (set_bindings bs d) = sh_auth d" "sh_trade (set_stores ss d) = sh_trade d"
  "shop_bindings (set_methods rs d) = shop_bindings d" "shop_methods (set_bindings bs d) = shop_methods d"
  "db_sales (sh_trade (set_methods rs d)) = db_sales (sh_trade d)" "db_sales (sh_trade (set_bindings bs d)) = db_sales (sh_trade d)"
  "shop_stores (set_stores ss d) = ss" "shop_methods (set_methods rs d) = rs" "shop_bindings (set_bindings bs d) = bs"
  "au_sessions (sh_auth (set_stores ss d)) = au_sessions (sh_auth d)"
  "au_organizations (sh_auth (set_stores ss d)) = au_organizations (sh_auth d)"
  by (simp_all add: set_methods_def set_bindings_def set_stores_def)

section \<open>Payment methods of an organization\<close>

text \<open>The column \<open>fee_percentage NUMERIC(7, 4)\<close>, in ten-thousandths.\<close>

definition pg_fee :: "numeric \<Rightarrow> 's go_error + int" where
  "pg_fee n = chain (pg_numeric_not_null 4 n) (\<lambda>v. if \<bar>v\<bar> < 10 ^ 7 then Inr v else Inl (PgError ''22003'' []))"

definition payment_method_checks :: "payment_method \<Rightarrow> (string \<times> bool) list" where
  "payment_method_checks m =
     [(''payment_methods_change_only_cash'', \<not> Method_AllowsChange m \<or> Method_Kind m = PMCASH),
      (''payment_methods_code_not_blank'', \<not> btrim_blank (Method_Code m)),
      (''payment_methods_external_reference_provider_consistency'', \<not> Method_RequiresExternalReference m \<or>
         (case Method_Provider m of None \<Rightarrow> False | Some p \<Rightarrow> \<not> btrim_blank p)),
      (''payment_methods_fee_non_negative'', Method_FeePercentage m \<ge> 0),
      (''payment_methods_installments_consistency'',
         (Method_AllowsInstallments m \<and> Method_Kind m = PMCREDIT_CARD \<and> Method_MaxInstallments m > 1) \<or>
         (\<not> Method_AllowsInstallments m \<and> Method_MaxInstallments m = 1)),
      (''payment_methods_max_installments_positive'', Method_MaxInstallments m \<ge> 1),
      (''payment_methods_name_not_blank'', \<not> btrim_blank (Method_Name m)),
      (''payment_methods_settlement_days_non_negative'', Method_SettlementDays m \<ge> 0),
      (''payment_methods_sort_order_non_negative'', Method_SortOrder m \<ge> 0),
      (''payment_methods_updated_at_check'', Method_UpdatedAt m \<ge> Method_CreatedAt m)]"

text \<open>The columns of \<open>CreatePaymentMethodForOrganizationParams\<close> but the organization, as the update has them too.\<close>

record method_params =
  MP_Code :: string
  MP_Name :: string
  MP_Kind :: payment_method_kind
  MP_Provider :: "string option"
  MP_AllowsChange :: bool
  MP_RequiresExternalReference :: bool
  MP_AllowsInstallments :: bool
  MP_MaxInstallments :: int
  MP_FeePercentage :: numeric
  MP_SettlementDays :: int
  MP_IsActive :: bool
  MP_SortOrder :: int

definition method_columns :: "method_params \<Rightarrow> 's go_error + int" where
  "method_columns P =
     chain (pg_varchar 50 (MP_Code P)) (\<lambda>_.
     chain (pg_varchar 100 (MP_Name P)) (\<lambda>_.
     chain (pg_varchar_null 100 (MP_Provider P)) (\<lambda>_.
     pg_fee (MP_FeePercentage P))))"

definition code_free :: "payment_method \<Rightarrow> shop_db \<Rightarrow> 's go_error + unit" where
  "code_free m d =
     guard_error (\<not> list_ex (\<lambda>q. Method_OrganizationID q = Method_OrganizationID m \<and> Method_Code q = Method_Code m \<and>
         Method_ID q \<noteq> Method_ID m) (shop_methods d))
       (PgError ''23505'' ''payment_methods_organization_id_code_unique'')"

definition new_method :: "time \<Rightarrow> uuid \<Rightarrow> uuid \<Rightarrow> int \<Rightarrow> method_params \<Rightarrow> payment_method" where
  "new_method now i orgID fee P =
     \<lparr>Method_ID = i, Method_OrganizationID = orgID, Method_Code = MP_Code P, Method_Name = MP_Name P,
      Method_Kind = MP_Kind P, Method_Provider = MP_Provider P, Method_AllowsChange = MP_AllowsChange P,
      Method_RequiresExternalReference = MP_RequiresExternalReference P, Method_AllowsInstallments = MP_AllowsInstallments P,
      Method_MaxInstallments = MP_MaxInstallments P, Method_FeePercentage = fee, Method_SettlementDays = MP_SettlementDays P,
      Method_IsActive = MP_IsActive P, Method_SortOrder = MP_SortOrder P, Method_CreatedAt = now, Method_UpdatedAt = now\<rparr>"

definition CreatePaymentMethodForOrganization ::
    "env \<Rightarrow> time \<Rightarrow> uuid \<Rightarrow> method_params \<Rightarrow> shop_db \<Rightarrow> 's go_error + payment_method \<times> shop_db" where
  "CreatePaymentMethodForOrganization E now orgID P d =
     chain (method_columns P) (\<lambda>fee.
     let m = new_method now (uuidv7 E (db_uuid_calls (sh_trade d))) orgID fee P in
     chain (check_row (payment_method_checks m)) (\<lambda>_.
     chain (guard_error (List.find (\<lambda>q. Method_ID q = Method_ID m) (shop_methods d) = None)
             (PgError ''23505'' ''payment_methods_pkey'')) (\<lambda>_.
     chain (code_free m d) (\<lambda>_.
     chain (guard_error (list_ex (\<lambda>g. Org_ID g = orgID) (au_organizations (sh_auth d)))
             (PgError ''23503'' ''payment_methods_organization_id_fkey'')) (\<lambda>_.
     Inr (m, d\<lparr>sh_trade := (sh_trade d)\<lparr>db_payment_methods := shop_methods d @ [m],
       db_uuid_calls := Suc (db_uuid_calls (sh_trade d))\<rparr>\<rparr>))))))"

text \<open>An \<open>UPDATE payment_methods\<close>: \<open>updated_at\<close>, the constraints and the unique code.\<close>

definition write_method :: "time \<Rightarrow> shop_db \<Rightarrow> (payment_method \<Rightarrow> payment_method) \<Rightarrow> payment_method \<Rightarrow> 's go_error + payment_method" where
  "write_method now d f m =
     (let m' = (f m)\<lparr>Method_UpdatedAt := now\<rparr> in
      chain (check_row (payment_method_checks m')) (\<lambda>_.
      chain (code_free m' d) (\<lambda>_. Inr m')))"

definition update_method ::
    "time \<Rightarrow> (payment_method \<Rightarrow> payment_method) \<Rightarrow> uuid \<Rightarrow> uuid \<Rightarrow> shop_db \<Rightarrow> 's go_error + payment_method \<times> shop_db" where
  "update_method now f orgID i d =
     chain (update_row (\<lambda>m. Method_OrganizationID m = orgID \<and> Method_ID m = i) (write_method now d f) (shop_methods d)) (\<lambda>(m, rows).
     Inr (m, set_methods rows d))"

definition UpdatePaymentMethodForOrganization ::
    "time \<Rightarrow> method_params \<Rightarrow> uuid \<Rightarrow> uuid \<Rightarrow> shop_db \<Rightarrow> 's go_error + payment_method \<times> shop_db" where
  "UpdatePaymentMethodForOrganization now P orgID i d =
     chain (method_columns P) (\<lambda>fee.
     update_method now (\<lambda>m. m\<lparr>Method_Code := MP_Code P, Method_Name := MP_Name P, Method_Kind := MP_Kind P,
       Method_Provider := MP_Provider P, Method_AllowsChange := MP_AllowsChange P,
       Method_RequiresExternalReference := MP_RequiresExternalReference P,
       Method_AllowsInstallments := MP_AllowsInstallments P, Method_MaxInstallments := MP_MaxInstallments P,
       Method_FeePercentage := fee, Method_SettlementDays := MP_SettlementDays P, Method_SortOrder := MP_SortOrder P\<rparr>)
       orgID i d)"

definition ActivatePaymentMethodForOrganization ::
    "time \<Rightarrow> uuid \<Rightarrow> uuid \<Rightarrow> shop_db \<Rightarrow> 's go_error + payment_method \<times> shop_db" where
  "ActivatePaymentMethodForOrganization now = update_method now (\<lambda>m. m\<lparr>Method_IsActive := True\<rparr>)"

definition DeactivatePaymentMethodForOrganization ::
    "time \<Rightarrow> uuid \<Rightarrow> uuid \<Rightarrow> shop_db \<Rightarrow> 's go_error + payment_method \<times> shop_db" where
  "DeactivatePaymentMethodForOrganization now = update_method now (\<lambda>m. m\<lparr>Method_IsActive := False\<rparr>)"

definition CountActivePaymentMethodsForOrganization :: "uuid \<Rightarrow> shop_db \<Rightarrow> int" where
  "CountActivePaymentMethodsForOrganization orgID d =
     int (length (filter (\<lambda>m. Method_OrganizationID m = orgID \<and> Method_IsActive m) (shop_methods d)))"

definition ListPaymentMethodsForOrganization :: "env \<Rightarrow> uuid \<Rightarrow> shop_db \<Rightarrow> payment_method list" where
  "ListPaymentMethodsForOrganization E orgID d =
     sort_key (\<lambda>m. (Method_SortOrder m, collation_key E (Method_Name m), Method_ID m))
       (filter (\<lambda>m. Method_OrganizationID m = orgID) (shop_methods d))"

section \<open>Payment methods of a store\<close>

definition store_method_checks :: "store_payment_method \<Rightarrow> (string \<times> bool) list" where
  "store_method_checks b =
     [(''store_payment_methods_sort_order_non_negative'', Binding_SortOrder b \<ge> 0),
      (''store_payment_methods_updated_at_check'', Binding_UpdatedAt b \<ge> Binding_CreatedAt b)]"

definition store_method_references_ok :: "store_payment_method \<Rightarrow> shop_db \<Rightarrow> 's go_error + unit" where
  "store_method_references_ok b d =
     chain (guard_error (store_of (Binding_OrganizationID b) (Binding_StoreID b) (sh_auth d) \<noteq> None)
             (PgError ''23503'' ''store_payment_methods_store_fkey'')) (\<lambda>_.
     guard_error (list_ex (\<lambda>m. Method_OrganizationID m = Binding_OrganizationID b \<and> Method_ID m = Binding_PaymentMethodID b)
         (shop_methods d)) (PgError ''23503'' ''store_payment_methods_method_fkey''))"

text \<open>\<open>INSERT ... ON CONFLICT DO UPDATE\<close> of one row.\<close>

definition UpsertStorePaymentMethod ::
    "time \<Rightarrow> uuid \<Rightarrow> uuid \<Rightarrow> uuid \<Rightarrow> bool \<Rightarrow> int \<Rightarrow> shop_db \<Rightarrow> 's go_error + store_payment_method \<times> shop_db" where
  "UpsertStorePaymentMethod now orgID storeID methodID active sortOrder d =
     (let b = \<lparr>Binding_OrganizationID = orgID, Binding_StoreID = storeID, Binding_PaymentMethodID = methodID,
               Binding_IsActive = active, Binding_SortOrder = sortOrder, Binding_CreatedAt = now, Binding_UpdatedAt = now\<rparr> in
      chain (check_row (store_method_checks b)) (\<lambda>_.
      case List.find (\<lambda>q. binding_key q = binding_key b) (shop_bindings d) of
        None \<Rightarrow>
          chain (store_method_references_ok b d) (\<lambda>_. Inr (b, set_bindings (shop_bindings d @ [b]) d))
      | Some _ \<Rightarrow>
          chain (update_row (\<lambda>q. binding_key q = binding_key b)
              (\<lambda>q. let q' = q\<lparr>Binding_IsActive := active, Binding_SortOrder := sortOrder, Binding_UpdatedAt := now\<rparr> in
                   chain (check_row (store_method_checks q')) (\<lambda>_. Inr q')) (shop_bindings d)) (\<lambda>(q, rows).
          Inr (q, set_bindings rows d))))"

fun upsert_each :: "time \<Rightarrow> uuid \<Rightarrow> uuid \<Rightarrow> (uuid \<times> bool \<times> int) list \<Rightarrow> shop_db \<Rightarrow> 's go_error + shop_db" where
  "upsert_each now orgID storeID [] d = Inr d"
| "upsert_each now orgID storeID ((methodID, active, sortOrder) # ms) d =
     chain (UpsertStorePaymentMethod now orgID storeID methodID active sortOrder d) (\<lambda>(_, d').
     upsert_each now orgID storeID ms d')"

definition CopyActivePaymentMethodsToStore :: "time \<Rightarrow> uuid \<Rightarrow> uuid \<Rightarrow> shop_db \<Rightarrow> 's go_error + shop_db" where
  "CopyActivePaymentMethodsToStore now storeID orgID d =
     upsert_each now orgID storeID (map (\<lambda>m. (Method_ID m, True, Method_SortOrder m))
       (filter (\<lambda>m. Method_OrganizationID m = orgID \<and> Method_IsActive m) (shop_methods d))) d"

definition GetStorePaymentMethodForOrganization ::
    "uuid \<Rightarrow> uuid \<Rightarrow> uuid \<Rightarrow> shop_db \<Rightarrow> 's go_error + store_payment_method" where
  "GetStorePaymentMethodForOrganization orgID storeID methodID d =
     one_row (List.find (\<lambda>b. binding_key b = (orgID, storeID, methodID)) (shop_bindings d))"

definition CountOperationalPaymentMethodsForStore :: "uuid \<Rightarrow> uuid \<Rightarrow> shop_db \<Rightarrow> int" where
  "CountOperationalPaymentMethodsForStore orgID storeID d =
     int (length [(b, m). b \<leftarrow> shop_bindings d, m \<leftarrow> shop_methods d,
       Method_OrganizationID m = Binding_OrganizationID b \<and> Method_ID m = Binding_PaymentMethodID b \<and>
       Binding_OrganizationID b = orgID \<and> Binding_StoreID b = storeID \<and> Binding_IsActive b \<and> Method_IsActive m])"

type_synonym store_method_row = "store_payment_method \<times> payment_method"

definition ListStorePaymentMethods :: "env \<Rightarrow> uuid \<Rightarrow> uuid \<Rightarrow> shop_db \<Rightarrow> store_method_row list" where
  "ListStorePaymentMethods E orgID storeID d =
     sort_key (\<lambda>(b, m). (Binding_SortOrder b, collation_key E (Method_Name m), Method_ID m))
       [(b, m). b \<leftarrow> shop_bindings d, m \<leftarrow> shop_methods d,
         Method_OrganizationID m = Binding_OrganizationID b \<and> Method_ID m = Binding_PaymentMethodID b \<and>
         Binding_OrganizationID b = orgID \<and> Binding_StoreID b = storeID]"

section \<open>Stores\<close>

definition store_checks :: "store \<Rightarrow> (string \<times> bool) list" where
  "store_checks s =
     [(''stores_archived_at_check'', case Store_ArchivedAt s of None \<Rightarrow> True | Some t \<Rightarrow> t \<ge> Store_CreatedAt s),
      (''stores_archived_status_check'', (Store_Status s = StoreARCHIVED) = (Store_ArchivedAt s \<noteq> None)),
      (''stores_code_not_blank'', \<not> btrim_blank (Store_Code s)),
      (''stores_name_not_blank'', \<not> btrim_blank (Store_Name s)),
      (''stores_timezone_not_blank'', \<not> btrim_blank (Store_Timezone s)),
      (''stores_updated_at_check'', Store_UpdatedAt s \<ge> Store_CreatedAt s)]"

definition store_columns :: "string \<Rightarrow> string \<Rightarrow> string \<Rightarrow> 's go_error + unit" where
  "store_columns code name timezone =
     chain (pg_varchar 50 code) (\<lambda>_. chain (pg_varchar 150 name) (\<lambda>_. chain (pg_varchar 64 timezone) (\<lambda>_. Inr ())))"

definition store_code_free :: "store \<Rightarrow> shop_db \<Rightarrow> 's go_error + unit" where
  "store_code_free s d =
     guard_error (\<not> list_ex (\<lambda>q. Store_OrganizationID q = Store_OrganizationID s \<and> Store_Code q = Store_Code s \<and>
         Store_ID q \<noteq> Store_ID s) (shop_stores d))
       (PgError ''23505'' ''stores_organization_id_code_unique'')"

text \<open>The row is a store of the tables of trade too, which refer to it.\<close>

definition CreateStore_row ::
    "env \<Rightarrow> time \<Rightarrow> uuid \<Rightarrow> string \<Rightarrow> string \<Rightarrow> string \<Rightarrow> uuid \<Rightarrow> shop_db \<Rightarrow> 's go_error + store \<times> shop_db" where
  "CreateStore_row E now orgID code name timezone createdBy d =
     chain (store_columns code name timezone) (\<lambda>_.
     let s = \<lparr>Store_ID = uuidv7 E (au_uuid_calls (sh_auth d)), Store_OrganizationID = orgID, Store_Code = code, Store_Name = name,
              Store_Status = StoreACTIVE, Store_Timezone = timezone, Store_CreatedByUserID = Some createdBy,
              Store_ArchivedAt = None, Store_CreatedAt = now, Store_UpdatedAt = now\<rparr> in
     chain (check_row (store_checks s)) (\<lambda>_.
     chain (guard_error (List.find (\<lambda>q. Store_ID q = Store_ID s) (shop_stores d) = None) (PgError ''23505'' ''stores_pkey'')) (\<lambda>_.
     chain (store_code_free s d) (\<lambda>_.
     chain (guard_error (list_ex (\<lambda>g. Org_ID g = orgID) (au_organizations (sh_auth d)))
             (PgError ''23503'' ''stores_organization_id_fkey'')) (\<lambda>_.
     chain (guard_error (list_ex (\<lambda>u. User_ID u = createdBy) (au_users (sh_auth d)))
             (PgError ''23503'' ''stores_created_by_user_id_fkey'')) (\<lambda>_.
     Inr (s, d\<lparr>sh_auth := (sh_auth d)\<lparr>au_stores := shop_stores d @ [s], au_uuid_calls := Suc (au_uuid_calls (sh_auth d))\<rparr>,
               sh_trade := (sh_trade d)\<lparr>db_stores := db_stores (sh_trade d) @ [(orgID, Store_ID s)]\<rparr>\<rparr>)))))))"

definition write_store :: "time \<Rightarrow> shop_db \<Rightarrow> (store \<Rightarrow> store) \<Rightarrow> store \<Rightarrow> 's go_error + store" where
  "write_store now d f s =
     (let s' = (f s)\<lparr>Store_UpdatedAt := now\<rparr> in
      chain (check_row (store_checks s')) (\<lambda>_. chain (store_code_free s' d) (\<lambda>_. Inr s')))"

definition update_store ::
    "time \<Rightarrow> (store \<Rightarrow> store) \<Rightarrow> uuid \<Rightarrow> uuid \<Rightarrow> shop_db \<Rightarrow> 's go_error + store \<times> shop_db" where
  "update_store now f orgID storeID d =
     chain (update_row (\<lambda>s. Store_OrganizationID s = orgID \<and> Store_ID s = storeID) (write_store now d f) (shop_stores d)) (\<lambda>(s, rows).
     Inr (s, set_stores rows d))"

definition UpdateStore_row ::
    "time \<Rightarrow> string \<Rightarrow> string \<Rightarrow> string \<Rightarrow> uuid \<Rightarrow> uuid \<Rightarrow> shop_db \<Rightarrow> 's go_error + store \<times> shop_db" where
  "UpdateStore_row now code name timezone orgID storeID d =
     chain (store_columns code name timezone) (\<lambda>_.
     update_store now (\<lambda>s. s\<lparr>Store_Code := code, Store_Name := name, Store_Timezone := timezone\<rparr>) orgID storeID d)"

definition UpdateStoreStatus :: "time \<Rightarrow> store_status \<Rightarrow> uuid \<Rightarrow> uuid \<Rightarrow> shop_db \<Rightarrow> 's go_error + store \<times> shop_db" where
  "UpdateStoreStatus now status orgID storeID d =
     update_store now (\<lambda>s. s\<lparr>Store_Status := status,
       Store_ArchivedAt := (if status = StoreARCHIVED then Some now else None)\<rparr>) orgID storeID d"

definition LockStoreForStatusChange :: "uuid \<Rightarrow> uuid \<Rightarrow> shop_db \<Rightarrow> 's go_error + store" where
  "LockStoreForStatusChange orgID storeID d = one_row (store_of orgID storeID (sh_auth d))"

definition CountActiveStores :: "uuid \<Rightarrow> shop_db \<Rightarrow> int" where
  "CountActiveStores orgID d =
     int (length (filter (\<lambda>s. Store_OrganizationID s = orgID \<and> Store_Status s = StoreACTIVE) (shop_stores d)))"

definition store_matches :: "env \<Rightarrow> uuid \<Rightarrow> store_status option \<Rightarrow> string option \<Rightarrow> store \<Rightarrow> bool" where
  "store_matches E orgID status search s \<longleftrightarrow>
     Store_OrganizationID s = orgID \<and> (case status of None \<Rightarrow> True | Some st \<Rightarrow> Store_Status s = st) \<and>
     (case search of None \<Rightarrow> True
      | Some t \<Rightarrow> pg_ILIKE E (Store_Name s) (''%'' @ t @ ''%'') \<or> pg_ILIKE E (Store_Code s) (''%'' @ t @ ''%''))"

definition ListStoresForOrganization ::
    "env \<Rightarrow> uuid \<Rightarrow> store_status option \<Rightarrow> string option \<Rightarrow> int \<Rightarrow> int \<Rightarrow> shop_db \<Rightarrow> 's go_error + store list" where
  "ListStoresForOrganization E orgID status search pageOffset pageSize d =
     (if pageSize < 0 then Inl (PgError ''2201W'' [])
      else if pageOffset < 0 then Inl (PgError ''2201X'' [])
      else Inr (take (nat pageSize) (drop (nat pageOffset)
        (sort_key (\<lambda>s. (collation_key E (Store_Name s), Store_ID s)) (filter (store_matches E orgID status search) (shop_stores d))))))"

definition CountStoresForOrganization :: "env \<Rightarrow> uuid \<Rightarrow> store_status option \<Rightarrow> string option \<Rightarrow> shop_db \<Rightarrow> int" where
  "CountStoresForOrganization E orgID status search d =
     int (length (filter (store_matches E orgID status search) (shop_stores d)))"

definition HasOpenSalesForStore :: "uuid \<Rightarrow> uuid \<Rightarrow> shop_db \<Rightarrow> bool" where
  "HasOpenSalesForStore orgID storeID d =
     list_ex (\<lambda>s. Sale_OrganizationID s = orgID \<and> Sale_StoreID s = storeID \<and> Sale_Status s = SaleOPEN) (db_sales (sh_trade d))"

definition ListSessionIDsForStore :: "uuid \<Rightarrow> uuid \<Rightarrow> shop_db \<Rightarrow> uuid list" where
  "ListSessionIDsForStore orgID storeID d =
     sort (map Ses_ID (filter (\<lambda>s. Ses_OrganizationID s = Some orgID \<and> Ses_StoreID s = Some storeID) (au_sessions (sh_auth d))))"

end
