(* ===== verification/Stores.thy ===== *)
theory Stores
  imports Store_Queries Checkout_Validation Authn
begin

text \<open>
  The service of \<open>internal/stores\<close>: stores of an organization and their status, the payment
  methods of the organization, and which of them a store offers.
\<close>

section \<open>Errors\<close>

datatype stores_sentinel =
    Stores_ErrStoreNotFound | Stores_ErrStoreCodeInUse | Stores_ErrStoreArchived | Stores_ErrLastActiveStore
  | Stores_ErrStoreHasOpenSales | Stores_ErrPaymentMethodNotFound | Stores_ErrPaymentMethodCodeInUse
  | Stores_ErrLastActivePaymentMethod | Stores_ErrStorePaymentMethodNotFound | Stores_ErrPaymentMethodInactive
  | Stores_ErrLastOperationalPaymentMethod | Stores_ErrOrganizationContextRequired

type_synonym stores_error = "stores_sentinel go_error"

definition Stores_translatePersistenceError :: "stores_error \<Rightarrow> stores_error" where
  "Stores_translatePersistenceError e =
     (if errors_Is_NoRows e then Sentinel Stores_ErrStoreNotFound
      else case errors_As_Pg e of
        Some (_, c) \<Rightarrow>
          if c = ''stores_organization_id_code_unique'' then Sentinel Stores_ErrStoreCodeInUse
          else if c = ''payment_methods_organization_id_code_unique'' then Sentinel Stores_ErrPaymentMethodCodeInUse
          else Wrapped ''database operation failed'' e
      | None \<Rightarrow> Wrapped ''database operation failed'' e)"

definition paymentMethodPersistenceError :: "stores_error \<Rightarrow> stores_error" where
  "paymentMethodPersistenceError e =
     (if errors_Is_NoRows e then Sentinel Stores_ErrPaymentMethodNotFound else Stores_translatePersistenceError e)"

text \<open>Status, code and field of the response to an error; the message is left out.\<close>

definition Stores_writeError :: "stores_error \<Rightarrow> int \<times> string \<times> string" where
  "Stores_writeError e =
     (case errors_As_Validation e of
        Some (field, _) \<Rightarrow>
          (if field \<in> {''storeId'', ''paymentMethodId'', ''page'', ''pageSize'', ''status'', ''search''} then 400 else 422,
           ''VALIDATION_ERROR'', field)
      | None \<Rightarrow>
          if errors_Is e Stores_ErrOrganizationContextRequired then (400, ''ORGANIZATION_CONTEXT_REQUIRED'', [])
          else if errors_Is e Stores_ErrStoreNotFound then (404, ''STORE_NOT_FOUND'', [])
          else if errors_Is e Stores_ErrPaymentMethodNotFound then (404, ''PAYMENT_METHOD_NOT_FOUND'', [])
          else if errors_Is e Stores_ErrStorePaymentMethodNotFound then (404, ''STORE_PAYMENT_METHOD_NOT_FOUND'', [])
          else if errors_Is e Stores_ErrStoreCodeInUse then (409, ''STORE_CODE_ALREADY_IN_USE'', ''code'')
          else if errors_Is e Stores_ErrPaymentMethodCodeInUse then (409, ''PAYMENT_METHOD_CODE_ALREADY_IN_USE'', ''code'')
          else if errors_Is e Stores_ErrStoreArchived then (412, ''STORE_ARCHIVED'', [])
          else if errors_Is e Stores_ErrStoreHasOpenSales then (412, ''STORE_HAS_OPEN_SALES'', [])
          else if errors_Is e Stores_ErrLastActiveStore then (412, ''LAST_ACTIVE_STORE_REQUIRED'', [])
          else if errors_Is e Stores_ErrLastActivePaymentMethod then (412, ''LAST_ACTIVE_PAYMENT_METHOD_REQUIRED'', [])
          else if errors_Is e Stores_ErrPaymentMethodInactive then (412, ''PAYMENT_METHOD_INACTIVE'', [])
          else if errors_Is e Stores_ErrLastOperationalPaymentMethod
          then (412, ''LAST_OPERATIONAL_PAYMENT_METHOD_REQUIRED'', [])
          else (500, ''INTERNAL_SERVER_ERROR'', []))"

section \<open>Inputs\<close>

record list_stores_input =
  LSI_Search :: string
  LSI_Status :: string
  LSI_Page :: "int option"
  LSI_PageSize :: "int option"

record create_store_input =
  CSI_Code :: string
  CSI_Name :: string
  CSI_Timezone :: string
  CSI_CopyPaymentMethods :: "bool option"

record update_store_input =
  USI_Code :: string
  USI_Name :: string
  USI_Timezone :: string

record upsert_method_input =
  UMI_Code :: string
  UMI_Name :: string
  UMI_Kind :: string
  UMI_Provider :: "string option"
  UMI_AllowsChange :: bool
  UMI_RequiresExternalReference :: bool
  UMI_AllowsInstallments :: bool
  UMI_MaxInstallments :: int
  UMI_FeePercentage :: string
  UMI_SettlementDays :: int
  UMI_IsActive :: "bool option"
  UMI_SortOrder :: int

record store_method_input =
  SMI_PaymentMethodID :: string
  SMI_IsActive :: bool
  SMI_SortOrder :: int

record update_store_method_input =
  USM_IsActive :: "bool option"
  USM_SortOrder :: "int option"

section \<open>Responses\<close>

record store_response =
  SRE_ID :: string
  SRE_Code :: string
  SRE_Name :: string
  SRE_Status :: string
  SRE_Timezone :: string
  SRE_ArchivedAt :: "time option"
  SRE_CreatedAt :: time
  SRE_UpdatedAt :: time

record method_response =
  MRE_ID :: string
  MRE_Code :: string
  MRE_Name :: string
  MRE_Kind :: string
  MRE_Provider :: "string option"
  MRE_AllowsChange :: bool
  MRE_RequiresExternalReference :: bool
  MRE_AllowsInstallments :: bool
  MRE_MaxInstallments :: int
  MRE_FeePercentage :: string
  MRE_SettlementDays :: int
  MRE_IsActive :: bool
  MRE_SortOrder :: int
  MRE_CreatedAt :: time
  MRE_UpdatedAt :: time

record store_method_response =
  SMR_PaymentMethodID :: string
  SMR_Code :: string
  SMR_Name :: string
  SMR_Kind :: string
  SMR_IsActive :: bool
  SMR_OrganizationActive :: bool
  SMR_SortOrder :: int
  SMR_CreatedAt :: time
  SMR_UpdatedAt :: time

definition toStoreResponse :: "env \<Rightarrow> store \<Rightarrow> store_response" where
  "toStoreResponse E s =
     \<lparr>SRE_ID = uuid_String E (Store_ID s), SRE_Code = Store_Code s, SRE_Name = Store_Name s,
      SRE_Status = store_status_string (Store_Status s), SRE_Timezone = Store_Timezone s, SRE_ArchivedAt = Store_ArchivedAt s,
      SRE_CreatedAt = Store_CreatedAt s, SRE_UpdatedAt = Store_UpdatedAt s\<rparr>"

definition numericString :: "numeric \<Rightarrow> string" where
  "numericString value =
     (if \<not> num_Valid value then ''0''
      else case num_Int value of
        None \<Rightarrow> ''0''
      | Some i \<Rightarrow>
          let text = int_dec i;
              negative = has_prefix_char text (CHR ''-'');
              digits = (if negative then tl text else text);
              digits = (if num_Exp value \<ge> 0 then digits @ replicate (nat (num_Exp value)) (CHR ''0'')
                else let scale = nat (- num_Exp value);
                         padded = (if length digits \<le> scale
                           then replicate (scale - length digits + 1) (CHR ''0'') @ digits else digits);
                         cut = length padded - scale
                     in strings_TrimRight_char (strings_TrimRight_char (take cut padded @ ''.'' @ drop cut padded) (CHR ''0'')) (CHR ''.''))
          in if negative \<and> digits \<noteq> ''0'' then ''-'' @ digits else digits)"

text \<open>A fee as pgx reads it from its column.\<close>

definition fee_numeric :: "int \<Rightarrow> numeric" where
  "fee_numeric v = \<lparr>num_Int = Some v, num_Exp = -4, num_NaN = False, num_InfinityModifier = 0, num_Valid = True\<rparr>"

definition toPaymentMethodResponse :: "env \<Rightarrow> payment_method \<Rightarrow> method_response" where
  "toPaymentMethodResponse E m =
     \<lparr>MRE_ID = uuid_String E (Method_ID m), MRE_Code = Method_Code m, MRE_Name = Method_Name m,
      MRE_Kind = payment_method_kind_string (Method_Kind m), MRE_Provider = Method_Provider m,
      MRE_AllowsChange = Method_AllowsChange m, MRE_RequiresExternalReference = Method_RequiresExternalReference m,
      MRE_AllowsInstallments = Method_AllowsInstallments m, MRE_MaxInstallments = Method_MaxInstallments m,
      MRE_FeePercentage = numericString (fee_numeric (Method_FeePercentage m)), MRE_SettlementDays = Method_SettlementDays m,
      MRE_IsActive = Method_IsActive m, MRE_SortOrder = Method_SortOrder m, MRE_CreatedAt = Method_CreatedAt m,
      MRE_UpdatedAt = Method_UpdatedAt m\<rparr>"

definition toStorePaymentMethodResponse :: "env \<Rightarrow> store_method_row \<Rightarrow> store_method_response" where
  "toStorePaymentMethodResponse E row =
     (case row of (b, m) \<Rightarrow>
        \<lparr>SMR_PaymentMethodID = uuid_String E (Binding_PaymentMethodID b), SMR_Code = Method_Code m, SMR_Name = Method_Name m,
         SMR_Kind = payment_method_kind_string (Method_Kind m), SMR_IsActive = Binding_IsActive b,
         SMR_OrganizationActive = Method_IsActive m, SMR_SortOrder = Binding_SortOrder b,
         SMR_CreatedAt = Binding_CreatedAt b, SMR_UpdatedAt = Binding_UpdatedAt b\<rparr>)"

section \<open>Validation\<close>

text \<open>Whether the service has a cache to invalidate, \<open>netip.ParseAddr\<close>, and whether \<open>time.LoadLocation\<close> knows a zone.\<close>

record stores_service =
  ssv_invalidator :: bool
  ssv_ParseAddr :: "string \<Rightarrow> string option"
  ssv_LoadLocation :: "string \<Rightarrow> bool"

definition code_char :: "char \<Rightarrow> bool" where
  "code_char c \<longleftrightarrow> (65 \<le> (of_char c :: nat) \<and> (of_char c :: nat) \<le> 90) \<or> is_digit c"

definition codePattern :: "string \<Rightarrow> bool" where
  "codePattern s = (case s of [] \<Rightarrow> False | c # cs \<Rightarrow> code_char c \<and> list_all (\<lambda>x. code_char x \<or> x = CHR ''_'' \<or> x = CHR ''-'') cs)"

definition decimalPattern :: "string \<Rightarrow> bool" where
  "decimalPattern s =
     (case strings_Cut s (CHR ''.'') of (w, f, found) \<Rightarrow>
        (w = ''0'' \<or> (1 \<le> length w \<and> length w \<le> 3 \<and> list_all is_digit w \<and> hd w \<noteq> CHR ''0'')) \<and>
        (found \<longrightarrow> 1 \<le> length f \<and> length f \<le> 4 \<and> list_all is_digit f))"

definition normalizeStoreInput ::
    "env \<Rightarrow> stores_service \<Rightarrow> string \<Rightarrow> string \<Rightarrow> string \<Rightarrow> stores_error + string \<times> string \<times> string" where
  "normalizeStoreInput E S code name timezone =
     (let code = strings_ToUpper (unicode_upper E) (strings_TrimSpace code);
          name = strings_TrimSpace name; timezone = strings_TrimSpace timezone in
      chain (guard_error (\<not> (length code > 50 \<or> \<not> codePattern code))
              (ValidationError ''code'' ''must contain 1 to 50 uppercase letters, numbers, underscores, or hyphens'')) (\<lambda>_.
      chain (guard_error (\<not> (name = [] \<or> char_length name > 150)) (ValidationError ''name'' ''must contain 1 to 150 characters'')) (\<lambda>_.
      chain (guard_error (\<not> length timezone > 64) (ValidationError ''timezone'' ''must be a valid IANA timezone'')) (\<lambda>_.
      chain (guard_error (ssv_LoadLocation S timezone) (ValidationError ''timezone'' ''must be a valid IANA timezone'')) (\<lambda>_.
      Inr (code, name, timezone))))))"

definition payment_method_kind_of :: "string \<Rightarrow> payment_method_kind option" where
  "payment_method_kind_of s = List.find (\<lambda>k. payment_method_kind_string k = s)
     [PMCASH, PMPIX, PMDEBIT_CARD, PMCREDIT_CARD, PMVOUCHER, PMSTORE_CREDIT, PMOTHER]"

definition normalizePaymentMethodInput :: "env \<Rightarrow> upsert_method_input \<Rightarrow> bool \<Rightarrow> stores_error + method_params" where
  "normalizePaymentMethodInput E input creating =
     (let code = strings_ToUpper (unicode_upper E) (strings_TrimSpace (UMI_Code input)); name = strings_TrimSpace (UMI_Name input) in
      chain (guard_error (\<not> (length code > 50 \<or> \<not> codePattern code))
              (ValidationError ''code'' ''must contain 1 to 50 uppercase letters, numbers, underscores, or hyphens'')) (\<lambda>_.
      chain (guard_error (\<not> (name = [] \<or> char_length name > 100)) (ValidationError ''name'' ''must contain 1 to 100 characters'')) (\<lambda>_.
      chain (case payment_method_kind_of (strings_ToUpper (unicode_upper E) (strings_TrimSpace (UMI_Kind input))) of
               None \<Rightarrow> Inl (ValidationError ''kind'' ''must be a valid payment method kind'') | Some k \<Rightarrow> Inr k) (\<lambda>kind.
      let provider = map_option strings_TrimSpace (UMI_Provider input) in
      chain (guard_error (case provider of None \<Rightarrow> True | Some v \<Rightarrow> \<not> (v = [] \<or> char_length v > 100))
              (ValidationError ''provider'' ''must contain 1 to 100 characters when provided'')) (\<lambda>_.
      chain (guard_error (\<not> (UMI_AllowsChange input \<and> kind \<noteq> PMCASH))
              (ValidationError ''allowsChange'' ''can only be enabled for CASH'')) (\<lambda>_.
      chain (guard_error (\<not> (UMI_RequiresExternalReference input \<and> provider = None))
              (ValidationError ''provider'' ''is required when an external reference is required'')) (\<lambda>_.
      chain (if UMI_AllowsInstallments input
             then guard_error (\<not> (kind \<noteq> PMCREDIT_CARD \<or> UMI_MaxInstallments input \<le> 1))
               (ValidationError ''maxInstallments'' ''must be greater than one for installment credit cards'')
             else guard_error (UMI_MaxInstallments input = 1)
               (ValidationError ''maxInstallments'' ''must be one when installments are disabled'')) (\<lambda>_.
      let fee = strings_TrimSpace (UMI_FeePercentage input); fee = (if fee = [] then ''0'' else fee) in
      chain (guard_error (decimalPattern fee)
              (ValidationError ''feePercentage'' ''must be between 0 and 999.9999 with at most four decimal places'')) (\<lambda>_.
      chain (case ScanScientific E fee of
               None \<Rightarrow> Inl (ValidationError ''feePercentage'' ''must be a valid decimal'') | Some n \<Rightarrow> Inr n) (\<lambda>feeNumeric.
      chain (guard_error (\<not> UMI_SettlementDays input < 0) (ValidationError ''settlementDays'' ''must not be negative'')) (\<lambda>_.
      chain (guard_error (\<not> UMI_SortOrder input < 0) (ValidationError ''sortOrder'' ''must not be negative'')) (\<lambda>_.
      Inr \<lparr>MP_Code = code, MP_Name = name, MP_Kind = kind, MP_Provider = provider, MP_AllowsChange = UMI_AllowsChange input,
           MP_RequiresExternalReference = UMI_RequiresExternalReference input,
           MP_AllowsInstallments = UMI_AllowsInstallments input, MP_MaxInstallments = UMI_MaxInstallments input,
           MP_FeePercentage = feeNumeric, MP_SettlementDays = UMI_SettlementDays input,
           MP_IsActive = (case UMI_IsActive input of Some a \<Rightarrow> a | None \<Rightarrow> creating), MP_SortOrder = UMI_SortOrder input\<rparr>))))))))))))"

definition Stores_parseUUID :: "env \<Rightarrow> string \<Rightarrow> string \<Rightarrow> stores_error + uuid" where
  "Stores_parseUUID E raw field =
     (case uuid_Scan E (strings_TrimSpace raw) of
        None \<Rightarrow> Inl (ValidationError field ''must be a valid UUID'') | Some u \<Rightarrow> Inr u)"

definition Stores_normalizePagination :: "int option \<Rightarrow> int option \<Rightarrow> stores_error + int \<times> int" where
  "Stores_normalizePagination page pageSize =
     chain (case page of None \<Rightarrow> Inr 1
            | Some p \<Rightarrow> if p < 1 then Inl (ValidationError ''page'' ''must be greater than zero'') else Inr p) (\<lambda>resolvedPage.
     chain (case pageSize of None \<Rightarrow> Inr 20
            | Some n \<Rightarrow> if n < 1 \<or> n > 100 then Inl (ValidationError ''pageSize'' ''must be between 1 and 100'') else Inr n)
       (\<lambda>resolvedPageSize. Inr (resolvedPage, resolvedPageSize)))"

definition store_status_of :: "string \<Rightarrow> store_status option" where
  "store_status_of s = List.find (\<lambda>st. store_status_string st = s) [StoreACTIVE, StoreINACTIVE, StoreARCHIVED]"

section \<open>The service\<close>

definition Stores_organizationID :: "principal \<Rightarrow> stores_error + uuid" where
  "Stores_organizationID p =
     (case (Pr_OrganizationID p, Pr_UserID p, Pr_MembershipID p) of
        (Some orgID, Some _, Some _) \<Rightarrow>
          if HasOrganizationScope p then Inr orgID else Inl (Sentinel Stores_ErrOrganizationContextRequired)
      | _ \<Rightarrow> Inl (Sentinel Stores_ErrOrganizationContextRequired))"

definition stores_writeAudit ::
    "env \<Rightarrow> stores_service \<Rightarrow> time \<Rightarrow> request_meta \<Rightarrow> principal \<Rightarrow> string \<Rightarrow> string \<Rightarrow> uuid \<Rightarrow> uuid option \<Rightarrow>
     (string \<times> metadata_value) list \<Rightarrow> shop_db \<Rightarrow> stores_error + shop_db" where
  "stores_writeAudit E S txnow M p eventType entityType entityID storeID metadata d =
     chain (wrap_error ''write audit event'' (audit_Write E txnow
       \<lparr>CA_OrganizationID = Pr_OrganizationID p, CA_StoreID = storeID, CA_ActorUserID = Pr_UserID p,
        CA_ActorMembershipID = Pr_MembershipID p, CA_SessionID = Pr_SessionID p, CA_EventType = eventType,
        CA_EntityType = Some entityType, CA_EntityID = Some entityID,
        CA_RequestID = (if RM_RequestID M = [] then None else Some (RM_RequestID M)),
        CA_IpAddress = ssv_ParseAddr S (RM_ClientIP M),
        CA_UserAgent = (if RM_UserAgent M = [] then None else Some (RM_UserAgent M)),
        CA_Outcome = AuditSUCCESS, CA_Metadata = metadata\<rparr> (sh_auth d))) (\<lambda>a.
     Inr (d\<lparr>sh_auth := a\<rparr>))"

definition lockOrganization :: "uuid \<Rightarrow> shop_db \<Rightarrow> stores_error + unit" where
  "lockOrganization orgID d =
     chain (wrap_error ''lock organization'' (LockOrganizationForOwnerChange orgID (sh_auth d))) (\<lambda>_. Inr ())"

definition int_quotient :: "int \<Rightarrow> int \<Rightarrow> int" where
  "int_quotient a b = sgn a * sgn b * (\<bar>a\<bar> div \<bar>b\<bar>)"

definition ListStores ::
    "env \<Rightarrow> principal \<Rightarrow> list_stores_input \<Rightarrow> shop_db \<Rightarrow> stores_error + store_response list \<times> pagination" where
  "ListStores E p input d =
     chain (Stores_organizationID p) (\<lambda>orgID.
     chain (Stores_normalizePagination (LSI_Page input) (LSI_PageSize input)) (\<lambda>(page, pageSize).
     let search = strings_TrimSpace (LSI_Search input) in
     chain (guard_error (\<not> length search > 150) (ValidationError ''search'' ''must contain at most 150 characters'')) (\<lambda>_.
     let raw = strings_ToUpper (unicode_upper E) (strings_TrimSpace (LSI_Status input)) in
     chain (if raw = [] then Inr None
            else case store_status_of raw of
              None \<Rightarrow> Inl (ValidationError ''status'' ''must be ACTIVE, INACTIVE, or ARCHIVED'') | Some st \<Rightarrow> Inr (Some st)) (\<lambda>status.
     chain (wrap_error ''list stores'' (ListStoresForOrganization E orgID status (nullableText search)
             (int32 (int64 ((page - 1) * pageSize))) (int32 pageSize) d)) (\<lambda>rows.
     let total = CountStoresForOrganization E orgID status (nullableText search) d in
     Inr (map (toStoreResponse E) rows,
          \<lparr>pg_Page = page, pg_PageSize = pageSize, pg_Total = total,
           pg_TotalPages = int_quotient (total + pageSize - 1) pageSize\<rparr>))))))"

definition GetStore :: "env \<Rightarrow> principal \<Rightarrow> string \<Rightarrow> shop_db \<Rightarrow> stores_error + store_response" where
  "GetStore E p rawID d =
     chain (Stores_organizationID p) (\<lambda>orgID.
     chain (Stores_parseUUID E rawID ''storeId'') (\<lambda>i.
     chain (on_error (\<lambda>e. if errors_Is_NoRows e then Sentinel Stores_ErrStoreNotFound else Wrapped ''get store'' e)
             (GetStoreForOrganization orgID i (sh_auth d))) (\<lambda>s.
     Inr (toStoreResponse E s))))"

definition create_store_tx ::
    "env \<Rightarrow> stores_service \<Rightarrow> time \<Rightarrow> request_meta \<Rightarrow> principal \<Rightarrow> uuid \<Rightarrow> string \<times> string \<times> string \<Rightarrow> bool \<Rightarrow> shop_db \<Rightarrow>
     stores_error + store \<times> shop_db" where
  "create_store_tx E S txnow M p orgID normalized copyMethods d =
     (case normalized of (code, name, timezone) \<Rightarrow>
        chain (on_error Stores_translatePersistenceError
                (case Pr_UserID p of None \<Rightarrow> Inl (PgError ''23502'' [])
                 | Some u \<Rightarrow> CreateStore_row E txnow orgID code name timezone u d)) (\<lambda>(created, d1).
        chain (if copyMethods
               then wrap_error ''copy payment methods to store'' (CopyActivePaymentMethodsToStore txnow (Store_ID created) orgID d1)
               else Inr d1) (\<lambda>d2.
        chain (stores_writeAudit E S txnow M p ''store.created'' ''store'' (Store_ID created) (Some (Store_ID created))
                [(''code'', MetaText (Store_Code created)), (''copied_payment_methods'', MetaBool copyMethods)] d2) (\<lambda>d3.
        Inr (created, d3)))))"

definition CreateStore ::
    "env \<Rightarrow> stores_service \<Rightarrow> txn \<Rightarrow> request_meta \<Rightarrow> principal \<Rightarrow> create_store_input \<Rightarrow> shop_db \<Rightarrow>
     (stores_error + store_response) \<times> shop_db" where
  "CreateStore E S T M p input d =
     (case chain (Stores_organizationID p) (\<lambda>orgID.
           chain (normalizeStoreInput E S (CSI_Code input) (CSI_Name input) (CSI_Timezone input)) (\<lambda>n. Inr (orgID, n))) of
        Inl e \<Rightarrow> (Inl e, d)
      | Inr (orgID, n) \<Rightarrow>
          (case WithTx T (create_store_tx E S (tx_now T) M p orgID n
                  (case CSI_CopyPaymentMethods input of None \<Rightarrow> True | Some c \<Rightarrow> c)) d of
             (res, d') \<Rightarrow> (map_sum id (toStoreResponse E) res, d')))"

definition update_store_tx ::
    "env \<Rightarrow> stores_service \<Rightarrow> time \<Rightarrow> request_meta \<Rightarrow> principal \<Rightarrow> uuid \<Rightarrow> uuid \<Rightarrow> string \<times> string \<times> string \<Rightarrow> shop_db \<Rightarrow>
     stores_error + store \<times> shop_db" where
  "update_store_tx E S txnow M p orgID i normalized d =
     (case normalized of (code, name, timezone) \<Rightarrow>
        chain (on_error Stores_translatePersistenceError (LockStoreForStatusChange orgID i d)) (\<lambda>current.
        chain (guard_error (Store_Status current \<noteq> StoreARCHIVED) (Sentinel Stores_ErrStoreArchived)) (\<lambda>_.
        chain (on_error Stores_translatePersistenceError (UpdateStore_row txnow code name timezone orgID i d)) (\<lambda>(updated, d1).
        chain (stores_writeAudit E S txnow M p ''store.updated'' ''store'' (Store_ID updated) (Some (Store_ID updated))
                [(''previous_code'', MetaText (Store_Code current)), (''code'', MetaText (Store_Code updated))] d1) (\<lambda>d2.
        Inr (updated, d2))))))"

definition UpdateStore ::
    "env \<Rightarrow> stores_service \<Rightarrow> txn \<Rightarrow> request_meta \<Rightarrow> principal \<Rightarrow> string \<Rightarrow> update_store_input \<Rightarrow> shop_db \<Rightarrow>
     (stores_error + store_response) \<times> shop_db" where
  "UpdateStore E S T M p rawID input d =
     (case chain (Stores_organizationID p) (\<lambda>orgID.
           chain (Stores_parseUUID E rawID ''storeId'') (\<lambda>i.
           chain (normalizeStoreInput E S (USI_Code input) (USI_Name input) (USI_Timezone input)) (\<lambda>n. Inr (orgID, i, n)))) of
        Inl e \<Rightarrow> (Inl e, d)
      | Inr (orgID, i, n) \<Rightarrow>
          (case WithTx T (update_store_tx E S (tx_now T) M p orgID i n) d of
             (res, d') \<Rightarrow> (map_sum id (toStoreResponse E) res, d')))"

text \<open>What forbids an active store to leave that status.\<close>

definition store_may_close :: "uuid \<Rightarrow> uuid \<Rightarrow> shop_db \<Rightarrow> stores_error + unit" where
  "store_may_close orgID i d =
     chain (guard_error (\<not> HasOpenSalesForStore orgID i d) (Sentinel Stores_ErrStoreHasOpenSales)) (\<lambda>_.
     guard_error (\<not> CountActiveStores orgID d \<le> 1) (Sentinel Stores_ErrLastActiveStore))"

definition set_store_status_tx ::
    "env \<Rightarrow> stores_service \<Rightarrow> time \<Rightarrow> request_meta \<Rightarrow> principal \<Rightarrow> uuid \<Rightarrow> uuid \<Rightarrow> store_status \<Rightarrow> shop_db \<Rightarrow>
     stores_error + (store \<times> uuid list) \<times> shop_db" where
  "set_store_status_tx E S txnow M p orgID i target d =
     chain (lockOrganization orgID d) (\<lambda>_.
     chain (on_error Stores_translatePersistenceError (LockStoreForStatusChange orgID i d)) (\<lambda>current.
     if Store_Status current = target then Inr ((current, []), d)
     else
       chain (guard_error (Store_Status current \<noteq> StoreARCHIVED) (Sentinel Stores_ErrStoreArchived)) (\<lambda>_.
       chain (if Store_Status current = StoreACTIVE \<and> target \<noteq> StoreACTIVE then store_may_close orgID i d else Inr ()) (\<lambda>_.
       chain (on_error Stores_translatePersistenceError (UpdateStoreStatus txnow target orgID i d)) (\<lambda>(updated, d1).
       let sessionIDs = (if target \<noteq> StoreACTIVE then ListSessionIDsForStore orgID i d1 else []) in
       chain (stores_writeAudit E S txnow M p ''store.status_changed'' ''store'' (Store_ID updated) (Some (Store_ID updated))
               [(''previous_status'', MetaText (store_status_string (Store_Status current))),
                (''status'', MetaText (store_status_string (Store_Status updated)))] d1) (\<lambda>d2.
       Inr ((updated, sessionIDs), d2)))))))"

definition setStoreStatus ::
    "env \<Rightarrow> stores_service \<Rightarrow> txn \<Rightarrow> request_meta \<Rightarrow> principal \<Rightarrow> string \<Rightarrow> store_status \<Rightarrow> shop_db \<Rightarrow>
     (stores_error + store_response) \<times> shop_db \<times> cache_invalidation list" where
  "setStoreStatus E S T M p rawID target d =
     (case chain (Stores_organizationID p) (\<lambda>orgID.
           chain (Stores_parseUUID E rawID ''storeId'') (\<lambda>i. Inr (orgID, i))) of
        Inl e \<Rightarrow> (Inl e, d, [])
      | Inr (orgID, i) \<Rightarrow>
          (case WithTx T (set_store_status_tx E S (tx_now T) M p orgID i target) d of
             (Inl e, d') \<Rightarrow> (Inl e, d', [])
           | (Inr (updated, sessionIDs), d') \<Rightarrow>
               (Inr (toStoreResponse E updated), d', if ssv_invalidator S then map InvalidateSession sessionIDs else [])))"

definition ActivateStore where "ActivateStore E S T M p rawID = setStoreStatus E S T M p rawID StoreACTIVE"

definition DeactivateStore where "DeactivateStore E S T M p rawID = setStoreStatus E S T M p rawID StoreINACTIVE"

definition ArchiveStore where "ArchiveStore E S T M p rawID = setStoreStatus E S T M p rawID StoreARCHIVED"

section \<open>Payment methods of the organization\<close>

definition ListOrganizationPaymentMethods :: "env \<Rightarrow> principal \<Rightarrow> shop_db \<Rightarrow> stores_error + method_response list" where
  "ListOrganizationPaymentMethods E p d =
     chain (Stores_organizationID p) (\<lambda>orgID.
     Inr (map (toPaymentMethodResponse E) (ListPaymentMethodsForOrganization E orgID d)))"

definition create_method_tx ::
    "env \<Rightarrow> stores_service \<Rightarrow> time \<Rightarrow> request_meta \<Rightarrow> principal \<Rightarrow> uuid \<Rightarrow> method_params \<Rightarrow> shop_db \<Rightarrow>
     stores_error + payment_method \<times> shop_db" where
  "create_method_tx E S txnow M p orgID n d =
     chain (on_error Stores_translatePersistenceError (CreatePaymentMethodForOrganization E txnow orgID n d)) (\<lambda>(created, d1).
     chain (stores_writeAudit E S txnow M p ''payment_method.created'' ''payment_method'' (Method_ID created) None
             [(''code'', MetaText (Method_Code created)), (''is_active'', MetaBool (Method_IsActive created))] d1) (\<lambda>d2.
     Inr (created, d2)))"

definition CreateOrganizationPaymentMethod ::
    "env \<Rightarrow> stores_service \<Rightarrow> txn \<Rightarrow> request_meta \<Rightarrow> principal \<Rightarrow> upsert_method_input \<Rightarrow> shop_db \<Rightarrow>
     (stores_error + method_response) \<times> shop_db" where
  "CreateOrganizationPaymentMethod E S T M p input d =
     (case chain (Stores_organizationID p) (\<lambda>orgID.
           chain (normalizePaymentMethodInput E input True) (\<lambda>n. Inr (orgID, n))) of
        Inl e \<Rightarrow> (Inl e, d)
      | Inr (orgID, n) \<Rightarrow>
          (case WithTx T (create_method_tx E S (tx_now T) M p orgID n) d of
             (res, d') \<Rightarrow> (map_sum id (toPaymentMethodResponse E) res, d')))"

definition update_method_tx ::
    "env \<Rightarrow> stores_service \<Rightarrow> time \<Rightarrow> request_meta \<Rightarrow> principal \<Rightarrow> uuid \<Rightarrow> uuid \<Rightarrow> method_params \<Rightarrow> shop_db \<Rightarrow>
     stores_error + payment_method \<times> shop_db" where
  "update_method_tx E S txnow M p orgID i n d =
     chain (on_error paymentMethodPersistenceError (GetPaymentMethodByIDForOrganization orgID i (sh_trade d))) (\<lambda>current.
     chain (on_error paymentMethodPersistenceError (UpdatePaymentMethodForOrganization txnow n orgID i d)) (\<lambda>(updated, d1).
     chain (stores_writeAudit E S txnow M p ''payment_method.updated'' ''payment_method'' (Method_ID updated) None
             [(''previous_code'', MetaText (Method_Code current)), (''code'', MetaText (Method_Code updated))] d1) (\<lambda>d2.
     Inr (updated, d2))))"

definition UpdateOrganizationPaymentMethod ::
    "env \<Rightarrow> stores_service \<Rightarrow> txn \<Rightarrow> request_meta \<Rightarrow> principal \<Rightarrow> string \<Rightarrow> upsert_method_input \<Rightarrow> shop_db \<Rightarrow>
     (stores_error + method_response) \<times> shop_db" where
  "UpdateOrganizationPaymentMethod E S T M p rawID input d =
     (case chain (Stores_organizationID p) (\<lambda>orgID.
           chain (Stores_parseUUID E rawID ''paymentMethodId'') (\<lambda>i.
           chain (normalizePaymentMethodInput E input False) (\<lambda>n. Inr (orgID, i, n)))) of
        Inl e \<Rightarrow> (Inl e, d)
      | Inr (orgID, i, n) \<Rightarrow>
          (case WithTx T (update_method_tx E S (tx_now T) M p orgID i n) d of
             (res, d') \<Rightarrow> (map_sum id (toPaymentMethodResponse E) res, d')))"

text \<open>The loop over one page of active stores: a store that would lose its last operational method refuses.\<close>

fun page_allows :: "uuid \<Rightarrow> uuid \<Rightarrow> shop_db \<Rightarrow> store list \<Rightarrow> stores_error + unit" where
  "page_allows orgID methodID d [] = Inr ()"
| "page_allows orgID methodID d (s # ss) =
     (case GetStorePaymentMethodForOrganization orgID (Store_ID s) methodID d :: stores_error + _ of
        Inl e \<Rightarrow> if errors_Is_NoRows e then page_allows orgID methodID d ss
          else Inl (Wrapped ''get store payment method before organization deactivation'' e)
      | Inr b \<Rightarrow>
          if \<not> Binding_IsActive b then page_allows orgID methodID d ss
          else if CountOperationalPaymentMethodsForStore orgID (Store_ID s) d \<le> 1
          then Inl (Sentinel Stores_ErrLastOperationalPaymentMethod)
          else page_allows orgID methodID d ss)"

text \<open>The loop over the pages. The \<open>int32\<close> offset after \<open>k div 100\<close> turns is \<open>k\<close>, wrapped.\<close>

lemma int32_step: "0 \<le> int32 k \<Longrightarrow> int32 (k + 100) = int32 k + 100 \<or> int32 (k + 100) < 0"
proof -
  define r where "r = (k + 2 ^ 31) mod (2 ^ 32 :: int)"
  have "int32 (k + 100) = (r + 100) mod 2 ^ 32 - 2 ^ 31"
    by (simp add: int32_def r_def mod_add_left_eq add.assoc add.commute [of "2147483648"])
  moreover have "int32 k = r - 2 ^ 31" "0 \<le> r" "r < 2 ^ 32" by (simp_all add: int32_def r_def)
  moreover have "(r + 100) mod 2 ^ 32 = (if r + 100 < 2 ^ 32 then r + 100 else r + 100 - 2 ^ 32)"
    using \<open>0 \<le> r\<close> \<open>r < 2 ^ 32\<close> mod_add_self2 [of "r + 100 - 2 ^ 32" "2 ^ 32"]
    by (cases "r + 100 < 2 ^ 32") (simp_all add: add.commute)
  ultimately show "int32 (k + 100) = int32 k + 100 \<or> int32 (k + 100) < 0"
    by (simp split: if_splits)
qed

function deactivation_pages :: "env \<Rightarrow> uuid \<Rightarrow> uuid \<Rightarrow> shop_db \<Rightarrow> int \<Rightarrow> stores_error + unit" where
  "deactivation_pages E orgID methodID d k =
     (case ListStoresForOrganization E orgID (Some StoreACTIVE) None (int32 k) 100 d :: stores_error + _ of
        Inl e \<Rightarrow> Inl (Wrapped ''list active stores for payment method status'' e)
      | Inr stores \<Rightarrow>
          (case page_allows orgID methodID d stores of
             Inl e \<Rightarrow> Inl e
           | Inr _ \<Rightarrow> if length stores < 100 then Inr () else deactivation_pages E orgID methodID d (k + 100)))"
  by pat_completeness auto

termination
proof (relation "measure (\<lambda>(E, orgID, methodID, d, k). if int32 k < 0 then 0 else Suc (nat (2 ^ 31 - int32 k)))", simp)
  fix E orgID methodID d k stores u
  assume "ListStoresForOrganization E orgID (Some StoreACTIVE) None (int32 k) 100 d = (Inr stores :: stores_error + _)"
  then have nn: "0 \<le> int32 k" by (auto simp: ListStoresForOrganization_def split: if_splits)
  have "int32 k < 2 ^ 31" by (simp add: int32_def)
  with nn int32_step [OF nn]
  show "((E, orgID, methodID, d, k + 100), E, orgID, methodID, d, k)
      \<in> measure (\<lambda>(E, orgID, methodID, d, k). if int32 k < 0 then 0 else Suc (nat (2 ^ 31 - int32 k)))" by auto
qed

declare deactivation_pages.simps [simp del]

definition ensurePaymentMethodCanBeDeactivated :: "env \<Rightarrow> uuid \<Rightarrow> uuid \<Rightarrow> shop_db \<Rightarrow> stores_error + unit" where
  "ensurePaymentMethodCanBeDeactivated E orgID methodID d = deactivation_pages E orgID methodID d 0"

definition method_may_close :: "env \<Rightarrow> uuid \<Rightarrow> uuid \<Rightarrow> shop_db \<Rightarrow> stores_error + unit" where
  "method_may_close E orgID i d =
     chain (ensurePaymentMethodCanBeDeactivated E orgID i d) (\<lambda>_.
     guard_error (\<not> CountActivePaymentMethodsForOrganization orgID d \<le> 1) (Sentinel Stores_ErrLastActivePaymentMethod))"

definition set_method_status_tx ::
    "env \<Rightarrow> stores_service \<Rightarrow> time \<Rightarrow> request_meta \<Rightarrow> principal \<Rightarrow> uuid \<Rightarrow> uuid \<Rightarrow> bool \<Rightarrow> shop_db \<Rightarrow>
     stores_error + payment_method \<times> shop_db" where
  "set_method_status_tx E S txnow M p orgID i active d =
     chain (lockOrganization orgID d) (\<lambda>_.
     chain (on_error paymentMethodPersistenceError (GetPaymentMethodByIDForOrganization orgID i (sh_trade d))) (\<lambda>current.
     if Method_IsActive current = active then Inr (current, d)
     else
       chain (if active then Inr () else method_may_close E orgID i d) (\<lambda>_.
       chain (on_error paymentMethodPersistenceError
               (if active then ActivatePaymentMethodForOrganization txnow orgID i d
                else DeactivatePaymentMethodForOrganization txnow orgID i d)) (\<lambda>(updated, d1).
       chain (stores_writeAudit E S txnow M p ''payment_method.status_changed'' ''payment_method'' (Method_ID updated) None
               [(''previous_is_active'', MetaBool (Method_IsActive current)), (''is_active'', MetaBool (Method_IsActive updated))] d1)
         (\<lambda>d2. Inr (updated, d2))))))"

definition setOrganizationPaymentMethodStatus ::
    "env \<Rightarrow> stores_service \<Rightarrow> txn \<Rightarrow> request_meta \<Rightarrow> principal \<Rightarrow> string \<Rightarrow> bool \<Rightarrow> shop_db \<Rightarrow>
     (stores_error + method_response) \<times> shop_db" where
  "setOrganizationPaymentMethodStatus E S T M p rawID active d =
     (case chain (Stores_organizationID p) (\<lambda>orgID.
           chain (Stores_parseUUID E rawID ''paymentMethodId'') (\<lambda>i. Inr (orgID, i))) of
        Inl e \<Rightarrow> (Inl e, d)
      | Inr (orgID, i) \<Rightarrow>
          (case WithTx T (set_method_status_tx E S (tx_now T) M p orgID i active) d of
             (res, d') \<Rightarrow> (map_sum id (toPaymentMethodResponse E) res, d')))"

definition ActivateOrganizationPaymentMethod where
  "ActivateOrganizationPaymentMethod E S T M p rawID = setOrganizationPaymentMethodStatus E S T M p rawID True"

definition DeactivateOrganizationPaymentMethod where
  "DeactivateOrganizationPaymentMethod E S T M p rawID = setOrganizationPaymentMethodStatus E S T M p rawID False"

section \<open>Payment methods of a store\<close>

definition Stores_ListStorePaymentMethods ::
    "env \<Rightarrow> principal \<Rightarrow> string \<Rightarrow> shop_db \<Rightarrow> stores_error + store_method_response list" where
  "Stores_ListStorePaymentMethods E p rawStoreID d =
     chain (Stores_organizationID p) (\<lambda>orgID.
     chain (Stores_parseUUID E rawStoreID ''storeId'') (\<lambda>i.
     chain (on_error (\<lambda>e. if errors_Is_NoRows e then Sentinel Stores_ErrStoreNotFound else Wrapped ''get store'' e)
             (GetStoreForOrganization orgID i (sh_auth d))) (\<lambda>_.
     Inr (map (toStorePaymentMethodResponse E) (ListStorePaymentMethods E orgID i d)))))"

definition method_field :: "nat \<Rightarrow> string \<Rightarrow> string" where
  "method_field index name = ''paymentMethods['' @ nat_dec index @ '']'' @ name"

text \<open>The methods asked for; \<open>seen\<close> holds the texts of the identifiers so far.\<close>

fun desired_methods ::
    "env \<Rightarrow> nat \<Rightarrow> string list \<Rightarrow> store_method_input list \<Rightarrow> stores_error + (uuid \<times> bool \<times> int) list" where
  "desired_methods E index seen [] = Inr []"
| "desired_methods E index seen (item # items) =
     chain (Stores_parseUUID E (SMI_PaymentMethodID item) (method_field index ''.paymentMethodId'')) (\<lambda>i.
     chain (guard_error (\<not> SMI_SortOrder item < 0)
             (ValidationError (method_field index ''.sortOrder'') ''must not be negative'')) (\<lambda>_.
     chain (guard_error (uuid_String E i \<notin> set seen)
             (ValidationError (method_field index ''.paymentMethodId'') ''must not be duplicated'')) (\<lambda>_.
     chain (desired_methods E (Suc index) (uuid_String E i # seen) items) (\<lambda>rest.
     Inr ((i, SMI_IsActive item, SMI_SortOrder item) # rest)))))"

definition desired_ok :: "uuid \<Rightarrow> shop_db \<Rightarrow> uuid \<times> bool \<times> int \<Rightarrow> stores_error + unit" where
  "desired_ok orgID d item =
     (case item of (i, active, _) \<Rightarrow>
        chain (on_error paymentMethodPersistenceError (GetPaymentMethodByIDForOrganization orgID i (sh_trade d))) (\<lambda>m.
        guard_error (\<not> (active \<and> \<not> Method_IsActive m)) (Sentinel Stores_ErrPaymentMethodInactive)))"

definition replace_methods_tx ::
    "env \<Rightarrow> stores_service \<Rightarrow> time \<Rightarrow> request_meta \<Rightarrow> principal \<Rightarrow> uuid \<Rightarrow> uuid \<Rightarrow> (uuid \<times> bool \<times> int) list \<Rightarrow> shop_db \<Rightarrow>
     stores_error + store_method_row list \<times> shop_db" where
  "replace_methods_tx E S txnow M p orgID storeID desired d =
     chain (lockOrganization orgID d) (\<lambda>_.
     chain (on_error Stores_translatePersistenceError (LockStoreForStatusChange orgID storeID d)) (\<lambda>_.
     let existing = ListStorePaymentMethods E orgID storeID d in
     chain (map_result (desired_ok orgID d) desired) (\<lambda>_.
     let omitted = [(Binding_PaymentMethodID b, False, Binding_SortOrder b). (b, _) \<leftarrow> existing,
           uuid_String E (Binding_PaymentMethodID b) \<notin> uuid_String E ` fst ` set desired] in
     chain (wrap_error ''deactivate omitted store payment method'' (upsert_each txnow orgID storeID omitted d)) (\<lambda>d1.
     chain (wrap_error ''upsert store payment method'' (upsert_each txnow orgID storeID desired d1)) (\<lambda>d2.
     chain (stores_writeAudit E S txnow M p ''store.payment_methods.replaced'' ''store'' storeID (Some storeID)
             [(''payment_method_count'', MetaInt (int (length desired)))] d2) (\<lambda>d3.
     Inr (ListStorePaymentMethods E orgID storeID d2, d3)))))))"

definition ReplaceStorePaymentMethods ::
    "env \<Rightarrow> stores_service \<Rightarrow> txn \<Rightarrow> request_meta \<Rightarrow> principal \<Rightarrow> string \<Rightarrow> store_method_input list \<Rightarrow> shop_db \<Rightarrow>
     (stores_error + store_method_response list) \<times> shop_db" where
  "ReplaceStorePaymentMethods E S T M p rawStoreID items d =
     (case chain (Stores_organizationID p) (\<lambda>orgID.
           chain (Stores_parseUUID E rawStoreID ''storeId'') (\<lambda>storeID.
           chain (guard_error (items \<noteq> []) (ValidationError ''paymentMethods'' ''must contain at least one payment method'')) (\<lambda>_.
           chain (desired_methods E 0 [] items) (\<lambda>desired.
           chain (guard_error (list_ex (\<lambda>(_, active, _). active) desired) (Sentinel Stores_ErrLastOperationalPaymentMethod)) (\<lambda>_.
           Inr (orgID, storeID, desired)))))) of
        Inl e \<Rightarrow> (Inl e, d)
      | Inr (orgID, storeID, desired) \<Rightarrow>
          (case WithTx T (replace_methods_tx E S (tx_now T) M p orgID storeID desired) d of
             (res, d') \<Rightarrow> (map_sum id (map (toStorePaymentMethodResponse E)) res, d')))"

text \<open>The binding after the request: a missing one counts as inactive, in the order of its method.\<close>

definition requested_binding ::
    "update_store_method_input \<Rightarrow> payment_method \<Rightarrow> store_payment_method option \<Rightarrow> bool \<times> int" where
  "requested_binding input m current =
     (let (active, sortOrder) = (case current of None \<Rightarrow> (False, Method_SortOrder m)
            | Some b \<Rightarrow> (Binding_IsActive b, Binding_SortOrder b)) in
      (case USM_IsActive input of None \<Rightarrow> active | Some a \<Rightarrow> a, case USM_SortOrder input of None \<Rightarrow> sortOrder | Some o' \<Rightarrow> o'))"

text \<open>The rest of the transaction, once the method and the present binding are read.\<close>

definition write_binding ::
    "env \<Rightarrow> stores_service \<Rightarrow> time \<Rightarrow> request_meta \<Rightarrow> principal \<Rightarrow> uuid \<Rightarrow> uuid \<Rightarrow> uuid \<Rightarrow> update_store_method_input \<Rightarrow>
     payment_method \<Rightarrow> store_payment_method option \<Rightarrow> shop_db \<Rightarrow> stores_error + store_method_response option \<times> shop_db" where
  "write_binding E S txnow M p orgID storeID methodID input m current d =
     chain (guard_error (\<not> (current = None \<and> USM_IsActive input = None)) (Sentinel Stores_ErrStorePaymentMethodNotFound)) (\<lambda>_.
     let (active, sortOrder) = requested_binding input m current in
     chain (guard_error (\<not> (active \<and> \<not> Method_IsActive m)) (Sentinel Stores_ErrPaymentMethodInactive)) (\<lambda>_.
     chain (if (case current of None \<Rightarrow> False | Some b \<Rightarrow> Binding_IsActive b) \<and> \<not> active
            then guard_error (\<not> CountOperationalPaymentMethodsForStore orgID storeID d \<le> 1)
              (Sentinel Stores_ErrLastOperationalPaymentMethod)
            else Inr ()) (\<lambda>_.
     chain (wrap_error ''upsert store payment method''
             (UpsertStorePaymentMethod txnow orgID storeID methodID active sortOrder d)) (\<lambda>(_, d1).
     chain (stores_writeAudit E S txnow M p ''store.payment_method.updated'' ''payment_method'' methodID (Some storeID)
             [(''is_active'', MetaBool active), (''sort_order'', MetaInt sortOrder)] d1) (\<lambda>d2.
     Inr (map_option (toStorePaymentMethodResponse E)
            (List.find (\<lambda>(b, _). Binding_PaymentMethodID b = methodID) (ListStorePaymentMethods E orgID storeID d1)), d2))))))"

definition update_binding_tx ::
    "env \<Rightarrow> stores_service \<Rightarrow> time \<Rightarrow> request_meta \<Rightarrow> principal \<Rightarrow> uuid \<Rightarrow> uuid \<Rightarrow> uuid \<Rightarrow> update_store_method_input \<Rightarrow> shop_db \<Rightarrow>
     stores_error + store_method_response option \<times> shop_db" where
  "update_binding_tx E S txnow M p orgID storeID methodID input d =
     chain (lockOrganization orgID d) (\<lambda>_.
     chain (on_error Stores_translatePersistenceError (LockStoreForStatusChange orgID storeID d)) (\<lambda>_.
     chain (on_error paymentMethodPersistenceError (GetPaymentMethodByIDForOrganization orgID methodID (sh_trade d))) (\<lambda>m.
     chain (case GetStorePaymentMethodForOrganization orgID storeID methodID d :: stores_error + _ of
              Inl e \<Rightarrow> if errors_Is_NoRows e then Inr None else Inl (Wrapped ''get store payment method'' e)
            | Inr b \<Rightarrow> Inr (Some b)) (\<lambda>current.
     write_binding E S txnow M p orgID storeID methodID input m current d))))"

text \<open>The response is the zero value, here None, should the list not hold the method.\<close>

definition UpdateStorePaymentMethod ::
    "env \<Rightarrow> stores_service \<Rightarrow> txn \<Rightarrow> request_meta \<Rightarrow> principal \<Rightarrow> string \<Rightarrow> string \<Rightarrow> update_store_method_input \<Rightarrow> shop_db \<Rightarrow>
     (stores_error + store_method_response option) \<times> shop_db" where
  "UpdateStorePaymentMethod E S T M p rawStoreID rawMethodID input d =
     (case chain (Stores_organizationID p) (\<lambda>orgID.
           chain (Stores_parseUUID E rawStoreID ''storeId'') (\<lambda>storeID.
           chain (Stores_parseUUID E rawMethodID ''paymentMethodId'') (\<lambda>methodID.
           chain (guard_error (\<not> (USM_IsActive input = None \<and> USM_SortOrder input = None))
                   (ValidationError ''body'' ''isActive or sortOrder is required'')) (\<lambda>_.
           chain (guard_error (case USM_SortOrder input of None \<Rightarrow> True | Some o' \<Rightarrow> \<not> o' < 0)
                   (ValidationError ''sortOrder'' ''must not be negative'')) (\<lambda>_.
           Inr (orgID, storeID, methodID)))))) of
        Inl e \<Rightarrow> (Inl e, d)
      | Inr (orgID, storeID, methodID) \<Rightarrow> WithTx T (update_binding_tx E S (tx_now T) M p orgID storeID methodID input) d)"

definition ActivateStorePaymentMethod where
  "ActivateStorePaymentMethod E S T M p rawStoreID rawMethodID =
     UpdateStorePaymentMethod E S T M p rawStoreID rawMethodID \<lparr>USM_IsActive = Some True, USM_SortOrder = None\<rparr>"

definition DeactivateStorePaymentMethod where
  "DeactivateStorePaymentMethod E S T M p rawStoreID rawMethodID =
     UpdateStorePaymentMethod E S T M p rawStoreID rawMethodID \<lparr>USM_IsActive = Some False, USM_SortOrder = None\<rparr>"

end
