(* ===== verification/Store_Behaviour.thy ===== *)
theory Store_Behaviour
  imports Stores Access_Invariant
begin

text \<open>
  What the operations on stores and payment methods do to the tables, and what they keep: an
  organization with an active store and an active payment method, and an active store with an
  operational method.
\<close>

section \<open>What is kept\<close>

definition active_store :: "uuid \<Rightarrow> uuid \<Rightarrow> shop_db \<Rightarrow> bool" where
  "active_store g s d \<longleftrightarrow>
     (\<exists>r \<in> set (shop_stores d). Store_OrganizationID r = g \<and> Store_ID r = s \<and> Store_Status r = StoreACTIVE)"

definition active_method :: "uuid \<Rightarrow> uuid \<Rightarrow> shop_db \<Rightarrow> bool" where
  "active_method g i d \<longleftrightarrow>
     (\<exists>m \<in> set (shop_methods d). Method_OrganizationID m = g \<and> Method_ID m = i \<and> Method_IsActive m)"

definition bound :: "uuid \<Rightarrow> uuid \<Rightarrow> uuid \<Rightarrow> shop_db \<Rightarrow> bool" where
  "bound g s i d \<longleftrightarrow> (\<exists>b \<in> set (shop_bindings d). binding_key b = (g, s, i) \<and> Binding_IsActive b)"

definition operational :: "uuid \<Rightarrow> uuid \<Rightarrow> shop_db \<Rightarrow> bool" where
  "operational g s d \<longleftrightarrow> (\<exists>i. active_method g i d \<and> bound g s i d)"

text \<open>The primary keys.\<close>

definition shop_ok :: "shop_db \<Rightarrow> bool" where
  "shop_ok d \<longleftrightarrow> methods.unique d \<and> store_methods.unique d"

definition keeps_open :: "shop_db \<Rightarrow> shop_db \<Rightarrow> bool" where
  "keeps_open d d' \<longleftrightarrow> shop_ok d' \<and>
     (\<forall>g. (\<exists>s. active_store g s d) \<longrightarrow> (\<exists>s. active_store g s d')) \<and>
     (\<forall>g. (\<exists>i. active_method g i d) \<longrightarrow> (\<exists>i. active_method g i d')) \<and>
     (\<forall>g s. active_store g s d \<longrightarrow> operational g s d \<longrightarrow> operational g s d')"

lemma keeps_open_refl: "shop_ok d \<Longrightarrow> keeps_open d d"
  by (simp add: keeps_open_def)

text \<open>Two databases with the same three tables.\<close>

definition same_shop :: "shop_db \<Rightarrow> shop_db \<Rightarrow> bool" where
  "same_shop d d' \<longleftrightarrow> shop_stores d' = shop_stores d \<and> sh_trade d' = sh_trade d"

lemma same_shopD:
  assumes "same_shop d d'"
  shows "active_store g s d' = active_store g s d" "active_method g i d' = active_method g i d" "bound g s i d' = bound g s i d"
    "operational g s d' = operational g s d" "shop_ok d' = shop_ok d" "shop_stores d' = shop_stores d" "sh_trade d' = sh_trade d"
  using assms by (simp_all add: same_shop_def active_store_def active_method_def bound_def operational_def shop_ok_def
      methods.unique_def store_methods.unique_def)

lemma keeps_open_same: "same_shop d1 d' \<Longrightarrow> keeps_open d d' = keeps_open d d1"
  by (simp add: keeps_open_def same_shopD)

lemma audit_same: "stores_writeAudit E S txnow M p ev et i s meta d = Inr d' \<Longrightarrow> same_shop d d'"
  by (auto simp: stores_writeAudit_def result_simps same_shop_def dest!: audit_Write_InrD)

lemma audit_sessions: "stores_writeAudit E S txnow M p ev et i s meta d = Inr d' \<Longrightarrow> au_sessions (sh_auth d') = au_sessions (sh_auth d)"
  by (auto simp: stores_writeAudit_def result_simps dest!: audit_Write_InrD)

section \<open>Stores\<close>

lemma update_store_InrD:
  assumes "update_store now f orgID i d = (Inr (r', d') :: 's go_error + _)"
  shows "\<exists>pre r post. shop_stores d = pre @ r # post \<and> store_of orgID i (sh_auth d) = Some r \<and>
    shop_stores d' = pre @ r' # post \<and> r' = (f r)\<lparr>Store_UpdatedAt := now\<rparr> \<and> sh_trade d' = sh_trade d \<and>
    au_sessions (sh_auth d') = au_sessions (sh_auth d) \<and>
    (Store_OrganizationID r' = orgID \<and> Store_ID r' = i \<longrightarrow> store_of orgID i (sh_auth d') = Some r')"
proof -
  obtain rows where u: "update_row (\<lambda>s. Store_OrganizationID s = orgID \<and> Store_ID s = i) (write_store now d f) (shop_stores d) =
      (Inr (r', rows) :: 's go_error + _)" "set_stores rows d = d'"
    using assms by (simp add: update_store_def result_simps) blast
  from update_row_InrD [OF u(1)] obtain pre r post where
    s: "shop_stores d = pre @ r # post" "Store_OrganizationID r = orgID \<and> Store_ID r = i"
    "\<forall>q \<in> set pre. \<not> (Store_OrganizationID q = orgID \<and> Store_ID q = i)" "write_store now d f r = (Inr r' :: 's go_error + _)" "rows = pre @ r' # post" by blast
  from s(3) have pre: "List.find (\<lambda>s. Store_OrganizationID s = orgID \<and> Store_ID s = i) pre = None" by (auto simp: find_None_iff)
  with s(1,2) have "store_of orgID i (sh_auth d) = Some r" by (simp add: store_of_def find_append)
  moreover have "store_of orgID i (sh_auth d') = Some r'" if "Store_OrganizationID r' = orgID" "Store_ID r' = i"
    using pre that s(5) u(2) by (auto simp: store_of_def find_append set_stores_def)
  ultimately show ?thesis using s u(2) [symmetric]
    by (intro exI [of _ pre] exI [of _ r] exI [of _ post]) (simp add: write_store_def Let_def result_simps)
qed

lemma store_kept:
  assumes "shop_ok d" "update_store now f orgID i d = Inr (r', d')"
    and "\<And>r. Store_OrganizationID (f r) = Store_OrganizationID r \<and> Store_ID (f r) = Store_ID r \<and> Store_Status (f r) = Store_Status r"
  shows "keeps_open d d'"
proof -
  from update_store_InrD [OF assms(2)] obtain pre r post where s: "shop_stores d = pre @ r # post" "shop_stores d' = pre @ r' # post"
    "r' = (f r)\<lparr>Store_UpdatedAt := now\<rparr>" "sh_trade d' = sh_trade d" by blast
  have "active_store g s d' = active_store g s d" for g s
    by (simp add: active_store_def s assms(3))
  then show ?thesis
    using assms(1) by (simp add: keeps_open_def shop_ok_def methods.unique_def store_methods.unique_def active_method_def bound_def
        operational_def s(4))
qed

lemma two_elements:
  assumes "length (filter P xs) > 1" "xs = pre @ x # post"
  shows "\<exists>y \<in> set (pre @ post). P y"
proof (rule ccontr)
  assume "\<not> ?thesis"
  then have "filter P (pre @ post) = []" by (auto simp: filter_empty_conv)
  with assms show False by (simp split: if_splits)
qed

lemma active_store_left:
  assumes "update_store now f orgID i d = (Inr (r', d') :: 's go_error + _)"
    and "\<And>r. Store_OrganizationID (f r) = Store_OrganizationID r"
    and "Store_Status r' \<noteq> StoreACTIVE \<Longrightarrow> (\<exists>r. store_of orgID i (sh_auth d) = Some r \<and> Store_Status r \<noteq> StoreACTIVE) \<or> CountActiveStores orgID d > 1"
    and "\<exists>s. active_store g s d"
  shows "\<exists>s. active_store g s d'"
proof -
  from update_store_InrD [OF assms(1)] obtain pre r post where s: "shop_stores d = pre @ r # post" "store_of orgID i (sh_auth d) = Some r"
    "shop_stores d' = pre @ r' # post" "r' = (f r)\<lparr>Store_UpdatedAt := now\<rparr>" by blast
  then have r: "Store_OrganizationID r = orgID" by (auto simp: store_of_def dest: find_SomeD)
  have "\<exists>q \<in> set (pre @ post). Store_OrganizationID q = g \<and> Store_Status q = StoreACTIVE"
    if "\<not> (Store_OrganizationID r' = g \<and> Store_Status r' = StoreACTIVE)"
  proof (cases "Store_OrganizationID r = g \<and> Store_Status r = StoreACTIVE")
    case True
    with that r assms(2) s(4) have "g = orgID" "Store_Status r' \<noteq> StoreACTIVE" by auto
    with assms(3) True s(2) have "CountActiveStores g d > 1" by auto
    then show ?thesis
      using two_elements [OF _ s(1), of "\<lambda>s. Store_OrganizationID s = g \<and> Store_Status s = StoreACTIVE"]
      by (simp add: CountActiveStores_def)
  next
    case False
    with assms(4) show ?thesis by (auto simp: active_store_def s(1))
  qed
  then show ?thesis by (auto simp: active_store_def s(3))
qed

lemma status_kept:
  assumes "shop_ok d" "update_store now f orgID i d = (Inr (r', d') :: 's go_error + _)"
    and "\<And>r. Store_OrganizationID (f r) = Store_OrganizationID r"
    and "Store_Status r' \<noteq> StoreACTIVE \<Longrightarrow> (\<exists>r. store_of orgID i (sh_auth d) = Some r \<and> Store_Status r \<noteq> StoreACTIVE) \<or> CountActiveStores orgID d > 1"
  shows "keeps_open d d'"
proof -
  from update_store_InrD [OF assms(2)] have "sh_trade d' = sh_trade d" by blast
  then have "shop_ok d'" "active_method g q d' = active_method g q d" "operational g q d' = operational g q d" for g q
    using assms(1) by (simp_all add: shop_ok_def methods.unique_def store_methods.unique_def active_method_def operational_def bound_def)
  with active_store_left [OF assms(2-4)] show ?thesis by (simp add: keeps_open_def)
qed

lemma UpdateStoreStatus_InrD:
  assumes "UpdateStoreStatus now st g i d = (Inr (r, d') :: 's go_error + _)"
  shows "store_of g i (sh_auth d') = Some r" "Store_Status r = st" "sh_trade d' = sh_trade d"
    "au_sessions (sh_auth d') = au_sessions (sh_auth d)"
proof -
  from update_store_InrD [OF assms [unfolded UpdateStoreStatus_def]] obtain pre q post where
    q: "store_of g i (sh_auth d) = Some q"
    "r = q\<lparr>Store_Status := st, Store_ArchivedAt := (if st = StoreARCHIVED then Some now else None), Store_UpdatedAt := now\<rparr>"
    "sh_trade d' = sh_trade d" "au_sessions (sh_auth d') = au_sessions (sh_auth d)"
    "Store_OrganizationID r = g \<and> Store_ID r = i \<longrightarrow> store_of g i (sh_auth d') = Some r" by blast
  from find_SomeD [OF q(1) [unfolded store_of_def]] have "Store_OrganizationID r = g \<and> Store_ID r = i" by (simp add: q(2))
  with q(5) show "store_of g i (sh_auth d') = Some r" by (rule mp)
  show "Store_Status r = st" by (simp add: q(2))
  show "sh_trade d' = sh_trade d" "au_sessions (sh_auth d') = au_sessions (sh_auth d)" by (rule q)+
qed

section \<open>Payment methods of the organization\<close>

lemma update_method_InrD:
  assumes "update_method now f orgID i d = (Inr (r', d') :: 's go_error + _)"
  shows "\<exists>pre r post. shop_methods d = pre @ r # post \<and> Method_OrganizationID r = orgID \<and> Method_ID r = i \<and>
    shop_methods d' = pre @ r' # post \<and> r' = (f r)\<lparr>Method_UpdatedAt := now\<rparr> \<and> shop_bindings d' = shop_bindings d \<and>
    sh_auth d' = sh_auth d"
proof -
  obtain rows where u: "update_row (\<lambda>m. Method_OrganizationID m = orgID \<and> Method_ID m = i) (write_method now d f) (shop_methods d) =
      (Inr (r', rows) :: 's go_error + _)" "set_methods rows d = d'"
    using assms by (simp add: update_method_def result_simps) blast
  from update_row_InrD [OF u(1)] obtain pre r post where
    s: "shop_methods d = pre @ r # post" "Method_OrganizationID r = orgID \<and> Method_ID r = i"
    "write_method now d f r = (Inr r' :: 's go_error + _)" "rows = pre @ r' # post" by blast
  with u(2) [symmetric] show ?thesis
    by (intro exI [of _ pre] exI [of _ r] exI [of _ post]) (simp add: write_method_def Let_def result_simps)
qed

lemma update_method_ok:
  assumes "shop_ok d" "update_method now f orgID i d = (Inr (r', d') :: 's go_error + _)"
    and "\<And>r. Method_OrganizationID (f r) = Method_OrganizationID r \<and> Method_ID (f r) = Method_ID r"
  shows "shop_ok d'" "active_store g s d' = active_store g s d" "bound g s q d' = bound g s q d"
    "active_method g q d' = (if g = orgID \<and> q = i then Method_IsActive r' else active_method g q d)"
proof -
  from update_method_InrD [OF assms(2)] obtain pre r post where
    s: "shop_methods d = pre @ r # post" "Method_OrganizationID r = orgID" "Method_ID r = i" "shop_methods d' = pre @ r' # post"
    "r' = (f r)\<lparr>Method_UpdatedAt := now\<rparr>" "shop_bindings d' = shop_bindings d" "sh_auth d' = sh_auth d" by blast
  from assms(1) have u: "methods.unique d" by (simp add: shop_ok_def)
  from assms(1) s assms(3) show "shop_ok d'"
    by (simp add: shop_ok_def methods.unique_def store_methods.unique_def)
  show "active_store g s d' = active_store g s d" "bound g s q d' = bound g s q d"
    by (simp_all add: active_store_def bound_def s(6,7))
  have "\<forall>x \<in> set pre. Method_ID x \<noteq> i" "\<forall>x \<in> set post. Method_ID x \<noteq> i"
    using methods.unique_split [OF u s(1)] s(3) by auto
  moreover have "Method_OrganizationID r' = orgID" "Method_ID r' = i" by (simp_all add: s(2,3,5) assms(3))
  ultimately show "active_method g q d' = (if g = orgID \<and> q = i then Method_IsActive r' else active_method g q d)"
    by (auto simp: active_method_def s(1,2,3,4))
qed

lemma method_kept:
  assumes "shop_ok d" "update_method now f orgID i d = (Inr (r', d') :: 's go_error + _)"
    and "\<And>r. Method_OrganizationID (f r) = Method_OrganizationID r \<and> Method_ID (f r) = Method_ID r"
    and "active_method orgID i d \<Longrightarrow> Method_IsActive r'"
  shows "keeps_open d d'"
proof -
  note upd = update_method_ok [OF assms(1-3)]
  have "active_method g q d'" if "active_method g q d" for g q
    using that assms(4) by (auto simp: upd(4))
  then show ?thesis using upd(1-3) by (auto simp: keeps_open_def operational_def)
qed

text \<open>More than one operational method: whichever is taken away, one is left.\<close>

lemma distinct_all_equal: "distinct xs \<Longrightarrow> (\<And>x. x \<in> set xs \<Longrightarrow> x = y) \<Longrightarrow> length xs \<le> 1"
  by (cases xs; cases "tl xs") auto

lemma operational_pairs:
  "[(b, m). b \<leftarrow> bs, m \<leftarrow> ms, P b m] = filter (\<lambda>(b, m). P b m) (List.product bs ms)"
proof (induction bs)
  case (Cons b bs)
  have "concat (map (\<lambda>m. if P b m then [(b, m)] else []) ms) = filter (\<lambda>(b, m). P b m) (map (Pair b) ms)"
    by (induction ms) auto
  with Cons show ?case by simp
qed simp

lemma another_operational:
  assumes "shop_ok d" "CountOperationalPaymentMethodsForStore g s d > 1"
  shows "\<exists>j. j \<noteq> i \<and> active_method g j d \<and> bound g s j d"
proof (rule ccontr)
  assume no: "\<not> ?thesis"
  let ?P = "\<lambda>b m. Method_OrganizationID m = Binding_OrganizationID b \<and> Method_ID m = Binding_PaymentMethodID b \<and>
      Binding_OrganizationID b = g \<and> Binding_StoreID b = s \<and> Binding_IsActive b \<and> Method_IsActive m"
  let ?L = "filter (\<lambda>(b, m). ?P b m) (List.product (shop_bindings d) (shop_methods d))"
  from assms(1) have u: "methods.unique d" "store_methods.unique d" by (simp_all add: shop_ok_def)
  have len: "length ?L > 1"
    using assms(2) unfolding CountOperationalPaymentMethodsForStore_def operational_pairs by simp
  have "distinct ?L"
    using u by (intro distinct_filter distinct_product) (simp_all add: methods.unique_def store_methods.unique_def distinct_map)
  moreover have "x = hd ?L" if x: "x \<in> set ?L" for x
  proof -
    obtain y where y: "y = hd ?L" "y \<in> set ?L" using len by (cases ?L) auto
    obtain b m b' m' where xy: "x = (b, m)" "y = (b', m')" by (cases x; cases y) auto
    have "Method_ID m = i" "Method_ID m' = i"
      using no x y(2) unfolding xy active_method_def bound_def binding_key_def by auto
    moreover from this x y(2) have "binding_key b = binding_key b'" by (simp add: xy binding_key_def)
    ultimately have "m = m'" "b = b'"
      using x y(2) methods.unique_inj [OF u(1)] store_methods.unique_inj [OF u(2)] by (auto simp: xy)
    then show ?thesis by (simp add: y(1) [symmetric] xy)
  qed
  ultimately have "length ?L \<le> 1" by (rule distinct_all_equal)
  with len show False by simp
qed

section \<open>Payment methods of a store\<close>

lemma bound_unique:
  assumes "store_methods.unique d" "b \<in> set (shop_bindings d)" "binding_key b = (g, s, i)"
  shows "bound g s i d = Binding_IsActive b"
  unfolding bound_def using assms store_methods.unique_inj [OF assms(1)] by metis

lemma upsert_InrD:
  assumes "store_methods.unique d"
    and "UpsertStorePaymentMethod now orgID s i active so d = (Inr (b, d') :: 's go_error + _)"
  shows "store_methods.unique d'" "sh_auth d' = sh_auth d" "shop_methods d' = shop_methods d"
    "bound g q j d' = (if (g, q, j) = (orgID, s, i) then active else bound g q j d)"
proof -
  let ?b = "\<lparr>Binding_OrganizationID = orgID, Binding_StoreID = s, Binding_PaymentMethodID = i, Binding_IsActive = active,
    Binding_SortOrder = so, Binding_CreatedAt = now, Binding_UpdatedAt = now\<rparr>"
  have k: "binding_key ?b = (orgID, s, i)" by (simp add: binding_key_def)
  have all: "store_methods.unique d' \<and> sh_auth d' = sh_auth d \<and> shop_methods d' = shop_methods d \<and>
    (\<exists>b' \<in> set (shop_bindings d'). binding_key b' = (orgID, s, i) \<and> Binding_IsActive b' = active) \<and>
    (\<forall>x. binding_key x \<noteq> (orgID, s, i) \<longrightarrow> (x \<in> set (shop_bindings d') \<longleftrightarrow> x \<in> set (shop_bindings d)))"
  proof (cases "List.find (\<lambda>q. binding_key q = binding_key ?b) (shop_bindings d)")
    case None
    with assms(2) have "d' = set_bindings (shop_bindings d @ [?b]) d"
      by (auto simp: UpsertStorePaymentMethod_def Let_def result_simps)
    with store_methods.unique_insert [OF assms(1) None] k show ?thesis by auto
  next
    case (Some old)
    define f :: "store_payment_method \<Rightarrow> 's go_error + store_payment_method" where
      "f = (\<lambda>q. let q' = q\<lparr>Binding_IsActive := active, Binding_SortOrder := so, Binding_UpdatedAt := now\<rparr> in
        chain (check_row (store_method_checks q')) (\<lambda>_. Inr q'))"
    obtain rows where u: "update_row (\<lambda>q. binding_key q = binding_key ?b) f (shop_bindings d) = Inr (b, rows)" "set_bindings rows d = d'"
      using assms(2) Some by (simp add: UpsertStorePaymentMethod_def Let_def result_simps f_def) blast
    have key: "binding_key b = binding_key r" "Binding_IsActive b = active" if "f r = Inr b" for r
      using that by (auto simp: f_def Let_def result_simps binding_key_def)
    obtain r where r: "binding_key r = (orgID, s, i)" "f r = Inr b" "binding_key b = binding_key r"
      "set rows = insert b {q \<in> set (shop_bindings d). binding_key q \<noteq> binding_key r}"
      using store_methods.update_only [OF assms(1) u(1) key(1)] unfolding k by blast
    have "store_methods.unique d'"
      using store_methods.unique_update [OF assms(1) u(1) key(1), of d] u(2) by simp
    with r key(2) [OF r(2)] u(2) [symmetric] show ?thesis by auto
  qed
  from all show new: "store_methods.unique d'" "sh_auth d' = sh_auth d" "shop_methods d' = shop_methods d" by simp_all
  from all obtain b' where b': "b' \<in> set (shop_bindings d')" "binding_key b' = (orgID, s, i)" "Binding_IsActive b' = active" by blast
  show "bound g q j d' = (if (g, q, j) = (orgID, s, i) then active else bound g q j d)"
  proof (cases "(g, q, j) = (orgID, s, i)")
    case True
    with bound_unique [OF new(1) b'(1,2)] b'(3) show ?thesis by simp
  next
    case False
    then show ?thesis
      using all unfolding bound_def if_not_P [OF False] by metis
  qed
qed

lemma upsert_each_InrD:
  assumes "store_methods.unique d" "upsert_each now orgID s items d = (Inr d' :: 's go_error + _)"
  shows "store_methods.unique d' \<and> sh_auth d' = sh_auth d \<and> shop_methods d' = shop_methods d \<and>
    (\<forall>g q j. bound g q j d' = (case map_of (rev items) j of
        Some (active, _) \<Rightarrow> if g = orgID \<and> q = s then active else bound g q j d | None \<Rightarrow> bound g q j d))"
  using assms
proof (induction items arbitrary: d)
  case (Cons item items)
  obtain i active so where item: "item = (i, active, so)" by (cases item) auto
  with Cons.prems(2) obtain b d1 where d1: "UpsertStorePaymentMethod now orgID s i active so d = (Inr (b, d1) :: 's go_error + _)"
    "upsert_each now orgID s items d1 = (Inr d' :: 's go_error + _)"
    by (auto simp: result_simps)
  note up = upsert_InrD [OF Cons.prems(1) d1(1)]
  from Cons.IH [OF up(1) d1(2)] up show ?case
    by (auto simp: item map_add_def split: option.splits if_splits)
qed simp

lemma bindings_kept:
  assumes "shop_ok d" "upsert_each now orgID s items d = (Inr d' :: 's go_error + _)"
    and "(\<forall>item \<in> set items. fst (snd item)) \<or> (\<exists>i so. map_of (rev items) i = Some (True, so) \<and> active_method orgID i d)"
  shows "keeps_open d d'"
proof -
  from assms(1) have u: "methods.unique d" "store_methods.unique d" by (simp_all add: shop_ok_def)
  note up = upsert_each_InrD [OF u(2) assms(2)]
  have same: "active_store g q d' = active_store g q d" "active_method g j d' = active_method g j d" "shop_ok d'" for g q j
    using up u by (simp_all add: active_store_def active_method_def shop_ok_def methods.unique_def)
  have "operational g q d'" if op: "operational g q d" for g q
  proof -
    from op obtain j where j: "active_method g j d" "bound g q j d" by (auto simp: operational_def)
    consider (other) "g \<noteq> orgID \<or> q \<noteq> s" | (all) "\<forall>item \<in> set items. fst (snd item)"
      | (one) i so where "g = orgID" "q = s" "map_of (rev items) i = Some (True, so)" "active_method orgID i d"
      using assms(3) by blast
    then show ?thesis
    proof cases
      case other
      then have "bound g q j d'" using up j(2) by (auto split: option.splits)
      with j(1) show ?thesis by (auto simp: operational_def same)
    next
      case all
      then have "a" if "(i, a, so) \<in> set items" for i a so using that by force
      then have "bound g q j d'" using up j(2) by (auto split: option.splits dest!: map_of_SomeD)
      with j(1) show ?thesis by (auto simp: operational_def same)
    next
      case one
      then have "bound g q i d'" using up by auto
      with one show ?thesis by (auto simp: operational_def same)
    qed
  qed
  with same show ?thesis by (simp add: keeps_open_def)
qed

lemma upsert_each_append:
  "(upsert_each now orgID s (xs @ ys) d :: 's go_error + _) = chain (upsert_each now orgID s xs d) (upsert_each now orgID s ys)"
proof (induction xs arbitrary: d)
  case (Cons x xs)
  obtain i a so where x: "x = (i, a, so)" by (cases x) auto
  show ?case by (cases "UpsertStorePaymentMethod now orgID s i a so d :: 's go_error + _") (auto simp: x Cons)
qed simp

section \<open>Rows that are added\<close>

lemma create_method_kept:
  assumes "shop_ok d" "CreatePaymentMethodForOrganization E now orgID P d = (Inr (m, d') :: 's go_error + _)"
  shows "keeps_open d d'"
proof -
  from assms(2) obtain n where s: "List.find (\<lambda>q. Method_ID q = Method_ID m) (shop_methods d) = None"
    "d' = d\<lparr>sh_trade := (sh_trade d)\<lparr>db_payment_methods := shop_methods d @ [m], db_uuid_calls := n\<rparr>\<rparr>"
    by (auto simp: CreatePaymentMethodForOrganization_def Let_def result_simps)
  have "methods.unique d'"
    using methods.unique_insert [of d m d'] s assms(1) by (simp add: shop_ok_def methods.unique_def)
  with assms(1) have ok: "shop_ok d'" by (simp add: shop_ok_def store_methods.unique_def s(2))
  have same: "active_store g q d' = active_store g q d" "bound g q i d' = bound g q i d" for g q i
    by (simp_all add: active_store_def bound_def s(2))
  have "active_method g i d \<longrightarrow> active_method g i d'" for g i
    by (auto simp: active_method_def s(2))
  with ok same show ?thesis unfolding keeps_open_def operational_def by metis
qed

lemma create_store_kept:
  assumes "shop_ok d" "CreateStore_row E now orgID code name timezone u d = (Inr (s, d') :: 's go_error + _)"
  shows "keeps_open d d'"
proof -
  from assms(2) have s: "shop_stores d' = shop_stores d @ [s]" "shop_methods d' = shop_methods d" "shop_bindings d' = shop_bindings d"
    by (auto simp: CreateStore_row_def Let_def result_simps)
  have "active_store g q d'" if "active_store g q d" for g q
    using that by (auto simp: active_store_def s)
  then show ?thesis
    using assms(1) by (auto simp: keeps_open_def shop_ok_def methods.unique_def store_methods.unique_def active_method_def
        operational_def bound_def s)
qed

lemma keeps_open_trans:
  assumes "keeps_open d d1" "keeps_open d1 d2" "\<And>g s. active_store g s d \<Longrightarrow> active_store g s d1"
  shows "keeps_open d d2"
  using assms unfolding keeps_open_def by blast

section \<open>The pages of active stores\<close>

text \<open>A store that has no other operational method than the one to be deactivated.\<close>

definition last_method :: "uuid \<Rightarrow> uuid \<Rightarrow> uuid \<Rightarrow> shop_db \<Rightarrow> bool" where
  "last_method g s i d \<longleftrightarrow>
     (case GetStorePaymentMethodForOrganization g s i d :: stores_error + _ of
        Inl _ \<Rightarrow> False | Inr b \<Rightarrow> Binding_IsActive b \<and> CountOperationalPaymentMethodsForStore g s d \<le> 1)"

definition active_stores :: "env \<Rightarrow> uuid \<Rightarrow> shop_db \<Rightarrow> store list" where
  "active_stores E g d = sort_key (\<lambda>s. (collation_key E (Store_Name s), Store_ID s))
     (filter (\<lambda>s. Store_OrganizationID s = g \<and> Store_Status s = StoreACTIVE) (shop_stores d))"

lemma page_allows_eq:
  "page_allows g i d ss = (if \<exists>s \<in> set ss. last_method g (Store_ID s) i d then Inl (Sentinel Stores_ErrLastOperationalPaymentMethod) else Inr ())"
proof (induction ss)
  case (Cons s ss)
  show ?case
  proof (cases "List.find (\<lambda>b. binding_key b = (g, Store_ID s, i)) (shop_bindings d)")
    case None
    then have "GetStorePaymentMethodForOrganization g (Store_ID s) i d = (Inl ErrNoRows :: stores_error + _)"
      by (simp add: GetStorePaymentMethodForOrganization_def)
    with Cons show ?thesis by (simp add: last_method_def)
  next
    case (Some b)
    then have "GetStorePaymentMethodForOrganization g (Store_ID s) i d = (Inr b :: stores_error + _)"
      by (simp add: GetStorePaymentMethodForOrganization_def)
    with Cons show ?thesis by (simp add: last_method_def)
  qed
qed simp

lemma page_allows_append: "page_allows g i d (xs @ ys) = chain (page_allows g i d xs) (\<lambda>_. page_allows g i d ys)"
  by (auto simp: page_allows_eq)

lemma active_page:
  "ListStoresForOrganization E g (Some StoreACTIVE) None n 100 d =
     (if n < 0 then Inl (PgError ''2201X'' []) else Inr (take 100 (drop (nat n) (active_stores E g d))))"
  by (simp add: ListStoresForOrganization_def active_stores_def store_matches_def [abs_def])

lemma deactivation_pages_step:
  assumes "0 \<le> int32 k"
  shows "deactivation_pages E g i d k = (case page_allows g i d (take 100 (drop (nat (int32 k)) (active_stores E g d))) of
      Inl e \<Rightarrow> Inl e
    | Inr _ \<Rightarrow> if length (active_stores E g d) < nat (int32 k) + 100 then Inr () else deactivation_pages E g i d (k + 100))"
proof -
  have "length (take 100 (drop n xs)) < 100 \<longleftrightarrow> length xs < n + 100" for xs :: "store list" and n by auto
  then show ?thesis
    using assms by (subst deactivation_pages.simps) (simp add: active_page split: sum.splits)
qed

lemma deactivation_pages_negative: "int32 k < 0 \<Longrightarrow> \<exists>e. deactivation_pages E g i d k = Inl e"
  by (subst deactivation_pages.simps) (simp add: active_page)

lemma drop_page: "drop n xs = take 100 (drop n xs) @ drop (n + 100) xs"
  by (metis append_take_drop_id drop_drop add.commute)

lemma deactivation_pages_sound:
  assumes "deactivation_pages E g i d k = Inr ()" "0 \<le> int32 k"
  shows "page_allows g i d (drop (nat (int32 k)) (active_stores E g d)) = Inr ()"
  using assms
proof (induction E g i d k rule: deactivation_pages.induct)
  case (1 E g i d k)
  let ?xs = "active_stores E g d" let ?n = "nat (int32 k)"
  from 1(2,3) have page: "page_allows g i d (take 100 (drop ?n ?xs)) = Inr ()"
    and rest: "length ?xs < ?n + 100 \<or> deactivation_pages E g i d (k + 100) = Inr ()"
    by (auto simp: deactivation_pages_step split: sum.splits if_splits)
  have "page_allows g i d (drop (?n + 100) ?xs) = Inr ()"
  proof (cases "length ?xs < ?n + 100")
    case False
    with rest have next_ok: "deactivation_pages E g i d (k + 100) = Inr ()" by blast
    with deactivation_pages_negative [of "k + 100" E g i d] have "0 \<le> int32 (k + 100)" by fastforce
    with int32_step [OF 1(3)] have k: "int32 (k + 100) = int32 k + 100" by linarith
    have "page_allows g i d (drop (nat (int32 (k + 100))) ?xs) = Inr ()"
      by (rule 1(1) [of "take 100 (drop ?n ?xs)" "()"])
        (use 1(3) page False next_ok \<open>0 \<le> int32 (k + 100)\<close> in \<open>simp_all add: active_page\<close>)
    then show ?thesis using 1(3) by (simp add: k nat_add_distrib)
  qed simp
  with page show ?case by (subst drop_page) (simp add: page_allows_append)
qed

lemma deactivation_pages_complete:
  assumes "k = int n" "int (length (active_stores E g d)) + 100 < 2 ^ 31" "n \<le> length (active_stores E g d)"
  shows "deactivation_pages E g i d k = page_allows g i d (drop n (active_stores E g d))"
  using assms
proof (induction E g i d k arbitrary: n rule: deactivation_pages.induct)
  case (1 E g i d k)
  let ?xs = "active_stores E g d"
  have k: "int32 k = int n" using 1(2-4) by simp
  note step = deactivation_pages_step [of k E g i d, unfolded k, simplified]
  show ?case
  proof (cases "page_allows g i d (take 100 (drop n ?xs))")
    case (Inl e)
    then show ?thesis by (subst drop_page) (simp add: step page_allows_append)
  next
    case (Inr u)
    show ?thesis
    proof (cases "length ?xs < n + 100")
      case True
      then have "take 100 (drop n ?xs) = drop n ?xs" by simp
      with Inr True show ?thesis by (simp add: step)
    next
      case False
      have "deactivation_pages E g i d (k + 100) = page_allows g i d (drop (n + 100) ?xs)"
        by (rule 1(1) [of "take 100 (drop n ?xs)" "()"])
          (use False Inr 1(2-4) in \<open>simp_all add: active_page k\<close>)
      then show ?thesis using False Inr by (subst drop_page) (simp add: step page_allows_append)
    qed
  qed
qed

lemma set_active_stores:
  "s \<in> set (active_stores E g d) \<longleftrightarrow> s \<in> set (shop_stores d) \<and> Store_OrganizationID s = g \<and> Store_Status s = StoreACTIVE"
  by (auto simp: active_stores_def)

lemma ensure_sound:
  assumes "ensurePaymentMethodCanBeDeactivated E g i d = Inr ()" "active_store g s d"
  shows "\<not> last_method g s i d"
proof -
  have "page_allows g i d (active_stores E g d) = Inr ()"
    using deactivation_pages_sound [OF assms(1) [unfolded ensurePaymentMethodCanBeDeactivated_def]] by simp
  with assms(2) show ?thesis
    by (auto simp: page_allows_eq active_store_def set_active_stores split: if_splits)
qed

section \<open>The operations\<close>

lemma bound_found: "store_methods.unique d \<Longrightarrow> bound g s i d \<Longrightarrow>
    \<exists>b. GetStorePaymentMethodForOrganization g s i d = (Inr b :: 's go_error + _) \<and> Binding_IsActive b"
proof -
  assume u: "store_methods.unique d" and b: "bound g s i d"
  then obtain b' where b': "List.find (\<lambda>b. binding_key b = (g, s, i)) (shop_bindings d) = Some b'"
    by (cases "List.find (\<lambda>b. binding_key b = (g, s, i)) (shop_bindings d)") (auto simp: bound_def find_None_iff)
  with find_SomeD [OF b'] bound_unique [OF u, of b' g s i] b show ?thesis
    by (simp add: GetStorePaymentMethodForOrganization_def)
qed

lemma deactivation_kept:
  assumes "shop_ok d" "method_may_close E orgID i d = Inr ()"
    and "DeactivatePaymentMethodForOrganization now orgID i d = (Inr (m, d') :: 's go_error + _)"
  shows "keeps_open d d'"
proof -
  have f: "Method_OrganizationID (m\<lparr>Method_IsActive := False\<rparr>) = Method_OrganizationID m \<and>
    Method_ID (m\<lparr>Method_IsActive := False\<rparr>) = Method_ID m" for m by simp
  note upd = update_method_ok [OF assms(1) assms(3) [unfolded DeactivatePaymentMethodForOrganization_def] f]
  from assms(2) have close: "ensurePaymentMethodCanBeDeactivated E orgID i d = Inr ()" "CountActivePaymentMethodsForOrganization orgID d > 1"
    by (auto simp: method_may_close_def result_simps)
  have "\<exists>q. active_method g q d'" if ex: "active_method g q d" for g q
  proof (cases "g = orgID \<and> q = i")
    case False
    with ex upd(4) [of g q] show ?thesis by auto
  next
    case True
    from update_method_InrD [OF assms(3) [unfolded DeactivatePaymentMethodForOrganization_def]] obtain pre r post where
      s: "shop_methods d = pre @ r # post" "Method_ID r = i" "Method_OrganizationID r = orgID" by blast
    from two_elements [OF _ s(1), of "\<lambda>m. Method_OrganizationID m = orgID \<and> Method_IsActive m"] close(2)
    obtain r' where r': "r' \<in> set (pre @ post)" "Method_OrganizationID r' = orgID" "Method_IsActive r'"
      by (auto simp: CountActivePaymentMethodsForOrganization_def)
    have "Method_ID r' \<noteq> i"
      using methods.unique_split [OF _ s(1)] assms(1) r'(1) s(2) by (auto simp: shop_ok_def)
    moreover have "active_method orgID (Method_ID r') d" using r' by (auto simp: active_method_def s(1))
    ultimately show ?thesis using True upd(4) [of orgID "Method_ID r'"] by auto
  qed
  moreover have "operational g s d'" if open': "active_store g s d" and op: "operational g s d" for g s
  proof -
    from op obtain j where j: "active_method g j d" "bound g s j d" by (auto simp: operational_def)
    have "\<exists>j. \<not> (g = orgID \<and> j = i) \<and> active_method g j d \<and> bound g s j d"
    proof (cases "g = orgID \<and> j = i")
      case True
      have "\<not> last_method orgID s i d" using ensure_sound [OF close(1), of s] open' True by simp
      with bound_found [of d orgID s i, where ?'s = stores_sentinel] assms(1) j(2) True
      have "CountOperationalPaymentMethodsForStore orgID s d > 1" by (auto simp: last_method_def shop_ok_def)
      with another_operational [OF assms(1), of orgID s i] True show ?thesis by auto
    qed (use j in auto)
    then obtain j' where j': "\<not> (g = orgID \<and> j' = i)" "active_method g j' d" "bound g s j' d" by blast
    then have "active_method g j' d'" "bound g s j' d'" by (auto simp: upd(3,4))
    then show ?thesis by (auto simp: operational_def)
  qed
  ultimately show ?thesis unfolding keeps_open_def using upd(1,2) by blast
qed

lemma set_store_status_tx_kept:
  assumes "shop_ok d" "set_store_status_tx E S txnow M p orgID i target d = Inr (r, d')"
  shows "keeps_open d d'"
proof (cases "d' = d")
  case True
  with keeps_open_refl [OF assms(1)] show ?thesis by simp
next
  case False
  with assms(2) obtain current updated d1 where c: "LockStoreForStatusChange orgID i d = (Inr current :: stores_error + _)"
    "Store_Status current = StoreACTIVE \<and> target \<noteq> StoreACTIVE \<longrightarrow> store_may_close orgID i d = Inr ()"
    "UpdateStoreStatus txnow target orgID i d = (Inr (updated, d1) :: stores_error + _)" "same_shop d1 d'"
    by (auto simp: set_store_status_tx_def result_simps Let_def dest!: audit_same split: if_splits)
  have "keeps_open d d1"
  proof (rule status_kept [OF assms(1) c(3) [unfolded UpdateStoreStatus_def]])
    assume "Store_Status updated \<noteq> StoreACTIVE"
    then have "target \<noteq> StoreACTIVE"
      using UpdateStoreStatus_InrD(2) [OF c(3)] by simp
    with c(1,2) show "(\<exists>r. store_of orgID i (sh_auth d) = Some r \<and> Store_Status r \<noteq> StoreACTIVE) \<or> CountActiveStores orgID d > 1"
      by (auto simp: LockStoreForStatusChange_def result_simps store_may_close_def)
  qed simp
  with c(4) show ?thesis by (simp add: keeps_open_same)
qed

lemma create_store_tx_kept:
  assumes "shop_ok d" "create_store_tx E S txnow M p orgID n copyMethods d = Inr (r, d')"
  shows "keeps_open d d'"
proof -
  obtain code name timezone where n: "n = (code, name, timezone)" by (cases n) auto
  from assms(2) obtain u d1 d2 where c: "CreateStore_row E txnow orgID code name timezone u d = (Inr (r, d1) :: stores_error + _)"
    "(if copyMethods then wrap_error ''copy payment methods to store'' (CopyActivePaymentMethodsToStore txnow (Store_ID r) orgID d1)
      else Inr d1) = (Inr d2 :: stores_error + _)" "same_shop d2 d'"
    by (auto simp: create_store_tx_def n result_simps dest!: audit_same split: option.splits)
  have k1: "keeps_open d d1" using create_store_kept [OF assms(1) c(1)] .
  then have ok1: "shop_ok d1" by (simp add: keeps_open_def)
  have "keeps_open d1 d2"
  proof (cases copyMethods)
    case False
    with c(2) keeps_open_refl [OF ok1] show ?thesis by simp
  next
    case True
    let ?items = "map (\<lambda>m. (Method_ID m, True, Method_SortOrder m)) (filter (\<lambda>m. Method_OrganizationID m = orgID \<and> Method_IsActive m) (shop_methods d1))"
    from True c(2) have up: "upsert_each txnow orgID (Store_ID r) ?items d1 = (Inr d2 :: stores_error + _)"
      by (simp add: CopyActivePaymentMethodsToStore_def result_simps)
    show ?thesis by (rule bindings_kept [OF ok1 up]) simp
  qed
  moreover have "active_store g s d1" if "active_store g s d" for g s
    using that c(1) by (auto simp: active_store_def CreateStore_row_def Let_def result_simps)
  ultimately show ?thesis using keeps_open_trans [OF k1] c(3) by (simp add: keeps_open_same)
qed

lemma update_store_tx_kept:
  assumes "shop_ok d" "update_store_tx E S txnow M p orgID i n d = Inr (r, d')"
  shows "keeps_open d d'"
proof -
  obtain code name timezone where n: "n = (code, name, timezone)" by (cases n) auto
  from assms(2) obtain d1 where c: "update_store txnow (\<lambda>s. s\<lparr>Store_Code := code, Store_Name := name, Store_Timezone := timezone\<rparr>) orgID i d =
      (Inr (r, d1) :: stores_error + _)" "same_shop d1 d'"
    by (auto simp: update_store_tx_def n result_simps UpdateStore_row_def dest!: audit_same)
  have "keeps_open d d1" by (rule store_kept [OF assms(1) c(1)]) simp
  with c(2) show ?thesis by (simp add: keeps_open_same)
qed

lemma create_method_tx_kept:
  assumes "shop_ok d" "create_method_tx E S txnow M p orgID n d = Inr (r, d')"
  shows "keeps_open d d'"
proof -
  from assms(2) obtain d1 where c: "CreatePaymentMethodForOrganization E txnow orgID n d = (Inr (r, d1) :: stores_error + _)" "same_shop d1 d'"
    by (auto simp: create_method_tx_def result_simps dest!: audit_same)
  with create_method_kept [OF assms(1) c(1)] show ?thesis by (simp add: keeps_open_same)
qed

lemma update_method_tx_kept:
  assumes "shop_ok d" "update_method_tx E S txnow M p orgID i n d = Inr (r, d')"
  shows "keeps_open d d'"
proof -
  from assms(2) obtain fee d1 where c: "update_method txnow (\<lambda>m. m\<lparr>Method_Code := MP_Code n, Method_Name := MP_Name n, Method_Kind := MP_Kind n,
       Method_Provider := MP_Provider n, Method_AllowsChange := MP_AllowsChange n,
       Method_RequiresExternalReference := MP_RequiresExternalReference n,
       Method_AllowsInstallments := MP_AllowsInstallments n, Method_MaxInstallments := MP_MaxInstallments n,
       Method_FeePercentage := fee, Method_SettlementDays := MP_SettlementDays n, Method_SortOrder := MP_SortOrder n\<rparr>)
       orgID i d = (Inr (r, d1) :: stores_error + _)" "same_shop d1 d'"
    by (auto simp: update_method_tx_def result_simps UpdatePaymentMethodForOrganization_def dest!: audit_same)
  have "Method_IsActive r" if "active_method orgID i d"
  proof -
    from update_method_InrD [OF c(1)] obtain pre q post where s: "shop_methods d = pre @ q # post" "Method_ID q = i"
      "Method_IsActive r = Method_IsActive q" by auto
    with that methods.unique_split [OF _ s(1)] assms(1) show ?thesis
      by (auto simp: active_method_def shop_ok_def)
  qed
  then have "keeps_open d d1" by (intro method_kept [OF assms(1) c(1)]) simp
  with c(2) show ?thesis by (simp add: keeps_open_same)
qed

lemma set_method_status_tx_kept:
  assumes "shop_ok d" "set_method_status_tx E S txnow M p orgID i active d = Inr (r, d')"
  shows "keeps_open d d'"
proof (cases "d' = d")
  case True
  with keeps_open_refl [OF assms(1)] show ?thesis by simp
next
  case False
  show ?thesis
  proof (cases active)
    case True
    with False assms(2) obtain d1 where c: "update_method txnow (\<lambda>m. m\<lparr>Method_IsActive := True\<rparr>) orgID i d = (Inr (r, d1) :: stores_error + _)"
      "same_shop d1 d'"
      by (auto simp: set_method_status_tx_def result_simps ActivatePaymentMethodForOrganization_def dest!: audit_same split: if_splits)
    from update_method_InrD [OF c(1)] have "Method_IsActive r" by auto
    then have "keeps_open d d1" by (intro method_kept [OF assms(1) c(1)]) simp_all
    with c(2) show ?thesis by (simp add: keeps_open_same)
  next
    case inactive: False
    with False assms(2) obtain d1 where c: "method_may_close E orgID i d = Inr ()"
      "DeactivatePaymentMethodForOrganization txnow orgID i d = (Inr (r, d1) :: stores_error + _)" "same_shop d1 d'"
      by (auto simp: set_method_status_tx_def result_simps dest!: audit_same split: if_splits)
    from deactivation_kept [OF assms(1) c(1,2)] c(3) show ?thesis by (simp add: keeps_open_same)
  qed
qed

lemma desired_methods_distinct:
  "desired_methods E k seen items = Inr desired \<Longrightarrow>
    distinct (map (\<lambda>x. uuid_String E (fst x)) desired) \<and> set seen \<inter> (\<lambda>x. uuid_String E (fst x)) ` set desired = {}"
proof (induction items arbitrary: k seen desired)
  case (Cons item items)
  from Cons.prems obtain i rest where i: "uuid_String E i \<notin> set seen"
    "desired_methods E (Suc k) (uuid_String E i # seen) items = Inr rest" "desired = (i, SMI_IsActive item, SMI_SortOrder item) # rest"
    by (auto simp: result_simps)
  from Cons.IH [OF i(2)] i(1,3) show ?case by auto
qed simp

lemma method_found:
  "GetPaymentMethodByIDForOrganization orgID i (sh_trade d) = (Inr m :: 's go_error + _) \<Longrightarrow> Method_IsActive m \<Longrightarrow> active_method orgID i d"
  by (auto simp: GetPaymentMethodByIDForOrganization_def result_simps active_method_def dest!: find_SomeD)

lemma replace_methods_tx_kept:
  assumes "shop_ok d" "replace_methods_tx E S txnow M p orgID s desired d = Inr (r, d')"
    and "distinct (map fst desired)" "list_ex (\<lambda>(_, active, _). active) desired"
  shows "keeps_open d d'"
proof -
  define omitted where "omitted = [(Binding_PaymentMethodID b, False, Binding_SortOrder b). (b, _) \<leftarrow> ListStorePaymentMethods E orgID s d,
           uuid_String E (Binding_PaymentMethodID b) \<notin> uuid_String E ` fst ` set desired]"
  from assms(2) obtain ys d1 d2 where c: "map_result (desired_ok orgID d) desired = (Inr ys :: stores_error + _)"
    "upsert_each txnow orgID s omitted d = (Inr d1 :: stores_error + _)" "upsert_each txnow orgID s desired d1 = (Inr d2 :: stores_error + _)"
    "same_shop d2 d'"
    unfolding replace_methods_tx_def Let_def omitted_def [symmetric] by (auto simp: result_simps dest!: audit_same)
  from assms(4) obtain i so where i: "(i, True, so) \<in> set desired" by (auto simp: list_ex_iff)
  with c(1) obtain y where "desired_ok orgID d (i, True, so) = (Inr y :: stores_error + _)"
    by (auto simp: map_result_eq_Inr list_all2_conv_all_nth in_set_conv_nth)
  then have "active_method orgID i d" by (auto simp: desired_ok_def result_simps dest: method_found)
  moreover have "map_of (rev desired) i = Some (True, so)"
    using i assms(3) by (intro map_of_is_SomeI) (simp_all add: rev_map [symmetric])
  then have "map_of (rev (omitted @ desired)) i = Some (True, so)" by (simp add: map_add_Some_iff)
  moreover have "upsert_each txnow orgID s (omitted @ desired) d = (Inr d2 :: stores_error + _)"
    by (simp add: upsert_each_append c(2,3))
  ultimately have "keeps_open d d2" by (blast intro: bindings_kept [OF assms(1)])
  with c(4) show ?thesis by (simp add: keeps_open_same)
qed

lemma update_binding_tx_kept:
  assumes "shop_ok d" "update_binding_tx E S txnow M p orgID s i input d = Inr (r, d')"
  shows "keeps_open d d'"
proof -
  from assms(2) obtain m current where
    c: "(case GetStorePaymentMethodForOrganization orgID s i d :: stores_error + _ of
          Inl e \<Rightarrow> if errors_Is_NoRows e then Inr None else Inl (Wrapped ''get store payment method'' e) | Inr b \<Rightarrow> Inr (Some b)) = Inr current"
    and w: "write_binding E S txnow M p orgID s i input m current d = Inr (r, d')"
    unfolding update_binding_tx_def chain_eq_Inr by blast
  obtain active so where req: "requested_binding input m current = (active, so)" by fastforce
  obtain b d1 where d1: "UpsertStorePaymentMethod txnow orgID s i active so d = (Inr (b, d1) :: stores_error + _)" "same_shop d1 d'"
    and last: "(case current of None \<Rightarrow> False | Some b \<Rightarrow> Binding_IsActive b) \<and> \<not> active \<Longrightarrow> CountOperationalPaymentMethodsForStore orgID s d > 1"
    using w by (auto simp: write_binding_def req result_simps dest!: audit_same split: if_splits)
  have u: "methods.unique d" "store_methods.unique d" using assms(1) by (simp_all add: shop_ok_def)
  note up = upsert_InrD [OF u(2) d1(1)]
  have same: "active_store g q d1 = active_store g q d" "active_method g j d1 = active_method g j d" "shop_ok d1" for g q j
    using up(1-3) u by (simp_all add: active_store_def active_method_def shop_ok_def methods.unique_def)
  have "operational g q d1" if op: "operational g q d" for g q
  proof -
    from op obtain j where j: "active_method g j d" "bound g q j d" by (auto simp: operational_def)
    have "\<exists>j. active_method g j d \<and> bound g q j d1"
    proof (cases "(g, q, j) = (orgID, s, i) \<and> \<not> active")
      case False
      with j up(4) [of g q j] show ?thesis by (auto split: if_splits)
    next
      case True
      with bound_found [OF u(2), of orgID s i, where ?'s = stores_sentinel] j(2) c last
      have "CountOperationalPaymentMethodsForStore orgID s d > 1" by auto
      with another_operational [OF assms(1), of orgID s i] up(4) [of orgID s] True show ?thesis by auto
    qed
    then show ?thesis by (auto simp: operational_def same)
  qed
  then have "keeps_open d d1" using same by (simp add: keeps_open_def)
  with d1(2) show ?thesis by (simp add: keeps_open_same)
qed

text \<open>A step of the service: one of its operations that write, for any principal and input.\<close>

inductive store_step :: "env \<Rightarrow> stores_service \<Rightarrow> shop_db \<Rightarrow> shop_db \<Rightarrow> bool" for E S where
  create_store: "store_step E S d (snd (CreateStore E S T M p create d))"
| update_store: "store_step E S d (snd (UpdateStore E S T M p rawID update d))"
| set_store_status: "store_step E S d (fst (snd (setStoreStatus E S T M p rawID target d)))"
| create_method: "store_step E S d (snd (CreateOrganizationPaymentMethod E S T M p method d))"
| update_method: "store_step E S d (snd (UpdateOrganizationPaymentMethod E S T M p rawID method d))"
| set_method_status: "store_step E S d (snd (setOrganizationPaymentMethodStatus E S T M p rawID active d))"
| replace_methods: "store_step E S d (snd (ReplaceStorePaymentMethods E S T M p rawID items d))"
| update_binding: "store_step E S d (snd (UpdateStorePaymentMethod E S T M p rawID rawMethodID binding d))"

lemma WithTx_kept:
  assumes "shop_ok d" "\<And>r d1. fn d = Inr (r, d1) \<Longrightarrow> keeps_open d d1"
  shows "keeps_open d (snd (WithTx T fn d))"
  using assms keeps_open_refl by (cases rule: WithTx_cases [of T fn d]) auto

lemmas tx_kept = create_store_tx_kept update_store_tx_kept set_store_status_tx_kept create_method_tx_kept update_method_tx_kept
  set_method_status_tx_kept update_binding_tx_kept

lemmas store_operations = CreateStore_def UpdateStore_def setStoreStatus_def CreateOrganizationPaymentMethod_def
  UpdateOrganizationPaymentMethod_def setOrganizationPaymentMethodStatus_def UpdateStorePaymentMethod_def

lemma store_step_kept:
  assumes "store_step E S d d'" "shop_ok d"
  shows "keeps_open d d'"
  using assms(1)
proof cases
  case (replace_methods T M p rawID items)
  have "keeps_open d (snd (WithTx T (replace_methods_tx E S (tx_now T) M p orgID s desired) d))"
    if "desired_methods E 0 [] items = Inr desired" "list_ex (\<lambda>(_, active, _). active) desired" for orgID s desired
  proof (rule WithTx_kept [OF assms(2)])
    from desired_methods_distinct [OF that(1)] have "distinct (map (uuid_String E) (map fst desired))" by (simp add: comp_def)
    then have "distinct (map fst desired)" by (simp only: distinct_map [of "uuid_String E"])
    with that(2) show "keeps_open d d1" if "replace_methods_tx E S (tx_now T) M p orgID s desired d = Inr (r, d1)" for r d1
      using replace_methods_tx_kept [OF assms(2) that] by blast
  qed
  then show ?thesis
    unfolding replace_methods ReplaceStorePaymentMethods_def
    by (auto simp: keeps_open_refl assms(2) case_prod_beta result_simps split: sum.split)
qed (auto simp: store_operations keeps_open_refl assms(2) case_prod_beta split: sum.split
  intro!: WithTx_kept [OF assms(2)] elim: tx_kept [OF assms(2)])

end
