(* ===== verification/Store_Properties.thy ===== *)
theory Store_Properties
  imports Store_Behaviour Token_Properties Example
begin

text \<open>
  The properties of stores and payment methods, each with a witness on the organization Acme,
  which has two stores and two payment methods.
\<close>

section \<open>Acme's stores\<close>

definition acme_store :: "uuid \<Rightarrow> string \<Rightarrow> store" where
  "acme_store i code = \<lparr>Store_ID = i, Store_OrganizationID = 1, Store_Code = code, Store_Name = code, Store_Status = StoreACTIVE,
     Store_Timezone = ''UTC'', Store_CreatedByUserID = Some 7, Store_ArchivedAt = None, Store_CreatedAt = 0, Store_UpdatedAt = 0\<rparr>"

definition acme_card :: payment_method where
  "acme_card = example_method\<lparr>Method_ID := 21, Method_Code := ''CARD'', Method_Name := ''Card'', Method_Kind := PMDEBIT_CARD,
     Method_AllowsChange := False, Method_SortOrder := 2, Method_CreatedAt := 0, Method_UpdatedAt := 0\<rparr>"

definition acme_offer :: "uuid \<Rightarrow> uuid \<Rightarrow> store_payment_method" where
  "acme_offer s i = \<lparr>Binding_OrganizationID = 1, Binding_StoreID = s, Binding_PaymentMethodID = i, Binding_IsActive = True,
     Binding_SortOrder = 1, Binding_CreatedAt = 0, Binding_UpdatedAt = 0\<rparr>"

text \<open>Bia works in the first store, which takes cash and cards; the second takes cash.\<close>

definition acme_bia_session :: auth_session where
  "acme_bia_session = acme_session\<lparr>Ses_ContextKind := CtxSTORE, Ses_StoreID := Some 2\<rparr>"

definition acme_shop :: shop_db where
  "acme_shop = \<lparr>sh_auth = acme\<lparr>au_stores := [acme_store 2 ''CENTRO'', acme_store 5 ''NORTE''], au_sessions := [acme_bia_session]\<rparr>,
     sh_trade = example_shop\<lparr>db_payment_methods := [example_method, acme_card],
       db_store_payment_methods := [acme_offer 2 20, acme_offer 2 21, acme_offer 5 20]\<rparr>\<rparr>"

definition acme_stores_service :: stores_service where
  "acme_stores_service = \<lparr>ssv_invalidator = True, ssv_ParseAddr = (\<lambda>_. None), ssv_LoadLocation = (\<lambda>z. z = ''UTC'')\<rparr>"

lemma acme_shop_ok: "shop_ok acme_shop"
  by (simp add: shop_ok_def methods.unique_def store_methods.unique_def acme_shop_def acme_card_def example_method_def
      acme_offer_def binding_key_def)

definition acme_close :: "store_status \<Rightarrow> (stores_error + store_response) \<times> shop_db \<times> cache_invalidation list" where
  "acme_close target = setStoreStatus example_env acme_stores_service acme_txn acme_meta acme_ana (acme_id 2) target acme_shop"

definition acme_closed :: shop_db where
  "acme_closed = fst (snd (acme_close StoreINACTIVE))"

definition acme_closed_row :: store where
  "acme_closed_row = (acme_store 2 ''CENTRO'')\<lparr>Store_Status := StoreINACTIVE, Store_UpdatedAt := 100\<rparr>"

lemma acme_id_stores [simp]: "Stores_parseUUID example_env (acme_id u) field = Inr u"
  by (simp add: Stores_parseUUID_def)

lemma acme_ana_organization [simp]: "Stores_organizationID acme_ana = Inr 1"
  by code_simp

lemma acme_close_tx:
  "acme_close target =
    (case WithTx acme_txn (set_store_status_tx example_env acme_stores_service 100 acme_meta acme_ana 1 2 target) acme_shop of
       (Inl e, d') \<Rightarrow> (Inl e, d', [])
     | (Inr (updated, sessionIDs), d') \<Rightarrow> (Inr (toStoreResponse example_env updated), d', map InvalidateSession sessionIDs))"
  by (simp add: acme_close_def setStoreStatus_def acme_txn_def acme_stores_service_def split: sum.split prod.split)

lemma acme_closes:
  "acme_close StoreINACTIVE = (Inr (toStoreResponse example_env acme_closed_row), acme_closed, [InvalidateSession 40])"
proof -
  let ?tx = "WithTx acme_txn (set_store_status_tx example_env acme_stores_service 100 acme_meta acme_ana 1 2 StoreINACTIVE) acme_shop"
  have "fst ?tx = Inr (acme_closed_row, [40])" by code_simp
  then show ?thesis by (cases ?tx) (simp add: acme_closed_def acme_close_tx)
qed

lemma acme_open: "active_store 1 2 acme_shop" "active_method 1 20 acme_shop" "bound 1 2 20 acme_shop"
  by code_simp+

section \<open>What every operation keeps\<close>

lemma store_steps_kept:
  assumes "rtranclp (store_step E S) d d'" "shop_ok d"
  shows "shop_ok d' \<and> (\<forall>g. (\<exists>s. active_store g s d) \<longrightarrow> (\<exists>s. active_store g s d')) \<and>
    (\<forall>g. (\<exists>i. active_method g i d) \<longrightarrow> (\<exists>i. active_method g i d'))"
  using assms(1)
proof induction
  case (step y z)
  then have "keeps_open y z" by (blast intro: store_step_kept)
  with step.IH show ?case unfolding keeps_open_def by blast
qed (simp add: assms(2))

text \<open>C19: Through any sequence of operations on stores and payment methods, of any principals, an organization
  that has an active store keeps one, and an organization that has an active payment method keeps one.\<close>

theorem organization_stays_open:
  assumes "rtranclp (store_step E S) d d'" "shop_ok d" "active_store g s d" "active_method g i d"
  shows "(\<exists>s. active_store g s d') \<and> (\<exists>i. active_method g i d')"
  using store_steps_kept [OF assms(1,2)] assms(3,4) by blast

theorem organization_stays_open_witness:
  "(\<exists>s. active_store 1 s acme_closed) \<and> (\<exists>i. active_method 1 i acme_closed)"
proof -
  have "store_step example_env acme_stores_service acme_shop acme_closed"
    unfolding acme_closed_def acme_close_def by (rule store_step.set_store_status)
  from organization_stays_open [OF r_into_rtranclp [where r = "store_step example_env acme_stores_service", OF this] acme_shop_ok acme_open(1,2)] show ?thesis .
qed

text \<open>C20: A store that can take a payment keeps at least one operational payment method for as long as it
  is active, whatever the services do to its methods, to those of the organization and to other stores.\<close>

theorem open_store_keeps_method:
  assumes "rtranclp (\<lambda>a b. store_step E S a b \<and> active_store g s b) d d'" "shop_ok d" "active_store g s d" "operational g s d"
  shows "operational g s d'"
proof -
  from assms(1) have "shop_ok d' \<and> active_store g s d' \<and> operational g s d'"
  proof induction
    case (step y z)
    then have "keeps_open y z" by (blast intro: store_step_kept)
    with step show ?case unfolding keeps_open_def by blast
  qed (simp add: assms)
  then show ?thesis by blast
qed

definition acme_cash_only :: shop_db where
  "acme_cash_only = snd (setOrganizationPaymentMethodStatus example_env acme_stores_service acme_txn acme_meta acme_ana (acme_id 21) False acme_shop)"

theorem open_store_keeps_method_witness:
  "\<not> active_method 1 21 acme_cash_only \<and> operational 1 2 acme_cash_only"
proof
  have tx: "acme_cash_only = snd (WithTx acme_txn (set_method_status_tx example_env acme_stores_service 100 acme_meta acme_ana 1 21 False) acme_shop)"
    by (simp add: acme_cash_only_def setOrganizationPaymentMethodStatus_def acme_txn_def case_prod_beta)
  have "active_store 1 2 acme_cash_only" unfolding tx by code_simp
  moreover have "store_step example_env acme_stores_service acme_shop acme_cash_only"
    unfolding acme_cash_only_def by (rule store_step.set_method_status)
  ultimately have step: "store_step example_env acme_stores_service acme_shop acme_cash_only \<and> active_store 1 2 acme_cash_only" by blast
  have "operational 1 2 acme_shop" using acme_open(2,3) by (auto simp: operational_def)
  from open_store_keeps_method [OF r_into_rtranclp [where r = "\<lambda>a b. store_step example_env acme_stores_service a b \<and> active_store 1 2 b", OF step]
      acme_shop_ok acme_open(1) this]
  show "operational 1 2 acme_cash_only" .
  show "\<not> active_method 1 21 acme_cash_only" unfolding tx by code_simp
qed

section \<open>Deactivating a payment method\<close>

text \<open>For a method that is active, the test in the loop is whether it is the only operational one of the store.\<close>

lemma two_members: "x \<in> set xs \<Longrightarrow> y \<in> set xs \<Longrightarrow> x \<noteq> y \<Longrightarrow> 1 < length xs"
  by (cases xs; cases "tl xs") auto

lemma two_operational:
  assumes "active_method g i d" "bound g s i d" "active_method g j d" "bound g s j d" "j \<noteq> i"
  shows "CountOperationalPaymentMethodsForStore g s d > 1"
proof -
  let ?P = "\<lambda>b m. Method_OrganizationID m = Binding_OrganizationID b \<and> Method_ID m = Binding_PaymentMethodID b \<and>
      Binding_OrganizationID b = g \<and> Binding_StoreID b = s \<and> Binding_IsActive b \<and> Method_IsActive m"
  let ?L = "filter (\<lambda>(b, m). ?P b m) (List.product (shop_bindings d) (shop_methods d))"
  have pair: "\<exists>b m. (b, m) \<in> set ?L \<and> Method_ID m = q" if "active_method g q d" "bound g s q d" for q
    using that unfolding active_method_def bound_def binding_key_def by fastforce
  obtain b m b' m' where l: "(b, m) \<in> set ?L" "Method_ID m = i" "(b', m') \<in> set ?L" "Method_ID m' = j"
    using pair [OF assms(1,2)] pair [OF assms(3,4)] by blast
  from l(2,4) assms(5) have "(b, m) \<noteq> (b', m')" by auto
  from two_members [OF l(1,3) this] show ?thesis
    unfolding CountOperationalPaymentMethodsForStore_def operational_pairs by simp
qed

lemma last_method_iff:
  assumes "shop_ok d" "active_method g i d"
  shows "last_method g s i d \<longleftrightarrow> bound g s i d \<and> (\<forall>j. active_method g j d \<and> bound g s j d \<longrightarrow> j = i)"
proof
  assume last: "last_method g s i d"
  then obtain b where "GetStorePaymentMethodForOrganization g s i d = (Inr b :: stores_error + _)" "Binding_IsActive b"
    and count: "\<not> CountOperationalPaymentMethodsForStore g s d > 1"
    by (auto simp: last_method_def split: sum.splits)
  then have b: "bound g s i d"
    by (auto simp: GetStorePaymentMethodForOrganization_def one_row_eq_Inr bound_def dest!: find_SomeD)
  with count two_operational [OF assms(2) b]
  show "bound g s i d \<and> (\<forall>j. active_method g j d \<and> bound g s j d \<longrightarrow> j = i)" by blast
next
  assume only: "bound g s i d \<and> (\<forall>j. active_method g j d \<and> bound g s j d \<longrightarrow> j = i)"
  from assms(1) have "store_methods.unique d" by (simp add: shop_ok_def)
  from bound_found [OF this, of g s i, where ?'s = stores_sentinel] only another_operational [OF assms(1), of g s i]
  show "last_method g s i d" unfolding last_method_def by force
qed

text \<open>C21: For an active method of the organization, the paged loop that guards its deactivation ends and
  decides exactly whether some active store would be left without an operational method: it refuses
  when there is an active store whose one operational method is this one, and lets through otherwise,
  however many pages there are, below the 2^31 stores that its 32 bit offset reaches.\<close>

theorem deactivation_check_complete:
  assumes "int (length (active_stores E g d)) + 100 < 2 ^ 31" "shop_ok d" "active_method g i d"
  shows "ensurePaymentMethodCanBeDeactivated E g i d =
    (if \<exists>s. active_store g s d \<and> operational g s d \<and> (\<forall>j. active_method g j d \<and> bound g s j d \<longrightarrow> j = i)
     then Inl (Sentinel Stores_ErrLastOperationalPaymentMethod) else Inr ())"
proof -
  have "last_method g s i d \<longleftrightarrow> operational g s d \<and> (\<forall>j. active_method g j d \<and> bound g s j d \<longrightarrow> j = i)" for s
    using last_method_iff [OF assms(2,3)] assms(3) unfolding operational_def by blast
  then have "(\<exists>s \<in> set (active_stores E g d). last_method g (Store_ID s) i d) \<longleftrightarrow>
      (\<exists>s. active_store g s d \<and> operational g s d \<and> (\<forall>j. active_method g j d \<and> bound g s j d \<longrightarrow> j = i))"
    unfolding active_store_def using set_active_stores by blast
  then show ?thesis
    using deactivation_pages_complete [OF _ assms(1), of 0 0 i] by (simp add: ensurePaymentMethodCanBeDeactivated_def page_allows_eq)
qed

lemma acme_operational:
  "active_method 1 j acme_shop \<longleftrightarrow> j \<in> {20, 21}" "bound 1 2 j acme_shop \<longleftrightarrow> j \<in> {20, 21}" "bound 1 5 j acme_shop \<longleftrightarrow> j = 20"
  "active_store 1 s acme_shop \<longleftrightarrow> s \<in> {2, 5}"
  by (auto simp: active_method_def bound_def active_store_def acme_shop_def acme_card_def example_method_def acme_offer_def
      acme_store_def binding_key_def)

theorem deactivation_check_complete_witness:
  "ensurePaymentMethodCanBeDeactivated example_env 1 20 acme_shop = Inl (Sentinel Stores_ErrLastOperationalPaymentMethod) \<and>
   ensurePaymentMethodCanBeDeactivated example_env 1 21 acme_shop = Inr ()"
proof
  have n: "int (length (active_stores example_env 1 acme_shop)) + 100 < 2 ^ 31" by code_simp
  have m: "active_method 1 20 acme_shop" "active_method 1 21 acme_shop" by (simp_all add: acme_operational)
  have "active_store 1 5 acme_shop \<and> operational 1 5 acme_shop \<and>
      (\<forall>j. active_method 1 j acme_shop \<and> bound 1 5 j acme_shop \<longrightarrow> j = 20)"
    by (simp add: acme_operational operational_def)
  then show "ensurePaymentMethodCanBeDeactivated example_env 1 20 acme_shop = Inl (Sentinel Stores_ErrLastOperationalPaymentMethod)"
    unfolding deactivation_check_complete [OF n acme_shop_ok m(1)] by (subst if_P) blast+
  have "bound 1 s 20 acme_shop" if "active_store 1 s acme_shop" for s
    using that by (auto simp: acme_operational)
  moreover have "(20 :: uuid) \<noteq> 21" by simp
  ultimately show "ensurePaymentMethodCanBeDeactivated example_env 1 21 acme_shop = Inr ()"
    unfolding deactivation_check_complete [OF n acme_shop_ok m(2)] using m(1) by (subst if_not_P) blast+
qed

section \<open>Closing a store\<close>

lemma set_store_status_InrD:
  assumes "setStoreStatus E S T M p rawID target d = (Inr resp, d', evs)"
    and "Pr_OrganizationID p = Some g" "Stores_parseUUID E rawID ''storeId'' = Inr i"
  shows "\<exists>r ids. set_store_status_tx E S (tx_now T) M p g i target d = Inr ((r, ids), d') \<and> resp = toStoreResponse E r \<and>
    evs = (if ssv_invalidator S then map InvalidateSession ids else [])"
proof -
  have "Stores_organizationID p = Inr g"
    using assms unfolding Stores_organizationID_def setStoreStatus_def by (auto split: option.splits if_splits)
  with assms obtain r ids where "set_store_status_tx E S (tx_now T) M p g i target d = Inr ((r, ids), d')" "resp = toStoreResponse E r"
    "evs = (if ssv_invalidator S then map InvalidateSession ids else [])"
    by (auto simp: setStoreStatus_def result_simps split: prod.splits sum.splits)
  then show ?thesis by blast
qed

text \<open>What a transaction that commits has done: nothing, or a change of the status, with its guard.\<close>

lemma set_store_status_tx_cases:
  assumes "set_store_status_tx E S txnow M p g i target d = Inr ((r, ids), d')"
  obtains (same) "d' = d" "ids = []" "store_of g i (sh_auth d) = Some r" "Store_Status r = target"
  | (changed) current d1 where "store_of g i (sh_auth d) = Some current" "Store_Status current \<noteq> target"
      "Store_Status current = StoreACTIVE \<and> target \<noteq> StoreACTIVE \<longrightarrow> store_may_close g i d = Inr ()"
      "UpdateStoreStatus txnow target g i d = (Inr (r, d1) :: stores_error + _)" "same_shop d1 d'"
      "au_sessions (sh_auth d') = au_sessions (sh_auth d1)"
      "ids = (if target \<noteq> StoreACTIVE then ListSessionIDsForStore g i d1 else [])"
proof -
  from assms obtain current where c: "store_of g i (sh_auth d) = Some current"
    by (auto simp: set_store_status_tx_def result_simps LockStoreForStatusChange_def)
  show thesis
  proof (cases "Store_Status current = target")
    case True
    with assms c show thesis by (intro same) (auto simp: set_store_status_tx_def result_simps LockStoreForStatusChange_def)
  next
    case False
    with assms c obtain d1 meta where s: "Store_Status current = StoreACTIVE \<and> target \<noteq> StoreACTIVE \<longrightarrow> store_may_close g i d = Inr ()"
      "UpdateStoreStatus txnow target g i d = (Inr (r, d1) :: stores_error + _)"
      "stores_writeAudit E S txnow M p ''store.status_changed'' ''store'' (Store_ID r) (Some (Store_ID r)) meta d1 = Inr d'"
      "ids = (if target \<noteq> StoreACTIVE then ListSessionIDsForStore g i d1 else [])"
      by (auto simp: set_store_status_tx_def result_simps Let_def LockStoreForStatusChange_def split: if_splits)
    show thesis by (rule changed [OF c False s(1,2) audit_same [OF s(3)] audit_sessions [OF s(3)] s(4)])
  qed
qed

lemma closed_status:
  assumes "set_store_status_tx E S txnow M p g i target d = Inr ((r, ids), d')"
  shows "store_of g i (sh_auth d') = Some r \<and> Store_Status r = target"
  using assms
proof (cases rule: set_store_status_tx_cases)
  case (changed current d1)
  with UpdateStoreStatus_InrD [OF changed(4)] same_shopD(6) [OF changed(5)] show ?thesis by (simp add: store_of_def)
qed simp

text \<open>C22: When a request takes an active store out of work, the store ends with the requested status, it has no
  open sale, another store of the organization is active, the trade of the organization is
  untouched, and the cached state of every session in the store is invalidated.\<close>

theorem closing_store:
  assumes "setStoreStatus E S T M p rawID target d = (Inr resp, d', evs)" "target \<noteq> StoreACTIVE"
    and "Pr_OrganizationID p = Some g" "Stores_parseUUID E rawID ''storeId'' = Inr i"
    and "store_of g i (sh_auth d) = Some current" "Store_Status current = StoreACTIVE"
  shows "\<exists>r. store_of g i (sh_auth d') = Some r \<and> Store_Status r = target \<and> resp = toStoreResponse E r \<and>
    (\<forall>s \<in> set (db_sales (sh_trade d')). \<not> (Sale_OrganizationID s = g \<and> Sale_StoreID s = i \<and> Sale_Status s = SaleOPEN)) \<and>
    (\<exists>j. active_store g j d') \<and> sh_trade d' = sh_trade d \<and>
    evs = (if ssv_invalidator S then map InvalidateSession (ListSessionIDsForStore g i d') else [])"
proof -
  from set_store_status_InrD [OF assms(1,3,4)] obtain r ids where
    tx: "set_store_status_tx E S (tx_now T) M p g i target d = Inr ((r, ids), d')" and resp: "resp = toStoreResponse E r"
    and evs: "evs = (if ssv_invalidator S then map InvalidateSession ids else [])" by blast
  from tx show ?thesis
  proof (cases rule: set_store_status_tx_cases)
    case same
    with assms(2,5,6) show ?thesis by simp
  next
    case (changed c d1)
    with assms(2,5,6) have may: "store_may_close g i d = Inr ()" by simp
    from may have count: "CountActiveStores g d > 1" by (auto simp: store_may_close_def result_simps)
    have "\<exists>s. active_store g s d"
      using assms(5,6) find_SomeD [OF assms(5) [unfolded store_of_def]] unfolding active_store_def by blast
    then have "\<exists>j. active_store g j d1"
      by (intro active_store_left [OF changed(4) [unfolded UpdateStoreStatus_def]]) (use count in auto)
    with may UpdateStoreStatus_InrD(3) [OF changed(4)] closed_status [OF tx] changed(6,7) assms(2) same_shopD [OF changed(5)] show ?thesis
      by (simp add: resp evs store_may_close_def result_simps HasOpenSalesForStore_def list_ex_iff ListSessionIDsForStore_def)
  qed
qed

theorem closing_store_witness:
  "\<exists>r. store_of 1 2 (sh_auth acme_closed) = Some r \<and> Store_Status r = StoreINACTIVE \<and>
    toStoreResponse example_env acme_closed_row = toStoreResponse example_env r \<and> sh_trade acme_closed = sh_trade acme_shop \<and>
    [InvalidateSession 40] = map InvalidateSession (ListSessionIDsForStore 1 2 acme_closed)"
proof -
  have "store_of 1 2 (sh_auth acme_shop) = Some (acme_store 2 ''CENTRO'')" "Store_Status (acme_store 2 ''CENTRO'') = StoreACTIVE"
    "Pr_OrganizationID acme_ana = Some 1" "ssv_invalidator acme_stores_service"
    by (simp_all add: store_of_def acme_shop_def acme_store_def acme_ana_def acme_stores_service_def)
  then show ?thesis
    using closing_store [OF acme_closes [unfolded acme_close_def] _ _ acme_id_stores, of 1 "acme_store 2 ''CENTRO''"] by auto
qed

text \<open>The checks of a session refuse with 401 or 403.\<close>

lemma validations_refuse:
  "validateSessionStatus s now = Inl e \<Longrightarrow> fst (Authn_mapErr e) \<in> {401, 403}"
  "validateUserStatus us = Inl e \<Longrightarrow> fst (Authn_mapErr e) \<in> {401, 403}"
  "validateOrgStatus os = Inl e \<Longrightarrow> fst (Authn_mapErr e) \<in> {401, 403}"
  "validateMembershipStatus ms = Inl e \<Longrightarrow> fst (Authn_mapErr e) \<in> {401, 403}"
  "validateStoreStatus ss = Inl e \<Longrightarrow> fst (Authn_mapErr e) \<in> {401, 403}"
  "validateContext c s = Inl e \<Longrightarrow> fst (Authn_mapErr e) \<in> {401, 403}"
  "validateVersions c st = Inl e \<Longrightarrow> fst (Authn_mapErr e) \<in> {401, 403}"
  subgoal by (auto simp: validateSessionStatus_def result_simps Authn_mapErr_def split: auth_session_status.splits)
  subgoal by (auto simp: validateUserStatus_def Authn_mapErr_def split: user_status.splits)
  subgoal by (auto simp: validateOrgStatus_def Authn_mapErr_def split: option.splits organization_status.splits)
  subgoal by (auto simp: validateMembershipStatus_def Authn_mapErr_def split: option.splits membership_status.splits)
  subgoal by (auto simp: validateStoreStatus_def Authn_mapErr_def split: option.splits store_status.splits)
  subgoal by (auto simp: validateContext_def Let_def Authn_mapErr_def split: if_splits)
  subgoal by (auto simp: validateVersions_def Let_def Authn_mapErr_def split: if_splits option.splits)
  done

lemma session_checks_refuse: "session_checks c user state now = Inl r \<Longrightarrow> fst r \<in> {401, 403}"
  by (auto simp: session_checks_def Let_def chain_eq_Inl guard_error_eq_Inl on_error_def split: sum.splits dest: validations_refuse)

lemma closed_store_checks:
  assumes "SSR_StoreStatus state = Some st" "st \<noteq> StoreACTIVE"
  shows "\<exists>status code message. session_checks c user state now = Inl (status, code, message) \<and> status \<in> {401, 403}"
proof (cases "session_checks c user state now")
  case (Inl r)
  with session_checks_refuse [OF Inl] show ?thesis by (cases r) auto
next
  case (Inr x)
  then have "validateStoreStatus (Some st) = Inr ()"
    by (auto simp: session_checks_def Let_def result_simps assms(1))
  with assms(2) show ?thesis by (cases st) (simp_all add: validateStoreStatus_def)
qed

text \<open>C23: Against the database that such a closing left, every request with a token of a session in that
  store is refused, with status 401 or 403, at any time and whatever the cache still says.\<close>

theorem closed_store_locked_out:
  assumes "setStoreStatus E S T M p rawID target d = (Inr resp, d', evs)" "target \<noteq> StoreACTIVE"
    and "Pr_OrganizationID p = Some g" "Stores_parseUUID E rawID ''storeId'' = Inr i"
    and "request_claims F V now h = Inr (c, sid, user)"
    and "GetAuthSessionByID sid (sh_auth d') = (Inr s :: unit go_error + _)" "Ses_OrganizationID s = Some g" "Ses_StoreID s = Some i"
  shows "\<exists>status code message. fst (RequireAccessToken F V ttl r now h (sh_auth d')) = Inl (status, code, message) \<and>
    status \<in> {401, 403}"
proof -
  let ?d = "sh_auth d'"
  from set_store_status_InrD [OF assms(1,3,4)] closed_status obtain row where
    row: "store_of g i ?d = Some row" "Store_Status row = target" by metis
  from assms(6) have f: "List.find (\<lambda>s. Ses_ID s = sid) (au_sessions ?d) = Some s"
    by (simp add: GetAuthSessionByID_def one_row_eq_Inr)
  show ?thesis
  proof (cases "List.find (\<lambda>u. User_ID u = Ses_UserID s) (au_users ?d)")
    case None
    have "getSessionState sid ?d = Inl (Joined (Sentinel Authn_ErrSessionRevoked) (OtherError ''session not found''))"
      by (simp add: getSessionState_def GetAuthSessionState_def f None)
    then show ?thesis by (simp add: RequireAccessToken_fst assms(5) answer_error_def Authn_mapErr_def)
  next
    case (Some u)
    have "getSessionState sid ?d = Inr (session_state_of ?d s u)"
      by (simp add: getSessionState_def GetAuthSessionState_def f Some)
    moreover have "SSR_StoreStatus (session_state_of ?d s u) = Some target"
      using row by (simp add: session_state_of_def Let_def assms(7,8) store_of_def)
    ultimately show ?thesis
      using closed_store_checks [of "session_state_of ?d s u" target c user now] assms(2) by (auto simp: RequireAccessToken_fst assms(5))
  qed
qed

theorem closed_store_locked_out_witness:
  "\<exists>status code message. fst (RequireAccessToken example_env acme_tokens 0 CacheFailed 100 (''Bearer '' @ ''bia.signed'') (sh_auth acme_closed)) =
     Inl (status, code, message) \<and> status \<in> {401, 403}"
proof -
  have "sh_auth acme_closed = sh_auth (snd (WithTx acme_txn (set_store_status_tx example_env acme_stores_service 100 acme_meta acme_ana 1 2 StoreINACTIVE) acme_shop))"
    by (simp add: acme_closed_def acme_close_tx split: sum.split prod.split)
  then have "au_sessions (sh_auth acme_closed) = [acme_bia_session]" by simp code_simp
  then have "GetAuthSessionByID 40 (sh_auth acme_closed) = (Inr acme_bia_session :: unit go_error + _)"
    by (simp add: GetAuthSessionByID_def acme_bia_session_def acme_session_def)
  moreover have "Ses_OrganizationID acme_bia_session = Some 1" "Ses_StoreID acme_bia_session = Some 2" "Pr_OrganizationID acme_ana = Some 1"
    by (simp_all add: acme_bia_session_def acme_session_def acme_ana_def)
  ultimately show ?thesis
    using closed_store_locked_out [OF acme_closes [unfolded acme_close_def] _ _ acme_id_stores acme_request_claims] by simp
qed

section \<open>Gaps\<close>

text \<open>
  Nothing asks for an operational method when a store is activated: closed, deprived of its only
  method, and opened again, the second store is active and cannot take a payment.
\<close>

definition acme_store_status :: "store_status \<Rightarrow> shop_db \<Rightarrow> shop_db" where
  "acme_store_status st d = snd (WithTx acme_txn (set_store_status_tx example_env acme_stores_service 100 acme_meta acme_ana 1 5 st) d)"

definition acme_reopened :: shop_db where
  "acme_reopened =
     (let d = acme_shop\<lparr>sh_trade := (sh_trade acme_shop)\<lparr>db_store_payment_methods := [acme_offer 2 20, acme_offer 5 21]\<rparr>\<rparr>;
          d1 = acme_store_status StoreINACTIVE d;
          d2 = snd (WithTx acme_txn (set_method_status_tx example_env acme_stores_service 100 acme_meta acme_ana 1 21 False) d1)
      in acme_store_status StoreACTIVE d2)"

lemma active_without_method:
  "active_store 1 5 acme_reopened" "CountOperationalPaymentMethodsForStore 1 5 acme_reopened = 0"
  by code_simp+

text \<open>
  A store cannot drop its binding to a method that the organization deactivated while it has one
  operational method: the binding is active but not operational, and still counted as the last.
\<close>

lemma dead_binding_kept:
  "fst (WithTx acme_txn (update_binding_tx example_env acme_stores_service 100 acme_meta acme_ana 1 2 21
      \<lparr>USM_IsActive = Some False, USM_SortOrder = None\<rparr>)
      (acme_shop\<lparr>sh_trade := (sh_trade acme_shop)\<lparr>db_payment_methods := [example_method, acme_card\<lparr>Method_IsActive := False\<rparr>]\<rparr>\<rparr>)) =
    Inl (Sentinel Stores_ErrLastOperationalPaymentMethod)"
  by code_simp

end
