(* ===== verification/Spec2Isabelle.thy ===== *)
theory Spec2Isabelle
  imports Money_Properties Sales_Properties Stock_Properties Checkout_Properties System_Properties
    Sessions_Properties Access_Properties Token_Properties Store_Properties
begin

text \<open>
  The backend of a point of sale (\<open>src/backend\<close>, in Go): sales with items, stock with a
  ledger of movements, the checkout that closes a sale against payments, and the fiscal
  document of every closed sale; the sessions with rotating refresh tokens under which the
  requests run; the roles, bindings and memberships that say what a session may do; and the access
  tokens that carry this to a request and the middleware that checks them; the stores of an
  organization and the payment methods they offer. Requests of many stores
  and organizations run against one PostgreSQL database; a request is an actor's call of a service operation, the operation
  validates its input, runs statements in a transaction, and maps rows or an error to the
  response.

  Parts and theories:

  \<^item> \<open>Prelude\<close>: errors as values (\<open>go_error\<close> with its wrapping, \<open>errors.Is\<close>, \<open>errors.As\<close>), the
    sequencing of fallible steps (\<open>chain\<close>), and the reading, updating and deleting of rows.
  \<^item> \<open>Go_Strings\<close>, \<open>Decimal\<close>, \<open>Validation\<close>: the string functions of the standard library,
    decimal numbers (\<open>pgtype.Numeric\<close> with a big integer and an exponent, and the rounding of
    \<open>sales/mapper.go\<close>), and the parsers of \<open>sales/validation.go\<close>. \<open>Printing\<close> relates the
    printers to the parsers.
  \<^item> \<open>Database\<close>, \<open>Tables\<close>: the rows of the tables (money in cents, quantities in thousandths, as
    \<open>NUMERIC(15,2)\<close> and \<open>NUMERIC(15,3)\<close> hold them), the constraints and status triggers of the
    migrations, the conversions of parameters to columns, tenancy scopes, and \<open>WithTx\<close>;
    the locale \<open>row_table\<close> states what a table with a key promises and is interpreted for each.
  \<^item> \<open>Sales_Queries\<close>, \<open>Inventory_Queries\<close>, \<open>Payment_Queries\<close>, \<open>Fiscal_Queries\<close>: the statements
    of \<open>platform/database/*.sql.go\<close>, each a function from parameters and tables to rows and
    new tables or an error.
  \<^item> \<open>Sales\<close>, \<open>Inventory\<close>, \<open>Fiscal\<close>, \<open>Checkout_Validation\<close>, \<open>Checkout\<close>: the service operations
    of the packages of these names, the whole function each, with the HTTP answers of their
    errors. \<open>Fiscal_Provider\<close> and \<open>Sha256\<close> are the mock provider, whose access key is a hash, and the
    locale of what a provider promises.
  \<^item> \<open>Sales_Invariant\<close>, \<open>Sales_Operations\<close>: every sales command keeps the invariant of the
    sales tables. \<open>Inventory_Ledger\<close>: the locale \<open>stock_ledger\<close> of balances and movements,
    interpreted on the statements of the stock, and what the inventory service keeps of it.
    \<open>Checkout_Stock\<close>, \<open>Checkout_Payments\<close>, \<open>Settlement\<close>: the three parts of the checkout
    transaction and the invariant of the whole database. \<open>System\<close>: every request as a step,
    and the databases any sequence of requests reaches. \<open>Isolation\<close>: what a request leaves alone.
  \<^item> \<open>Sales_Behaviour\<close>, \<open>Stock_Behaviour\<close>, \<open>Checkout_Behaviour\<close>: what the operations do and
    answer, on success and on refusal. \<open>Example_Env\<close>, \<open>Example\<close>: a concrete environment and a
    small store, on which every property with a hypothesis is applied.
  \<^item> \<open>Auth_Database\<close>, \<open>Session_Queries\<close>: the tables of identity and access with their
    constraints and triggers, and the statements of \<open>sessions.sql.go\<close> and \<open>audit.sql.go\<close>.
    \<open>Base64\<close>, \<open>Uuid_Text\<close>, \<open>Refresh_Token\<close>: the opaque token and its codec. \<open>Sessions\<close>: the
    operations of \<open>internal/sessions\<close>. \<open>Sessions_Invariant\<close> (how rows may change, the invariant, what
    each statement and operation keeps) and \<open>Sessions_Behaviour\<close> (the step relation, with the
    other services as steps that may switch or end sessions, what a rotation, a reuse
    and a revocation leave behind, and what it takes for a reuse to be recorded).
  \<^item> \<open>Access_Queries\<close>: the statements of \<open>roles.sql.go\<close>, \<open>memberships.sql.go\<close> and those of
    \<open>organizations.sql.go\<close> and \<open>stores.sql.go\<close> that these services run, with constraints and triggers.
    \<open>Principal\<close>: the principal of a request (\<open>platform/authcontext\<close>) and the guards of
    \<open>platform/authz\<close>. \<open>Roles\<close>, \<open>Memberships\<close>: the operations of the packages of these names.
    \<open>Access_Invariant\<close> classifies how a transaction may change the access tables, and every
    operation is shown to be such a change; \<open>Access_Behaviour\<close> has the step relation and what every
    step keeps (owners, system roles, well-formedness, the scopes a member holds and the versions that
    tell a token is stale); \<open>Access_Leaving\<close> is about the sessions of a member that leaves.
  \<^item> \<open>Access_Token\<close>: the claims, signer and validator of \<open>platform/token/jwt\<close>. \<open>Authn\<close>: the
    middleware of \<open>platform/authn\<close> with its session cache, the checks of a session and the
    principal. \<open>Auth_Context\<close>: the part of \<open>internal/auth\<close> that resolves and switches contexts, issues
    tokens, refreshes and logs out. \<open>Token_Behaviour\<close>: versions only grow along the steps of all
    services, equal versions mean equal scopes, and an accepted request carries what was signed. The end
    of a binding is a matter of the clock and raises no version: \<open>Token_Properties\<close> states what a
    token carries then.
  \<^item> \<open>Store_Queries\<close>, \<open>Stores\<close>: the statements of \<open>stores.sql.go\<close> and \<open>payment_methods.sql.go\<close> and the
    operations of \<open>internal/stores\<close>, on both halves of the database (\<open>shop_db\<close>).
    \<open>Store_Behaviour\<close>: what every operation keeps (an active store, an active method, an operational
    method of every active store), the paged loop over the stores against its specification, and the
    step relation.
  \<^item> \<open>Money_Properties\<close>, \<open>Sales_Properties\<close>, \<open>Stock_Properties\<close>, \<open>Checkout_Properties\<close>,
    \<open>System_Properties\<close>, \<open>Sessions_Properties\<close>, \<open>Access_Properties\<close>, \<open>Token_Properties\<close> and
    \<open>Store_Properties\<close> hold the properties.

  Parameters of the model: the record \<open>env\<close> holds the functions of the libraries and of PostgreSQL
  that the code calls and that are not in the repository: the text form of identifiers and its
  parser, \<open>uuidv7()\<close>, the parser and printer of \<open>pgtype.Numeric\<close>, case mapping outside ASCII,
  \<open>ILIKE\<close> and the order of the collation. Where a property relies on them, \<open>uuid_law\<close>, \<open>scan_law\<close> and \<open>value_law\<close> state
  their documented behaviour, and \<open>Example_Env\<close> shows functions that satisfy them. A fiscal provider is
  a parameter of the operations that call one. The JWT library is the record \<open>jwt_library\<close> of signing and
  parsing; \<open>jwt_law\<close> says that a signed token that parses gives back the header and claims that were signed.

  Transactions: \<open>NOW()\<close> is the time a transaction began; a failed body, begin or commit leaves
  the tables as they were. The statements of one transaction run without interleaving: the
  services lock the sale row first and update balances in one statement each, so the steps
  of \<open>System\<close> are whole transactions. The checkout is two transactions and so two steps.

  Bounds: the model has no fuel. Loops over lists are structural recursion; the digit loop of
  \<open>intToString\<close>, the loop over the pages of active stores (its 32 bit offset ends in a refused query when it wraps) and the loops of the string functions are functions with termination proofs. Go's
  \<open>int\<close>, \<open>int32\<close> and \<open>int16\<close> wrap where the code converts; money is a big integer in the code too.

  Not modelled: the HTTP handlers and routes (decoding of requests and writing of responses,
  but the status of every service error is), failures of the connection in a read, the packages of
  products, categories, catalog, receipt, payments, organizations, invitations,
  users and audit (but for the insertion of events); of \<open>internal/auth\<close> registration, login with a
  password, mails and profile; loading the keyring; and the configuration and start of the program.
\<close>

end
